(* ===== verification/Coordination.thy ===== *)
theory Coordination
  imports Prelude
begin

section \<open>Coordination types\<close>

text \<open>
  The data model of \<^verbatim>\<open>src/crates/stateful-core/src/coordination.rs\<close> and
  \<^verbatim>\<open>src/crates/stateful-core/src/types.rs\<close>: task, lease, read-attempt and write-attempt
  states with their transition tables, the coordination settings and their validation, resource
  keys and observations, mutation operations.

  The transition tables (\<open>LeaseState::can_transition_to\<close> and its siblings) share one contract,
  the locale \<open>lifecycle\<close>: a terminal state has no successor. Its lemma says that nothing is
  reachable from a terminal state but that state; it is interpreted for the three tables.
\<close>

subsection \<open>Tasks and settings\<close>

datatype task_status = Active | Draining | Completed | Failed | Cancelled

definition task_is_terminal :: "task_status \<Rightarrow> bool" where
  "task_is_terminal s = (s \<in> {Completed, Failed, Cancelled})"

record coordination_settings =
  heartbeat_interval_seconds :: nat
  inactivity_timeout_seconds :: nat
  lease_expiry_seconds :: nat
  offer_ttl_seconds :: nat

definition default_settings :: coordination_settings where
  "default_settings =
     \<lparr>heartbeat_interval_seconds = 1, inactivity_timeout_seconds = 5,
      lease_expiry_seconds = 60, offer_ttl_seconds = 120\<rparr>"

definition validate_settings :: "coordination_settings \<Rightarrow> string + unit" where
  "validate_settings s =
     (if heartbeat_interval_seconds s = 0 \<or> inactivity_timeout_seconds s = 0
         \<or> lease_expiry_seconds s = 0 \<or> offer_ttl_seconds s = 0
      then Inl ''coordination settings must be positive''
      else let inactivity_third = inactivity_timeout_seconds s div 3 in
        if heartbeat_interval_seconds s > inactivity_third
           \<or> inactivity_third \<ge> lease_expiry_seconds s
        then Inl ''heartbeat must be at most one third of inactivity timeout, below lease expiry''
        else Inr ())"

subsection \<open>Resources and observations\<close>

datatype resource_kind = Object | Entry | DirectoryTree

text \<open>\<open>#[derive(PartialOrd, Ord)]\<close> orders the variants as they are declared.\<close>

fun kind_rank :: "resource_kind \<Rightarrow> nat" where
  "kind_rank Object = 0"
| "kind_rank Entry = 1"
| "kind_rank DirectoryTree = 2"

lemma kind_rank_inject [simp]: "kind_rank a = kind_rank b \<longleftrightarrow> a = b"
  by (cases a; cases b) simp_all

instantiation resource_kind :: linorder
begin

definition less_eq_resource_kind :: "resource_kind \<Rightarrow> resource_kind \<Rightarrow> bool" where
  "less_eq_resource_kind a b \<longleftrightarrow> kind_rank a \<le> kind_rank b"

definition less_resource_kind :: "resource_kind \<Rightarrow> resource_kind \<Rightarrow> bool" where
  "less_resource_kind a b \<longleftrightarrow> kind_rank a < kind_rank b"

instance
  by standard (auto simp: less_eq_resource_kind_def less_resource_kind_def)

end

record resource_key =
  rk_workspace_id :: string
  rk_kind :: resource_kind
  rk_resource_id :: string
  rk_canonical_path :: string

text \<open>The derived \<open>Ord\<close> of \<open>ResourceKey\<close>: lexicographic in the order of the fields.\<close>

definition rk_ord :: "resource_key \<Rightarrow> string \<times> resource_kind \<times> string \<times> string" where
  "rk_ord r = (rk_workspace_id r, rk_kind r, rk_resource_id r, rk_canonical_path r)"

text \<open>What identifies a physical resource: everything but the path it was reached by.\<close>

definition rk_identity :: "resource_key \<Rightarrow> string \<times> resource_kind \<times> string" where
  "rk_identity r = (rk_workspace_id r, rk_kind r, rk_resource_id r)"

lemma rk_ord_inject [simp]: "rk_ord a = rk_ord b \<longleftrightarrow> a = b"
  by (cases a; cases b) (simp add: rk_ord_def)

datatype digest_algorithm = Blake3

record content_digest =
  cd_algorithm :: digest_algorithm
  cd_value :: string

datatype object_kind = RegularFile | Directory | Symlink

datatype object_state =
    ObjectAbsent
  | ObjectPresent object_kind content_digest nat

datatype entry_state =
    EntryAbsent
  | EntryPresent object_kind nat nat "bool option"

datatype directory_tree_state =
    TreeAbsent
  | TreePresent nat nat content_digest nat

datatype resource_observation =
    ObjectObs resource_key object_state nat
  | EntryObs resource_key entry_state nat
  | TreeObs resource_key directory_tree_state nat

fun obs_resource :: "resource_observation \<Rightarrow> resource_key" where
  "obs_resource (ObjectObs r _ _) = r"
| "obs_resource (EntryObs r _ _) = r"
| "obs_resource (TreeObs r _ _) = r"

fun obs_generation :: "resource_observation \<Rightarrow> nat" where
  "obs_generation (ObjectObs _ _ g) = g"
| "obs_generation (EntryObs _ _ g) = g"
| "obs_generation (TreeObs _ _ g) = g"

fun has_matching_resource_kind :: "resource_observation \<Rightarrow> bool" where
  "has_matching_resource_kind (ObjectObs r _ _) = (rk_kind r = Object)"
| "has_matching_resource_kind (EntryObs r _ _) = (rk_kind r = Entry)"
| "has_matching_resource_kind (TreeObs r _ _) = (rk_kind r = DirectoryTree)"

subsection \<open>Lifecycles\<close>

datatype lease_state =
  LQueued | LOffered | LActive | LDraining | LReleased | LExpired | LCancelled | LSuperseded

definition lease_is_terminal :: "lease_state \<Rightarrow> bool" where
  "lease_is_terminal s = (s \<in> {LReleased, LExpired, LCancelled, LSuperseded})"

fun lease_can_transition_to :: "lease_state \<Rightarrow> lease_state \<Rightarrow> bool" where
  "lease_can_transition_to LQueued n = (n \<in> {LOffered, LCancelled, LExpired, LSuperseded})"
| "lease_can_transition_to LOffered n = (n \<in> {LActive, LQueued, LCancelled, LExpired, LSuperseded})"
| "lease_can_transition_to LActive n = (n \<in> {LDraining, LReleased, LExpired, LCancelled})"
| "lease_can_transition_to LDraining n = (n \<in> {LReleased, LExpired})"
| "lease_can_transition_to LReleased n = False"
| "lease_can_transition_to LExpired n = False"
| "lease_can_transition_to LCancelled n = False"
| "lease_can_transition_to LSuperseded n = False"

datatype read_attempt_status = RStarted | RCompleted | RFailed | RExpired

definition read_can_transition_to :: "read_attempt_status \<Rightarrow> read_attempt_status \<Rightarrow> bool" where
  "read_can_transition_to s n = (s = RStarted \<and> n \<in> {RCompleted, RFailed, RExpired})"

datatype write_attempt_status =
  Prepared | InFlight | Succeeded | FailedClean | FailedUnknown | Partial

definition write_is_terminal :: "write_attempt_status \<Rightarrow> bool" where
  "write_is_terminal s = (s \<in> {Succeeded, FailedClean, FailedUnknown, Partial})"

fun write_can_transition_to :: "write_attempt_status \<Rightarrow> write_attempt_status \<Rightarrow> bool" where
  "write_can_transition_to Prepared n = (n \<in> {InFlight, FailedClean})"
| "write_can_transition_to InFlight n = write_is_terminal n"
| "write_can_transition_to Succeeded n = False"
| "write_can_transition_to FailedClean n = False"
| "write_can_transition_to FailedUnknown n = False"
| "write_can_transition_to Partial n = False"

locale lifecycle =
  fixes next_state :: "'s \<Rightarrow> 's \<Rightarrow> bool" and terminal :: "'s \<Rightarrow> bool"
  assumes terminal_stuck: "terminal s \<Longrightarrow> \<not> next_state s t"
    and live_moves: "\<not> terminal s \<Longrightarrow> \<exists>t. next_state s t \<and> terminal t"
begin

lemma terminal_final: "next_state\<^sup>*\<^sup>* s t \<Longrightarrow> terminal s \<Longrightarrow> t = s"
  by (induction rule: converse_rtranclp_induct) (auto dest: terminal_stuck)

lemma terminal_iff_no_successor: "terminal s \<longleftrightarrow> (\<forall>t. \<not> next_state s t)"
  using terminal_stuck live_moves by blast

lemma reaches_terminal: "\<exists>t. next_state\<^sup>*\<^sup>* s t \<and> terminal t"
  using live_moves [of s] by (cases "terminal s") auto

end

interpretation lease_life: lifecycle lease_can_transition_to lease_is_terminal
proof unfold_locales
  show "lease_is_terminal s \<Longrightarrow> \<not> lease_can_transition_to s t" for s t
    by (cases s) (simp_all add: lease_is_terminal_def)
  show "\<exists>t. lease_can_transition_to s t \<and> lease_is_terminal t" if "\<not> lease_is_terminal s" for s
    using that by (cases s) (auto simp: lease_is_terminal_def)
qed

interpretation read_life: lifecycle read_can_transition_to "\<lambda>s. s \<noteq> RStarted"
  by unfold_locales (auto simp: read_can_transition_to_def)

interpretation write_life: lifecycle write_can_transition_to write_is_terminal
proof unfold_locales
  show "write_is_terminal s \<Longrightarrow> \<not> write_can_transition_to s t" for s t
    by (cases s) (simp_all add: write_is_terminal_def)
  show "\<exists>t. write_can_transition_to s t \<and> write_is_terminal t" if "\<not> write_is_terminal s" for s
    using that by (cases s) (auto simp: write_is_terminal_def)
qed

subsection \<open>Read evidence and operations\<close>

record read_evidence =
  re_evidence_id :: string
  re_read_id :: string
  re_task_id :: string
  re_resources :: "resource_observation list"
  re_complete :: bool
  re_stable :: bool
  re_exact :: bool
  re_valid :: bool
  re_recorded_at :: string
  re_expires_at :: string

definition authorizes_write :: "read_evidence \<Rightarrow> bool" where
  "authorizes_write e = (re_complete e \<and> re_stable e \<and> re_exact e \<and> re_valid e)"

datatype mutation_operation =
    Create string
  | Update string
  | Delete string bool
  | Rename string string bool
  | Move string string bool
  | Hardlink string string
  | Mkdir string
  | Rmdir string
  | WriteDirectory string
  | StructuredCommit "string list"

fun kind_name :: "mutation_operation \<Rightarrow> string" where
  "kind_name (Create _) = ''create''"
| "kind_name (Update _) = ''update''"
| "kind_name (Delete _ _) = ''delete''"
| "kind_name (Rename _ _ _) = ''rename''"
| "kind_name (Move _ _ _) = ''move''"
| "kind_name (Hardlink _ _) = ''hardlink''"
| "kind_name (Mkdir _) = ''mkdir''"
| "kind_name (Rmdir _) = ''rmdir''"
| "kind_name (WriteDirectory _) = ''write_directory''"
| "kind_name (StructuredCommit _) = ''structured_commit''"



end
