(* ===== verification/Paths.thy ===== *)
theory Paths
  imports Prelude "HOL-Library.Sublist"
begin

section \<open>Workspace paths\<close>

text \<open>
  The path functions of \<^verbatim>\<open>src/crates/stateful-core/src/path.rs\<close> and the path part of
  \<^verbatim>\<open>src/crates/stateful-core/src/resource.rs\<close>: the lenient \<open>normalize_relative_path\<close>, the
  strict \<open>validated_relative_path\<close> that rejects every path leaving the workspace, and
  \<open>path_contains\<close>, the textual ancestor test of resource overlap.

  \<open>Path::components\<close> is the Unix behaviour of Rust's standard library; a relative \<open>PathBuf\<close>
  built by \<open>push\<close> and \<open>pop\<close> is the list of its segments. The theorems say that the strict
  function only produces clean segments, agrees with the lenient one where it succeeds, is
  idempotent, and that the textual containment test is the component-wise ancestor relation.
\<close>

subsection \<open>Definitions\<close>

fun split_on :: "char \<Rightarrow> string \<Rightarrow> string list" where
  "split_on c [] = [[]]"
| "split_on c (x # xs) =
     (if x = c then [] # split_on c xs
      else case split_on c xs of [] \<Rightarrow> [[x]] | s # ss \<Rightarrow> (x # s) # ss)"

fun join_path :: "string list \<Rightarrow> string" where
  "join_path [] = []"
| "join_path [s] = s"
| "join_path (s # t # ts) = s @ ''/'' @ join_path (t # ts)"

definition portable :: "string \<Rightarrow> string" where
  "portable p = map (\<lambda>c. if c = CHR 0x5C then CHR ''/'' else c) p"

definition push_segment :: "string list \<Rightarrow> string \<Rightarrow> string list" where
  "push_segment segments segment =
     (if segment = ''..'' then butlast segments else segments @ [segment])"

definition normalize_relative_path :: "string \<Rightarrow> string" where
  "normalize_relative_path p =
     join_path (foldl push_segment []
       (filter (\<lambda>s. s \<noteq> [] \<and> s \<noteq> ''.'') (split_on (CHR ''/'') (portable p))))"

definition normalize_directory_path :: "string \<Rightarrow> string" where
  "normalize_directory_path p =
     (let normalized = normalize_relative_path p in
      if normalized = [] then normalized else normalized @ ''/'')"

definition normalized_relative_path_is_empty :: "string \<Rightarrow> bool" where
  "normalized_relative_path_is_empty p = (normalize_relative_path (trim p) = [])"

datatype path_component = Normal string | CurDir | ParentDir | RootDir

definition components :: "string \<Rightarrow> path_component list" where
  "components p =
     (let segments = split_on (CHR ''/'') p;
          start = (if p \<noteq> [] \<and> hd p = CHR ''/'' then [RootDir]
                   else if hd segments = ''.'' then [CurDir] else [])
      in start @ map (\<lambda>s. if s = ''..'' then ParentDir else Normal s)
                   (filter (\<lambda>s. s \<noteq> [] \<and> s \<noteq> ''.'') segments))"

fun push_component :: "path_component \<Rightarrow> string list \<Rightarrow> unit + string list" where
  "push_component (Normal segment) normalized = Inr (normalized @ [segment])"
| "push_component CurDir normalized = Inr normalized"
| "push_component ParentDir normalized =
     (if normalized = [] then Inl () else Inr (butlast normalized))"
| "push_component RootDir normalized = Inl ()"

definition validated_relative_path :: "string \<Rightarrow> unit + string list" where
  "validated_relative_path p =
     bindE (foldE push_component (components (portable p)) [])
       (\<lambda>normalized. if normalized = [] then Inl () else Inr normalized)"

definition operation_path :: "string \<Rightarrow> unit + string" where
  "operation_path p = bindE (validated_relative_path p) (\<lambda>segments. Inr (join_path segments))"

definition strip_prefix :: "string \<Rightarrow> string \<Rightarrow> string option" where
  "strip_prefix pre s = (if take (length pre) s = pre then Some (drop (length pre) s) else None)"

definition path_contains :: "string \<Rightarrow> string \<Rightarrow> bool" where
  "path_contains directory path =
     (directory = [] \<or>
      (case strip_prefix directory path of
         None \<Rightarrow> False
       | Some rest \<Rightarrow> rest \<noteq> [] \<and> hd rest = CHR ''/''))"

subsection \<open>Segments\<close>

text \<open>A clean segment is one a normalised path may contain.\<close>

definition clean_segment :: "string \<Rightarrow> bool" where
  "clean_segment s = (s \<noteq> [] \<and> s \<noteq> ''.'' \<and> s \<noteq> ''..'' \<and> CHR ''/'' \<notin> set s \<and> CHR 0x5C \<notin> set s)"

lemma split_on_Nil [simp]: "split_on c s \<noteq> []"
  by (induction s) (auto split: list.splits)

lemma split_on_no_sep: "c \<notin> set s \<Longrightarrow> split_on c s = [s]"
  by (induction s) auto

lemma split_on_segment: "s \<in> set (split_on c p) \<Longrightarrow> c \<notin> set s \<and> set s \<subseteq> set p"
proof (induction p arbitrary: s)
  case (Cons x p)
  obtain t ts where t: "split_on c p = t # ts" by (cases "split_on c p") auto
  have "c \<notin> set u \<and> set u \<subseteq> set p" if "u \<in> set (t # ts)" for u
    using Cons.IH that t by simp
  with Cons.prems t show ?case by (fastforce split: if_splits)
qed simp

lemma split_on_append_sep:
  "c \<notin> set s \<Longrightarrow> split_on c (s @ c # rest) = s # split_on c rest"
  by (induction s) auto

lemma split_join:
  assumes "segs \<noteq> []" and "\<forall>s \<in> set segs. CHR ''/'' \<notin> set s"
  shows "split_on (CHR ''/'') (join_path segs) = segs"
  using assms
  by (induction segs rule: join_path.induct) (auto simp: split_on_no_sep split_on_append_sep)

lemma portable_segments: "CHR 0x5C \<notin> set (portable p)"
  by (auto simp: portable_def)

lemma portable_id: "CHR 0x5C \<notin> set p \<Longrightarrow> portable p = p"
  by (auto simp: portable_def intro: map_idI)

lemma set_join_path: "set (join_path segs) \<subseteq> (\<Union>s \<in> set segs. set s) \<union> {CHR ''/''}"
  by (induction segs rule: join_path.induct) auto

lemma portable_join:
  assumes "\<forall>s \<in> set segs. clean_segment s"
  shows "portable (join_path segs) = join_path segs"
proof (rule portable_id)
  show "CHR 0x5C \<notin> set (join_path segs)"
    using set_join_path [of segs] assms by (auto simp: clean_segment_def)
qed

lemma filter_clean: "\<forall>s \<in> set segs. clean_segment s \<Longrightarrow>
    filter (\<lambda>s. s \<noteq> [] \<and> s \<noteq> ''.'') segs = segs"
  by (auto simp: clean_segment_def filter_id_conv)

lemma foldl_push_clean: "\<forall>s \<in> set segs. clean_segment s \<Longrightarrow> foldl push_segment acc segs = acc @ segs"
  by (induction segs arbitrary: acc) (auto simp: push_segment_def clean_segment_def)

lemma split_clean_join:
  assumes "\<forall>s \<in> set segs. clean_segment s"
  shows "filter (\<lambda>s. s \<noteq> [] \<and> s \<noteq> ''.'') (split_on (CHR ''/'') (join_path segs)) = segs"
proof (cases "segs = []")
  case False
  with assms have "split_on (CHR ''/'') (join_path segs) = segs"
    by (intro split_join) (auto simp: clean_segment_def)
  then show ?thesis using assms by (simp add: filter_clean)
qed simp

lemma normalize_join_clean:
  "\<forall>s \<in> set segs. clean_segment s \<Longrightarrow> normalize_relative_path (join_path segs) = join_path segs"
  by (simp add: normalize_relative_path_def portable_join split_clean_join foldl_push_clean)

lemma raw_segment_clean:
  assumes "s \<in> set (filter (\<lambda>s. s \<noteq> [] \<and> s \<noteq> ''.'') (split_on (CHR ''/'') (portable p)))"
    and "s \<noteq> ''..''"
  shows "clean_segment s"
proof -
  have "CHR ''/'' \<notin> set s" "set s \<subseteq> set (portable p)"
    using assms(1) split_on_segment [of s "CHR ''/''" "portable p"] by auto
  then show ?thesis using assms portable_segments [of p] by (auto simp: clean_segment_def)
qed

lemma foldl_push_all_clean:
  assumes "\<forall>s \<in> set segs. s \<noteq> ''..'' \<longrightarrow> clean_segment s" and "\<forall>s \<in> set acc. clean_segment s"
  shows "\<forall>s \<in> set (foldl push_segment acc segs). clean_segment s"
  using assms
proof (induction segs arbitrary: acc)
  case (Cons x segs)
  have "\<forall>s \<in> set (push_segment acc x). clean_segment s"
    using Cons.prems by (auto simp: push_segment_def dest: in_set_butlastD)
  with Cons show ?case by simp
qed simp

lemma normalize_clean:
  "\<exists>segs. normalize_relative_path p = join_path segs \<and> (\<forall>s \<in> set segs. clean_segment s)"
  unfolding normalize_relative_path_def
  using foldl_push_all_clean [of _ "[]"] raw_segment_clean by fastforce

subsection \<open>The strict function\<close>

lemma push_components_foldl:
  assumes "foldE push_component
      (map (\<lambda>s. if s = ''..'' then ParentDir else Normal s) segs) acc = Inr out"
  shows "out = foldl push_segment acc segs"
  using assms by (induction segs arbitrary: acc)
    (auto simp: push_segment_def split: if_splits)

lemma validated_foldl:
  assumes "validated_relative_path p = Inr segs"
  shows "segs = foldl push_segment []
      (filter (\<lambda>s. s \<noteq> [] \<and> s \<noteq> ''.'') (split_on (CHR ''/'') (portable p)))"
    and "segs \<noteq> []"
  using assms unfolding validated_relative_path_def components_def Let_def
  by (auto simp: foldE_append split: if_splits dest!: push_components_foldl)

lemma validated_clean: "validated_relative_path p = Inr segs \<Longrightarrow> s \<in> set segs \<Longrightarrow> clean_segment s"
  using foldl_push_all_clean [of _ "[]"] raw_segment_clean validated_foldl(1) [of p segs]
  by fastforce

lemma hd_join_path: "segs \<noteq> [] \<Longrightarrow> clean_segment (hd segs) \<Longrightarrow>
    join_path segs \<noteq> [] \<and> hd (join_path segs) = hd (hd segs)"
  by (cases segs rule: join_path.cases) (auto simp: clean_segment_def)

lemma push_components_clean:
  "\<forall>s \<in> set segs. clean_segment s \<Longrightarrow>
     foldE push_component (map (\<lambda>s. if s = ''..'' then ParentDir else Normal s) segs) acc = Inr (acc @ segs)"
  by (induction segs arbitrary: acc) (auto simp: clean_segment_def)

lemma validated_join_clean:
  assumes "segs \<noteq> []" and clean: "\<forall>s \<in> set segs. clean_segment s"
  shows "validated_relative_path (join_path segs) = Inr segs"
proof -
  have hd: "clean_segment (hd segs)" using assms by simp
  have split: "split_on (CHR ''/'') (join_path segs) = segs"
    using assms by (intro split_join) (auto simp: clean_segment_def)
  have "hd (join_path segs) \<noteq> CHR ''/''" "hd segs \<noteq> ''.''"
    using hd_join_path [OF assms(1) hd] hd by (cases "hd segs"; auto simp: clean_segment_def)+
  then have "components (join_path segs) =
      map (\<lambda>s. if s = ''..'' then ParentDir else Normal s) segs"
    using clean by (simp add: components_def split filter_clean)
  then show ?thesis
    using assms by (simp add: validated_relative_path_def portable_join push_components_clean)
qed

text \<open>
  The strict path validation never lets a path leave the workspace: what it accepts is a
  non-empty list of clean segments, none of them empty, a dot, a double dot, or containing a
  separator of either kind; and it is exactly what the lenient normalisation computes.
\<close>

theorem validated_path_stays_inside:
  assumes "validated_relative_path p = Inr segs"
  shows "segs \<noteq> [] \<and> (\<forall>s \<in> set segs. clean_segment s) \<and> join_path segs = normalize_relative_path p"
proof (intro conjI ballI)
  show "segs \<noteq> []" using validated_foldl(2) [OF assms] .
  show "clean_segment s" if "s \<in> set segs" for s using validated_clean [OF assms that] .
  show "join_path segs = normalize_relative_path p"
    unfolding normalize_relative_path_def validated_foldl(1) [OF assms, symmetric] ..
qed

theorem validated_path_stays_inside_witness:
  "join_path [''src'', ''lib''] = normalize_relative_path ''./src/x/../lib/''"
proof -
  have "validated_relative_path ''./src/x/../lib/'' = Inr [''src'', ''lib'']"
    by (simp add: validated_relative_path_def components_def portable_def Let_def)
  from validated_path_stays_inside [OF this] show ?thesis by blast
qed

text \<open>
  Normalisation is idempotent: the lenient function is a projection, and the strict one
  accepts its own result and returns it unchanged.
\<close>

theorem path_normalisation_idempotent:
  "normalize_relative_path (normalize_relative_path p) = normalize_relative_path p
   \<and> (\<forall>q. operation_path p = Inr q \<longrightarrow> operation_path q = Inr q)"
proof (intro conjI allI impI)
  obtain segs where "normalize_relative_path p = join_path segs" "\<forall>s \<in> set segs. clean_segment s"
    using normalize_clean by blast
  then show "normalize_relative_path (normalize_relative_path p) = normalize_relative_path p"
    by (simp add: normalize_join_clean)
next
  fix q assume "operation_path p = Inr q"
  then obtain segs where v: "validated_relative_path p = Inr segs" and q: "q = join_path segs"
    by (auto simp: operation_path_def)
  then have "validated_relative_path q = Inr segs"
    using validated_join_clean validated_clean [OF v] validated_foldl(2) [OF v] by blast
  then show "operation_path q = Inr q" by (simp add: operation_path_def q)
qed

theorem path_normalisation_idempotent_witness:
  "operation_path ''a/../b'' = Inr ''b'' \<and> operation_path ''b'' = Inr ''b''"
proof -
  have "operation_path ''a/../b'' = Inr ''b''"
    by (simp add: operation_path_def validated_relative_path_def components_def portable_def Let_def)
  then show ?thesis using path_normalisation_idempotent [of "''a/../b''"] by blast
qed

subsection \<open>Containment\<close>

lemma strip_prefix_Some [simp]: "strip_prefix pre s = Some t \<longleftrightarrow> s = pre @ t"
  by (auto simp: strip_prefix_def) (metis append_take_drop_id)

lemma join_path_Cons: "ts \<noteq> [] \<Longrightarrow> join_path (s # ts) = s @ ''/'' @ join_path ts"
  by (cases ts) auto

lemma join_path_append:
  "ds \<noteq> [] \<Longrightarrow> es \<noteq> [] \<Longrightarrow> join_path (ds @ es) = join_path ds @ ''/'' @ join_path es"
  by (induction ds rule: join_path.induct) (auto simp: join_path_Cons)

lemma path_contains_iff:
  "path_contains d p \<longleftrightarrow> d = [] \<or> (\<exists>t. p = d @ CHR ''/'' # t)"
  by (auto simp: path_contains_def split: option.splits)
    (metis list.collapse option.distinct(1) strip_prefix_Some)+

lemma split_on_append:
  "split_on c (a @ c # b) = split_on c a @ split_on c b"
  by (induction a) (auto split: list.splits)

text \<open>
  The textual containment test of resource overlap is the ancestor relation on path
  segments: on normalised paths, \<open>path_contains\<close> holds exactly when the directory's segments
  are a strict prefix of the path's segments. In particular a directory never contains a
  sibling whose name merely starts with the directory's name.
\<close>

theorem path_contains_is_ancestor:
  assumes "\<forall>s \<in> set ds. clean_segment s" and "\<forall>s \<in> set ps. clean_segment s" and "ds \<noteq> []" "ps \<noteq> []"
  shows "path_contains (join_path ds) (join_path ps) \<longleftrightarrow> strict_prefix ds ps"
proof
  have sd: "split_on (CHR ''/'') (join_path ds) = ds" and sp: "split_on (CHR ''/'') (join_path ps) = ps"
    using assms by (auto intro!: split_join simp: clean_segment_def)
  have "join_path ds \<noteq> []" using hd_join_path [OF assms(3)] assms(1,3) by simp
  moreover assume "path_contains (join_path ds) (join_path ps)"
  ultimately obtain t where "join_path ps = join_path ds @ CHR ''/'' # t"
    by (auto simp: path_contains_iff)
  then have "ps = ds @ split_on (CHR ''/'') t" using sp sd by (metis split_on_append)
  then show "strict_prefix ds ps" by (simp add: strict_prefix_def)
next
  assume "strict_prefix ds ps"
  then obtain es where "ps = ds @ es" "es \<noteq> []" by (auto elim: strict_prefixE')
  then show "path_contains (join_path ds) (join_path ps)"
    using assms(3) by (auto simp: path_contains_iff join_path_append)
qed

theorem path_contains_is_ancestor_witness:
  "path_contains ''src/lib'' ''src/lib/a.rs'' \<and> \<not> path_contains ''src/lib'' ''src/library''"
proof -
  have clean: "\<forall>s \<in> set [''src'', ''lib'']. clean_segment s"
    "\<forall>s \<in> set [''src'', ''lib'', ''a.rs'']. clean_segment s"
    "\<forall>s \<in> set [''src'', ''library'']. clean_segment s"
    by (simp_all add: clean_segment_def)
  show ?thesis
    using path_contains_is_ancestor [OF clean(1,2)] path_contains_is_ancestor [OF clean(1,3)]
    by (simp add: strict_prefix_def prefix_def)
qed

end
