(* ===== verification/Resources.thy ===== *)
theory Resources
  imports Coordination Paths
begin

section \<open>Resource keys: overlap and resource sets\<close>

text \<open>
  \<open>resource_keys_overlap\<close> and \<open>ResourceSet\<close> of \<^verbatim>\<open>src/crates/stateful-core/src/resource.rs\<close>.
  Overlap is the relation every lease decision of the store is made with: two keys overlap when
  they name the same physical resource, the same path, or one is a directory tree that contains
  the other. The locale \<open>conflict_relation\<close> is what the store relies on (a reflexive, symmetric
  relation); it is interpreted by \<open>resource_keys_overlap\<close>, and its lemmas lift the relation to
  resource lists, the form in which leases and requests are compared.
\<close>

definition resource_keys_overlap :: "resource_key \<Rightarrow> resource_key \<Rightarrow> bool" where
  "resource_keys_overlap left right =
     (if rk_workspace_id left \<noteq> rk_workspace_id right then False
      else if rk_kind left = rk_kind right \<and> rk_resource_id left = rk_resource_id right then True
      else if rk_canonical_path left = rk_canonical_path right then True
      else (rk_kind left = DirectoryTree
              \<and> path_contains (rk_canonical_path left) (rk_canonical_path right))
         \<or> (rk_kind right = DirectoryTree
              \<and> path_contains (rk_canonical_path right) (rk_canonical_path left)))"

text \<open>\<open>Vec::dedup_by\<close> drops an element that the predicate relates to the last one kept.\<close>

fun dedup_by :: "('a \<Rightarrow> 'a \<Rightarrow> bool) \<Rightarrow> 'a list \<Rightarrow> 'a list" where
  "dedup_by same [] = []"
| "dedup_by same [x] = [x]"
| "dedup_by same (x # y # ys) =
     (if same y x then dedup_by same (x # ys) else x # dedup_by same (y # ys))"

definition resource_set_new :: "resource_key list \<Rightarrow> resource_key list" where
  "resource_set_new resources =
     dedup_by (\<lambda>left right. rk_identity left = rk_identity right) (sort_key rk_ord resources)"

definition resource_set_overlaps :: "resource_key list \<Rightarrow> resource_key list \<Rightarrow> bool" where
  "resource_set_overlaps xs ys =
     list_ex (\<lambda>left. list_ex (\<lambda>right. resource_keys_overlap left right) ys) xs"

subsection \<open>The conflict relation\<close>

locale conflict_relation =
  fixes conflicts :: "'r \<Rightarrow> 'r \<Rightarrow> bool"
  assumes conflicts_refl: "conflicts r r"
    and conflicts_sym: "conflicts r s \<Longrightarrow> conflicts s r"
begin

definition clear_of :: "'r set \<Rightarrow> 'r set \<Rightarrow> bool" where
  "clear_of A B \<longleftrightarrow> (\<forall>a \<in> A. \<forall>b \<in> B. \<not> conflicts a b)"

lemma clear_of_sym: "clear_of A B \<Longrightarrow> clear_of B A"
  using conflicts_sym unfolding clear_of_def by blast

lemma clear_of_disjoint: "clear_of A B \<Longrightarrow> A \<inter> B = {}"
  using conflicts_refl unfolding clear_of_def by blast

lemma clear_of_mono: "clear_of A B \<Longrightarrow> A' \<subseteq> A \<Longrightarrow> B' \<subseteq> B \<Longrightarrow> clear_of A' B'"
  unfolding clear_of_def by blast

end

lemma overlap_refl: "resource_keys_overlap r r"
  by (simp add: resource_keys_overlap_def)

lemma overlap_sym: "resource_keys_overlap r s \<longleftrightarrow> resource_keys_overlap s r"
  by (auto simp: resource_keys_overlap_def)

interpretation overlap: conflict_relation resource_keys_overlap
  by unfold_locales (auto simp: overlap_refl overlap_sym)

lemma overlap_workspace: "resource_keys_overlap r s \<Longrightarrow> rk_workspace_id r = rk_workspace_id s"
  by (auto simp: resource_keys_overlap_def split: if_splits)

lemma overlap_identity: "rk_identity r = rk_identity s \<Longrightarrow> resource_keys_overlap r s"
  by (simp add: resource_keys_overlap_def rk_identity_def)

lemma resource_set_overlaps_iff:
  "resource_set_overlaps xs ys \<longleftrightarrow> \<not> overlap.clear_of (set xs) (set ys)"
  by (simp add: resource_set_overlaps_def overlap.clear_of_def list_ex_iff)

subsection \<open>Sorted, deduplicated sets\<close>

lemma set_dedup_by: "set (dedup_by same xs) \<subseteq> set xs"
  by (induction same xs rule: dedup_by.induct) auto

lemma dedup_by_hd: "xs \<noteq> [] \<Longrightarrow> dedup_by same xs \<noteq> [] \<and> hd (dedup_by same xs) = hd xs"
  by (induction same xs rule: dedup_by.induct) auto

lemma sorted_dedup_by: "sorted (map k xs) \<Longrightarrow> sorted (map k (dedup_by same xs))"
proof (induction same xs rule: dedup_by.induct)
  case (3 same x y ys)
  then show ?case using set_dedup_by [of same "y # ys"] by auto
qed auto

lemma dedup_image: "f ` set (dedup_by (\<lambda>a b. f a = f b) xs) = f ` set xs"
  by (induction "\<lambda>a b. f a = f b" xs rule: dedup_by.induct) auto

lemma dedup_sorted_distinct:
  fixes f :: "'a \<Rightarrow> 'k :: linorder"
  assumes "sorted (map f xs)"
  shows "distinct (map f (dedup_by (\<lambda>a b. f a = f b) xs))"
  using assms
proof (induction "\<lambda>a b :: 'a. f a = f b" xs rule: dedup_by.induct)
  case (3 x y ys)
  show ?case
  proof (cases "f y = f x")
    case False
    with "3.prems" have "\<forall>z \<in> set (y # ys). f z \<noteq> f x" by force
    then have "f x \<notin> f ` set (dedup_by (\<lambda>a b. f a = f b) (y # ys))"
      using dedup_image [of f "y # ys"] by auto
    with False "3" show ?thesis by simp
  qed (use "3" in simp)
qed simp_all

lemma dedup_distinct_id:
  "distinct (map f xs) \<Longrightarrow> dedup_by (\<lambda>a b. f a = f b) xs = xs"
  by (induction "\<lambda>a b. f a = f b" xs rule: dedup_by.induct) auto

lemma sorted_identity: "sorted (map rk_ord xs) \<Longrightarrow> sorted (map rk_identity xs)"
  unfolding sorted_map
  by (erule sorted_wrt_mono_rel [rotated])
    (auto simp: rk_ord_def rk_identity_def)

lemma sort_key_id: "sorted (map f xs) \<Longrightarrow> sort_key f xs = xs"
  by (simp add: sort_key_id_if_sorted)

text \<open>
  A resource set is canonical: its keys are sorted, no physical resource occurs twice, every
  physical resource of the input is present, every kept key is one of the input's, and building
  the set again changes nothing.
\<close>

theorem resource_set_canonical:
  "sorted (map rk_ord (resource_set_new xs))
   \<and> distinct (map rk_identity (resource_set_new xs))
   \<and> rk_identity ` set (resource_set_new xs) = rk_identity ` set xs
   \<and> set (resource_set_new xs) \<subseteq> set xs
   \<and> resource_set_new (resource_set_new xs) = resource_set_new xs"
proof -
  let ?same = "\<lambda>left right. rk_identity left = rk_identity right"
  let ?ys = "resource_set_new xs"
  have sorted: "sorted (map rk_ord ?ys)"
    unfolding resource_set_new_def by (rule sorted_dedup_by) simp
  have distinct: "distinct (map rk_identity ?ys)"
    unfolding resource_set_new_def by (rule dedup_sorted_distinct) (simp add: sorted_identity)
  have "rk_identity ` set ?ys = rk_identity ` set xs"
    unfolding resource_set_new_def by (simp add: dedup_image)
  moreover have "set ?ys \<subseteq> set xs"
    unfolding resource_set_new_def using set_dedup_by [of ?same "sort_key rk_ord xs"] by simp
  moreover have "resource_set_new ?ys = ?ys"
    using sorted distinct
    by (simp add: resource_set_new_def [of ?ys] sort_key_id dedup_distinct_id)
  ultimately show ?thesis using sorted distinct by blast
qed

text \<open>
  Overlap is the conflict relation the leases need: reflexive, symmetric, confined to one
  workspace, implied by sharing a physical resource or a path, and a directory tree overlaps
  everything below it.
\<close>

theorem overlap_is_conflict:
  "resource_keys_overlap r r
   \<and> resource_keys_overlap r s = resource_keys_overlap s r
   \<and> (resource_keys_overlap r s \<longrightarrow> rk_workspace_id r = rk_workspace_id s)
   \<and> (rk_identity r = rk_identity s \<longrightarrow> resource_keys_overlap r s)
   \<and> (rk_workspace_id r = rk_workspace_id s \<and> rk_kind r = DirectoryTree
        \<and> path_contains (rk_canonical_path r) (rk_canonical_path s)
      \<longrightarrow> resource_keys_overlap r s)"
proof (intro conjI impI)
  show "resource_keys_overlap r r" by (rule overlap_refl)
  show "resource_keys_overlap r s = resource_keys_overlap s r" by (rule overlap_sym)
  show "rk_workspace_id r = rk_workspace_id s" if "resource_keys_overlap r s"
    using that by (rule overlap_workspace)
  show "resource_keys_overlap r s" if "rk_identity r = rk_identity s"
    using that by (rule overlap_identity)
  show "resource_keys_overlap r s" if "rk_workspace_id r = rk_workspace_id s \<and> rk_kind r = DirectoryTree
      \<and> path_contains (rk_canonical_path r) (rk_canonical_path s)"
    using that by (simp add: resource_keys_overlap_def)
qed

theorem overlap_is_conflict_witness:
  "resource_keys_overlap
     \<lparr>rk_workspace_id = ''w'', rk_kind = DirectoryTree, rk_resource_id = ''directory:1:2'', rk_canonical_path = ''src''\<rparr>
     \<lparr>rk_workspace_id = ''w'', rk_kind = Entry, rk_resource_id = ''entry:1:2:a'', rk_canonical_path = ''src/a''\<rparr>"
  (is "resource_keys_overlap ?d ?e")
proof -
  have "path_contains (rk_canonical_path ?d) (rk_canonical_path ?e)" by code_simp
  then have "rk_workspace_id ?d = rk_workspace_id ?e \<and> rk_kind ?d = DirectoryTree
      \<and> path_contains (rk_canonical_path ?d) (rk_canonical_path ?e)" by simp
  with overlap_is_conflict [of ?d ?e] show ?thesis by blast
qed

end
