(* ===== verification/Json.thy ===== *)
theory Json
  imports Coordination
begin

section \<open>Canonical JSON and its digest\<close>

text \<open>
  \<open>hash_json_value\<close> and \<open>digest_canonical_json\<close> of
  \<^verbatim>\<open>src/crates/stateful-core/src/resource.rs\<close>, and the JSON values that the \<open>Serialize\<close>
  derives of \<^verbatim>\<open>coordination.rs\<close> produce. A \<open>serde_json::Value\<close> is the datatype \<open>json\<close>: a
  number is the text \<open>Number::to_string\<close> prints, an object is the association list of its map
  (distinct keys). The hasher is fed a byte string; BLAKE3 itself is a parameter of
  \<open>digest_canonical_json\<close>.

  The result: the byte string determines the value up to the order of object keys and nothing
  else, because every length-dependent part is prefixed by its length. The locale
  \<open>prefix_code\<close> is that property of an encoder; atoms and values interpret it. It is what makes
  the idempotency check of \<open>accepted_command\<close> a comparison of payloads.
\<close>

datatype json =
    JNull
  | JBool bool
  | JNumber string
  | JString string
  | JArray "json list"
  | JObject "(string \<times> json) list"

definition be64 :: "nat \<Rightarrow> string" where
  "be64 n = map (\<lambda>i. char_of (n div 256 ^ (7 - i))) [0 ..< 8]"

definition hash_json_atom :: "char \<Rightarrow> string \<Rightarrow> string" where
  "hash_json_atom kind bytes = kind # be64 (length bytes) @ bytes"

lemma size_sorted_pairs:
  "(k, v) \<in> set kvs \<Longrightarrow> size v < Suc (size_list (size_prod size size) kvs)"
  by (induction kvs) auto

function hash_json_value :: "json \<Rightarrow> string" where
  "hash_json_value JNull = ''n''"
| "hash_json_value (JBool b) = (if b then ''b1'' else ''b0'')"
| "hash_json_value (JNumber n) = hash_json_atom (CHR ''d'') n"
| "hash_json_value (JString s) = hash_json_atom (CHR ''s'') s"
| "hash_json_value (JArray vs) = ''a'' @ be64 (length vs) @ concat (map hash_json_value vs)"
| "hash_json_value (JObject kvs) =
     ''o'' @ be64 (length kvs)
     @ concat (map (\<lambda>(k, v). hash_json_atom (CHR ''k'') k @ hash_json_value v) (sort_key fst kvs))"
  by pat_completeness auto
termination
  by (relation "measure size") (auto dest: size_sorted_pairs simp: less_Suc_eq_le size_list_estimation')

definition digest_canonical_json :: "(string \<Rightarrow> string) \<Rightarrow> json \<Rightarrow> content_digest" where
  "digest_canonical_json blake3_hex v =
     \<lparr>cd_algorithm = Blake3, cd_value = blake3_hex (hash_json_value v)\<rparr>"

subsection \<open>Prefix codes\<close>

locale prefix_code =
  fixes enc :: "'a \<Rightarrow> string" and ok :: "'a \<Rightarrow> bool" and canon :: "'a \<Rightarrow> 'c"
  assumes prefix_free: "ok x \<Longrightarrow> ok y \<Longrightarrow> enc x @ r = enc y @ s \<Longrightarrow> canon x = canon y \<and> r = s"
    and canon_enc: "canon x = canon y \<Longrightarrow> enc x = enc y"
begin

lemma enc_eq_iff: "ok x \<Longrightarrow> ok y \<Longrightarrow> enc x = enc y \<longleftrightarrow> canon x = canon y"
  by (metis canon_enc prefix_free)

lemma concat_enc_inject:
  assumes "\<forall>x \<in> set xs. ok x" "\<forall>y \<in> set ys. ok y" "\<And>x. ok x \<Longrightarrow> enc x \<noteq> []"
    and "concat (map enc xs) = concat (map enc ys)"
  shows "map canon xs = map canon ys"
  using assms(1,2,4)
proof (induction xs arbitrary: ys)
  case Nil
  then show ?case using assms(3) by (cases ys) auto
next
  case (Cons x xs)
  then obtain y zs where ys: "ys = y # zs" using assms(3) by (cases ys) auto
  with Cons.prems prefix_free [of x y "concat (map enc xs)" "concat (map enc zs)"]
  have "canon x = canon y" "concat (map enc xs) = concat (map enc zs)" by auto
  then show ?case using Cons.IH [of zs] Cons.prems(1,2) ys by simp
qed

end

lemma be64_length [simp]: "length (be64 n) = 8"
  by (simp add: be64_def)

lemma be64_nth: "j < 8 \<Longrightarrow> be64 n ! j = char_of (n div 256 ^ (7 - j))"
  unfolding be64_def by (subst nth_map) (simp_all add: nth_upt del: upt_rec_numeral)

lemma be64_inject:
  assumes "be64 a = be64 b" and "a < 2 ^ 64" "b < 2 ^ 64"
  shows "a = b"
proof -
  have digit: "(a div 256 ^ i) mod 256 = (b div 256 ^ i) mod 256" if "i < 8" for i
  proof -
    have "7 - (7 - i) = i" using that by simp
    then have "(char_of (a div 256 ^ i) :: char) = char_of (b div 256 ^ i)"
      using arg_cong [OF assms(1), of "\<lambda>xs. xs ! (7 - i)"] by (simp add: be64_nth)
    then have "of_char (char_of (a div 256 ^ i) :: char) = (of_char (char_of (b div 256 ^ i) :: char) :: nat)"
      using that by simp
    then show ?thesis by simp
  qed
  have "a div 256 ^ (8 - n) = b div 256 ^ (8 - n)" if "n \<le> 8" for n
    using that
  proof (induction n)
    case 0
    then show ?case using assms(2,3) by simp
  next
    case (Suc n)
    define k where "k = 8 - Suc n"
    have k: "8 - n = Suc k" "k < 8" using Suc.prems by (auto simp: k_def)
    have step: "x div 256 ^ k = 256 * (x div 256 ^ Suc k) + (x div 256 ^ k) mod 256" for x :: nat
      using mult_div_mod_eq [of 256 "x div 256 ^ k"] by (simp only: power_Suc2 div_mult2_eq)
    have "a div 256 ^ Suc k = b div 256 ^ Suc k" using Suc k(1) by simp
    then have "a div 256 ^ k = b div 256 ^ k"
      using digit [OF k(2)] by (subst (1 2) step) (simp only:)
    then show ?case by (simp only: k_def)
  qed
  from this [of 8] show ?thesis by simp
qed

lemma be64_prefix:
  "be64 a @ r = be64 b @ s \<Longrightarrow> a < 2 ^ 64 \<Longrightarrow> b < 2 ^ 64 \<Longrightarrow> a = b \<and> r = s"
  using be64_inject by auto

lemma atom_prefix:
  assumes "hash_json_atom k x @ r = hash_json_atom k y @ s" "length x < 2 ^ 64" "length y < 2 ^ 64"
  shows "x = y \<and> r = s"
proof -
  from assms(1) have "be64 (length x) @ x @ r = be64 (length y) @ y @ s"
    by (simp add: hash_json_atom_def)
  from be64_prefix [OF this assms(2,3)] show ?thesis by (metis append_eq_append_conv)
qed

interpretation atom_code: prefix_code "hash_json_atom k" "\<lambda>x. length x < 2 ^ 64" "\<lambda>x. x"
  by unfold_locales (use atom_prefix in blast)+

subsection \<open>Values are a prefix code\<close>

function json_ok :: "json \<Rightarrow> bool" where
  "json_ok JNull = True"
| "json_ok (JBool b) = True"
| "json_ok (JNumber n) = (length n < 2 ^ 64)"
| "json_ok (JString s) = (length s < 2 ^ 64)"
| "json_ok (JArray vs) = (length vs < 2 ^ 64 \<and> (\<forall>v \<in> set vs. json_ok v))"
| "json_ok (JObject kvs) =
     (length kvs < 2 ^ 64 \<and> (\<forall>(k, v) \<in> set kvs. length k < 2 ^ 64 \<and> json_ok v))"
  by pat_completeness auto
termination
  by (relation "measure size") (auto dest: size_sorted_pairs simp: less_Suc_eq_le size_list_estimation')

text \<open>The canonical form sorts the keys of every object.\<close>

function canon_json :: "json \<Rightarrow> json" where
  "canon_json JNull = JNull"
| "canon_json (JBool b) = JBool b"
| "canon_json (JNumber n) = JNumber n"
| "canon_json (JString s) = JString s"
| "canon_json (JArray vs) = JArray (map canon_json vs)"
| "canon_json (JObject kvs) = JObject (map (\<lambda>(k, v). (k, canon_json v)) (sort_key fst kvs))"
  by pat_completeness auto
termination
  by (relation "measure size") (auto dest: size_sorted_pairs simp: less_Suc_eq_le size_list_estimation')

lemma concat_prefix:
  assumes "length xs = length ys"
    and "\<And>x y r s. x \<in> set xs \<Longrightarrow> y \<in> set ys \<Longrightarrow> enc x @ r = enc y @ s \<Longrightarrow> c x = c y \<and> r = s"
    and "concat (map enc xs) @ r = concat (map enc ys) @ s"
  shows "map c xs = map c ys \<and> r = s"
  using assms
proof (induction xs ys arbitrary: r s rule: list_induct2)
  case (Cons x xs y ys)
  have "enc x @ (concat (map enc xs) @ r) = enc y @ (concat (map enc ys) @ s)"
    using Cons.prems(2) by simp
  from Cons.prems(1) [OF _ _ this]
  have "c x = c y" "concat (map enc xs) @ r = concat (map enc ys) @ s" by simp_all
  moreover have "map c xs = map c ys \<and> r = s"
    by (rule Cons.IH [OF Cons.prems(1)]) (use calculation in simp_all)
  ultimately show ?case by simp
qed simp

lemma hash_json_head:
  "hd (hash_json_value v) =
     (case v of JNull \<Rightarrow> CHR ''n'' | JBool _ \<Rightarrow> CHR ''b'' | JNumber _ \<Rightarrow> CHR ''d''
      | JString _ \<Rightarrow> CHR ''s'' | JArray _ \<Rightarrow> CHR ''a'' | JObject _ \<Rightarrow> CHR ''o'')"
  and hash_json_nonempty: "hash_json_value v \<noteq> []"
  by (cases v; simp add: hash_json_atom_def)+

lemma hash_json_same_head:
  "hash_json_value x @ r = hash_json_value y @ s \<Longrightarrow> hd (hash_json_value x) = hd (hash_json_value y)"
  using hash_json_nonempty by (metis hd_append2)

lemma json_prefix:
  assumes "json_ok x" "json_ok y" "hash_json_value x @ r = hash_json_value y @ s"
  shows "canon_json x = canon_json y \<and> r = s"
  using assms
proof (induction x arbitrary: y r s rule: hash_json_value.induct)
  case 1
  have "y = JNull"
    using hash_json_same_head [OF "1.prems"(3)] by (cases y) (auto simp: hash_json_head simp del: hash_json_value.simps)
  with "1.prems" show ?case by simp
next
  case (2 b)
  obtain c where "y = JBool c"
    using hash_json_same_head [OF "2.prems"(3)] by (cases y) (auto simp: hash_json_head simp del: hash_json_value.simps)
  with "2.prems" show ?case by (auto split: if_splits)
next
  case (3 n)
  obtain m where y: "y = JNumber m"
    using hash_json_same_head [OF "3.prems"(3)] by (cases y) (auto simp: hash_json_head simp del: hash_json_value.simps)
  have "n = m \<and> r = s" by (rule atom_prefix [of "CHR ''d''"]) (use "3.prems" y in simp_all)
  then show ?case by (simp add: y)
next
  case (4 n)
  obtain m where y: "y = JString m"
    using hash_json_same_head [OF "4.prems"(3)] by (cases y) (auto simp: hash_json_head simp del: hash_json_value.simps)
  have "n = m \<and> r = s" by (rule atom_prefix [of "CHR ''s''"]) (use "4.prems" y in simp_all)
  then show ?case by (simp add: y)
next
  case (5 vs)
  obtain ws where y: "y = JArray ws"
    using hash_json_same_head [OF "5.prems"(3)] by (cases y) (auto simp: hash_json_head simp del: hash_json_value.simps)
  have eq: "length vs = length ws"
    and rest: "concat (map hash_json_value vs) @ r = concat (map hash_json_value ws) @ s"
    using be64_prefix [of "length vs" _ "length ws"] "5.prems" by (auto simp: y)
  have "map canon_json vs = map canon_json ws \<and> r = s"
  proof (rule concat_prefix [OF eq _ rest])
    fix v w r s
    assume "v \<in> set vs" "w \<in> set ws" "hash_json_value v @ r = hash_json_value w @ s"
    then show "canon_json v = canon_json w \<and> r = s" using "5.IH" "5.prems"(1,2) y by auto
  qed
  then show ?case by (simp add: y)
next
  case (6 kvs)
  obtain lws where y: "y = JObject lws"
    using hash_json_same_head [OF "6.prems"(3)] by (cases y) (auto simp: hash_json_head simp del: hash_json_value.simps)
  let ?enc = "\<lambda>(k, v). hash_json_atom (CHR ''k'') k @ hash_json_value v"
  let ?c = "\<lambda>(k, v). (k, canon_json v)"
  have eq: "length (sort_key fst kvs) = length (sort_key fst lws)"
    and rest: "concat (map ?enc (sort_key fst kvs)) @ r = concat (map ?enc (sort_key fst lws)) @ s"
    using be64_prefix [of "length kvs" _ "length lws"] "6.prems" by (auto simp: y)
  have "map ?c (sort_key fst kvs) = map ?c (sort_key fst lws) \<and> r = s"
  proof (rule concat_prefix [OF eq _ rest])
    fix p q r s
    assume p: "p \<in> set (sort_key fst kvs)" and q: "q \<in> set (sort_key fst lws)"
      and enc: "?enc p @ r = ?enc q @ s"
    obtain k v l w where kv: "p = (k, v)" "q = (l, w)" by (cases p; cases q)
    have ok: "length k < 2 ^ 64" "json_ok v" "length l < 2 ^ 64" "json_ok w"
      using "6.prems"(1,2) p q kv y by auto
    then have "k = l" "hash_json_value v @ r = hash_json_value w @ s"
      using atom_prefix [of _ k _ l] enc kv by auto
    then show "?c p = ?c q \<and> r = s" using "6.IH" [OF p, of k v w r s] ok kv by auto
  qed
  then show ?case by (simp add: y)
qed

lemma canon_json_hash: "hash_json_value (canon_json v) = hash_json_value v"
proof (induction v rule: hash_json_value.induct)
  case (5 vs)
  then have "map (hash_json_value \<circ> canon_json) vs = map hash_json_value vs" by simp
  then show ?case by (simp add: map_map [symmetric] del: map_map)
next
  case (6 kvs)
  let ?c = "\<lambda>(k, v). (k, canon_json v)"
  let ?enc = "\<lambda>(k, v). hash_json_atom (CHR ''k'') k @ hash_json_value v"
  have "sorted (map fst (map ?c (sort_key fst kvs)))"
    by (simp add: comp_def case_prod_beta)
  then have "sort_key fst (map ?c (sort_key fst kvs)) = map ?c (sort_key fst kvs)"
    by (rule sort_key_id_if_sorted)
  moreover have "map ?enc (map ?c (sort_key fst kvs)) = map ?enc (sort_key fst kvs)"
    using "6.IH" by fastforce
  ultimately show ?case by (simp del: map_map)
qed simp_all

interpretation json_code: prefix_code hash_json_value json_ok canon_json
proof unfold_locales
  show "canon_json x = canon_json y \<and> r = s"
    if "json_ok x" "json_ok y" "hash_json_value x @ r = hash_json_value y @ s" for x y r s
    using that by (rule json_prefix)
  show "hash_json_value x = hash_json_value y" if "canon_json x = canon_json y" for x y
    using canon_json_hash that by metis
qed

text \<open>
  C37. The canonical digest compares JSON values: under a hash without collisions, two values
  (with lengths below \<open>2 ^ 64\<close>) have the same digest exactly when they are equal up to the order
  of object keys. The hypothesis is the collision resistance BLAKE3 documents.
\<close>

theorem digest_identifies_json:
  assumes "inj blake3_hex" and "json_ok x" "json_ok y"
  shows "digest_canonical_json blake3_hex x = digest_canonical_json blake3_hex y
    \<longleftrightarrow> canon_json x = canon_json y"
  using json_code.enc_eq_iff [OF assms(2,3)] injD [OF assms(1)]
  by (auto simp: digest_canonical_json_def)

theorem digest_identifies_json_witness:
  "digest_canonical_json (\<lambda>b. b) (JObject [(''b'', JNull), (''a'', JBool True)])
     = digest_canonical_json (\<lambda>b. b) (JObject [(''a'', JBool True), (''b'', JNull)])
   \<and> digest_canonical_json (\<lambda>b. b) (JArray [JString ''ab''])
     \<noteq> digest_canonical_json (\<lambda>b. b) (JArray [JString ''a'', JString ''b''])"
proof -
  have ok: "json_ok (JObject [(''b'', JNull), (''a'', JBool True)])"
    "json_ok (JObject [(''a'', JBool True), (''b'', JNull)])"
    "json_ok (JArray [JString ''ab''])" "json_ok (JArray [JString ''a'', JString ''b''])"
    by simp_all
  have inj: "inj (\<lambda>b :: string. b)" by simp
  show ?thesis
    using digest_identifies_json [OF inj ok(1,2)] digest_identifies_json [OF inj ok(3,4)]
    by simp
qed

end
