(* ===== verification/Models.thy ===== *)
theory Models
  imports Json
begin

section \<open>Command models and their JSON\<close>

text \<open>
  The command inputs and results of \<^verbatim>\<open>src/crates/stateful-store/src/models_v2.rs\<close> and the JSON
  values their \<open>Serialize\<close> derives produce, as the attributes in the source say: an internally
  tagged enum puts its tag first (\<open>#[serde(tag = ...)]\<close>), names are in snake case, and a field
  with \<open>skip_serializing_if = "Option::is_none"\<close> is left out when it is \<open>None\<close>.

  The store compares the state of a resource by its JSON text; \<open>observation_state_json_iff\<close>
  says that this is comparing the states, for observations of the same kind.
\<close>

subsection \<open>Inputs and results\<close>

record command_context =
  cc_request_id :: string
  cc_task_id :: string
  cc_agent_id :: string
  cc_workspace_id :: string
  cc_observed_at :: string

record runtime_process_input =
  rp_pid :: nat
  rp_process_start_identity :: string

record task_start_input =
  ts_next_action :: string
  ts_settings :: coordination_settings
  ts_expires_at :: string
  ts_runtime_process :: "runtime_process_input option"

record task_heartbeat_input =
  th_next_action :: string
  th_expires_at :: string

record task_end_input =
  te_handoff :: "string option"

record task_command_result =
  tr_task_id :: string
  tr_status :: task_status
  tr_draining :: bool

record read_start_input =
  rs_read_id :: string
  rs_invocation_id :: string
  rs_resources :: "resource_observation list"

record read_complete_input =
  rc_read_id :: string
  rc_invocation_id :: string
  rc_resources :: "resource_observation list"
  rc_terminal_success :: bool
  rc_complete :: bool
  rc_stable :: bool
  rc_exact :: bool

datatype read_result_status = ReadStarted | ReadCompleted | ReadFailed

record read_command_result =
  rr_read_id :: string
  rr_status :: read_result_status
  rr_evidence_id :: "string option"

record write_prepare_input =
  wp_invocation_id :: string
  wp_operation :: mutation_operation
  wp_current :: "resource_observation list"
  wp_request_expires_at :: string
  wp_lease_expires_at :: string
  wp_attempt_deadline :: string

datatype write_prepare_result =
    Ready string string "string list"
  | Queued string
  | RereadRequired "string list"
  | Denied string

record lease_activate_input =
  la_batch_id :: string
  la_offer_id :: string
  la_version :: nat
  la_lease_expires_at :: string

record lease_activate_result =
  lar_batch_id :: string
  lar_active :: bool

record lease_release_input =
  lri_batch_id :: string

datatype lease_release_status = Released | Deferred

record lease_release_result =
  lrr_batch_id :: string
  lrr_status :: lease_release_status

datatype write_terminal = TSuccess | TFailedKnown | TUncertain

record write_complete_input =
  wc_attempt_id :: string
  wc_permit_id :: string
  wc_invocation_id :: string
  wc_terminal :: write_terminal
  wc_post_resources :: "resource_observation list"
  wc_expected_post_resources :: "resource_observation list"
  wc_error :: "string option"

datatype write_result_status = WCompleted | WFailed | WUncertain

record write_complete_result =
  wcr_attempt_id :: string
  wcr_status :: write_result_status

datatype lease_request_state =
  QQueued | QOffered | QActivated | QSuperseded | QExpired | QCancelled

record lease_request_status =
  lrs_batch_id :: string
  lrs_state :: lease_request_state
  lrs_version :: nat
  lrs_offer_id :: "string option"
  lrs_offer_expires_at :: "string option"
  lrs_superseded_by :: "string option"

record status_snapshot =
  ss_active_tasks :: nat
  ss_draining_tasks :: nat
  ss_active_leases :: nat
  ss_draining_leases :: nat
  ss_queued_requests :: nat
  ss_offered_requests :: nat
  ss_executing_writes :: nat
  ss_uncertain_writes :: nat

text \<open>The result of an accepted command, of whichever command kind: the value whose JSON text
  a receipt stores.\<close>

datatype command_response =
    RTask task_command_result
  | RRead read_command_result
  | RPrepare write_prepare_result
  | RActivate lease_activate_result
  | RRelease lease_release_result
  | RComplete write_complete_result

subsection \<open>JSON of the core types\<close>

abbreviation jnat :: "nat \<Rightarrow> json" where
  "jnat n \<equiv> JNumber (nat_digits n)"

definition jopt :: "('a \<Rightarrow> json) \<Rightarrow> 'a option \<Rightarrow> json" where
  "jopt f x = (case x of None \<Rightarrow> JNull | Some v \<Rightarrow> f v)"

text \<open>A field that is left out when it is \<open>None\<close>.\<close>

definition skip_none :: "string \<Rightarrow> ('a \<Rightarrow> json) \<Rightarrow> 'a option \<Rightarrow> (string \<times> json) list" where
  "skip_none name f x = (case x of None \<Rightarrow> [] | Some v \<Rightarrow> [(name, f v)])"

fun resource_kind_name :: "resource_kind \<Rightarrow> string" where
  "resource_kind_name Object = ''object''"
| "resource_kind_name Entry = ''entry''"
| "resource_kind_name DirectoryTree = ''directory_tree''"

definition parse_resource_kind :: "string \<Rightarrow> resource_kind option" where
  "parse_resource_kind v =
     (if v = ''object'' then Some Object else if v = ''entry'' then Some Entry
      else if v = ''directory_tree'' then Some DirectoryTree else None)"

fun task_status_name :: "task_status \<Rightarrow> string" where
  "task_status_name Active = ''active''"
| "task_status_name Draining = ''draining''"
| "task_status_name Completed = ''completed''"
| "task_status_name Failed = ''failed''"
| "task_status_name Cancelled = ''cancelled''"

definition parse_task_status :: "string \<Rightarrow> task_status option" where
  "parse_task_status v =
     (if v = ''active'' then Some Active else if v = ''draining'' then Some Draining
      else if v = ''completed'' then Some Completed else if v = ''failed'' then Some Failed
      else if v = ''cancelled'' then Some Cancelled else None)"

fun write_result_name :: "write_result_status \<Rightarrow> string" where
  "write_result_name WCompleted = ''completed''"
| "write_result_name WFailed = ''failed''"
| "write_result_name WUncertain = ''uncertain''"

fun request_state_name :: "lease_request_state \<Rightarrow> string" where
  "request_state_name QQueued = ''queued''"
| "request_state_name QOffered = ''offered''"
| "request_state_name QActivated = ''activated''"
| "request_state_name QSuperseded = ''superseded''"
| "request_state_name QExpired = ''expired''"
| "request_state_name QCancelled = ''cancelled''"

definition parse_request_state :: "string \<Rightarrow> lease_request_state option" where
  "parse_request_state v =
     (if v = ''queued'' then Some QQueued else if v = ''offered'' then Some QOffered
      else if v = ''activated'' then Some QActivated else if v = ''superseded'' then Some QSuperseded
      else if v = ''expired'' then Some QExpired else if v = ''cancelled'' then Some QCancelled
      else None)"

fun object_kind_name :: "object_kind \<Rightarrow> string" where
  "object_kind_name RegularFile = ''regular_file''"
| "object_kind_name Directory = ''directory''"
| "object_kind_name Symlink = ''symlink''"

definition settings_json :: "coordination_settings \<Rightarrow> json" where
  "settings_json s = JObject
     [(''heartbeat_interval_seconds'', jnat (heartbeat_interval_seconds s)),
      (''inactivity_timeout_seconds'', jnat (inactivity_timeout_seconds s)),
      (''lease_expiry_seconds'', jnat (lease_expiry_seconds s)),
      (''offer_ttl_seconds'', jnat (offer_ttl_seconds s))]"

definition resource_key_json :: "resource_key \<Rightarrow> json" where
  "resource_key_json r = JObject
     [(''workspace_id'', JString (rk_workspace_id r)),
      (''kind'', JString (resource_kind_name (rk_kind r))),
      (''resource_id'', JString (rk_resource_id r)),
      (''canonical_path'', JString (rk_canonical_path r))]"

definition digest_json :: "content_digest \<Rightarrow> json" where
  "digest_json d = JObject
     [(''algorithm'', JString (case cd_algorithm d of Blake3 \<Rightarrow> ''blake3'')),
      (''value'', JString (cd_value d))]"

fun object_state_json :: "object_state \<Rightarrow> json" where
  "object_state_json ObjectAbsent = JObject [(''state'', JString ''absent'')]"
| "object_state_json (ObjectPresent k d n) = JObject
     [(''state'', JString ''present''), (''kind'', JString (object_kind_name k)),
      (''blake3'', digest_json d), (''byte_len'', jnat n)]"

fun entry_state_json :: "entry_state \<Rightarrow> json" where
  "entry_state_json EntryAbsent = JObject [(''state'', JString ''absent'')]"
| "entry_state_json (EntryPresent k dev ino emp) = JObject
     ([(''state'', JString ''present''), (''kind'', JString (object_kind_name k)),
       (''device'', jnat dev), (''inode'', jnat ino)] @ skip_none ''empty'' JBool emp)"

fun tree_state_json :: "directory_tree_state \<Rightarrow> json" where
  "tree_state_json TreeAbsent = JObject [(''state'', JString ''absent'')]"
| "tree_state_json (TreePresent dev ino snap n) = JObject
     [(''state'', JString ''present''), (''device'', jnat dev), (''inode'', jnat ino),
      (''snapshot'', digest_json snap), (''entry_count'', jnat n)]"

fun observation_state_json :: "resource_observation \<Rightarrow> json" where
  "observation_state_json (ObjectObs _ s _) = object_state_json s"
| "observation_state_json (EntryObs _ s _) = entry_state_json s"
| "observation_state_json (TreeObs _ s _) = tree_state_json s"

fun observation_json :: "resource_observation \<Rightarrow> json" where
  "observation_json (ObjectObs r s g) = JObject
     [(''resource_kind'', JString ''object''), (''resource'', resource_key_json r),
      (''observed'', object_state_json s), (''generation'', jnat g)]"
| "observation_json (EntryObs r s g) = JObject
     [(''resource_kind'', JString ''entry''), (''resource'', resource_key_json r),
      (''observed'', entry_state_json s), (''generation'', jnat g)]"
| "observation_json (TreeObs r s g) = JObject
     [(''resource_kind'', JString ''directory_tree''), (''resource'', resource_key_json r),
      (''observed'', tree_state_json s), (''generation'', jnat g)]"

fun operation_json :: "mutation_operation \<Rightarrow> json" where
  "operation_json (Create p) = JObject [(''kind'', JString ''create''), (''path'', JString p)]"
| "operation_json (Update p) = JObject [(''kind'', JString ''update''), (''path'', JString p)]"
| "operation_json (Delete p e) = JObject
     [(''kind'', JString ''delete''), (''path'', JString p), (''entry_only'', JBool e)]"
| "operation_json (Rename p q e) = JObject
     [(''kind'', JString ''rename''), (''old_path'', JString p), (''new_path'', JString q),
      (''entry_only'', JBool e)]"
| "operation_json (Move p q e) = JObject
     [(''kind'', JString ''move''), (''old_path'', JString p), (''new_path'', JString q),
      (''entry_only'', JBool e)]"
| "operation_json (Hardlink p q) = JObject
     [(''kind'', JString ''hardlink''), (''old_path'', JString p), (''new_path'', JString q)]"
| "operation_json (Mkdir p) = JObject [(''kind'', JString ''mkdir''), (''path'', JString p)]"
| "operation_json (Rmdir p) = JObject [(''kind'', JString ''rmdir''), (''path'', JString p)]"
| "operation_json (WriteDirectory p) = JObject
     [(''kind'', JString ''write_directory''), (''path'', JString p)]"
| "operation_json (StructuredCommit ps) = JObject
     [(''kind'', JString ''structured_commit''), (''tracked_paths'', JArray (map JString ps))]"

subsection \<open>JSON of the command payloads\<close>

definition process_json :: "runtime_process_input \<Rightarrow> json" where
  "process_json p = JObject
     [(''pid'', jnat (rp_pid p)),
      (''process_start_identity'', JString (rp_process_start_identity p))]"

definition task_start_json :: "task_start_input \<Rightarrow> json" where
  "task_start_json i = JObject
     ([(''next_action'', JString (ts_next_action i)), (''settings'', settings_json (ts_settings i)),
       (''expires_at'', JString (ts_expires_at i))]
      @ skip_none ''runtime_process'' process_json (ts_runtime_process i))"

definition task_heartbeat_json :: "task_heartbeat_input \<Rightarrow> json" where
  "task_heartbeat_json i = JObject
     [(''next_action'', JString (th_next_action i)), (''expires_at'', JString (th_expires_at i))]"

definition task_end_json :: "task_end_input \<Rightarrow> json" where
  "task_end_json i = JObject (skip_none ''handoff'' JString (te_handoff i))"

definition read_start_json :: "read_start_input \<Rightarrow> json" where
  "read_start_json i = JObject
     [(''read_id'', JString (rs_read_id i)), (''invocation_id'', JString (rs_invocation_id i)),
      (''resources'', JArray (map observation_json (rs_resources i)))]"

definition read_complete_json :: "read_complete_input \<Rightarrow> json" where
  "read_complete_json i = JObject
     [(''read_id'', JString (rc_read_id i)), (''invocation_id'', JString (rc_invocation_id i)),
      (''resources'', JArray (map observation_json (rc_resources i))),
      (''terminal_success'', JBool (rc_terminal_success i)), (''complete'', JBool (rc_complete i)),
      (''stable'', JBool (rc_stable i)), (''exact'', JBool (rc_exact i))]"

definition write_prepare_json :: "write_prepare_input \<Rightarrow> json" where
  "write_prepare_json i = JObject
     [(''invocation_id'', JString (wp_invocation_id i)),
      (''operation'', operation_json (wp_operation i)),
      (''current'', JArray (map observation_json (wp_current i))),
      (''request_expires_at'', JString (wp_request_expires_at i)),
      (''lease_expires_at'', JString (wp_lease_expires_at i)),
      (''attempt_deadline'', JString (wp_attempt_deadline i))]"

definition lease_activate_json :: "lease_activate_input \<Rightarrow> json" where
  "lease_activate_json i = JObject
     [(''batch_id'', JString (la_batch_id i)), (''offer_id'', JString (la_offer_id i)),
      (''version'', jnat (la_version i)), (''lease_expires_at'', JString (la_lease_expires_at i))]"

definition lease_release_json :: "lease_release_input \<Rightarrow> json" where
  "lease_release_json i = JObject [(''batch_id'', JString (lri_batch_id i))]"

fun write_terminal_name :: "write_terminal \<Rightarrow> string" where
  "write_terminal_name TSuccess = ''success''"
| "write_terminal_name TFailedKnown = ''failed_known''"
| "write_terminal_name TUncertain = ''uncertain''"

definition write_complete_json :: "write_complete_input \<Rightarrow> json" where
  "write_complete_json i = JObject
     ([(''attempt_id'', JString (wc_attempt_id i)), (''permit_id'', JString (wc_permit_id i)),
       (''invocation_id'', JString (wc_invocation_id i)),
       (''terminal'', JString (write_terminal_name (wc_terminal i))),
       (''post_resources'', JArray (map observation_json (wc_post_resources i))),
       (''expected_post_resources'', JArray (map observation_json (wc_expected_post_resources i)))]
      @ skip_none ''error'' JString (wc_error i))"

subsection \<open>Names and states are determined by their JSON\<close>

lemma nat_digits_inject [simp]: "nat_digits a = nat_digits b \<longleftrightarrow> a = b"
proof
  show "nat_digits a = nat_digits b \<Longrightarrow> a = b"
  proof (induction a arbitrary: b rule: nat_digits.induct)
    case (1 a)
    have one: "n < 10 \<longleftrightarrow> length (nat_digits n) = 1" for n
      by (cases "n < 10") (simp_all add: nat_digits_small nat_digits_step)
    show ?case
    proof (cases "a < 10")
      case True
      with "1.prems" have "b < 10" using one by metis
      with True "1.prems" show ?thesis by (auto simp: nat_digits_small intro: digit_char_inject)
    next
      case False
      with "1.prems" have "\<not> b < 10" using one by metis
      then have "a div 10 = b div 10" "a mod 10 = b mod 10"
        using "1.IH" [OF False] "1.prems" False digit_char_inject [of "a mod 10" "b mod 10"]
        by (simp_all add: nat_digits_step)
      then show ?thesis by (metis mult_div_mod_eq)
    qed
  qed
qed simp

lemma object_kind_name_inject [simp]: "object_kind_name a = object_kind_name b \<longleftrightarrow> a = b"
  by (cases a; cases b) simp_all

lemma resource_kind_name_inject [simp]: "resource_kind_name a = resource_kind_name b \<longleftrightarrow> a = b"
  by (cases a; cases b) simp_all

lemma digest_json_inject [simp]: "digest_json a = digest_json b \<longleftrightarrow> a = b"
  by (cases a; cases b) (auto simp: digest_json_def intro: digest_algorithm.exhaust split: digest_algorithm.splits)

lemma skip_none_inject [simp]: "skip_none n JBool a = skip_none n JBool b \<longleftrightarrow> a = b"
  by (auto simp: skip_none_def split: option.splits)

lemma object_state_json_inject [simp]: "object_state_json a = object_state_json b \<longleftrightarrow> a = b"
  by (cases a; cases b) auto

lemma entry_state_json_inject [simp]: "entry_state_json a = entry_state_json b \<longleftrightarrow> a = b"
  by (cases a; cases b) auto

lemma tree_state_json_inject [simp]: "tree_state_json a = tree_state_json b \<longleftrightarrow> a = b"
  by (cases a; cases b) auto

text \<open>
  Stored names round-trip: parsing the text a status or kind is written as gives it back,
  and any other text is rejected, so a \<open>Corrupt\<close> error can only come from a foreign value.
\<close>

theorem stored_names_roundtrip:
  "(parse_task_status v = Some s) = (v = task_status_name s)
   \<and> (parse_resource_kind v = Some k) = (v = resource_kind_name k)
   \<and> (parse_request_state v = Some q) = (v = request_state_name q)"
proof (intro conjI)
  show "(parse_task_status v = Some s) = (v = task_status_name s)"
    by (cases s) (auto simp: parse_task_status_def)
  show "(parse_resource_kind v = Some k) = (v = resource_kind_name k)"
    by (cases k) (auto simp: parse_resource_kind_def)
  show "(parse_request_state v = Some q) = (v = request_state_name q)"
    by (cases q) (auto simp: parse_request_state_def)
qed

end
