(* ===== verification/File_System.thy ===== *)
theory File_System
  imports Paths
begin

section \<open>A Unix file system and the calls of the standard library\<close>

text \<open>
  What \<^verbatim>\<open>std::fs\<close> offers the resolver of \<^verbatim>\<open>src/crates/stateful-core/src/resource.rs\<close>, on a
  table of inodes: a regular file has its bytes, a directory its entries in the order
  \<open>read_dir\<close> gives them, a symbolic link its target. An absolute path is the list of its
  components. \<open>walk\<close> resolves a path as the kernel does: \<open>.\<close> and empty components stay, \<open>..\<close>
  goes up (and stays at the root), a link is replaced by its target, at most \<open>max_symlinks\<close>
  times; the last component is followed or not. The stack holds the resolved components with
  their inodes, the last one first.

  A node can deny reading (\<open>open\<close>, \<open>read_dir\<close>) or searching (lookups in a directory). Sockets
  and the like are \<open>SpecialNode\<close> and cannot be opened. \<open>StaleIo\<close> is an entry or a handle whose
  inode is gone.
\<close>

subsection \<open>Definitions\<close>

datatype io_error =
    NotFoundIo
  | NotADirectoryIo
  | IsADirectoryIo
  | LoopIo
  | PermissionDeniedIo
  | InvalidInputIo
  | NoDeviceIo
  | StaleIo
  | InvalidDataIo
  | AlreadyExistsIo
  | DirectoryNotEmptyIo

type_synonym inode = "nat \<times> nat"

datatype node_body =
    FileNode string
  | DirNode "(string \<times> inode) list" nat
  | LinkNode string
  | SpecialNode

record node =
  nd_body :: node_body
  nd_mtime :: int
  nd_mtime_nsec :: int
  nd_ctime :: int
  nd_ctime_nsec :: int
  nd_nlink :: nat
  nd_readable :: bool
  nd_searchable :: bool
  nd_mode :: nat

record fs =
  fs_root :: inode
  fs_nodes :: "inode \<Rightarrow> node option"

datatype file_type = RegularType | DirectoryType | SymlinkType | SpecialType

record metadata =
  md_type :: file_type
  md_dev :: nat
  md_ino :: nat
  md_len :: nat
  md_mtime :: int
  md_mtime_nsec :: int
  md_ctime :: int
  md_ctime_nsec :: int
  md_nlink :: nat
  md_mode :: nat

fun body_type :: "node_body \<Rightarrow> file_type" where
  "body_type (FileNode _) = RegularType"
| "body_type (DirNode _ _) = DirectoryType"
| "body_type (LinkNode _) = SymlinkType"
| "body_type SpecialNode = SpecialType"

fun body_len :: "node_body \<Rightarrow> nat" where
  "body_len (FileNode bytes) = length bytes"
| "body_len (DirNode _ len) = len"
| "body_len (LinkNode target) = length target"
| "body_len SpecialNode = 0"

definition node_at :: "fs \<Rightarrow> inode \<Rightarrow> io_error + node" where
  "node_at F i = ok_or StaleIo (fs_nodes F i)"

definition node_metadata :: "inode \<Rightarrow> node \<Rightarrow> metadata" where
  "node_metadata i n =
     \<lparr>md_type = body_type (nd_body n), md_dev = fst i, md_ino = snd i, md_len = body_len (nd_body n),
      md_mtime = nd_mtime n, md_mtime_nsec = nd_mtime_nsec n,
      md_ctime = nd_ctime n, md_ctime_nsec = nd_ctime_nsec n, md_nlink = nd_nlink n,
      md_mode = nd_mode n\<rparr>"

definition file_metadata :: "fs \<Rightarrow> inode \<Rightarrow> io_error + metadata" where
  "file_metadata F i = bindE (node_at F i) (\<lambda>n. Inr (node_metadata i n))"

definition lookup_entries :: "fs \<Rightarrow> inode \<Rightarrow> io_error + (string \<times> inode) list" where
  "lookup_entries F i =
     bindE (node_at F i) (\<lambda>n.
     case nd_body n of
       DirNode entries _ \<Rightarrow> if nd_searchable n then Inr entries else Inl PermissionDeniedIo
     | _ \<Rightarrow> Inl NotADirectoryIo)"

definition link_target :: "fs \<Rightarrow> inode \<Rightarrow> string option" where
  "link_target F i =
     (case fs_nodes F i of
        None \<Rightarrow> None
      | Some n \<Rightarrow> (case nd_body n of LinkNode target \<Rightarrow> Some target | _ \<Rightarrow> None))"

definition here :: "fs \<Rightarrow> (string \<times> inode) list \<Rightarrow> inode" where
  "here F stack = (case stack of [] \<Rightarrow> fs_root F | (_, i) # _ \<Rightarrow> i)"

definition is_absolute :: "string \<Rightarrow> bool" where
  "is_absolute p = (take 1 p = ''/'')"

function walk ::
  "fs \<Rightarrow> bool \<Rightarrow> nat \<Rightarrow> (string \<times> inode) list \<Rightarrow> string list \<Rightarrow> io_error + (string \<times> inode) list" where
  "walk F follow links stack [] = Inr stack"
| "walk F follow links stack (c # cs) =
     bindE (lookup_entries F (here F stack)) (\<lambda>entries.
     if c = [] \<or> c = ''.'' then walk F follow links stack cs
     else if c = ''..'' then walk F follow links (tl stack) cs
     else case map_of entries c of
       None \<Rightarrow> Inl NotFoundIo
     | Some i \<Rightarrow>
         (case link_target F i of
            None \<Rightarrow> walk F follow links ((c, i) # stack) cs
          | Some target \<Rightarrow>
              if cs = [] \<and> \<not> follow then Inr ((c, i) # stack)
              else case links of
                0 \<Rightarrow> Inl LoopIo
              | Suc n \<Rightarrow> walk F follow n (if is_absolute target then [] else stack)
                          (split_on (CHR ''/'') target @ cs)))"
  by pat_completeness auto

termination
  by (relation "measures [\<lambda>(F, follow, links, stack, cs). links, \<lambda>(F, follow, links, stack, cs). length cs]")
    auto

definition max_symlinks :: nat where
  "max_symlinks = 40"

definition resolve :: "fs \<Rightarrow> bool \<Rightarrow> string list \<Rightarrow> io_error + (string \<times> inode) list" where
  "resolve F follow path = walk F follow max_symlinks [] path"

definition symlink_metadata :: "string list \<Rightarrow> fs \<Rightarrow> io_error + metadata" where
  "symlink_metadata path F = bindE (resolve F False path) (\<lambda>stack. file_metadata F (here F stack))"

definition metadata_of :: "string list \<Rightarrow> fs \<Rightarrow> io_error + metadata" where
  "metadata_of path F = bindE (resolve F True path) (\<lambda>stack. file_metadata F (here F stack))"

definition canonicalize :: "string list \<Rightarrow> fs \<Rightarrow> io_error + string list" where
  "canonicalize path F =
     bindE (resolve F True path) (\<lambda>stack.
     bindE (node_at F (here F stack)) (\<lambda>_. Inr (rev (map fst stack))))"

definition path_exists :: "string list \<Rightarrow> fs \<Rightarrow> bool" where
  "path_exists path F = is_ok (metadata_of path F)"

definition path_is_file :: "string list \<Rightarrow> fs \<Rightarrow> bool" where
  "path_is_file path F =
     (case metadata_of path F of Inl _ \<Rightarrow> False | Inr m \<Rightarrow> md_type m = RegularType)"

definition path_is_dir :: "string list \<Rightarrow> fs \<Rightarrow> bool" where
  "path_is_dir path F =
     (case metadata_of path F of Inl _ \<Rightarrow> False | Inr m \<Rightarrow> md_type m = DirectoryType)"

definition read_link :: "string list \<Rightarrow> fs \<Rightarrow> io_error + string" where
  "read_link path F =
     bindE (resolve F False path) (\<lambda>stack.
     bindE (node_at F (here F stack)) (\<lambda>n.
     case nd_body n of LinkNode target \<Rightarrow> Inr target | _ \<Rightarrow> Inl InvalidInputIo))"

definition file_open :: "string list \<Rightarrow> fs \<Rightarrow> io_error + inode" where
  "file_open path F =
     bindE (resolve F True path) (\<lambda>stack.
     bindE (node_at F (here F stack)) (\<lambda>n.
     if nd_body n = SpecialNode then Inl NoDeviceIo
     else if \<not> nd_readable n then Inl PermissionDeniedIo
     else Inr (here F stack)))"

definition file_read :: "inode \<Rightarrow> nat \<Rightarrow> nat \<Rightarrow> fs \<Rightarrow> io_error + string" where
  "file_read i offset count F =
     bindE (node_at F i) (\<lambda>n.
     case nd_body n of
       FileNode bytes \<Rightarrow> Inr (take count (drop offset bytes))
     | DirNode _ _ \<Rightarrow> Inl IsADirectoryIo
     | _ \<Rightarrow> Inl InvalidInputIo)"

definition read_dir :: "string list \<Rightarrow> fs \<Rightarrow> io_error + string list" where
  "read_dir path F =
     bindE (resolve F True path) (\<lambda>stack.
     bindE (node_at F (here F stack)) (\<lambda>n.
     case nd_body n of
       DirNode entries _ \<Rightarrow>
         if nd_readable n then Inr (map fst entries) else Inl PermissionDeniedIo
     | _ \<Rightarrow> Inl NotADirectoryIo))"

text \<open>\<open>str::from_utf8\<close>: whether bytes are a Rust \<open>str\<close>.\<close>

definition in_range :: "nat \<Rightarrow> nat \<Rightarrow> char \<Rightarrow> bool" where
  "in_range a b c = (a \<le> of_char c \<and> of_char c \<le> b)"

abbreviation continuation :: "char \<Rightarrow> bool" where
  "continuation \<equiv> in_range 0x80 0xBF"

function utf8_valid :: "string \<Rightarrow> bool" where
  "utf8_valid [] = True"
| "utf8_valid (b # bs) =
     (if in_range 0 0x7F b then utf8_valid bs
      else case bs of
        [] \<Rightarrow> False
      | c # cs \<Rightarrow>
          if in_range 0xC2 0xDF b then continuation c \<and> utf8_valid cs
          else case cs of
            [] \<Rightarrow> False
          | d # ds \<Rightarrow>
              if b = CHR 0xE0 then in_range 0xA0 0xBF c \<and> continuation d \<and> utf8_valid ds
              else if b = CHR 0xED then in_range 0x80 0x9F c \<and> continuation d \<and> utf8_valid ds
              else if in_range 0xE1 0xEF b then continuation c \<and> continuation d \<and> utf8_valid ds
              else case ds of
                [] \<Rightarrow> False
              | e # es \<Rightarrow>
                  continuation d \<and> continuation e \<and> utf8_valid es
                  \<and> (if b = CHR 0xF0 then in_range 0x90 0xBF c
                     else if in_range 0xF1 0xF3 b then continuation c
                     else b = CHR 0xF4 \<and> in_range 0x80 0x8F c))"
  by pat_completeness auto

termination
  by (relation "measure length") auto

text \<open>
  \<open>String::from_utf8_lossy\<close>: the length of the next character, or of the bytes that one
  replacement character stands for.
\<close>

definition utf8_unit :: "string \<Rightarrow> bool \<times> nat" where
  "utf8_unit s =
     (let b = hd s; c = s ! 1; second =
        (if b = CHR 0xE0 then in_range 0xA0 0xBF
         else if b = CHR 0xED then in_range 0x80 0x9F
         else if b = CHR 0xF0 then in_range 0x90 0xBF
         else if b = CHR 0xF4 then in_range 0x80 0x8F else continuation)
      in if in_range 0 0x7F b then (True, 1)
         else if \<not> in_range 0xC2 0xF4 b \<or> length s < 2 \<or> \<not> second c then (False, 1)
         else if in_range 0xC2 0xDF b then (True, 2)
         else if length s < 3 \<or> \<not> continuation (s ! 2) then (False, 2)
         else if in_range 0xE0 0xEF b then (True, 3)
         else if length s < 4 \<or> \<not> continuation (s ! 3) then (False, 3)
         else (True, 4))"

lemma utf8_unit_pos: "0 < snd (utf8_unit s)"
  by (simp add: utf8_unit_def Let_def)

function utf8_lossy :: "string \<Rightarrow> string" where
  "utf8_lossy s =
     (if s = [] then []
      else case utf8_unit s of
        (valid, n) \<Rightarrow>
          (if valid then take n s else [CHR 0xEF, CHR 0xBF, CHR 0xBD]) @ utf8_lossy (drop n s))"
  by pat_completeness auto

termination
  using utf8_unit_pos by (relation "measure length") (auto simp: prod_eq_iff)

declare utf8_lossy.simps [simp del]

lemma utf8_valid_ascii: "\<forall>c \<in> set s. in_range 0 0x7F c \<Longrightarrow> utf8_valid s"
  by (induction s) auto

subsection \<open>Paths without links\<close>

text \<open>
  \<open>plain F stack cs stack'\<close>: the components \<open>cs\<close> lead from \<open>stack\<close> to \<open>stack'\<close> through
  searchable directories, and none of them is a link.
\<close>

inductive plain :: "fs \<Rightarrow> (string \<times> inode) list \<Rightarrow> string list \<Rightarrow> (string \<times> inode) list \<Rightarrow> bool" for F where
  plain_Nil: "plain F stack [] stack"
| plain_Cons: "lookup_entries F (here F stack) = Inr entries \<Longrightarrow> clean_segment c
    \<Longrightarrow> map_of entries c = Some i \<Longrightarrow> link_target F i = None \<Longrightarrow> fs_nodes F i \<noteq> None
    \<Longrightarrow> plain F ((c, i) # stack) cs stack' \<Longrightarrow> plain F stack (c # cs) stack'"

inductive_simps plain_Nil_iff [simp]: "plain F stack [] stack'"
inductive_cases plain_ConsE: "plain F stack (c # cs) stack'"

lemma walk_clean:
  "clean_segment c \<Longrightarrow> lookup_entries F (here F stack) = Inr entries \<Longrightarrow> map_of entries c = Some i
    \<Longrightarrow> link_target F i = None \<Longrightarrow>
    walk F follow links stack (c # cs) = walk F follow links ((c, i) # stack) cs"
  by (simp add: clean_segment_def)

lemma walk_plain: "plain F stack cs stack' \<Longrightarrow>
    walk F follow links stack (cs @ ds) = walk F follow links stack' ds"
  by (induction rule: plain.induct) (simp_all add: walk_clean del: walk.simps(2))

lemma resolve_plain: "plain F [] cs stack \<Longrightarrow> resolve F follow cs = Inr stack"
  using walk_plain [of F "[]" cs stack follow max_symlinks "[]"] by (simp add: resolve_def)

lemma plain_names: "plain F stack cs stack' \<Longrightarrow> map fst stack' = rev cs @ map fst stack"
  by (induction rule: plain.induct) simp_all

lemma plain_append: "plain F stack cs stack' \<Longrightarrow> plain F stack' ds stack'' \<Longrightarrow> plain F stack (cs @ ds) stack''"
  by (induction rule: plain.induct) (auto intro: plain_Cons)

lemma plain_appendD: "plain F stack (cs @ ds) stack''
    \<Longrightarrow> \<exists>stack'. plain F stack cs stack' \<and> plain F stack' ds stack''"
proof (induction cs arbitrary: stack)
  case (Cons c cs)
  then obtain entries i where "lookup_entries F (here F stack) = Inr entries" "clean_segment c"
    "map_of entries c = Some i" "link_target F i = None" "fs_nodes F i \<noteq> None" "plain F ((c, i) # stack) (cs @ ds) stack''"
    by (auto elim: plain_ConsE)
  with Cons.IH show ?case by (metis plain_Cons)
qed (auto intro: plain_Nil)

end
