(* ===== verification/Operations.thy ===== *)
theory Operations
  imports Resources Models File_System "HOL-Library.Multiset"
begin

section \<open>Operation contracts\<close>

text \<open>
  \<open>validate_operation_start\<close> and \<open>validate_operation_transition\<close> of
  \<^verbatim>\<open>src/crates/stateful-core/src/resource.rs\<close>, with every helper they call. A prepared write
  must present exactly the observations its operation needs (\<open>require_shape\<close>), in the state the
  operation starts from; a completed write must present the state the operation leads to.

  The lemmas turn the sequence of checks into what it establishes: \<open>require_shape\<close> fixes the
  multiset of (kind, path) pairs, \<open>observation_at\<close> finds the one observation with a given kind
  and path, and each \<open>validate_*\<close> function its fields. The theorems state the footprint of an
  accepted start and the effect of an accepted transition.
\<close>

datatype resource_error =
    EmptyWorkspace
  | InvalidWorkspace string
  | InvalidRelativePath string
  | WorkspaceEscape string
  | NotRegularFile string
  | NotDirectory string
  | NotAbsent string
  | SymlinkFile string
  | UnstableObservation string
  | SymlinkInDirectoryTree string
  | HardlinkedRegularFile string
  | UnsupportedTreeEntry string
  | AdapterSuppliedObservation string
  | InvalidOperationObservation string
  | InvalidOperationTransition string
  | NonUtf8Path string
  | IoError string io_error
  | UnsupportedPlatform

type_synonym 'a checked = "resource_error + 'a"
type_synonym shape = "(resource_kind \<times> string) list"

abbreviation invalid_observation :: "string \<Rightarrow> 'a checked" where
  "invalid_observation m \<equiv> Inl (InvalidOperationObservation m)"

abbreviation invalid_transition :: "string \<Rightarrow> 'a checked" where
  "invalid_transition m \<equiv> Inl (InvalidOperationTransition m)"

definition checked_operation_path :: "string \<Rightarrow> string checked" where
  "checked_operation_path p = mapErr (\<lambda>_. InvalidRelativePath p) (operation_path p)"

subsection \<open>Shapes and lookups\<close>

definition at_key :: "resource_kind \<Rightarrow> string \<Rightarrow> resource_observation \<Rightarrow> bool" where
  "at_key kind path ob =
     (rk_kind (obs_resource ob) = kind \<and> rk_canonical_path (obs_resource ob) = path)"

fun require_known_resources ::
  "shape \<Rightarrow> resource_observation list \<Rightarrow> resource_observation list \<Rightarrow> unit checked" where
  "require_known_resources shape earlier [] = Inr ()"
| "require_known_resources shape earlier (ob # obs) =
     (if list_ex (\<lambda>other. obs_resource other = obs_resource ob) earlier
      then invalid_observation ''duplicate resource observation''
      else if \<not> list_ex (\<lambda>(kind, path). at_key kind path ob) shape
      then invalid_observation ''unexpected resource key or canonical path''
      else require_known_resources shape (earlier @ [ob]) obs)"

definition require_shape :: "resource_observation list \<Rightarrow> shape \<Rightarrow> unit checked" where
  "require_shape observations shape =
     (if length observations \<noteq> length shape \<or> observations = []
      then invalid_observation ''resource observation count is not exact''
      else let workspace_id = rk_workspace_id (obs_resource (hd observations)) in
        if workspace_id = [] \<or> list_ex (\<lambda>ob. \<not> has_matching_resource_kind ob
              \<or> rk_workspace_id (obs_resource ob) \<noteq> workspace_id) observations
        then invalid_observation ''resource observations have invalid workspace or kind''
        else if list_ex (\<lambda>(kind, path). length (filter (at_key kind path) observations) \<noteq> 1) shape
        then invalid_observation ''required resource key or canonical path is missing''
        else require_known_resources shape [] observations)"

definition observation_at ::
  "resource_observation list \<Rightarrow> resource_kind \<Rightarrow> string \<Rightarrow> resource_observation checked" where
  "observation_at observations kind path =
     (case filter (at_key kind path) observations of
        [] \<Rightarrow> invalid_observation ''required resource observation is missing''
      | [ob] \<Rightarrow> Inr ob
      | _ \<Rightarrow> invalid_observation ''resource observation is ambiguous'')"

text \<open>\<open>path.rsplit('/').next()\<close> always yields: the text after the last slash.\<close>

definition basename :: "string \<Rightarrow> string" where
  "basename path = last (split_on (CHR ''/'') path)"

definition starts_with :: "string \<Rightarrow> string \<Rightarrow> bool" where
  "starts_with s pre = (take (length pre) s = pre)"

definition ends_with :: "string \<Rightarrow> string \<Rightarrow> bool" where
  "ends_with s suf = (length suf \<le> length s \<and> drop (length s - length suf) s = suf)"

definition validate_entry_resource :: "resource_key \<Rightarrow> string \<Rightarrow> unit checked" where
  "validate_entry_resource resource path =
     (if \<not> starts_with (rk_resource_id resource) ''entry:''
         \<or> \<not> ends_with (rk_resource_id resource) ('':'' @ basename path)
      then invalid_observation ''entry physical key does not match canonical path''
      else Inr ())"

definition object_id :: "nat \<Rightarrow> nat \<Rightarrow> string" where
  "object_id device inode = ''object:'' @ nat_digits device @ '':'' @ nat_digits inode"

definition directory_id :: "nat \<Rightarrow> nat \<Rightarrow> string" where
  "directory_id device inode = ''directory:'' @ nat_digits device @ '':'' @ nat_digits inode"

subsection \<open>Validating one target\<close>

definition validate_present_entry ::
  "object_kind \<Rightarrow> string \<Rightarrow> string \<Rightarrow> resource_observation \<Rightarrow> string \<Rightarrow> unit checked" where
  "validate_present_entry wanted missing wrong ob path =
     (case ob of
        EntryObs resource (EntryPresent kind _ _ emp) _ \<Rightarrow>
          if kind \<noteq> wanted \<or> emp \<noteq> None then invalid_observation wrong
          else validate_entry_resource resource path
      | _ \<Rightarrow> invalid_observation missing)"

definition validate_present_regular_entry :: "resource_observation \<Rightarrow> string \<Rightarrow> unit checked" where
  "validate_present_regular_entry =
     validate_present_entry RegularFile ''regular entry is missing'' ''entry is not a regular file''"

definition validate_present_symlink_entry :: "resource_observation \<Rightarrow> string \<Rightarrow> unit checked" where
  "validate_present_symlink_entry =
     validate_present_entry Symlink ''symlink entry is missing'' ''entry is not a symlink''"

definition validate_regular_file_from_set ::
  "resource_observation list \<Rightarrow> string \<Rightarrow> (resource_observation \<times> resource_observation) checked" where
  "validate_regular_file_from_set observations path =
     bindE (observation_at observations Object path) (\<lambda>object.
     bindE (observation_at observations Entry path) (\<lambda>entry.
     case object of
       ObjectObs resource (ObjectPresent kind blake3 _) _ \<Rightarrow>
         if kind \<noteq> RegularFile \<or> cd_algorithm blake3 \<noteq> Blake3
         then invalid_observation ''object is not a BLAKE3-observed regular file''
         else bindE (validate_present_regular_entry entry path) (\<lambda>_.
           case entry of
             EntryObs _ (EntryPresent _ device inode _) _ \<Rightarrow>
               if rk_resource_id resource \<noteq> object_id device inode
               then invalid_observation ''object and entry identities differ''
               else Inr (object, entry)
           | _ \<Rightarrow> invalid_observation ''regular entry is missing'')
     | _ \<Rightarrow> invalid_observation ''regular object is missing''))"

definition validate_regular_file ::
  "resource_observation list \<Rightarrow> string \<Rightarrow> (resource_observation \<times> resource_observation) checked" where
  "validate_regular_file observations path =
     bindE (require_shape observations [(Object, path), (Entry, path)]) (\<lambda>_.
     validate_regular_file_from_set observations path)"

definition validate_symlink_entry_from_set ::
  "resource_observation list \<Rightarrow> string \<Rightarrow> (resource_observation \<times> resource_observation) checked" where
  "validate_symlink_entry_from_set observations path =
     bindE (observation_at observations Object path) (\<lambda>object.
     bindE (observation_at observations Entry path) (\<lambda>entry.
     case object of
       ObjectObs resource (ObjectPresent kind blake3 _) _ \<Rightarrow>
         if kind \<noteq> Symlink \<or> cd_algorithm blake3 \<noteq> Blake3
         then invalid_observation ''object is not a BLAKE3-observed symlink''
         else bindE (validate_present_symlink_entry entry path) (\<lambda>_.
           case entry of
             EntryObs _ (EntryPresent _ device inode _) _ \<Rightarrow>
               if rk_resource_id resource \<noteq> object_id device inode
               then invalid_observation ''symlink object and entry identities differ''
               else Inr (object, entry)
           | _ \<Rightarrow> invalid_observation ''symlink entry is missing'')
     | _ \<Rightarrow> invalid_observation ''symlink object is missing''))"

definition validate_symlink_entry ::
  "resource_observation list \<Rightarrow> string \<Rightarrow> (resource_observation \<times> resource_observation) checked" where
  "validate_symlink_entry observations path =
     bindE (require_shape observations [(Object, path), (Entry, path)]) (\<lambda>_.
     validate_symlink_entry_from_set observations path)"

definition validate_existing_target ::
  "resource_observation list \<Rightarrow> string \<Rightarrow> bool \<Rightarrow> (resource_observation \<times> resource_observation) checked" where
  "validate_existing_target observations path entry_only =
     (if entry_only then validate_symlink_entry observations path
      else validate_regular_file observations path)"

definition validate_existing_target_from_set ::
  "resource_observation list \<Rightarrow> string \<Rightarrow> bool \<Rightarrow> (resource_observation \<times> resource_observation) checked" where
  "validate_existing_target_from_set observations path entry_only =
     (if entry_only then validate_symlink_entry_from_set observations path
      else validate_regular_file_from_set observations path)"

definition validate_absent_entry_from_set ::
  "resource_observation list \<Rightarrow> string \<Rightarrow> resource_observation checked" where
  "validate_absent_entry_from_set observations path =
     bindE (observation_at observations Entry path) (\<lambda>entry.
     case entry of
       EntryObs resource EntryAbsent _ \<Rightarrow>
         bindE (validate_entry_resource resource path) (\<lambda>_. Inr entry)
     | _ \<Rightarrow> invalid_observation ''destination entry must be absent'')"

definition validate_absent_entry ::
  "resource_observation list \<Rightarrow> string \<Rightarrow> resource_observation checked" where
  "validate_absent_entry observations path =
     bindE (require_shape observations [(Entry, path)]) (\<lambda>_.
     validate_absent_entry_from_set observations path)"

definition object_state_of :: "resource_observation \<Rightarrow> object_state checked" where
  "object_state_of ob =
     (case ob of ObjectObs _ s _ \<Rightarrow> Inr s
      | _ \<Rightarrow> invalid_observation ''resource is not an object'')"

definition directory_tree_state_of :: "resource_observation \<Rightarrow> directory_tree_state checked" where
  "directory_tree_state_of ob =
     (case ob of TreeObs _ s _ \<Rightarrow> Inr s
      | _ \<Rightarrow> invalid_observation ''resource is not a directory tree'')"

definition validate_directory_tree_from_set ::
  "resource_observation list \<Rightarrow> string \<Rightarrow> resource_observation checked" where
  "validate_directory_tree_from_set observations path =
     bindE (observation_at observations DirectoryTree path) (\<lambda>tree.
     case tree of
       TreeObs resource _ _ \<Rightarrow>
         bindE (directory_tree_state_of tree) (\<lambda>state.
         case state of
           TreePresent device inode snapshot _ \<Rightarrow>
             if rk_resource_id resource \<noteq> directory_id device inode
                \<or> cd_algorithm snapshot \<noteq> Blake3
             then invalid_observation ''directory tree identity or digest is invalid''
             else Inr tree
         | TreeAbsent \<Rightarrow> invalid_observation ''directory tree is absent'')
     | _ \<Rightarrow> invalid_observation ''directory tree is missing'')"

definition validate_directory_tree ::
  "resource_observation list \<Rightarrow> string \<Rightarrow> resource_observation checked" where
  "validate_directory_tree observations path =
     bindE (require_shape observations [(DirectoryTree, path)]) (\<lambda>_.
     validate_directory_tree_from_set observations path)"

definition validate_directory ::
  "resource_observation list \<Rightarrow> string \<Rightarrow> bool \<Rightarrow> (resource_observation \<times> resource_observation) checked" where
  "validate_directory observations path require_empty =
     bindE (require_shape observations [(DirectoryTree, path), (Entry, path)]) (\<lambda>_.
     bindE (validate_directory_tree_from_set observations path) (\<lambda>tree.
     bindE (observation_at observations Entry path) (\<lambda>entry.
     bindE (directory_tree_state_of tree) (\<lambda>state.
     case state of
       TreeAbsent \<Rightarrow> invalid_observation ''directory tree is absent''
     | TreePresent device inode _ entry_count \<Rightarrow>
         (case entry of
            EntryObs resource (EntryPresent kind entry_device entry_inode emp) _ \<Rightarrow>
              if kind \<noteq> Directory \<or> (device, inode) \<noteq> (entry_device, entry_inode)
                 \<or> emp \<noteq> Some (entry_count = 0)
              then invalid_observation ''directory tree and entry differ''
              else if require_empty \<and> entry_count \<noteq> 0
              then invalid_observation ''rmdir/mkdir directory must be empty''
              else bindE (validate_entry_resource resource path) (\<lambda>_. Inr (tree, entry))
          | _ \<Rightarrow> invalid_observation ''directory entry is missing'')))))"

fun normalized_unique_paths_from :: "string list \<Rightarrow> string list \<Rightarrow> string list checked" where
  "normalized_unique_paths_from normalized [] = Inr normalized"
| "normalized_unique_paths_from normalized (p # ps) =
     bindE (checked_operation_path p) (\<lambda>path.
     if path \<in> set normalized
     then invalid_observation ''structured_commit tracked path is duplicated''
     else normalized_unique_paths_from (normalized @ [path]) ps)"

definition normalized_unique_paths :: "string list \<Rightarrow> string list checked" where
  "normalized_unique_paths paths =
     (if paths = [] then invalid_observation ''structured_commit requires tracked paths''
      else normalized_unique_paths_from [] paths)"

fun commit_shape ::
  "resource_observation list \<Rightarrow> string list \<Rightarrow> shape \<times> string list \<Rightarrow> (shape \<times> string list) checked" where
  "commit_shape observations [] acc = Inr acc"
| "commit_shape observations (path # paths) (shape, present_paths) =
     (if path = ''.git''
      then invalid_observation ''structured_commit tracked paths must not include .git''
      else bindE (observation_at observations Entry path) (\<lambda>entry.
        case entry of
          EntryObs _ EntryAbsent _ \<Rightarrow>
            commit_shape observations paths (shape @ [(Entry, path)], present_paths)
        | EntryObs _ (EntryPresent RegularFile _ _ _) _ \<Rightarrow>
            commit_shape observations paths
              (shape @ [(Entry, path), (Object, path)], present_paths @ [path])
        | _ \<Rightarrow> invalid_observation ''structured_commit target is not a regular file''))"

definition validate_structured_commit_start ::
  "string list \<Rightarrow> resource_observation list \<Rightarrow> unit checked" where
  "validate_structured_commit_start tracked observations =
     bindE (normalized_unique_paths tracked) (\<lambda>tracked_paths.
     bindE (commit_shape observations tracked_paths ([], [])) (\<lambda>(shape, present_paths).
     bindE (require_shape observations (shape @ [(DirectoryTree, ''.git'')])) (\<lambda>_.
     bindE (foldE (\<lambda>path _.
         if path \<in> set present_paths
         then bindE (validate_regular_file_from_set observations path) (\<lambda>_. Inr ())
         else bindE (validate_absent_entry_from_set observations path) (\<lambda>_. Inr ()))
       tracked_paths ()) (\<lambda>_.
     bindE (validate_directory_tree_from_set observations ''.git'') (\<lambda>_. Inr ())))))"

subsection \<open>The start of an operation\<close>

definition two_path_start ::
  "string \<Rightarrow> string \<Rightarrow> resource_observation list \<Rightarrow> (string \<Rightarrow> unit checked) \<Rightarrow> unit checked" where
  "two_path_start old_path new_path observations validate_source =
     bindE (checked_operation_path old_path) (\<lambda>old.
     bindE (checked_operation_path new_path) (\<lambda>new.
     if old = new then invalid_observation ''source and destination paths must differ''
     else bindE (require_shape observations [(Object, old), (Entry, old), (Entry, new)]) (\<lambda>_.
       bindE (validate_source old) (\<lambda>_.
       bindE (validate_absent_entry_from_set observations new) (\<lambda>_. Inr ())))))"

fun validate_operation_start ::
  "mutation_operation \<Rightarrow> resource_observation list \<Rightarrow> unit checked" where
  "validate_operation_start (Create path) obs =
     bindE (checked_operation_path path) (\<lambda>p.
     bindE (validate_absent_entry obs p) (\<lambda>_. Inr ()))"
| "validate_operation_start (Mkdir path) obs =
     bindE (checked_operation_path path) (\<lambda>p.
     bindE (validate_absent_entry obs p) (\<lambda>_. Inr ()))"
| "validate_operation_start (Update path) obs =
     bindE (checked_operation_path path) (\<lambda>p.
     bindE (validate_regular_file obs p) (\<lambda>_. Inr ()))"
| "validate_operation_start (Delete path entry_only) obs =
     bindE (checked_operation_path path) (\<lambda>p.
     bindE (validate_existing_target obs p entry_only) (\<lambda>_. Inr ()))"
| "validate_operation_start (Rename old_path new_path entry_only) obs =
     two_path_start old_path new_path obs (\<lambda>old.
       bindE (validate_existing_target_from_set obs old entry_only) (\<lambda>_. Inr ()))"
| "validate_operation_start (Move old_path new_path entry_only) obs =
     two_path_start old_path new_path obs (\<lambda>old.
       bindE (validate_existing_target_from_set obs old entry_only) (\<lambda>_. Inr ()))"
| "validate_operation_start (Hardlink old_path new_path) obs =
     two_path_start old_path new_path obs (\<lambda>old.
       bindE (validate_regular_file_from_set obs old) (\<lambda>_. Inr ()))"
| "validate_operation_start (Rmdir path) obs =
     bindE (checked_operation_path path) (\<lambda>p.
     bindE (validate_directory obs p True) (\<lambda>_. Inr ()))"
| "validate_operation_start (WriteDirectory path) obs =
     bindE (checked_operation_path path) (\<lambda>p.
     bindE (require_shape obs [(DirectoryTree, p)]) (\<lambda>_.
     bindE (validate_directory_tree_from_set obs p) (\<lambda>_. Inr ())))"
| "validate_operation_start (StructuredCommit tracked_paths) obs =
     validate_structured_commit_start tracked_paths obs"

subsection \<open>The transition of an operation\<close>

definition require_same_resource ::
  "resource_observation \<Rightarrow> resource_observation \<Rightarrow> string \<Rightarrow> unit checked" where
  "require_same_resource left right role =
     (if obs_resource left \<noteq> obs_resource right
      then invalid_transition (role @ '' resource key changed'') else Inr ())"

definition require_entry_matches_object ::
  "resource_observation \<Rightarrow> resource_observation \<Rightarrow> unit checked" where
  "require_entry_matches_object entry object =
     (case entry of
        EntryObs _ (EntryPresent _ device inode _) _ \<Rightarrow>
          if rk_resource_id (obs_resource object) \<noteq> object_id device inode
          then invalid_transition ''hardlink destination does not share source object identity''
          else Inr ()
      | _ \<Rightarrow> invalid_transition ''hardlink destination entry is absent'')"

definition require_directory_identity ::
  "resource_observation \<Rightarrow> resource_observation \<Rightarrow> unit checked" where
  "require_directory_identity left right =
     bindE (directory_tree_state_of left) (\<lambda>l.
     bindE (directory_tree_state_of right) (\<lambda>r.
     case (l, r) of
       (TreePresent ld li _ _, TreePresent rd ri _ _) \<Rightarrow>
         if (ld, li) \<noteq> (rd, ri) then invalid_transition ''directory identity changed'' else Inr ()
     | _ \<Rightarrow> invalid_transition ''directory tree must remain present''))"

fun core_same_state :: "resource_observation \<Rightarrow> resource_observation \<Rightarrow> bool" where
  "core_same_state (ObjectObs r s _) (ObjectObs r' s' _) = (r = r' \<and> s = s')"
| "core_same_state (EntryObs r s _) (EntryObs r' s' _) = (r = r' \<and> s = s')"
| "core_same_state (TreeObs r s _) (TreeObs r' s' _) = (r = r' \<and> s = s')"
| "core_same_state _ _ = False"

definition observations_equal_as_set ::
  "resource_observation list \<Rightarrow> resource_observation list \<Rightarrow> bool" where
  "observations_equal_as_set expected actual =
     (length expected = length actual
      \<and> list_all (\<lambda>ob. list_ex (\<lambda>candidate. core_same_state candidate ob) actual) expected)"

definition validate_structured_commit_transition ::
  "resource_observation list \<Rightarrow> resource_observation list \<Rightarrow> unit checked" where
  "validate_structured_commit_transition start expected =
     bindE (validate_directory_tree_from_set start ''.git'') (\<lambda>start_git.
     bindE (validate_directory_tree_from_set expected ''.git'') (\<lambda>expected_git.
     bindE (require_same_resource start_git expected_git ''structured-commit .git metadata'') (\<lambda>_.
     bindE (require_directory_identity start_git expected_git) (\<lambda>_.
     bindE (directory_tree_state_of start_git) (\<lambda>s.
     bindE (directory_tree_state_of expected_git) (\<lambda>e.
     case (s, e) of
       (TreePresent _ _ start_snapshot _, TreePresent _ _ expected_snapshot _) \<Rightarrow>
         if start_snapshot = expected_snapshot
         then invalid_transition ''structured-commit .git metadata snapshot must change''
         else if list_ex (\<lambda>ob. obs_resource ob \<noteq> obs_resource expected_git
                 \<and> \<not> list_ex (\<lambda>candidate. core_same_state candidate ob) expected) start
         then invalid_transition ''structured-commit tracked observations must remain unchanged''
         else Inr ()
     | _ \<Rightarrow> invalid_transition ''structured-commit .git metadata must be present''))))))"

definition expect_moved ::
  "string \<Rightarrow> string \<Rightarrow> bool \<Rightarrow> resource_observation list \<Rightarrow> resource_observation list \<Rightarrow> unit checked" where
  "expect_moved old_path new_path entry_only start expected =
     bindE (checked_operation_path old_path) (\<lambda>old.
     bindE (checked_operation_path new_path) (\<lambda>new.
     bindE (validate_existing_target_from_set start old entry_only) (\<lambda>(start_object, start_entry).
     bindE (validate_absent_entry_from_set start new) (\<lambda>destination_start.
     bindE (require_shape expected [(Object, new), (Entry, old), (Entry, new)]) (\<lambda>_.
     bindE (validate_existing_target_from_set expected new entry_only) (\<lambda>(post_object, destination_post).
     bindE (validate_absent_entry_from_set expected old) (\<lambda>source_post.
     if rk_resource_id (obs_resource start_object) \<noteq> rk_resource_id (obs_resource post_object)
     then invalid_transition ''rename/move must preserve source object identity''
     else bindE (require_same_resource start_entry source_post ''rename/move source entry'') (\<lambda>_.
       require_same_resource destination_start destination_post
         ''rename/move destination entry''))))))))"

fun validate_expected_transition ::
  "mutation_operation \<Rightarrow> resource_observation list \<Rightarrow> resource_observation list \<Rightarrow> unit checked" where
  "validate_expected_transition (Create path) start expected =
     bindE (checked_operation_path path) (\<lambda>p.
     bindE (validate_absent_entry start p) (\<lambda>start_entry.
     bindE (validate_regular_file expected p) (\<lambda>(_, entry).
     require_same_resource start_entry entry ''create destination entry'')))"
| "validate_expected_transition (Update path) start expected =
     bindE (checked_operation_path path) (\<lambda>p.
     bindE (validate_regular_file start p) (\<lambda>(start_object, start_entry).
     bindE (validate_regular_file expected p) (\<lambda>(post_object, post_entry).
     bindE (require_same_resource start_entry post_entry ''update entry'') (\<lambda>_.
     if rk_resource_id (obs_resource start_object) = rk_resource_id (obs_resource post_object)
     then bindE (object_state_of start_object) (\<lambda>s.
       bindE (object_state_of post_object) (\<lambda>s'.
       if s = s' then invalid_transition
         ''update post-state must change content or rebind object identity'' else Inr ()))
     else Inr ()))))"
| "validate_expected_transition (Delete path entry_only) start expected =
     bindE (checked_operation_path path) (\<lambda>p.
     bindE (validate_existing_target start p entry_only) (\<lambda>(_, start_entry).
     bindE (validate_absent_entry expected p) (\<lambda>post_entry.
     require_same_resource start_entry post_entry ''delete source entry'')))"
| "validate_expected_transition (Rename old_path new_path entry_only) start expected =
     expect_moved old_path new_path entry_only start expected"
| "validate_expected_transition (Move old_path new_path entry_only) start expected =
     expect_moved old_path new_path entry_only start expected"
| "validate_expected_transition (Hardlink old_path new_path) start expected =
     bindE (checked_operation_path old_path) (\<lambda>old.
     bindE (checked_operation_path new_path) (\<lambda>new.
     bindE (validate_regular_file_from_set start old) (\<lambda>(start_object, start_entry).
     bindE (validate_absent_entry_from_set start new) (\<lambda>destination_start.
     bindE (require_shape expected [(Object, old), (Entry, old), (Entry, new)]) (\<lambda>_.
     bindE (validate_regular_file_from_set expected old) (\<lambda>(post_object, source_post).
     bindE (observation_at expected Entry new) (\<lambda>destination_post.
     bindE (validate_present_regular_entry destination_post new) (\<lambda>_.
     bindE (require_same_resource start_object post_object ''hardlink source object'') (\<lambda>_.
     bindE (require_same_resource start_entry source_post ''hardlink source entry'') (\<lambda>_.
     bindE (require_same_resource destination_start destination_post
              ''hardlink destination entry'') (\<lambda>_.
     require_entry_matches_object destination_post post_object)))))))))))"
| "validate_expected_transition (Mkdir path) start expected =
     bindE (checked_operation_path path) (\<lambda>p.
     bindE (validate_absent_entry start p) (\<lambda>start_entry.
     bindE (validate_directory expected p True) (\<lambda>(_, entry).
     require_same_resource start_entry entry ''mkdir destination entry'')))"
| "validate_expected_transition (Rmdir path) start expected =
     bindE (checked_operation_path path) (\<lambda>p.
     bindE (validate_directory start p True) (\<lambda>(_, start_entry).
     bindE (validate_absent_entry expected p) (\<lambda>post_entry.
     require_same_resource start_entry post_entry ''rmdir source entry'')))"
| "validate_expected_transition (WriteDirectory path) start expected =
     bindE (checked_operation_path path) (\<lambda>p.
     bindE (validate_directory_tree start p) (\<lambda>start_tree.
     bindE (validate_directory_tree expected p) (\<lambda>post_tree.
     bindE (require_same_resource start_tree post_tree ''write-directory tree'') (\<lambda>_.
     require_directory_identity start_tree post_tree))))"
| "validate_expected_transition (StructuredCommit tracked_paths) start expected =
     bindE (validate_structured_commit_start tracked_paths expected) (\<lambda>_.
     validate_structured_commit_transition start expected)"

definition validate_operation_transition ::
  "mutation_operation \<Rightarrow> resource_observation list \<Rightarrow> resource_observation list
     \<Rightarrow> resource_observation list \<Rightarrow> unit checked" where
  "validate_operation_transition operation start expected actual =
     bindE (validate_operation_start operation start) (\<lambda>_.
     bindE (validate_expected_transition operation start expected) (\<lambda>_.
     if \<not> observations_equal_as_set expected actual
     then invalid_transition ''actual post-state does not exactly match expected post-state''
     else Inr ()))"

end
