(* ===== verification/Operation_Effects.thy ===== *)
theory Operation_Effects
  imports Operations
begin

section \<open>What an accepted operation establishes\<close>

text \<open>
  The declarative reading of the checks of \<open>Operations\<close>: \<open>footprint\<close> is the set of (kind,
  path) pairs an accepted start presents, \<open>operation_effect\<close> the relation between the presented
  start and post states that an accepted transition satisfies.
\<close>

subsection \<open>Shapes\<close>

definition obs_key :: "resource_observation \<Rightarrow> resource_kind \<times> string" where
  "obs_key ob = (rk_kind (obs_resource ob), rk_canonical_path (obs_resource ob))"

lemma at_key_iff: "at_key kind path ob \<longleftrightarrow> obs_key ob = (kind, path)"
  by (auto simp: at_key_def obs_key_def)

lemma require_known_keys:
  "require_known_resources shape earlier obs = Inr () \<Longrightarrow> ob \<in> set obs \<Longrightarrow> obs_key ob \<in> set shape"
  by (induction shape earlier obs rule: require_known_resources.induct)
    (auto simp: list_ex_iff at_key_iff split: if_splits)

lemma count_map_filter: "count (mset (map f xs)) y = length (filter (\<lambda>x. f x = y) xs)"
  by (induction xs) auto

text \<open>A successful shape check: the (kind, path) pairs are distinct and exactly the shape's, all
  observations are of the declared kind and of one workspace.\<close>

lemma require_shapeD:
  assumes "require_shape obs shape = Inr ()"
  shows "distinct (map obs_key obs)" and "set (map obs_key obs) = set shape"
    and "\<And>ob. ob \<in> set obs \<Longrightarrow> has_matching_resource_kind ob
      \<and> rk_workspace_id (obs_resource ob) = rk_workspace_id (obs_resource (hd obs))
      \<and> rk_workspace_id (obs_resource ob) \<noteq> []"
proof -
  let ?keys = "map obs_key obs"
  from assms have raw: "\<not> list_ex (\<lambda>(kind, path). length (filter (at_key kind path) obs) \<noteq> 1) shape"
      "\<not> list_ex (\<lambda>ob. \<not> has_matching_resource_kind ob
         \<or> rk_workspace_id (obs_resource ob) \<noteq> rk_workspace_id (obs_resource (hd obs))) obs"
    and known: "require_known_resources shape [] obs = Inr ()"
    and ne: "rk_workspace_id (obs_resource (hd obs)) \<noteq> []"
    unfolding require_shape_def Let_def by (simp_all split: if_splits)
  have count: "length (filter (\<lambda>ob. obs_key ob = key) obs) = 1" if "key \<in> set shape" for key
  proof -
    obtain kind path where key: "key = (kind, path)" by (cases key)
    have "at_key kind path = (\<lambda>ob. obs_key ob = key)" by (auto simp: at_key_iff key)
    with raw(1) that key show ?thesis by (auto simp: list_ex_iff)
  qed
  have kinds: "\<forall>ob \<in> set obs. has_matching_resource_kind ob
      \<and> rk_workspace_id (obs_resource ob) = rk_workspace_id (obs_resource (hd obs))"
    using raw(2) by (auto simp: list_ex_iff)
  have keys: "set ?keys \<subseteq> set shape" using require_known_keys [OF known] by auto
  have one: "count (mset ?keys) key = 1" if "key \<in> set shape" for key
    unfolding count_map_filter using count [OF that] .
  have mem: "set shape \<subseteq> set ?keys"
  proof
    fix key assume "key \<in> set shape"
    then have "count (mset ?keys) key > 0" using one by simp
    then show "key \<in> set ?keys" by (metis count_greater_zero_iff set_mset_mset)
  qed
  show "distinct ?keys"
    unfolding distinct_count_atmost_1 using one keys
    by (auto simp: count_eq_zero_iff)
  show "set ?keys = set shape" using keys mem by blast
  show "\<And>ob. ob \<in> set obs \<Longrightarrow> has_matching_resource_kind ob
      \<and> rk_workspace_id (obs_resource ob) = rk_workspace_id (obs_resource (hd obs))
      \<and> rk_workspace_id (obs_resource ob) \<noteq> []"
    using kinds ne by metis
qed

lemma observation_atD:
  assumes "observation_at obs kind path = Inr ob"
  shows "ob \<in> set obs \<and> obs_key ob = (kind, path)"
proof -
  from assms have "filter (at_key kind path) obs = [ob]"
    by (auto simp: observation_at_def split: list.splits)
  then have "ob \<in> set (filter (at_key kind path) obs)" by simp
  then show ?thesis by (simp add: at_key_iff)
qed

lemma observation_at_distinct:
  assumes "distinct (map obs_key obs)" and "ob \<in> set obs" and "obs_key ob = (kind, path)"
  shows "observation_at obs kind path = Inr ob"
proof -
  have "filter (at_key kind path) obs = [ob]"
    using assms
  proof (induction obs)
    case (Cons x xs)
    show ?case
    proof (cases "x = ob")
      case True
      then have "filter (at_key kind path) xs = []"
        using Cons.prems by (auto simp: filter_empty_conv at_key_iff image_iff)
      with True Cons.prems(3) show ?thesis by (simp add: at_key_iff [of kind path ob])
    next
      case False
      then have "\<not> at_key kind path x"
        using Cons.prems by (auto simp: at_key_iff image_iff)
      with False Cons show ?thesis by simp
    qed
  qed simp
  then show ?thesis by (simp add: observation_at_def)
qed

lemma checked_operation_path_normalizes:
  "checked_operation_path p = Inr q \<Longrightarrow> q = normalize_relative_path p"
  by (auto simp: checked_operation_path_def operation_path_def normalize_relative_path_def
      dest: validated_foldl(1))

subsection \<open>The footprint of an accepted start\<close>

definition entry_present :: "resource_observation list \<Rightarrow> string \<Rightarrow> bool" where
  "entry_present obs path =
     (case observation_at obs Entry path of
        Inr (EntryObs _ (EntryPresent _ _ _ _) _) \<Rightarrow> True
      | _ \<Rightarrow> False)"

fun footprint :: "mutation_operation \<Rightarrow> resource_observation list \<Rightarrow> (resource_kind \<times> string) set" where
  "footprint (Create p) obs = {(Entry, normalize_relative_path p)}"
| "footprint (Mkdir p) obs = {(Entry, normalize_relative_path p)}"
| "footprint (Update p) obs = {(Object, normalize_relative_path p), (Entry, normalize_relative_path p)}"
| "footprint (Delete p _) obs = {(Object, normalize_relative_path p), (Entry, normalize_relative_path p)}"
| "footprint (Rename p q _) obs =
     {(Object, normalize_relative_path p), (Entry, normalize_relative_path p), (Entry, normalize_relative_path q)}"
| "footprint (Move p q _) obs =
     {(Object, normalize_relative_path p), (Entry, normalize_relative_path p), (Entry, normalize_relative_path q)}"
| "footprint (Hardlink p q) obs =
     {(Object, normalize_relative_path p), (Entry, normalize_relative_path p), (Entry, normalize_relative_path q)}"
| "footprint (Rmdir p) obs = {(DirectoryTree, normalize_relative_path p), (Entry, normalize_relative_path p)}"
| "footprint (WriteDirectory p) obs = {(DirectoryTree, normalize_relative_path p)}"
| "footprint (StructuredCommit ps) obs =
     insert (DirectoryTree, ''.git'')
       (Pair Entry ` normalize_relative_path ` set ps
        \<union> Pair Object ` {p \<in> normalize_relative_path ` set ps. entry_present obs p})"

lemma normalized_unique_paths_from_set:
  "normalized_unique_paths_from acc ps = Inr qs \<Longrightarrow> set qs = set acc \<union> normalize_relative_path ` set ps"
  by (induction acc ps rule: normalized_unique_paths_from.induct)
    (auto split: if_splits dest: checked_operation_path_normalizes)

lemma commit_shape_set:
  "commit_shape obs ps (shape, present) = Inr (shape', present') \<Longrightarrow>
     set shape' = set shape \<union> Pair Entry ` set ps \<union> Pair Object ` {p \<in> set ps. entry_present obs p}"
proof (induction obs ps "(shape, present)" arbitrary: shape present rule: commit_shape.induct)
  case (2 obs path paths shape present)
  from "2.prems" obtain entry where e: "observation_at obs Entry path = Inr entry"
    by (auto split: if_splits)
  show ?case
  proof (cases entry)
    case (EntryObs r s g)
    show ?thesis
    proof (cases s)
      case EntryAbsent
      with "2.prems" "2.hyps"(1) [OF _ e EntryObs] EntryObs e show ?thesis
        by (auto simp: entry_present_def split: if_splits)
    next
      case (EntryPresent kind dev ino emp)
      with "2.prems" "2.hyps"(2) [OF _ e EntryObs] EntryObs e show ?thesis
        by (auto simp: entry_present_def split: if_splits object_kind.splits)
    qed
  qed (use "2.prems" e in \<open>auto split: if_splits\<close>)
qed simp

lemmas shape_checks =
  validate_absent_entry_def validate_regular_file_def validate_existing_target_def
  validate_symlink_entry_def two_path_start_def validate_directory_def

lemma start_shape:
  assumes "validate_operation_start op obs = Inr ()"
  shows "\<exists>shape. require_shape obs shape = Inr () \<and> set shape = footprint op obs"
proof (cases op)
  case (StructuredCommit ps)
  with assms obtain qs shape present where
    qs: "normalized_unique_paths ps = Inr qs" and
    shape: "commit_shape obs qs ([], []) = Inr (shape, present)" and
    req: "require_shape obs (shape @ [(DirectoryTree, ''.git'')]) = Inr ()"
    by (auto simp: validate_structured_commit_start_def split: prod.splits)
  have "set qs = normalize_relative_path ` set ps"
    using qs normalized_unique_paths_from_set [of "[]" ps qs]
    by (simp add: normalized_unique_paths_def split: if_splits)
  with commit_shape_set [OF shape] req StructuredCommit show ?thesis by auto
qed (use assms in \<open>auto simp: shape_checks split: if_splits dest!: checked_operation_path_normalizes;
       fastforce\<close>)+

text \<open>
  C33. An accepted start presents exactly the footprint of its operation: each (kind, path) pair
  the operation touches once and nothing else, with observations of the declared kinds from one
  workspace. So a lease on the presented resources covers everything the operation changes.
\<close>

theorem operation_start_footprint:
  assumes "validate_operation_start op obs = Inr ()"
  shows "distinct (map obs_key obs) \<and> set (map obs_key obs) = footprint op obs
    \<and> (\<forall>ob \<in> set obs. has_matching_resource_kind ob
         \<and> rk_workspace_id (obs_resource ob) = rk_workspace_id (obs_resource (hd obs)))"
proof -
  obtain shape where "require_shape obs shape = Inr ()" "set shape = footprint op obs"
    using start_shape [OF assms] by blast
  with require_shapeD [of obs shape] show ?thesis by metis
qed

theorem operation_start_footprint_witness:
  "set (map obs_key
     [EntryObs \<lparr>rk_workspace_id = ''w'', rk_kind = Entry, rk_resource_id = ''entry:1:2:a'',
        rk_canonical_path = ''src/a''\<rparr> EntryAbsent 0]) = footprint (Create ''src/a'') []"
  (is "set (map obs_key ?obs) = _")
proof -
  have "validate_operation_start (Create ''src/a'') ?obs = Inr ()" by code_simp
  from operation_start_footprint [OF this] show ?thesis by simp
qed

subsection \<open>The effect of an accepted transition\<close>

definition entry_of :: "resource_observation list \<Rightarrow> string \<Rightarrow> (resource_key \<times> entry_state) option" where
  "entry_of obs path =
     (case observation_at obs Entry path of Inr (EntryObs r s _) \<Rightarrow> Some (r, s) | _ \<Rightarrow> None)"

definition object_of :: "resource_observation list \<Rightarrow> string \<Rightarrow> (resource_key \<times> object_state) option" where
  "object_of obs path =
     (case observation_at obs Object path of Inr (ObjectObs r s _) \<Rightarrow> Some (r, s) | _ \<Rightarrow> None)"

definition tree_of :: "resource_observation list \<Rightarrow> string \<Rightarrow> (resource_key \<times> directory_tree_state) option" where
  "tree_of obs path =
     (case observation_at obs DirectoryTree path of Inr (TreeObs r s _) \<Rightarrow> Some (r, s) | _ \<Rightarrow> None)"

text \<open>A file of the given kind is bound at the path: entry and object agree on the inode.\<close>

definition bound_at ::
  "object_kind \<Rightarrow> resource_observation list \<Rightarrow> string \<Rightarrow> resource_key \<Rightarrow> resource_key \<Rightarrow> object_state \<Rightarrow> bool" where
  "bound_at kind obs path entry object state \<longleftrightarrow>
     (\<exists>dev ino. entry_of obs path = Some (entry, EntryPresent kind dev ino None)
       \<and> object_of obs path = Some (object, state) \<and> state \<noteq> ObjectAbsent
       \<and> rk_resource_id object = object_id dev ino)"

definition target_kind :: "bool \<Rightarrow> object_kind" where
  "target_kind entry_only = (if entry_only then Symlink else RegularFile)"

definition moved ::
  "string \<Rightarrow> string \<Rightarrow> bool \<Rightarrow> resource_observation list \<Rightarrow> resource_observation list \<Rightarrow> bool" where
  "moved old new entry_only start post \<longleftrightarrow>
     (\<exists>e_old e_new o_old o_new s_old s_new.
        bound_at (target_kind entry_only) start old e_old o_old s_old
        \<and> entry_of start new = Some (e_new, EntryAbsent)
        \<and> bound_at (target_kind entry_only) post new e_new o_new s_new
        \<and> entry_of post old = Some (e_old, EntryAbsent)
        \<and> rk_resource_id o_old = rk_resource_id o_new)"

fun operation_effect ::
  "mutation_operation \<Rightarrow> resource_observation list \<Rightarrow> resource_observation list \<Rightarrow> bool" where
  "operation_effect (Create p) start post \<longleftrightarrow>
     (\<exists>e ob s. entry_of start (normalize_relative_path p) = Some (e, EntryAbsent)
        \<and> bound_at RegularFile post (normalize_relative_path p) e ob s)"
| "operation_effect (Update p) start post \<longleftrightarrow>
     (\<exists>e ob s ob' s'. bound_at RegularFile start (normalize_relative_path p) e ob s
        \<and> bound_at RegularFile post (normalize_relative_path p) e ob' s'
        \<and> (rk_resource_id ob = rk_resource_id ob' \<longrightarrow> s \<noteq> s'))"
| "operation_effect (Delete p entry_only) start post \<longleftrightarrow>
     (\<exists>e ob s. bound_at (target_kind entry_only) start (normalize_relative_path p) e ob s
        \<and> entry_of post (normalize_relative_path p) = Some (e, EntryAbsent))"
| "operation_effect (Rename p q entry_only) start post \<longleftrightarrow>
     moved (normalize_relative_path p) (normalize_relative_path q) entry_only start post"
| "operation_effect (Move p q entry_only) start post \<longleftrightarrow>
     moved (normalize_relative_path p) (normalize_relative_path q) entry_only start post"
| "operation_effect (Hardlink p q) start post \<longleftrightarrow>
     (\<exists>e e' ob s s' dev ino. bound_at RegularFile start (normalize_relative_path p) e ob s
        \<and> entry_of start (normalize_relative_path q) = Some (e', EntryAbsent)
        \<and> bound_at RegularFile post (normalize_relative_path p) e ob s'
        \<and> entry_of post (normalize_relative_path q) = Some (e', EntryPresent RegularFile dev ino None)
        \<and> rk_resource_id ob = object_id dev ino)"
| "operation_effect (Mkdir p) start post \<longleftrightarrow>
     (\<exists>e t dev ino snap. entry_of start (normalize_relative_path p) = Some (e, EntryAbsent)
        \<and> entry_of post (normalize_relative_path p) = Some (e, EntryPresent Directory dev ino (Some True))
        \<and> tree_of post (normalize_relative_path p) = Some (t, TreePresent dev ino snap 0))"
| "operation_effect (Rmdir p) start post \<longleftrightarrow>
     (\<exists>e t dev ino snap. entry_of start (normalize_relative_path p)
          = Some (e, EntryPresent Directory dev ino (Some True))
        \<and> tree_of start (normalize_relative_path p) = Some (t, TreePresent dev ino snap 0)
        \<and> entry_of post (normalize_relative_path p) = Some (e, EntryAbsent))"
| "operation_effect (WriteDirectory p) start post \<longleftrightarrow>
     (\<exists>t dev ino snap n snap' n'. tree_of start (normalize_relative_path p) = Some (t, TreePresent dev ino snap n)
        \<and> tree_of post (normalize_relative_path p) = Some (t, TreePresent dev ino snap' n'))"
| "operation_effect (StructuredCommit ps) start post \<longleftrightarrow>
     (\<exists>t dev ino snap n snap' n'. tree_of start ''.git'' = Some (t, TreePresent dev ino snap n)
        \<and> tree_of post ''.git'' = Some (t, TreePresent dev ino snap' n') \<and> snap \<noteq> snap'
        \<and> (\<forall>ob \<in> set start. obs_resource ob \<noteq> t \<longrightarrow> (\<exists>ob' \<in> set post. core_same_state ob' ob)))"

text \<open>What the validators return, read off in terms of the lookups.\<close>

lemma absent_entryD:
  "validate_absent_entry_from_set obs p = Inr e \<Longrightarrow> entry_of obs p = Some (obs_resource e, EntryAbsent)"
  by (auto simp: validate_absent_entry_from_set_def entry_of_def
      split: resource_observation.splits entry_state.splits)

lemma present_entryD:
  assumes "validate_present_entry k m w e p = Inr ()"
  shows "\<exists>r dev ino g. e = EntryObs r (EntryPresent k dev ino None) g"
  using assms by (auto simp: validate_present_entry_def
      split: resource_observation.splits entry_state.splits if_splits)

lemma regular_fileD:
  "validate_regular_file_from_set obs p = Inr (ob, e) \<Longrightarrow>
     \<exists>s. bound_at RegularFile obs p (obs_resource e) (obs_resource ob) s \<and> object_state_of ob = Inr s"
  by (auto simp: validate_regular_file_from_set_def bound_at_def entry_of_def object_of_def
        validate_present_regular_entry_def object_state_of_def dest!: present_entryD
      split: resource_observation.splits object_state.splits if_splits)

lemma symlinkD:
  "validate_symlink_entry_from_set obs p = Inr (ob, e) \<Longrightarrow>
     \<exists>s. bound_at Symlink obs p (obs_resource e) (obs_resource ob) s \<and> object_state_of ob = Inr s"
  by (auto simp: validate_symlink_entry_from_set_def bound_at_def entry_of_def object_of_def
        validate_present_symlink_entry_def object_state_of_def dest!: present_entryD
      split: resource_observation.splits object_state.splits if_splits)

lemma existing_targetD:
  "validate_existing_target_from_set obs p entry_only = Inr (ob, e) \<Longrightarrow>
     \<exists>s. bound_at (target_kind entry_only) obs p (obs_resource e) (obs_resource ob) s"
  using regular_fileD [of obs p ob e] symlinkD [of obs p ob e]
  by (auto simp: validate_existing_target_from_set_def target_kind_def split: if_splits)

lemma directory_treeD:
  "validate_directory_tree_from_set obs p = Inr t \<Longrightarrow>
     \<exists>dev ino snap n. tree_of obs p = Some (obs_resource t, TreePresent dev ino snap n)
       \<and> directory_tree_state_of t = Inr (TreePresent dev ino snap n)"
  by (auto simp: validate_directory_tree_from_set_def tree_of_def directory_tree_state_of_def
      split: resource_observation.splits directory_tree_state.splits if_splits)

lemma directoryD:
  "validate_directory obs p True = Inr (t, e) \<Longrightarrow>
     \<exists>dev ino snap. tree_of obs p = Some (obs_resource t, TreePresent dev ino snap 0)
       \<and> entry_of obs p = Some (obs_resource e, EntryPresent Directory dev ino (Some True))"
  by (auto simp: validate_directory_def entry_of_def dest!: directory_treeD
      split: resource_observation.splits entry_state.splits if_splits)

lemma same_resourceD: "require_same_resource a b role = Inr () \<Longrightarrow> obs_resource a = obs_resource b"
  by (simp add: require_same_resource_def split: if_splits)

lemma directory_identityD:
  "require_directory_identity a b = Inr () \<Longrightarrow>
     \<exists>dev ino s n s' n'. directory_tree_state_of a = Inr (TreePresent dev ino s n)
       \<and> directory_tree_state_of b = Inr (TreePresent dev ino s' n')"
  by (auto simp: require_directory_identity_def split: directory_tree_state.splits if_splits)

lemmas validator_dests = absent_entryD regular_fileD existing_targetD directory_treeD directoryD
  same_resourceD directory_identityD checked_operation_path_normalizes

subsection \<open>From the expected to the actual post state\<close>

lemma core_same_stateD:
  "core_same_state a b \<Longrightarrow> obs_resource a = obs_resource b \<and> obs_key a = obs_key b"
  by (cases "(a, b)" rule: core_same_state.cases) (auto simp: obs_key_def)

lemma core_same_state_iff:
  "core_same_state a (ObjectObs r os g) \<longleftrightarrow> (\<exists>h. a = ObjectObs r os h)"
  "core_same_state a (EntryObs r es g) \<longleftrightarrow> (\<exists>h. a = EntryObs r es h)"
  "core_same_state a (TreeObs r ts g) \<longleftrightarrow> (\<exists>h. a = TreeObs r ts h)"
  by (cases a; auto)+

lemma equal_as_set_distinct:
  assumes "observations_equal_as_set expected actual" and "distinct (map obs_key expected)"
  shows "distinct (map obs_key actual)"
proof -
  have sub: "set (map obs_key expected) \<subseteq> set (map obs_key actual)"
  proof
    fix key assume "key \<in> set (map obs_key expected)"
    then obtain ob where "ob \<in> set expected" and key: "key = obs_key ob" by auto
    then obtain ob' where "ob' \<in> set actual" "core_same_state ob' ob"
      using assms(1) by (auto simp: observations_equal_as_set_def list_all_iff list_ex_iff)
    then show "key \<in> set (map obs_key actual)" using core_same_stateD [of ob' ob] key by (auto simp: rev_image_eqI)
  qed
  have "length (map obs_key actual) = card (set (map obs_key expected))"
    using assms distinct_card [OF assms(2)] by (simp add: observations_equal_as_set_def)
  also have "\<dots> \<le> card (set (map obs_key actual))" by (rule card_mono) (use sub in simp_all)
  finally show ?thesis using card_length [of "map obs_key actual"] by (intro card_distinct) simp
qed

lemma equal_as_set_lookup:
  assumes "observations_equal_as_set expected actual" and "distinct (map obs_key expected)"
    and "observation_at expected k p = Inr ob"
  shows "\<exists>ob'. observation_at actual k p = Inr ob' \<and> core_same_state ob' ob"
proof -
  from assms(1,3) obtain ob' where "ob' \<in> set actual" "core_same_state ob' ob"
    by (auto simp: observations_equal_as_set_def list_all_iff list_ex_iff dest: observation_atD)
  with equal_as_set_distinct [OF assms(1,2)] observation_atD [OF assms(3)]
  show ?thesis using observation_at_distinct core_same_stateD by metis
qed

lemma lookups_transfer:
  assumes "observations_equal_as_set expected actual" and "distinct (map obs_key expected)"
  shows "entry_of expected p = Some x \<Longrightarrow> entry_of actual p = Some x"
    and "object_of expected p = Some y \<Longrightarrow> object_of actual p = Some y"
    and "tree_of expected p = Some z \<Longrightarrow> tree_of actual p = Some z"
proof -
  show "entry_of expected p = Some x \<Longrightarrow> entry_of actual p = Some x"
    using equal_as_set_lookup [OF assms, of Entry p]
    by (auto simp: entry_of_def core_same_state_iff split: sum.splits resource_observation.splits)
  show "object_of expected p = Some y \<Longrightarrow> object_of actual p = Some y"
    using equal_as_set_lookup [OF assms, of Object p]
    by (auto simp: object_of_def core_same_state_iff split: sum.splits resource_observation.splits)
  show "tree_of expected p = Some z \<Longrightarrow> tree_of actual p = Some z"
    using equal_as_set_lookup [OF assms, of DirectoryTree p]
    by (auto simp: tree_of_def core_same_state_iff split: sum.splits resource_observation.splits)
qed

lemma effect_transfer:
  assumes "observations_equal_as_set expected actual" and "distinct (map obs_key expected)"
    and "operation_effect op start expected"
  shows "operation_effect op start actual"
proof -
  note t = lookups_transfer [OF assms(1,2)]
  have b: "bound_at k actual p e ob s" if "bound_at k expected p e ob s" for k p e ob s
    using that t unfolding bound_at_def by blast
  have m: "moved p q eo start actual" if "moved p q eo start expected" for p q eo
    using that t b unfolding moved_def by blast
  have c: "\<exists>ob' \<in> set actual. core_same_state ob' ob" if "\<exists>ob' \<in> set expected. core_same_state ob' ob" for ob
  proof -
    from that obtain o1 where o1: "o1 \<in> set expected" "core_same_state o1 ob" by blast
    then obtain o2 where "o2 \<in> set actual" "core_same_state o2 o1"
      using assms(1) by (auto simp: observations_equal_as_set_def list_all_iff list_ex_iff)
    with o1 have "core_same_state o2 ob"
      by (cases "(o2, o1)" rule: core_same_state.cases; cases ob) auto
    with \<open>o2 \<in> set actual\<close> show ?thesis by blast
  qed
  show ?thesis
  proof (cases op)
    case (StructuredCommit ps)
    then show ?thesis
      using assms(3) t(3) c unfolding StructuredCommit operation_effect.simps by meson
  next
    case (Update p)
    then show ?thesis
      using assms(3) b unfolding Update operation_effect.simps by meson
  next
    case (Hardlink p q)
    then show ?thesis
      using assms(3) t(1) b unfolding Hardlink operation_effect.simps by meson
  qed (use assms(3) in \<open>auto dest!: t b m\<close>)
qed

lemma expected_distinct:
  assumes "validate_expected_transition op start expected = Inr ()"
  shows "distinct (map obs_key expected)"
proof -
  have "\<exists>shape. require_shape expected shape = Inr ()"
    using assms
    by (cases op) (auto simp: shape_checks expect_moved_def validate_directory_tree_def
        validate_structured_commit_start_def split: prod.splits if_splits)
  then show ?thesis using require_shapeD(1) by blast
qed

lemma expected_effect:
  assumes "validate_expected_transition op start expected = Inr ()"
  shows "operation_effect op start expected"
proof (cases op)
  case (Create p)
  with assms show ?thesis
    by (auto simp: validate_absent_entry_def validate_regular_file_def dest!: validator_dests) blast
next
  case (Update p)
  with assms show ?thesis
    by (auto simp: validate_regular_file_def dest!: validator_dests split: if_splits) blast+
next
  case (Delete p eo)
  with assms show ?thesis
    by (cases eo) (auto simp: validate_existing_target_def validate_regular_file_def target_kind_def
        validate_symlink_entry_def validate_absent_entry_def dest!: validator_dests symlinkD; blast)+
next
  case (Rename p q eo)
  with assms show ?thesis
    by (auto simp: expect_moved_def moved_def dest!: validator_dests split: if_splits) blast
next
  case (Move p q eo)
  with assms show ?thesis
    by (auto simp: expect_moved_def moved_def dest!: validator_dests split: if_splits) blast
next
  case (Mkdir p)
  with assms show ?thesis
    by (auto simp: validate_absent_entry_def dest!: validator_dests)
next
  case (Rmdir p)
  with assms show ?thesis
    by (auto simp: validate_absent_entry_def dest!: validator_dests)
next
  case (WriteDirectory p)
  with assms show ?thesis
    by (auto simp: validate_directory_tree_def dest!: validator_dests)
next
  case (Hardlink p q)
  let ?old = "normalize_relative_path p" and ?new = "normalize_relative_path q"
  from assms Hardlink obtain so se ds po sp dp where
    v: "validate_regular_file_from_set start ?old = Inr (so, se)"
      "validate_absent_entry_from_set start ?new = Inr ds"
      "validate_regular_file_from_set expected ?old = Inr (po, sp)"
    and at: "observation_at expected Entry ?new = Inr dp"
      "validate_present_regular_entry dp ?new = Inr ()"
    and same: "obs_resource so = obs_resource po" "obs_resource se = obs_resource sp"
      "obs_resource ds = obs_resource dp"
    and m: "require_entry_matches_object dp po = Inr ()"
    by (auto dest!: same_resourceD checked_operation_path_normalizes)
  obtain r dev ino g where dp: "dp = EntryObs r (EntryPresent RegularFile dev ino None) g"
    using present_entryD at(2) unfolding validate_present_regular_entry_def by blast
  then have id: "rk_resource_id (obs_resource po) = object_id dev ino"
    using m by (simp add: require_entry_matches_object_def split: if_splits)
  have "entry_of expected ?new = Some (obs_resource ds, EntryPresent RegularFile dev ino None)"
    using at(1) dp same(3) by (simp add: entry_of_def)
  then show ?thesis
    using regular_fileD [OF v(1)] absent_entryD [OF v(2)] regular_fileD [OF v(3)] id
    unfolding Hardlink operation_effect.simps same by blast
next
  case (StructuredCommit ps)
  from assms StructuredCommit obtain sg eg s e where
    v: "validate_directory_tree_from_set start ''.git'' = Inr sg"
      "validate_directory_tree_from_set expected ''.git'' = Inr eg"
    and same: "obs_resource sg = obs_resource eg"
    and ident: "require_directory_identity sg eg = Inr ()"
    and st: "directory_tree_state_of sg = Inr s" "directory_tree_state_of eg = Inr e"
    and rest: "(case (s, e) of (TreePresent _ _ a _, TreePresent _ _ b _) \<Rightarrow>
         if a = b then invalid_transition ''structured-commit .git metadata snapshot must change''
         else if list_ex (\<lambda>ob. obs_resource ob \<noteq> obs_resource eg
                 \<and> \<not> list_ex (\<lambda>candidate. core_same_state candidate ob) expected) start
         then invalid_transition ''structured-commit tracked observations must remain unchanged''
         else Inr ()
       | _ \<Rightarrow> invalid_transition ''structured-commit .git metadata must be present'') = Inr ()"
    by (auto simp: validate_structured_commit_transition_def dest!: same_resourceD)
  obtain dev ino a n b m where p: "s = TreePresent dev ino a n" "e = TreePresent dev ino b m"
    using directory_identityD [OF ident] st by auto
  have "tree_of start ''.git'' = Some (obs_resource eg, s)" "tree_of expected ''.git'' = Some (obs_resource eg, e)"
    using directory_treeD [OF v(1)] directory_treeD [OF v(2)] st same by auto
  moreover have "a \<noteq> b" "\<forall>ob \<in> set start. obs_resource ob \<noteq> obs_resource eg \<longrightarrow>
      (\<exists>ob' \<in> set expected. core_same_state ob' ob)"
    using rest p by (auto simp: list_ex_iff split: if_splits)
  ultimately show ?thesis unfolding StructuredCommit operation_effect.simps p by blast
qed



end
