(* ===== verification/Tables.thy ===== *)
theory Tables
  imports Prelude
begin

section \<open>SQL tables as row lists\<close>

text \<open>
  The store keeps its state in SQLite tables (\<^verbatim>\<open>src/crates/stateful-store/src/schema_v2.rs\<close>).
  A table is the list of its rows in \<open>rowid\<close> order. \<open>UPDATE ... SET ... WHERE\<close> is
  \<open>sql_update\<close>, \<open>DELETE ... WHERE\<close> is \<open>sql_delete\<close>, \<open>SELECT COUNT(*)\<close> is \<open>sql_count\<close>,
  \<open>SELECT EXISTS\<close> is \<open>sql_exists\<close> and \<open>query_row(...).optional()\<close> is \<open>sql_first\<close>. An
  \<open>INSERT\<close> is checked against the primary key and the unique indexes of its table
  (\<open>sql_insert\<close>): a violated constraint is an error, as it is in SQLite.

  A unique index is a function from rows to optional keys: \<open>None\<close> is a row that a partial
  index (\<open>CREATE UNIQUE INDEX ... WHERE\<close>) does not cover. The locale \<open>unique_index\<close> is the
  contract of a guarded insert; its lemmas say that no statement of the store can make an
  index ambiguous. The tables of the store interpret it, one interpretation per constraint.
\<close>

definition sql_update :: "('r \<Rightarrow> bool) \<Rightarrow> ('r \<Rightarrow> 'r) \<Rightarrow> 'r list \<Rightarrow> 'r list" where
  "sql_update p f rows = map (\<lambda>r. if p r then f r else r) rows"

definition sql_delete :: "('r \<Rightarrow> bool) \<Rightarrow> 'r list \<Rightarrow> 'r list" where
  "sql_delete p rows = filter (\<lambda>r. \<not> p r) rows"

definition sql_count :: "('r \<Rightarrow> bool) \<Rightarrow> 'r list \<Rightarrow> nat" where
  "sql_count p rows = length (filter p rows)"

definition sql_exists :: "('r \<Rightarrow> bool) \<Rightarrow> 'r list \<Rightarrow> bool" where
  "sql_exists p rows = list_ex p rows"

definition sql_first :: "('r \<Rightarrow> bool) \<Rightarrow> 'r list \<Rightarrow> 'r option" where
  "sql_first p rows = List.find p rows"

text \<open>\<open>sql_insert clash e r rows\<close> appends \<open>r\<close> unless it clashes with a stored row.\<close>

definition sql_insert :: "('r \<Rightarrow> 'r \<Rightarrow> bool) \<Rightarrow> 'e \<Rightarrow> 'r \<Rightarrow> 'r list \<Rightarrow> 'e + 'r list" where
  "sql_insert clash e r rows = (if list_ex (clash r) rows then Inl e else Inr (rows @ [r]))"

lemma set_sql_update: "set (sql_update p f rows) = {r \<in> set rows. \<not> p r} \<union> f ` {r \<in> set rows. p r}"
  by (auto simp: sql_update_def)

lemma in_sql_updateE:
  assumes "r \<in> set (sql_update p f rows)"
  obtains "r \<in> set rows" "\<not> p r" | r0 where "r0 \<in> set rows" "p r0" "r = f r0"
  using assms by (auto simp: sql_update_def split: if_splits)

lemma set_sql_delete [simp]: "set (sql_delete p rows) = {r \<in> set rows. \<not> p r}"
  by (auto simp: sql_delete_def)

lemma sql_count_eq_0 [simp]: "sql_count p rows = 0 \<longleftrightarrow> (\<forall>r \<in> set rows. \<not> p r)"
  by (simp add: sql_count_def filter_empty_conv)

lemma sql_exists_iff [simp]: "sql_exists p rows \<longleftrightarrow> (\<exists>r \<in> set rows. p r)"
  by (simp add: sql_exists_def list_ex_iff)

lemma sql_firstD: "sql_first p rows = Some r \<Longrightarrow> r \<in> set rows \<and> p r"
  by (auto simp: sql_first_def find_Some_iff)

lemma sql_first_None [simp]: "sql_first p rows = None \<longleftrightarrow> (\<forall>r \<in> set rows. \<not> p r)"
  by (auto simp: sql_first_def find_None_iff)

lemma sql_insert_eq_Inr:
  "sql_insert clash e r rows = Inr rows' \<longleftrightarrow>
     rows' = rows @ [r] \<and> (\<forall>s \<in> set rows. \<not> clash r s)"
  by (auto simp: sql_insert_def list_ex_iff)

lemma sql_update_sql_update_id: "(\<And>r. p r \<Longrightarrow> f r = r) \<Longrightarrow> sql_update p f rows = rows"
  by (auto simp: sql_update_def intro: map_idI)

subsection \<open>Unique indexes\<close>

definition unique_by :: "('r \<Rightarrow> 'k option) \<Rightarrow> 'r list \<Rightarrow> bool" where
  "unique_by index rows = sorted_wrt (\<lambda>a b. index a = None \<or> index a \<noteq> index b) rows"

lemma unique_by_Nil [simp]: "unique_by index []"
  by (simp add: unique_by_def)

lemma unique_by_snoc:
  "unique_by index (rows @ [r]) \<longleftrightarrow>
     unique_by index rows \<and> (\<forall>s \<in> set rows. index s = None \<or> index s \<noteq> index r)"
  by (simp add: unique_by_def sorted_wrt_append)

lemma unique_by_sql_delete: "unique_by index rows \<Longrightarrow> unique_by index (sql_delete p rows)"
  by (simp add: unique_by_def sql_delete_def sorted_wrt_filter)

text \<open>An update that keeps a row's key, or takes the row out of the index, keeps uniqueness.\<close>

lemma unique_by_map:
  assumes "unique_by index rows" and "\<And>r. index (f r) = None \<or> index (f r) = index r"
  shows "unique_by index (map f rows)"
  using assms(1) unfolding unique_by_def sorted_wrt_map
  by (rule sorted_wrt_mono_rel [rotated]) (metis assms(2))

lemma unique_by_sql_update:
  assumes "unique_by index rows" and "\<And>r. p r \<Longrightarrow> index (f r) = None \<or> index (f r) = index r"
  shows "unique_by index (sql_update p f rows)"
  unfolding sql_update_def by (rule unique_by_map [OF assms(1)]) (use assms(2) in auto)

lemma unique_byD:
  assumes "unique_by index rows" and "a \<in> set rows" "b \<in> set rows"
    and "index a = Some k" "index b = Some k"
  shows "a = b"
  using assms unfolding unique_by_def
proof (induction rows)
  case (Cons r rows)
  then have "\<forall>x \<in> set rows. index r = None \<or> index r \<noteq> index x" by simp
  with Cons.prems(2-5) have "a = b \<or> a \<in> set rows \<and> b \<in> set rows" by auto
  with Cons show ?case by auto
qed simp

lemma unique_by_comp:
  assumes "unique_by index rows" and "\<And>a b. index' a = index' b \<Longrightarrow> index' a \<noteq> None \<Longrightarrow>
    index a = index b \<and> index a \<noteq> None"
  shows "unique_by index' rows"
  using assms(1) unfolding unique_by_def
  by (rule sorted_wrt_mono_rel [rotated]) (metis assms(2))

text \<open>
  The contract of a guarded \<open>INSERT\<close> on an indexed table: when it succeeds, the new row is
  the last one and no stored row has its key.
\<close>

locale unique_index =
  fixes index :: "'r \<Rightarrow> 'k option"
    and insert_row :: "'r \<Rightarrow> 'r list \<Rightarrow> 'e + 'r list"
  assumes insert_appends: "insert_row r rows = Inr rows' \<Longrightarrow> rows' = rows @ [r]"
    and insert_fresh: "insert_row r rows = Inr rows' \<Longrightarrow> s \<in> set rows \<Longrightarrow>
      index s = None \<or> index s \<noteq> index r"
begin

lemma insert_unique: "insert_row r rows = Inr rows' \<Longrightarrow> unique_by index rows \<Longrightarrow> unique_by index rows'"
  using insert_appends insert_fresh by (metis unique_by_snoc)

lemma insert_set: "insert_row r rows = Inr rows' \<Longrightarrow> set rows' = insert r (set rows)"
  by (auto dest: insert_appends)

text \<open>What the lookup by key finds after the insert is the inserted row.\<close>

lemma insert_lookup:
  assumes "insert_row r rows = Inr rows'" and "index r = Some k"
  shows "sql_first (\<lambda>s. index s = Some k) rows' = Some r"
proof -
  have "List.find (\<lambda>s. index s = Some k) rows = None"
    using insert_fresh [OF assms(1)] assms(2) unfolding find_None_iff by fastforce
  moreover have "find P (xs @ [y]) = (case find P xs of None \<Rightarrow> (if P y then Some y else None) | Some z \<Rightarrow> Some z)"
    for P and xs :: "'r list" and y by (induction xs) auto
  ultimately show ?thesis
    using insert_appends [OF assms(1)] assms(2) by (simp add: sql_first_def)
qed

end

end
