(* ===== verification/Store_Db.thy ===== *)
theory Store_Db
  imports Operations Tables
begin

section \<open>The store's database\<close>

text \<open>
  The schema of \<^verbatim>\<open>src/crates/stateful-store/src/schema_v2.rs\<close>: one row record per table, the
  record \<open>db\<close> of all tables, and an insert function per table that checks the primary key,
  the unique indexes and the foreign key of the schema. A \<open>CHECK (... IN (...))\<close> column is a
  datatype with those values. A JSON column holds the value whose serialisation it stores.

  Environment. Code outside the repository is the record \<open>env\<close>, a parameter of every
  operation: \<open>parse_rfc3339\<close> and \<open>format_rfc3339\<close> (crate \<open>time\<close>, an instant is its
  number of nanoseconds), \<open>representable\<close> (the instants \<open>OffsetDateTime\<close> can hold: its
  arithmetic panics outside), \<open>uuid\<close> (the version 4 UUIDs, in the order they are drawn) and
  \<open>blake3_hex\<close>. Time stamps in the database are compared as text, as the SQL does.

  Each unique constraint of the schema is an interpretation of \<open>unique_index\<close>.
\<close>

record env =
  parse_rfc3339 :: "string \<Rightarrow> int option"
  format_rfc3339 :: "int \<Rightarrow> string option"
  representable :: "int \<Rightarrow> bool"
  uuid :: "nat \<Rightarrow> string"
  blake3_hex :: "string \<Rightarrow> string"

text \<open>\<open>StoreError\<close>, and \<open>Panic\<close> for a Rust panic inside a store call.\<close>

datatype store_error =
    StoreIo string
  | Sqlite string
  | StoreJson string
  | InvalidTimestamp string
  | InvalidInput string
  | IdempotencyMismatch
  | NotFound string
  | Ownership string
  | InvalidState string
  | Corrupt string
  | Panic string

type_synonym 'a result = "store_error + 'a"

subsection \<open>Rows\<close>

record task_row =
  t_workspace_id :: string
  t_task_id :: string
  t_agent_id :: string
  t_status :: task_status
  t_terminal_status :: "task_status option"
  t_next_action :: string
  t_settings :: coordination_settings
  t_handoff :: "string option"
  t_heartbeat_at :: string
  t_expires_at :: string
  t_created_at :: string
  t_updated_at :: string

datatype process_status = ProcessActive | ProcessTerminated | ProcessUnknown

record process_row =
  p_workspace_id :: string
  p_agent_id :: string
  p_pid :: nat
  p_process_start_identity :: string
  p_status :: process_status
  p_heartbeat_at :: string

text \<open>The \<open>state_json\<close> column: the serialised \<open>observed\<close> field of an observation.\<close>

datatype resource_state =
    ObjectSt object_state
  | EntrySt entry_state
  | TreeSt directory_tree_state

record resource_row =
  r_workspace_id :: string
  r_resource_id :: string
  r_kind :: resource_kind
  r_canonical_path :: string
  r_state :: resource_state
  r_generation :: nat
  r_updated_at :: string

record alias_row =
  a_workspace_id :: string
  a_resource_id :: string
  a_canonical_path :: string

datatype source_kind = SourceRead | SourceOwnWrite

record evidence_row =
  e_evidence_id :: string
  e_workspace_id :: string
  e_task_id :: string
  e_source_kind :: source_kind
  e_source_id :: string
  e_resource_id :: string
  e_resource_kind :: resource_kind
  e_canonical_path :: string
  e_observation :: resource_observation
  e_generation :: nat
  e_complete :: bool
  e_stable :: bool
  e_exact :: bool
  e_valid :: bool
  e_recorded_at :: string
  e_read_started_at :: "string option"

datatype intent_status = IntentActive | IntentRevoked | IntentReleased

record intent_row =
  i_workspace_id :: string
  i_task_id :: string
  i_resource_id :: string
  i_resource_kind :: resource_kind
  i_canonical_path :: string
  i_evidence_id :: string
  i_status :: intent_status
  i_created_at :: string
  i_read_started_at :: string

datatype lease_mode = ExclusiveWrite | ExclusiveDirectory

datatype lease_row_state = LeaseActive | LeaseDraining

record lease_row =
  l_batch_id :: string
  l_workspace_id :: string
  l_task_id :: string
  l_agent_id :: string
  l_mode :: lease_mode
  l_state :: lease_row_state
  l_version :: nat
  l_acquired_at :: string
  l_expires_at :: string
  l_release_pending :: bool

record lease_resource_row =
  lr_batch_id :: string
  lr_workspace_id :: string
  lr_resource_id :: string
  lr_resource_kind :: resource_kind
  lr_canonical_path :: string
  lr_acquired_generation :: nat
  lr_in_flight_attempt_id :: "string option"

record request_row =
  q_batch_id :: string
  q_workspace_id :: string
  q_task_id :: string
  q_agent_id :: string
  q_mode :: lease_mode
  q_state :: lease_request_state
  q_version :: nat
  q_queue_sequence :: nat
  q_offer_id :: "string option"
  q_offered_at :: "string option"
  q_offer_expires_at :: "string option"
  q_superseded_by :: "string option"
  q_expires_at :: string
  q_created_at :: string
  q_updated_at :: string

record request_resource_row =
  qr_batch_id :: string
  qr_workspace_id :: string
  qr_resource_id :: string
  qr_resource_kind :: resource_kind
  qr_canonical_path :: string

datatype read_row_status = ReadRowStarted | ReadRowCompleted | ReadRowFailed

record read_attempt_row =
  ra_read_id :: string
  ra_workspace_id :: string
  ra_task_id :: string
  ra_invocation_id :: string
  ra_resources :: "resource_observation list"
  ra_status :: read_row_status
  ra_started_at :: string
  ra_completed_at :: "string option"

datatype write_row_status = Executing | WriteCompleted | WriteFailed | WriteUncertain

record write_attempt_row =
  wa_attempt_id :: string
  wa_permit_id :: string
  wa_workspace_id :: string
  wa_task_id :: string
  wa_invocation_id :: string
  wa_batch_id :: string
  wa_operation :: mutation_operation
  wa_start_observations :: "resource_observation list"
  wa_status :: write_row_status
  wa_started_at :: string
  wa_deadline :: string
  wa_completed_at :: "string option"
  wa_terminal_result :: "write_complete_input option"

record event_row =
  ce_event_id :: string
  ce_workspace_id :: string
  ce_task_id :: string
  ce_agent_id :: string
  ce_request_id :: string
  ce_contract_revision :: string
  ce_command_kind :: string
  ce_payload :: json
  ce_response :: command_response
  ce_recorded_at :: string

record receipt_row =
  cr_workspace_id :: string
  cr_agent_id :: string
  cr_request_id :: string
  cr_contract_revision :: string
  cr_command_kind :: string
  cr_payload_digest :: string
  cr_response :: command_response
  cr_recorded_at :: string

record audit_row =
  au_event_id :: string
  au_workspace_id :: string
  au_task_id :: "string option"
  au_agent_id :: string
  au_event_type :: string
  au_payload :: json
  au_created_at :: string

text \<open>The tables, the persistent lease queue counter, and the number of UUIDs drawn.\<close>

record db =
  tasks :: "task_row list"
  runtime_processes :: "process_row list"
  resources :: "resource_row list"
  resource_aliases :: "alias_row list"
  resource_evidence :: "evidence_row list"
  read_intents :: "intent_row list"
  active_leases :: "lease_row list"
  lease_resources :: "lease_resource_row list"
  lease_requests :: "request_row list"
  lease_request_resources :: "request_resource_row list"
  read_attempts :: "read_attempt_row list"
  write_attempts :: "write_attempt_row list"
  command_events :: "event_row list"
  command_receipts :: "receipt_row list"
  audit_events :: "audit_row list"
  lease_queue :: nat
  uuids_drawn :: nat

definition create_v2_schema :: db where
  "create_v2_schema =
     \<lparr>tasks = [], runtime_processes = [], resources = [], resource_aliases = [],
      resource_evidence = [], read_intents = [], active_leases = [], lease_resources = [],
      lease_requests = [], lease_request_resources = [], read_attempts = [], write_attempts = [],
      command_events = [], command_receipts = [], audit_events = [], lease_queue = 0,
      uuids_drawn = 0\<rparr>"

text \<open>\<open>Uuid::new_v4()\<close>: the next UUID of the environment.\<close>

definition new_uuid :: "env \<Rightarrow> db \<Rightarrow> string \<times> db" where
  "new_uuid E d = (uuid E (uuids_drawn d), d\<lparr>uuids_drawn := Suc (uuids_drawn d)\<rparr>)"

text \<open>Binding a \<open>u64\<close> to an SQLite \<open>INTEGER\<close> (a signed 64-bit value) fails above \<open>i64::MAX\<close>.\<close>

definition bind_u64 :: "nat \<Rightarrow> nat result" where
  "bind_u64 n = (if n < 2 ^ 63 then Inr n else Inl (Sqlite ''integer out of range''))"

definition task_exists :: "db \<Rightarrow> string \<Rightarrow> string \<Rightarrow> bool" where
  "task_exists d ws task =
     sql_exists (\<lambda>t. t_workspace_id t = ws \<and> t_task_id t = task) (tasks d)"

abbreviation constraint_failed :: store_error where
  "constraint_failed \<equiv> Sqlite ''UNIQUE constraint failed''"

subsection \<open>Inserts\<close>

definition insert_task_row :: "task_row \<Rightarrow> task_row list \<Rightarrow> task_row list result" where
  "insert_task_row = sql_insert
     (\<lambda>r s. t_workspace_id s = t_workspace_id r \<and> t_task_id s = t_task_id r) constraint_failed"

definition insert_lease_row :: "lease_row \<Rightarrow> lease_row list \<Rightarrow> lease_row list result" where
  "insert_lease_row = sql_insert
     (\<lambda>r s. l_batch_id s = l_batch_id r
        \<or> l_workspace_id s = l_workspace_id r \<and> l_agent_id s = l_agent_id r) constraint_failed"

definition insert_lease_resource_row ::
  "lease_resource_row \<Rightarrow> lease_resource_row list \<Rightarrow> lease_resource_row list result" where
  "insert_lease_resource_row = sql_insert
     (\<lambda>r s. lr_batch_id s = lr_batch_id r \<and> lr_resource_id s = lr_resource_id r
        \<or> lr_workspace_id s = lr_workspace_id r \<and> lr_resource_id s = lr_resource_id r)
     constraint_failed"

definition request_pending :: "request_row \<Rightarrow> bool" where
  "request_pending q = (q_state q \<in> {QQueued, QOffered})"

definition insert_request_row :: "request_row \<Rightarrow> request_row list \<Rightarrow> request_row list result" where
  "insert_request_row = sql_insert
     (\<lambda>r s. q_batch_id s = q_batch_id r \<or> q_queue_sequence s = q_queue_sequence r
        \<or> request_pending s \<and> request_pending r \<and> q_workspace_id s = q_workspace_id r
            \<and> q_task_id s = q_task_id r) constraint_failed"

definition insert_request_resource_row ::
  "request_resource_row \<Rightarrow> request_resource_row list \<Rightarrow> request_resource_row list result" where
  "insert_request_resource_row = sql_insert
     (\<lambda>r s. qr_batch_id s = qr_batch_id r \<and> qr_resource_id s = qr_resource_id r) constraint_failed"

definition insert_evidence_row :: "evidence_row \<Rightarrow> evidence_row list \<Rightarrow> evidence_row list result" where
  "insert_evidence_row = sql_insert
     (\<lambda>r s. e_evidence_id s = e_evidence_id r \<and> e_resource_id s = e_resource_id r) constraint_failed"

definition insert_write_attempt_row ::
  "write_attempt_row \<Rightarrow> write_attempt_row list \<Rightarrow> write_attempt_row list result" where
  "insert_write_attempt_row = sql_insert
     (\<lambda>r s. wa_attempt_id s = wa_attempt_id r \<or> wa_permit_id s = wa_permit_id r
        \<or> wa_workspace_id s = wa_workspace_id r \<and> wa_task_id s = wa_task_id r
            \<and> wa_invocation_id s = wa_invocation_id r) constraint_failed"

definition insert_event_row :: "event_row \<Rightarrow> event_row list \<Rightarrow> event_row list result" where
  "insert_event_row = sql_insert
     (\<lambda>r s. ce_event_id s = ce_event_id r
        \<or> ce_workspace_id s = ce_workspace_id r \<and> ce_agent_id s = ce_agent_id r
            \<and> ce_request_id s = ce_request_id r) constraint_failed"

definition insert_receipt_row :: "receipt_row \<Rightarrow> receipt_row list \<Rightarrow> receipt_row list result" where
  "insert_receipt_row = sql_insert
     (\<lambda>r s. cr_workspace_id s = cr_workspace_id r \<and> cr_agent_id s = cr_agent_id r
        \<and> cr_request_id s = cr_request_id r) constraint_failed"

definition insert_audit_row :: "audit_row \<Rightarrow> audit_row list \<Rightarrow> audit_row list result" where
  "insert_audit_row = sql_insert (\<lambda>r s. au_event_id s = au_event_id r) constraint_failed"

text \<open>Keys of the unique constraints.\<close>

definition task_key :: "task_row \<Rightarrow> (string \<times> string) option" where
  "task_key t = Some (t_workspace_id t, t_task_id t)"

definition lease_batch_key :: "lease_row \<Rightarrow> string option" where
  "lease_batch_key l = Some (l_batch_id l)"

definition lease_agent_key :: "lease_row \<Rightarrow> (string \<times> string) option" where
  "lease_agent_key l = Some (l_workspace_id l, l_agent_id l)"

definition lease_resource_key :: "lease_resource_row \<Rightarrow> (string \<times> string) option" where
  "lease_resource_key r = Some (lr_workspace_id r, lr_resource_id r)"

definition request_batch_key :: "request_row \<Rightarrow> string option" where
  "request_batch_key q = Some (q_batch_id q)"

definition request_sequence_key :: "request_row \<Rightarrow> nat option" where
  "request_sequence_key q = Some (q_queue_sequence q)"

definition pending_task_key :: "request_row \<Rightarrow> (string \<times> string) option" where
  "pending_task_key q = (if request_pending q then Some (q_workspace_id q, q_task_id q) else None)"

definition attempt_key :: "write_attempt_row \<Rightarrow> string option" where
  "attempt_key a = Some (wa_attempt_id a)"

definition receipt_key :: "receipt_row \<Rightarrow> (string \<times> string \<times> string) option" where
  "receipt_key r = Some (cr_workspace_id r, cr_agent_id r, cr_request_id r)"

lemmas index_defs = task_key_def lease_batch_key_def lease_agent_key_def lease_resource_key_def
  request_batch_key_def request_sequence_key_def pending_task_key_def attempt_key_def receipt_key_def

lemmas insert_row_defs = insert_task_row_def insert_lease_row_def insert_lease_resource_row_def
  insert_request_row_def insert_request_resource_row_def insert_evidence_row_def
  insert_write_attempt_row_def insert_event_row_def insert_receipt_row_def insert_audit_row_def
  sql_insert_eq_Inr

interpretation task_index: unique_index task_key insert_task_row
  by unfold_locales (auto simp: insert_row_defs index_defs)

interpretation lease_batch_index: unique_index lease_batch_key insert_lease_row
  by unfold_locales (auto simp: insert_row_defs index_defs)

interpretation lease_agent_index: unique_index lease_agent_key insert_lease_row
  by unfold_locales (auto simp: insert_row_defs index_defs)

interpretation lease_resource_index: unique_index lease_resource_key insert_lease_resource_row
  by unfold_locales (auto simp: insert_row_defs index_defs)

interpretation request_batch_index: unique_index request_batch_key insert_request_row
  by unfold_locales (auto simp: insert_row_defs index_defs)

interpretation request_sequence_index: unique_index request_sequence_key insert_request_row
  by unfold_locales (auto simp: insert_row_defs index_defs)

interpretation pending_task_index: unique_index pending_task_key insert_request_row
  by unfold_locales (auto simp: insert_row_defs index_defs)

interpretation attempt_index: unique_index attempt_key insert_write_attempt_row
  by unfold_locales (auto simp: insert_row_defs index_defs)

interpretation receipt_index: unique_index receipt_key insert_receipt_row
  by unfold_locales (auto simp: insert_row_defs index_defs)

end
