(* ===== verification/Store_Evidence.thy ===== *)
theory Store_Evidence
  imports Store_Db
begin

section \<open>Store helpers: time, tasks, observations, evidence, audit\<close>

text \<open>
  The functions of \<^verbatim>\<open>src/crates/stateful-store/src/store_v2.rs\<close> that validate requests, look
  tasks up, record observations with their generations, create and revoke read evidence, and
  append audit records. A transaction is passed explicitly: a function that changes the database
  returns the new one, a failing one returns the error and the caller's transaction is rolled
  back by \<open>accepted_command\<close>.
\<close>

subsection \<open>Time\<close>

definition parse_timestamp :: "env \<Rightarrow> string \<Rightarrow> int result" where
  "parse_timestamp E v = ok_or (InvalidTimestamp v) (parse_rfc3339 E v)"

definition validate_timestamp :: "env \<Rightarrow> string \<Rightarrow> unit result" where
  "validate_timestamp E v = bindE (parse_timestamp E v) (\<lambda>_. Inr ())"

definition setting_seconds :: "nat \<Rightarrow> int result" where
  "setting_seconds v =
     (if v < 2 ^ 63 then Inr (int v) else Inl (InvalidInput ''coordination duration is too large''))"

text \<open>\<open>Duration::seconds\<close>, in nanoseconds.\<close>

definition seconds :: "int \<Rightarrow> int" where
  "seconds n = n * 1000000000"

definition validate_future :: "env \<Rightarrow> string \<Rightarrow> string \<Rightarrow> string \<Rightarrow> unit result" where
  "validate_future E observed_at future field =
     bindE (parse_timestamp E future) (\<lambda>f.
     bindE (parse_timestamp E observed_at) (\<lambda>ob.
     if f \<le> ob then Inl (InvalidInput (field @ '' must be after observed_at'')) else Inr ()))"

definition validate_future_window ::
  "env \<Rightarrow> string \<Rightarrow> string \<Rightarrow> int \<Rightarrow> string \<Rightarrow> unit result" where
  "validate_future_window E observed_at expires_at maximum_seconds field =
     bindE (parse_timestamp E observed_at) (\<lambda>ob.
     bindE (parse_timestamp E expires_at) (\<lambda>ex.
     if ex \<le> ob \<or> ex - ob > seconds maximum_seconds
     then Inl (InvalidInput (field @ '' must be after observed_at and at most ''
            @ nat_digits (nat maximum_seconds) @ '' seconds later''))
     else Inr ()))"

definition format_timestamp :: "env \<Rightarrow> int \<Rightarrow> string result" where
  "format_timestamp E v = ok_or (Corrupt ''timestamp format failed'') (format_rfc3339 E v)"

text \<open>\<open>OffsetDateTime + Duration\<close>, which panics when the result is not representable.\<close>

definition add_duration :: "env \<Rightarrow> int \<Rightarrow> int \<Rightarrow> int result" where
  "add_duration E t dur =
     (if representable E (t + dur) then Inr (t + dur)
      else Inl (Panic ''resulting value is out of range''))"

definition validate_context :: "env \<Rightarrow> command_context \<Rightarrow> unit result" where
  "validate_context E ctx =
     bindE (foldE (\<lambda>(field, value) _.
         if blank value then Inl (InvalidInput (field @ '' is required'')) else Inr ())
       [(''request_id'', cc_request_id ctx), (''task_id'', cc_task_id ctx),
        (''agent_id'', cc_agent_id ctx), (''workspace_id'', cc_workspace_id ctx)] ())
     (\<lambda>_. validate_timestamp E (cc_observed_at ctx))"

subsection \<open>Tasks\<close>

definition is_task :: "string \<Rightarrow> string \<Rightarrow> task_row \<Rightarrow> bool" where
  "is_task ws task t = (t_workspace_id t = ws \<and> t_task_id t = task)"

abbreviation is_ctx_task :: "command_context \<Rightarrow> task_row \<Rightarrow> bool" where
  "is_ctx_task ctx \<equiv> is_task (cc_workspace_id ctx) (cc_task_id ctx)"

definition task_row :: "db \<Rightarrow> command_context \<Rightarrow> (string \<times> task_status) option" where
  "task_row d ctx =
     map_option (\<lambda>t. (t_agent_id t, t_status t)) (sql_first (is_ctx_task ctx) (tasks d))"

definition task_status_of :: "db \<Rightarrow> command_context \<Rightarrow> task_status result" where
  "task_status_of d ctx = ok_or (NotFound ''task not found'') (map_option snd (task_row d ctx))"

definition task_coordination_settings :: "db \<Rightarrow> command_context \<Rightarrow> coordination_settings result" where
  "task_coordination_settings d ctx =
     bindE (ok_or (Sqlite ''Query returned no rows'') (sql_first (is_ctx_task ctx) (tasks d))) (\<lambda>t.
     bindE (mapErr Corrupt (validate_settings (t_settings t))) (\<lambda>_. Inr (t_settings t)))"

definition require_task_owner :: "db \<Rightarrow> command_context \<Rightarrow> bool \<Rightarrow> task_status result" where
  "require_task_owner d ctx require_active =
     bindE (ok_or (NotFound ''task not found'') (task_row d ctx)) (\<lambda>(agent_id, status).
     if agent_id \<noteq> cc_agent_id ctx then Inl (Ownership ''task owner mismatch'')
     else if require_active \<and> status \<noteq> Active then Inl (InvalidState ''task is not active'')
     else Inr status)"

definition update_task_terminal :: "command_context \<Rightarrow> task_status \<Rightarrow> db \<Rightarrow> db" where
  "update_task_terminal ctx status d =
     d\<lparr>tasks := sql_update (is_ctx_task ctx)
        (\<lambda>t. t\<lparr>t_status := status, t_updated_at := cc_observed_at ctx\<rparr>) (tasks d)\<rparr>"

definition transition_read_attempt ::
  "string \<Rightarrow> read_row_status \<Rightarrow> string \<Rightarrow> db \<Rightarrow> db result" where
  "transition_read_attempt read_id status completed_at d =
     (let p = (\<lambda>r. ra_read_id r = read_id \<and> ra_status r = ReadRowStarted) in
      if sql_count p (read_attempts d) \<noteq> 1
      then Inl (InvalidState ''read attempt terminal transition lost its one-shot CAS'')
      else Inr (d\<lparr>read_attempts := sql_update p
             (\<lambda>r. r\<lparr>ra_status := status, ra_completed_at := Some completed_at\<rparr>) (read_attempts d)\<rparr>))"

subsection \<open>Audit\<close>

definition append_audit :: "env \<Rightarrow> command_context \<Rightarrow> string \<Rightarrow> json \<Rightarrow> db \<Rightarrow> db result" where
  "append_audit E ctx event_type payload d =
     (let (event_id, d1) = new_uuid E d in
      bindE (insert_audit_row
        \<lparr>au_event_id = event_id, au_workspace_id = cc_workspace_id ctx,
         au_task_id = Some (cc_task_id ctx), au_agent_id = cc_agent_id ctx,
         au_event_type = event_type, au_payload = payload, au_created_at = cc_observed_at ctx\<rparr>
        (audit_events d1)) (\<lambda>rows. Inr (d1\<lparr>audit_events := rows\<rparr>)))"

subsection \<open>Revoking evidence\<close>

definition evidence_key :: "string \<Rightarrow> evidence_row \<Rightarrow> resource_key" where
  "evidence_key ws e =
     \<lparr>rk_workspace_id = ws, rk_kind = e_resource_kind e, rk_resource_id = e_resource_id e,
      rk_canonical_path = e_canonical_path e\<rparr>"

definition revoked_evidence ::
  "command_context \<Rightarrow> resource_key \<Rightarrow> string option \<Rightarrow> db \<Rightarrow> (string \<times> string) list" where
  "revoked_evidence ctx resource exclude_task d =
     map (\<lambda>e. (e_evidence_id e, e_resource_id e))
       (filter (\<lambda>e. e_workspace_id e = cc_workspace_id ctx \<and> e_valid e
            \<and> exclude_task \<noteq> Some (e_task_id e)
            \<and> resource_keys_overlap resource (evidence_key (cc_workspace_id ctx) e))
          (resource_evidence d))"

definition revoke_one :: "string \<times> string \<Rightarrow> db \<Rightarrow> db" where
  "revoke_one = (\<lambda>(evidence_id, resource_id) d.
     d\<lparr>read_intents := sql_update
          (\<lambda>i. i_evidence_id i = evidence_id \<and> i_resource_id i = resource_id \<and> i_status i = IntentActive)
          (\<lambda>i. i\<lparr>i_status := IntentRevoked\<rparr>) (read_intents d),
       resource_evidence := sql_update
          (\<lambda>e. e_evidence_id e = evidence_id \<and> e_resource_id e = resource_id \<and> e_valid e)
          (\<lambda>e. e\<lparr>e_valid := False\<rparr>) (resource_evidence d)\<rparr>)"

text \<open>The number of revoked rows that the Rust function returns is discarded by every caller.\<close>

definition revoke_overlapping ::
  "command_context \<Rightarrow> resource_key \<Rightarrow> string option \<Rightarrow> db \<Rightarrow> db" where
  "revoke_overlapping ctx resource exclude_task d =
     fold revoke_one (revoked_evidence ctx resource exclude_task d) d"

subsection \<open>Observations\<close>

fun observed_state :: "resource_observation \<Rightarrow> resource_state" where
  "observed_state (ObjectObs _ s _) = ObjectSt s"
| "observed_state (EntryObs _ s _) = EntrySt s"
| "observed_state (TreeObs _ s _) = TreeSt s"

fun state_json :: "resource_state \<Rightarrow> json" where
  "state_json (ObjectSt s) = object_state_json s"
| "state_json (EntrySt s) = entry_state_json s"
| "state_json (TreeSt s) = tree_state_json s"

fun with_generation :: "resource_observation \<Rightarrow> nat \<Rightarrow> resource_observation" where
  "with_generation (ObjectObs r s _) g = ObjectObs r s g"
| "with_generation (EntryObs r s _) g = EntryObs r s g"
| "with_generation (TreeObs r s _) g = TreeObs r s g"

definition is_resource :: "resource_key \<Rightarrow> resource_row \<Rightarrow> bool" where
  "is_resource r row = (r_workspace_id row = rk_workspace_id r \<and> r_resource_id row = rk_resource_id r)"

definition insert_alias :: "resource_key \<Rightarrow> db \<Rightarrow> db" where
  "insert_alias r d =
     (let row = \<lparr>a_workspace_id = rk_workspace_id r, a_resource_id = rk_resource_id r,
                 a_canonical_path = rk_canonical_path r\<rparr> in
      if row \<in> set (resource_aliases d) then d
      else d\<lparr>resource_aliases := resource_aliases d @ [row]\<rparr>)"

definition sync_resource ::
  "command_context \<Rightarrow> resource_observation \<Rightarrow> db \<Rightarrow> (nat \<times> db) result" where
  "sync_resource ctx ob d =
     (let r = obs_resource ob in
      case sql_first (is_resource r) (resources d) of
        Some row \<Rightarrow>
          if r_kind row \<noteq> rk_kind r \<or> state_json (r_state row) \<noteq> observation_state_json ob
          then bindE (ok_or (Corrupt ''resource generation overflow'')
                   (checked_add_u64 (r_generation row) 1)) (\<lambda>generation.
               let d1 = revoke_overlapping ctx r None d in
               bindE (bind_u64 generation) (\<lambda>generation.
               Inr (generation, d1\<lparr>resources := sql_update (is_resource r)
                      (\<lambda>row. row\<lparr>r_kind := rk_kind r, r_state := observed_state ob,
                          r_generation := generation, r_updated_at := cc_observed_at ctx\<rparr>)
                      (resources d1)\<rparr>)))
          else Inr (r_generation row, d)
      | None \<Rightarrow>
          let d1 = revoke_overlapping ctx r None d in
          Inr (1, d1\<lparr>resources := resources d1 @
                 [\<lparr>r_workspace_id = rk_workspace_id r, r_resource_id = rk_resource_id r,
                   r_kind = rk_kind r, r_canonical_path = rk_canonical_path r,
                   r_state = observed_state ob, r_generation = 1,
                   r_updated_at = cc_observed_at ctx\<rparr>]\<rparr>))"

definition check_observation ::
  "command_context \<Rightarrow> (string \<times> resource_kind \<times> string) list \<Rightarrow> resource_observation \<Rightarrow> unit result" where
  "check_observation ctx seen ob =
     (if \<not> has_matching_resource_kind ob
         \<or> rk_workspace_id (obs_resource ob) \<noteq> cc_workspace_id ctx
      then Inl (InvalidInput ''resource observation kind or workspace mismatch'')
      else if rk_identity (obs_resource ob) \<in> set seen
      then Inl (InvalidInput ''duplicate resource observation'')
      else Inr ())"

definition sync_step ::
  "command_context \<Rightarrow> resource_observation
     \<Rightarrow> (string \<times> resource_kind \<times> string) list \<times> resource_observation list \<times> db
     \<Rightarrow> ((string \<times> resource_kind \<times> string) list \<times> resource_observation list \<times> db) result" where
  "sync_step ctx ob = (\<lambda>(seen, synced, d).
     bindE (check_observation ctx seen ob) (\<lambda>_.
     bindE (sync_resource ctx ob d) (\<lambda>(generation, d1).
     Inr (rk_identity (obs_resource ob) # seen, synced @ [with_generation ob generation],
          insert_alias (obs_resource ob) d1))))"

definition sort_observations :: "resource_observation list \<Rightarrow> resource_observation list" where
  "sort_observations = sort_key (rk_ord \<circ> obs_resource)"

definition sync_observations ::
  "command_context \<Rightarrow> resource_observation list \<Rightarrow> db \<Rightarrow> (resource_observation list \<times> db) result" where
  "sync_observations ctx input d =
     bindE (foldE (sync_step ctx) (sort_observations input) ([], [], d)) (\<lambda>(_, synced, d1).
     Inr (synced, d1))"

definition canonicalize_observations ::
  "command_context \<Rightarrow> resource_observation list \<Rightarrow> resource_observation list result" where
  "canonicalize_observations ctx observations =
     (let ordered = sort_observations observations in
      bindE (foldE (\<lambda>ob seen. bindE (check_observation ctx seen ob) (\<lambda>_.
          Inr (rk_identity (obs_resource ob) # seen))) ordered []) (\<lambda>_. Inr ordered))"

definition same_state :: "resource_observation \<Rightarrow> resource_observation \<Rightarrow> bool" where
  "same_state left right =
     (obs_resource left = obs_resource right
      \<and> observation_state_json left = observation_state_json right)"

definition observations_same_state ::
  "resource_observation list \<Rightarrow> resource_observation list \<Rightarrow> bool" where
  "observations_same_state left right =
     (length left = length right \<and> list_all (\<lambda>(l, r). same_state l r) (zip left right))"

text \<open>
  Deserialising a stored state at a type: the JSON of an absent resource is the same for the
  three types, and a present one only deserialises at its own type.
\<close>

fun as_object_state :: "resource_state \<Rightarrow> object_state result" where
  "as_object_state (ObjectSt s) = Inr s"
| "as_object_state (EntrySt EntryAbsent) = Inr ObjectAbsent"
| "as_object_state (TreeSt TreeAbsent) = Inr ObjectAbsent"
| "as_object_state _ = Inl (StoreJson ''missing field'')"

fun as_entry_state :: "resource_state \<Rightarrow> entry_state result" where
  "as_entry_state (EntrySt s) = Inr s"
| "as_entry_state (ObjectSt ObjectAbsent) = Inr EntryAbsent"
| "as_entry_state (TreeSt TreeAbsent) = Inr EntryAbsent"
| "as_entry_state _ = Inl (StoreJson ''missing field'')"

fun as_tree_state :: "resource_state \<Rightarrow> directory_tree_state result" where
  "as_tree_state (TreeSt s) = Inr s"
| "as_tree_state (ObjectSt ObjectAbsent) = Inr TreeAbsent"
| "as_tree_state (EntrySt EntryAbsent) = Inr TreeAbsent"
| "as_tree_state _ = Inl (StoreJson ''missing field'')"

definition current_observation :: "db \<Rightarrow> resource_key \<Rightarrow> resource_observation result" where
  "current_observation d requested =
     bindE (ok_or (NotFound ''leased resource not found'')
              (sql_first (is_resource requested) (resources d))) (\<lambda>row.
     if r_kind row \<noteq> rk_kind requested then Inl (Corrupt ''leased resource kind changed'')
     else case r_kind row of
       Object \<Rightarrow> bindE (as_object_state (r_state row)) (\<lambda>s. Inr (ObjectObs requested s (r_generation row)))
     | Entry \<Rightarrow> bindE (as_entry_state (r_state row)) (\<lambda>s. Inr (EntryObs requested s (r_generation row)))
     | DirectoryTree \<Rightarrow>
         bindE (as_tree_state (r_state row)) (\<lambda>s. Inr (TreeObs requested s (r_generation row))))"

definition current_observations :: "db \<Rightarrow> resource_key list \<Rightarrow> resource_observation list result" where
  "current_observations d rs =
     bindE (mapE (current_observation d) rs) (\<lambda>obs. Inr (sort_observations obs))"

subsection \<open>Evidence\<close>

definition lease_resource_row_key :: "string \<Rightarrow> lease_resource_row \<Rightarrow> resource_key" where
  "lease_resource_row_key ws lr =
     \<lparr>rk_workspace_id = ws, rk_kind = lr_resource_kind lr, rk_resource_id = lr_resource_id lr,
      rk_canonical_path = lr_canonical_path lr\<rparr>"

definition peer_write_in_flight :: "db \<Rightarrow> command_context \<Rightarrow> resource_key \<Rightarrow> bool" where
  "peer_write_in_flight d ctx resource =
     list_ex (\<lambda>lr. lr_in_flight_attempt_id lr \<noteq> None
        \<and> sql_exists (\<lambda>al. l_batch_id al = lr_batch_id lr
             \<and> l_workspace_id al = cc_workspace_id ctx \<and> l_task_id al \<noteq> cc_task_id ctx)
            (active_leases d)
        \<and> resource_keys_overlap resource (lease_resource_row_key (cc_workspace_id ctx) lr))
       (lease_resources d)"

definition is_intent :: "command_context \<Rightarrow> string \<Rightarrow> intent_row \<Rightarrow> bool" where
  "is_intent ctx resource_id i =
     (i_workspace_id i = cc_workspace_id ctx \<and> i_task_id i = cc_task_id ctx
      \<and> i_resource_id i = resource_id)"

text \<open>\<open>INSERT ... ON CONFLICT DO UPDATE ... WHERE excluded.read_started_at >= read_started_at\<close>.\<close>

definition upsert_intent :: "intent_row \<Rightarrow> intent_row list \<Rightarrow> intent_row list" where
  "upsert_intent new rows =
     (let same = (\<lambda>i. i_workspace_id i = i_workspace_id new \<and> i_task_id i = i_task_id new
                    \<and> i_resource_id i = i_resource_id new) in
      if sql_exists same rows
      then sql_update (\<lambda>i. same i \<and> i_read_started_at new \<ge> i_read_started_at i) (\<lambda>_. new) rows
      else rows @ [new])"

definition insert_evidence ::
  "command_context \<Rightarrow> string \<Rightarrow> string \<Rightarrow> string \<Rightarrow> resource_observation \<Rightarrow> db \<Rightarrow> db result" where
  "insert_evidence ctx evidence_id read_id read_started_at ob d =
     (let r = obs_resource ob;
          newer = sql_first (\<lambda>i. is_intent ctx (rk_resource_id r) i \<and> i_status i = IntentActive)
                    (read_intents d);
          valid = ((case newer of None \<Rightarrow> True | Some i \<Rightarrow> i_read_started_at i \<le> read_started_at)
                   \<and> \<not> peer_write_in_flight d ctx r)
      in bindE (guardE (task_exists d (cc_workspace_id ctx) (cc_task_id ctx))
                 (Sqlite ''FOREIGN KEY constraint failed'')) (\<lambda>_.
         bindE (bind_u64 (obs_generation ob)) (\<lambda>generation.
         bindE (insert_evidence_row
           \<lparr>e_evidence_id = evidence_id, e_workspace_id = cc_workspace_id ctx,
            e_task_id = cc_task_id ctx, e_source_kind = SourceRead, e_source_id = read_id,
            e_resource_id = rk_resource_id r, e_resource_kind = rk_kind r,
            e_canonical_path = rk_canonical_path r, e_observation = ob,
            e_generation = generation, e_complete = True, e_stable = True, e_exact = True,
            e_valid = valid, e_recorded_at = cc_observed_at ctx,
            e_read_started_at = Some read_started_at\<rparr>
           (resource_evidence d)) (\<lambda>rows.
         let d1 = d\<lparr>resource_evidence := rows\<rparr> in
         Inr (if valid
              then d1\<lparr>read_intents := upsert_intent
                     \<lparr>i_workspace_id = cc_workspace_id ctx, i_task_id = cc_task_id ctx,
                      i_resource_id = rk_resource_id r, i_resource_kind = rk_kind r,
                      i_canonical_path = rk_canonical_path r, i_evidence_id = evidence_id,
                      i_status = IntentActive, i_created_at = cc_observed_at ctx,
                      i_read_started_at = read_started_at\<rparr> (read_intents d1)\<rparr>
              else d1)))))"

definition insert_own_write_evidence ::
  "env \<Rightarrow> command_context \<Rightarrow> string \<Rightarrow> resource_observation list \<Rightarrow> db \<Rightarrow> db result" where
  "insert_own_write_evidence E ctx attempt_id observations d =
     (let (evidence_id, d1) = new_uuid E d in
      foldE (\<lambda>ob d.
        let r = obs_resource ob in
        bindE (guardE (task_exists d (cc_workspace_id ctx) (cc_task_id ctx))
                 (Sqlite ''FOREIGN KEY constraint failed'')) (\<lambda>_.
        bindE (bind_u64 (obs_generation ob)) (\<lambda>generation.
        bindE (insert_evidence_row
           \<lparr>e_evidence_id = evidence_id, e_workspace_id = cc_workspace_id ctx,
            e_task_id = cc_task_id ctx, e_source_kind = SourceOwnWrite, e_source_id = attempt_id,
            e_resource_id = rk_resource_id r, e_resource_kind = rk_kind r,
            e_canonical_path = rk_canonical_path r, e_observation = ob,
            e_generation = generation, e_complete = True, e_stable = True, e_exact = True,
            e_valid = True, e_recorded_at = cc_observed_at ctx, e_read_started_at = None\<rparr>
           (resource_evidence d)) (\<lambda>rows. Inr (d\<lparr>resource_evidence := rows\<rparr>)))))
        observations d1)"

definition has_current_evidence ::
  "db \<Rightarrow> command_context \<Rightarrow> resource_observation list \<Rightarrow> string option \<Rightarrow> bool" where
  "has_current_evidence d ctx observations minimum_read_started_at =
     list_all (\<lambda>ob. sql_exists (\<lambda>e.
         e_workspace_id e = cc_workspace_id ctx \<and> e_task_id e = cc_task_id ctx
         \<and> e_resource_id e = rk_resource_id (obs_resource ob)
         \<and> e_valid e \<and> e_complete e \<and> e_stable e \<and> e_exact e
         \<and> e_observation e = ob
         \<and> (case minimum_read_started_at of
              None \<Rightarrow> True
            | Some m \<Rightarrow> e_source_kind e = SourceRead
                \<and> (case e_read_started_at e of None \<Rightarrow> False | Some s \<Rightarrow> s \<ge> m)))
       (resource_evidence d)) observations"

definition has_historical_evidence ::
  "db \<Rightarrow> command_context \<Rightarrow> resource_observation list \<Rightarrow> bool" where
  "has_historical_evidence d ctx observations =
     list_all (\<lambda>ob. sql_exists (\<lambda>e.
         e_workspace_id e = cc_workspace_id ctx \<and> e_task_id e = cc_task_id ctx
         \<and> e_resource_id e = rk_resource_id (obs_resource ob)
         \<and> e_complete e \<and> e_stable e \<and> e_exact e
         \<and> same_state (e_observation e) ob) (resource_evidence d)) observations"

end
