(* ===== verification/Store_Leases.thy ===== *)
theory Store_Leases
  imports Store_Evidence
begin

section \<open>Leases, the waiting queue and write attempts\<close>

text \<open>
  The lease functions of \<^verbatim>\<open>src/crates/stateful-store/src/store_v2.rs\<close>. A task owns at most one
  lease (a batch of resources), an agent at most one per workspace. A task that cannot have its
  resources now waits as a queued request; \<open>promote_waiters\<close> walks the queue in its persistent
  order and turns a request into an offer when nothing conflicts with it and no earlier request
  that is still waiting overlaps it. A write attempt marks the leased resources it writes with
  its id, in \<open>in_flight_attempt_id\<close>.

  Deleting a lease deletes its resource rows, the schema's \<open>ON DELETE CASCADE\<close>
  (\<open>delete_leases\<close>). A \<open>JOIN\<close> is a filter of the product of the two tables.
\<close>

record active_lease_view =
  av_batch_id :: string
  av_version :: nat
  av_state :: lease_row_state
  av_expires_at :: string
  av_resources :: "resource_key list"
  av_in_flight_count :: nat

record queued_request =
  qu_batch_id :: string
  qu_queue_position :: nat

record lease_request_view =
  rv_state :: lease_request_state
  rv_version :: nat
  rv_offer_id :: "string option"
  rv_offered_at :: "string option"
  rv_resources :: "resource_key list"

definition delete_leases :: "(lease_row \<Rightarrow> bool) \<Rightarrow> db \<Rightarrow> db" where
  "delete_leases p d =
     d\<lparr>active_leases := sql_delete p (active_leases d),
       lease_resources := sql_delete
         (\<lambda>lr. sql_exists (\<lambda>l. p l \<and> l_batch_id l = lr_batch_id lr) (active_leases d))
         (lease_resources d)\<rparr>"

definition is_task_lease :: "string \<Rightarrow> string \<Rightarrow> lease_row \<Rightarrow> bool" where
  "is_task_lease ws task l = (l_workspace_id l = ws \<and> l_task_id l = task)"

definition is_batch_lease :: "string \<Rightarrow> lease_row \<Rightarrow> bool" where
  "is_batch_lease batch l = (l_batch_id l = batch)"

definition drain_leases :: "(lease_row \<Rightarrow> bool) \<Rightarrow> db \<Rightarrow> db" where
  "drain_leases p d =
     d\<lparr>active_leases := sql_update p
         (\<lambda>l. l\<lparr>l_state := LeaseDraining, l_release_pending := True\<rparr>) (active_leases d)\<rparr>"

definition is_task_pending :: "string \<Rightarrow> string \<Rightarrow> request_row \<Rightarrow> bool" where
  "is_task_pending ws task q =
     (q_workspace_id q = ws \<and> q_task_id q = task \<and> request_pending q)"

definition cancel_requests :: "string \<Rightarrow> string \<Rightarrow> string \<Rightarrow> db \<Rightarrow> db" where
  "cancel_requests ws task now d =
     d\<lparr>lease_requests := sql_update (is_task_pending ws task)
         (\<lambda>q. q\<lparr>q_state := QCancelled, q_updated_at := now\<rparr>) (lease_requests d)\<rparr>"

subsection \<open>Expiry\<close>

definition in_flight_count :: "string \<Rightarrow> string \<Rightarrow> db \<Rightarrow> nat" where
  "in_flight_count ws task d =
     sql_count (\<lambda>(attempt, lease). l_batch_id lease = wa_batch_id attempt
         \<and> wa_workspace_id attempt = ws \<and> wa_task_id attempt = task
         \<and> wa_status attempt \<in> {Executing, WriteUncertain})
       (List.product (write_attempts d) (active_leases d))"

definition task_in_flight_count :: "command_context \<Rightarrow> db \<Rightarrow> nat" where
  "task_in_flight_count ctx d = in_flight_count (cc_workspace_id ctx) (cc_task_id ctx) d"

definition release_all_task_leases :: "command_context \<Rightarrow> db \<Rightarrow> db" where
  "release_all_task_leases ctx d =
     delete_leases (is_task_lease (cc_workspace_id ctx) (cc_task_id ctx)) d"

definition expire_offers :: "string \<Rightarrow> db \<Rightarrow> db" where
  "expire_offers now d =
     d\<lparr>lease_requests := sql_update
         (\<lambda>q. q_state q = QOffered
            \<and> (case q_offer_expires_at q of None \<Rightarrow> False | Some t \<Rightarrow> t \<le> now))
         (\<lambda>q. q\<lparr>q_state := QExpired, q_updated_at := now\<rparr>) (lease_requests d)\<rparr>"

definition batch_in_flight_count :: "string \<Rightarrow> db \<Rightarrow> nat" where
  "batch_in_flight_count batch d =
     sql_count (\<lambda>lr. lr_batch_id lr = batch \<and> lr_in_flight_attempt_id lr \<noteq> None)
       (lease_resources d)"

definition expire_task :: "string \<Rightarrow> string \<times> string \<Rightarrow> db \<Rightarrow> db" where
  "expire_task now = (\<lambda>(ws, task) d.
     let in_flight = in_flight_count ws task d;
         d1 = d\<lparr>tasks := sql_update (is_task ws task)
                (\<lambda>t. t\<lparr>t_status := if in_flight = 0 then Failed else Draining,
                      t_terminal_status := Some Failed, t_updated_at := now\<rparr>) (tasks d)\<rparr>;
         d2 = cancel_requests ws task now d1
     in if in_flight = 0 then delete_leases (is_task_lease ws task) d2
        else drain_leases (is_task_lease ws task) d2)"

definition expire_lease :: "string \<Rightarrow> db \<Rightarrow> db" where
  "expire_lease batch d =
     (if batch_in_flight_count batch d = 0 then delete_leases (is_batch_lease batch) d
      else drain_leases (is_batch_lease batch) d)"

definition expired_tasks :: "string \<Rightarrow> db \<Rightarrow> (string \<times> string) list" where
  "expired_tasks now d = map (\<lambda>t. (t_workspace_id t, t_task_id t))
     (filter (\<lambda>t. t_status t = Active \<and> t_expires_at t \<le> now) (tasks d))"

definition expired_batches :: "string \<Rightarrow> db \<Rightarrow> string list" where
  "expired_batches now d = map l_batch_id
     (filter (\<lambda>l. l_expires_at l \<le> now \<and> l_state l = LeaseActive) (active_leases d))"

definition expire_tasks_and_leases :: "string \<Rightarrow> db \<Rightarrow> db" where
  "expire_tasks_and_leases now d =
     (let d1 = fold (expire_task now) (expired_tasks now d) d
      in fold expire_lease (expired_batches now d1) d1)"

subsection \<open>Lease and request views\<close>

definition sort_resources :: "resource_key list \<Rightarrow> resource_key list" where
  "sort_resources = sort_key rk_ord"

definition merge_resource_keys :: "resource_key list \<Rightarrow> resource_key list \<Rightarrow> resource_key list" where
  "merge_resource_keys target additions =
     sort_resources (fold (\<lambda>addition target.
        if list_ex (\<lambda>r. rk_identity r = rk_identity addition) target then target
        else target @ [addition]) additions target)"

definition lease_resource_keys :: "string \<Rightarrow> db \<Rightarrow> resource_key list" where
  "lease_resource_keys batch d =
     sort_resources (map (\<lambda>lr. lease_resource_row_key (lr_workspace_id lr) lr)
       (filter (\<lambda>lr. lr_batch_id lr = batch) (lease_resources d)))"

definition active_task_lease :: "command_context \<Rightarrow> db \<Rightarrow> active_lease_view option" where
  "active_task_lease ctx d =
     map_option (\<lambda>l. \<lparr>av_batch_id = l_batch_id l, av_version = l_version l, av_state = l_state l,
                     av_expires_at = l_expires_at l,
                     av_resources = lease_resource_keys (l_batch_id l) d,
                     av_in_flight_count = batch_in_flight_count (l_batch_id l) d\<rparr>)
       (sql_first (is_task_lease (cc_workspace_id ctx) (cc_task_id ctx)) (active_leases d))"

definition agent_slot_occupied :: "command_context \<Rightarrow> string option \<Rightarrow> db \<Rightarrow> bool" where
  "agent_slot_occupied ctx excluding_task_id d =
     sql_exists (\<lambda>l. l_workspace_id l = cc_workspace_id ctx \<and> l_agent_id l = cc_agent_id ctx
        \<and> (case excluding_task_id of None \<Rightarrow> True | Some t \<Rightarrow> l_task_id l \<noteq> t)) (active_leases d)"

definition request_resource_row_key :: "string \<Rightarrow> request_resource_row \<Rightarrow> resource_key" where
  "request_resource_row_key ws qr =
     \<lparr>rk_workspace_id = ws, rk_kind = qr_resource_kind qr, rk_resource_id = qr_resource_id qr,
      rk_canonical_path = qr_canonical_path qr\<rparr>"

definition request_resources :: "string \<Rightarrow> db \<Rightarrow> resource_key list" where
  "request_resources batch d =
     sort_resources (map (\<lambda>qr. request_resource_row_key (qr_workspace_id qr) qr)
       (filter (\<lambda>qr. qr_batch_id qr = batch) (lease_request_resources d)))"

text \<open>A \<open>BTreeSet<String>\<close> read in order.\<close>

definition string_set :: "string list \<Rightarrow> string list" where
  "string_set xs = remdups (sort xs)"

definition lease_conflicts :: "string \<Rightarrow> string \<Rightarrow> resource_key list \<Rightarrow> db \<Rightarrow> string list" where
  "lease_conflicts ws task rs d =
     map (\<lambda>(al, lr). ''task:'' @ l_task_id al)
       (filter (\<lambda>(al, lr). lr_batch_id lr = l_batch_id al
            \<and> l_workspace_id al = ws \<and> l_task_id al \<noteq> task
            \<and> list_ex (\<lambda>r. resource_keys_overlap r (lease_resource_row_key ws lr)) rs)
          (List.product (active_leases d) (lease_resources d)))"

definition request_conflicts ::
  "lease_request_state \<Rightarrow> string \<Rightarrow> string \<Rightarrow> string \<Rightarrow> resource_key list \<Rightarrow> string option \<Rightarrow> db
     \<Rightarrow> string list" where
  "request_conflicts st label ws task rs exclude d =
     map (\<lambda>(q, qr). label @ q_task_id q)
       (filter (\<lambda>(q, qr). qr_batch_id qr = q_batch_id q
            \<and> q_workspace_id q = ws \<and> q_task_id q \<noteq> task \<and> q_state q = st
            \<and> exclude \<noteq> Some (q_batch_id q)
            \<and> list_ex (\<lambda>r. resource_keys_overlap r (request_resource_row_key ws qr)) rs)
          (List.product (lease_requests d) (lease_request_resources d)))"

definition conflicting_owners ::
  "string \<Rightarrow> string \<Rightarrow> resource_key list \<Rightarrow> string option \<Rightarrow> db \<Rightarrow> string list" where
  "conflicting_owners ws task rs exclude_offer_batch d =
     string_set (lease_conflicts ws task rs d
       @ request_conflicts QOffered ''offer:'' ws task rs exclude_offer_batch d)"

definition queued_conflicting_owners ::
  "string \<Rightarrow> string \<Rightarrow> resource_key list \<Rightarrow> db \<Rightarrow> string list" where
  "queued_conflicting_owners ws task rs d =
     string_set (request_conflicts QQueued ''queue:'' ws task rs None d)"

definition pending_task_request ::
  "command_context \<Rightarrow> db \<Rightarrow> (string \<times> resource_key list) option" where
  "pending_task_request ctx d =
     map_option (\<lambda>q. (q_batch_id q, request_resources (q_batch_id q) d))
       (sql_first (is_task_pending (cc_workspace_id ctx) (cc_task_id ctx)) (lease_requests d))"

definition lease_request_row ::
  "command_context \<Rightarrow> string \<Rightarrow> db \<Rightarrow> lease_request_view option" where
  "lease_request_row ctx batch d =
     map_option (\<lambda>q. \<lparr>rv_state = q_state q, rv_version = q_version q, rv_offer_id = q_offer_id q,
                     rv_offered_at = q_offered_at q, rv_resources = request_resources batch d\<rparr>)
       (sql_first (\<lambda>q. q_workspace_id q = cc_workspace_id ctx \<and> q_task_id q = cc_task_id ctx
            \<and> q_batch_id q = batch) (lease_requests d))"

subsection \<open>Acquiring leases\<close>

definition lease_mode_of :: "resource_key list \<Rightarrow> lease_mode" where
  "lease_mode_of rs =
     (if list_ex (\<lambda>r. rk_kind r = DirectoryTree) rs then ExclusiveDirectory else ExclusiveWrite)"

abbreviation fk_failed :: store_error where
  "fk_failed \<equiv> Sqlite ''FOREIGN KEY constraint failed''"

definition insert_lease_resource :: "string \<Rightarrow> resource_key \<Rightarrow> db \<Rightarrow> db result" where
  "insert_lease_resource batch r d =
     bindE (ok_or (NotFound ''lease resource not found'')
              (sql_first (is_resource r) (resources d))) (\<lambda>row.
     bindE (guardE (sql_exists (is_batch_lease batch) (active_leases d)) fk_failed) (\<lambda>_.
     bindE (bind_u64 (r_generation row)) (\<lambda>generation.
     bindE (insert_lease_resource_row
       \<lparr>lr_batch_id = batch, lr_workspace_id = rk_workspace_id r,
        lr_resource_id = rk_resource_id r, lr_resource_kind = rk_kind r,
        lr_canonical_path = rk_canonical_path r, lr_acquired_generation = generation,
        lr_in_flight_attempt_id = None\<rparr>
       (lease_resources d)) (\<lambda>rows. Inr (d\<lparr>lease_resources := rows\<rparr>)))))"

definition insert_active_lease ::
  "command_context \<Rightarrow> string \<Rightarrow> nat \<Rightarrow> resource_key list \<Rightarrow> string \<Rightarrow> db \<Rightarrow> db result" where
  "insert_active_lease ctx batch version rs expires_at d =
     bindE (guardE (task_exists d (cc_workspace_id ctx) (cc_task_id ctx)) fk_failed) (\<lambda>_.
     bindE (bind_u64 version) (\<lambda>version.
     bindE (insert_lease_row
       \<lparr>l_batch_id = batch, l_workspace_id = cc_workspace_id ctx, l_task_id = cc_task_id ctx,
        l_agent_id = cc_agent_id ctx, l_mode = lease_mode_of rs, l_state = LeaseActive,
        l_version = version, l_acquired_at = cc_observed_at ctx, l_expires_at = expires_at,
        l_release_pending = False\<rparr>
       (active_leases d)) (\<lambda>rows.
     foldE (insert_lease_resource batch) rs (d\<lparr>active_leases := rows\<rparr>))))"

text \<open>The version bump of an active lease that has grown or has a new expiry.\<close>

definition touch_lease ::
  "active_lease_view \<Rightarrow> bool \<Rightarrow> string \<Rightarrow> db \<Rightarrow> (nat \<times> db) result" where
  "touch_lease active grown expires_at d =
     (if grown \<or> av_expires_at active \<noteq> expires_at
      then bindE (ok_or (Corrupt ''lease version overflow'') (checked_add_u64 (av_version active) 1)) (\<lambda>version.
           bindE (bind_u64 version) (\<lambda>version.
           Inr (version, d\<lparr>active_leases := sql_update (is_batch_lease (av_batch_id active))
                  (\<lambda>l. l\<lparr>l_version := version, l_expires_at := expires_at\<rparr>) (active_leases d)\<rparr>)))
      else Inr (av_version active, d))"

definition ensure_active_lease ::
  "env \<Rightarrow> command_context \<Rightarrow> active_lease_view option \<Rightarrow> resource_key list \<Rightarrow> string \<Rightarrow> db
     \<Rightarrow> (active_lease_view \<times> db) result" where
  "ensure_active_lease E ctx active rs expires_at d =
     (case active of
        Some active \<Rightarrow>
          if av_state active \<noteq> LeaseActive \<or> av_expires_at active \<le> cc_observed_at ctx
          then Inl (InvalidState ''lease is draining or expired'')
          else
            let additions = filter (\<lambda>r. \<not> list_ex (\<lambda>existing. rk_identity existing = rk_identity r)
                   (av_resources active)) rs
            in if additions \<noteq> [] \<and> av_in_flight_count active \<noteq> 0
               then Inl (InvalidState ''cannot expand a lease while a write is in flight'')
               else
                 bindE (foldE (insert_lease_resource (av_batch_id active)) additions d) (\<lambda>d1.
                 bindE (touch_lease active (additions \<noteq> []) expires_at d1) (\<lambda>(version, d2).
                 Inr (active\<lparr>av_version := version, av_expires_at := expires_at,
                        av_resources := rs\<rparr>, d2)))
      | None \<Rightarrow>
          let (batch, d1) = new_uuid E d in
          bindE (insert_active_lease ctx batch 1 rs expires_at d1) (\<lambda>d2.
          Inr (\<lparr>av_batch_id = batch, av_version = 1, av_state = LeaseActive,
                av_expires_at = expires_at, av_resources = rs, av_in_flight_count = 0\<rparr>, d2)))"

subsection \<open>The waiting queue\<close>

definition insert_request_resource :: "string \<Rightarrow> resource_key \<Rightarrow> db \<Rightarrow> db result" where
  "insert_request_resource batch r d =
     bindE (guardE (sql_exists (\<lambda>q. q_batch_id q = batch) (lease_requests d)) fk_failed) (\<lambda>_.
     bindE (insert_request_resource_row
       \<lparr>qr_batch_id = batch, qr_workspace_id = rk_workspace_id r,
        qr_resource_id = rk_resource_id r, qr_resource_kind = rk_kind r,
        qr_canonical_path = rk_canonical_path r\<rparr>
       (lease_request_resources d)) (\<lambda>rows. Inr (d\<lparr>lease_request_resources := rows\<rparr>)))"

definition supersede_requests :: "command_context \<Rightarrow> string \<Rightarrow> db \<Rightarrow> db" where
  "supersede_requests ctx batch d =
     d\<lparr>lease_requests := sql_update (is_task_pending (cc_workspace_id ctx) (cc_task_id ctx))
         (\<lambda>q. q\<lparr>q_state := QSuperseded, q_superseded_by := Some batch,
               q_version := q_version q + 1, q_updated_at := cc_observed_at ctx\<rparr>)
         (lease_requests d)\<rparr>"

definition enqueue_request ::
  "env \<Rightarrow> command_context \<Rightarrow> resource_key list \<Rightarrow> string \<Rightarrow> db \<Rightarrow> (queued_request \<times> db) result" where
  "enqueue_request E ctx rs expires_at d =
     (let (batch, d1) = new_uuid E d; d2 = supersede_requests ctx batch d1 in
      bindE (ok_or (Corrupt ''lease queue sequence overflow'')
               (checked_add_u64 (lease_queue d2) 1)) (\<lambda>sequence.
      bindE (bind_u64 sequence) (\<lambda>sequence.
      let d3 = d2\<lparr>lease_queue := sequence\<rparr> in
      bindE (guardE (task_exists d3 (cc_workspace_id ctx) (cc_task_id ctx)) fk_failed) (\<lambda>_.
      bindE (insert_request_row
        \<lparr>q_batch_id = batch, q_workspace_id = cc_workspace_id ctx, q_task_id = cc_task_id ctx,
         q_agent_id = cc_agent_id ctx, q_mode = lease_mode_of rs, q_state = QQueued,
         q_version = 1, q_queue_sequence = sequence, q_offer_id = None, q_offered_at = None,
         q_offer_expires_at = None, q_superseded_by = None, q_expires_at = expires_at,
         q_created_at = cc_observed_at ctx, q_updated_at = cc_observed_at ctx\<rparr>
        (lease_requests d3)) (\<lambda>rows.
      bindE (foldE (insert_request_resource batch) rs (d3\<lparr>lease_requests := rows\<rparr>)) (\<lambda>d4.
      Inr (\<lparr>qu_batch_id = batch, qu_queue_position = sequence\<rparr>, d4)))))))"

text \<open>The queued requests, each with its task, in the order of their sequence numbers.\<close>

definition queued_requests :: "db \<Rightarrow> (request_row \<times> task_row) list" where
  "queued_requests d =
     filter (\<lambda>(q, t). is_task (q_workspace_id q) (q_task_id q) t)
       (List.product (sort_key q_queue_sequence (filter (\<lambda>q. q_state q = QQueued) (lease_requests d)))
          (tasks d))"

definition is_queued_batch :: "string \<Rightarrow> request_row \<Rightarrow> bool" where
  "is_queued_batch batch q = (q_batch_id q = batch \<and> q_state q = QQueued)"

definition agent_offer_pending :: "request_row \<Rightarrow> db \<Rightarrow> bool" where
  "agent_offer_pending q d =
     sql_exists (\<lambda>r. q_workspace_id r = q_workspace_id q \<and> q_agent_id r = q_agent_id q
        \<and> q_state r = QOffered) (lease_requests d)"

definition cannot_offer :: "request_row \<Rightarrow> resource_key list \<Rightarrow> resource_key list \<Rightarrow> db \<Rightarrow> bool" where
  "cannot_offer q rs blocked d =
     (resource_set_overlaps rs blocked
      \<or> sql_exists (\<lambda>l. l_workspace_id l = q_workspace_id q \<and> l_agent_id l = q_agent_id q)
          (active_leases d)
      \<or> sql_exists (is_task_lease (q_workspace_id q) (q_task_id q)) (active_leases d)
      \<or> agent_offer_pending q d
      \<or> conflicting_owners (q_workspace_id q) (q_task_id q) rs (Some (q_batch_id q)) d \<noteq> [])"

definition mark_offered :: "string \<Rightarrow> string \<Rightarrow> string \<Rightarrow> request_row \<Rightarrow> request_row" where
  "mark_offered offer_id now offer_expires_at q =
     q\<lparr>q_state := QOffered, q_version := q_version q + 1, q_offer_id := Some offer_id,
       q_offered_at := Some now, q_offer_expires_at := Some offer_expires_at, q_updated_at := now\<rparr>"

definition offer_request :: "env \<Rightarrow> string \<Rightarrow> int \<Rightarrow> request_row \<Rightarrow> task_row \<Rightarrow> db \<Rightarrow> db result" where
  "offer_request E now now_value q t d =
     bindE (mapErr Corrupt (validate_settings (t_settings t))) (\<lambda>_.
     let (offer_id, d1) = new_uuid E d in
     bindE (setting_seconds (offer_ttl_seconds (t_settings t))) (\<lambda>ttl.
     bindE (add_duration E now_value (seconds ttl)) (\<lambda>offer_limit.
     bindE (parse_timestamp E (q_expires_at q)) (\<lambda>request_limit.
     bindE (format_timestamp E (min offer_limit request_limit)) (\<lambda>offer_expires_at.
     Inr (d1\<lparr>lease_requests := sql_update (is_queued_batch (q_batch_id q))
            (mark_offered offer_id now offer_expires_at) (lease_requests d1)\<rparr>))))))"

definition expire_request :: "string \<Rightarrow> string \<Rightarrow> db \<Rightarrow> db" where
  "expire_request now batch d =
     d\<lparr>lease_requests := sql_update (is_queued_batch batch)
         (\<lambda>q. q\<lparr>q_state := QExpired, q_updated_at := now\<rparr>) (lease_requests d)\<rparr>"

definition promote_step ::
  "env \<Rightarrow> string \<Rightarrow> int \<Rightarrow> request_row \<times> task_row \<Rightarrow> resource_key list \<times> db
     \<Rightarrow> (resource_key list \<times> db) result" where
  "promote_step E now now_value = (\<lambda>(q, t) (blocked, d).
     let rs = request_resources (q_batch_id q) d in
     bindE (if t_status t \<noteq> Active then Inr True
            else bindE (parse_timestamp E (q_expires_at q)) (\<lambda>limit. Inr (limit \<le> now_value))) (\<lambda>expired.
     if expired then Inr (blocked, expire_request now (q_batch_id q) d)
     else if cannot_offer q rs blocked d then Inr (blocked @ rs, d)
     else bindE (offer_request E now now_value q t d) (\<lambda>d1. Inr (blocked, d1))))"

definition promote_waiters :: "env \<Rightarrow> string \<Rightarrow> db \<Rightarrow> db result" where
  "promote_waiters E now d =
     (let d1 = expire_offers now d in
      bindE (parse_timestamp E now) (\<lambda>now_value.
      bindE (foldE (promote_step E now now_value) (queued_requests d1) ([], d1)) (\<lambda>(_, d2).
      Inr d2)))"

subsection \<open>Write attempts\<close>

definition check_write_slot :: "active_lease_view \<Rightarrow> db \<Rightarrow> resource_observation \<Rightarrow> unit result" where
  "check_write_slot lease d ob =
     (let r = obs_resource ob in
      if \<not> list_ex (\<lambda>leased. rk_identity leased = rk_identity r) (av_resources lease)
      then Inl (InvalidState ''write target is not covered by the active lease'')
      else bindE (ok_or (Sqlite ''Query returned no rows'')
             (sql_first (\<lambda>lr. lr_batch_id lr = av_batch_id lease \<and> lr_resource_id lr = rk_resource_id r)
                (lease_resources d))) (\<lambda>lr.
           if lr_in_flight_attempt_id lr \<noteq> None
           then Inl (InvalidState ''write target already has an in-flight operation'')
           else Inr ()))"

definition revoke_peers :: "command_context \<Rightarrow> resource_key list \<Rightarrow> db \<Rightarrow> db" where
  "revoke_peers ctx rs d =
     fold (\<lambda>r. revoke_overlapping ctx r (Some (cc_task_id ctx))) rs d"

definition acquire_slot :: "string \<Rightarrow> string \<Rightarrow> resource_observation \<Rightarrow> db \<Rightarrow> db result" where
  "acquire_slot batch attempt_id ob d =
     (let p = (\<lambda>lr. lr_batch_id lr = batch \<and> lr_resource_id lr = rk_resource_id (obs_resource ob)
                 \<and> lr_in_flight_attempt_id lr = None) in
      if sql_count p (lease_resources d) \<noteq> 1
      then Inl (InvalidState ''write slot acquisition lost its CAS'')
      else Inr (d\<lparr>lease_resources := sql_update p
             (\<lambda>lr. lr\<lparr>lr_in_flight_attempt_id := Some attempt_id\<rparr>) (lease_resources d)\<rparr>))"

definition prepare_write_attempt ::
  "env \<Rightarrow> command_context \<Rightarrow> write_prepare_input \<Rightarrow> resource_observation list \<Rightarrow> active_lease_view
     \<Rightarrow> db \<Rightarrow> (string \<times> string \<times> db) result" where
  "prepare_write_attempt E ctx i current lease d =
     bindE (foldE (\<lambda>ob _. check_write_slot lease d ob) current ()) (\<lambda>_.
     let d1 = revoke_peers ctx (map obs_resource current) d;
         (attempt_id, d2) = new_uuid E d1;
         (permit_id, d3) = new_uuid E d2
     in bindE (guardE (task_exists d3 (cc_workspace_id ctx) (cc_task_id ctx)) fk_failed) (\<lambda>_.
        bindE (insert_write_attempt_row
          \<lparr>wa_attempt_id = attempt_id, wa_permit_id = permit_id,
           wa_workspace_id = cc_workspace_id ctx, wa_task_id = cc_task_id ctx,
           wa_invocation_id = wp_invocation_id i, wa_batch_id = av_batch_id lease,
           wa_operation = wp_operation i, wa_start_observations = current,
           wa_status = Executing, wa_started_at = cc_observed_at ctx,
           wa_deadline = wp_attempt_deadline i, wa_completed_at = None,
           wa_terminal_result = None\<rparr>
          (write_attempts d3)) (\<lambda>rows.
        bindE (foldE (acquire_slot (av_batch_id lease) attempt_id) current
                 (d3\<lparr>write_attempts := rows\<rparr>)) (\<lambda>d4.
        Inr (attempt_id, permit_id, d4)))))"

definition invalidate_uncertain_write ::
  "command_context \<Rightarrow> resource_observation list \<Rightarrow> db \<Rightarrow> db" where
  "invalidate_uncertain_write ctx obs d =
     fold (\<lambda>ob. revoke_overlapping ctx (obs_resource ob) None) obs d"

definition finish_draining_task :: "command_context \<Rightarrow> db \<Rightarrow> bool \<times> db" where
  "finish_draining_task ctx d =
     (case sql_first (\<lambda>t. is_ctx_task ctx t \<and> t_status t = Draining) (tasks d) of
        None \<Rightarrow> (False, d)
      | Some t \<Rightarrow>
          (case t_terminal_status t of
             None \<Rightarrow> (False, d)
           | Some terminal \<Rightarrow>
               if task_in_flight_count ctx d \<noteq> 0 then (False, d)
               else
                 let d1 = delete_leases (is_task_lease (cc_workspace_id ctx) (cc_task_id ctx)) d in
                 (True, d1\<lparr>tasks := sql_update (\<lambda>t. is_ctx_task ctx t \<and> t_status t = Draining)
                    (\<lambda>t. t\<lparr>t_status := terminal, t_updated_at := cc_observed_at ctx\<rparr>) (tasks d1)\<rparr>)))"

end
