(* ===== verification/Store_Commands.thy ===== *)
theory Store_Commands
  imports Store_Leases
begin

section \<open>The commands of the store\<close>

text \<open>
  The public methods of \<open>Store\<close> in \<^verbatim>\<open>src/crates/stateful-store/src/store_v2.rs\<close>. Every command
  runs inside \<open>accepted_command\<close>: one immediate transaction that replays a stored receipt or
  expires what is overdue, promotes waiters, runs the command's own closure (here its \<open>_op\<close>
  definition) and records the event and the receipt. \<open>transact\<close> is what a caller sees: a
  failing call leaves the database as it was, since the transaction is dropped uncommitted.

  \<open>maintain\<close> is the periodic transaction; \<open>lease_request_status_of\<close>, \<open>store_status\<close> and
  \<open>audit_events_of\<close> are the queries.
\<close>

definition CONTRACT_REVISION :: string where
  "CONTRACT_REVISION = ''lease-1''"

definition AUDIT_RETENTION_DAYS :: int where
  "AUDIT_RETENTION_DAYS = 14"

definition transact :: "('a \<times> db) result \<Rightarrow> db \<Rightarrow> 'a result \<times> db" where
  "transact m d = (case m of Inl e \<Rightarrow> (Inl e, d) | Inr (x, d') \<Rightarrow> (Inr x, d'))"

definition is_receipt :: "command_context \<Rightarrow> receipt_row \<Rightarrow> bool" where
  "is_receipt ctx r =
     (cr_workspace_id r = cc_workspace_id ctx \<and> cr_agent_id r = cc_agent_id ctx
      \<and> cr_request_id r = cc_request_id ctx)"

definition payload_digest :: "env \<Rightarrow> json \<Rightarrow> string" where
  "payload_digest E payload = cd_value (digest_canonical_json (blake3_hex E) payload)"

definition receipt_matches :: "env \<Rightarrow> string \<Rightarrow> json \<Rightarrow> receipt_row \<Rightarrow> bool" where
  "receipt_matches E kind payload r =
     (cr_contract_revision r = CONTRACT_REVISION \<and> cr_command_kind r = kind
      \<and> cr_payload_digest r = payload_digest E payload)"

definition record_command ::
  "env \<Rightarrow> command_context \<Rightarrow> string \<Rightarrow> json \<Rightarrow> command_response \<Rightarrow> db \<Rightarrow> db result" where
  "record_command E ctx kind payload response d =
     (let (event_id, d1) = new_uuid E d in
      bindE (insert_event_row
        \<lparr>ce_event_id = event_id, ce_workspace_id = cc_workspace_id ctx, ce_task_id = cc_task_id ctx,
         ce_agent_id = cc_agent_id ctx, ce_request_id = cc_request_id ctx,
         ce_contract_revision = CONTRACT_REVISION, ce_command_kind = kind, ce_payload = payload,
         ce_response = response, ce_recorded_at = cc_observed_at ctx\<rparr>
        (command_events d1)) (\<lambda>events.
      bindE (insert_receipt_row
        \<lparr>cr_workspace_id = cc_workspace_id ctx, cr_agent_id = cc_agent_id ctx,
         cr_request_id = cc_request_id ctx, cr_contract_revision = CONTRACT_REVISION,
         cr_command_kind = kind, cr_payload_digest = payload_digest E payload,
         cr_response = response, cr_recorded_at = cc_observed_at ctx\<rparr>
        (command_receipts d1)) (\<lambda>receipts.
      Inr (d1\<lparr>command_events := events, command_receipts := receipts\<rparr>))))"

definition accepted_command ::
  "env \<Rightarrow> command_context \<Rightarrow> string \<Rightarrow> json \<Rightarrow> (db \<Rightarrow> (command_response \<times> db) result) \<Rightarrow> db
     \<Rightarrow> (command_response \<times> db) result" where
  "accepted_command E ctx kind payload operation d =
     bindE (validate_context E ctx) (\<lambda>_.
     case sql_first (is_receipt ctx) (command_receipts d) of
       Some receipt \<Rightarrow>
         if receipt_matches E kind payload receipt then Inr (cr_response receipt, d)
         else Inl IdempotencyMismatch
     | None \<Rightarrow>
         bindE (promote_waiters E (cc_observed_at ctx)
                  (expire_tasks_and_leases (cc_observed_at ctx) d)) (\<lambda>d1.
         bindE (operation d1) (\<lambda>(response, d2).
         bindE (record_command E ctx kind payload response d2) (\<lambda>d3.
         Inr (response, d3)))))"

subsection \<open>Task commands\<close>

definition task_result :: "command_context \<Rightarrow> task_status \<Rightarrow> command_response" where
  "task_result ctx status =
     RTask \<lparr>tr_task_id = cc_task_id ctx, tr_status = status, tr_draining = (status = Draining)\<rparr>"

definition upsert_process :: "command_context \<Rightarrow> runtime_process_input \<Rightarrow> db \<Rightarrow> db" where
  "upsert_process ctx process d =
     (let same = (\<lambda>p. p_workspace_id p = cc_workspace_id ctx \<and> p_agent_id p = cc_agent_id ctx);
          row = \<lparr>p_workspace_id = cc_workspace_id ctx, p_agent_id = cc_agent_id ctx,
                 p_pid = rp_pid process, p_process_start_identity = rp_process_start_identity process,
                 p_status = ProcessActive, p_heartbeat_at = cc_observed_at ctx\<rparr>
      in d\<lparr>runtime_processes :=
             if sql_exists same (runtime_processes d)
             then sql_update same (\<lambda>_. row) (runtime_processes d)
             else runtime_processes d @ [row]\<rparr>)"

definition task_start_op ::
  "env \<Rightarrow> command_context \<Rightarrow> task_start_input \<Rightarrow> db \<Rightarrow> (command_response \<times> db) result" where
  "task_start_op E ctx i d =
     bindE (validate_context E ctx) (\<lambda>_.
     bindE (guardE (\<not> blank (ts_next_action i)) (InvalidInput ''next_action is required'')) (\<lambda>_.
     bindE (mapErr InvalidInput (validate_settings (ts_settings i))) (\<lambda>_.
     bindE (setting_seconds (inactivity_timeout_seconds (ts_settings i))) (\<lambda>timeout.
     bindE (validate_future_window E (cc_observed_at ctx) (ts_expires_at i) timeout
              ''task expires_at'') (\<lambda>_.
     case task_row d ctx of
       Some (agent_id, status) \<Rightarrow>
         if agent_id \<noteq> cc_agent_id ctx then Inl (Ownership ''task owner mismatch'')
         else Inr (task_result ctx status, d)
     | None \<Rightarrow>
         bindE (insert_task_row
           \<lparr>t_workspace_id = cc_workspace_id ctx, t_task_id = cc_task_id ctx,
            t_agent_id = cc_agent_id ctx, t_status = Active, t_terminal_status = None,
            t_next_action = trim (ts_next_action i), t_settings = ts_settings i,
            t_handoff = None, t_heartbeat_at = cc_observed_at ctx,
            t_expires_at = ts_expires_at i, t_created_at = cc_observed_at ctx,
            t_updated_at = cc_observed_at ctx\<rparr> (tasks d)) (\<lambda>rows.
         let d1 = d\<lparr>tasks := rows\<rparr> in
         bindE (case ts_runtime_process i of
                  None \<Rightarrow> Inr d1
                | Some process \<Rightarrow>
                    if blank (rp_process_start_identity process)
                    then Inl (InvalidInput ''process_start_identity is required'')
                    else Inr (upsert_process ctx process d1)) (\<lambda>d2.
         bindE (append_audit E ctx ''task.started'' (JObject
                  [(''next_action'', JString (ts_next_action i)),
                   (''settings'', settings_json (ts_settings i)),
                   (''expires_at'', JString (ts_expires_at i))]) d2) (\<lambda>d3.
         Inr (task_result ctx Active, d3)))))))))"

definition task_start ::
  "env \<Rightarrow> command_context \<Rightarrow> task_start_input \<Rightarrow> db \<Rightarrow> (command_response \<times> db) result" where
  "task_start E ctx i = accepted_command E ctx ''task.start'' (task_start_json i) (task_start_op E ctx i)"

definition task_heartbeat_op ::
  "env \<Rightarrow> command_context \<Rightarrow> task_heartbeat_input \<Rightarrow> db \<Rightarrow> (command_response \<times> db) result" where
  "task_heartbeat_op E ctx i d =
     bindE (require_task_owner d ctx True) (\<lambda>_.
     bindE (task_coordination_settings d ctx) (\<lambda>settings.
     bindE (setting_seconds (inactivity_timeout_seconds settings)) (\<lambda>timeout.
     bindE (validate_future_window E (cc_observed_at ctx) (th_expires_at i) timeout
              ''task expires_at'') (\<lambda>_.
     bindE (guardE (\<not> blank (th_next_action i)) (InvalidInput ''next_action is required'')) (\<lambda>_.
     let d1 = d\<lparr>tasks := sql_update (is_ctx_task ctx)
            (\<lambda>t. t\<lparr>t_next_action := trim (th_next_action i), t_heartbeat_at := cc_observed_at ctx,
                  t_expires_at := th_expires_at i, t_updated_at := cc_observed_at ctx\<rparr>) (tasks d)\<rparr>;
         d2 = d1\<lparr>runtime_processes := sql_update
            (\<lambda>p. p_workspace_id p = cc_workspace_id ctx \<and> p_agent_id p = cc_agent_id ctx
                \<and> p_status p = ProcessActive)
            (\<lambda>p. p\<lparr>p_heartbeat_at := cc_observed_at ctx\<rparr>) (runtime_processes d1)\<rparr>
     in bindE (task_status_of d2 ctx) (\<lambda>status.
        bindE (append_audit E ctx ''task.heartbeat'' (JObject
                 [(''next_action'', JString (th_next_action i)),
                  (''expires_at'', JString (th_expires_at i))]) d2) (\<lambda>d3.
        Inr (task_result ctx status, d3))))))))"

definition task_heartbeat ::
  "env \<Rightarrow> command_context \<Rightarrow> task_heartbeat_input \<Rightarrow> db \<Rightarrow> (command_response \<times> db) result" where
  "task_heartbeat E ctx i =
     accepted_command E ctx ''task.heartbeat'' (task_heartbeat_json i) (task_heartbeat_op E ctx i)"

text \<open>The three statements that take a task's claims away when it begins to end.\<close>

definition begin_drain :: "command_context \<Rightarrow> task_end_input \<Rightarrow> task_status \<Rightarrow> db \<Rightarrow> db" where
  "begin_drain ctx i terminal d =
     cancel_requests (cc_workspace_id ctx) (cc_task_id ctx) (cc_observed_at ctx)
       (d\<lparr>tasks := sql_update (is_ctx_task ctx)
            (\<lambda>t. t\<lparr>t_status := Draining, t_terminal_status := Some terminal,
                  t_handoff := te_handoff i, t_updated_at := cc_observed_at ctx\<rparr>) (tasks d),
          read_intents := sql_update
            (\<lambda>r. i_workspace_id r = cc_workspace_id ctx \<and> i_task_id r = cc_task_id ctx
                \<and> i_status r = IntentActive)
            (\<lambda>r. r\<lparr>i_status := IntentReleased\<rparr>) (read_intents d),
          resource_evidence := sql_update
            (\<lambda>e. e_workspace_id e = cc_workspace_id ctx \<and> e_task_id e = cc_task_id ctx \<and> e_valid e)
            (\<lambda>e. e\<lparr>e_valid := False\<rparr>) (resource_evidence d)\<rparr>)"

definition end_task_op ::
  "env \<Rightarrow> command_context \<Rightarrow> task_end_input \<Rightarrow> task_status \<Rightarrow> string \<Rightarrow> db
     \<Rightarrow> (command_response \<times> db) result" where
  "end_task_op E ctx i terminal kind d =
     bindE (require_task_owner d ctx False) (\<lambda>current.
     if task_is_terminal current
     then Inr (RTask \<lparr>tr_task_id = cc_task_id ctx, tr_status = current, tr_draining = False\<rparr>, d)
     else
       let d1 = begin_drain ctx i terminal d; in_flight = task_in_flight_count ctx d1 in
       bindE (if in_flight = 0
              then bindE (promote_waiters E (cc_observed_at ctx)
                     (update_task_terminal ctx terminal (release_all_task_leases ctx d1))) (\<lambda>d2.
                   Inr (terminal, d2))
              else Inr (Draining,
                drain_leases (is_task_lease (cc_workspace_id ctx) (cc_task_id ctx)) d1))
         (\<lambda>(status, d2).
       bindE (append_audit E ctx kind (JObject
                [(''status'', JString (task_status_name status)), (''in_flight'', jnat in_flight),
                 (''handoff'', jopt JString (te_handoff i))]) d2) (\<lambda>d3.
       Inr (task_result ctx status, d3))))"

definition end_task ::
  "env \<Rightarrow> command_context \<Rightarrow> task_end_input \<Rightarrow> task_status \<Rightarrow> string \<Rightarrow> db
     \<Rightarrow> (command_response \<times> db) result" where
  "end_task E ctx i terminal kind =
     accepted_command E ctx kind (task_end_json i) (end_task_op E ctx i terminal kind)"

definition task_finalize ::
  "env \<Rightarrow> command_context \<Rightarrow> task_end_input \<Rightarrow> db \<Rightarrow> (command_response \<times> db) result" where
  "task_finalize E ctx i = end_task E ctx i Completed ''task.finalize''"

definition task_cancel ::
  "env \<Rightarrow> command_context \<Rightarrow> task_end_input \<Rightarrow> db \<Rightarrow> (command_response \<times> db) result" where
  "task_cancel E ctx i = end_task E ctx i Cancelled ''task.cancel''"

subsection \<open>Read commands\<close>

text \<open>\<open>INSERT ... ON CONFLICT(read_id) DO NOTHING\<close> and the check that one row was inserted.\<close>

definition insert_read_attempt :: "read_attempt_row \<Rightarrow> db \<Rightarrow> db result" where
  "insert_read_attempt row d =
     (if sql_exists (\<lambda>r. ra_read_id r = ra_read_id row) (read_attempts d)
      then Inl (InvalidState
        ''read attempt already exists; only its original command receipt may replay'')
      else if sql_exists (\<lambda>r. ra_workspace_id r = ra_workspace_id row \<and> ra_task_id r = ra_task_id row
          \<and> ra_invocation_id r = ra_invocation_id row) (read_attempts d)
      then Inl constraint_failed
      else if \<not> task_exists d (ra_workspace_id row) (ra_task_id row) then Inl fk_failed
      else Inr (d\<lparr>read_attempts := read_attempts d @ [row]\<rparr>))"

definition read_result :: "string \<Rightarrow> read_result_status \<Rightarrow> string option \<Rightarrow> command_response" where
  "read_result read_id status evidence_id =
     RRead \<lparr>rr_read_id = read_id, rr_status = status, rr_evidence_id = evidence_id\<rparr>"

definition read_start_op ::
  "env \<Rightarrow> command_context \<Rightarrow> read_start_input \<Rightarrow> db \<Rightarrow> (command_response \<times> db) result" where
  "read_start_op E ctx i d =
     bindE (require_task_owner d ctx True) (\<lambda>_.
     bindE (guardE (\<not> blank (rs_read_id i) \<and> \<not> blank (rs_invocation_id i))
              (InvalidInput ''read_id and invocation_id are required'')) (\<lambda>_.
     bindE (sync_observations ctx (rs_resources i) d) (\<lambda>(obs, d1).
     bindE (guardE (obs \<noteq> []) (InvalidInput ''read resource set is required'')) (\<lambda>_.
     bindE (insert_read_attempt
       \<lparr>ra_read_id = rs_read_id i, ra_workspace_id = cc_workspace_id ctx,
        ra_task_id = cc_task_id ctx, ra_invocation_id = rs_invocation_id i,
        ra_resources = obs, ra_status = ReadRowStarted, ra_started_at = cc_observed_at ctx,
        ra_completed_at = None\<rparr> d1) (\<lambda>d2.
     bindE (append_audit E ctx ''read.started'' (JObject
              [(''read_id'', JString (rs_read_id i)),
               (''invocation_id'', JString (rs_invocation_id i)),
               (''resources'', JArray (map observation_json obs))]) d2) (\<lambda>d3.
     Inr (read_result (rs_read_id i) ReadStarted None, d3)))))))"

definition read_start ::
  "env \<Rightarrow> command_context \<Rightarrow> read_start_input \<Rightarrow> db \<Rightarrow> (command_response \<times> db) result" where
  "read_start E ctx i = accepted_command E ctx ''read.start'' (read_start_json i) (read_start_op E ctx i)"

definition fail_read ::
  "env \<Rightarrow> command_context \<Rightarrow> string \<Rightarrow> string \<Rightarrow> json \<Rightarrow> db \<Rightarrow> (command_response \<times> db) result" where
  "fail_read E ctx read_id event_type payload d =
     bindE (transition_read_attempt read_id ReadRowFailed (cc_observed_at ctx) d) (\<lambda>d1.
     bindE (append_audit E ctx event_type payload d1) (\<lambda>d2.
     Inr (read_result read_id ReadFailed None, d2)))"

definition read_complete_op ::
  "env \<Rightarrow> command_context \<Rightarrow> read_complete_input \<Rightarrow> db \<Rightarrow> (command_response \<times> db) result" where
  "read_complete_op E ctx i d =
     bindE (require_task_owner d ctx True) (\<lambda>_.
     bindE (ok_or (NotFound ''read attempt not found'')
       (sql_first (\<lambda>r. ra_read_id r = rc_read_id i \<and> ra_workspace_id r = cc_workspace_id ctx
            \<and> ra_task_id r = cc_task_id ctx) (read_attempts d))) (\<lambda>attempt.
     bindE (guardE (ra_invocation_id attempt = rc_invocation_id i)
              (Ownership ''read invocation does not match start'')) (\<lambda>_.
     bindE (guardE (ra_status attempt = ReadRowStarted) (InvalidState
       ''read attempt is terminal; only its original completion receipt may replay'')) (\<lambda>_.
     if \<not> (rc_terminal_success i \<and> rc_complete i \<and> rc_stable i \<and> rc_exact i)
     then fail_read E ctx (rc_read_id i) ''read.failed'' (JObject
            [(''read_id'', JString (rc_read_id i)),
             (''terminal_success'', JBool (rc_terminal_success i)),
             (''complete'', JBool (rc_complete i)), (''stable'', JBool (rc_stable i)),
             (''exact'', JBool (rc_exact i))]) d
     else
       let started = ra_resources attempt in
       bindE (canonicalize_observations ctx (rc_resources i)) (\<lambda>reported.
       bindE (current_observations d (map obs_resource started)) (\<lambda>completed.
       if started \<noteq> completed \<or> \<not> observations_same_state started reported
       then fail_read E ctx (rc_read_id i) ''read.unstable''
              (JObject [(''read_id'', JString (rc_read_id i))]) d
       else
         bindE (transition_read_attempt (rc_read_id i) ReadRowCompleted (cc_observed_at ctx) d) (\<lambda>d1.
         let (evidence_id, d2) = new_uuid E d1 in
         bindE (foldE (insert_evidence ctx evidence_id (rc_read_id i) (ra_started_at attempt))
                  completed d2) (\<lambda>d3.
         bindE (append_audit E ctx ''read.completed'' (JObject
                  [(''read_id'', JString (rc_read_id i)), (''evidence_id'', JString evidence_id),
                   (''resources'', JArray (map observation_json completed))]) d3) (\<lambda>d4.
         Inr (read_result (rc_read_id i) ReadCompleted (Some evidence_id), d4))))))))))"

definition read_complete ::
  "env \<Rightarrow> command_context \<Rightarrow> read_complete_input \<Rightarrow> db \<Rightarrow> (command_response \<times> db) result" where
  "read_complete E ctx i =
     accepted_command E ctx ''read.complete'' (read_complete_json i) (read_complete_op E ctx i)"

subsection \<open>Write and lease commands\<close>

text \<open>
  \<open>Debug\<close> and \<open>Display\<close> of the values in error messages. The \<open>Debug\<close> form of a path quotes it and
  escapes control characters; bytes above \<open>0x7F\<close> stay as they are, as those of printable
  characters do.
\<close>

definition hex_digit :: "nat \<Rightarrow> char" where
  "hex_digit n = (if n < 10 then char_of (48 + n) else char_of (87 + n))"

definition debug_char :: "char \<Rightarrow> string" where
  "debug_char c =
     (if c = CHR 0x22 \<or> c = CHR 0x5C then [CHR 0x5C, c]
      else if c = CHR 0x09 then [CHR 0x5C, CHR ''t'']
      else if c = CHR 0x0A then [CHR 0x5C, CHR ''n'']
      else if c = CHR 0x0D then [CHR 0x5C, CHR ''r'']
      else if c = CHR 0x00 then [CHR 0x5C, CHR ''0'']
      else if of_char c < (32 :: nat) \<or> c = CHR 0x7F
      then [CHR 0x5C, CHR ''u'', CHR ''{'']
        @ (if of_char c < (16 :: nat) then [] else [hex_digit (of_char c div 16)])
        @ [hex_digit (of_char c mod 16), CHR ''}'']
      else [c])"

definition debug_text :: "string \<Rightarrow> string" where
  "debug_text s = [CHR 0x22] @ concat (map debug_char s) @ [CHR 0x22]"

fun io_error_text :: "io_error \<Rightarrow> string" where
  "io_error_text NotFoundIo = ''No such file or directory (os error 2)''"
| "io_error_text NoDeviceIo = ''No such device or address (os error 6)''"
| "io_error_text PermissionDeniedIo = ''Permission denied (os error 13)''"
| "io_error_text NotADirectoryIo = ''Not a directory (os error 20)''"
| "io_error_text IsADirectoryIo = ''Is a directory (os error 21)''"
| "io_error_text AlreadyExistsIo = ''File exists (os error 17)''"
| "io_error_text DirectoryNotEmptyIo = ''Directory not empty (os error 39)''"
| "io_error_text InvalidInputIo = ''Invalid argument (os error 22)''"
| "io_error_text LoopIo = ''Too many levels of symbolic links (os error 40)''"
| "io_error_text StaleIo = ''Stale file handle (os error 116)''"
| "io_error_text InvalidDataIo = ''stream did not contain valid UTF-8''"

fun resource_error_text :: "resource_error \<Rightarrow> string" where
  "resource_error_text EmptyWorkspace = ''workspace id is empty''"
| "resource_error_text (InvalidWorkspace p) = ''workspace root is not a directory: '' @ p"
| "resource_error_text (InvalidRelativePath p) = ''path must stay inside the workspace: '' @ p"
| "resource_error_text (WorkspaceEscape p) = ''path resolves outside the workspace: '' @ p"
| "resource_error_text (NotRegularFile p) = ''expected a regular file: '' @ p"
| "resource_error_text (NotDirectory p) = ''expected a directory: '' @ p"
| "resource_error_text (NotAbsent p) = ''expected an absent path: '' @ p"
| "resource_error_text (SymlinkFile p) =
     ''symlink files require an explicit symlink-entry operation: '' @ p"
| "resource_error_text (UnstableObservation p) =
     ''resource changed while it was being observed: '' @ p"
| "resource_error_text (SymlinkInDirectoryTree p) = ''directory tree contains a symlink: '' @ p"
| "resource_error_text (HardlinkedRegularFile p) =
     ''directory tree contains a hardlinked regular file: '' @ p"
| "resource_error_text (UnsupportedTreeEntry p) =
     ''directory tree contains an unsupported filesystem object: '' @ p"
| "resource_error_text (AdapterSuppliedObservation p) =
     ''operation requires an adapter-supplied observation: '' @ p"
| "resource_error_text (InvalidOperationObservation m) = ''operation observation is invalid: '' @ m"
| "resource_error_text (InvalidOperationTransition m) = ''operation transition is invalid: '' @ m"
| "resource_error_text (NonUtf8Path p) = ''path is not valid UTF-8: '' @ debug_text p"
| "resource_error_text (IoError p e) =
     ''filesystem operation failed for '' @ debug_text p @ '': '' @ io_error_text e"
| "resource_error_text UnsupportedPlatform =
     ''filesystem identity is unsupported on this platform''"

definition lease_ids :: "active_lease_view option \<Rightarrow> string list" where
  "lease_ids active = (case active of None \<Rightarrow> [] | Some l \<Rightarrow> [av_batch_id l])"

text \<open>The validation \<open>write_prepare\<close> begins with; it returns the canonical observations.\<close>

definition validate_write_prepare ::
  "env \<Rightarrow> command_context \<Rightarrow> write_prepare_input \<Rightarrow> db \<Rightarrow> resource_observation list result" where
  "validate_write_prepare E ctx i d =
     bindE (require_task_owner d ctx True) (\<lambda>_.
     bindE (task_coordination_settings d ctx) (\<lambda>settings.
     bindE (setting_seconds (offer_ttl_seconds settings)) (\<lambda>ttl.
     bindE (validate_future_window E (cc_observed_at ctx) (wp_request_expires_at i) ttl
              ''request_expires_at'') (\<lambda>_.
     bindE (setting_seconds (lease_expiry_seconds settings)) (\<lambda>expiry.
     bindE (validate_future_window E (cc_observed_at ctx) (wp_lease_expires_at i) expiry
              ''lease_expires_at'') (\<lambda>_.
     bindE (validate_future E (cc_observed_at ctx) (wp_attempt_deadline i) ''attempt_deadline'') (\<lambda>_.
     bindE (guardE (\<not> blank (wp_invocation_id i)) (InvalidInput ''invocation_id is required'')) (\<lambda>_.
     bindE (canonicalize_observations ctx (wp_current i)) (\<lambda>reported.
     bindE (guardE (reported \<noteq> []) (InvalidInput ''write resource set is required'')) (\<lambda>_.
     bindE (mapErr (InvalidInput \<circ> resource_error_text)
              (validate_operation_start (wp_operation i) reported)) (\<lambda>_.
     Inr reported)))))))))))"

definition write_union ::
  "active_lease_view option \<Rightarrow> (string \<times> resource_key list) option \<Rightarrow> resource_key list
     \<Rightarrow> resource_key list" where
  "write_union active pending requested =
     (let held = (case active of None \<Rightarrow> [] | Some l \<Rightarrow> av_resources l);
          waiting = (case pending of None \<Rightarrow> held | Some (_, rs) \<Rightarrow> merge_resource_keys held rs)
      in merge_resource_keys waiting requested)"

text \<open>The branch of \<open>write_prepare\<close> taken when the task has to wait.\<close>

definition write_wait ::
  "env \<Rightarrow> command_context \<Rightarrow> write_prepare_input \<Rightarrow> active_lease_view option
     \<Rightarrow> (string \<times> resource_key list) option \<Rightarrow> resource_key list \<Rightarrow> string list
     \<Rightarrow> resource_observation list \<Rightarrow> db \<Rightarrow> (command_response \<times> db) result" where
  "write_wait E ctx i active pending wanted conflicts reported d =
     (if \<not> has_historical_evidence d ctx reported
      then Inr (RPrepare (RereadRequired (lease_ids active
             @ (case pending of None \<Rightarrow> [] | Some (batch, _) \<Rightarrow> [batch]))), d)
      else if (case active of None \<Rightarrow> False | Some l \<Rightarrow> av_in_flight_count l \<noteq> 0)
      then Inr (RPrepare (Denied ''lease_growth_while_write_in_flight''), d)
      else
        bindE (case active of
                 None \<Rightarrow> Inr d
               | Some _ \<Rightarrow> promote_waiters E (cc_observed_at ctx) (release_all_task_leases ctx d)) (\<lambda>d1.
        let enqueue =
          bindE (enqueue_request E ctx wanted (wp_request_expires_at i) d1) (\<lambda>(queued, d2).
          bindE (promote_waiters E (cc_observed_at ctx) d2) (\<lambda>d3.
          bindE (append_audit E ctx ''lease.queued'' (JObject
                   [(''batch_id'', JString (qu_batch_id queued)),
                    (''queue_position'', jnat (qu_queue_position queued)),
                    (''resources'', JArray (map resource_key_json wanted)),
                    (''conflicts'', JArray (map JString conflicts))]) d3) (\<lambda>d4.
          Inr (RPrepare (Queued (qu_batch_id queued)), d4))))
        in case (active, pending) of
             (None, Some (batch, rs)) \<Rightarrow>
               if rs = wanted
               then bindE (append_audit E ctx ''lease.queue_reused'' (JObject
                        [(''batch_id'', JString batch),
                         (''resources'', JArray (map resource_key_json wanted))]) d1) (\<lambda>d2.
                    Inr (RPrepare (Queued batch), d2))
               else enqueue
           | _ \<Rightarrow> enqueue))"

text \<open>The branch of \<open>write_prepare\<close> taken when nothing is in the way.\<close>

definition write_ready ::
  "env \<Rightarrow> command_context \<Rightarrow> write_prepare_input \<Rightarrow> active_lease_view option \<Rightarrow> resource_key list
     \<Rightarrow> resource_observation list \<Rightarrow> db \<Rightarrow> (command_response \<times> db) result" where
  "write_ready E ctx i active wanted reported d =
     (let requested = map obs_resource reported in
      bindE (current_observations d requested) (\<lambda>current.
      if \<not> observations_same_state current reported \<or> \<not> has_current_evidence d ctx current None
      then Inr (RPrepare (RereadRequired (lease_ids active)), d)
      else
        bindE (ensure_active_lease E ctx active wanted (wp_lease_expires_at i) d) (\<lambda>(lease, d1).
        let d2 = revoke_peers ctx wanted d1 in
        bindE (prepare_write_attempt E ctx i current lease d2) (\<lambda>(attempt_id, permit_id, d3).
        bindE (append_audit E ctx ''write.prepared'' (JObject
                 [(''batch_id'', JString (av_batch_id lease)),
                  (''lease_version'', jnat (av_version lease)),
                  (''write_attempt_id'', JString attempt_id),
                  (''resources'', JArray (map resource_key_json requested))]) d3) (\<lambda>d4.
        Inr (RPrepare (Ready attempt_id permit_id [av_batch_id lease]), d4))))))"

definition write_prepare_op ::
  "env \<Rightarrow> command_context \<Rightarrow> write_prepare_input \<Rightarrow> db \<Rightarrow> (command_response \<times> db) result" where
  "write_prepare_op E ctx i d =
     bindE (validate_write_prepare E ctx i d) (\<lambda>reported.
     let active = active_task_lease ctx d;
         pending = pending_task_request ctx d;
         wanted = write_union active pending (map obs_resource reported);
         conflicts = conflicting_owners (cc_workspace_id ctx) (cc_task_id ctx) wanted None d
           @ queued_conflicting_owners (cc_workspace_id ctx) (cc_task_id ctx) wanted d
     in if pending \<noteq> None \<or> agent_slot_occupied ctx (Some (cc_task_id ctx)) d \<or> conflicts \<noteq> []
        then write_wait E ctx i active pending wanted conflicts reported d
        else write_ready E ctx i active wanted reported d)"

definition write_prepare ::
  "env \<Rightarrow> command_context \<Rightarrow> write_prepare_input \<Rightarrow> db \<Rightarrow> (command_response \<times> db) result" where
  "write_prepare E ctx i =
     accepted_command E ctx ''write.prepare'' (write_prepare_json i) (write_prepare_op E ctx i)"

definition activate_result :: "string \<Rightarrow> bool \<Rightarrow> command_response" where
  "activate_result batch active = RActivate \<lparr>lar_batch_id = batch, lar_active = active\<rparr>"

text \<open>The version compare-and-swap that ends an activation.\<close>

definition activate_request :: "command_context \<Rightarrow> lease_activate_input \<Rightarrow> nat \<Rightarrow> db \<Rightarrow> db result" where
  "activate_request ctx i lease_version d =
     (let p = (\<lambda>q. q_workspace_id q = cc_workspace_id ctx \<and> q_task_id q = cc_task_id ctx
                 \<and> q_batch_id q = la_batch_id i \<and> q_state q = QOffered \<and> q_version q = la_version i)
      in if sql_count p (lease_requests d) \<noteq> 1
         then Inl (InvalidState ''offer activation lost its version CAS'')
         else Inr (d\<lparr>lease_requests := sql_update p
                (\<lambda>q. q\<lparr>q_state := QActivated, q_version := lease_version,
                      q_updated_at := cc_observed_at ctx\<rparr>) (lease_requests d)\<rparr>))"

definition lease_activate_op ::
  "env \<Rightarrow> command_context \<Rightarrow> lease_activate_input \<Rightarrow> db \<Rightarrow> (command_response \<times> db) result" where
  "lease_activate_op E ctx i d =
     bindE (require_task_owner d ctx True) (\<lambda>_.
     bindE (task_coordination_settings d ctx) (\<lambda>settings.
     bindE (setting_seconds (lease_expiry_seconds settings)) (\<lambda>expiry.
     bindE (validate_future_window E (cc_observed_at ctx) (la_lease_expires_at i) expiry
              ''lease_expires_at'') (\<lambda>_.
     bindE (ok_or (NotFound ''lease request not found'')
              (lease_request_row ctx (la_batch_id i) d)) (\<lambda>request.
     let rejected = Inr (activate_result (la_batch_id i) False, d) in
     if rv_state request \<noteq> QOffered \<or> rv_offer_id request \<noteq> Some (la_offer_id i)
        \<or> rv_version request \<noteq> la_version i
     then rejected
     else
       bindE (ok_or (Corrupt ''offered request has no offered_at'') (rv_offered_at request)) (\<lambda>offered_at.
       bindE (current_observations d (rv_resources request)) (\<lambda>observations.
       if \<not> has_current_evidence d ctx observations (Some offered_at) then rejected
       else if agent_slot_occupied ctx None d then rejected
       else if conflicting_owners (cc_workspace_id ctx) (cc_task_id ctx) (rv_resources request)
                 (Some (la_batch_id i)) d \<noteq> []
               \<or> active_task_lease ctx d \<noteq> None
       then rejected
       else
         bindE (ok_or (Corrupt ''lease request version overflow'')
                  (checked_add_u64 (rv_version request) 1)) (\<lambda>lease_version.
         bindE (insert_active_lease ctx (la_batch_id i) lease_version (rv_resources request)
                  (la_lease_expires_at i) d) (\<lambda>d1.
         let d2 = revoke_peers ctx (rv_resources request) d1 in
         bindE (activate_request ctx i lease_version d2) (\<lambda>d3.
         bindE (append_audit E ctx ''lease.activated'' (JObject
                  [(''batch_id'', JString (la_batch_id i)),
                   (''lease_version'', jnat lease_version)]) d3) (\<lambda>d4.
         Inr (activate_result (la_batch_id i) True, d4))))))))))))"

definition lease_activate ::
  "env \<Rightarrow> command_context \<Rightarrow> lease_activate_input \<Rightarrow> db \<Rightarrow> (command_response \<times> db) result" where
  "lease_activate E ctx i =
     accepted_command E ctx ''lease.activate'' (lease_activate_json i) (lease_activate_op E ctx i)"

fun release_status_name :: "lease_release_status \<Rightarrow> string" where
  "release_status_name Released = ''released''"
| "release_status_name Deferred = ''deferred''"

definition lease_release_op ::
  "env \<Rightarrow> command_context \<Rightarrow> lease_release_input \<Rightarrow> db \<Rightarrow> (command_response \<times> db) result" where
  "lease_release_op E ctx i d =
     bindE (require_task_owner d ctx False) (\<lambda>_.
     bindE (ok_or (NotFound ''active lease not found'')
       (case active_task_lease ctx d of
          None \<Rightarrow> None
        | Some l \<Rightarrow> if av_batch_id l = lri_batch_id i then Some l else None)) (\<lambda>lease.
     bindE (if av_in_flight_count lease = 0
            then bindE (promote_waiters E (cc_observed_at ctx)
                   (delete_leases (is_batch_lease (lri_batch_id i)) d)) (\<lambda>d1. Inr (Released, d1))
            else Inr (Deferred, drain_leases (is_batch_lease (lri_batch_id i)) d)) (\<lambda>(status, d1).
     bindE (append_audit E ctx ''lease.release'' (JObject
              [(''batch_id'', JString (lri_batch_id i)),
               (''status'', JString (release_status_name status))]) d1) (\<lambda>d2.
     Inr (RRelease \<lparr>lrr_batch_id = lri_batch_id i, lrr_status = status\<rparr>, d2)))))"

definition lease_release ::
  "env \<Rightarrow> command_context \<Rightarrow> lease_release_input \<Rightarrow> db \<Rightarrow> (command_response \<times> db) result" where
  "lease_release E ctx i =
     accepted_command E ctx ''lease.release'' (lease_release_json i) (lease_release_op E ctx i)"

text \<open>
  How \<open>write_complete\<close> classifies an attempt: what it becomes, the observations that become
  evidence of the task's own write, and the database after the observations are recorded or
  the doubtful evidence is revoked.
\<close>

definition classify_completion ::
  "command_context \<Rightarrow> write_complete_input \<Rightarrow> write_attempt_row \<Rightarrow> db
     \<Rightarrow> (write_result_status \<times> resource_observation list option \<times> db) result" where
  "classify_completion ctx i attempt d =
     bindE (canonicalize_observations ctx (wc_post_resources i)) (\<lambda>actual.
     bindE (canonicalize_observations ctx (wc_expected_post_resources i)) (\<lambda>expected.
     let start = wa_start_observations attempt;
         success_matches = expected \<noteq> []
           \<and> is_ok (validate_operation_transition (wa_operation attempt) start expected actual)
     in if wc_terminal i = TSuccess \<and> success_matches
        then bindE (sync_observations ctx actual d) (\<lambda>(obs, d1). Inr (WCompleted, Some obs, d1))
        else if wc_terminal i = TFailedKnown \<and> observations_same_state start actual
        then Inr (WFailed, None, d)
        else Inr (WUncertain, None, invalidate_uncertain_write ctx start d)))"

fun write_row_status_of :: "write_result_status \<Rightarrow> write_row_status" where
  "write_row_status_of WCompleted = WriteCompleted"
| "write_row_status_of WFailed = WriteFailed"
| "write_row_status_of WUncertain = WriteUncertain"

definition finish_attempt ::
  "command_context \<Rightarrow> write_complete_input \<Rightarrow> write_result_status \<Rightarrow> db \<Rightarrow> db result" where
  "finish_attempt ctx i status d =
     (let p = (\<lambda>a. wa_attempt_id a = wc_attempt_id i \<and> wa_status a = Executing) in
      if sql_count p (write_attempts d) \<noteq> 1
      then Inl (InvalidState ''write completion lost its one-shot CAS'')
      else Inr (d\<lparr>write_attempts := sql_update p
             (\<lambda>a. a\<lparr>wa_status := write_row_status_of status,
                   wa_completed_at := Some (cc_observed_at ctx), wa_terminal_result := Some i\<rparr>)
             (write_attempts d)\<rparr>))"

definition release_slots :: "string \<Rightarrow> db \<Rightarrow> db" where
  "release_slots attempt_id d =
     d\<lparr>lease_resources := sql_update (\<lambda>lr. lr_in_flight_attempt_id lr = Some attempt_id)
         (\<lambda>lr. lr\<lparr>lr_in_flight_attempt_id := None\<rparr>) (lease_resources d)\<rparr>"

text \<open>What happens to the batch's lease after the attempt has ended.\<close>

definition settle_lease :: "write_result_status \<Rightarrow> string \<Rightarrow> db \<Rightarrow> bool \<times> db" where
  "settle_lease status batch d =
     (if status = WUncertain then (False, drain_leases (is_batch_lease batch) d)
      else
        let release_pending = (case sql_first (is_batch_lease batch) (active_leases d) of
               None \<Rightarrow> False | Some l \<Rightarrow> l_release_pending l)
        in if release_pending \<and> batch_in_flight_count batch d = 0
           then (True, delete_leases (is_batch_lease batch) d)
           else (False, d))"

definition write_complete_op ::
  "env \<Rightarrow> command_context \<Rightarrow> write_complete_input \<Rightarrow> db \<Rightarrow> (command_response \<times> db) result" where
  "write_complete_op E ctx i d =
     bindE (require_task_owner d ctx False) (\<lambda>_.
     bindE (ok_or (NotFound ''write attempt not found'')
       (sql_first (\<lambda>a. wa_attempt_id a = wc_attempt_id i \<and> wa_workspace_id a = cc_workspace_id ctx
            \<and> wa_task_id a = cc_task_id ctx) (write_attempts d))) (\<lambda>attempt.
     bindE (guardE (wa_invocation_id attempt = wc_invocation_id i
                    \<and> wa_permit_id attempt = wc_permit_id i)
              (Ownership ''write invocation or permit does not match prepare'')) (\<lambda>_.
     bindE (guardE (wa_status attempt = Executing) (InvalidState
       ''write attempt is terminal; only its original completion receipt may replay'')) (\<lambda>_.
     bindE (classify_completion ctx i attempt d) (\<lambda>(status, own_write_evidence, d1).
     bindE (finish_attempt ctx i status d1) (\<lambda>d2.
     bindE (case own_write_evidence of
              None \<Rightarrow> Inr d2
            | Some obs \<Rightarrow> insert_own_write_evidence E ctx (wc_attempt_id i) obs d2) (\<lambda>d3.
     let (released, d4) = settle_lease status (wa_batch_id attempt)
           (release_slots (wc_attempt_id i) d3);
         (finished, d5) = finish_draining_task ctx d4
     in bindE (if released \<or> finished then promote_waiters E (cc_observed_at ctx) d5
               else Inr d5) (\<lambda>d6.
        bindE (append_audit E ctx ''write.completed'' (JObject
                 [(''attempt_id'', JString (wc_attempt_id i)),
                  (''batch_id'', JString (wa_batch_id attempt)),
                  (''status'', JString (write_result_name status)),
                  (''error'', jopt JString (wc_error i))]) d6) (\<lambda>d7.
        Inr (RComplete \<lparr>wcr_attempt_id = wc_attempt_id i, wcr_status = status\<rparr>, d7))))))))))"

definition write_complete ::
  "env \<Rightarrow> command_context \<Rightarrow> write_complete_input \<Rightarrow> db \<Rightarrow> (command_response \<times> db) result" where
  "write_complete E ctx i =
     accepted_command E ctx ''write.complete'' (write_complete_json i) (write_complete_op E ctx i)"

subsection \<open>Maintenance and queries\<close>

definition task_inactive :: "db \<Rightarrow> string \<Rightarrow> string \<Rightarrow> bool" where
  "task_inactive d ws task = sql_exists (\<lambda>t. is_task ws task t \<and> t_status t \<noteq> Active) (tasks d)"

definition retire_inactive :: "string \<Rightarrow> db \<Rightarrow> db" where
  "retire_inactive now d =
     d\<lparr>read_attempts := sql_update
          (\<lambda>r. ra_status r = ReadRowStarted \<and> task_inactive d (ra_workspace_id r) (ra_task_id r))
          (\<lambda>r. r\<lparr>ra_status := ReadRowFailed, ra_completed_at := Some now\<rparr>) (read_attempts d),
       read_intents := sql_update
          (\<lambda>r. i_status r = IntentActive \<and> task_inactive d (i_workspace_id r) (i_task_id r))
          (\<lambda>r. r\<lparr>i_status := IntentReleased\<rparr>) (read_intents d),
       resource_evidence := sql_update
          (\<lambda>e. e_valid e \<and> task_inactive d (e_workspace_id e) (e_task_id e))
          (\<lambda>e. e\<lparr>e_valid := False\<rparr>) (resource_evidence d)\<rparr>"

definition drain_overdue :: "string \<Rightarrow> db \<Rightarrow> db" where
  "drain_overdue now d =
     drain_leases (\<lambda>l. l_state l = LeaseActive
        \<and> sql_exists (\<lambda>a. wa_status a = Executing \<and> wa_deadline a \<le> now
             \<and> wa_batch_id a = l_batch_id l) (write_attempts d)) d"

definition maintain :: "env \<Rightarrow> string \<Rightarrow> db \<Rightarrow> db result" where
  "maintain E now d =
     bindE (validate_timestamp E now) (\<lambda>_.
     let d1 = drain_overdue now (retire_inactive now
                (expire_tasks_and_leases now (expire_offers now d))) in
     bindE (parse_timestamp E now) (\<lambda>now_value.
     bindE (add_duration E now_value (- seconds (AUDIT_RETENTION_DAYS * 86400))) (\<lambda>limit.
     bindE (format_timestamp E limit) (\<lambda>cutoff.
     promote_waiters E now
       (d1\<lparr>audit_events := sql_delete (\<lambda>a. au_created_at a < cutoff) (audit_events d1)\<rparr>)))))"

definition lease_request_status_of ::
  "env \<Rightarrow> string \<Rightarrow> string \<Rightarrow> string \<Rightarrow> string \<Rightarrow> db \<Rightarrow> lease_request_status result" where
  "lease_request_status_of E ws task batch now d =
     bindE (validate_timestamp E now) (\<lambda>_.
     bindE (ok_or (NotFound ''lease request not found'')
       (sql_first (\<lambda>q. q_workspace_id q = ws \<and> q_task_id q = task \<and> q_batch_id q = batch)
          (lease_requests d))) (\<lambda>q.
     Inr \<lparr>lrs_batch_id = batch, lrs_state = q_state q, lrs_version = q_version q,
          lrs_offer_id = q_offer_id q, lrs_offer_expires_at = q_offer_expires_at q,
          lrs_superseded_by = q_superseded_by q\<rparr>))"

definition store_status :: "db \<Rightarrow> status_snapshot" where
  "store_status d =
     \<lparr>ss_active_tasks = sql_count (\<lambda>t. t_status t = Active) (tasks d),
      ss_draining_tasks = sql_count (\<lambda>t. t_status t = Draining) (tasks d),
      ss_active_leases = sql_count (\<lambda>l. l_state l = LeaseActive) (active_leases d),
      ss_draining_leases = sql_count (\<lambda>l. l_state l = LeaseDraining) (active_leases d),
      ss_queued_requests = sql_count (\<lambda>q. q_state q = QQueued) (lease_requests d),
      ss_offered_requests = sql_count (\<lambda>q. q_state q = QOffered) (lease_requests d),
      ss_executing_writes = sql_count (\<lambda>a. wa_status a = Executing) (write_attempts d),
      ss_uncertain_writes = sql_count (\<lambda>a. wa_status a = WriteUncertain) (write_attempts d)\<rparr>"

definition audit_events_of :: "nat \<Rightarrow> db \<Rightarrow> audit_row list" where
  "audit_events_of limit d = take (min limit 1000) (rev (audit_events d))"

end
