(* ===== verification/Store_Frames.thy ===== *)
theory Store_Frames
  imports Store_Commands
begin

section \<open>Frames: what each helper leaves alone\<close>

text \<open>
  \<open>core d\<close> is the part of the database that decides who may write: tasks, leases, requests
  and write attempts. Observing, recording evidence, auditing and recording receipts leave it
  alone; the lemmas here, in the collection \<open>core_frames\<close>, say so for every helper, and the
  safety proofs use them to skip those calls. \<open>new_uuid_simps\<close> and the like name what a call
  does change.
\<close>

named_theorems core_frames \<open>calls that keep the core of the database\<close>

definition core :: "db \<Rightarrow> task_row list \<times> lease_row list \<times> lease_resource_row list
    \<times> request_row list \<times> request_resource_row list \<times> write_attempt_row list \<times> nat" where
  "core d = (tasks d, active_leases d, lease_resources d, lease_requests d,
     lease_request_resources d, write_attempts d, lease_queue d)"

lemma core_simps [simp]:
  "core (d\<lparr>uuids_drawn := n\<rparr>) = core d"
  "core (d\<lparr>audit_events := a\<rparr>) = core d"
  "core (d\<lparr>read_intents := i\<rparr>) = core d"
  "core (d\<lparr>resource_evidence := e\<rparr>) = core d"
  "core (d\<lparr>resources := r\<rparr>) = core d"
  "core (d\<lparr>resource_aliases := al\<rparr>) = core d"
  "core (d\<lparr>runtime_processes := p\<rparr>) = core d"
  "core (d\<lparr>read_attempts := ra\<rparr>) = core d"
  "core (d\<lparr>command_events := ce\<rparr>) = core d"
  "core (d\<lparr>command_receipts := cr\<rparr>) = core d"
  by (simp_all add: core_def)

lemma core_eqD:
  assumes "core d' = core d"
  shows "tasks d' = tasks d" "active_leases d' = active_leases d"
    "lease_resources d' = lease_resources d" "lease_requests d' = lease_requests d"
    "lease_request_resources d' = lease_request_resources d"
    "write_attempts d' = write_attempts d" "lease_queue d' = lease_queue d"
  using assms by (simp_all add: core_def)

lemma new_uuid_core [core_frames]: "new_uuid E d = (u, d') \<Longrightarrow> core d' = core d"
  by (auto simp: new_uuid_def)

lemma append_audit_core [core_frames]: "append_audit E ctx ev p d = Inr d' \<Longrightarrow> core d' = core d"
  by (auto simp: append_audit_def new_uuid_def Let_def)

lemma core_fold: "(\<And>x d. core (f x d) = core d) \<Longrightarrow> core (fold f xs d) = core d"
  by (induction xs arbitrary: d) auto

lemma core_foldE:
  assumes "foldE f xs d = Inr d'" and "\<And>x d d'. f x d = Inr d' \<Longrightarrow> core d' = core d"
  shows "core d' = core d"
  by (rule foldE_relation [where R = "\<lambda>d d'. core d' = core d", OF assms(1)]) (use assms(2) in auto)

lemma revoke_one_core [simp]: "core (revoke_one x d) = core d"
  by (simp add: revoke_one_def split: prod.splits)

lemma revoke_overlapping_core [simp]: "core (revoke_overlapping ctx r ex d) = core d"
  by (simp add: revoke_overlapping_def core_fold)

lemma revoke_peers_core [simp]: "core (revoke_peers ctx rs d) = core d"
  by (simp add: revoke_peers_def core_fold)

lemma invalidate_uncertain_write_core [simp]: "core (invalidate_uncertain_write ctx obs d) = core d"
  by (simp add: invalidate_uncertain_write_def core_fold)

lemma insert_alias_core [simp]: "core (insert_alias r d) = core d"
  by (simp add: insert_alias_def Let_def)

lemma upsert_process_core [simp]: "core (upsert_process ctx p d) = core d"
  by (simp add: upsert_process_def Let_def)

lemma retire_inactive_core [simp]: "core (retire_inactive now d) = core d"
  by (simp add: retire_inactive_def)

lemma sync_resource_core [core_frames]:
  "sync_resource ctx ob d = Inr (g, d') \<Longrightarrow> core d' = core d"
  by (auto simp: sync_resource_def Let_def split: option.splits if_splits)

lemma sync_observations_core [core_frames]:
  assumes "sync_observations ctx input d = Inr (obs, d')"
  shows "core d' = core d"
proof -
  from assms obtain seen where
    "foldE (sync_step ctx) (sort_observations input) ([], [], d) = Inr (seen, obs, d')"
    by (auto simp: sync_observations_def)
  note fold = this
  have "(\<lambda>(_, _, d2). core d2 = core d) (seen, obs, d')"
    by (rule foldE_invariant [OF fold]) (auto simp: sync_step_def dest: sync_resource_core)
  then show ?thesis by simp
qed

lemma transition_read_attempt_core [core_frames]:
  "transition_read_attempt rid st t d = Inr d' \<Longrightarrow> core d' = core d"
  by (auto simp: transition_read_attempt_def Let_def split: if_splits)

lemma insert_read_attempt_core [core_frames]:
  "insert_read_attempt row d = Inr d' \<Longrightarrow> core d' = core d"
  by (auto simp: insert_read_attempt_def split: if_splits)

lemma insert_evidence_core [core_frames]:
  "insert_evidence ctx ev rid st ob d = Inr d' \<Longrightarrow> core d' = core d"
  by (auto simp: insert_evidence_def Let_def split: if_splits)

lemma insert_own_write_evidence_core [core_frames]:
  assumes "insert_own_write_evidence E ctx att obs d = Inr d'"
  shows "core d' = core d"
proof -
  obtain ev d1 where u: "new_uuid E d = (ev, d1)" by (cases "new_uuid E d")
  with assms have "core d' = core d1"
    unfolding insert_own_write_evidence_def Let_def by (auto elim!: core_foldE)
  with u show ?thesis by (simp add: new_uuid_core)
qed

lemma record_command_core [core_frames]:
  "record_command E ctx kind p resp d = Inr d' \<Longrightarrow> core d' = core d"
  by (auto simp: record_command_def new_uuid_def Let_def)

subsection \<open>The read commands keep the core\<close>

lemma read_start_op_core: "read_start_op E ctx i d = Inr (r, d') \<Longrightarrow> core d' = core d"
  by (auto simp: read_start_op_def dest!: core_frames)

lemma fail_read_core: "fail_read E ctx rid ev p d = Inr (r, d') \<Longrightarrow> core d' = core d"
  by (auto simp: fail_read_def dest!: core_frames)

lemma insert_evidences_core:
  "foldE (insert_evidence ctx ev rid st) obs d = Inr d' \<Longrightarrow> core d' = core d"
  by (erule core_foldE) (rule insert_evidence_core)

lemma read_complete_op_core: "read_complete_op E ctx i d = Inr (r, d') \<Longrightarrow> core d' = core d"
  by (auto simp: read_complete_op_def Let_def new_uuid_def split: if_splits
      dest!: core_frames fail_read_core insert_evidences_core)

end
