(* ===== verification/Store_Invariants.thy ===== *)
theory Store_Invariants
  imports Store_Frames
begin

section \<open>The safety invariant of the store\<close>

text \<open>
  \<open>lease_inv\<close> is the invariant every transaction of the store keeps. Its parts:
  \<^item> \<open>unique_inv\<close>: the keys of the schema are unique;
  \<^item> \<open>owner_inv\<close>: a lease belongs to a task that has not ended, and to that task's agent; a
    pending request belongs to an active task; a draining task knows how it will end;
  \<^item> \<open>rows_inv\<close>: resource rows belong to a lease or request of their workspace; queue numbers
    do not exceed the persistent counter;
  \<^item> \<open>exclusive\<close>: leases of different tasks never overlap;
  \<^item> \<open>reserved\<close>: an offer overlaps neither another task's lease nor another task's offer;
  \<^item> \<open>marked\<close> and \<open>covered\<close>: the in-flight markers of the leased resources are exactly those of
    the executing write attempts, and the lease of an executing attempt still exists.

  The parts are antitone in the leases, requests and resource rows, up to the columns that
  identify them; the \<open>_mono\<close> lemmas say this once, and deletes, drains, expiries and
  cancellations all follow from them.
\<close>

subsection \<open>Definitions\<close>

definition lease_id :: "lease_row \<Rightarrow> string \<times> string \<times> string \<times> string" where
  "lease_id l = (l_batch_id l, l_workspace_id l, l_task_id l, l_agent_id l)"

definition lr_id :: "lease_resource_row \<Rightarrow> string \<times> string \<times> string \<times> resource_kind \<times> string" where
  "lr_id r = (lr_batch_id r, lr_workspace_id r, lr_resource_id r, lr_resource_kind r, lr_canonical_path r)"

definition request_id :: "request_row \<Rightarrow> string \<times> string \<times> string \<times> string" where
  "request_id q = (q_batch_id q, q_workspace_id q, q_task_id q, q_agent_id q)"

text \<open>The resources a lease holds and a request asks for.\<close>

definition held :: "db \<Rightarrow> lease_row \<Rightarrow> resource_key set" where
  "held d l = lease_resource_row_key (l_workspace_id l)
     ` {r \<in> set (lease_resources d). lr_batch_id r = l_batch_id l}"

definition asked :: "db \<Rightarrow> request_row \<Rightarrow> resource_key set" where
  "asked d q = request_resource_row_key (q_workspace_id q)
     ` {r \<in> set (lease_request_resources d). qr_batch_id r = q_batch_id q}"

definition offered :: "db \<Rightarrow> request_row set" where
  "offered d = {q \<in> set (lease_requests d). q_state q = QOffered}"

definition unique_inv :: "db \<Rightarrow> bool" where
  "unique_inv d =
     (unique_by task_key (tasks d) \<and> unique_by lease_batch_key (active_leases d)
      \<and> unique_by lease_agent_key (active_leases d)
      \<and> unique_by lease_resource_key (lease_resources d)
      \<and> unique_by request_batch_key (lease_requests d)
      \<and> unique_by request_sequence_key (lease_requests d)
      \<and> unique_by pending_task_key (lease_requests d)
      \<and> unique_by attempt_key (write_attempts d))"

definition lease_owner :: "db \<Rightarrow> bool" where
  "lease_owner d = (\<forall>l \<in> set (active_leases d). \<exists>t \<in> set (tasks d).
     is_task (l_workspace_id l) (l_task_id l) t \<and> t_agent_id t = l_agent_id l
     \<and> \<not> task_is_terminal (t_status t))"

definition request_owner :: "db \<Rightarrow> bool" where
  "request_owner d = (\<forall>q \<in> set (lease_requests d). \<exists>t \<in> set (tasks d).
     is_task (q_workspace_id q) (q_task_id q) t \<and> t_agent_id t = q_agent_id q
     \<and> (request_pending q \<longrightarrow> t_status t = Active))"

definition drain_target :: "db \<Rightarrow> bool" where
  "drain_target d = (\<forall>t \<in> set (tasks d). t_status t = Draining \<longrightarrow>
     (\<exists>s. t_terminal_status t = Some s \<and> task_is_terminal s))"

definition lease_rows :: "db \<Rightarrow> bool" where
  "lease_rows d = (\<forall>r \<in> set (lease_resources d). \<exists>l \<in> set (active_leases d).
     l_batch_id l = lr_batch_id r \<and> l_workspace_id l = lr_workspace_id r)"

definition request_rows :: "db \<Rightarrow> bool" where
  "request_rows d =
     ((\<forall>r \<in> set (lease_request_resources d). \<exists>q \<in> set (lease_requests d).
         q_batch_id q = qr_batch_id r \<and> q_workspace_id q = qr_workspace_id r)
      \<and> (\<forall>q \<in> set (lease_requests d). q_queue_sequence q \<le> lease_queue d))"

definition exclusive :: "db \<Rightarrow> bool" where
  "exclusive d = (\<forall>l \<in> set (active_leases d). \<forall>m \<in> set (active_leases d).
     l_task_id l \<noteq> l_task_id m \<longrightarrow> overlap.clear_of (held d l) (held d m))"

definition reserved :: "db \<Rightarrow> bool" where
  "reserved d = (\<forall>q \<in> offered d.
     (\<forall>l \<in> set (active_leases d). l_task_id l \<noteq> q_task_id q
        \<longrightarrow> overlap.clear_of (asked d q) (held d l))
     \<and> (\<forall>p \<in> offered d. q_task_id p \<noteq> q_task_id q
        \<longrightarrow> overlap.clear_of (asked d q) (asked d p)))"

definition marked :: "db \<Rightarrow> bool" where
  "marked d = (\<forall>r \<in> set (lease_resources d). \<forall>a. lr_in_flight_attempt_id r = Some a \<longrightarrow>
     (\<exists>w \<in> set (write_attempts d). wa_attempt_id w = a \<and> wa_status w = Executing
        \<and> wa_batch_id w = lr_batch_id r))"

definition covers :: "db \<Rightarrow> write_attempt_row \<Rightarrow> resource_key \<Rightarrow> bool" where
  "covers d w k = (\<exists>r \<in> set (lease_resources d). lr_batch_id r = wa_batch_id w
     \<and> lr_in_flight_attempt_id r = Some (wa_attempt_id w)
     \<and> rk_identity (lease_resource_row_key (lr_workspace_id r) r) = rk_identity k)"

definition covered :: "db \<Rightarrow> bool" where
  "covered d = (\<forall>w \<in> set (write_attempts d). wa_status w = Executing \<longrightarrow>
     wa_start_observations w \<noteq> []
     \<and> (\<exists>l \<in> set (active_leases d). l_batch_id l = wa_batch_id w
          \<and> is_task_lease (wa_workspace_id w) (wa_task_id w) l)
     \<and> (\<forall>ob \<in> set (wa_start_observations w). covers d w (obs_resource ob)))"

definition lease_inv :: "db \<Rightarrow> bool" where
  "lease_inv d =
     (unique_inv d \<and> lease_owner d \<and> request_owner d \<and> drain_target d \<and> lease_rows d
      \<and> request_rows d \<and> exclusive d \<and> reserved d \<and> marked d \<and> covered d)"

lemmas inv_parts = unique_inv_def lease_owner_def request_owner_def drain_target_def lease_rows_def
  request_rows_def exclusive_def reserved_def marked_def covered_def covers_def held_def asked_def
  offered_def

lemma lease_invI:
  assumes "unique_inv d" "lease_owner d" "request_owner d" "drain_target d" "lease_rows d"
    "request_rows d" "exclusive d" "reserved d" "marked d" "covered d"
  shows "lease_inv d"
  using assms by (simp add: lease_inv_def)

lemma lease_invD:
  assumes "lease_inv d"
  shows "unique_inv d" "lease_owner d" "request_owner d" "drain_target d" "lease_rows d"
    "request_rows d" "exclusive d" "reserved d" "marked d" "covered d"
  using assms by (simp_all add: lease_inv_def)

text \<open>The invariant only reads the core.\<close>

lemma lease_inv_core:
  assumes "core d' = core d"
  shows "lease_inv d' = lease_inv d"
  using core_eqD [OF assms] by (simp add: lease_inv_def inv_parts)

lemma lease_inv_schema: "lease_inv create_v2_schema"
  by (simp add: lease_inv_def inv_parts create_v2_schema_def)

subsection \<open>Consequences\<close>

lemma one_task_row:
  assumes "unique_inv d" "s \<in> set (tasks d)" "t \<in> set (tasks d)"
    and "is_task ws task s" "is_task ws task t"
  shows "s = t"
  using assms unique_byD [of task_key "tasks d" s t "(ws, task)"]
  by (simp add: unique_inv_def task_key_def is_task_def)

lemma one_lease_per_batch:
  assumes "unique_inv d" "l \<in> set (active_leases d)" "m \<in> set (active_leases d)"
    and "l_batch_id l = l_batch_id m"
  shows "l = m"
  using assms unique_byD [of lease_batch_key "active_leases d" l m "l_batch_id m"]
  by (simp add: unique_inv_def lease_batch_key_def)

lemma one_lease_per_agent:
  assumes "unique_inv d" "l \<in> set (active_leases d)" "m \<in> set (active_leases d)"
    and "l_workspace_id l = l_workspace_id m" "l_agent_id l = l_agent_id m"
  shows "l = m"
  using assms unique_byD [of lease_agent_key "active_leases d" l m "(l_workspace_id m, l_agent_id m)"]
  by (simp add: unique_inv_def lease_agent_key_def)

lemma one_lease_per_task:
  assumes inv: "unique_inv d" "lease_owner d" and l: "l \<in> set (active_leases d)" "m \<in> set (active_leases d)"
    and "is_task_lease ws task l" "is_task_lease ws task m"
  shows "l = m"
proof -
  from inv(2) l obtain s t where "s \<in> set (tasks d)" "t \<in> set (tasks d)"
      "is_task ws task s" "is_task ws task t" "t_agent_id s = l_agent_id l" "t_agent_id t = l_agent_id m"
    using assms(5,6) unfolding lease_owner_def is_task_lease_def by metis
  with one_task_row [OF inv(1)] have "l_agent_id l = l_agent_id m" by metis
  with assms(5,6) show ?thesis
    by (intro one_lease_per_agent [OF inv(1) l]) (simp_all add: is_task_lease_def)
qed

lemma one_request_per_batch:
  assumes "unique_inv d" "p \<in> set (lease_requests d)" "q \<in> set (lease_requests d)"
    and "q_batch_id p = q_batch_id q"
  shows "p = q"
  using assms unique_byD [of request_batch_key "lease_requests d" p q "q_batch_id q"]
  by (simp add: unique_inv_def request_batch_key_def)

lemma one_attempt:
  assumes "unique_inv d" "v \<in> set (write_attempts d)" "w \<in> set (write_attempts d)"
    and "wa_attempt_id v = wa_attempt_id w"
  shows "v = w"
  using assms unique_byD [of attempt_key "write_attempts d" v w "wa_attempt_id w"]
  by (simp add: unique_inv_def attempt_key_def)

lemma one_lease_resource:
  assumes "unique_inv d" "r \<in> set (lease_resources d)" "s \<in> set (lease_resources d)"
    and "lr_workspace_id r = lr_workspace_id s" "lr_resource_id r = lr_resource_id s"
  shows "r = s"
  using assms unique_byD [of lease_resource_key "lease_resources d" r s "(lr_workspace_id s, lr_resource_id s)"]
  by (simp add: unique_inv_def lease_resource_key_def)

text \<open>A lease with a write in flight has a marker, so counting either of them is enough.\<close>

lemma executing_marked:
  assumes "covered d" "w \<in> set (write_attempts d)" "wa_status w = Executing"
  shows "batch_in_flight_count (wa_batch_id w) d \<noteq> 0"
proof -
  from assms obtain ob obs where "wa_start_observations w = ob # obs"
    unfolding covered_def by (cases "wa_start_observations w") auto
  with assms have "covers d w (obs_resource ob)" unfolding covered_def by auto
  then show ?thesis by (auto simp: covers_def batch_in_flight_count_def)
qed

lemma no_count_no_executing:
  assumes "covered d" "in_flight_count ws task d = 0" "w \<in> set (write_attempts d)"
    and "wa_workspace_id w = ws" "wa_task_id w = task"
  shows "wa_status w \<noteq> Executing"
proof
  assume ex: "wa_status w = Executing"
  with assms(1,3) obtain l where "l \<in> set (active_leases d)" "l_batch_id l = wa_batch_id w"
    unfolding covered_def by blast
  with assms(2-5) ex show False by (auto simp: in_flight_count_def)
qed

text \<open>The owner a command has checked.\<close>

lemma require_task_ownerD:
  assumes "require_task_owner d ctx act = Inr st"
  obtains t where "t \<in> set (tasks d)" "is_ctx_task ctx t" "t_agent_id t = cc_agent_id ctx"
    "t_status t = st" "act \<Longrightarrow> st = Active"
  using assms
  by (auto simp: require_task_owner_def task_row_def split: prod.splits if_splits dest!: sql_firstD)

subsection \<open>Antitonicity\<close>

lemma held_mono:
  assumes "lease_id l = lease_id m" "lr_id ` set (lease_resources d') \<subseteq> lr_id ` set (lease_resources d)"
  shows "held d' l \<subseteq> held d m"
proof
  fix k assume "k \<in> held d' l"
  then obtain r where r: "r \<in> set (lease_resources d')" "lr_batch_id r = l_batch_id l"
      "k = lease_resource_row_key (l_workspace_id l) r" by (auto simp: held_def)
  then obtain s where "s \<in> set (lease_resources d)" "lr_id r = lr_id s" using assms(2) by blast
  with r assms(1) show "k \<in> held d m"
    by (auto simp: held_def lr_id_def lease_id_def lease_resource_row_key_def intro!: rev_image_eqI [of s])
qed

lemma image_subD: "f ` A \<subseteq> f ` B \<Longrightarrow> x \<in> A \<Longrightarrow> \<exists>y \<in> B. f x = f y"
  by blast

lemma exclusive_mono:
  assumes "exclusive d"
    and "lease_id ` set (active_leases d') \<subseteq> lease_id ` set (active_leases d)"
    and "lr_id ` set (lease_resources d') \<subseteq> lr_id ` set (lease_resources d)"
  shows "exclusive d'"
  unfolding exclusive_def
proof (intro ballI impI)
  fix l m assume lm: "l \<in> set (active_leases d')" "m \<in> set (active_leases d')" "l_task_id l \<noteq> l_task_id m"
  then obtain l0 m0 where l0: "l0 \<in> set (active_leases d)" "lease_id l = lease_id l0"
    and m0: "m0 \<in> set (active_leases d)" "lease_id m = lease_id m0"
    using image_subD [OF assms(2) lm(1)] image_subD [OF assms(2) lm(2)] by blast
  with lm have "overlap.clear_of (held d l0) (held d m0)"
    using assms(1) by (simp add: exclusive_def lease_id_def)
  then show "overlap.clear_of (held d' l) (held d' m)"
    by (rule overlap.clear_of_mono) (intro held_mono l0 m0 assms(3))+
qed

lemma reserved_mono:
  assumes "reserved d"
    and leases: "lease_id ` set (active_leases d') \<subseteq> lease_id ` set (active_leases d)"
    and rows: "lr_id ` set (lease_resources d') \<subseteq> lr_id ` set (lease_resources d)"
    and offers: "request_id ` offered d' \<subseteq> request_id ` offered d"
    and asks: "lease_request_resources d' = lease_request_resources d"
  shows "reserved d'"
  unfolding reserved_def
proof (intro ballI conjI impI)
  fix q assume "q \<in> offered d'"
  then obtain q0 where q0: "q0 \<in> offered d" "request_id q = request_id q0" using image_subD [OF offers] by blast
  have ask: "asked d' p = asked d p0" if "request_id p = request_id p0" for p p0
    using that asks by (simp add: asked_def request_id_def)
  {
    fix l assume l: "l \<in> set (active_leases d')" "l_task_id l \<noteq> q_task_id q"
    then obtain l0 where l0: "l0 \<in> set (active_leases d)" "lease_id l = lease_id l0"
      using image_subD [OF leases l(1)] by blast
    with l q0 have "overlap.clear_of (asked d q0) (held d l0)"
      using assms(1) by (simp add: reserved_def lease_id_def request_id_def)
    then show "overlap.clear_of (asked d' q) (held d' l)"
      by (rule overlap.clear_of_mono) (simp_all add: ask [OF q0(2)] held_mono [OF l0(2) rows])
  }
  {
    fix p assume p: "p \<in> offered d'" "q_task_id p \<noteq> q_task_id q"
    then obtain p0 where p0: "p0 \<in> offered d" "request_id p = request_id p0"
      using image_subD [OF offers] by blast
    with p q0 have "overlap.clear_of (asked d q0) (asked d p0)"
      using assms(1) by (simp add: reserved_def request_id_def)
    then show "overlap.clear_of (asked d' q) (asked d' p)"
      by (simp add: ask [OF q0(2)] ask [OF p0(2)])
  }
qed

subsection \<open>Statements that keep the invariant\<close>

lemma sql_update_image:
  assumes "\<And>r. p r \<Longrightarrow> g (f r) = g r"
  shows "g ` set (sql_update p f rows) = g ` set rows"
  unfolding sql_update_def set_map image_image by (rule image_cong) (simp_all add: assms)

lemma sql_update_ex_conv:
  assumes "\<And>r. p r \<Longrightarrow> Q (f r) = Q r"
  shows "(\<exists>r \<in> set (sql_update p f rows). Q r) = (\<exists>r \<in> set rows. Q r)"
proof -
  have "Q (if p r then f r else r) = Q r" for r by (simp add: assms)
  then show ?thesis by (simp only: sql_update_def set_map bex_simps ball_simps)
qed

lemma sql_update_all_conv:
  assumes "\<And>r. p r \<Longrightarrow> Q (f r) = Q r"
  shows "(\<forall>r \<in> set (sql_update p f rows). Q r) = (\<forall>r \<in> set rows. Q r)"
proof -
  have "Q (if p r then f r else r) = Q r" for r by (simp add: assms)
  then show ?thesis by (simp only: sql_update_def set_map bex_simps ball_simps)
qed

text \<open>An update of leases that keeps the columns identifying them.\<close>

lemma lease_update_inv:
  assumes "lease_inv d" and f: "\<And>l. lease_id (f l) = lease_id l"
  shows "lease_inv (d\<lparr>active_leases := sql_update p f (active_leases d)\<rparr>)" (is "lease_inv ?d")
proof (rule lease_invI)
  note inv = lease_invD [OF assms(1)]
  have ids: "l_batch_id (f l) = l_batch_id l" "l_workspace_id (f l) = l_workspace_id l"
    "l_task_id (f l) = l_task_id l" "l_agent_id (f l) = l_agent_id l" for l
    using f [of l] by (simp_all add: lease_id_def)
  note conv = sql_update_ex_conv sql_update_all_conv ids is_task_lease_def
  show "unique_inv ?d"
    using inv(1) by (simp add: unique_inv_def unique_by_sql_update lease_batch_key_def lease_agent_key_def ids)
  show "lease_owner ?d" using inv(2) by (simp add: lease_owner_def conv)
  show "request_owner ?d" using inv(3) by (simp add: request_owner_def)
  show "drain_target ?d" using inv(4) by (simp add: drain_target_def)
  show "lease_rows ?d" using inv(5) by (simp add: lease_rows_def conv)
  show "request_rows ?d" using inv(6) by (simp add: request_rows_def)
  show "exclusive ?d" by (rule exclusive_mono [OF inv(7)]) (simp_all add: sql_update_image f)
  show "reserved ?d"
    by (rule reserved_mono [OF inv(8)]) (simp_all add: sql_update_image f offered_def)
  show "marked ?d" using inv(9) by (simp add: marked_def)
  show "covered ?d" using inv(10) by (simp add: covered_def covers_def conv)
qed

lemma drain_leases_inv: "lease_inv d \<Longrightarrow> lease_inv (drain_leases p d)"
  unfolding drain_leases_def by (rule lease_update_inv) (simp_all add: lease_id_def)

text \<open>Deleting leases on which nothing is in flight.\<close>

lemma delete_leases_inv:
  assumes "lease_inv d"
    and idle: "\<And>l. l \<in> set (active_leases d) \<Longrightarrow> p l \<Longrightarrow> batch_in_flight_count (l_batch_id l) d = 0"
  shows "lease_inv (delete_leases p d)" (is "lease_inv ?d")
proof (rule lease_invI)
  note inv = lease_invD [OF assms(1)]
  have leases: "active_leases ?d = sql_delete p (active_leases d)"
    and rows: "set (lease_resources ?d) = {r \<in> set (lease_resources d).
      \<forall>l \<in> set (active_leases d). l_batch_id l = lr_batch_id r \<longrightarrow> \<not> p l}"
    and rest [simp]: "tasks ?d = tasks d" "lease_requests ?d = lease_requests d"
      "lease_request_resources ?d = lease_request_resources d" "write_attempts ?d = write_attempts d"
      "lease_queue ?d = lease_queue d"
    by (auto simp: delete_leases_def)
  show "unique_inv ?d"
    using inv(1) by (simp add: unique_inv_def delete_leases_def unique_by_sql_delete)
  show "lease_owner ?d" using inv(2) by (simp add: lease_owner_def leases)
  show "request_owner ?d" using inv(3) by (simp add: request_owner_def)
  show "drain_target ?d" using inv(4) by (simp add: drain_target_def)
  show "lease_rows ?d" using inv(5) by (auto simp: lease_rows_def leases rows)
  show "request_rows ?d" using inv(6) by (simp add: request_rows_def)
  show "exclusive ?d" by (rule exclusive_mono [OF inv(7)]) (auto simp: leases rows)
  show "reserved ?d" by (rule reserved_mono [OF inv(8)]) (auto simp: leases rows offered_def)
  show "marked ?d" using inv(9) by (simp add: marked_def rows)
  show "covered ?d"
    unfolding covered_def
  proof (intro ballI impI)
    fix w assume w: "w \<in> set (write_attempts ?d)" "wa_status w = Executing"
    then have wd: "w \<in> set (write_attempts d)" by simp
    have stays: "\<not> p l" if "l \<in> set (active_leases d)" "l_batch_id l = wa_batch_id w" for l
      using executing_marked [OF inv(10) wd w(2)] idle [OF that(1)] that(2) by auto
    from inv(10) wd w(2) have c: "wa_start_observations w \<noteq> []"
        "\<exists>l \<in> set (active_leases d). l_batch_id l = wa_batch_id w
           \<and> is_task_lease (wa_workspace_id w) (wa_task_id w) l"
        "\<forall>ob \<in> set (wa_start_observations w). covers d w (obs_resource ob)"
      by (auto simp: covered_def)
    have "covers ?d w k" if "covers d w k" for k
      using that stays by (auto simp: covers_def rows)
    with c stays show "wa_start_observations w \<noteq> []
      \<and> (\<exists>l \<in> set (active_leases ?d). l_batch_id l = wa_batch_id w
           \<and> is_task_lease (wa_workspace_id w) (wa_task_id w) l)
      \<and> (\<forall>ob \<in> set (wa_start_observations w). covers ?d w (obs_resource ob))"
      by (auto simp: leases)
  qed
qed

text \<open>A task's lease is idle when the task's in-flight count is zero.\<close>

lemma idle_task_lease:
  assumes "lease_inv d" "in_flight_count ws task d = 0"
    and "l \<in> set (active_leases d)" "is_task_lease ws task l"
  shows "batch_in_flight_count (l_batch_id l) d = 0"
proof (rule ccontr)
  note inv = lease_invD [OF assms(1)]
  assume "batch_in_flight_count (l_batch_id l) d \<noteq> 0"
  then obtain r a where r: "r \<in> set (lease_resources d)" "lr_batch_id r = l_batch_id l"
      "lr_in_flight_attempt_id r = Some a" by (auto simp: batch_in_flight_count_def)
  then obtain w where w: "w \<in> set (write_attempts d)" "wa_status w = Executing"
      "wa_batch_id w = l_batch_id l" using inv(9) unfolding marked_def by metis
  then obtain m where "m \<in> set (active_leases d)" "l_batch_id m = l_batch_id l"
      "is_task_lease (wa_workspace_id w) (wa_task_id w) m"
    using inv(10) by (auto simp: covered_def)
  with one_lease_per_batch [OF inv(1) _ assms(3)] have "is_task_lease (wa_workspace_id w) (wa_task_id w) l"
    by blast
  with assms(4) have "wa_workspace_id w = ws" "wa_task_id w = task" by (simp_all add: is_task_lease_def)
  with no_count_no_executing [OF inv(10) assms(2) w(1)] w(2) show False by simp
qed

text \<open>Closing requests.\<close>

lemma close_requests_inv:
  assumes "lease_inv d"
    and f: "\<And>q. p q \<Longrightarrow> request_id (f q) = request_id q \<and> q_queue_sequence (f q) = q_queue_sequence q
      \<and> \<not> request_pending (f q)"
  shows "lease_inv (d\<lparr>lease_requests := sql_update p f (lease_requests d)\<rparr>)" (is "lease_inv ?d")
proof (rule lease_invI)
  note inv = lease_invD [OF assms(1)]
  have ids: "p q \<Longrightarrow> q_batch_id (f q) = q_batch_id q" "p q \<Longrightarrow> q_workspace_id (f q) = q_workspace_id q"
    "p q \<Longrightarrow> q_task_id (f q) = q_task_id q" "p q \<Longrightarrow> q_agent_id (f q) = q_agent_id q"
    "p q \<Longrightarrow> q_queue_sequence (f q) = q_queue_sequence q" "p q \<Longrightarrow> \<not> request_pending (f q)" for q
    using f [of q] by (simp_all add: request_id_def)
  show "unique_inv ?d"
    using inv(1) by (simp add: unique_inv_def unique_by_sql_update request_batch_key_def
        request_sequence_key_def pending_task_key_def ids)
  show "lease_owner ?d" using inv(2) by (simp add: lease_owner_def)
  show "request_owner ?d"
    using inv(3) by (auto simp: request_owner_def ids elim!: in_sql_updateE; blast)
  show "drain_target ?d" using inv(4) by (simp add: drain_target_def)
  show "lease_rows ?d" using inv(5) by (simp add: lease_rows_def)
  show "request_rows ?d"
    using inv(6) by (simp add: request_rows_def sql_update_ex_conv sql_update_all_conv ids)
  show "exclusive ?d" by (rule exclusive_mono [OF inv(7)]) simp_all
  show "reserved ?d"
    using f by (intro reserved_mono [OF inv(8)])
      (auto simp: offered_def request_pending_def elim!: in_sql_updateE)
  show "marked ?d" using inv(9) by (simp add: marked_def)
  show "covered ?d" using inv(10) by (simp add: covered_def covers_def)
qed

lemma cancel_requests_inv: "lease_inv d \<Longrightarrow> lease_inv (cancel_requests ws task now d)"
  unfolding cancel_requests_def
  by (rule close_requests_inv) (simp_all add: request_id_def request_pending_def)

lemma expire_offers_inv: "lease_inv d \<Longrightarrow> lease_inv (expire_offers now d)"
  unfolding expire_offers_def
  by (rule close_requests_inv) (simp_all add: request_id_def request_pending_def)

lemma expire_request_inv: "lease_inv d \<Longrightarrow> lease_inv (expire_request now batch d)"
  unfolding expire_request_def
  by (rule close_requests_inv) (simp_all add: request_id_def request_pending_def)

lemma supersede_requests_inv: "lease_inv d \<Longrightarrow> lease_inv (supersede_requests ctx batch d)"
  unfolding supersede_requests_def
  by (rule close_requests_inv) (simp_all add: request_id_def request_pending_def)

text \<open>Changing tasks: a task may only stop being active once its requests are closed, and only
  become terminal once it holds no lease.\<close>

lemma task_update_inv:
  assumes "lease_inv d"
    and ids: "\<And>t. t_workspace_id (f t) = t_workspace_id t \<and> t_task_id (f t) = t_task_id t
      \<and> t_agent_id (f t) = t_agent_id t"
    and ok: "\<And>t. t \<in> set (tasks d) \<Longrightarrow> p t \<Longrightarrow>
      t_status (f t) = t_status t \<and> t_terminal_status (f t) = t_terminal_status t
      \<or> (t_status (f t) = Draining \<longrightarrow> (\<exists>s. t_terminal_status (f t) = Some s \<and> task_is_terminal s))
        \<and> (\<forall>q \<in> set (lease_requests d). \<not> is_task_pending (t_workspace_id t) (t_task_id t) q)
        \<and> (task_is_terminal (t_status (f t)) \<longrightarrow>
             (\<forall>l \<in> set (active_leases d). \<not> is_task_lease (t_workspace_id t) (t_task_id t) l))"
  shows "lease_inv (d\<lparr>tasks := sql_update p f (tasks d)\<rparr>)" (is "lease_inv ?d")
proof (rule lease_invI)
  note inv = lease_invD [OF assms(1)]
  have new: "(if p t then f t else t) \<in> set (tasks ?d)" if "t \<in> set (tasks d)" for t
    using that by (auto simp: sql_update_def)
  show "unique_inv ?d"
    using inv(1) by (simp add: unique_inv_def unique_by_sql_update task_key_def ids)
  show "lease_owner ?d"
    unfolding lease_owner_def
  proof
    fix l assume l: "l \<in> set (active_leases ?d)"
    with inv(2) obtain t where t: "t \<in> set (tasks d)" "is_task (l_workspace_id l) (l_task_id l) t"
        "t_agent_id t = l_agent_id l" "\<not> task_is_terminal (t_status t)"
      by (auto simp: lease_owner_def)
    with l ids ok [OF t(1)] show "\<exists>t \<in> set (tasks ?d). is_task (l_workspace_id l) (l_task_id l) t
        \<and> t_agent_id t = l_agent_id l \<and> \<not> task_is_terminal (t_status t)"
      by (intro bexI [OF _ new [OF t(1)]]) (auto simp: is_task_def is_task_lease_def)
  qed
  show "request_owner ?d"
    unfolding request_owner_def
  proof
    fix q assume q: "q \<in> set (lease_requests ?d)"
    with inv(3) obtain t where t: "t \<in> set (tasks d)" "is_task (q_workspace_id q) (q_task_id q) t"
        "t_agent_id t = q_agent_id q" "request_pending q \<longrightarrow> t_status t = Active"
      by (auto simp: request_owner_def)
    with q ids ok [OF t(1)] show "\<exists>t \<in> set (tasks ?d). is_task (q_workspace_id q) (q_task_id q) t
        \<and> t_agent_id t = q_agent_id q \<and> (request_pending q \<longrightarrow> t_status t = Active)"
      by (intro bexI [OF _ new [OF t(1)]]) (auto simp: is_task_def is_task_pending_def)
  qed
  show "drain_target ?d"
    using inv(4) ok by (auto simp: drain_target_def elim!: in_sql_updateE) metis
  show "lease_rows ?d" using inv(5) by (simp add: lease_rows_def)
  show "request_rows ?d" using inv(6) by (simp add: request_rows_def)
  show "exclusive ?d" by (rule exclusive_mono [OF inv(7)]) simp_all
  show "reserved ?d" by (rule reserved_mono [OF inv(8)]) (simp_all add: offered_def)
  show "marked ?d" using inv(9) by (simp add: marked_def)
  show "covered ?d" using inv(10) by (simp add: covered_def covers_def)
qed

lemma insert_task_inv:
  assumes "lease_inv d" "insert_task_row row (tasks d) = Inr rows" "t_status row = Active"
  shows "lease_inv (d\<lparr>tasks := rows\<rparr>)" (is "lease_inv ?d")
proof -
  note inv = lease_invD [OF assms(1)]
  have rows: "set rows = insert row (set (tasks d))" using assms(2) by (rule task_index.insert_set)
  have "unique_inv ?d" using inv(1) task_index.insert_unique [OF assms(2)] by (simp add: unique_inv_def)
  then show ?thesis
    using inv assms(3) by (auto simp: lease_inv_def inv_parts rows; blast)
qed

subsection \<open>Expiry\<close>

lemma task_update_commute:
  "cancel_requests ws task now (d\<lparr>tasks := T\<rparr>) = (cancel_requests ws task now d)\<lparr>tasks := T\<rparr>"
  "delete_leases p (d\<lparr>tasks := T\<rparr>) = (delete_leases p d)\<lparr>tasks := T\<rparr>"
  "drain_leases p (d\<lparr>tasks := T\<rparr>) = (drain_leases p d)\<lparr>tasks := T\<rparr>"
  by (simp_all add: cancel_requests_def delete_leases_def drain_leases_def)

lemma cancelled_not_pending:
  "q \<in> set (lease_requests (cancel_requests ws task now d)) \<Longrightarrow> \<not> is_task_pending ws task q"
  by (auto simp: cancel_requests_def is_task_pending_def request_pending_def elim!: in_sql_updateE)

lemma delete_leases_simps [simp]:
  "tasks (delete_leases p d) = tasks d" "lease_requests (delete_leases p d) = lease_requests d"
  "lease_request_resources (delete_leases p d) = lease_request_resources d"
  "write_attempts (delete_leases p d) = write_attempts d" "lease_queue (delete_leases p d) = lease_queue d"
  "active_leases (delete_leases p d) = sql_delete p (active_leases d)"
  by (simp_all add: delete_leases_def)

lemma drain_leases_simps [simp]:
  "tasks (drain_leases p d) = tasks d" "lease_requests (drain_leases p d) = lease_requests d"
  "lease_request_resources (drain_leases p d) = lease_request_resources d"
  "write_attempts (drain_leases p d) = write_attempts d" "lease_queue (drain_leases p d) = lease_queue d"
  "lease_resources (drain_leases p d) = lease_resources d"
  by (simp_all add: drain_leases_def)

lemma cancel_requests_simps [simp]:
  "tasks (cancel_requests ws task now d) = tasks d"
  "active_leases (cancel_requests ws task now d) = active_leases d"
  "lease_resources (cancel_requests ws task now d) = lease_resources d"
  "lease_request_resources (cancel_requests ws task now d) = lease_request_resources d"
  "write_attempts (cancel_requests ws task now d) = write_attempts d"
  by (simp_all add: cancel_requests_def)

lemma in_flight_count_cong:
  "write_attempts d' = write_attempts d \<Longrightarrow> active_leases d' = active_leases d \<Longrightarrow>
     in_flight_count ws task d' = in_flight_count ws task d"
  by (simp add: in_flight_count_def)

text \<open>Taking a task out of service, once its requests are cancelled.\<close>

lemma delete_task_leases_inv:
  assumes "lease_inv d" "in_flight_count ws task d = 0"
  shows "lease_inv (delete_leases (is_task_lease ws task) d)"
  by (rule delete_leases_inv [OF assms(1)]) (rule idle_task_lease [OF assms])

lemma delete_batch_lease_inv:
  assumes "lease_inv d" "batch_in_flight_count batch d = 0"
  shows "lease_inv (delete_leases (is_batch_lease batch) d)"
  by (rule delete_leases_inv [OF assms(1)]) (use assms(2) in \<open>simp add: is_batch_lease_def\<close>)

lemma expire_task_inv:
  assumes "lease_inv d"
  shows "lease_inv (expire_task now (ws, task) d)"
proof -
  let ?c = "cancel_requests ws task now d"
  have c: "lease_inv ?c" by (rule cancel_requests_inv [OF assms])
  have np: "\<And>q. q \<in> set (lease_requests ?c) \<Longrightarrow> \<not> is_task_pending ws task q"
    by (rule cancelled_not_pending)
  have count: "in_flight_count ws task ?c = in_flight_count ws task d"
    by (rule in_flight_count_cong) simp_all
  show ?thesis
  proof (cases "in_flight_count ws task d = 0")
    case True
    have "lease_inv (delete_leases (is_task_lease ws task) ?c)"
      by (rule delete_task_leases_inv [OF c]) (simp add: count True)
    then show ?thesis using np True
      by (simp add: expire_task_def Let_def task_update_commute)
        (erule task_update_inv [where d = "delete_leases (is_task_lease ws task) ?c", simplified];
         auto simp: is_task_def)
  next
    case False
    have "lease_inv (drain_leases (is_task_lease ws task) ?c)" by (rule drain_leases_inv [OF c])
    then show ?thesis using np False
      by (simp add: expire_task_def Let_def task_update_commute)
        (erule task_update_inv [where d = "drain_leases (is_task_lease ws task) ?c", simplified];
         auto simp: is_task_def task_is_terminal_def)
  qed
qed

lemma expire_lease_inv: "lease_inv d \<Longrightarrow> lease_inv (expire_lease batch d)"
  by (simp add: expire_lease_def delete_batch_lease_inv drain_leases_inv)

lemma fold_keeps: "P d \<Longrightarrow> (\<And>x d. P d \<Longrightarrow> P (f x d)) \<Longrightarrow> P (fold f xs d)"
  by (induction xs arbitrary: d) auto

lemma expire_tasks_and_leases_inv:
  assumes "lease_inv d"
  shows "lease_inv (expire_tasks_and_leases now d)"
proof -
  have "lease_inv (fold (expire_task now) (expired_tasks now d) d)"
    by (rule fold_keeps [where P = lease_inv, OF assms]) (use expire_task_inv in auto)
  then show ?thesis
    unfolding expire_tasks_and_leases_def Let_def
    by (rule fold_keeps [where P = lease_inv]) (rule expire_lease_inv)
qed

subsection \<open>Conflicts\<close>

lemma string_set_Nil [simp]: "string_set xs = [] \<longleftrightarrow> xs = []"
  by (simp add: string_set_def) (metis length_0_conv length_sort)

lemma set_sort_resources [simp]: "set (sort_resources rs) = set rs"
  by (simp add: sort_resources_def)

lemma set_request_resources:
  assumes "lease_inv d" "q \<in> set (lease_requests d)"
  shows "set (request_resources (q_batch_id q) d) = asked d q"
proof -
  have "qr_workspace_id r = q_workspace_id q"
    if "r \<in> set (lease_request_resources d)" "qr_batch_id r = q_batch_id q" for r
    using that lease_invD(1,6) [OF assms(1)] one_request_per_batch [of d _ q] assms(2)
    unfolding request_rows_def by metis
  then show ?thesis by (auto simp: request_resources_def asked_def)
qed

lemma set_lease_resource_keys:
  assumes "lease_inv d" "l \<in> set (active_leases d)"
  shows "set (lease_resource_keys (l_batch_id l) d) = held d l"
proof -
  have "lr_workspace_id r = l_workspace_id l"
    if "r \<in> set (lease_resources d)" "lr_batch_id r = l_batch_id l" for r
    using that lease_invD(1,5) [OF assms(1)] one_lease_per_batch [of d _ l] assms(2)
    unfolding lease_rows_def by metis
  then show ?thesis by (auto simp: lease_resource_keys_def held_def)
qed

lemma clear_of_workspaces:
  assumes "\<And>a. a \<in> A \<Longrightarrow> rk_workspace_id a = v" "\<And>b. b \<in> B \<Longrightarrow> rk_workspace_id b = w" "v \<noteq> w"
  shows "overlap.clear_of A B"
  unfolding overlap.clear_of_def using assms overlap_workspace by metis

lemma held_workspace: "k \<in> held d l \<Longrightarrow> rk_workspace_id k = l_workspace_id l"
  by (auto simp: held_def lease_resource_row_key_def)

lemma asked_workspace: "k \<in> asked d q \<Longrightarrow> rk_workspace_id k = q_workspace_id q"
  by (auto simp: asked_def request_resource_row_key_def)

text \<open>No conflicting owner: the resources are clear of every other task's lease and offer.\<close>

lemma no_conflicts_leases:
  assumes "conflicting_owners ws task rs ex d = []" and ws: "\<And>r. r \<in> set rs \<Longrightarrow> rk_workspace_id r = ws"
    and l: "l \<in> set (active_leases d)" "l_task_id l \<noteq> task"
  shows "overlap.clear_of (set rs) (held d l)"
proof (cases "l_workspace_id l = ws")
  case True
  with assms(1) l show ?thesis
    by (fastforce simp: conflicting_owners_def lease_conflicts_def filter_empty_conv
        overlap.clear_of_def held_def list_ex_iff)
next
  case False
  then show ?thesis
    by (intro clear_of_workspaces [of _ ws _ "l_workspace_id l"]) (auto simp: ws held_workspace)
qed

lemma no_conflicts_offers:
  assumes "conflicting_owners ws task rs ex d = []" and ws: "\<And>r. r \<in> set rs \<Longrightarrow> rk_workspace_id r = ws"
    and q: "q \<in> offered d" "q_task_id q \<noteq> task" "ex \<noteq> Some (q_batch_id q)"
  shows "overlap.clear_of (set rs) (asked d q)"
proof (cases "q_workspace_id q = ws")
  case True
  with assms(1) q show ?thesis
    by (fastforce simp: conflicting_owners_def request_conflicts_def filter_empty_conv
        overlap.clear_of_def asked_def offered_def list_ex_iff)
next
  case False
  then show ?thesis
    by (intro clear_of_workspaces [of _ ws _ "q_workspace_id q"]) (auto simp: ws asked_workspace)
qed

subsection \<open>Offers\<close>

lemma offer_inv:
  assumes "lease_inv d" and q: "q \<in> set (lease_requests d)"
    and none: "conflicting_owners (q_workspace_id q) (q_task_id q) (request_resources (q_batch_id q) d)
      (Some (q_batch_id q)) d = []"
    and f: "\<And>r. request_id (f r) = request_id r \<and> q_queue_sequence (f r) = q_queue_sequence r
      \<and> q_state (f r) = QOffered"
  shows "lease_inv (d\<lparr>lease_requests := sql_update (is_queued_batch (q_batch_id q)) f (lease_requests d)\<rparr>)"
    (is "lease_inv ?d")
proof (rule lease_invI)
  note inv = lease_invD [OF assms(1)]
  have ids: "q_batch_id (f r) = q_batch_id r" "q_workspace_id (f r) = q_workspace_id r"
    "q_task_id (f r) = q_task_id r" "q_agent_id (f r) = q_agent_id r"
    "q_queue_sequence (f r) = q_queue_sequence r" "request_pending (f r)" for r
    using f [of r] by (simp_all add: request_id_def request_pending_def)
  have pend: "is_queued_batch b r \<Longrightarrow> request_pending r" for b r
    by (simp add: is_queued_batch_def request_pending_def)
  have clear_leases: "overlap.clear_of (asked d q) (held d l)"
    if "l \<in> set (active_leases d)" "l_task_id l \<noteq> q_task_id q" for l
    using no_conflicts_leases [OF none _ that] unfolding set_request_resources [OF assms(1) q]
    by (auto dest: asked_workspace)
  have clear_offers: "overlap.clear_of (asked d q) (asked d p)"
    if "p \<in> offered d" "q_task_id p \<noteq> q_task_id q" for p
  proof -
    have "q_batch_id p \<noteq> q_batch_id q"
      using one_request_per_batch [OF inv(1), of p q] that q by (auto simp: offered_def)
    then show ?thesis
      using no_conflicts_offers [OF none _ that] unfolding set_request_resources [OF assms(1) q]
      by (auto dest: asked_workspace)
  qed
  have asked: "asked ?d r = asked d r" for r by (simp add: asked_def)
  have held: "held ?d l = held d l" for l by (simp add: held_def)
  have cases: "p \<in> offered d \<or> asked d p = asked d q \<and> q_task_id p = q_task_id q"
    if "p \<in> offered ?d" for p
  proof -
    from that consider "p \<in> offered d"
      | r where "r \<in> set (lease_requests d)" "q_batch_id r = q_batch_id q" "p = f r"
      by (auto simp: offered_def is_queued_batch_def elim!: in_sql_updateE)
    then show ?thesis
      using one_request_per_batch [OF inv(1) _ q] by cases (auto simp: asked_def ids)
  qed
  show "unique_inv ?d"
    using inv(1) by (simp add: unique_inv_def unique_by_sql_update request_batch_key_def
        request_sequence_key_def pending_task_key_def ids pend)
  show "lease_owner ?d" using inv(2) by (simp add: lease_owner_def)
  show "request_owner ?d"
    using inv(3) by (simp add: request_owner_def sql_update_all_conv ids pend)
  show "drain_target ?d" using inv(4) by (simp add: drain_target_def)
  show "lease_rows ?d" using inv(5) by (simp add: lease_rows_def)
  show "request_rows ?d"
    using inv(6) by (simp add: request_rows_def sql_update_ex_conv sql_update_all_conv ids)
  show "exclusive ?d" by (rule exclusive_mono [OF inv(7)]) simp_all
  show "reserved ?d"
    unfolding reserved_def asked held
  proof (intro ballI conjI impI)
    fix p l assume "p \<in> offered ?d" and l: "l \<in> set (active_leases ?d)" "l_task_id l \<noteq> q_task_id p"
    from cases [OF this(1)] show "overlap.clear_of (asked d p) (held d l)"
      using inv(8) clear_leases l by (auto simp: reserved_def)
  next
    fix p r assume p: "p \<in> offered ?d" and r: "r \<in> offered ?d" and ne: "q_task_id r \<noteq> q_task_id p"
    from cases [OF p] cases [OF r] ne show "overlap.clear_of (asked d p) (asked d r)"
      using inv(8) clear_offers overlap.clear_of_sym by (auto simp: reserved_def)
  qed
  show "marked ?d" using inv(9) by (simp add: marked_def)
  show "covered ?d" using inv(10) by (simp add: covered_def covers_def)
qed

end
