(* ===== verification/Store_Promotion.thy ===== *)
theory Store_Promotion
  imports Store_Invariants
begin

section \<open>Promotion, acquisition and write attempts keep the invariant\<close>

text \<open>
  The operations that give something to a task: offers (\<open>promote_waiters\<close>), queue entries,
  leases, and write slots. Each is taken apart into what it does to the tables, and then shown
  to keep \<open>lease_inv\<close>.
\<close>

subsection \<open>Promotion\<close>

lemma mark_offered_simps [simp]:
  "request_id (mark_offered oid now exp q) = request_id q"
  "q_queue_sequence (mark_offered oid now exp q) = q_queue_sequence q"
  "q_state (mark_offered oid now exp q) = QOffered"
  by (simp_all add: mark_offered_def request_id_def)

lemma offer_request_eq:
  assumes "offer_request E now nv q t d = Inr d'"
  obtains oid exp where "core d' = core (d\<lparr>lease_requests :=
    sql_update (is_queued_batch (q_batch_id q)) (mark_offered oid now exp) (lease_requests d)\<rparr>)"
  using assms by (auto simp: offer_request_def new_uuid_def Let_def core_def)

lemma offer_request_inv:
  assumes "lease_inv d" "offer_request E now nv q t d = Inr d'"
    and "request_id q \<in> request_id ` set (lease_requests d)"
    and ok: "\<not> cannot_offer q (request_resources (q_batch_id q) d) blocked d"
  shows "lease_inv d'"
proof -
  from assms(3) obtain r where r: "r \<in> set (lease_requests d)" "request_id r = request_id q" by force
  then have ids: "q_batch_id r = q_batch_id q" "q_workspace_id r = q_workspace_id q" "q_task_id r = q_task_id q"
    by (simp_all add: request_id_def)
  have none: "conflicting_owners (q_workspace_id q) (q_task_id q) (request_resources (q_batch_id q) d)
      (Some (q_batch_id q)) d = []"
    using ok by (simp add: cannot_offer_def)
  obtain oid exp where core: "core d' = core (d\<lparr>lease_requests :=
    sql_update (is_queued_batch (q_batch_id q)) (mark_offered oid now exp) (lease_requests d)\<rparr>)"
    by (rule offer_request_eq [OF assms(2)])
  show ?thesis
    unfolding lease_inv_core [OF core]
    by (rule offer_inv [OF assms(1) r(1), unfolded ids, OF none]) simp
qed

lemma offer_request_ids:
  assumes "offer_request E now nv q t d = Inr d'"
  shows "request_id ` set (lease_requests d') = request_id ` set (lease_requests d)"
proof -
  obtain oid exp where "core d' = core (d\<lparr>lease_requests :=
    sql_update (is_queued_batch (q_batch_id q)) (mark_offered oid now exp) (lease_requests d)\<rparr>)"
    by (rule offer_request_eq [OF assms])
  from core_eqD(4) [OF this] show ?thesis by (simp add: sql_update_image)
qed

lemma expire_request_ids:
  "request_id ` set (lease_requests (expire_request now b d)) = request_id ` set (lease_requests d)"
  by (simp add: expire_request_def sql_update_image request_id_def)

lemma expire_offers_ids:
  "request_id ` set (lease_requests (expire_offers now d)) = request_id ` set (lease_requests d)"
  by (simp add: expire_offers_def sql_update_image request_id_def)

lemma queued_requestsD:
  "(q, t) \<in> set (queued_requests d) \<Longrightarrow> q \<in> set (lease_requests d) \<and> q_state q = QQueued
     \<and> t \<in> set (tasks d) \<and> is_task (q_workspace_id q) (q_task_id q) t"
  by (auto simp: queued_requests_def)

text \<open>One pass of the promotion loop, by its three outcomes.\<close>

lemma promote_stepE:
  assumes "promote_step E now nv (q, t) (blocked, d) = Inr (blocked', d')"
  obtains (expired) "blocked' = blocked" "d' = expire_request now (q_batch_id q) d"
  | (waits) "blocked' = blocked @ request_resources (q_batch_id q) d" "d' = d"
      "cannot_offer q (request_resources (q_batch_id q) d) blocked d" "t_status t = Active"
  | (offers) "blocked' = blocked" "\<not> cannot_offer q (request_resources (q_batch_id q) d) blocked d"
      "offer_request E now nv q t d = Inr d'" "t_status t = Active"
proof -
  from assms obtain expired where
    ex: "(if t_status t \<noteq> Active then Inr True
       else bindE (parse_timestamp E (q_expires_at q)) (\<lambda>limit. Inr (limit \<le> nv))) = Inr expired"
    and step: "(if expired then Inr (blocked, expire_request now (q_batch_id q) d)
       else if cannot_offer q (request_resources (q_batch_id q) d) blocked d
       then Inr (blocked @ request_resources (q_batch_id q) d, d)
       else bindE (offer_request E now nv q t d) (\<lambda>d1. Inr (blocked, d1))) = Inr (blocked', d')"
    by (auto simp: promote_step_def Let_def)
  show thesis
  proof (cases expired)
    case True
    with step show thesis by (intro expired) simp_all
  next
    case False
    with ex have active: "t_status t = Active" by (simp split: if_splits)
    show thesis
    proof (cases "cannot_offer q (request_resources (q_batch_id q) d) blocked d")
      case True
      with False step have "blocked' = blocked @ request_resources (q_batch_id q) d" "d' = d" by auto
      then show thesis by (rule waits [OF _ _ True active])
    next
      case no: False
      with False step have "blocked' = blocked" "offer_request E now nv q t d = Inr d'" by auto
      with no active show thesis by (intro offers)
    qed
  qed
qed

text \<open>The walk keeps the invariant and the identities of the requests.\<close>

lemma promote_walk_inv:
  assumes "foldE (promote_step E now nv) xs (b, d) = Inr (b', d')" "lease_inv d"
    and xs: "\<And>q t. (q, t) \<in> set xs \<Longrightarrow> request_id q \<in> request_id ` set (lease_requests d)"
  shows "lease_inv d' \<and> request_id ` set (lease_requests d') = request_id ` set (lease_requests d)"
proof -
  let ?P = "\<lambda>(b, d2). lease_inv d2 \<and> request_id ` set (lease_requests d2)
    = request_id ` set (lease_requests d)"
  have "?P (b', d')"
  proof (rule foldE_invariant [OF assms(1)])
    show "?P (b, d)" using assms(2) by simp
    fix x s u
    assume x: "x \<in> set xs" and s: "?P s" and u: "promote_step E now nv x s = Inr u"
    obtain q t c d2 c' d3 where eqs: "x = (q, t)" "s = (c, d2)" "u = (c', d3)"
      by (cases x, cases s, cases u)
    with x xs have q: "request_id q \<in> request_id ` set (lease_requests d)" by blast
    from s eqs have d2: "lease_inv d2" "request_id ` set (lease_requests d2)
        = request_id ` set (lease_requests d)" by simp_all
    from u [unfolded eqs] show "?P u"
    proof (cases rule: promote_stepE)
      case expired
      then show ?thesis by (simp add: eqs d2 expire_request_inv expire_request_ids)
    next
      case waits
      then show ?thesis by (simp add: eqs d2)
    next
      case offers
      then show ?thesis
        using offer_request_inv [OF d2(1) offers(3)] q by (simp add: eqs d2 offer_request_ids)
    qed
  qed
  then show ?thesis by simp
qed

lemma promote_waiters_inv:
  assumes "lease_inv d" "promote_waiters E now d = Inr d'"
  shows "lease_inv d'"
proof -
  from assms(2) obtain nv blocked where
    fold: "foldE (promote_step E now nv) (queued_requests (expire_offers now d)) ([], expire_offers now d)
      = Inr (blocked, d')"
    by (auto simp: promote_waiters_def Let_def)
  from promote_walk_inv [OF fold expire_offers_inv [OF assms(1)]] show ?thesis
    using queued_requestsD by blast
qed

subsection \<open>Queue entries\<close>

definition request_resource_of :: "string \<Rightarrow> resource_key \<Rightarrow> request_resource_row" where
  "request_resource_of batch r =
     \<lparr>qr_batch_id = batch, qr_workspace_id = rk_workspace_id r, qr_resource_id = rk_resource_id r,
      qr_resource_kind = rk_kind r, qr_canonical_path = rk_canonical_path r\<rparr>"

lemma insert_request_resources_eq:
  assumes "foldE (insert_request_resource batch) rs d = Inr d'"
  shows "d' = d\<lparr>lease_request_resources := lease_request_resources d @ map (request_resource_of batch) rs\<rparr>"
  using assms
proof (induction rs arbitrary: d)
  case (Cons r rs)
  then obtain d1 where d1: "insert_request_resource batch r d = Inr d1"
    and rest: "foldE (insert_request_resource batch) rs d1 = Inr d'" by auto
  from d1 have "d1 = d\<lparr>lease_request_resources := lease_request_resources d @ [request_resource_of batch r]\<rparr>"
    by (auto simp: insert_request_resource_def insert_row_defs request_resource_of_def)
  with Cons.IH [OF rest] show ?case by simp
qed simp

text \<open>Appending a queued request of an active task with its resource rows.\<close>

lemma insert_request_inv:
  assumes "lease_inv d" and ins: "insert_request_row q (lease_requests d) = Inr rows"
    and q: "q_state q = QQueued" "lease_queue d \<le> n" "q_queue_sequence q \<le> n"
    and t: "t \<in> set (tasks d)" "is_task (q_workspace_id q) (q_task_id q) t"
      "t_agent_id t = q_agent_id q" "t_status t = Active"
    and rs: "\<And>r. r \<in> set rs \<Longrightarrow> qr_batch_id r = q_batch_id q \<and> qr_workspace_id r = q_workspace_id q"
  shows "lease_inv (d\<lparr>lease_requests := rows, lease_queue := n,
    lease_request_resources := lease_request_resources d @ rs\<rparr>)" (is "lease_inv ?d")
proof (rule lease_invI)
  note inv = lease_invD [OF assms(1)]
  have rows: "set rows = insert q (set (lease_requests d))" by (rule request_batch_index.insert_set [OF ins])
  have fresh: "q_batch_id p \<noteq> q_batch_id q" if "p \<in> set (lease_requests d)" for p
    using request_batch_index.insert_fresh [OF ins that] by (simp add: request_batch_key_def)
  have off: "offered ?d = offered d" by (auto simp: offered_def rows q)
  have asked: "asked ?d p = asked d p" if "p \<in> offered d" for p
    using fresh [of p] that rs by (auto simp: asked_def offered_def)
  show "unique_inv ?d"
    using inv(1) request_batch_index.insert_unique [OF ins] request_sequence_index.insert_unique [OF ins]
      pending_task_index.insert_unique [OF ins] by (simp add: unique_inv_def)
  show "lease_owner ?d" using inv(2) by (simp add: lease_owner_def)
  show "request_owner ?d" using inv(3) t by (auto simp: request_owner_def rows)
  show "drain_target ?d" using inv(4) by (simp add: drain_target_def)
  show "lease_rows ?d" using inv(5) by (simp add: lease_rows_def)
  show "request_rows ?d" using inv(6) q rs by (fastforce simp: request_rows_def rows)
  show "exclusive ?d" by (rule exclusive_mono [OF inv(7)]) simp_all
  show "reserved ?d"
    using inv(8) asked unfolding reserved_def off by (simp add: held_def)
  show "marked ?d" using inv(9) by (simp add: marked_def)
  show "covered ?d" using inv(10) by (simp add: covered_def covers_def)
qed

lemma supersede_requests_simps [simp]:
  "tasks (supersede_requests ctx b d) = tasks d" "lease_queue (supersede_requests ctx b d) = lease_queue d"
  by (simp_all add: supersede_requests_def)

lemma enqueue_request_inv:
  assumes "lease_inv d" "enqueue_request E ctx rs exp d = Inr (queued, d')"
    and ws: "\<And>r. r \<in> set rs \<Longrightarrow> rk_workspace_id r = cc_workspace_id ctx"
    and t: "t \<in> set (tasks d)" "is_ctx_task ctx t" "t_agent_id t = cc_agent_id ctx" "t_status t = Active"
  shows "lease_inv d'"
proof -
  obtain batch d1 where u: "new_uuid E d = (batch, d1)" by (cases "new_uuid E d")
  let ?d2 = "supersede_requests ctx batch d1"
  let ?q = "\<lambda>n. \<lparr>q_batch_id = batch, q_workspace_id = cc_workspace_id ctx, q_task_id = cc_task_id ctx,
         q_agent_id = cc_agent_id ctx, q_mode = lease_mode_of rs, q_state = QQueued,
         q_version = 1, q_queue_sequence = n, q_offer_id = None, q_offered_at = None,
         q_offer_expires_at = None, q_superseded_by = None, q_expires_at = exp,
         q_created_at = cc_observed_at ctx, q_updated_at = cc_observed_at ctx\<rparr>"
  from assms(2) u obtain n rows where
    n: "n = lease_queue ?d2 + 1" and ins: "insert_request_row (?q n) (lease_requests ?d2) = Inr rows"
    and fold: "foldE (insert_request_resource batch) rs
      (?d2\<lparr>lease_queue := n, lease_requests := rows\<rparr>) = Inr d'"
    by (auto simp: enqueue_request_def Let_def bind_u64_def split: if_splits)
  from u have core1: "core d1 = core d" by (rule new_uuid_core)
  have d2: "lease_inv ?d2"
    by (rule supersede_requests_inv) (simp add: lease_inv_core [OF core1] assms(1))
  have "lease_inv (?d2\<lparr>lease_requests := rows, lease_queue := n,
      lease_request_resources := lease_request_resources ?d2 @ map (request_resource_of batch) rs\<rparr>)"
    by (rule insert_request_inv [OF d2 ins])
      (use n t ws core_eqD(1) [OF core1] in \<open>auto simp: request_resource_of_def\<close>)
  then show ?thesis
    using insert_request_resources_eq [OF fold] by (simp add: lease_inv_def inv_parts)
qed

end
