(* ===== verification/Store_Acquisition.thy ===== *)
theory Store_Acquisition
  imports Store_Promotion
begin

section \<open>Acquiring leases and write slots keeps the invariant\<close>

text \<open>
  A lease is a new row with no resources followed by resource rows; a write attempt is a row
  followed by the markers of the leased resources it writes. \<open>acquires\<close> says what a loop of
  \<open>acquire_slot\<close> does to the rows, \<open>grow_lease_inv\<close> when resources may be added to a lease.
\<close>

subsection \<open>Leases\<close>

lemma new_lease_inv:
  assumes "lease_inv d" and ins: "insert_lease_row l (active_leases d) = Inr rows"
    and t: "t \<in> set (tasks d)" "is_task (l_workspace_id l) (l_task_id l) t" "t_agent_id t = l_agent_id l"
      "t_status t = Active"
  shows "lease_inv (d\<lparr>active_leases := rows\<rparr>)" (is "lease_inv ?d")
proof (rule lease_invI)
  note inv = lease_invD [OF assms(1)]
  have rows: "set rows = insert l (set (active_leases d))" by (rule lease_batch_index.insert_set [OF ins])
  have fresh: "l_batch_id m \<noteq> l_batch_id l" if "m \<in> set (active_leases d)" for m
    using lease_batch_index.insert_fresh [OF ins that] by (simp add: lease_batch_key_def)
  have empty: "held d l = {}" using inv(5) fresh by (auto simp: held_def lease_rows_def)
  have held: "held ?d m = held d m" for m by (simp add: held_def)
  have vacuous: "overlap.clear_of A (held d l)" "overlap.clear_of (held d l) A" for A
    by (simp_all add: overlap.clear_of_def empty)
  show "unique_inv ?d"
    using inv(1) lease_batch_index.insert_unique [OF ins] lease_agent_index.insert_unique [OF ins]
    by (simp add: unique_inv_def)
  show "lease_owner ?d" using inv(2) t by (auto simp: lease_owner_def rows task_is_terminal_def)
  show "request_owner ?d" using inv(3) by (simp add: request_owner_def)
  show "drain_target ?d" using inv(4) by (simp add: drain_target_def)
  show "lease_rows ?d" using inv(5) by (auto simp: lease_rows_def rows)
  show "request_rows ?d" using inv(6) by (simp add: request_rows_def)
  show "exclusive ?d" using inv(7) unfolding exclusive_def held by (auto simp: rows intro: vacuous)
  show "reserved ?d"
    using inv(8) unfolding reserved_def held by (auto simp: rows offered_def asked_def intro: vacuous)
  show "marked ?d" using inv(9) by (simp add: marked_def)
  show "covered ?d" using inv(10) by (auto simp: covered_def covers_def rows)
qed

text \<open>The row \<open>insert_lease_resource\<close> adds for a resource.\<close>

definition is_lease_resource_of :: "string \<Rightarrow> resource_key \<Rightarrow> lease_resource_row \<Rightarrow> bool" where
  "is_lease_resource_of batch k r =
     (lr_batch_id r = batch \<and> lr_workspace_id r = rk_workspace_id k
      \<and> lease_resource_row_key (lr_workspace_id r) r = k \<and> lr_in_flight_attempt_id r = None)"

lemma insert_lease_resourceD:
  assumes "insert_lease_resource batch k d = Inr d'"
  obtains r where "is_lease_resource_of batch k r" "d' = d\<lparr>lease_resources := lease_resources d @ [r]\<rparr>"
    "insert_lease_resource_row r (lease_resources d) = Inr (lease_resources d @ [r])"
proof -
  from assms obtain g rows where
    rows: "insert_lease_resource_row
       \<lparr>lr_batch_id = batch, lr_workspace_id = rk_workspace_id k,
        lr_resource_id = rk_resource_id k, lr_resource_kind = rk_kind k,
        lr_canonical_path = rk_canonical_path k, lr_acquired_generation = g,
        lr_in_flight_attempt_id = None\<rparr> (lease_resources d) = Inr rows"
    and d': "d' = d\<lparr>lease_resources := rows\<rparr>"
    by (auto simp: insert_lease_resource_def)
  note app = lease_resource_index.insert_appends [OF rows]
  show thesis
    by (rule that [OF _ d' [unfolded app] rows [unfolded app]])
      (simp add: is_lease_resource_of_def lease_resource_row_key_def)
qed

lemma insert_lease_resources_eq:
  assumes "foldE (insert_lease_resource batch) ks d = Inr d'" "unique_by lease_resource_key (lease_resources d)"
  obtains rs where "list_all2 (is_lease_resource_of batch) ks rs"
    "d' = d\<lparr>lease_resources := lease_resources d @ rs\<rparr>" "unique_by lease_resource_key (lease_resources d')"
  using assms
proof (induction ks arbitrary: d thesis)
  case Nil
  from Nil.prems(2,3) show ?case by (intro Nil.prems(1) [of "[]"]) simp_all
next
  case (Cons k ks)
  from Cons.prems(2) obtain d1 where d1: "insert_lease_resource batch k d = Inr d1"
    and rest: "foldE (insert_lease_resource batch) ks d1 = Inr d'" by auto
  obtain r where r: "is_lease_resource_of batch k r" "d1 = d\<lparr>lease_resources := lease_resources d @ [r]\<rparr>"
      "insert_lease_resource_row r (lease_resources d) = Inr (lease_resources d @ [r])"
    by (rule insert_lease_resourceD [OF d1])
  have "unique_by lease_resource_key (lease_resources d1)"
    using lease_resource_index.insert_unique [OF r(3) Cons.prems(3)] r(2) by simp
  from Cons.IH [OF _ rest this] obtain rs where rs: "list_all2 (is_lease_resource_of batch) ks rs"
      "d' = d1\<lparr>lease_resources := lease_resources d1 @ rs\<rparr>" "unique_by lease_resource_key (lease_resources d')"
    by blast
  show ?case by (rule Cons.prems(1) [of "r # rs"]) (use r rs in simp_all)
qed

lemma grow_lease_inv:
  assumes "lease_inv d" and l: "l \<in> set (active_leases d)"
    and fold: "foldE (insert_lease_resource (l_batch_id l)) ks d = Inr d'"
    and ws: "\<And>k. k \<in> set ks \<Longrightarrow> rk_workspace_id k = l_workspace_id l"
    and leases: "\<And>m. m \<in> set (active_leases d) \<Longrightarrow> l_task_id m \<noteq> l_task_id l \<Longrightarrow>
      overlap.clear_of (set ks) (held d m)"
    and offers: "\<And>q. q \<in> offered d \<Longrightarrow> q_task_id q \<noteq> l_task_id l \<Longrightarrow>
      overlap.clear_of (set ks) (asked d q)"
  shows "lease_inv d' \<and> held d' l = held d l \<union> set ks \<and> active_leases d' = active_leases d
    \<and> write_attempts d' = write_attempts d \<and> tasks d' = tasks d
    \<and> lease_requests d' = lease_requests d \<and> resource_evidence d' = resource_evidence d"
proof -
  note inv = lease_invD [OF assms(1)]
  have "unique_by lease_resource_key (lease_resources d)" using inv(1) by (simp add: unique_inv_def)
  from insert_lease_resources_eq [OF fold this] obtain rs where
    rs: "list_all2 (is_lease_resource_of (l_batch_id l)) ks rs"
    and d': "d' = d\<lparr>lease_resources := lease_resources d @ rs\<rparr>"
    and uniq: "unique_by lease_resource_key (lease_resources d')" by blast
  have row: "lr_batch_id r = l_batch_id l \<and> lr_workspace_id r = l_workspace_id l
      \<and> lr_in_flight_attempt_id r = None" if "r \<in> set rs" for r
    using rs that ws unfolding list_all2_conv_all_nth in_set_conv_nth is_lease_resource_of_def
    by (metis nth_mem)
  have "lease_resource_row_key (l_workspace_id l) ` set rs = set ks"
    using rs ws unfolding is_lease_resource_of_def
    by (induction rule: list_all2_induct) auto
  then have own: "held d' l = held d l \<union> set ks" using row by (auto simp: held_def d')
  have other: "held d' m = held d m" if "m \<in> set (active_leases d)" "m \<noteq> l" for m
    using one_lease_per_batch [OF inv(1) that(1) l] that row by (auto simp: held_def d')
  have asked: "asked d' q = asked d q" for q by (simp add: asked_def d')
  have union_clear: "overlap.clear_of (A \<union> B) C = (overlap.clear_of A C \<and> overlap.clear_of B C)"
    "overlap.clear_of C (A \<union> B) = (overlap.clear_of C A \<and> overlap.clear_of C B)" for A B C
    by (auto simp: overlap.clear_of_def)
  have "lease_inv d'"
  proof (rule lease_invI)
    show "unique_inv d'" using inv(1) uniq by (simp add: unique_inv_def d')
    show "lease_owner d'" using inv(2) by (simp add: lease_owner_def d')
    show "request_owner d'" using inv(3) by (simp add: request_owner_def d')
    show "drain_target d'" using inv(4) by (simp add: drain_target_def d')
    show "lease_rows d'" using inv(5) l row by (fastforce simp: lease_rows_def d')
    show "request_rows d'" using inv(6) by (simp add: request_rows_def d')
    show "marked d'" using inv(9) row by (fastforce simp: marked_def d')
    show "covered d'" using inv(10) by (fastforce simp: covered_def covers_def d')
    show "exclusive d'"
      unfolding exclusive_def
    proof (intro ballI impI)
      fix m n assume mn: "m \<in> set (active_leases d')" "n \<in> set (active_leases d')" "l_task_id m \<noteq> l_task_id n"
      then have md: "m \<in> set (active_leases d)" "n \<in> set (active_leases d)" by (simp_all add: d')
      have old: "overlap.clear_of (held d m) (held d n)" using inv(7) md mn(3) by (auto simp: exclusive_def)
      consider "m = l" "n \<noteq> l" | "n = l" "m \<noteq> l" | "m \<noteq> l" "n \<noteq> l" using mn(3) by blast
      then show "overlap.clear_of (held d' m) (held d' n)"
        using old leases [OF md(1)] leases [OF md(2)] mn(3)
          overlap.clear_of_sym [of "set ks" "held d m"]
        by cases (simp_all add: own other md union_clear)
    qed
    show "reserved d'"
      unfolding reserved_def asked
    proof (intro ballI conjI impI)
      fix q m assume q: "q \<in> offered d'" and m: "m \<in> set (active_leases d')" "l_task_id m \<noteq> q_task_id q"
      then have q': "q \<in> offered d" and m': "m \<in> set (active_leases d)" by (simp_all add: offered_def d')
      then have old: "overlap.clear_of (asked d q) (held d m)" using inv(8) m(2) by (auto simp: reserved_def)
      show "overlap.clear_of (asked d q) (held d' m)"
      proof (cases "m = l")
        case True
        with offers [OF q'] m(2) old show ?thesis
          using overlap.clear_of_sym [of "set ks" "asked d q"] by (simp add: own union_clear)
      next
        case False
        with old show ?thesis by (simp add: other [OF m'])
      qed
    next
      fix q p assume "q \<in> offered d'" "p \<in> offered d'" "q_task_id p \<noteq> q_task_id q"
      then show "overlap.clear_of (asked d q) (asked d p)"
        using inv(8) by (auto simp: reserved_def offered_def d')
    qed
  qed
  with own show ?thesis by (simp add: d')
qed

text \<open>Resources that no other task leases or is offered.\<close>

definition free_for :: "db \<Rightarrow> string \<Rightarrow> resource_key set \<Rightarrow> bool" where
  "free_for d task ks =
     ((\<forall>m \<in> set (active_leases d). l_task_id m \<noteq> task \<longrightarrow> overlap.clear_of ks (held d m))
      \<and> (\<forall>q \<in> offered d. q_task_id q \<noteq> task \<longrightarrow> overlap.clear_of ks (asked d q)))"

lemma free_for_subset: "free_for d task ks \<Longrightarrow> ks' \<subseteq> ks \<Longrightarrow> free_for d task ks'"
  unfolding free_for_def by (blast intro: overlap.clear_of_mono)

lemma no_conflicts_free:
  assumes "conflicting_owners ws task rs None d = []" "\<And>r. r \<in> set rs \<Longrightarrow> rk_workspace_id r = ws"
  shows "free_for d task (set rs)"
  using no_conflicts_leases [OF assms] no_conflicts_offers [OF assms] by (simp add: free_for_def)

lemma active_task_leaseD:
  assumes "active_task_lease ctx d = Some av"
  obtains l where "l \<in> set (active_leases d)" "is_task_lease (cc_workspace_id ctx) (cc_task_id ctx) l"
    "av_batch_id av = l_batch_id l" "av_resources av = lease_resource_keys (l_batch_id l) d"
    "av_in_flight_count av = batch_in_flight_count (l_batch_id l) d" "av_state av = l_state l"
  using assms unfolding active_task_lease_def by (auto dest: sql_firstD)

text \<open>What a successful acquisition establishes: the lease, and that it has the resources.\<close>

definition leased :: "db \<Rightarrow> command_context \<Rightarrow> string \<Rightarrow> resource_key set \<Rightarrow> bool" where
  "leased d ctx batch ks = (\<exists>l \<in> set (active_leases d). l_batch_id l = batch
     \<and> is_task_lease (cc_workspace_id ctx) (cc_task_id ctx) l
     \<and> rk_identity ` ks \<subseteq> rk_identity ` held d l)"

lemma insert_active_lease_inv:
  assumes "lease_inv d" and ins: "insert_active_lease ctx batch v ks exp d = Inr d'"
    and t: "t \<in> set (tasks d)" "is_ctx_task ctx t" "t_agent_id t = cc_agent_id ctx" "t_status t = Active"
    and ws: "\<And>k. k \<in> set ks \<Longrightarrow> rk_workspace_id k = cc_workspace_id ctx"
    and free: "free_for d (cc_task_id ctx) (set ks)"
  shows "lease_inv d' \<and> leased d' ctx batch (set ks) \<and> write_attempts d' = write_attempts d
    \<and> tasks d' = tasks d \<and> lease_requests d' = lease_requests d
    \<and> resource_evidence d' = resource_evidence d"
proof -
  from ins obtain version rows where
    rows: "insert_lease_row \<lparr>l_batch_id = batch, l_workspace_id = cc_workspace_id ctx,
        l_task_id = cc_task_id ctx, l_agent_id = cc_agent_id ctx, l_mode = lease_mode_of ks,
        l_state = LeaseActive, l_version = version, l_acquired_at = cc_observed_at ctx,
        l_expires_at = exp, l_release_pending = False\<rparr> (active_leases d) = Inr rows"
      (is "insert_lease_row ?l _ = _")
    and fold: "foldE (insert_lease_resource batch) ks (d\<lparr>active_leases := rows\<rparr>) = Inr d'"
    by (auto simp: insert_active_lease_def)
  define l where "l = ?l"
  have l: "l_batch_id l = batch" "l_workspace_id l = cc_workspace_id ctx"
      "l_task_id l = cc_task_id ctx" "l_agent_id l = cc_agent_id ctx" by (simp_all add: l_def)
  note rows = rows [folded l_def]
  let ?d1 = "d\<lparr>active_leases := rows\<rparr>"
  have set_rows: "set rows = insert l (set (active_leases d))" by (rule lease_batch_index.insert_set [OF rows])
  have d1: "lease_inv ?d1" by (rule new_lease_inv [OF assms(1) rows]) (use t l in auto)
  have same: "held ?d1 m = held d m" "asked ?d1 q = asked d q" "offered ?d1 = offered d" for m q
    by (simp_all add: held_def asked_def offered_def)
  have "lease_inv d' \<and> held d' l = held ?d1 l \<union> set ks \<and> active_leases d' = active_leases ?d1
    \<and> write_attempts d' = write_attempts ?d1 \<and> tasks d' = tasks ?d1
    \<and> lease_requests d' = lease_requests ?d1 \<and> resource_evidence d' = resource_evidence ?d1"
    by (rule grow_lease_inv [OF d1 _ fold [folded l(1)]])
      (use ws free l set_rows in \<open>auto simp: same free_for_def\<close>)
  then show ?thesis
    unfolding leased_def by (auto simp: set_rows is_task_lease_def l)
qed

lemma lease_updates_leased:
  assumes "leased d ctx batch ks" "\<And>l. lease_id (f l) = lease_id l"
  shows "leased (d\<lparr>active_leases := sql_update p f (active_leases d)\<rparr>) ctx batch ks"
  using assms by (simp add: leased_def sql_update_ex_conv held_def lease_id_def is_task_lease_def)

lemma touch_leaseD:
  assumes "touch_lease a g exp d = Inr (v, d')"
  shows "d' = d \<or> d' = d\<lparr>active_leases := sql_update (is_batch_lease (av_batch_id a))
    (\<lambda>l. l\<lparr>l_version := v, l_expires_at := exp\<rparr>) (active_leases d)\<rparr>"
  using assms by (auto simp: touch_lease_def bind_u64_def split: if_splits)

lemma ensure_active_lease_inv:
  assumes "lease_inv d" and ens: "ensure_active_lease E ctx (active_task_lease ctx d) ks exp d = Inr (av, d')"
    and t: "t \<in> set (tasks d)" "is_ctx_task ctx t" "t_agent_id t = cc_agent_id ctx" "t_status t = Active"
    and ws: "\<And>k. k \<in> set ks \<Longrightarrow> rk_workspace_id k = cc_workspace_id ctx"
    and free: "free_for d (cc_task_id ctx) (set ks)"
  shows "lease_inv d' \<and> leased d' ctx (av_batch_id av) (set ks) \<and> av_resources av = ks
    \<and> write_attempts d' = write_attempts d \<and> tasks d' = tasks d
    \<and> resource_evidence d' = resource_evidence d"
proof (cases "active_task_lease ctx d")
  case None
  obtain batch d1 where u: "new_uuid E d = (batch, d1)" by (cases "new_uuid E d")
  then have core1: "core d1 = core d" and ev: "resource_evidence d1 = resource_evidence d"
    by (auto simp: new_uuid_def)
  note eqs = core_eqD [OF core1]
  from ens None u have ins: "insert_active_lease ctx batch 1 ks exp d1 = Inr d'"
    and av: "av_batch_id av = batch" "av_resources av = ks"
    by (auto simp: ensure_active_lease_def)
  have "free_for d1 (cc_task_id ctx) (set ks)"
    using free by (simp add: free_for_def held_def asked_def offered_def eqs)
  with insert_active_lease_inv [OF _ ins] t ws assms(1) show ?thesis
    by (simp add: lease_inv_core [OF core1] eqs av ev)
next
  case (Some a)
  obtain l where l: "l \<in> set (active_leases d)" "is_task_lease (cc_workspace_id ctx) (cc_task_id ctx) l"
      "av_batch_id a = l_batch_id l" "av_resources a = lease_resource_keys (l_batch_id l) d"
    by (rule active_task_leaseD [OF Some])
  let ?adds = "filter (\<lambda>r. \<not> list_ex (\<lambda>x. rk_identity x = rk_identity r) (av_resources a)) ks"
  from ens obtain d1 v where
    fold: "foldE (insert_lease_resource (l_batch_id l)) ?adds d = Inr d1"
    and upd: "touch_lease a (?adds \<noteq> []) exp d1 = Inr (v, d')"
    and "av = a\<lparr>av_version := v, av_expires_at := exp, av_resources := ks\<rparr>"
    unfolding ensure_active_lease_def Some option.case Let_def l(3) if_Inl_eq_Inr bindE_eq_Inr
    by auto
  then have av: "av_batch_id av = l_batch_id l" "av_resources av = ks" by (simp_all add: l(3))
  note upd = touch_leaseD [OF upd]
  have "free_for d (cc_task_id ctx) (set ?adds)" by (rule free_for_subset [OF free]) auto
  then have grow: "lease_inv d1 \<and> held d1 l = held d l \<union> set ?adds \<and> active_leases d1 = active_leases d
    \<and> write_attempts d1 = write_attempts d \<and> tasks d1 = tasks d
    \<and> lease_requests d1 = lease_requests d \<and> resource_evidence d1 = resource_evidence d"
    by (intro grow_lease_inv [OF assms(1) l(1) fold])
      (use ws l(2) in \<open>auto simp: free_for_def is_task_lease_def\<close>)
  have held1: "held d1 l = set (av_resources a) \<union> set ?adds"
    using grow by (simp add: l(4) set_lease_resource_keys [OF assms(1) l(1)])
  have "rk_identity k \<in> rk_identity ` held d1 l" if "k \<in> set ks" for k
  proof (cases "list_ex (\<lambda>x. rk_identity x = rk_identity k) (av_resources a)")
    case True
    then obtain x where "x \<in> set (av_resources a)" "rk_identity x = rk_identity k" by (auto simp: list_ex_iff)
    then show ?thesis unfolding held1 by (metis UnI1 image_eqI)
  next
    case False
    with that show ?thesis unfolding held1 by simp
  qed
  then have ident: "rk_identity ` set ks \<subseteq> rk_identity ` held d1 l" by blast
  have "leased d1 ctx (l_batch_id l) (set ks)"
    unfolding leased_def by (intro bexI [of _ l] conjI refl l(2) ident) (use grow l in simp)
  moreover have "leased d' ctx (l_batch_id l) (set ks)" "lease_inv d'"
    using upd calculation conjunct1 [OF grow]
    by (auto intro!: lease_updates_leased lease_update_inv simp: lease_id_def)
  ultimately show ?thesis using upd grow av by auto
qed

subsection \<open>Write slots\<close>

text \<open>\<open>acquires batch a f\<close>: \<open>f\<close> only sets free markers of the batch's rows, to \<open>a\<close>.\<close>

definition acquires :: "string \<Rightarrow> string \<Rightarrow> (lease_resource_row \<Rightarrow> lease_resource_row) \<Rightarrow> bool" where
  "acquires batch a f = (\<forall>r. lr_id (f r) = lr_id r
     \<and> (lr_in_flight_attempt_id (f r) = lr_in_flight_attempt_id r
        \<or> lr_in_flight_attempt_id r = None \<and> lr_in_flight_attempt_id (f r) = Some a
          \<and> lr_batch_id r = batch))"

lemma acquires_comp: "acquires b a f \<Longrightarrow> acquires b a g \<Longrightarrow> acquires b a (g \<circ> f)"
  unfolding acquires_def o_def lr_id_def by (metis prod.inject)

lemma acquires_keeps:
  "acquires b a f \<Longrightarrow> lr_in_flight_attempt_id r = Some x \<Longrightarrow> lr_in_flight_attempt_id (f r) = Some x"
  unfolding acquires_def by (metis option.distinct(1))

lemma acquire_slotD:
  assumes "acquire_slot batch a ob d = Inr d'"
  obtains f r where "acquires batch a f" "d' = d\<lparr>lease_resources := map f (lease_resources d)\<rparr>"
    "r \<in> set (lease_resources d)" "lr_batch_id r = batch"
    "lr_resource_id r = rk_resource_id (obs_resource ob)" "lr_in_flight_attempt_id (f r) = Some a"
proof -
  let ?p = "\<lambda>lr. lr_batch_id lr = batch \<and> lr_resource_id lr = rk_resource_id (obs_resource ob)
    \<and> lr_in_flight_attempt_id lr = None"
  let ?f = "\<lambda>lr. if ?p lr then lr\<lparr>lr_in_flight_attempt_id := Some a\<rparr> else lr"
  from assms have count: "sql_count ?p (lease_resources d) = 1"
    and d': "d' = d\<lparr>lease_resources := map ?f (lease_resources d)\<rparr>"
    by (auto simp: acquire_slot_def sql_update_def Let_def split: if_splits)
  from count obtain r where r: "r \<in> set (lease_resources d)" "?p r"
    using sql_count_eq_0 [of ?p "lease_resources d"] by auto
  have "acquires batch a ?f" by (simp add: acquires_def lr_id_def)
  with d' r show thesis by (intro that [of ?f r]) auto
qed

lemma acquire_slots:
  assumes "foldE (acquire_slot batch a) obs d = Inr d'"
  obtains f where "acquires batch a f" "d' = d\<lparr>lease_resources := map f (lease_resources d)\<rparr>"
    "\<forall>ob \<in> set obs. \<exists>r \<in> set (lease_resources d). lr_batch_id r = batch
       \<and> lr_resource_id r = rk_resource_id (obs_resource ob) \<and> lr_in_flight_attempt_id (f r) = Some a"
  using assms
proof (induction obs arbitrary: d thesis)
  case Nil
  show ?case by (rule Nil.prems(1) [of "\<lambda>r. r"]) (use Nil.prems(2) in \<open>simp_all add: acquires_def\<close>)
next
  case (Cons ob obs)
  from Cons.prems(2) obtain d1 where d1: "acquire_slot batch a ob d = Inr d1"
    and rest: "foldE (acquire_slot batch a) obs d1 = Inr d'" by auto
  obtain f r where f: "acquires batch a f" "d1 = d\<lparr>lease_resources := map f (lease_resources d)\<rparr>"
      "r \<in> set (lease_resources d)" "lr_batch_id r = batch"
      "lr_resource_id r = rk_resource_id (obs_resource ob)" "lr_in_flight_attempt_id (f r) = Some a"
    by (rule acquire_slotD [OF d1])
  obtain g where g: "acquires batch a g" "d' = d1\<lparr>lease_resources := map g (lease_resources d1)\<rparr>"
      "\<forall>ob \<in> set obs. \<exists>r \<in> set (lease_resources d1). lr_batch_id r = batch
         \<and> lr_resource_id r = rk_resource_id (obs_resource ob) \<and> lr_in_flight_attempt_id (g r) = Some a"
    by (rule Cons.IH [OF _ rest])
  have ids: "lr_batch_id (f x) = lr_batch_id x" "lr_resource_id (f x) = lr_resource_id x" for x
    using f(1) by (simp_all add: acquires_def lr_id_def)
  show ?case
  proof (rule Cons.prems(1) [of "g \<circ> f"])
    show "acquires batch a (g \<circ> f)" using f(1) g(1) by (rule acquires_comp)
    show "d' = d\<lparr>lease_resources := map (g \<circ> f) (lease_resources d)\<rparr>" by (simp add: g(2) f(2))
    have "lr_in_flight_attempt_id ((g \<circ> f) r) = Some a" using acquires_keeps [OF g(1) f(6)] by simp
    with f g(3) show "\<forall>ob \<in> set (ob # obs). \<exists>r \<in> set (lease_resources d). lr_batch_id r = batch
       \<and> lr_resource_id r = rk_resource_id (obs_resource ob)
       \<and> lr_in_flight_attempt_id ((g \<circ> f) r) = Some a"
      by (auto simp: ids)
  qed
qed

text \<open>Starting a write attempt on leased resources.\<close>

lemma start_attempt_inv:
  assumes "lease_inv d" and ins: "insert_write_attempt_row w (write_attempts d) = Inr rows"
    and w: "wa_start_observations w \<noteq> []" and ex: "wa_status w = Executing"
    and f: "acquires (wa_batch_id w) (wa_attempt_id w) f"
    and slots: "\<forall>ob \<in> set (wa_start_observations w). \<exists>r \<in> set (lease_resources d).
       lr_batch_id r = wa_batch_id w \<and> lr_resource_id r = rk_resource_id (obs_resource ob)
       \<and> lr_in_flight_attempt_id (f r) = Some (wa_attempt_id w)"
    and l: "l \<in> set (active_leases d)" "l_batch_id l = wa_batch_id w"
      "is_task_lease (wa_workspace_id w) (wa_task_id w) l"
    and obs: "rk_identity ` obs_resource ` set (wa_start_observations w) \<subseteq> rk_identity ` held d l"
  shows "lease_inv (d\<lparr>write_attempts := rows, lease_resources := map f (lease_resources d)\<rparr>)"
    (is "lease_inv ?d")
proof (rule lease_invI)
  note inv = lease_invD [OF assms(1)]
  have rows: "set rows = insert w (set (write_attempts d))" by (rule attempt_index.insert_set [OF ins])
  have ids: "lr_id (f r) = lr_id r" for r using f by (simp add: acquires_def)
  then have cols: "lr_batch_id (f r) = lr_batch_id r" "lr_workspace_id (f r) = lr_workspace_id r"
    "lr_resource_id (f r) = lr_resource_id r"
    "rk_identity (lease_resource_row_key ws (f r)) = rk_identity (lease_resource_row_key ws r)" for r ws
    by (simp_all add: lr_id_def rk_identity_def lease_resource_row_key_def)
  show "unique_inv ?d"
    using inv(1) attempt_index.insert_unique [OF ins]
    by (simp add: unique_inv_def unique_by_map lease_resource_key_def cols)
  show "lease_owner ?d" using inv(2) by (simp add: lease_owner_def)
  show "request_owner ?d" using inv(3) by (simp add: request_owner_def)
  show "drain_target ?d" using inv(4) by (simp add: drain_target_def)
  show "lease_rows ?d" using inv(5) by (simp add: lease_rows_def cols)
  show "request_rows ?d" using inv(6) by (simp add: request_rows_def)
  show "exclusive ?d" by (rule exclusive_mono [OF inv(7)]) (simp_all add: image_image ids)
  show "reserved ?d"
    by (rule reserved_mono [OF inv(8)]) (simp_all add: image_image ids offered_def)
  show "marked ?d"
    unfolding marked_def
  proof (intro ballI allI impI)
    fix r a assume "r \<in> set (lease_resources ?d)" and a: "lr_in_flight_attempt_id r = Some a"
    then obtain s where s: "s \<in> set (lease_resources d)" "r = f s" by auto
    consider "lr_in_flight_attempt_id s = Some a" | "a = wa_attempt_id w" "lr_batch_id s = wa_batch_id w"
      using f a s(2) unfolding acquires_def by (metis option.inject)
    then show "\<exists>v \<in> set (write_attempts ?d). wa_attempt_id v = a \<and> wa_status v = Executing
        \<and> wa_batch_id v = lr_batch_id r"
    proof cases
      case 1
      with inv(9) s(1) obtain v where "v \<in> set (write_attempts d)" "wa_attempt_id v = a"
        "wa_status v = Executing" "wa_batch_id v = lr_batch_id s" unfolding marked_def by metis
      then show ?thesis by (intro bexI [of _ v]) (simp_all add: rows s(2) cols)
    next
      case 2
      then show ?thesis using ex by (intro bexI [of _ w]) (simp_all add: rows s(2) cols)
    qed
  qed
  have kept: "covers ?d v k" if "covers d v k" for v k
    using that acquires_keeps [OF f] unfolding covers_def by (auto simp: cols intro: bexI)
  have ws: "lr_workspace_id r = l_workspace_id l"
    if "r \<in> set (lease_resources d)" "lr_batch_id r = l_batch_id l" for r
    using that inv(5) one_lease_per_batch [OF inv(1) _ l(1)] unfolding lease_rows_def by metis
  have new: "covers ?d w (obs_resource ob)" if ob: "ob \<in> set (wa_start_observations w)" for ob
  proof -
    from slots ob obtain r where r: "r \<in> set (lease_resources d)" "lr_batch_id r = wa_batch_id w"
        "lr_resource_id r = rk_resource_id (obs_resource ob)"
        "lr_in_flight_attempt_id (f r) = Some (wa_attempt_id w)" by blast
    from obs ob have "rk_identity (obs_resource ob) \<in> rk_identity ` held d l" by blast
    then obtain s where s: "s \<in> set (lease_resources d)" "lr_batch_id s = l_batch_id l"
        "rk_identity (obs_resource ob) = rk_identity (lease_resource_row_key (l_workspace_id l) s)"
      by (auto simp: held_def)
    then have "lr_resource_id s = rk_resource_id (obs_resource ob)"
      by (simp add: rk_identity_def lease_resource_row_key_def)
    with r s ws have "s = r" by (intro one_lease_resource [OF inv(1)]) (simp_all add: l(2))
    with r s ws l(2) show ?thesis by (auto simp: covers_def cols)
  qed
  show "covered ?d"
    using inv(10) w l new kept unfolding covered_def by (auto simp: rows)
qed

text \<open>
  What \<open>prepare_write_attempt\<close> does: the targets are covered by the lease, the attempt row is
  inserted, and the slots are marked; the rest of the core is as before.
\<close>

lemma prepare_write_attemptD:
  assumes "prepare_write_attempt E ctx i current lease d = Inr (att, permit, d')"
  obtains w rows f where
    "rk_identity ` obs_resource ` set current \<subseteq> rk_identity ` set (av_resources lease)"
    "wa_attempt_id w = att" "wa_permit_id w = permit" "wa_workspace_id w = cc_workspace_id ctx"
    "wa_task_id w = cc_task_id ctx" "wa_batch_id w = av_batch_id lease"
    "wa_start_observations w = current" "wa_status w = Executing" "wa_operation w = wp_operation i"
    "insert_write_attempt_row w (write_attempts d) = Inr rows"
    "acquires (av_batch_id lease) att f"
    "\<forall>ob \<in> set current. \<exists>r \<in> set (lease_resources d). lr_batch_id r = av_batch_id lease
       \<and> lr_resource_id r = rk_resource_id (obs_resource ob) \<and> lr_in_flight_attempt_id (f r) = Some att"
    "core d' = core (d\<lparr>write_attempts := rows, lease_resources := map f (lease_resources d)\<rparr>)"
    "resource_evidence d' = resource_evidence (revoke_peers ctx (map obs_resource current) d)"
proof -
  let ?d1 = "revoke_peers ctx (map obs_resource current) d"
  define d3 where "d3 = ?d1\<lparr>uuids_drawn := Suc (Suc (uuids_drawn ?d1))\<rparr>"
  define w where "w = \<lparr>wa_attempt_id = att, wa_permit_id = permit,
           wa_workspace_id = cc_workspace_id ctx, wa_task_id = cc_task_id ctx,
           wa_invocation_id = wp_invocation_id i, wa_batch_id = av_batch_id lease,
           wa_operation = wp_operation i, wa_start_observations = current,
           wa_status = Executing, wa_started_at = cc_observed_at ctx,
           wa_deadline = wp_attempt_deadline i, wa_completed_at = None,
           wa_terminal_result = None\<rparr>"
  from assms obtain rows where
    checks: "foldE (\<lambda>ob _. check_write_slot lease d ob) current () = Inr ()"
    and rows: "insert_write_attempt_row w (write_attempts d3) = Inr rows"
    and slots: "foldE (acquire_slot (av_batch_id lease) att) current (d3\<lparr>write_attempts := rows\<rparr>) = Inr d'"
    by (auto simp: prepare_write_attempt_def Let_def new_uuid_def w_def d3_def)
  have core: "core d3 = core d" by (simp add: d3_def)
  obtain f where f: "acquires (av_batch_id lease) att f"
    and d': "d' = d3\<lparr>write_attempts := rows, lease_resources := map f (lease_resources d3)\<rparr>"
    and marks: "\<forall>ob \<in> set current. \<exists>r \<in> set (lease_resources d3). lr_batch_id r = av_batch_id lease
       \<and> lr_resource_id r = rk_resource_id (obs_resource ob) \<and> lr_in_flight_attempt_id (f r) = Some att"
    using acquire_slots [OF slots] by auto
  show thesis
  proof (rule that [of w rows f])
    show "rk_identity ` obs_resource ` set current \<subseteq> rk_identity ` set (av_resources lease)"
    proof (clarsimp)
      fix ob assume "ob \<in> set current"
      with foldE_checks [OF checks] obtain u where "check_write_slot lease d ob = Inr u" by blast
      then show "rk_identity (obs_resource ob) \<in> rk_identity ` set (av_resources lease)"
        by (auto simp: check_write_slot_def Let_def list_ex_iff image_iff split: if_splits) metis
    qed
  qed (use f marks rows core_eqD [OF core] in \<open>simp_all add: w_def d' core_def d3_def\<close>)
qed

lemma leased_core:
  assumes "core d' = core d"
  shows "leased d' ctx batch ks = leased d ctx batch ks"
  by (simp add: leased_def held_def core_eqD [OF assms])

lemma prepare_write_attempt_inv:
  assumes "lease_inv d" "leased d ctx (av_batch_id lease) (set (av_resources lease))" "current \<noteq> []"
    and "prepare_write_attempt E ctx i current lease d = Inr (att, permit, d')"
  shows "lease_inv d'"
proof -
  from assms(2) obtain l where l: "l \<in> set (active_leases d)" "l_batch_id l = av_batch_id lease"
      "is_task_lease (cc_workspace_id ctx) (cc_task_id ctx) l"
      "rk_identity ` set (av_resources lease) \<subseteq> rk_identity ` held d l"
    by (auto simp: leased_def)
  obtain w rows f where w:
    "rk_identity ` obs_resource ` set current \<subseteq> rk_identity ` set (av_resources lease)"
    "wa_attempt_id w = att" "wa_permit_id w = permit" "wa_workspace_id w = cc_workspace_id ctx"
    "wa_task_id w = cc_task_id ctx" "wa_batch_id w = av_batch_id lease"
    "wa_start_observations w = current" "wa_status w = Executing" "wa_operation w = wp_operation i"
    "insert_write_attempt_row w (write_attempts d) = Inr rows"
    "acquires (av_batch_id lease) att f"
    "\<forall>ob \<in> set current. \<exists>r \<in> set (lease_resources d). lr_batch_id r = av_batch_id lease
       \<and> lr_resource_id r = rk_resource_id (obs_resource ob) \<and> lr_in_flight_attempt_id (f r) = Some att"
    "core d' = core (d\<lparr>write_attempts := rows, lease_resources := map f (lease_resources d)\<rparr>)"
    by (rule prepare_write_attemptD [OF assms(4)])
  have "lease_inv (d\<lparr>write_attempts := rows, lease_resources := map f (lease_resources d)\<rparr>)"
    by (rule start_attempt_inv [OF assms(1) w(10), of _ l])
      (use w l assms(3) in \<open>simp_all add: order_trans [OF w(1) l(4)]\<close>)
  then show ?thesis by (simp add: lease_inv_core [OF w(13)])
qed

text \<open>Ending a write attempt and freeing its slots.\<close>

lemma complete_attempt_inv:
  assumes "lease_inv d" "finish_attempt ctx i st d = Inr d1" "core d2 = core d1"
  shows "lease_inv (release_slots (wc_attempt_id i) d2)" (is "lease_inv ?d")
proof -
  note inv = lease_invD [OF assms(1)]
  let ?a = "wc_attempt_id i"
  let ?p = "\<lambda>a. wa_attempt_id a = ?a \<and> wa_status a = Executing"
  let ?f = "\<lambda>a. a\<lparr>wa_status := write_row_status_of st,
      wa_completed_at := Some (cc_observed_at ctx), wa_terminal_result := Some i\<rparr>"
  from assms(2) have d1: "d1 = d\<lparr>write_attempts := sql_update ?p ?f (write_attempts d)\<rparr>"
    by (auto simp: finish_attempt_def Let_def split: if_splits)
  have ended: "wa_status (?f w) \<noteq> Executing" for w by (cases st) simp_all
  have ex: "v \<in> set (write_attempts ?d) \<and> wa_status v = Executing \<longleftrightarrow>
      v \<in> set (write_attempts d) \<and> wa_status v = Executing \<and> wa_attempt_id v \<noteq> ?a" for v
    using ended by (auto simp: release_slots_def core_eqD [OF assms(3)] d1 set_sql_update)
  note eqs = core_eqD [OF assms(3)]
  have res: "lease_resources ?d = sql_update (\<lambda>lr. lr_in_flight_attempt_id lr = Some ?a)
      (\<lambda>lr. lr\<lparr>lr_in_flight_attempt_id := None\<rparr>) (lease_resources d)"
    by (simp add: release_slots_def eqs d1)
  have rest [simp]: "tasks ?d = tasks d" "active_leases ?d = active_leases d"
    "lease_requests ?d = lease_requests d" "lease_request_resources ?d = lease_request_resources d"
    "lease_queue ?d = lease_queue d"
    by (simp_all add: release_slots_def eqs d1)
  show ?thesis
  proof (rule lease_invI)
    show "unique_inv ?d"
      using inv(1) by (simp add: unique_inv_def release_slots_def eqs d1 unique_by_sql_update
          lease_resource_key_def attempt_key_def)
    show "lease_owner ?d" using inv(2) by (simp add: lease_owner_def)
    show "request_owner ?d" using inv(3) by (simp add: request_owner_def)
    show "drain_target ?d" using inv(4) by (simp add: drain_target_def)
    show "lease_rows ?d" using inv(5) by (simp add: lease_rows_def res sql_update_all_conv)
    show "request_rows ?d" using inv(6) by (simp add: request_rows_def)
    show "exclusive ?d" by (rule exclusive_mono [OF inv(7)]) (simp_all add: res sql_update_image lr_id_def)
    show "reserved ?d"
      by (rule reserved_mono [OF inv(8)]) (simp_all add: res sql_update_image lr_id_def offered_def)
    show "marked ?d"
      unfolding marked_def
    proof (intro ballI allI impI)
      fix r a assume "r \<in> set (lease_resources ?d)" and a: "lr_in_flight_attempt_id r = Some a"
      then have r: "r \<in> set (lease_resources d)" "a \<noteq> ?a"
        by (auto simp: res elim!: in_sql_updateE)
      with inv(9) a obtain w where "w \<in> set (write_attempts d)" "wa_attempt_id w = a"
          "wa_status w = Executing" "wa_batch_id w = lr_batch_id r" unfolding marked_def by metis
      with ex [of w] r show "\<exists>w \<in> set (write_attempts ?d). wa_attempt_id w = a \<and> wa_status w = Executing
          \<and> wa_batch_id w = lr_batch_id r" by blast
    qed
    show "covered ?d"
      unfolding covered_def
    proof (intro ballI impI)
      fix w assume "w \<in> set (write_attempts ?d)" "wa_status w = Executing"
      with ex have w: "w \<in> set (write_attempts d)" "wa_status w = Executing" "wa_attempt_id w \<noteq> ?a" by auto
      have "covers ?d w k" if "covers d w k" for k
        using that w(3) unfolding covers_def res by (auto simp: set_sql_update)
      with inv(10) w show "wa_start_observations w \<noteq> []
        \<and> (\<exists>l \<in> set (active_leases ?d). l_batch_id l = wa_batch_id w
             \<and> is_task_lease (wa_workspace_id w) (wa_task_id w) l)
        \<and> (\<forall>ob \<in> set (wa_start_observations w). covers ?d w (obs_resource ob))"
        by (auto simp: covered_def)
    qed
  qed
qed

end
