(* ===== verification/Store_Safety.thy ===== *)
theory Store_Safety
  imports Store_Acquisition
begin

section \<open>Every transaction keeps the invariant\<close>

text \<open>
  The locale \<open>store_operation\<close> is the contract of the closure a command passes to
  \<open>accepted_command\<close>: it keeps \<open>lease_inv\<close>. Its lemma lifts this to the whole transaction, with
  expiry, promotion and receipts around it; every command of the store interprets it.
  \<open>reachable\<close> is the set of databases the store can get into from the empty schema, by any
  sequence of commands and maintenance calls with any clock, UUID source and hash.
\<close>

subsection \<open>Canonical observations and merged keys\<close>

lemma canonicalize_workspace:
  assumes "canonicalize_observations ctx obs = Inr reported"
  shows "reported = sort_observations obs"
    and "ob \<in> set reported \<Longrightarrow> rk_workspace_id (obs_resource ob) = cc_workspace_id ctx
      \<and> has_matching_resource_kind ob"
proof -
  from assms obtain seen where
    fold: "foldE (\<lambda>ob seen. bindE (check_observation ctx seen ob) (\<lambda>_.
          Inr (rk_identity (obs_resource ob) # seen))) (sort_observations obs) [] = Inr seen"
    and r: "reported = sort_observations obs"
    by (auto simp: canonicalize_observations_def Let_def)
  have all: "foldE (\<lambda>ob seen. bindE (check_observation ctx seen ob) (\<lambda>_.
          Inr (rk_identity (obs_resource ob) # seen))) xs s = Inr u \<Longrightarrow>
      \<forall>ob \<in> set xs. rk_workspace_id (obs_resource ob) = cc_workspace_id ctx
        \<and> has_matching_resource_kind ob" for xs s u
  proof (induction xs arbitrary: s)
    case (Cons x xs)
    from Cons.prems obtain v where "check_observation ctx s x = Inr v" by auto
    moreover have "\<forall>ob \<in> set xs. rk_workspace_id (obs_resource ob) = cc_workspace_id ctx
        \<and> has_matching_resource_kind ob"
      using Cons.prems by (auto intro!: Cons.IH)
    ultimately show ?case by (simp add: check_observation_def split: if_splits)
  qed simp
  show "reported = sort_observations obs" by (rule r)
  show "ob \<in> set reported \<Longrightarrow> rk_workspace_id (obs_resource ob) = cc_workspace_id ctx
      \<and> has_matching_resource_kind ob"
    using all [OF fold] r by simp
qed

lemma set_merge_resource_keys:
  "set t \<subseteq> set (merge_resource_keys t a) \<and> set (merge_resource_keys t a) \<subseteq> set t \<union> set a"
  unfolding merge_resource_keys_def set_sort_resources
proof (induction a arbitrary: t)
  case (Cons k a)
  from Cons.IH [of t] Cons.IH [of "t @ [k]"] show ?case by simp blast
qed simp

lemma merge_resource_keys_ident:
  "rk_identity ` set (merge_resource_keys t a) = rk_identity ` (set t \<union> set a)"
  unfolding merge_resource_keys_def set_sort_resources
proof (induction a arbitrary: t)
  case (Cons k a)
  show ?case
  proof (cases "list_ex (\<lambda>r. rk_identity r = rk_identity k) t")
    case True
    then obtain r where "r \<in> set t" "rk_identity k = rk_identity r" by (auto simp: list_ex_iff)
    then have "rk_identity k \<in> rk_identity ` set t" by blast
    with True Cons.IH [of t] show ?thesis by auto
  next
    case False
    with Cons.IH [of "t @ [k]"] show ?thesis by auto
  qed
qed simp

lemma pending_task_requestD:
  assumes "pending_task_request ctx d = Some (batch, rs)" "lease_inv d"
  obtains q where "q \<in> set (lease_requests d)" "is_task_pending (cc_workspace_id ctx) (cc_task_id ctx) q"
    "batch = q_batch_id q" "set rs = asked d q"
  using assms set_request_resources [OF assms(2)] unfolding pending_task_request_def
  by (auto dest!: sql_firstD)

lemma write_union_workspace:
  assumes "lease_inv d" "\<And>k. k \<in> set requested \<Longrightarrow> rk_workspace_id k = cc_workspace_id ctx"
    and "k \<in> set (write_union (active_task_lease ctx d) (pending_task_request ctx d) requested)"
  shows "rk_workspace_id k = cc_workspace_id ctx"
proof -
  have held: "rk_workspace_id x = cc_workspace_id ctx"
    if a: "active_task_lease ctx d = Some a" "x \<in> set (av_resources a)" for a x
  proof -
    obtain l where "l \<in> set (active_leases d)" "is_task_lease (cc_workspace_id ctx) (cc_task_id ctx) l"
      "av_resources a = lease_resource_keys (l_batch_id l) d"
      by (rule active_task_leaseD [OF a(1)])
    with a(2) show ?thesis
      by (auto simp: set_lease_resource_keys [OF assms(1)] is_task_lease_def dest: held_workspace)
  qed
  have waits: "rk_workspace_id x = cc_workspace_id ctx"
    if p: "pending_task_request ctx d = Some (b, rs)" "x \<in> set rs" for b rs x
    by (rule pending_task_requestD [OF p(1) assms(1)])
      (use p(2) in \<open>auto simp: is_task_pending_def dest: asked_workspace\<close>)
  let ?h = "case active_task_lease ctx d of None \<Rightarrow> [] | Some l \<Rightarrow> av_resources l"
  have "k \<in> set ?h \<or> (\<exists>b rs. pending_task_request ctx d = Some (b, rs) \<and> k \<in> set rs) \<or> k \<in> set requested"
  proof (cases "pending_task_request ctx d")
    case None
    with assms(3) set_merge_resource_keys [of ?h requested] show ?thesis by (auto simp: write_union_def)
  next
    case (Some p)
    with assms(3) set_merge_resource_keys [of "merge_resource_keys ?h (snd p)" requested]
      set_merge_resource_keys [of ?h "snd p"]
    show ?thesis by (cases p) (auto simp: write_union_def)
  qed
  then show ?thesis
    using held waits assms(2) by (cases "active_task_lease ctx d") auto
qed

subsection \<open>The contract of an operation\<close>

locale store_operation =
  fixes operation :: "db \<Rightarrow> (command_response \<times> db) result"
  assumes keeps: "lease_inv d \<Longrightarrow> operation d = Inr (r, d') \<Longrightarrow> lease_inv d'"
begin

lemma accepted_inv:
  assumes "lease_inv d" "accepted_command E ctx kind payload operation d = Inr (r, d')"
  shows "lease_inv d'"
proof (cases "sql_first (is_receipt ctx) (command_receipts d)")
  case None
  with assms(2) obtain d1 d2 where
    d1: "promote_waiters E (cc_observed_at ctx) (expire_tasks_and_leases (cc_observed_at ctx) d) = Inr d1"
    and d2: "operation d1 = Inr (r, d2)" and d': "record_command E ctx kind payload r d2 = Inr d'"
    by (auto simp: accepted_command_def)
  have "lease_inv d1"
    by (rule promote_waiters_inv [OF expire_tasks_and_leases_inv [OF assms(1)] d1])
  from keeps [OF this d2] show ?thesis by (simp add: lease_inv_core [OF record_command_core [OF d']])
next
  case (Some rec)
  with assms show ?thesis by (auto simp: accepted_command_def split: if_splits)
qed

end

subsection \<open>The operations\<close>

lemma task_start_op_inv:
  assumes "lease_inv d" "task_start_op E ctx i d = Inr (r, d')"
  shows "lease_inv d'"
proof (cases "task_row d ctx")
  case None
  let ?row = "\<lparr>t_workspace_id = cc_workspace_id ctx, t_task_id = cc_task_id ctx,
            t_agent_id = cc_agent_id ctx, t_status = Active, t_terminal_status = None,
            t_next_action = trim (ts_next_action i), t_settings = ts_settings i,
            t_handoff = None, t_heartbeat_at = cc_observed_at ctx,
            t_expires_at = ts_expires_at i, t_created_at = cc_observed_at ctx,
            t_updated_at = cc_observed_at ctx\<rparr>"
  from assms(2) None obtain rows where rows: "insert_task_row ?row (tasks d) = Inr rows"
    and core: "core d' = core (d\<lparr>tasks := rows\<rparr>)"
    by (auto simp: task_start_op_def Let_def split: option.splits if_splits dest!: append_audit_core)
  show ?thesis unfolding lease_inv_core [OF core] by (rule insert_task_inv [OF assms(1) rows]) simp
next
  case (Some x)
  with assms show ?thesis by (auto simp: task_start_op_def split: prod.splits if_splits)
qed

lemma task_heartbeat_op_inv:
  assumes "lease_inv d" "task_heartbeat_op E ctx i d = Inr (r, d')"
  shows "lease_inv d'"
proof -
  let ?f = "\<lambda>t. t\<lparr>t_next_action := trim (th_next_action i), t_heartbeat_at := cc_observed_at ctx,
                  t_expires_at := th_expires_at i, t_updated_at := cc_observed_at ctx\<rparr>"
  let ?d1 = "d\<lparr>tasks := sql_update (is_ctx_task ctx) ?f (tasks d)\<rparr>"
  from assms(2) have core: "core d' = core ?d1"
    by (auto simp: task_heartbeat_op_def Let_def dest!: append_audit_core)
  show ?thesis unfolding lease_inv_core [OF core]
    by (rule task_update_inv [OF assms(1)]) simp_all
qed

text \<open>The task's requests are closed before its status changes.\<close>

lemma begin_drain_core:
  "core (begin_drain ctx i terminal d) = core ((cancel_requests (cc_workspace_id ctx) (cc_task_id ctx)
     (cc_observed_at ctx) d)\<lparr>tasks := sql_update (is_ctx_task ctx)
       (\<lambda>t. t\<lparr>t_status := Draining, t_terminal_status := Some terminal,
             t_handoff := te_handoff i, t_updated_at := cc_observed_at ctx\<rparr>) (tasks d)\<rparr>)"
  by (simp add: begin_drain_def cancel_requests_def core_def)

lemma begin_drain_inv:
  assumes "lease_inv d" "task_is_terminal terminal"
  shows "lease_inv (begin_drain ctx i terminal d)"
proof -
  let ?c = "cancel_requests (cc_workspace_id ctx) (cc_task_id ctx) (cc_observed_at ctx) d"
  have "lease_inv (?c\<lparr>tasks := sql_update (is_ctx_task ctx)
       (\<lambda>t. t\<lparr>t_status := Draining, t_terminal_status := Some terminal,
             t_handoff := te_handoff i, t_updated_at := cc_observed_at ctx\<rparr>) (tasks ?c)\<rparr>)"
    by (rule task_update_inv [OF cancel_requests_inv [OF assms(1)]])
      (use assms(2) cancelled_not_pending in \<open>auto simp: is_task_def task_is_terminal_def\<close>)
  then show ?thesis by (simp add: lease_inv_core [OF begin_drain_core])
qed

lemma begin_drain_not_pending:
  "q \<in> set (lease_requests (begin_drain ctx i terminal d)) \<Longrightarrow>
     \<not> is_task_pending (cc_workspace_id ctx) (cc_task_id ctx) q"
  unfolding core_eqD(4) [OF begin_drain_core] by (auto dest: cancelled_not_pending)

lemma end_task_op_cases:
  assumes "end_task_op E ctx i terminal kind d = Inr (r, d')"
  obtains "d' = d"
  | current d2 p where "require_task_owner d ctx False = Inr current" "\<not> task_is_terminal current"
      "task_in_flight_count ctx (begin_drain ctx i terminal d) = 0"
      "promote_waiters E (cc_observed_at ctx) (update_task_terminal ctx terminal
         (release_all_task_leases ctx (begin_drain ctx i terminal d))) = Inr d2"
      "append_audit E ctx kind p d2 = Inr d'"
  | current p where "require_task_owner d ctx False = Inr current" "\<not> task_is_terminal current"
      "append_audit E ctx kind p (drain_leases (is_task_lease (cc_workspace_id ctx) (cc_task_id ctx))
         (begin_drain ctx i terminal d)) = Inr d'"
  using assms by (auto simp: end_task_op_def Let_def split: if_splits)

lemma end_task_op_inv:
  assumes "lease_inv d" "task_is_terminal terminal" "end_task_op E ctx i terminal kind d = Inr (r, d')"
  shows "lease_inv d'"
proof -
  let ?d1 = "begin_drain ctx i terminal d"
  let ?own = "is_task_lease (cc_workspace_id ctx) (cc_task_id ctx)"
  have d1: "lease_inv ?d1" by (rule begin_drain_inv [OF assms(1,2)])
  from assms(3) show ?thesis
  proof (cases rule: end_task_op_cases)
    case 1
    then show ?thesis using assms(1) by simp
  next
    case 2
    have "lease_inv (release_all_task_leases ctx ?d1)"
      unfolding release_all_task_leases_def
      by (rule delete_task_leases_inv [OF d1]) (use 2(3) in \<open>simp add: task_in_flight_count_def\<close>)
    then have "lease_inv (update_task_terminal ctx terminal (release_all_task_leases ctx ?d1))"
      unfolding update_task_terminal_def
      by (rule task_update_inv)
        (use assms(2) begin_drain_not_pending in \<open>auto simp: is_task_def release_all_task_leases_def
           task_is_terminal_def\<close>)
    from promote_waiters_inv [OF this 2(4)] show ?thesis
      by (simp add: lease_inv_core [OF append_audit_core [OF 2(5)]])
  next
    case 3
    then show ?thesis by (simp add: lease_inv_core [OF append_audit_core [OF 3(3)]] drain_leases_inv [OF d1])
  qed
qed

lemma lease_release_op_inv:
  assumes "lease_inv d" "lease_release_op E ctx i d = Inr (r, d')"
  shows "lease_inv d'"
proof -
  from assms(2) obtain av where av: "active_task_lease ctx d = Some av" "av_batch_id av = lri_batch_id i"
    and cases: "(av_in_flight_count av = 0 \<and> (\<exists>d1 p. promote_waiters E (cc_observed_at ctx)
         (delete_leases (is_batch_lease (lri_batch_id i)) d) = Inr d1
         \<and> append_audit E ctx ''lease.release'' p d1 = Inr d'))
      \<or> (\<exists>p. append_audit E ctx ''lease.release'' p (drain_leases (is_batch_lease (lri_batch_id i)) d) = Inr d')"
    by (auto simp: lease_release_op_def split: option.splits if_splits)
  obtain l where "l \<in> set (active_leases d)" "av_batch_id av = l_batch_id l"
      "av_in_flight_count av = batch_in_flight_count (l_batch_id l) d"
    by (rule active_task_leaseD [OF av(1)])
  with av(2) have count: "av_in_flight_count av = batch_in_flight_count (lri_batch_id i) d" by simp
  from cases show ?thesis
  proof
    assume "av_in_flight_count av = 0 \<and> (\<exists>d1 p. promote_waiters E (cc_observed_at ctx)
         (delete_leases (is_batch_lease (lri_batch_id i)) d) = Inr d1
         \<and> append_audit E ctx ''lease.release'' p d1 = Inr d')"
    then obtain d1 p where zero: "batch_in_flight_count (lri_batch_id i) d = 0"
      and d1: "promote_waiters E (cc_observed_at ctx) (delete_leases (is_batch_lease (lri_batch_id i)) d) = Inr d1"
      and d': "append_audit E ctx ''lease.release'' p d1 = Inr d'"
      using count by auto
    from promote_waiters_inv [OF delete_batch_lease_inv [OF assms(1) zero] d1] show ?thesis
      by (simp add: lease_inv_core [OF append_audit_core [OF d']])
  next
    assume "\<exists>p. append_audit E ctx ''lease.release'' p (drain_leases (is_batch_lease (lri_batch_id i)) d) = Inr d'"
    then obtain p where
      d': "append_audit E ctx ''lease.release'' p (drain_leases (is_batch_lease (lri_batch_id i)) d) = Inr d'" ..
    show ?thesis unfolding lease_inv_core [OF append_audit_core [OF d']] by (rule drain_leases_inv [OF assms(1)])
  qed
qed

text \<open>Promotion only changes requests.\<close>

lemma promote_waiters_frame:
  assumes "promote_waiters E now d = Inr d'"
  obtains Q n where "d' = d\<lparr>uuids_drawn := n, lease_requests := Q\<rparr>"
proof -
  from assms obtain nv blocked where fold: "foldE (promote_step E now nv)
      (queued_requests (expire_offers now d)) ([], expire_offers now d) = Inr (blocked, d')"
    by (auto simp: promote_waiters_def Let_def)
  let ?P = "\<lambda>s. \<exists>Q n. snd s = d\<lparr>uuids_drawn := n, lease_requests := Q\<rparr>"
  have "?P (blocked, d')"
  proof (rule foldE_invariant [OF fold])
    show "?P ([], expire_offers now d)"
      by (intro exI [of _ "lease_requests (expire_offers now d)"] exI [of _ "uuids_drawn d"])
        (simp add: expire_offers_def)
    fix x s u assume s: "?P s" and u: "promote_step E now nv x s = Inr u"
    obtain q t b d2 b' d3 where eqs: "x = (q, t)" "s = (b, d2)" "u = (b', d3)"
      by (cases x, cases s, cases u)
    from s eqs obtain Q n where d2: "d2 = d\<lparr>uuids_drawn := n, lease_requests := Q\<rparr>" by auto
    from u [unfolded eqs] show "?P u"
    proof (cases rule: promote_stepE)
      case expired
      then have "d3 = d\<lparr>uuids_drawn := n, lease_requests := lease_requests d3\<rparr>"
        by (simp add: d2 expire_request_def)
      then show ?thesis unfolding eqs snd_conv by blast
    next
      case waits
      then show ?thesis unfolding eqs snd_conv d2 by blast
    next
      case offers
      from offers(3) have "d3 = d\<lparr>uuids_drawn := Suc n, lease_requests := lease_requests d3\<rparr>"
        by (auto simp: d2 offer_request_def new_uuid_def Let_def)
      then show ?thesis unfolding eqs snd_conv by blast
    qed
  qed
  then show thesis using that by auto
qed

lemma promote_waiters_keeps:
  assumes "promote_waiters E now d = Inr d'"
  shows "tasks d' = tasks d" "active_leases d' = active_leases d" "lease_resources d' = lease_resources d"
    "write_attempts d' = write_attempts d" "resource_evidence d' = resource_evidence d"
    "lease_request_resources d' = lease_request_resources d" "resources d' = resources d"
  by (rule promote_waiters_frame [OF assms]; simp)+

lemma validate_write_prepareD:
  assumes "validate_write_prepare E ctx i d = Inr reported"
  obtains t where "t \<in> set (tasks d)" "is_ctx_task ctx t" "t_agent_id t = cc_agent_id ctx" "t_status t = Active"
    "reported \<noteq> []" "\<forall>ob \<in> set reported. rk_workspace_id (obs_resource ob) = cc_workspace_id ctx"
    "canonicalize_observations ctx (wp_current i) = Inr reported"
    "validate_operation_start (wp_operation i) reported = Inr ()"
proof -
  from assms obtain st where own: "require_task_owner d ctx True = Inr st"
    and can: "canonicalize_observations ctx (wp_current i) = Inr reported" and ne: "reported \<noteq> []"
    and op: "validate_operation_start (wp_operation i) reported = Inr ()"
    by (auto simp: validate_write_prepare_def)
  obtain t where "t \<in> set (tasks d)" "is_ctx_task ctx t" "t_agent_id t = cc_agent_id ctx" "t_status t = Active"
    using require_task_ownerD [OF own] by metis
  with can ne op canonicalize_workspace(2) [OF can] show thesis by (intro that) auto
qed

lemma release_all_inv:
  assumes "lease_inv d" "active_task_lease ctx d = Some a" "av_in_flight_count a = 0"
  shows "lease_inv (release_all_task_leases ctx d)"
  unfolding release_all_task_leases_def
proof (rule delete_leases_inv [OF assms(1)])
  obtain l where l: "l \<in> set (active_leases d)" "is_task_lease (cc_workspace_id ctx) (cc_task_id ctx) l"
      "av_in_flight_count a = batch_in_flight_count (l_batch_id l) d"
    by (rule active_task_leaseD [OF assms(2)])
  fix m assume "m \<in> set (active_leases d)" "is_task_lease (cc_workspace_id ctx) (cc_task_id ctx) m"
  with one_lease_per_task [OF lease_invD(1,2) [OF assms(1)] _ l(1) _ l(2)] have "m = l" by blast
  with l(3) assms(3) show "batch_in_flight_count (l_batch_id m) d = 0" by simp
qed

lemma write_wait_inv:
  assumes "lease_inv d" and pend: "pending = pending_task_request ctx d"
    and t: "t \<in> set (tasks d)" "is_ctx_task ctx t" "t_agent_id t = cc_agent_id ctx" "t_status t = Active"
    and ws: "\<And>k. k \<in> set wanted \<Longrightarrow> rk_workspace_id k = cc_workspace_id ctx"
    and run: "write_wait E ctx i (active_task_lease ctx d) pending wanted conflicts reported d = Inr (r, d')"
  shows "lease_inv d'"
proof -
  have enqueue: "lease_inv d4"
    if d1: "lease_inv d1" "tasks d1 = tasks d" and q: "enqueue_request E ctx wanted exp d1 = Inr (queued, d2)"
      and p: "promote_waiters E (cc_observed_at ctx) d2 = Inr d3" and a: "append_audit E ctx ev j d3 = Inr d4"
    for d1 d2 d3 d4 queued ev j exp
  proof -
    have "lease_inv d2" by (rule enqueue_request_inv [OF d1(1) q ws]) (use t d1(2) in simp_all)
    from promote_waiters_inv [OF this p] show ?thesis
      by (simp add: lease_inv_core [OF append_audit_core [OF a]])
  qed
  have released: "lease_inv d1 \<and> tasks d1 = tasks d"
    if "active_task_lease ctx d = Some a" "av_in_flight_count a = 0"
      "promote_waiters E (cc_observed_at ctx) (release_all_task_leases ctx d) = Inr d1" for a d1
    using promote_waiters_inv [OF release_all_inv [OF assms(1) that(1,2)] that(3)]
      promote_waiters_keeps(1) [OF that(3)] by (simp add: release_all_task_leases_def)
  show ?thesis
  proof (cases "\<not> has_historical_evidence d ctx reported")
    case True
    with run assms(1) show ?thesis by (simp add: write_wait_def)
  next
    case hist: False
    show ?thesis
    proof (cases "active_task_lease ctx d")
      case None
      show ?thesis
      proof (cases "\<exists>batch. pending = Some (batch, wanted)")
        case True
        with run hist None show ?thesis
          using assms(1) by (auto simp: write_wait_def Let_def lease_inv_core [OF append_audit_core])
      next
        case False
        with run hist None obtain queued d2 d3 ev j where
          "enqueue_request E ctx wanted (wp_request_expires_at i) d = Inr (queued, d2)"
          "promote_waiters E (cc_observed_at ctx) d2 = Inr d3" "append_audit E ctx ev j d3 = Inr d'"
          by (auto simp: write_wait_def Let_def split: option.splits prod.splits if_splits)
        then show ?thesis by (rule enqueue [OF assms(1) refl])
      qed
    next
      case (Some a)
      show ?thesis
      proof (cases "av_in_flight_count a = 0")
        case False
        with run hist Some assms(1) show ?thesis by (simp add: write_wait_def)
      next
        case True
        with run hist Some obtain d1 queued d2 d3 ev j where
          d1: "promote_waiters E (cc_observed_at ctx) (release_all_task_leases ctx d) = Inr d1"
          and q: "enqueue_request E ctx wanted (wp_request_expires_at i) d1 = Inr (queued, d2)"
            "promote_waiters E (cc_observed_at ctx) d2 = Inr d3" "append_audit E ctx ev j d3 = Inr d'"
          by (auto simp: write_wait_def)
        from released [OF Some True d1] show ?thesis using enqueue [OF _ _ q] by blast
      qed
    qed
  qed
qed

lemma write_ready_inv:
  assumes "lease_inv d"
    and t: "t \<in> set (tasks d)" "is_ctx_task ctx t" "t_agent_id t = cc_agent_id ctx" "t_status t = Active"
    and ws: "\<And>k. k \<in> set wanted \<Longrightarrow> rk_workspace_id k = cc_workspace_id ctx"
    and free: "free_for d (cc_task_id ctx) (set wanted)" and ne: "reported \<noteq> []"
    and run: "write_ready E ctx i (active_task_lease ctx d) wanted reported d = Inr (r, d')"
  shows "lease_inv d'"
proof -
  from run consider "d' = d"
    | current av att permit d1 d3 j where "observations_same_state current reported"
      "ensure_active_lease E ctx (active_task_lease ctx d) wanted (wp_lease_expires_at i) d = Inr (av, d1)"
      "prepare_write_attempt E ctx i current av (revoke_peers ctx wanted d1) = Inr (att, permit, d3)"
      "append_audit E ctx ''write.prepared'' j d3 = Inr d'"
    by (auto simp: write_ready_def Let_def split: if_splits)
  then show ?thesis
  proof cases
    case 1
    with assms(1) show ?thesis by simp
  next
    case 2
    from ensure_active_lease_inv [OF assms(1) 2(2) t ws free]
    have d1: "lease_inv d1" "leased d1 ctx (av_batch_id av) (set (av_resources av))" by simp_all
    have cur: "current \<noteq> []" using 2(1) ne by (auto simp: observations_same_state_def)
    have core: "core (revoke_peers ctx wanted d1) = core d1" by simp
    from prepare_write_attempt_inv [OF _ _ cur 2(3)] d1 have "lease_inv d3"
      by (simp add: lease_inv_core [OF core] leased_core [OF core])
    then show ?thesis by (simp add: lease_inv_core [OF append_audit_core [OF 2(4)]])
  qed
qed

lemma write_prepare_op_inv:
  assumes "lease_inv d" "write_prepare_op E ctx i d = Inr (r, d')"
  shows "lease_inv d'"
proof -
  let ?active = "active_task_lease ctx d" and ?pending = "pending_task_request ctx d"
  from assms(2) obtain reported where
    val: "validate_write_prepare E ctx i d = Inr reported" by (auto simp: write_prepare_op_def)
  let ?wanted = "write_union ?active ?pending (map obs_resource reported)"
  let ?conflicts = "conflicting_owners (cc_workspace_id ctx) (cc_task_id ctx) ?wanted None d
    @ queued_conflicting_owners (cc_workspace_id ctx) (cc_task_id ctx) ?wanted d"
  obtain t where t: "t \<in> set (tasks d)" "is_ctx_task ctx t" "t_agent_id t = cc_agent_id ctx" "t_status t = Active"
    and ne: "reported \<noteq> []" and rep: "\<forall>ob \<in> set reported. rk_workspace_id (obs_resource ob) = cc_workspace_id ctx"
    by (rule validate_write_prepareD [OF val])
  have ws: "\<And>k. k \<in> set ?wanted \<Longrightarrow> rk_workspace_id k = cc_workspace_id ctx"
    by (rule write_union_workspace [OF assms(1)]) (use rep in auto)
  from assms(2) val consider "write_wait E ctx i ?active ?pending ?wanted ?conflicts reported d = Inr (r, d')"
    | "?conflicts = []" "write_ready E ctx i ?active ?wanted reported d = Inr (r, d')"
    by (auto simp: write_prepare_op_def Let_def split: if_splits)
  then show ?thesis
  proof cases
    case 1
    show ?thesis by (rule write_wait_inv [OF assms(1) refl t _ 1]) (rule ws)
  next
    case 2
    have free: "free_for d (cc_task_id ctx) (set ?wanted)"
      by (rule no_conflicts_free [where ws = "cc_workspace_id ctx"]) (use 2(1) ws in auto)
    show ?thesis by (rule write_ready_inv [OF assms(1) t _ free ne 2(2)]) (rule ws)
  qed
qed

lemma lease_request_rowD:
  assumes "lease_request_row ctx batch d = Some v"
  obtains q where "q \<in> set (lease_requests d)" "q_batch_id q = batch" "q_workspace_id q = cc_workspace_id ctx"
    "q_task_id q = cc_task_id ctx" "rv_state v = q_state q" "rv_version v = q_version q"
    "rv_offer_id v = q_offer_id q" "rv_offered_at v = q_offered_at q"
    "rv_resources v = request_resources (q_batch_id q) d"
  using assms unfolding lease_request_row_def by (auto dest!: sql_firstD)

text \<open>When an activation succeeds, all of this was checked and done.\<close>

lemma lease_activate_opD:
  assumes "lease_activate_op E ctx i d = Inr (r, d')"
  obtains (rejected) "d' = d" "r = activate_result (la_batch_id i) False"
  | (activated) v t offered_at obs version d1 d3 where
      "lease_request_row ctx (la_batch_id i) d = Some v"
      "t \<in> set (tasks d)" "is_ctx_task ctx t" "t_agent_id t = cc_agent_id ctx" "t_status t = Active"
      "rv_state v = QOffered" "rv_offer_id v = Some (la_offer_id i)" "rv_version v = la_version i"
      "rv_offered_at v = Some offered_at" "current_observations d (rv_resources v) = Inr obs"
      "has_current_evidence d ctx obs (Some offered_at)"
      "conflicting_owners (cc_workspace_id ctx) (cc_task_id ctx) (rv_resources v) (Some (la_batch_id i)) d = []"
      "active_task_lease ctx d = None"
      "insert_active_lease ctx (la_batch_id i) version (rv_resources v) (la_lease_expires_at i) d = Inr d1"
      "activate_request ctx i version (revoke_peers ctx (rv_resources v) d1) = Inr d3"
      "core d' = core d3" "r = activate_result (la_batch_id i) True"
      "resource_evidence d' = resource_evidence d3"
proof -
  from assms obtain st settings v where own: "require_task_owner d ctx True = Inr st"
    and v: "lease_request_row ctx (la_batch_id i) d = Some v"
    by (auto simp: lease_activate_op_def)
  obtain t where t: "t \<in> set (tasks d)" "is_ctx_task ctx t" "t_agent_id t = cc_agent_id ctx" "t_status t = Active"
    using require_task_ownerD [OF own] by metis
  have audit: "resource_evidence d2 = resource_evidence d1" if "append_audit E ctx ev p d1 = Inr d2" for ev p d1 d2
    using that by (auto simp: append_audit_def new_uuid_def Let_def)
  show thesis
  proof (cases "d' = d \<and> r = activate_result (la_batch_id i) False")
    case True
    then show thesis by (intro rejected) simp_all
  next
    case False
    with assms v obtain offered_at obs version d1 d3 ev p where
      "rv_state v = QOffered" "rv_offer_id v = Some (la_offer_id i)" "rv_version v = la_version i"
      "rv_offered_at v = Some offered_at" "current_observations d (rv_resources v) = Inr obs"
      "has_current_evidence d ctx obs (Some offered_at)"
      "conflicting_owners (cc_workspace_id ctx) (cc_task_id ctx) (rv_resources v) (Some (la_batch_id i)) d = []"
      "active_task_lease ctx d = None"
      "insert_active_lease ctx (la_batch_id i) version (rv_resources v) (la_lease_expires_at i) d = Inr d1"
      "activate_request ctx i version (revoke_peers ctx (rv_resources v) d1) = Inr d3"
      "append_audit E ctx ev p d3 = Inr d'" "r = activate_result (la_batch_id i) True"
      by (auto simp: lease_activate_op_def Let_def split: if_splits)
    then show thesis using append_audit_core audit by (intro activated [OF v t]) auto
  qed
qed

lemma activate_request_inv:
  assumes "lease_inv d" "activate_request ctx i version d = Inr d'"
  shows "lease_inv d'"
proof -
  let ?p = "\<lambda>q. q_workspace_id q = cc_workspace_id ctx \<and> q_task_id q = cc_task_id ctx
    \<and> q_batch_id q = la_batch_id i \<and> q_state q = QOffered \<and> q_version q = la_version i"
  let ?f = "\<lambda>q. q\<lparr>q_state := QActivated, q_version := version, q_updated_at := cc_observed_at ctx\<rparr>"
  from assms(2) have "d' = d\<lparr>lease_requests := sql_update ?p ?f (lease_requests d)\<rparr>"
    by (auto simp: activate_request_def Let_def split: if_splits)
  then show ?thesis
    by (auto intro!: close_requests_inv [OF assms(1)] simp: request_id_def request_pending_def)
qed

lemma lease_activate_op_inv:
  assumes "lease_inv d" "lease_activate_op E ctx i d = Inr (r, d')"
  shows "lease_inv d'"
proof (rule lease_activate_opD [OF assms(2)], goal_cases)
  case 1
  with assms(1) show ?case by simp
next
  case (2 v t offered_at obs version d1 d3)
  obtain q where q: "q \<in> set (lease_requests d)" "q_batch_id q = la_batch_id i"
      "q_workspace_id q = cc_workspace_id ctx" "q_task_id q = cc_task_id ctx"
      "rv_resources v = request_resources (q_batch_id q) d"
    by (rule lease_request_rowD [OF 2(1)])
  have ws: "rk_workspace_id k = cc_workspace_id ctx" if "k \<in> set (rv_resources v)" for k
    using that asked_workspace by (simp add: q(5) set_request_resources [OF assms(1) q(1)] flip: q(3))
  have "free_for d (cc_task_id ctx) (set (rv_resources v))"
    unfolding free_for_def
  proof (intro conjI ballI impI)
    fix p assume p: "p \<in> offered d" "q_task_id p \<noteq> cc_task_id ctx"
    with one_request_per_batch [OF lease_invD(1) [OF assms(1)], of p q] q
    have "Some (la_batch_id i) \<noteq> Some (q_batch_id p)" by (auto simp: offered_def)
    then show "overlap.clear_of (set (rv_resources v)) (asked d p)"
      by (intro no_conflicts_offers [OF 2(12) ws p])
  qed (rule no_conflicts_leases [OF 2(12) ws])
  with insert_active_lease_inv [OF assms(1) 2(14) 2(2-5) ws] have "lease_inv d1" by blast
  then have "lease_inv (revoke_peers ctx (rv_resources v) d1)"
    by (simp add: lease_inv_core [OF revoke_peers_core])
  from activate_request_inv [OF this 2(15)] show ?case by (simp add: lease_inv_core [OF 2(16)])
qed

lemma classify_completion_core:
  "classify_completion ctx i w d = Inr (st, own, d') \<Longrightarrow> core d' = core d"
  by (auto simp: classify_completion_def Let_def split: if_splits dest: sync_observations_core)

lemma settle_lease_inv:
  assumes "lease_inv d" "settle_lease st batch d = (released, d')"
  shows "lease_inv d'"
  using assms delete_batch_lease_inv drain_leases_inv
  by (auto simp: settle_lease_def Let_def split: if_splits)

lemma draining_not_pending:
  assumes "lease_inv d" "t \<in> set (tasks d)" "is_task ws task t" "t_status t \<noteq> Active" "q \<in> set (lease_requests d)"
  shows "\<not> is_task_pending ws task q"
proof
  assume p: "is_task_pending ws task q"
  with lease_invD(3) [OF assms(1)] assms(5) obtain u where "u \<in> set (tasks d)" "is_task ws task u" "t_status u = Active"
    by (auto simp: request_owner_def is_task_pending_def)
  with one_task_row [OF lease_invD(1) [OF assms(1)] assms(2) _ assms(3)] assms(4) show False by metis
qed

lemma finish_draining_task_inv:
  assumes "lease_inv d" "finish_draining_task ctx d = (finished, d')"
  shows "lease_inv d'"
proof (cases "d' = d")
  case True
  with assms(1) show ?thesis by simp
next
  case False
  let ?p = "\<lambda>t. is_ctx_task ctx t \<and> t_status t = Draining"
  let ?own = "is_task_lease (cc_workspace_id ctx) (cc_task_id ctx)"
  from assms(2) False obtain t terminal where t: "sql_first ?p (tasks d) = Some t" "t_terminal_status t = Some terminal"
    and count: "in_flight_count (cc_workspace_id ctx) (cc_task_id ctx) d = 0"
    and d': "d' = (delete_leases ?own d)\<lparr>tasks := sql_update ?p
       (\<lambda>t. t\<lparr>t_status := terminal, t_updated_at := cc_observed_at ctx\<rparr>) (tasks (delete_leases ?own d))\<rparr>"
    by (auto simp: finish_draining_task_def task_in_flight_count_def Let_def split: option.splits if_splits)
  from t(1) have t': "t \<in> set (tasks d)" "is_ctx_task ctx t" "t_status t = Draining" by (auto dest: sql_firstD)
  with lease_invD(4) [OF assms(1)] t(2) have "task_is_terminal terminal" by (auto simp: drain_target_def)
  then show ?thesis
    unfolding d' using draining_not_pending [OF assms(1) t'(1,2)] t'(3)
    by (intro task_update_inv [OF delete_task_leases_inv [OF assms(1) count]])
      (auto simp: is_task_def task_is_terminal_def)
qed

text \<open>The steps of a successful \<open>write_complete\<close>.\<close>

definition completion_steps ::
  "env \<Rightarrow> command_context \<Rightarrow> write_complete_input \<Rightarrow> write_attempt_row \<Rightarrow> db \<Rightarrow> write_result_status
     \<Rightarrow> db \<Rightarrow> bool" where
  "completion_steps E ctx i w d st d' =
     (\<exists>own d1 d2 d3 released d4 finished d5 d6 p.
        classify_completion ctx i w d = Inr (st, own, d1)
        \<and> finish_attempt ctx i st d1 = Inr d2
        \<and> (case own of None \<Rightarrow> Inr d2
            | Some obs \<Rightarrow> insert_own_write_evidence E ctx (wc_attempt_id i) obs d2) = Inr d3
        \<and> settle_lease st (wa_batch_id w) (release_slots (wc_attempt_id i) d3) = (released, d4)
        \<and> finish_draining_task ctx d4 = (finished, d5)
        \<and> (if released \<or> finished then promote_waiters E (cc_observed_at ctx) d5 else Inr d5) = Inr d6
        \<and> append_audit E ctx ''write.completed'' p d6 = Inr d')"

lemma write_complete_opD:
  assumes "write_complete_op E ctx i d = Inr (r, d')"
  obtains w st where "w \<in> set (write_attempts d)" "wa_attempt_id w = wc_attempt_id i"
    "wa_workspace_id w = cc_workspace_id ctx" "wa_task_id w = cc_task_id ctx" "wa_status w = Executing"
    "wa_invocation_id w = wc_invocation_id i" "wa_permit_id w = wc_permit_id i"
    "completion_steps E ctx i w d st d'" "r = RComplete \<lparr>wcr_attempt_id = wc_attempt_id i, wcr_status = st\<rparr>"
proof -
  from assms obtain w where w: "w \<in> set (write_attempts d)" "wa_attempt_id w = wc_attempt_id i"
      "wa_workspace_id w = cc_workspace_id ctx" "wa_task_id w = cc_task_id ctx" "wa_status w = Executing"
      "wa_invocation_id w = wc_invocation_id i" "wa_permit_id w = wc_permit_id i"
    and rest: "bindE (classify_completion ctx i w d) (\<lambda>(status, own_write_evidence, d1).
     bindE (finish_attempt ctx i status d1) (\<lambda>d2.
     bindE (case own_write_evidence of
              None \<Rightarrow> Inr d2
            | Some obs \<Rightarrow> insert_own_write_evidence E ctx (wc_attempt_id i) obs d2) (\<lambda>d3.
     let (released, d4) = settle_lease status (wa_batch_id w)
           (release_slots (wc_attempt_id i) d3);
         (finished, d5) = finish_draining_task ctx d4
     in bindE (if released \<or> finished then promote_waiters E (cc_observed_at ctx) d5
               else Inr d5) (\<lambda>d6.
        bindE (append_audit E ctx ''write.completed'' (JObject
                 [(''attempt_id'', JString (wc_attempt_id i)),
                  (''batch_id'', JString (wa_batch_id w)),
                  (''status'', JString (write_result_name status)),
                  (''error'', jopt JString (wc_error i))]) d6) (\<lambda>d7.
        Inr (RComplete \<lparr>wcr_attempt_id = wc_attempt_id i, wcr_status = status\<rparr>, d7)))))) = Inr (r, d')"
    unfolding write_complete_op_def by (auto dest!: sql_firstD)
  from rest obtain st where "completion_steps E ctx i w d st d'"
      "r = RComplete \<lparr>wcr_attempt_id = wc_attempt_id i, wcr_status = st\<rparr>"
    unfolding completion_steps_def bindE_eq_Inr by (auto split: prod.splits) blast
  with w show thesis by (rule that)
qed

lemma write_complete_op_inv:
  assumes "lease_inv d" "write_complete_op E ctx i d = Inr (r, d')"
  shows "lease_inv d'"
proof (rule write_complete_opD [OF assms(2)])
  fix w st assume "completion_steps E ctx i w d st d'"
  then obtain own d1 d2 d3 released d4 finished d5 d6 p where
    d1: "classify_completion ctx i w d = Inr (st, own, d1)" and d2: "finish_attempt ctx i st d1 = Inr d2"
    and d3: "(case own of None \<Rightarrow> Inr d2
            | Some obs \<Rightarrow> insert_own_write_evidence E ctx (wc_attempt_id i) obs d2) = Inr d3"
    and d4: "settle_lease st (wa_batch_id w) (release_slots (wc_attempt_id i) d3) = (released, d4)"
    and d5: "finish_draining_task ctx d4 = (finished, d5)"
    and d6: "(if released \<or> finished then promote_waiters E (cc_observed_at ctx) d5 else Inr d5) = Inr d6"
    and d': "append_audit E ctx ''write.completed'' p d6 = Inr d'"
    unfolding completion_steps_def by blast
  have "lease_inv d1" using assms(1) by (simp add: lease_inv_core [OF classify_completion_core [OF d1]])
  moreover have "core d3 = core d2"
    using d3 by (auto split: option.splits dest: insert_own_write_evidence_core)
  ultimately have "lease_inv d5"
    by (rule finish_draining_task_inv [OF settle_lease_inv [OF complete_attempt_inv [OF _ d2] d4] d5])
  with d6 have "lease_inv d6" by (auto split: if_splits dest: promote_waiters_inv)
  then show ?thesis by (simp add: lease_inv_core [OF append_audit_core [OF d']])
qed

lemma maintain_inv:
  assumes "lease_inv d" "maintain E now d = Inr d'"
  shows "lease_inv d'"
proof -
  let ?d1 = "expire_tasks_and_leases now (expire_offers now d)"
  have "lease_inv ?d1" by (intro expire_tasks_and_leases_inv expire_offers_inv assms(1))
  then have "lease_inv (retire_inactive now ?d1)" by (simp add: lease_inv_core [OF retire_inactive_core])
  then have d2: "lease_inv (drain_overdue now (retire_inactive now ?d1))"
    unfolding drain_overdue_def by (rule drain_leases_inv)
  from assms(2) obtain rows where
    "promote_waiters E now ((drain_overdue now (retire_inactive now ?d1))\<lparr>audit_events := rows\<rparr>) = Inr d'"
    by (auto simp: maintain_def Let_def)
  then show ?thesis
    by (rule promote_waiters_inv [rotated]) (simp add: d2 lease_inv_core [OF core_simps(2)])
qed

subsection \<open>Interpretations: every command meets the contract\<close>

interpretation task_start_op: store_operation "task_start_op E ctx i" for E ctx i
  by unfold_locales (rule task_start_op_inv)

interpretation task_heartbeat_op: store_operation "task_heartbeat_op E ctx i" for E ctx i
  by unfold_locales (rule task_heartbeat_op_inv)

interpretation task_finalize_op: store_operation "end_task_op E ctx i Completed kind" for E ctx i kind
  by unfold_locales (rule end_task_op_inv, simp_all add: task_is_terminal_def)

interpretation task_cancel_op: store_operation "end_task_op E ctx i Cancelled kind" for E ctx i kind
  by unfold_locales (rule end_task_op_inv, simp_all add: task_is_terminal_def)

interpretation read_start_op: store_operation "read_start_op E ctx i" for E ctx i
  by unfold_locales (simp add: lease_inv_core [OF read_start_op_core])

interpretation read_complete_op: store_operation "read_complete_op E ctx i" for E ctx i
  by unfold_locales (simp add: lease_inv_core [OF read_complete_op_core])

interpretation write_prepare_op: store_operation "write_prepare_op E ctx i" for E ctx i
  by unfold_locales (rule write_prepare_op_inv)

interpretation lease_activate_op: store_operation "lease_activate_op E ctx i" for E ctx i
  by unfold_locales (rule lease_activate_op_inv)

interpretation lease_release_op: store_operation "lease_release_op E ctx i" for E ctx i
  by unfold_locales (rule lease_release_op_inv)

interpretation write_complete_op: store_operation "write_complete_op E ctx i" for E ctx i
  by unfold_locales (rule write_complete_op_inv)

subsection \<open>Reachable databases\<close>

text \<open>The commands of the server's dispatch, with the method each one calls.\<close>

datatype command =
    TaskStart command_context task_start_input
  | TaskHeartbeat command_context task_heartbeat_input
  | TaskFinalize command_context task_end_input
  | TaskCancel command_context task_end_input
  | ReadStart command_context read_start_input
  | ReadComplete command_context read_complete_input
  | WritePrepare command_context write_prepare_input
  | LeaseActivate command_context lease_activate_input
  | LeaseRelease command_context lease_release_input
  | WriteComplete command_context write_complete_input

fun run_command :: "env \<Rightarrow> command \<Rightarrow> db \<Rightarrow> (command_response \<times> db) result" where
  "run_command E (TaskStart ctx i) d = task_start E ctx i d"
| "run_command E (TaskHeartbeat ctx i) d = task_heartbeat E ctx i d"
| "run_command E (TaskFinalize ctx i) d = task_finalize E ctx i d"
| "run_command E (TaskCancel ctx i) d = task_cancel E ctx i d"
| "run_command E (ReadStart ctx i) d = read_start E ctx i d"
| "run_command E (ReadComplete ctx i) d = read_complete E ctx i d"
| "run_command E (WritePrepare ctx i) d = write_prepare E ctx i d"
| "run_command E (LeaseActivate ctx i) d = lease_activate E ctx i d"
| "run_command E (LeaseRelease ctx i) d = lease_release E ctx i d"
| "run_command E (WriteComplete ctx i) d = write_complete E ctx i d"

inductive store_step :: "db \<Rightarrow> db \<Rightarrow> bool" where
  command: "transact (run_command E c d) d = (r, d') \<Longrightarrow> store_step d d'"
| maintenance: "transact (map_sum id (Pair ()) (maintain E now d)) d = (u, d') \<Longrightarrow> store_step d d'"

inductive reachable :: "db \<Rightarrow> bool" where
  opened: "reachable create_v2_schema"
| step: "reachable d \<Longrightarrow> store_step d d' \<Longrightarrow> reachable d'"

lemma transactD:
  assumes "transact m d = (r, d')"
  shows "d' = d \<or> (\<exists>x. m = Inr (x, d'))"
  using assms by (cases m) (auto simp: transact_def)

text \<open>A step either changes nothing or is one successful transaction.\<close>

lemma store_step_cases:
  assumes "store_step d d'"
  obtains "d' = d"
  | E c r where "run_command E c d = Inr (r, d')"
  | E now where "maintain E now d = Inr d'"
  using assms
proof (cases rule: store_step.cases)
  case (command E c r)
  then show ?thesis using that transactD by blast
next
  case (maintenance E now u)
  from transactD [OF this] show ?thesis using that by (cases "maintain E now d") auto
qed

lemmas command_defs = task_start_def task_heartbeat_def task_finalize_def task_cancel_def end_task_def
  read_start_def read_complete_def write_prepare_def lease_activate_def lease_release_def
  write_complete_def

lemmas accepted_invs = task_start_op.accepted_inv task_heartbeat_op.accepted_inv
  task_finalize_op.accepted_inv task_cancel_op.accepted_inv read_start_op.accepted_inv
  read_complete_op.accepted_inv write_prepare_op.accepted_inv lease_activate_op.accepted_inv
  lease_release_op.accepted_inv write_complete_op.accepted_inv

lemma run_command_inv:
  assumes "lease_inv d" "run_command E c d = Inr (r, d')"
  shows "lease_inv d'"
  using assms(2) by (cases c; simp only: run_command.simps command_defs) (erule accepted_invs [OF assms(1)])+

lemma store_step_inv: "lease_inv d \<Longrightarrow> store_step d d' \<Longrightarrow> lease_inv d'"
  by (erule store_step_cases) (auto dest: run_command_inv maintain_inv)

lemma reachable_inv: "reachable d \<Longrightarrow> lease_inv d"
  by (induction rule: reachable.induct) (auto simp: lease_inv_schema dest: store_step_inv)

end
