(* ===== verification/Scenario.thy ===== *)
theory Scenario
  imports Store_Safety "HOL-Library.Code_Target_Nat"
begin

section \<open>A concrete run of the store\<close>

text \<open>
  Two agents of one workspace, each with a task, used to show that the hypotheses of the
  store's properties hold in databases the store really reaches. The clock's time stamps are
  single characters, one second apart, so that text order and time order agree; UUIDs are
  decimal numbers and the hash is constant. \<open>run_all\<close> runs a list of commands; the result
  is reachable, and evaluation of the model says what is in it.
\<close>

definition demo_env :: env where
  "demo_env =
     \<lparr>parse_rfc3339 = (\<lambda>s. case s of [c] \<Rightarrow> Some (seconds (of_char c)) | _ \<Rightarrow> None),
      format_rfc3339 = (\<lambda>n. Some [char_of (nat (n div 1000000000))]),
      representable = (\<lambda>n. 0 \<le> n \<and> n < seconds 256),
      uuid = nat_digits, blake3_hex = (\<lambda>_. ''h'')\<rparr>"

definition demo_ctx :: "string \<Rightarrow> string \<Rightarrow> command_context" where
  "demo_ctx request task =
     \<lparr>cc_request_id = request, cc_task_id = task, cc_agent_id = ''agent-'' @ task,
      cc_workspace_id = ''w'', cc_observed_at = ''0''\<rparr>"

definition demo_start :: "string \<Rightarrow> command" where
  "demo_start task = TaskStart (demo_ctx ''start'' task)
     \<lparr>ts_next_action = ''edit'', ts_settings = default_settings, ts_expires_at = ''5'',
      ts_runtime_process = None\<rparr>"

definition demo_entry :: "string \<Rightarrow> nat \<Rightarrow> resource_observation" where
  "demo_entry path generation = EntryObs
     \<lparr>rk_workspace_id = ''w'', rk_kind = Entry, rk_resource_id = ''entry:1:2:'' @ path,
      rk_canonical_path = path\<rparr> EntryAbsent generation"

text \<open>Reading the absent entry at \<open>path\<close>, and preparing to create a file there.\<close>

definition demo_read :: "string \<Rightarrow> string \<Rightarrow> command list" where
  "demo_read task path =
     [ReadStart (demo_ctx (''read-'' @ path) task)
        \<lparr>rs_read_id = task @ path, rs_invocation_id = path, rs_resources = [demo_entry path 0]\<rparr>,
      ReadComplete (demo_ctx (''done-'' @ path) task)
        \<lparr>rc_read_id = task @ path, rc_invocation_id = path, rc_resources = [demo_entry path 0],
         rc_terminal_success = True, rc_complete = True, rc_stable = True, rc_exact = True\<rparr>]"

definition demo_prepare_input :: "string \<Rightarrow> write_prepare_input" where
  "demo_prepare_input path =
     \<lparr>wp_invocation_id = path, wp_operation = Create path, wp_current = [demo_entry path 0],
      wp_request_expires_at = ''9'', wp_lease_expires_at = ''9'', wp_attempt_deadline = ''9''\<rparr>"

definition demo_prepare :: "string \<Rightarrow> string \<Rightarrow> command" where
  "demo_prepare task path =
     WritePrepare (demo_ctx (''write-'' @ path) task) (demo_prepare_input path)"

definition run_all :: "env \<Rightarrow> command list \<Rightarrow> db \<Rightarrow> db" where
  "run_all E cs d = fold (\<lambda>c d. snd (transact (run_command E c d) d)) cs d"

lemma run_all_reachable: "reachable d \<Longrightarrow> reachable (run_all E cs d)"
  unfolding run_all_def
proof (induction cs arbitrary: d)
  case (Cons c cs)
  obtain r d' where t: "transact (run_command E c d) d = (r, d')" by (cases "transact (run_command E c d) d")
  from Cons.prems t have "reachable d'" by (blast intro: reachable.step store_step.command)
  from Cons.IH [OF this] t show ?case by simp
qed simp

text \<open>Both tasks write, each under a lease of its own.\<close>

definition two_writers :: db where
  "two_writers = run_all demo_env
     ([demo_start ''A'', demo_start ''B''] @ demo_read ''A'' ''a'' @ [demo_prepare ''A'' ''a'']
      @ demo_read ''B'' ''b'' @ [demo_prepare ''B'' ''b'']) create_v2_schema"

lemma demo_reachable: "reachable two_writers"
  unfolding two_writers_def by (intro run_all_reachable reachable.opened)

text \<open>What the witnesses need of a database.\<close>

definition summary :: "db \<Rightarrow> (string \<times> string) list \<times> (string \<times> string \<times> string option) list
    \<times> (string \<times> string \<times> write_row_status) list \<times> (string \<times> lease_request_state) list" where
  "summary d =
     (map (\<lambda>l. (l_task_id l, l_batch_id l)) (active_leases d),
      map (\<lambda>r. (lr_batch_id r, lr_resource_id r, lr_in_flight_attempt_id r)) (lease_resources d),
      map (\<lambda>w. (wa_attempt_id w, wa_task_id w, wa_status w)) (write_attempts d),
      map (\<lambda>q. (q_task_id q, q_state q)) (lease_requests d))"

text \<open>
  A database with a queue: task \<open>A\<close> leases the entry \<open>a\<close>; \<open>B\<close> waits for \<open>a\<close> and, behind it,
  \<open>C\<close> waits for \<open>c\<close>.
\<close>

definition demo_task :: "string \<Rightarrow> task_row" where
  "demo_task task =
     \<lparr>t_workspace_id = ''w'', t_task_id = task, t_agent_id = ''agent-'' @ task, t_status = Active,
      t_terminal_status = None, t_next_action = ''edit'', t_settings = default_settings,
      t_handoff = None, t_heartbeat_at = ''0'', t_expires_at = ''9'', t_created_at = ''0'',
      t_updated_at = ''0''\<rparr>"

definition demo_request :: "nat \<Rightarrow> string \<Rightarrow> request_row" where
  "demo_request sequence task =
     \<lparr>q_batch_id = ''batch-'' @ task, q_workspace_id = ''w'', q_task_id = task,
      q_agent_id = ''agent-'' @ task, q_mode = ExclusiveWrite, q_state = QQueued, q_version = 1,
      q_queue_sequence = sequence, q_offer_id = None, q_offered_at = None,
      q_offer_expires_at = None, q_superseded_by = None, q_expires_at = ''9'',
      q_created_at = ''0'', q_updated_at = ''0''\<rparr>"

definition demo_wish :: "string \<Rightarrow> string \<Rightarrow> request_resource_row" where
  "demo_wish task path =
     \<lparr>qr_batch_id = ''batch-'' @ task, qr_workspace_id = ''w'', qr_resource_id = ''entry:1:2:'' @ path,
      qr_resource_kind = Entry, qr_canonical_path = path\<rparr>"

definition waiting_line :: db where
  "waiting_line = create_v2_schema
     \<lparr>tasks := map demo_task [''A'', ''B'', ''C''],
      active_leases :=
        [\<lparr>l_batch_id = ''batch-A'', l_workspace_id = ''w'', l_task_id = ''A'', l_agent_id = ''agent-A'',
          l_mode = ExclusiveWrite, l_state = LeaseActive, l_version = 1, l_acquired_at = ''0'',
          l_expires_at = ''9'', l_release_pending = False\<rparr>],
      lease_resources :=
        [\<lparr>lr_batch_id = ''batch-A'', lr_workspace_id = ''w'', lr_resource_id = ''entry:1:2:a'',
          lr_resource_kind = Entry, lr_canonical_path = ''a'', lr_acquired_generation = 0,
          lr_in_flight_attempt_id = None\<rparr>],
      lease_requests := [demo_request 1 ''B'', demo_request 2 ''C''],
      lease_request_resources := [demo_wish ''B'' ''a'', demo_wish ''C'' ''c''], lease_queue := 2\<rparr>"

lemma waiting_line_inv: "lease_inv waiting_line"
proof (rule lease_invI)
  show "unique_inv waiting_line"
    by (simp add: waiting_line_def create_v2_schema_def unique_inv_def unique_by_def demo_task_def
        demo_request_def task_key_def lease_batch_key_def lease_agent_key_def lease_resource_key_def
        request_batch_key_def request_sequence_key_def pending_task_key_def attempt_key_def)
  have "offered waiting_line = {}"
    by (auto simp: offered_def waiting_line_def create_v2_schema_def demo_request_def)
  then show "reserved waiting_line" by (simp add: reserved_def)
qed (simp_all add: inv_parts waiting_line_def create_v2_schema_def demo_task_def
    demo_request_def demo_wish_def is_task_def task_is_terminal_def)

end
