(* ===== verification/Store_Properties.thy ===== *)
theory Store_Properties
  imports Scenario
begin

section \<open>What the store guarantees\<close>

text \<open>
  The safety properties of the lease protocol, over every database the store can reach: claims
  (leases and offers) of different tasks never overlap, executing writes never share a
  resource, an executing write keeps its lease, and a failing or repeated command changes
  nothing.
\<close>

subsection \<open>Rows of the example run\<close>

lemma two_writers_summary:
  "summary two_writers =
     ([(''A'', ''9''), (''B'', ''19'')],
      [(''9'', ''entry:1:2:a'', Some ''10''), (''19'', ''entry:1:2:b'', Some ''20'')],
      [(''10'', ''A'', Executing), (''20'', ''B'', Executing)], [])"
  by code_simp

lemma two_writers_rows:
  obtains l m v w where "active_leases two_writers = [l, m]" "l_task_id l = ''A''" "l_task_id m = ''B''"
    "write_attempts two_writers = [v, w]" "wa_status v = Executing" "wa_status w = Executing"
    "wa_attempt_id v = ''10''" "wa_attempt_id w = ''20''"
  using two_writers_summary by (auto simp: summary_def map_eq_Cons_conv)

subsection \<open>Claims\<close>

text \<open>A claim: its owner (workspace and task) and the resources it covers.\<close>

definition claims :: "db \<Rightarrow> ((string \<times> string) \<times> resource_key set) set" where
  "claims d = (\<lambda>l. ((l_workspace_id l, l_task_id l), held d l)) ` set (active_leases d)
     \<union> (\<lambda>q. ((q_workspace_id q, q_task_id q), asked d q)) ` offered d"

lemma claims_cases:
  assumes "(owner, A) \<in> claims d"
  obtains l where "l \<in> set (active_leases d)" "owner = (l_workspace_id l, l_task_id l)" "A = held d l"
  | q where "q \<in> offered d" "owner = (q_workspace_id q, q_task_id q)" "A = asked d q"
  using assms unfolding claims_def by blast

lemma claim_workspace: "((ws, task), A) \<in> claims d \<Longrightarrow> k \<in> A \<Longrightarrow> rk_workspace_id k = ws"
  by (erule claims_cases) (auto dest: held_workspace asked_workspace)

lemma claims_clear:
  assumes "lease_inv d" "((ws, task), A) \<in> claims d" "((ws, task'), B) \<in> claims d" "task \<noteq> task'"
  shows "overlap.clear_of A B"
proof -
  note inv = lease_invD(7,8) [OF assms(1)]
  show ?thesis
    using assms(2)
  proof (cases rule: claims_cases)
    case l: (1 l)
    show ?thesis
      using assms(3)
    proof (cases rule: claims_cases)
      case (1 m)
      with l inv(1) assms(4) show ?thesis by (auto simp: exclusive_def)
    next
      case (2 q)
      with l inv(2) assms(4) have "overlap.clear_of B A" by (auto simp: reserved_def)
      then show ?thesis by (rule overlap.clear_of_sym)
    qed
  next
    case q: (2 q)
    show ?thesis
      using assms(3) by (cases rule: claims_cases) (use q inv(2) assms(4) in \<open>auto simp: reserved_def\<close>)
  qed
qed

text \<open>
  C1. Exclusive claims: in every database the store can reach, with any sequence of commands
  and maintenance calls, any clock and any UUIDs, the resources that one task holds a lease on
  or is offered never overlap those another task holds a lease on or is offered.
\<close>

theorem claims_exclusive:
  assumes "reachable d" and "(owner, A) \<in> claims d" "(owner', B) \<in> claims d" "owner \<noteq> owner'"
    and "k \<in> A" "k' \<in> B"
  shows "\<not> resource_keys_overlap k k'"
proof
  assume o: "resource_keys_overlap k k'"
  obtain ws task ws' task' where ow: "owner = (ws, task)" "owner' = (ws', task')"
    by (cases owner, cases owner')
  from overlap_workspace [OF o] have "ws = ws'" using claim_workspace assms(2,3,5,6) ow by metis
  with assms(2-4) ow have "overlap.clear_of A B"
    by (auto intro: claims_clear [OF reachable_inv [OF assms(1)]])
  with assms(5,6) o show False by (auto simp: overlap.clear_of_def)
qed

theorem claims_exclusive_witness:
  "\<exists>l m. set (active_leases two_writers) = {l, m} \<and> l_task_id l \<noteq> l_task_id m
     \<and> (\<forall>k \<in> held two_writers l. \<forall>k' \<in> held two_writers m. \<not> resource_keys_overlap k k')"
proof (rule two_writers_rows)
  fix l m assume rows: "active_leases two_writers = [l, m]" and t: "l_task_id l = ''A''" "l_task_id m = ''B''"
  have "((l_workspace_id l, l_task_id l), held two_writers l) \<in> claims two_writers"
    "((l_workspace_id m, l_task_id m), held two_writers m) \<in> claims two_writers"
    by (auto simp: claims_def rows)
  from claims_exclusive [OF demo_reachable this] t
  have "\<forall>k \<in> held two_writers l. \<forall>k' \<in> held two_writers m. \<not> resource_keys_overlap k k'" by simp
  with rows t show ?thesis by (intro exI [of _ l] exI [of _ m]) simp
qed

text \<open>
  C2. Writes are exclusive: two different write attempts that are executing never have a start
  observation of the same physical resource.
\<close>

theorem executing_writes_exclusive:
  assumes "reachable d" and v: "v \<in> set (write_attempts d)" "wa_status v = Executing"
    and w: "w \<in> set (write_attempts d)" "wa_status w = Executing" and "v \<noteq> w"
    and obs: "a \<in> set (wa_start_observations v)" "b \<in> set (wa_start_observations w)"
  shows "rk_identity (obs_resource a) \<noteq> rk_identity (obs_resource b)"
proof
  note inv = lease_invD [OF reachable_inv [OF assms(1)]]
  assume same: "rk_identity (obs_resource a) = rk_identity (obs_resource b)"
  from inv(10) v obs(1) have "covers d v (obs_resource a)" by (auto simp: covered_def)
  then obtain r where r: "r \<in> set (lease_resources d)" "lr_in_flight_attempt_id r = Some (wa_attempt_id v)"
      "rk_identity (lease_resource_row_key (lr_workspace_id r) r) = rk_identity (obs_resource a)"
    by (auto simp: covers_def)
  from inv(10) w obs(2) have "covers d w (obs_resource b)" by (auto simp: covered_def)
  then obtain s where s: "s \<in> set (lease_resources d)" "lr_in_flight_attempt_id s = Some (wa_attempt_id w)"
      "rk_identity (lease_resource_row_key (lr_workspace_id s) s) = rk_identity (obs_resource b)"
    by (auto simp: covers_def)
  have "r = s"
    using r(3) s(3) same
    by (intro one_lease_resource [OF inv(1) r(1) s(1)]) (simp_all add: rk_identity_def lease_resource_row_key_def)
  with r(2) s(2) have "wa_attempt_id v = wa_attempt_id w" by simp
  with one_attempt [OF inv(1) v(1) w(1)] assms(6) show False by simp
qed

theorem executing_writes_exclusive_witness:
  "\<exists>v w. set (write_attempts two_writers) = {v, w} \<and> v \<noteq> w \<and> wa_status v = Executing
     \<and> wa_status w = Executing \<and> (\<forall>a \<in> set (wa_start_observations v). \<forall>b \<in> set (wa_start_observations w).
          rk_identity (obs_resource a) \<noteq> rk_identity (obs_resource b))"
proof (rule two_writers_rows)
  fix v w assume rows: "write_attempts two_writers = [v, w]" "wa_status v = Executing" "wa_status w = Executing"
    "wa_attempt_id v = ''10''" "wa_attempt_id w = ''20''"
  then have "v \<noteq> w" by auto
  with executing_writes_exclusive [OF demo_reachable, of v w] rows show ?thesis
    by (intro exI [of _ v] exI [of _ w]) simp
qed

text \<open>
  C3. A write in flight is protected: as long as a write attempt is executing, its task has not
  ended and still holds the lease the attempt was prepared under, and that lease has a resource
  row for everything the attempt was granted, marked with the attempt.
\<close>

theorem executing_write_protected:
  assumes "reachable d" and "w \<in> set (write_attempts d)" "wa_status w = Executing"
  shows "wa_start_observations w \<noteq> []
    \<and> (\<exists>l \<in> set (active_leases d). l_batch_id l = wa_batch_id w
        \<and> is_task_lease (wa_workspace_id w) (wa_task_id w) l
        \<and> (\<exists>t \<in> set (tasks d). is_task (wa_workspace_id w) (wa_task_id w) t
             \<and> t_agent_id t = l_agent_id l \<and> \<not> task_is_terminal (t_status t)))
    \<and> (\<forall>ob \<in> set (wa_start_observations w). covers d w (obs_resource ob))"
proof -
  note inv = lease_invD [OF reachable_inv [OF assms(1)]]
  from inv(10) assms(2,3) obtain l where l: "l \<in> set (active_leases d)" "l_batch_id l = wa_batch_id w"
      "is_task_lease (wa_workspace_id w) (wa_task_id w) l" by (auto simp: covered_def)
  moreover from inv(2) l(1) obtain t where "t \<in> set (tasks d)"
      "is_task (l_workspace_id l) (l_task_id l) t" "t_agent_id t = l_agent_id l" "\<not> task_is_terminal (t_status t)"
    by (auto simp: lease_owner_def)
  ultimately show ?thesis
    using inv(10) assms(2,3) by (auto simp: covered_def is_task_lease_def)
qed

theorem executing_write_protected_witness:
  "\<exists>w \<in> set (write_attempts two_writers). wa_status w = Executing
     \<and> (\<exists>l \<in> set (active_leases two_writers). l_batch_id l = wa_batch_id w)"
proof (rule two_writers_rows)
  fix v w assume rows: "write_attempts two_writers = [v, w]" "wa_status v = Executing"
  from executing_write_protected [OF demo_reachable, of v] rows show ?thesis
    by (intro bexI [of _ v]) auto
qed

text \<open>
  C36. One claim each: in a reachable database an agent and a task hold at most one lease in a
  workspace, and a task waits for at most one request.
\<close>

theorem one_claim_each:
  assumes "reachable d"
  shows "(l \<in> set (active_leases d) \<and> m \<in> set (active_leases d) \<and> l_workspace_id l = l_workspace_id m
      \<and> (l_agent_id l = l_agent_id m \<or> l_task_id l = l_task_id m) \<longrightarrow> l = m)
    \<and> (p \<in> set (lease_requests d) \<and> q \<in> set (lease_requests d) \<and> request_pending p \<and> request_pending q
      \<and> q_workspace_id p = q_workspace_id q \<and> q_task_id p = q_task_id q \<longrightarrow> p = q)"
proof -
  note inv = lease_invD [OF reachable_inv [OF assms]]
  have "p = q" if "p \<in> set (lease_requests d)" "q \<in> set (lease_requests d)" "request_pending p" "request_pending q"
      "q_workspace_id p = q_workspace_id q" "q_task_id p = q_task_id q"
    using inv(1) that by (intro unique_byD [of pending_task_key "lease_requests d" p q])
      (simp_all add: unique_inv_def pending_task_key_def)
  then show ?thesis
    using one_lease_per_agent [OF inv(1)] one_lease_per_task [OF inv(1,2), of l m "l_workspace_id m" "l_task_id m"]
    by (auto simp: is_task_lease_def)
qed

theorem one_claim_each_witness:
  "\<exists>l m. set (active_leases two_writers) = {l, m} \<and> l \<noteq> m
     \<and> (l_workspace_id l = l_workspace_id m \<longrightarrow> l_agent_id l \<noteq> l_agent_id m)"
proof (rule two_writers_rows)
  fix l m assume rows: "active_leases two_writers = [l, m]" "l_task_id l = ''A''" "l_task_id m = ''B''"
  then have "l \<noteq> m" by auto
  with one_claim_each [OF demo_reachable, of l m] rows show ?thesis
    by (intro exI [of _ l] exI [of _ m]) auto
qed

end
