(* ===== verification/Store_Queue.thy ===== *)
theory Store_Queue
  imports Scenario
begin

section \<open>The waiting queue is fair\<close>

text \<open>
  \<open>promote_waiters\<close> walks the queued requests in the order of their sequence numbers. Two
  properties say what the walk is worth: no request is offered past an earlier one that is
  still waiting for something it overlaps (\<open>no_overtaking\<close>), and a request that is still
  queued afterwards is blocked by something the database shows (\<open>promotion_work_conserving\<close>).
  \<open>promote_loop\<close> is the invariant of the walk.
\<close>

lemma foldE_split:
  assumes "foldE f (xs @ x # ys) s = Inr t"
  obtains u v where "foldE f xs s = Inr u" "f x u = Inr v" "foldE f ys v = Inr t"
  using assms by (auto simp: foldE_append)

text \<open>What one pass leaves alone.\<close>

lemma promote_step_frame:
  assumes "promote_step E now nv (q, t) (b, d) = Inr (b', d')"
  shows "set b \<subseteq> set b'" "lease_request_resources d' = lease_request_resources d"
    "active_leases d' = active_leases d" "lease_resources d' = lease_resources d"
    "q_batch_id r \<noteq> q_batch_id q \<Longrightarrow> r \<in> set (lease_requests d') \<longleftrightarrow> r \<in> set (lease_requests d)"
    "q_state r \<noteq> QQueued \<Longrightarrow> r \<in> set (lease_requests d) \<Longrightarrow> r \<in> set (lease_requests d')"
    "q_state r = QQueued \<Longrightarrow> r \<in> set (lease_requests d') \<Longrightarrow> r \<in> set (lease_requests d)"
  using assms
  by (cases rule: promote_stepE;
      force simp: expire_request_def offer_request_def new_uuid_def Let_def set_sql_update
        is_queued_batch_def mark_offered_def)+

definition unmoved :: "string set \<Rightarrow> resource_key list \<times> db \<Rightarrow> resource_key list \<times> db \<Rightarrow> bool" where
  "unmoved B s s' =
     (set (fst s) \<subseteq> set (fst s')
      \<and> lease_request_resources (snd s') = lease_request_resources (snd s)
      \<and> active_leases (snd s') = active_leases (snd s)
      \<and> lease_resources (snd s') = lease_resources (snd s)
      \<and> (\<forall>r. q_batch_id r \<notin> B \<longrightarrow> r \<in> set (lease_requests (snd s')) \<longleftrightarrow> r \<in> set (lease_requests (snd s)))
      \<and> (\<forall>r. q_state r \<noteq> QQueued \<and> r \<in> set (lease_requests (snd s)) \<longrightarrow> r \<in> set (lease_requests (snd s')))
      \<and> (\<forall>r. q_state r = QQueued \<and> r \<in> set (lease_requests (snd s')) \<longrightarrow> r \<in> set (lease_requests (snd s))))"

abbreviation batches :: "(request_row \<times> task_row) list \<Rightarrow> string set" where
  "batches xs \<equiv> (q_batch_id \<circ> fst) ` set xs"

lemma promote_loop:
  assumes "foldE (promote_step E now nv) xs s = Inr s'"
  shows "unmoved (batches xs) s s'"
proof (rule foldE_relation [where R = "unmoved (batches xs)", OF assms])
  show "unmoved (batches xs) u u" for u by (simp add: unmoved_def)
  show "unmoved (batches xs) a b \<Longrightarrow> unmoved (batches xs) b c \<Longrightarrow> unmoved (batches xs) a c" for a b c
    unfolding unmoved_def by (elim conjE, intro conjI) (blast, metis, metis, metis, blast, blast, blast)
  show "unmoved (batches xs) u v" if "x \<in> set xs" "promote_step E now nv x u = Inr v" for x u v
  proof -
    obtain q t where x: "x = (q, t)" by (cases x)
    obtain b d where u: "u = (b, d)" by (cases u)
    obtain b' d' where v: "v = (b', d')" by (cases v)
    note frame = promote_step_frame [OF that(2) [unfolded x u v]]
    from that(1) x have "q_batch_id q \<in> batches xs" by force
    then have "r \<in> set (lease_requests d') \<longleftrightarrow> r \<in> set (lease_requests d)" if "q_batch_id r \<notin> batches xs" for r
      using that by (intro frame(5)) metis
    then show ?thesis
      unfolding unmoved_def u v fst_conv snd_conv by (intro conjI frame(1-4)) (blast, blast intro: frame(6), blast intro: frame(7))
  qed
qed

lemma unmoved_resources:
  "unmoved B (b, d) (b', d') \<Longrightarrow> request_resources batch d' = request_resources batch d"
  by (simp add: unmoved_def request_resources_def)

subsection \<open>The order of the walk\<close>

lemma one_task_filter:
  assumes "unique_by task_key T"
  shows "length (filter (is_task ws task) T) \<le> 1"
proof (rule ccontr)
  assume "\<not> ?thesis"
  then obtain a b rest where f: "filter (is_task ws task) T = a # b # rest"
    by (cases "filter (is_task ws task) T" rule: remdups_adj.cases) auto
  have "unique_by task_key (filter (is_task ws task) T)"
    using assms by (simp add: unique_by_def sorted_wrt_filter)
  then have "task_key a \<noteq> task_key b" unfolding f by (simp add: unique_by_def task_key_def)
  moreover have "set (a # b # rest) \<subseteq> {t. is_task ws task t}" unfolding f [symmetric] by auto
  then have "is_task ws task a" "is_task ws task b" by simp_all
  ultimately show False by (simp add: task_key_def is_task_def)
qed

lemma queued_requests_order:
  assumes "unique_inv d"
  shows "sorted_wrt (\<lambda>x y. q_queue_sequence (fst x) < q_queue_sequence (fst y)) (queued_requests d)"
proof -
  let ?Q = "sort_key q_queue_sequence (filter (\<lambda>q. q_state q = QQueued) (lease_requests d))"
  have uniq: "unique_by request_sequence_key (lease_requests d)" "unique_by task_key (tasks d)"
    using assms by (simp_all add: unique_inv_def)
  have "distinct (map q_queue_sequence (lease_requests d))"
    using uniq(1) by (simp add: unique_by_def request_sequence_key_def distinct_conv_nth sorted_wrt_iff_nth_less)
      (metis linorder_neqE_nat)
  then have "distinct (map q_queue_sequence (filter (\<lambda>q. q_state q = QQueued) (lease_requests d)))"
    by (rule distinct_map_filter)
  moreover have "mset (map q_queue_sequence ?Q)
      = mset (map q_queue_sequence (filter (\<lambda>q. q_state q = QQueued) (lease_requests d)))"
    by simp
  ultimately have "distinct (map q_queue_sequence ?Q)" by (metis mset_eq_imp_distinct_iff)
  then have strict: "sorted_wrt (<) (map q_queue_sequence ?Q)"
    by (simp add: strict_sorted_iff)
  have "sorted_wrt (\<lambda>x y. q_queue_sequence (fst x) < q_queue_sequence (fst y))
      (filter (\<lambda>(q, t). is_task (q_workspace_id q) (q_task_id q) t) (List.product Q (tasks d)))"
    if "sorted_wrt (<) (map q_queue_sequence Q)" for Q
    using that
  proof (induction Q)
    case (Cons q Q)
    let ?p = "\<lambda>(q, t). is_task (q_workspace_id q) (q_task_id q) t"
    have "filter ?p (map (Pair q) (tasks d)) = map (Pair q) (filter (is_task (q_workspace_id q) (q_task_id q)) (tasks d))"
      by (induction "tasks d") (simp_all add: filter_map o_def)
    moreover have "length (filter (is_task (q_workspace_id q) (q_task_id q)) (tasks d)) \<le> 1"
      by (rule one_task_filter [OF uniq(2)])
    then have "sorted_wrt P (map (Pair q) (filter (is_task (q_workspace_id q) (q_task_id q)) (tasks d)))" for P
      by (cases "filter (is_task (q_workspace_id q) (q_task_id q)) (tasks d)") auto
    ultimately show ?case using Cons by (auto simp: sorted_wrt_append)
  qed simp
  from this [OF strict] show ?thesis by (simp add: queued_requests_def)
qed

lemma queued_batches_distinct:
  assumes "lease_inv d"
  shows "distinct (map (q_batch_id \<circ> fst) (queued_requests d))"
proof -
  note inv = lease_invD(1) [OF assms]
  have "q_batch_id (fst x) \<noteq> q_batch_id (fst y)"
    if "x \<in> set (queued_requests d)" "y \<in> set (queued_requests d)" "q_queue_sequence (fst x) < q_queue_sequence (fst y)" for x y
    using one_request_per_batch [OF inv, of "fst x" "fst y"] queued_requestsD [of "fst x" "snd x" d]
      queued_requestsD [of "fst y" "snd y" d] that by auto
  then have "sorted_wrt (\<lambda>x y. q_batch_id (fst x) \<noteq> q_batch_id (fst y)) (queued_requests d)"
    using queued_requests_order [OF inv] by (rule sorted_wrt_mono_rel)
  then show ?thesis
    by (simp add: distinct_conv_nth sorted_wrt_iff_nth_less) (metis linorder_neqE_nat)
qed

text \<open>The walk around one request: what comes before it and after it does not touch its row.\<close>

lemma queued_request_split:
  assumes "lease_inv d" "q \<in> set (lease_requests d)" "q_state q = QQueued"
  obtains t pre post where "queued_requests d = pre @ (q, t) # post"
    "q_batch_id q \<notin> batches pre" "q_batch_id q \<notin> batches post"
    "\<And>p. p \<in> set (lease_requests d) \<Longrightarrow> q_state p = QQueued \<Longrightarrow> q_queue_sequence p < q_queue_sequence q \<Longrightarrow>
       p \<in> fst ` set pre"
proof -
  note inv = lease_invD [OF assms(1)]
  have listed: "\<exists>t. (p, t) \<in> set (queued_requests d)" if "p \<in> set (lease_requests d)" "q_state p = QQueued" for p
    using inv(3) that by (auto simp: request_owner_def queued_requests_def)
  from listed [OF assms(2,3)] obtain t pre post where
    split: "queued_requests d = pre @ (q, t) # post" by (meson split_list)
  have order: "\<forall>x \<in> set pre. q_queue_sequence (fst x) < q_queue_sequence q"
    "\<forall>x \<in> set post. q_queue_sequence q < q_queue_sequence (fst x)"
    using queued_requests_order [OF inv(1)] by (auto simp: split sorted_wrt_append)
  have rows: "fst x \<in> set (lease_requests d)" if "x \<in> set pre \<union> set post" for x
    using that queued_requestsD [of "fst x" "snd x" d] by (auto simp: split)
  have other: "q_batch_id (fst x) \<noteq> q_batch_id q" if "x \<in> set pre \<union> set post" for x
    using one_request_per_batch [OF inv(1) rows [OF that] assms(2)] order that by force
  show thesis
  proof (rule that [OF split])
    show "q_batch_id q \<notin> batches pre" "q_batch_id q \<notin> batches post" using other by fastforce+
    fix p assume p: "p \<in> set (lease_requests d)" "q_state p = QQueued" "q_queue_sequence p < q_queue_sequence q"
    from listed [OF p(1,2)] obtain u where "(p, u) \<in> set (queued_requests d)" ..
    with order(2) p(3) show "p \<in> fst ` set pre" by (force simp: split)
  qed
qed

lemma expire_offers_queued [simp]:
  "q_state q = QQueued \<Longrightarrow> q \<in> set (lease_requests (expire_offers now d)) \<longleftrightarrow> q \<in> set (lease_requests d)"
  by (auto simp: expire_offers_def set_sql_update)

lemma expire_offers_resources [simp]:
  "request_resources batch (expire_offers now d) = request_resources batch d"
  by (simp add: request_resources_def expire_offers_def)

text \<open>A request that is still queued after its own pass was blocked there.\<close>

lemma queued_after_step:
  assumes "promote_step E now nv (q, t) (b, d) = Inr (b', d')"
    and "r \<in> set (lease_requests d')" "q_batch_id r = q_batch_id q" "q_state r = QQueued"
  shows "b' = b @ request_resources (q_batch_id q) d \<and> d' = d
    \<and> cannot_offer q (request_resources (q_batch_id q) d) b d"
  using assms(1)
proof (cases rule: promote_stepE)
  case expired
  with assms(2-4) show ?thesis
    by (auto simp: expire_request_def is_queued_batch_def elim!: in_sql_updateE)
next
  case offers
  with assms(2-4) show ?thesis
    by (auto simp: offer_request_def new_uuid_def Let_def is_queued_batch_def elim!: in_sql_updateE)
qed simp

text \<open>A request that has an offer after its own pass, and was queued before it, was free there.\<close>

lemma offered_after_step:
  assumes "promote_step E now nv (q, t) (b, d) = Inr (b', d')" "lease_inv d"
    and q: "q \<in> set (lease_requests d)" "q_state q = QQueued"
    and r: "r \<in> set (lease_requests d')" "q_batch_id r = q_batch_id q" "q_state r = QOffered"
  shows "\<not> cannot_offer q (request_resources (q_batch_id q) d) b d"
  using assms(1)
proof (cases rule: promote_stepE)
  case expired
  with r have "r \<in> set (lease_requests d)"
    by (auto simp: expire_request_def elim!: in_sql_updateE)
  from one_request_per_batch [OF lease_invD(1) [OF assms(2)] this q(1)] r q(2) show ?thesis by simp
next
  case waits
  with r have "r \<in> set (lease_requests d)" by simp
  from one_request_per_batch [OF lease_invD(1) [OF assms(2)] this q(1)] r q(2) show ?thesis by simp
qed simp

text \<open>The walk of one promotion, split at a queued request.\<close>

lemma promotion_split:
  assumes "lease_inv d" "promote_waiters E now d = Inr d'" "q \<in> set (lease_requests d)" "q_state q = QQueued"
  obtains nv t pre post b2 d2 b3 d3 blocked where
    "foldE (promote_step E now nv) pre ([], expire_offers now d) = Inr (b2, d2)"
    "promote_step E now nv (q, t) (b2, d2) = Inr (b3, d3)"
    "unmoved (batches pre) ([], expire_offers now d) (b2, d2)" "unmoved (batches post) (b3, d3) (blocked, d')"
    "lease_inv d2" "q \<in> set (lease_requests d2)"
    "q_batch_id q \<notin> batches pre" "q_batch_id q \<notin> batches post"
    "queued_requests (expire_offers now d) = pre @ (q, t) # post"
    "fst ` set pre = {p \<in> set (lease_requests d). q_state p = QQueued \<and> q_queue_sequence p < q_queue_sequence q}"
proof -
  let ?d1 = "expire_offers now d"
  have inv1: "lease_inv ?d1" by (rule expire_offers_inv [OF assms(1)])
  from assms(2) obtain nv blocked where
    fold: "foldE (promote_step E now nv) (queued_requests ?d1) ([], ?d1) = Inr (blocked, d')"
    by (auto simp: promote_waiters_def Let_def)
  obtain t pre post where split: "queued_requests ?d1 = pre @ (q, t) # post"
      and out: "q_batch_id q \<notin> batches pre" "q_batch_id q \<notin> batches post"
      and before: "\<And>p. p \<in> set (lease_requests ?d1) \<Longrightarrow> q_state p = QQueued \<Longrightarrow>
        q_queue_sequence p < q_queue_sequence q \<Longrightarrow> p \<in> fst ` set pre"
    by (rule queued_request_split [OF inv1, of q]) (use assms(3,4) in simp_all)
  obtain s2 s3 where s: "foldE (promote_step E now nv) pre ([], ?d1) = Inr s2"
      "promote_step E now nv (q, t) s2 = Inr s3" "foldE (promote_step E now nv) post s3 = Inr (blocked, d')"
    by (rule foldE_split [OF fold [unfolded split]])
  obtain b2 d2 b3 d3 where eqs: "s2 = (b2, d2)" "s3 = (b3, d3)" by (cases s2, cases s3)
  note walk = s [unfolded eqs]
  have "lease_inv d2"
    using promote_walk_inv [OF walk(1) inv1] queued_requestsD by (force simp: split)
  moreover have "q \<in> set (lease_requests d2)"
    using promote_loop [OF walk(1)] out(1) assms(3,4) by (simp add: unmoved_def)
  moreover have "q_queue_sequence p < q_queue_sequence q" if "p \<in> fst ` set pre" for p
    using queued_requests_order [OF lease_invD(1) [OF inv1]] that by (auto simp: split sorted_wrt_append)
  moreover have "p \<in> set (lease_requests d) \<and> q_state p = QQueued" if "p \<in> fst ` set pre" for p
    using that queued_requestsD [of p _ ?d1] by (force simp: split)
  ultimately show thesis
    using before by (intro that [OF walk(1,2) promote_loop [OF walk(1)] promote_loop [OF walk(3)] _ _ out split]) auto
qed

text \<open>A request that waits through the walk has its resources blocked for everything behind it.\<close>

lemma waiting_blocks:
  assumes "foldE (promote_step E now nv) pre (b, d) = Inr (b2, d2)" "p \<in> fst ` set pre"
    and "p \<in> set (lease_requests d2)" "q_state p = QQueued"
  shows "set (request_resources (q_batch_id p) d) \<subseteq> set b2"
proof -
  from assms(2) obtain u where "(p, u) \<in> set pre" by force
  then obtain pre1 mid where split: "pre = pre1 @ (p, u) # mid" by (meson split_list)
  obtain sa sb where s: "foldE (promote_step E now nv) pre1 (b, d) = Inr sa"
      "promote_step E now nv (p, u) sa = Inr sb" "foldE (promote_step E now nv) mid sb = Inr (b2, d2)"
    by (rule foldE_split [OF assms(1) [unfolded split]])
  obtain ba da bb db where eqs: "sa = (ba, da)" "sb = (bb, db)" by (cases sa, cases sb)
  note walk = s [unfolded eqs]
  have "p \<in> set (lease_requests db)" using promote_loop [OF walk(3)] assms(3,4) by (simp add: unmoved_def)
  from queued_after_step [OF walk(2) this refl assms(4)]
  have "set (request_resources (q_batch_id p) da) \<subseteq> set bb" by simp
  moreover have "set bb \<subseteq> set b2" using promote_loop [OF walk(3)] by (simp add: unmoved_def)
  ultimately show ?thesis by (simp add: unmoved_resources [OF promote_loop [OF walk(1)]])
qed

text \<open>
  C8. No overtaking: when promotion gives a request an offer, every request that was queued
  before it and is still waiting asks only for resources that do not overlap the offered ones.
\<close>

theorem no_overtaking:
  assumes "lease_inv d" "promote_waiters E now d = Inr d'"
    and p: "p \<in> set (lease_requests d)" "q_state p = QQueued" "p \<in> set (lease_requests d')"
    and q: "q \<in> set (lease_requests d)" "q_state q = QQueued" "q_queue_sequence p < q_queue_sequence q"
    and r: "r \<in> set (lease_requests d')" "q_batch_id r = q_batch_id q" "q_state r = QOffered"
  shows "\<not> resource_set_overlaps (request_resources (q_batch_id q) d) (request_resources (q_batch_id p) d)"
proof -
  obtain nv t pre post b2 d2 b3 d3 blocked where
    pre: "foldE (promote_step E now nv) pre ([], expire_offers now d) = Inr (b2, d2)"
    and step: "promote_step E now nv (q, t) (b2, d2) = Inr (b3, d3)"
    and w2: "unmoved (batches pre) ([], expire_offers now d) (b2, d2)"
    and w3: "unmoved (batches post) (b3, d3) (blocked, d')"
    and d2: "lease_inv d2" "q \<in> set (lease_requests d2)" and out: "q_batch_id q \<notin> batches post"
    and before: "fst ` set pre = {p \<in> set (lease_requests d). q_state p = QQueued \<and> q_queue_sequence p < q_queue_sequence q}"
    by (rule promotion_split [OF assms(1,2) q(1,2)]) blast
  have r3: "r \<in> set (lease_requests d3)" and "p \<in> set (lease_requests d3)"
    using w3 out r p by (simp_all add: unmoved_def)
  then have p2: "p \<in> set (lease_requests d2)" using promote_step_frame(7) [OF step p(2)] by simp
  have "\<not> resource_set_overlaps (request_resources (q_batch_id q) d2) b2"
    using offered_after_step [OF step d2 q(2) r3 r(2,3)] by (simp add: cannot_offer_def)
  moreover have "set (request_resources (q_batch_id p) d) \<subseteq> set b2"
    using waiting_blocks [OF pre _ p2 p(2)] p q(3) before by simp
  ultimately show ?thesis
    using unmoved_resources [OF w2] by (auto simp: resource_set_overlaps_def list_ex_iff)
qed

text \<open>In the example \<open>B\<close> keeps waiting, and \<open>C\<close>, behind it, is offered its entry.\<close>

lemma waiting_line_promoted:
  obtains d' r where "promote_waiters demo_env ''0'' waiting_line = Inr d'"
    "demo_request 1 ''B'' \<in> set (lease_requests d')" "r \<in> set (lease_requests d')"
    "q_batch_id r = q_batch_id (demo_request 2 ''C'')" "q_state r = QOffered"
proof -
  have "case promote_waiters demo_env ''0'' waiting_line of Inl _ \<Rightarrow> False
    | Inr d \<Rightarrow> (case lease_requests d of [p, r] \<Rightarrow> p = demo_request 1 ''B'' \<and> q_state r = QOffered
        \<and> q_batch_id r = ''batch-C'' | _ \<Rightarrow> False)"
    by code_simp
  then show thesis
    by (auto simp: demo_request_def intro: that split: sum.splits list.splits)
qed

theorem no_overtaking_witness:
  "\<not> resource_set_overlaps (request_resources (q_batch_id (demo_request 2 ''C'')) waiting_line)
     (request_resources (q_batch_id (demo_request 1 ''B'')) waiting_line)"
  by (rule waiting_line_promoted)
    (rule no_overtaking [OF waiting_line_inv, where p = "demo_request 1 ''B''" and q = "demo_request 2 ''C''"];
      simp add: waiting_line_def demo_request_def)

subsection \<open>Nothing waits without a reason\<close>

text \<open>Everything blocked at a point of the walk is asked for by a request that waits there.\<close>

lemma blocked_by_waiting:
  assumes "foldE (promote_step E now nv) pre (b, d) = Inr (b2, d2)" "k \<in> set b2"
    and "distinct (map (q_batch_id \<circ> fst) pre)" "fst ` set pre \<subseteq> set (lease_requests d)"
    and "\<forall>p \<in> fst ` set pre. q_state p = QQueued"
  shows "k \<in> set b \<or> (\<exists>p \<in> fst ` set pre. p \<in> set (lease_requests d2) \<and> k \<in> set (request_resources (q_batch_id p) d2))"
  using assms
proof (induction pre arbitrary: b d)
  case (Cons x pre)
  obtain p u where x: "x = (p, u)" by (cases x)
  from Cons.prems(1) obtain b1 d1 where step: "promote_step E now nv (p, u) (b, d) = Inr (b1, d1)"
      and rest: "foldE (promote_step E now nv) pre (b1, d1) = Inr (b2, d2)"
    by (auto simp: x bindE_eq_Inr)
  note frame = promote_step_frame [OF step] and loop = promote_loop [OF rest]
  from Cons.prems(3) x have out: "q_batch_id p \<notin> batches pre" by auto
  have "fst ` set pre \<subseteq> set (lease_requests d1)"
  proof
    fix r assume r: "r \<in> fst ` set pre"
    then have "q_batch_id r \<in> batches pre" by force
    with out have "q_batch_id r \<noteq> q_batch_id p" by metis
    with frame(5) [of r] Cons.prems(4) r show "r \<in> set (lease_requests d1)" by auto
  qed
  with Cons.IH [OF rest Cons.prems(2)] Cons.prems(3,5)
  consider "k \<in> set b1" | "\<exists>p \<in> fst ` set pre. p \<in> set (lease_requests d2) \<and> k \<in> set (request_resources (q_batch_id p) d2)"
    by auto
  then show ?case
  proof cases
    case 1
    from step show ?thesis
    proof (cases rule: promote_stepE)
      case waits
      have "p \<in> set (lease_requests d2)"
        using loop out Cons.prems(4) waits by (simp add: unmoved_def x)
      with 1 waits show ?thesis by (auto simp: x unmoved_resources [OF loop])
    qed (use 1 in auto)
  qed (auto simp: x)
qed simp

text \<open>Offers and leases stay in the way for the rest of the walk.\<close>

lemma cannot_offer_mono:
  assumes "unmoved B (b, d) (b', d')" "cannot_offer q rs bl d"
    and "resource_set_overlaps rs bl \<Longrightarrow> resource_set_overlaps rs bl'"
  shows "cannot_offer q rs bl' d'"
proof -
  have eqs: "active_leases d' = active_leases d" "lease_resources d' = lease_resources d"
      "lease_request_resources d' = lease_request_resources d"
    and offers: "\<And>r. r \<in> set (lease_requests d) \<Longrightarrow> q_state r = QOffered \<Longrightarrow> r \<in> set (lease_requests d')"
    using assms(1) by (simp_all add: unmoved_def)
  have "agent_offer_pending q d \<Longrightarrow> agent_offer_pending q d'"
    using offers by (auto simp: agent_offer_pending_def sql_exists_def list_ex_iff)
  moreover have "request_conflicts QOffered ''offer:'' ws task rs ex d' = [] \<Longrightarrow>
      request_conflicts QOffered ''offer:'' ws task rs ex d = []" for ws task ex
    using offers by (auto simp: request_conflicts_def eqs filter_empty_conv)
  moreover have "lease_conflicts ws task rs d' = lease_conflicts ws task rs d" for ws task
    by (simp add: lease_conflicts_def eqs)
  ultimately show ?thesis
    using assms(2,3) by (auto simp: cannot_offer_def conflicting_owners_def eqs)
qed

definition waiting_ahead :: "request_row \<Rightarrow> db \<Rightarrow> resource_key list" where
  "waiting_ahead q d = concat (map (\<lambda>p. request_resources (q_batch_id p) d)
     (filter (\<lambda>p. q_state p = QQueued \<and> q_queue_sequence p < q_queue_sequence q) (lease_requests d)))"

text \<open>
  C9. Nothing waits without a reason: a request that is still queued after a promotion cannot
  be offered its resources in the new database either, because they overlap those of a request
  that is ahead of it and also still waiting, because its agent or task has a lease or an
  offer, or because another task holds a lease or an offer that overlaps them.
\<close>

theorem promotion_work_conserving:
  assumes "lease_inv d" "promote_waiters E now d = Inr d'"
    and q: "q \<in> set (lease_requests d')" "q_state q = QQueued"
  shows "cannot_offer q (request_resources (q_batch_id q) d') (waiting_ahead q d') d'"
proof -
  let ?d1 = "expire_offers now d"
  have inv1: "lease_inv ?d1" by (rule expire_offers_inv [OF assms(1)])
  from assms(2) obtain nv' bl where "foldE (promote_step E now nv') (queued_requests ?d1) ([], ?d1) = Inr (bl, d')"
    by (auto simp: promote_waiters_def Let_def)
  from promote_loop [OF this] q have qd: "q \<in> set (lease_requests d)" by (simp add: unmoved_def)
  obtain nv t pre post b2 d2 b3 d3 blocked where
    pre: "foldE (promote_step E now nv) pre ([], ?d1) = Inr (b2, d2)"
    and step: "promote_step E now nv (q, t) (b2, d2) = Inr (b3, d3)"
    and w3: "unmoved (batches post) (b3, d3) (blocked, d')" and split: "queued_requests ?d1 = pre @ (q, t) # post"
    and ahead: "fst ` set pre = {p \<in> set (lease_requests d). q_state p = QQueued \<and> q_queue_sequence p < q_queue_sequence q}"
    by (rule promotion_split [OF assms(1,2) qd q(2)]) blast
  have "q \<in> set (lease_requests d3)" using w3 q by (simp add: unmoved_def)
  from queued_after_step [OF step this refl q(2)] have d3: "d3 = d2"
    and cannot: "cannot_offer q (request_resources (q_batch_id q) d2) b2 d2" by simp_all
  note w = w3 [unfolded d3]
  have dist: "distinct (map (q_batch_id \<circ> fst) (pre @ (q, t) # post))"
    using queued_batches_distinct [OF inv1] by (simp add: split)
  have rows: "fst ` set pre \<subseteq> set (lease_requests ?d1)" "\<forall>p \<in> fst ` set pre. q_state p = QQueued"
    unfolding ahead by auto
  have "k \<in> set (waiting_ahead q d')" if k: "k \<in> set b2" for k
  proof -
    have "\<exists>p \<in> fst ` set pre. p \<in> set (lease_requests d2) \<and> k \<in> set (request_resources (q_batch_id p) d2)"
      using blocked_by_waiting [OF pre k] dist rows by simp
    then obtain p where p: "p \<in> fst ` set pre" "p \<in> set (lease_requests d2)"
      "k \<in> set (request_resources (q_batch_id p) d2)" by blast
    have "q_batch_id p \<notin> batches post" using p(1) dist by auto
    with w p(2) have "p \<in> set (lease_requests d')" by (simp add: unmoved_def)
    with p ahead show ?thesis by (auto simp: waiting_ahead_def unmoved_resources [OF w])
  qed
  then have "resource_set_overlaps rs b2 \<Longrightarrow> resource_set_overlaps rs (waiting_ahead q d')" for rs
    by (auto simp: resource_set_overlaps_def list_ex_iff)
  with cannot_offer_mono [OF w cannot] show ?thesis by (simp add: unmoved_resources [OF w])
qed

theorem promotion_work_conserving_witness:
  "\<exists>d'. promote_waiters demo_env ''0'' waiting_line = Inr d'
     \<and> cannot_offer (demo_request 1 ''B'') (request_resources ''batch-B'' d')
          (waiting_ahead (demo_request 1 ''B'') d') d'"
proof (rule waiting_line_promoted)
  fix d' assume d: "promote_waiters demo_env ''0'' waiting_line = Inr d'" "demo_request 1 ''B'' \<in> set (lease_requests d')"
  from promotion_work_conserving [OF waiting_line_inv d] d(1) show ?thesis
    by (auto simp: demo_request_def)
qed

end
