(* ===== verification/Store_History.thy ===== *)
theory Store_History
  imports Scenario
begin

section \<open>What the history of a store is worth\<close>

text \<open>
  \<open>evolves d d'\<close> relates a database to every later one: receipts are only added, a task keeps
  its identity, owner and settings and moves forward in its life cycle, and a recorded resource
  is either untouched or has a larger generation. Every transaction respects the relation
  (locale \<open>evolving_operation\<close> lifts it from a command's closure to the whole command), so it
  holds between any two moments of a run. Idempotent replay, the task life cycle and the
  meaning of a generation number follow from it.
\<close>

subsection \<open>The relation\<close>

definition status_moves :: "task_status \<Rightarrow> task_status \<Rightarrow> bool" where
  "status_moves s s' = (s = s' \<or> s = Active \<or> s = Draining \<and> task_is_terminal s')"

definition task_moves :: "task_row \<Rightarrow> task_row \<Rightarrow> bool" where
  "task_moves t t' =
     (t_workspace_id t' = t_workspace_id t \<and> t_task_id t' = t_task_id t \<and> t_agent_id t' = t_agent_id t
      \<and> t_settings t' = t_settings t \<and> t_created_at t' = t_created_at t
      \<and> status_moves (t_status t) (t_status t'))"

definition resource_moves :: "resource_row \<Rightarrow> resource_row \<Rightarrow> bool" where
  "resource_moves r r' =
     (r_workspace_id r' = r_workspace_id r \<and> r_resource_id r' = r_resource_id r
      \<and> (r' = r \<or> r_generation r < r_generation r'))"

text \<open>The primary key of the resource table.\<close>

definition resource_index_key :: "resource_row \<Rightarrow> (string \<times> string) option" where
  "resource_index_key r = Some (r_workspace_id r, r_resource_id r)"

abbreviation one_row_each :: "db \<Rightarrow> bool" where
  "one_row_each d \<equiv> unique_by resource_index_key (resources d)"

definition evolves :: "db \<Rightarrow> db \<Rightarrow> bool" where
  "evolves d d' =
     (prefix (command_receipts d) (command_receipts d')
      \<and> (\<forall>t \<in> set (tasks d). \<exists>t' \<in> set (tasks d'). task_moves t t')
      \<and> (one_row_each d \<longrightarrow> one_row_each d'
            \<and> (\<forall>r \<in> set (resources d). \<exists>r' \<in> set (resources d'). resource_moves r r')))"

lemma status_moves_trans: "status_moves a b \<Longrightarrow> status_moves b c \<Longrightarrow> status_moves a c"
  by (auto simp: status_moves_def task_is_terminal_def)

lemma task_moves_refl [simp]: "task_moves t t"
  by (simp add: task_moves_def status_moves_def)

lemma task_moves_trans: "task_moves a b \<Longrightarrow> task_moves b c \<Longrightarrow> task_moves a c"
  by (auto simp: task_moves_def intro: status_moves_trans)

lemma resource_moves_refl [simp]: "resource_moves r r"
  by (simp add: resource_moves_def)

lemma resource_moves_trans: "resource_moves a b \<Longrightarrow> resource_moves b c \<Longrightarrow> resource_moves a c"
  by (auto simp: resource_moves_def)

lemma evolves_refl [simp]: "evolves d d"
  unfolding evolves_def by (auto intro: task_moves_refl resource_moves_refl)

lemma evolves_trans:
  assumes "evolves a b" "evolves b c"
  shows "evolves a c"
  unfolding evolves_def
proof (intro conjI ballI impI)
  show "prefix (command_receipts a) (command_receipts c)"
    using assms by (auto simp: evolves_def elim: prefix_order.order_trans)
  show "\<exists>t' \<in> set (tasks c). task_moves t t'" if "t \<in> set (tasks a)" for t
    using assms that unfolding evolves_def by (meson task_moves_trans)
  assume one: "one_row_each a"
  then show "one_row_each c" using assms by (simp add: evolves_def)
  show "\<exists>r' \<in> set (resources c). resource_moves r r'" if "r \<in> set (resources a)" for r
    using assms that one unfolding evolves_def by (meson resource_moves_trans)
qed

subsection \<open>What leaves the ledger alone\<close>

definition ledger :: "db \<Rightarrow> task_row list \<times> resource_row list \<times> receipt_row list" where
  "ledger d = (tasks d, resources d, command_receipts d)"

named_theorems ledger_frames \<open>calls that keep tasks, resources and receipts\<close>

lemma ledger_simps [simp]:
  "ledger (d\<lparr>uuids_drawn := n\<rparr>) = ledger d"
  "ledger (d\<lparr>audit_events := a\<rparr>) = ledger d"
  "ledger (d\<lparr>read_intents := i\<rparr>) = ledger d"
  "ledger (d\<lparr>resource_evidence := e\<rparr>) = ledger d"
  "ledger (d\<lparr>resource_aliases := al\<rparr>) = ledger d"
  "ledger (d\<lparr>runtime_processes := p\<rparr>) = ledger d"
  "ledger (d\<lparr>read_attempts := ra\<rparr>) = ledger d"
  "ledger (d\<lparr>write_attempts := wa\<rparr>) = ledger d"
  "ledger (d\<lparr>active_leases := l\<rparr>) = ledger d"
  "ledger (d\<lparr>lease_resources := lr\<rparr>) = ledger d"
  "ledger (d\<lparr>lease_requests := q\<rparr>) = ledger d"
  "ledger (d\<lparr>lease_request_resources := qr\<rparr>) = ledger d"
  "ledger (d\<lparr>lease_queue := s\<rparr>) = ledger d"
  "ledger (d\<lparr>command_events := ce\<rparr>) = ledger d"
  by (simp_all add: ledger_def)

lemma ledger_evolves: "ledger d' = ledger d \<Longrightarrow> evolves d d'"
  unfolding ledger_def evolves_def by (auto intro: task_moves_refl resource_moves_refl)

lemma ledger_eqD:
  assumes "ledger d' = ledger d"
  shows "tasks d' = tasks d" "resources d' = resources d" "command_receipts d' = command_receipts d"
  using assms by (simp_all add: ledger_def)

lemma ledger_fold: "(\<And>x d. ledger (f x d) = ledger d) \<Longrightarrow> ledger (fold f xs d) = ledger d"
  by (induction xs arbitrary: d) auto

lemma ledger_foldE:
  assumes "foldE f xs d = Inr d'" and "\<And>x d d'. f x d = Inr d' \<Longrightarrow> ledger d' = ledger d"
  shows "ledger d' = ledger d"
  by (rule foldE_relation [where R = "\<lambda>d d'. ledger d' = ledger d", OF assms(1)]) (use assms(2) in auto)

lemma leases_ledger [simp]:
  "ledger (delete_leases p d) = ledger d" "ledger (drain_leases p d) = ledger d"
  "ledger (cancel_requests ws task now d) = ledger d" "ledger (release_slots a d) = ledger d"
  "ledger (release_all_task_leases ctx d) = ledger d" "ledger (expire_lease batch d) = ledger d"
  "ledger (supersede_requests ctx batch d) = ledger d"
  by (simp_all add: delete_leases_def drain_leases_def cancel_requests_def release_slots_def
      release_all_task_leases_def expire_lease_def supersede_requests_def)

lemma evidence_ledger [simp]:
  "ledger (revoke_overlapping ctx r ex d) = ledger d" "ledger (revoke_peers ctx rs d) = ledger d"
  "ledger (invalidate_uncertain_write ctx obs d) = ledger d" "ledger (insert_alias r d) = ledger d"
  "ledger (retire_inactive now d) = ledger d" "ledger (upsert_process ctx p d) = ledger d"
  by (simp_all add: revoke_overlapping_def revoke_peers_def invalidate_uncertain_write_def ledger_fold
      insert_alias_def retire_inactive_def upsert_process_def Let_def revoke_one_def split: prod.splits)

lemma new_uuid_ledger [ledger_frames]: "new_uuid E d = (u, d') \<Longrightarrow> ledger d' = ledger d"
  by (auto simp: new_uuid_def)

lemma append_audit_ledger [ledger_frames]: "append_audit E ctx ev p d = Inr d' \<Longrightarrow> ledger d' = ledger d"
  by (auto simp: append_audit_def new_uuid_def Let_def)

lemma promote_waiters_ledger [ledger_frames]: "promote_waiters E now d = Inr d' \<Longrightarrow> ledger d' = ledger d"
  by (erule promote_waiters_frame) simp

lemma insert_lease_resource_ledger [ledger_frames]:
  "insert_lease_resource batch r d = Inr d' \<Longrightarrow> ledger d' = ledger d"
  by (auto simp: insert_lease_resource_def)

lemma insert_lease_resources_ledger [ledger_frames]:
  "foldE (insert_lease_resource batch) rs d = Inr d' \<Longrightarrow> ledger d' = ledger d"
  by (erule ledger_foldE) (rule insert_lease_resource_ledger)

lemma insert_active_lease_ledger [ledger_frames]:
  "insert_active_lease ctx batch v rs ex d = Inr d' \<Longrightarrow> ledger d' = ledger d"
  by (auto simp: insert_active_lease_def dest!: insert_lease_resources_ledger)

lemma ensure_active_lease_ledger [ledger_frames]:
  "ensure_active_lease E ctx active rs ex d = Inr (a, d') \<Longrightarrow> ledger d' = ledger d"
  by (auto simp: ensure_active_lease_def touch_lease_def new_uuid_def Let_def
      split: option.splits if_splits dest!: insert_lease_resources_ledger insert_active_lease_ledger)

lemma enqueue_request_ledger [ledger_frames]:
  assumes "enqueue_request E ctx rs ex d = Inr (q, d')"
  shows "ledger d' = ledger d"
proof -
  from assms obtain u d1 s rows where u: "new_uuid E d = (u, d1)"
    and fold: "foldE (insert_request_resource u) rs
      ((supersede_requests ctx u d1)\<lparr>lease_queue := s, lease_requests := rows\<rparr>) = Inr d'"
    by (auto simp: enqueue_request_def Let_def split: prod.splits)
  have "ledger d' = ledger ((supersede_requests ctx u d1)\<lparr>lease_queue := s, lease_requests := rows\<rparr>)"
    by (rule ledger_foldE [OF fold]) (auto simp: insert_request_resource_def)
  then show ?thesis by (simp add: new_uuid_ledger [OF u])
qed

lemma acquire_slots_ledger:
  "foldE (acquire_slot batch a) obs d = Inr d' \<Longrightarrow> ledger d' = ledger d"
  by (erule ledger_foldE) (auto simp: acquire_slot_def Let_def split: if_splits)

lemma prepare_write_attempt_ledger [ledger_frames]:
  "prepare_write_attempt E ctx i current lease d = Inr (a, p, d') \<Longrightarrow> ledger d' = ledger d"
  by (auto simp: prepare_write_attempt_def Let_def new_uuid_def dest!: acquire_slots_ledger)

lemma read_ledger [ledger_frames]:
  "transition_read_attempt rid st t d = Inr d' \<Longrightarrow> ledger d' = ledger d"
  "insert_read_attempt row d = Inr d' \<Longrightarrow> ledger d' = ledger d"
  "insert_evidence ctx ev rid s ob d = Inr d' \<Longrightarrow> ledger d' = ledger d"
  by (auto simp: transition_read_attempt_def insert_read_attempt_def insert_evidence_def Let_def split: if_splits)

lemma insert_evidences_ledger [ledger_frames]:
  "foldE (insert_evidence ctx ev rid st) obs d = Inr d' \<Longrightarrow> ledger d' = ledger d"
  by (erule ledger_foldE) (rule read_ledger(3))

lemma insert_own_write_evidence_ledger [ledger_frames]:
  assumes "insert_own_write_evidence E ctx att obs d = Inr d'"
  shows "ledger d' = ledger d"
proof -
  obtain ev d1 where u: "new_uuid E d = (ev, d1)" by (cases "new_uuid E d")
  with assms have "ledger d' = ledger d1"
    unfolding insert_own_write_evidence_def Let_def by (auto elim!: ledger_foldE)
  with u show ?thesis by (simp add: new_uuid_ledger)
qed

lemma finish_attempt_ledger [ledger_frames]: "finish_attempt ctx i st d = Inr d' \<Longrightarrow> ledger d' = ledger d"
  by (auto simp: finish_attempt_def Let_def split: if_splits)

lemma settle_lease_ledger [ledger_frames]: "settle_lease st batch d = (b, d') \<Longrightarrow> ledger d' = ledger d"
  by (auto simp: settle_lease_def Let_def split: if_splits)

lemma activate_request_ledger [ledger_frames]: "activate_request ctx i v d = Inr d' \<Longrightarrow> ledger d' = ledger d"
  by (auto simp: activate_request_def Let_def split: if_splits)

subsection \<open>What moves tasks and resources on\<close>

lemma tasks_evolve:
  assumes "\<And>t. t \<in> set (tasks d) \<Longrightarrow> p t \<Longrightarrow> task_moves t (f t)"
    and "ledger d' = ledger (d\<lparr>tasks := sql_update p f (tasks d)\<rparr>)"
  shows "evolves d d'"
proof -
  have "\<exists>t' \<in> set (tasks d'). task_moves t t'" if "t \<in> set (tasks d)" for t
  proof (cases "p t")
    case True
    with assms that show ?thesis by (auto simp: ledger_def set_sql_update)
  next
    case False
    with assms that show ?thesis by (auto simp: ledger_def set_sql_update intro: bexI [of _ t])
  qed
  with assms(2) show ?thesis
    unfolding evolves_def by (auto simp: ledger_def intro: resource_moves_refl)
qed

lemma expire_task_evolves:
  assumes "unique_inv d" "t \<in> set (tasks d)" "t_status t = Active"
  shows "evolves d (expire_task now (t_workspace_id t, t_task_id t) d)"
proof (rule tasks_evolve)
  fix u assume u: "u \<in> set (tasks d)" "is_task (t_workspace_id t) (t_task_id t) u"
  with one_task_row [OF assms(1,2) u(1)] assms(3)
  show "task_moves u (u\<lparr>t_status := if in_flight_count (t_workspace_id t) (t_task_id t) d = 0 then Failed else Draining,
                      t_terminal_status := Some Failed, t_updated_at := now\<rparr>)"
    by (auto simp: task_moves_def status_moves_def is_task_def)
qed (simp add: expire_task_def Let_def ledger_def delete_leases_def drain_leases_def cancel_requests_def)

lemma expire_task_rows:
  "ledger (expire_task now (ws, task) d) = ledger (d\<lparr>tasks := tasks (expire_task now (ws, task) d)\<rparr>)"
  "t \<in> set (tasks d) \<Longrightarrow> \<not> is_task ws task t \<Longrightarrow> t \<in> set (tasks (expire_task now (ws, task) d))"
  by (simp_all add: expire_task_def Let_def ledger_def delete_leases_def drain_leases_def cancel_requests_def
      set_sql_update)

lemma expire_rows_evolve:
  assumes "lease_inv d" "\<forall>t \<in> set ts. t \<in> set (tasks d) \<and> t_status t = Active"
    and "distinct (map (\<lambda>t. (t_workspace_id t, t_task_id t)) ts)"
  shows "evolves d (fold (expire_task now) (map (\<lambda>t. (t_workspace_id t, t_task_id t)) ts) d)"
  using assms
proof (induction ts arbitrary: d)
  case (Cons t ts)
  let ?d = "expire_task now (t_workspace_id t, t_task_id t) d"
  have "evolves d ?d" using Cons.prems lease_invD(1) by (intro expire_task_evolves) auto
  moreover have "u \<in> set (tasks ?d)" if "u \<in> set ts" for u
    using that Cons.prems(2,3) by (intro expire_task_rows(2)) (auto simp: is_task_def image_iff)
  then have "evolves ?d (fold (expire_task now) (map (\<lambda>t. (t_workspace_id t, t_task_id t)) ts) ?d)"
    using Cons.prems by (intro Cons.IH expire_task_inv) auto
  ultimately show ?case by (auto intro: evolves_trans)
qed simp

lemma expire_tasks_and_leases_evolves:
  assumes "lease_inv d"
  shows "evolves d (expire_tasks_and_leases now d)"
proof -
  let ?ts = "filter (\<lambda>t. t_status t = Active \<and> t_expires_at t \<le> now) (tasks d)"
  let ?d = "fold (expire_task now) (expired_tasks now d) d"
  have "unique_by task_key (tasks d)" using lease_invD(1) [OF assms] by (simp add: unique_inv_def)
  then have "distinct (map (\<lambda>t. (t_workspace_id t, t_task_id t)) (tasks d))"
    by (simp add: unique_by_def task_key_def distinct_conv_nth sorted_wrt_iff_nth_less) (metis linorder_neqE_nat)
  then have "distinct (map (\<lambda>t. (t_workspace_id t, t_task_id t)) ?ts)" by (rule distinct_map_filter)
  then have "evolves d ?d"
    unfolding expired_tasks_def by (intro expire_rows_evolve [OF assms]) auto
  moreover have "ledger (expire_tasks_and_leases now d) = ledger ?d"
    by (simp add: expire_tasks_and_leases_def Let_def ledger_fold)
  then have "evolves ?d (expire_tasks_and_leases now d)" by (rule ledger_evolves)
  ultimately show ?thesis by (rule evolves_trans)
qed

lemma finish_draining_task_evolves:
  assumes "lease_inv d" "finish_draining_task ctx d = (b, d')"
  shows "evolves d d'"
proof (cases "d' = d")
  case False
  let ?p = "\<lambda>t. is_ctx_task ctx t \<and> t_status t = Draining"
  from assms(2) False obtain t terminal where t: "sql_first ?p (tasks d) = Some t" "t_terminal_status t = Some terminal"
    and d': "ledger d' = ledger (d\<lparr>tasks := sql_update ?p
       (\<lambda>t. t\<lparr>t_status := terminal, t_updated_at := cc_observed_at ctx\<rparr>) (tasks d)\<rparr>)"
    by (auto simp: finish_draining_task_def Let_def ledger_def delete_leases_def split: option.splits if_splits)
  from t lease_invD(4) [OF assms(1)] have "task_is_terminal terminal"
    by (auto simp: drain_target_def dest!: sql_firstD)
  then show ?thesis
    by (intro tasks_evolve [OF _ d']) (auto simp: task_moves_def status_moves_def)
qed simp

lemma sync_resource_cases:
  assumes "sync_resource ctx ob d = Inr (g, d')"
  obtains "d' = d"
  | row st t where "row \<in> set (resources d)" "is_resource (obs_resource ob) row"
      "resources d' = sql_update (is_resource (obs_resource ob)) (\<lambda>row. row\<lparr>r_kind := rk_kind (obs_resource ob),
         r_state := st, r_generation := g, r_updated_at := t\<rparr>) (resources d)"
      "g = r_generation row + 1" "ledger d' = ledger (d\<lparr>resources := resources d'\<rparr>)"
  | row where "\<forall>r \<in> set (resources d). \<not> is_resource (obs_resource ob) r" "is_resource (obs_resource ob) row"
      "resources d' = resources d @ [row]" "ledger d' = ledger (d\<lparr>resources := resources d'\<rparr>)"
proof -
  let ?r = "obs_resource ob" and ?d = "revoke_overlapping ctx (obs_resource ob) None d"
  have keep: "tasks ?d = tasks d" "resources ?d = resources d" "command_receipts ?d = command_receipts d"
    by (simp_all add: ledger_eqD [OF evidence_ledger(1)])
  show thesis
  proof (cases "sql_first (is_resource ?r) (resources d)")
    case None
    with assms keep show thesis
      by (intro that(3)) (auto simp: sync_resource_def Let_def ledger_def is_resource_def)
  next
    case (Some row)
    from sql_firstD [OF this] have row: "row \<in> set (resources d)" "is_resource ?r row" by simp_all
    show thesis
    proof (cases "r_kind row \<noteq> rk_kind ?r \<or> state_json (r_state row) \<noteq> observation_state_json ob")
      case True
      with Some assms keep row show thesis
        by (intro that(2) [OF row]) (auto simp: sync_resource_def Let_def ledger_def bind_u64_def split: if_splits)
    qed (use assms Some that(1) in \<open>auto simp: sync_resource_def Let_def\<close>)
  qed
qed

lemma same_resource_key:
  "is_resource k r \<Longrightarrow> resource_index_key r = Some (rk_workspace_id k, rk_resource_id k)"
  by (simp add: is_resource_def resource_index_key_def)

lemma sync_resource_evolves:
  assumes "sync_resource ctx ob d = Inr (g, d')"
  shows "evolves d d'"
  using assms
proof (cases rule: sync_resource_cases)
  case (2 row st t)
  let ?p = "is_resource (obs_resource ob)"
  have "one_row_each d'" if "one_row_each d"
    unfolding 2(3) by (rule unique_by_sql_update [OF that]) (simp add: resource_index_key_def)
  moreover have "\<exists>r' \<in> set (resources d'). resource_moves r r'" if "one_row_each d" "r \<in> set (resources d)" for r
  proof (cases "?p r")
    case True
    have "r = row"
      by (rule unique_byD [OF that 2(1) same_resource_key [OF True] same_resource_key [OF 2(2)]])
    with that(2) True 2(3,4) show ?thesis
      by (intro bexI [of _ "r\<lparr>r_kind := rk_kind (obs_resource ob), r_state := st, r_generation := g,
        r_updated_at := t\<rparr>"]) (simp_all add: set_sql_update resource_moves_def)
  next
    case False
    with that(2) 2(3) show ?thesis by (intro bexI [of _ r]) (auto simp: set_sql_update)
  qed
  ultimately show ?thesis
    using 2(5) unfolding evolves_def by (auto simp: ledger_def intro: task_moves_refl)
next
  case (3 row)
  have "one_row_each d'" if "one_row_each d"
    using that 3(1,2) unfolding 3(3) unique_by_snoc
    by (auto simp: resource_index_key_def is_resource_def)
  moreover have "\<exists>r' \<in> set (resources d'). resource_moves r r'" if "r \<in> set (resources d)" for r
    using that 3(3) by (intro bexI [of _ r]) auto
  ultimately show ?thesis
    using 3(4) unfolding evolves_def by (auto simp: ledger_def intro: task_moves_refl)
qed simp

lemma sync_observations_evolves:
  assumes "sync_observations ctx input d = Inr (obs, d')"
  shows "evolves d d'"
proof -
  from assms obtain seen where
    fold: "foldE (sync_step ctx) (sort_observations input) ([], [], d) = Inr (seen, obs, d')"
    by (auto simp: sync_observations_def)
  have "(\<lambda>(_, _, d2). evolves d d2) (seen, obs, d')"
    by (rule foldE_invariant [OF fold])
      (auto simp: sync_step_def intro: evolves_trans dest!: sync_resource_evolves
        intro!: evolves_trans [OF _ ledger_evolves [OF evidence_ledger(4)]])
  then show ?thesis by simp
qed

subsection \<open>The contract of an operation, and its interpretations\<close>

locale evolving_operation = store_operation +
  assumes moves: "lease_inv d \<Longrightarrow> operation d = Inr (r, d') \<Longrightarrow> evolves d d'"
begin

lemma accepted_evolves:
  assumes "lease_inv d" "accepted_command E ctx kind payload operation d = Inr (r, d')"
  shows "evolves d d'"
proof (cases "sql_first (is_receipt ctx) (command_receipts d)")
  case (Some receipt)
  with assms(2) show ?thesis by (auto simp: accepted_command_def split: if_splits)
next
  case None
  let ?d = "expire_tasks_and_leases (cc_observed_at ctx) d"
  from assms(2) None obtain d1 d2 where d1: "promote_waiters E (cc_observed_at ctx) ?d = Inr d1"
    and d2: "operation d1 = Inr (r, d2)" and d3: "record_command E ctx kind payload r d2 = Inr d'"
    by (auto simp: accepted_command_def)
  have inv: "lease_inv d1"
    by (rule promote_waiters_inv [OF expire_tasks_and_leases_inv [OF assms(1)] d1])
  have "evolves d ?d" by (rule expire_tasks_and_leases_evolves [OF assms(1)])
  moreover have "evolves ?d d1" by (rule ledger_evolves [OF promote_waiters_ledger [OF d1]])
  moreover have "evolves d1 d2" by (rule moves [OF inv d2])
  moreover have "evolves d2 d'"
    using d3 unfolding evolves_def
    by (auto simp: record_command_def new_uuid_def insert_receipt_row_def sql_insert_eq_Inr Let_def
        intro: task_moves_refl resource_moves_refl)
  ultimately show ?thesis by (blast intro: evolves_trans)
qed

end

lemma task_start_op_evolves:
  assumes "task_start_op E ctx i d = Inr (r, d')"
  shows "evolves d d'"
proof -
  have add: "evolves d d''" if "insert_task_row t (tasks d) = Inr rows" "ledger d'' = ledger (d\<lparr>tasks := rows\<rparr>)" for d'' t rows
    using that unfolding evolves_def
    by (auto simp: insert_row_defs ledger_def intro: task_moves_refl resource_moves_refl)
  from assms consider "d' = d" | t rows where "insert_task_row t (tasks d) = Inr rows" "ledger d' = ledger (d\<lparr>tasks := rows\<rparr>)"
    by (auto simp: task_start_op_def Let_def split: option.splits if_splits dest!: append_audit_ledger)
  then show ?thesis by cases (auto intro: add)
qed

lemma task_heartbeat_op_evolves:
  assumes "task_heartbeat_op E ctx i d = Inr (r, d')"
  shows "evolves d d'"
proof -
  let ?f = "\<lambda>t. t\<lparr>t_next_action := trim (th_next_action i), t_heartbeat_at := cc_observed_at ctx,
    t_expires_at := th_expires_at i, t_updated_at := cc_observed_at ctx\<rparr>"
  from assms have "ledger d' = ledger (d\<lparr>tasks := sql_update (is_ctx_task ctx) ?f (tasks d)\<rparr>)"
    by (auto simp: task_heartbeat_op_def Let_def ledger_def dest!: append_audit_ledger)
  then show ?thesis by (rule tasks_evolve [rotated]) (simp add: task_moves_def status_moves_def)
qed

lemma begin_drain_evolves:
  assumes "lease_inv d" "require_task_owner d ctx False = Inr current" "\<not> task_is_terminal current"
  shows "evolves d (begin_drain ctx i terminal d)"
proof (rule tasks_evolve [where p = "is_ctx_task ctx"])
  show "ledger (begin_drain ctx i terminal d) = ledger (d\<lparr>tasks := sql_update (is_ctx_task ctx)
      (\<lambda>t. t\<lparr>t_status := Draining, t_terminal_status := Some terminal,
             t_handoff := te_handoff i, t_updated_at := cc_observed_at ctx\<rparr>) (tasks d)\<rparr>)"
    by (simp add: begin_drain_def ledger_def cancel_requests_def)
  fix t assume t: "t \<in> set (tasks d)" "is_ctx_task ctx t"
  obtain u where u: "u \<in> set (tasks d)" "is_ctx_task ctx u" "t_status u = current"
    using require_task_ownerD [OF assms(2)] by metis
  from one_task_row [OF lease_invD(1) [OF assms(1)] t(1) u(1) t(2) u(2)] u(3) assms(3)
  show "task_moves t (t\<lparr>t_status := Draining, t_terminal_status := Some terminal,
             t_handoff := te_handoff i, t_updated_at := cc_observed_at ctx\<rparr>)"
    by (cases current) (simp_all add: task_moves_def status_moves_def task_is_terminal_def)
qed

lemma end_task_op_evolves:
  assumes "lease_inv d" "task_is_terminal terminal" "end_task_op E ctx i terminal kind d = Inr (r, d')"
  shows "evolves d d'"
  using assms(3)
proof (cases rule: end_task_op_cases)
  case (2 current d2 p)
  let ?d1 = "begin_drain ctx i terminal d"
  have "evolves ?d1 (update_task_terminal ctx terminal (release_all_task_leases ctx ?d1))"
  proof (rule tasks_evolve [where p = "is_ctx_task ctx"])
    fix t assume "t \<in> set (tasks ?d1)" "is_ctx_task ctx t"
    then have "t_status t = Draining"
      by (auto simp: begin_drain_def cancel_requests_def is_task_def elim!: in_sql_updateE)
    then show "task_moves t (t\<lparr>t_status := terminal, t_updated_at := cc_observed_at ctx\<rparr>)"
      using assms(2) by (simp add: task_moves_def status_moves_def)
  qed (simp add: update_task_terminal_def release_all_task_leases_def delete_leases_def ledger_def)
  moreover have "ledger d' = ledger (update_task_terminal ctx terminal (release_all_task_leases ctx ?d1))"
    using promote_waiters_ledger [OF 2(4)] append_audit_ledger [OF 2(5)] by simp
  ultimately show ?thesis
    using begin_drain_evolves [OF assms(1) 2(1,2)] by (blast intro: evolves_trans ledger_evolves)
next
  case (3 current p)
  have "ledger d' = ledger (begin_drain ctx i terminal d)" using append_audit_ledger [OF 3(3)] by simp
  with begin_drain_evolves [OF assms(1) 3(1,2)] show ?thesis by (blast intro: evolves_trans ledger_evolves)
qed simp

lemma read_start_op_evolves:
  assumes "read_start_op E ctx i d = Inr (r, d')"
  shows "evolves d d'"
proof -
  from assms obtain obs d1 where "sync_observations ctx (rs_resources i) d = Inr (obs, d1)" "ledger d' = ledger d1"
    by (auto simp: read_start_op_def dest!: append_audit_ledger read_ledger(2))
  then show ?thesis by (blast intro: evolves_trans ledger_evolves sync_observations_evolves)
qed

lemma read_complete_op_ledger: "read_complete_op E ctx i d = Inr (r, d') \<Longrightarrow> ledger d' = ledger d"
  by (auto simp: read_complete_op_def fail_read_def Let_def new_uuid_def split: if_splits
      dest!: append_audit_ledger read_ledger(1) insert_evidences_ledger)

lemma write_wait_ledger:
  assumes "write_wait E ctx i active pending wanted conflicts reported d = Inr (r, d')"
  shows "ledger d' = ledger d"
  using assms unfolding write_wait_def Let_def
  by (auto split: if_splits option.splits
      dest!: append_audit_ledger promote_waiters_ledger enqueue_request_ledger)

lemma write_ready_ledger: "write_ready E ctx i active wanted reported d = Inr (r, d') \<Longrightarrow> ledger d' = ledger d"
  by (auto simp: write_ready_def Let_def split: if_splits
      dest!: append_audit_ledger ensure_active_lease_ledger prepare_write_attempt_ledger)

lemma write_prepare_op_ledger: "write_prepare_op E ctx i d = Inr (r, d') \<Longrightarrow> ledger d' = ledger d"
  by (auto simp: write_prepare_op_def Let_def split: if_splits dest!: write_wait_ledger write_ready_ledger)

lemma lease_activate_op_ledger: "lease_activate_op E ctx i d = Inr (r, d') \<Longrightarrow> ledger d' = ledger d"
  by (auto simp: lease_activate_op_def Let_def split: if_splits
      dest!: append_audit_ledger activate_request_ledger insert_active_lease_ledger)

lemma lease_release_op_ledger: "lease_release_op E ctx i d = Inr (r, d') \<Longrightarrow> ledger d' = ledger d"
  by (auto simp: lease_release_op_def Let_def split: if_splits option.splits
      dest!: append_audit_ledger promote_waiters_ledger)

lemma classify_completion_evolves:
  assumes "classify_completion ctx i w d = Inr (st, own, d')"
  shows "evolves d d'"
  using assms sync_observations_evolves ledger_evolves [OF evidence_ledger(3)]
  by (auto simp: classify_completion_def Let_def split: if_splits)

lemma write_complete_op_evolves:
  assumes "lease_inv d" "write_complete_op E ctx i d = Inr (r, d')"
  shows "evolves d d'"
proof (rule write_complete_opD [OF assms(2)])
  fix w st assume "completion_steps E ctx i w d st d'"
  then obtain own d1 d2 d3 released d4 finished d5 d6 p where
    d1: "classify_completion ctx i w d = Inr (st, own, d1)" and d2: "finish_attempt ctx i st d1 = Inr d2"
    and d3: "(case own of None \<Rightarrow> Inr d2
            | Some obs \<Rightarrow> insert_own_write_evidence E ctx (wc_attempt_id i) obs d2) = Inr d3"
    and d4: "settle_lease st (wa_batch_id w) (release_slots (wc_attempt_id i) d3) = (released, d4)"
    and d5: "finish_draining_task ctx d4 = (finished, d5)"
    and d6: "(if released \<or> finished then promote_waiters E (cc_observed_at ctx) d5 else Inr d5) = Inr d6"
    and d': "append_audit E ctx ''write.completed'' p d6 = Inr d'"
    unfolding completion_steps_def by blast
  have "lease_inv d1" using assms(1) by (simp add: lease_inv_core [OF classify_completion_core [OF d1]])
  moreover have "core d3 = core d2"
    using d3 by (auto split: option.splits dest: insert_own_write_evidence_core)
  ultimately have inv: "lease_inv d4" by (rule settle_lease_inv [OF complete_attempt_inv [OF _ d2] d4])
  have "ledger d3 = ledger d2" using d3 by (auto split: option.splits dest: insert_own_write_evidence_ledger)
  then have "ledger d4 = ledger d1" using finish_attempt_ledger [OF d2] settle_lease_ledger [OF d4] by simp
  moreover have "ledger d6 = ledger d5" using d6 by (auto split: if_splits dest: promote_waiters_ledger)
  then have "ledger d' = ledger d5" using append_audit_ledger [OF d'] by simp
  ultimately show ?thesis
    using classify_completion_evolves [OF d1] finish_draining_task_evolves [OF inv d5]
    by (blast intro: evolves_trans ledger_evolves)
qed

lemma maintain_evolves:
  assumes "lease_inv d" "maintain E now d = Inr d'"
  shows "evolves d d'"
proof -
  let ?d1 = "expire_tasks_and_leases now (expire_offers now d)"
  have "evolves (expire_offers now d) ?d1"
    by (intro expire_tasks_and_leases_evolves expire_offers_inv assms(1))
  moreover have "ledger (expire_offers now d) = ledger d" by (simp add: expire_offers_def)
  moreover have "ledger d' = ledger ?d1"
    using assms(2) by (auto simp: maintain_def Let_def drain_overdue_def dest!: promote_waiters_ledger)
  ultimately show ?thesis by (blast intro: evolves_trans ledger_evolves)
qed

interpretation task_start_ev: evolving_operation "task_start_op E ctx i" for E ctx i
  by unfold_locales (rule task_start_op_evolves)

interpretation task_heartbeat_ev: evolving_operation "task_heartbeat_op E ctx i" for E ctx i
  by unfold_locales (rule task_heartbeat_op_evolves)

interpretation task_finalize_ev: evolving_operation "end_task_op E ctx i Completed kind" for E ctx i kind
  by unfold_locales (rule end_task_op_evolves, simp_all add: task_is_terminal_def)

interpretation task_cancel_ev: evolving_operation "end_task_op E ctx i Cancelled kind" for E ctx i kind
  by unfold_locales (rule end_task_op_evolves, simp_all add: task_is_terminal_def)

interpretation read_start_ev: evolving_operation "read_start_op E ctx i" for E ctx i
  by unfold_locales (rule read_start_op_evolves)

interpretation read_complete_ev: evolving_operation "read_complete_op E ctx i" for E ctx i
  by unfold_locales (rule ledger_evolves [OF read_complete_op_ledger])

interpretation write_prepare_ev: evolving_operation "write_prepare_op E ctx i" for E ctx i
  by unfold_locales (rule ledger_evolves [OF write_prepare_op_ledger])

interpretation lease_activate_ev: evolving_operation "lease_activate_op E ctx i" for E ctx i
  by unfold_locales (rule ledger_evolves [OF lease_activate_op_ledger])

interpretation lease_release_ev: evolving_operation "lease_release_op E ctx i" for E ctx i
  by unfold_locales (rule ledger_evolves [OF lease_release_op_ledger])

interpretation write_complete_ev: evolving_operation "write_complete_op E ctx i" for E ctx i
  by unfold_locales (rule write_complete_op_evolves)

lemmas accepted_evolves = task_start_ev.accepted_evolves task_heartbeat_ev.accepted_evolves
  task_finalize_ev.accepted_evolves task_cancel_ev.accepted_evolves read_start_ev.accepted_evolves
  read_complete_ev.accepted_evolves write_prepare_ev.accepted_evolves lease_activate_ev.accepted_evolves
  lease_release_ev.accepted_evolves write_complete_ev.accepted_evolves

lemma run_command_evolves:
  assumes "lease_inv d" "run_command E c d = Inr (r, d')"
  shows "evolves d d'"
  using assms(2) by (cases c; simp only: run_command.simps command_defs) (erule accepted_evolves [OF assms(1)])+

lemma store_step_evolves: "lease_inv d \<Longrightarrow> store_step d d' \<Longrightarrow> evolves d d'"
  by (erule store_step_cases) (auto dest: run_command_evolves maintain_evolves)

lemma later_evolves:
  assumes "store_step\<^sup>*\<^sup>* d d'" "lease_inv d"
  shows "lease_inv d' \<and> evolves d d'"
  using assms
proof (induction rule: rtranclp_induct)
  case (step b c)
  then show ?case by (auto intro: store_step_inv evolves_trans store_step_evolves)
qed simp

lemma reachable_one_row_each: "reachable d \<Longrightarrow> one_row_each d"
proof (induction rule: reachable.induct)
  case (step d d')
  with store_step_evolves [OF reachable_inv] show ?case by (auto simp: evolves_def)
qed (simp add: create_v2_schema_def)

subsection \<open>Receipts\<close>

text \<open>What a command passes to \<open>accepted_command\<close>: its context, kind and payload.\<close>

fun command_call :: "command \<Rightarrow> command_context \<times> string \<times> json" where
  "command_call (TaskStart ctx i) = (ctx, ''task.start'', task_start_json i)"
| "command_call (TaskHeartbeat ctx i) = (ctx, ''task.heartbeat'', task_heartbeat_json i)"
| "command_call (TaskFinalize ctx i) = (ctx, ''task.finalize'', task_end_json i)"
| "command_call (TaskCancel ctx i) = (ctx, ''task.cancel'', task_end_json i)"
| "command_call (ReadStart ctx i) = (ctx, ''read.start'', read_start_json i)"
| "command_call (ReadComplete ctx i) = (ctx, ''read.complete'', read_complete_json i)"
| "command_call (WritePrepare ctx i) = (ctx, ''write.prepare'', write_prepare_json i)"
| "command_call (LeaseActivate ctx i) = (ctx, ''lease.activate'', lease_activate_json i)"
| "command_call (LeaseRelease ctx i) = (ctx, ''lease.release'', lease_release_json i)"
| "command_call (WriteComplete ctx i) = (ctx, ''write.complete'', write_complete_json i)"

lemma run_command_accepted:
  assumes "command_call c = (ctx, kind, payload)"
  obtains operation where "run_command E c = accepted_command E ctx kind payload operation"
  using assms by (cases c) (auto simp: command_defs fun_eq_iff)

lemma find_append: "List.find P xs = Some x \<Longrightarrow> List.find P (xs @ ys) = Some x"
  by (induction xs) (auto split: if_splits)

text \<open>A command that succeeds leaves its receipt, and the receipt stays.\<close>

lemma accepted_receipt:
  assumes "accepted_command E ctx kind payload operation d = Inr (r, d')"
  obtains receipt where "sql_first (is_receipt ctx) (command_receipts d') = Some receipt"
    "receipt_matches E kind payload receipt" "cr_response receipt = r" "validate_context E ctx = Inr ()"
proof (cases "sql_first (is_receipt ctx) (command_receipts d)")
  case (Some receipt)
  with assms show thesis by (intro that) (auto simp: accepted_command_def split: if_splits)
next
  case None
  from assms None obtain d2 where rec: "record_command E ctx kind payload r d2 = Inr d'"
    and ok: "validate_context E ctx = Inr ()" by (auto simp: accepted_command_def)
  let ?row = "\<lparr>cr_workspace_id = cc_workspace_id ctx, cr_agent_id = cc_agent_id ctx,
         cr_request_id = cc_request_id ctx, cr_contract_revision = CONTRACT_REVISION,
         cr_command_kind = kind, cr_payload_digest = payload_digest E payload,
         cr_response = r, cr_recorded_at = cc_observed_at ctx\<rparr>"
  have key: "(\<lambda>s. receipt_key s = Some (cc_workspace_id ctx, cc_agent_id ctx, cc_request_id ctx)) = is_receipt ctx"
    by (auto simp: fun_eq_iff receipt_key_def is_receipt_def)
  from rec obtain rows where "insert_receipt_row ?row rows = Inr (command_receipts d')"
    by (auto simp: record_command_def new_uuid_def Let_def)
  from receipt_index.insert_lookup [OF this] have "sql_first (is_receipt ctx) (command_receipts d') = Some ?row"
    unfolding key [symmetric] by (simp add: receipt_key_def)
  then show thesis by (rule that) (simp_all add: receipt_matches_def ok)
qed

lemma receipt_stays:
  assumes "evolves d d'" "sql_first (is_receipt ctx) (command_receipts d) = Some receipt"
  shows "sql_first (is_receipt ctx) (command_receipts d') = Some receipt"
  using assms find_append by (auto simp: evolves_def sql_first_def elim!: prefixE)

lemma later_receipt:
  assumes "reachable d" "run_command E c d = Inr (r, d1)" "store_step\<^sup>*\<^sup>* d1 d2" "command_call c = (ctx, kind, payload)"
  obtains receipt where "sql_first (is_receipt ctx) (command_receipts d2) = Some receipt"
    "receipt_matches E kind payload receipt" "cr_response receipt = r" "validate_context E ctx = Inr ()"
proof -
  obtain operation where "run_command E c = accepted_command E ctx kind payload operation"
    by (rule run_command_accepted [OF assms(4)])
  then obtain receipt where rec: "sql_first (is_receipt ctx) (command_receipts d1) = Some receipt"
      "receipt_matches E kind payload receipt" "cr_response receipt = r" "validate_context E ctx = Inr ()"
    using assms(2) by (auto elim: accepted_receipt)
  have "evolves d1 d2"
    using later_evolves [OF assms(3) run_command_inv [OF reachable_inv [OF assms(1)] assms(2)]] by simp
  from that [OF receipt_stays [OF this rec(1)] rec(2-4)] show thesis .
qed

text \<open>
  C7. Idempotent replay: once a command has succeeded, sending it again at any later time
  gives the response it got the first time and changes nothing, whatever the store has done in
  between.
\<close>

theorem command_replays:
  assumes "reachable d" "run_command E c d = Inr (r, d1)" "store_step\<^sup>*\<^sup>* d1 d2"
  shows "run_command E c d2 = Inr (r, d2)"
proof -
  obtain ctx kind payload where call: "command_call c = (ctx, kind, payload)" by (cases "command_call c")
  obtain operation where run: "run_command E c = accepted_command E ctx kind payload operation"
    by (rule run_command_accepted [OF call])
  obtain receipt where "sql_first (is_receipt ctx) (command_receipts d2) = Some receipt"
      "receipt_matches E kind payload receipt" "cr_response receipt = r" "validate_context E ctx = Inr ()"
    by (rule later_receipt [OF assms call])
  then show ?thesis by (simp add: run accepted_command_def)
qed

text \<open>
  A request id is used once: a different command (another kind, or a payload with another
  digest) of the same agent and workspace under a request id that has already succeeded is
  refused with \<open>IdempotencyMismatch\<close>, at any later time.
\<close>

theorem request_id_reuse_refused:
  assumes "reachable d" "run_command E c d = Inr (r, d1)" "store_step\<^sup>*\<^sup>* d1 d2"
    and "command_call c = (ctx, kind, payload)" "command_call c' = (ctx', kind', payload')"
    and "cc_workspace_id ctx' = cc_workspace_id ctx" "cc_agent_id ctx' = cc_agent_id ctx"
      "cc_request_id ctx' = cc_request_id ctx" "validate_context E ctx' = Inr ()"
    and "kind' \<noteq> kind \<or> payload_digest E payload' \<noteq> payload_digest E payload"
  shows "run_command E c' d2 = Inl IdempotencyMismatch"
proof -
  obtain operation where run: "run_command E c' = accepted_command E ctx' kind' payload' operation"
    by (rule run_command_accepted [OF assms(5)])
  obtain receipt where rec: "sql_first (is_receipt ctx) (command_receipts d2) = Some receipt"
      "receipt_matches E kind payload receipt"
    by (rule later_receipt [OF assms(1-4)])
  moreover have "is_receipt ctx' = is_receipt ctx" using assms(6-8) by (simp add: is_receipt_def fun_eq_iff)
  ultimately show ?thesis
    using assms(9,10) by (auto simp: run accepted_command_def receipt_matches_def)
qed

subsection \<open>The life of a task and the meaning of a generation\<close>

text \<open>
  C10. The life cycle of a task: from any reachable database on, a task keeps its row, its owner
  and its settings, and its status only moves forward. A task that is draining can only reach a
  terminal status, and a terminal status never changes.
\<close>

theorem task_lifecycle:
  assumes "reachable d" "store_step\<^sup>*\<^sup>* d d'" "t \<in> set (tasks d)"
  shows "\<exists>t'. {u \<in> set (tasks d'). is_task (t_workspace_id t) (t_task_id t) u} = {t'} \<and> task_moves t t'"
proof -
  note later = later_evolves [OF assms(2) reachable_inv [OF assms(1)]]
  from later assms(3) obtain u where u: "u \<in> set (tasks d')" "task_moves t u" by (auto simp: evolves_def)
  then have key: "is_task (t_workspace_id t) (t_task_id t) u" by (simp add: task_moves_def is_task_def)
  from one_task_row [OF lease_invD(1) [OF conjunct1 [OF later]] _ u(1) _ key] u key
  have "{u \<in> set (tasks d'). is_task (t_workspace_id t) (t_task_id t) u} = {u}" by blast
  with u(2) show ?thesis by blast
qed

text \<open>
  C11. A generation number identifies a state: the generation of a recorded resource never goes
  down, and if it is the same at two moments of a run then the resource has the same recorded
  kind and state, so evidence that matches the current generation is about the current state.
\<close>

theorem generation_identifies_state:
  assumes "reachable d" "store_step\<^sup>*\<^sup>* d d'" "r \<in> set (resources d)" "r' \<in> set (resources d')"
    and "r_workspace_id r' = r_workspace_id r" "r_resource_id r' = r_resource_id r"
  shows "r_generation r \<le> r_generation r' \<and> (r_generation r' = r_generation r \<longrightarrow> r' = r)"
proof -
  have ev: "evolves d d'" using later_evolves [OF assms(2) reachable_inv [OF assms(1)]] by simp
  with reachable_one_row_each [OF assms(1)] assms(3) obtain u where
    u: "u \<in> set (resources d')" "resource_moves r u" and one: "one_row_each d'"
    by (auto simp: evolves_def)
  have "u = r'"
    using u assms(5,6) by (intro unique_byD [OF one u(1) assms(4)]) (auto simp: resource_index_key_def resource_moves_def)
  with u(2) show ?thesis by (auto simp: resource_moves_def)
qed

subsection \<open>Witnesses\<close>

text \<open>A task that has begun a read, and the same store after the read is complete.\<close>

definition reader_before :: db where
  "reader_before = run_all demo_env (demo_start ''A'' # take 1 (demo_read ''A'' ''a'')) create_v2_schema"

definition reader_after :: db where
  "reader_after = run_all demo_env (drop 1 (demo_read ''A'' ''a'')) reader_before"

lemma run_all_later: "store_step\<^sup>*\<^sup>* d (run_all E cs d)"
  unfolding run_all_def
proof (induction cs arbitrary: d)
  case (Cons c cs)
  obtain r d' where t: "transact (run_command E c d) d = (r, d')" by (cases "transact (run_command E c d) d")
  then have "store_step d d'" by (rule store_step.command)
  with Cons.IH [of d'] t show ?case by (simp add: converse_rtranclp_into_rtranclp)
qed simp

lemma reader_reachable: "reachable reader_before" "store_step\<^sup>*\<^sup>* reader_before reader_after"
  by (simp_all add: reader_before_def reader_after_def run_all_later run_all_reachable reachable.opened)

lemma reader_rows:
  "map (\<lambda>t. (t_workspace_id t, t_task_id t, t_status t)) (tasks reader_before) = [(''w'', ''A'', Active)]
   \<and> map (\<lambda>r. (r_workspace_id r, r_resource_id r, r_generation r)) (resources reader_before) = [(''w'', ''entry:1:2:a'', 1)]
   \<and> map (\<lambda>r. (r_workspace_id r, r_resource_id r, r_generation r)) (resources reader_after) = [(''w'', ''entry:1:2:a'', 1)]"
  by code_simp

theorem task_lifecycle_witness:
  "\<exists>t t'. set (tasks reader_before) = {t} \<and> t' \<in> set (tasks reader_after) \<and> task_moves t t'"
proof -
  from reader_rows obtain t where t: "tasks reader_before = [t]" by auto
  then have "t \<in> set (tasks reader_before)" by simp
  from task_lifecycle [OF reader_reachable this] t show ?thesis by auto
qed

theorem generation_identifies_state_witness:
  "\<exists>r. set (resources reader_before) = {r} \<and> set (resources reader_after) = {r}"
proof -
  from reader_rows obtain r r' where r: "resources reader_before = [r]" "resources reader_after = [r']"
    and eqs: "r_workspace_id r' = r_workspace_id r" "r_resource_id r' = r_resource_id r" "r_generation r' = r_generation r"
    by (auto simp: map_eq_Cons_conv)
  have "r' = r" using generation_identifies_state [OF reader_reachable, of r r'] r eqs by simp
  with r show ?thesis by simp
qed

text \<open>The start of task \<open>A\<close>, repeated after the read, and its request id used for a cancellation.\<close>

definition demo_started :: db where
  "demo_started = run_all demo_env [demo_start ''A''] create_v2_schema"

lemma demo_started_rows:
  "\<exists>r. run_command demo_env (demo_start ''A'') create_v2_schema = Inr (r, demo_started)"
proof -
  have "is_ok (run_command demo_env (demo_start ''A'') create_v2_schema)" by code_simp
  then show ?thesis
    by (auto simp: is_ok_iff demo_started_def run_all_def transact_def)
qed

theorem command_replays_witness:
  "\<exists>r. run_command demo_env (demo_start ''A'') reader_before = Inr (r, reader_before)"
proof -
  have "store_step\<^sup>*\<^sup>* demo_started reader_before"
    using run_all_later [of demo_started demo_env "take 1 (demo_read ''A'' ''a'')"]
    by (simp add: demo_started_def reader_before_def run_all_def)
  with command_replays [OF reachable.opened] demo_started_rows show ?thesis by blast
qed

theorem request_id_reuse_refused_witness:
  "run_command demo_env (TaskCancel (demo_ctx ''start'' ''A'') \<lparr>te_handoff = None\<rparr>) demo_started
     = Inl IdempotencyMismatch"
proof -
  obtain r where start: "run_command demo_env (demo_start ''A'') create_v2_schema = Inr (r, demo_started)"
    using demo_started_rows ..
  have ok: "validate_context demo_env (demo_ctx ''start'' ''A'') = Inr ()" by code_simp
  have kinds: "''task.cancel'' \<noteq> ''task.start''" by simp
  show ?thesis
    by (rule request_id_reuse_refused [OF reachable.opened start rtranclp.rtrancl_refl])
      (simp_all add: demo_start_def, simp_all add: ok kinds)
qed

end
