(* ===== verification/Store_Admission.thy ===== *)
theory Store_Admission
  imports Store_History
begin

section \<open>What an admission is worth\<close>

text \<open>
  A client may write only after \<open>write_prepare\<close> answered \<open>Ready\<close>, and may turn an offer into a
  lease only with \<open>lease_activate\<close>. This theory says what those two answers guarantee: the
  evidence they rest on, the rows they leave, and that every other task's evidence about the
  same resources is revoked. It also says how \<open>write_complete\<close> classifies a finished write.
\<close>

subsection \<open>Revoked evidence\<close>

lemma revoke_all_valid:
  assumes "e \<in> set (resource_evidence (fold revoke_one keys d))" "e_valid e"
  shows "e \<in> set (resource_evidence d) \<and> (e_evidence_id e, e_resource_id e) \<notin> set keys"
  using assms
proof (induction keys arbitrary: d)
  case (Cons key keys)
  from Cons.IH [of "revoke_one key d"] Cons.prems show ?case
    by (auto simp: revoke_one_def set_sql_update split: prod.splits)
qed simp

lemma revoke_overlapping_valid:
  assumes "e \<in> set (resource_evidence (revoke_overlapping ctx r ex d))" "e_valid e"
  shows "e \<in> set (resource_evidence d)"
    and "e_workspace_id e = cc_workspace_id ctx \<Longrightarrow> ex \<noteq> Some (e_task_id e) \<Longrightarrow>
      \<not> resource_keys_overlap r (evidence_key (cc_workspace_id ctx) e)"
  using revoke_all_valid [OF assms [unfolded revoke_overlapping_def]] assms(2)
  by (auto simp: revoked_evidence_def)

definition peer_evidence :: "command_context \<Rightarrow> evidence_row \<Rightarrow> bool" where
  "peer_evidence ctx e = (e_valid e \<and> e_workspace_id e = cc_workspace_id ctx \<and> e_task_id e \<noteq> cc_task_id ctx)"

lemma revoke_peers_valid:
  assumes "e \<in> set (resource_evidence (revoke_peers ctx rs d))" "peer_evidence ctx e"
  shows "e \<in> set (resource_evidence d)
    \<and> (\<forall>r \<in> set rs. \<not> resource_keys_overlap r (evidence_key (cc_workspace_id ctx) e))"
  using assms(1) unfolding revoke_peers_def
proof (induction rs arbitrary: d)
  case (Cons r rs)
  let ?d = "revoke_overlapping ctx r (Some (cc_task_id ctx)) d"
  from Cons.IH [of ?d] Cons.prems have e: "e \<in> set (resource_evidence ?d)"
    and rest: "\<forall>r \<in> set rs. \<not> resource_keys_overlap r (evidence_key (cc_workspace_id ctx) e)" by simp_all
  from revoke_overlapping_valid [OF e] assms(2) rest show ?case by (auto simp: peer_evidence_def)
qed simp

subsection \<open>A ready write\<close>

lemma write_wait_not_ready:
  "write_wait E ctx i active pending wanted conflicts reported d \<noteq> Inr (RPrepare (Ready a p bs), d')"
  by (auto simp: write_wait_def Let_def bindE_eq_Inr split: if_splits option.splits)

lemma append_audit_evidence: "append_audit E ctx ev p d = Inr d' \<Longrightarrow> resource_evidence d' = resource_evidence d"
  by (auto simp: append_audit_def new_uuid_def Let_def)

lemma ready_cases:
  assumes "write_prepare_op E ctx i d = Inr (RPrepare (Ready a p bs), d')"
  obtains reported current wanted lease d1 d3 j where
    "validate_write_prepare E ctx i d = Inr reported"
    "current_observations d (map obs_resource reported) = Inr current" "observations_same_state current reported"
    "has_current_evidence d ctx current None"
    "ensure_active_lease E ctx (active_task_lease ctx d) wanted (wp_lease_expires_at i) d = Inr (lease, d1)"
    "prepare_write_attempt E ctx i current lease (revoke_peers ctx wanted d1) = Inr (a, p, d3)"
    "append_audit E ctx ''write.prepared'' j d3 = Inr d'" "bs = [av_batch_id lease]"
proof -
  from assms obtain reported wanted where val: "validate_write_prepare E ctx i d = Inr reported"
    and "write_ready E ctx i (active_task_lease ctx d) wanted reported d = Inr (RPrepare (Ready a p bs), d')"
    by (auto simp: write_prepare_op_def Let_def write_wait_not_ready split: if_splits)
  then obtain current lease d1 d3 j where
    "current_observations d (map obs_resource reported) = Inr current" "observations_same_state current reported"
    "has_current_evidence d ctx current None"
    "ensure_active_lease E ctx (active_task_lease ctx d) wanted (wp_lease_expires_at i) d = Inr (lease, d1)"
    "prepare_write_attempt E ctx i current lease (revoke_peers ctx wanted d1) = Inr (a, p, d3)"
    "append_audit E ctx ''write.prepared'' j d3 = Inr d'" "bs = [av_batch_id lease]"
    by (auto simp: write_ready_def Let_def split: if_splits)
  with val show thesis by (rule that)
qed

lemma ready_executing:
  assumes "write_prepare_op E ctx i d = Inr (RPrepare (Ready a p bs), d')"
  obtains w where "w \<in> set (write_attempts d')" "wa_attempt_id w = a" "wa_permit_id w = p"
    "wa_workspace_id w = cc_workspace_id ctx" "wa_task_id w = cc_task_id ctx" "wa_status w = Executing"
    "wa_operation w = wp_operation i" "validate_operation_start (wp_operation i) (sort_observations (wp_current i)) = Inr ()"
proof -
  obtain reported current wanted lease d1 d3 j where
    val: "validate_write_prepare E ctx i d = Inr reported"
    and prep: "prepare_write_attempt E ctx i current lease (revoke_peers ctx wanted d1) = Inr (a, p, d3)"
    and audit: "append_audit E ctx ''write.prepared'' j d3 = Inr d'"
    by (rule ready_cases [OF assms]) blast
  obtain w rows f where w: "wa_attempt_id w = a" "wa_permit_id w = p" "wa_workspace_id w = cc_workspace_id ctx"
      "wa_task_id w = cc_task_id ctx" "wa_status w = Executing" "wa_operation w = wp_operation i"
    and rows: "insert_write_attempt_row w (write_attempts (revoke_peers ctx wanted d1)) = Inr rows"
      "core d3 = core ((revoke_peers ctx wanted d1)\<lparr>write_attempts := rows,
         lease_resources := map f (lease_resources (revoke_peers ctx wanted d1))\<rparr>)"
    by (rule prepare_write_attemptD [OF prep]) blast
  have "w \<in> set (write_attempts d')"
    using rows core_eqD(6) [OF rows(2)] core_eqD(6) [OF append_audit_core [OF audit]]
    by (simp add: insert_write_attempt_row_def sql_insert_eq_Inr)
  moreover have "validate_operation_start (wp_operation i) (sort_observations (wp_current i)) = Inr ()"
    using validate_write_prepareD [OF val] canonicalize_workspace(1) by metis
  ultimately show thesis using w that by blast
qed

lemma current_observation_resource: "current_observation d k = Inr ob \<Longrightarrow> obs_resource ob = k"
  by (auto simp: current_observation_def split: if_splits resource_kind.splits)

lemma current_observationsD:
  "current_observations d rs = Inr obs \<Longrightarrow> ob \<in> set obs \<Longrightarrow> current_observation d (obs_resource ob) = Inr ob"
  using current_observation_resource
  by (fastforce simp: current_observations_def sort_observations_def dest: mapE_setD)

text \<open>
  C4. What \<open>Ready\<close> means: the database records exactly the states the client reported, the
  task has valid, complete, stable and exact evidence of each of them, the reported resources
  are those the operation touches, the attempt with the returned permit is executing under the
  returned lease with that operation, and no other task of the workspace has valid evidence
  that overlaps a resource to be written.
\<close>

theorem ready_is_justified:
  assumes "write_prepare_op E ctx i d = Inr (RPrepare (Ready a p bs), d')"
  shows "\<exists>w \<in> set (write_attempts d').
    wa_attempt_id w = a \<and> wa_permit_id w = p \<and> bs = [wa_batch_id w] \<and> wa_status w = Executing
    \<and> wa_workspace_id w = cc_workspace_id ctx \<and> wa_task_id w = cc_task_id ctx \<and> wa_operation w = wp_operation i
    \<and> observations_same_state (wa_start_observations w) (sort_observations (wp_current i))
    \<and> validate_operation_start (wp_operation i) (sort_observations (wp_current i)) = Inr ()
    \<and> (\<forall>ob \<in> set (wa_start_observations w). current_observation d (obs_resource ob) = Inr ob)
    \<and> has_current_evidence d ctx (wa_start_observations w) None
    \<and> (\<forall>ob \<in> set (wa_start_observations w). \<forall>e \<in> set (resource_evidence d'). peer_evidence ctx e \<longrightarrow>
         \<not> resource_keys_overlap (obs_resource ob) (evidence_key (cc_workspace_id ctx) e))"
proof -
  obtain reported current wanted lease d1 d3 j where
    val: "validate_write_prepare E ctx i d = Inr reported"
    and cur: "current_observations d (map obs_resource reported) = Inr current"
      "observations_same_state current reported" "has_current_evidence d ctx current None"
    and prep: "prepare_write_attempt E ctx i current lease (revoke_peers ctx wanted d1) = Inr (a, p, d3)"
    and audit: "append_audit E ctx ''write.prepared'' j d3 = Inr d'" and bs: "bs = [av_batch_id lease]"
    by (rule ready_cases [OF assms]) blast
  obtain w rows f where w: "wa_attempt_id w = a" "wa_permit_id w = p" "wa_workspace_id w = cc_workspace_id ctx"
      "wa_task_id w = cc_task_id ctx" "wa_batch_id w = av_batch_id lease" "wa_start_observations w = current"
      "wa_status w = Executing" "wa_operation w = wp_operation i"
    and rows: "insert_write_attempt_row w (write_attempts (revoke_peers ctx wanted d1)) = Inr rows"
      "core d3 = core ((revoke_peers ctx wanted d1)\<lparr>write_attempts := rows,
         lease_resources := map f (lease_resources (revoke_peers ctx wanted d1))\<rparr>)"
    and ev: "resource_evidence d3 = resource_evidence (revoke_peers ctx (map obs_resource current) (revoke_peers ctx wanted d1))"
    by (rule prepare_write_attemptD [OF prep]) blast
  have "reported = sort_observations (wp_current i)" "validate_operation_start (wp_operation i) reported = Inr ()"
    using validate_write_prepareD [OF val] canonicalize_workspace(1) by metis+
  moreover have "w \<in> set (write_attempts d')"
    using rows core_eqD(6) [OF rows(2)] core_eqD(6) [OF append_audit_core [OF audit]]
    by (simp add: insert_write_attempt_row_def sql_insert_eq_Inr)
  moreover have "\<not> resource_keys_overlap (obs_resource ob) (evidence_key (cc_workspace_id ctx) e)"
    if "ob \<in> set current" "e \<in> set (resource_evidence d')" "peer_evidence ctx e" for ob e
    using revoke_peers_valid [of e ctx "map obs_resource current"] that ev append_audit_evidence [OF audit] by auto
  moreover have "current_observation d (obs_resource ob) = Inr ob" if "ob \<in> set current" for ob
    by (rule current_observationsD [OF cur(1) that])
  ultimately show ?thesis using w bs cur by (intro bexI [of _ w]) auto
qed

subsection \<open>An activated offer\<close>

lemma insert_active_lease_row:
  assumes "insert_active_lease ctx batch v rs ex d = Inr d'"
  obtains l where "active_leases d' = active_leases d @ [l]" "l_batch_id l = batch" "l_agent_id l = cc_agent_id ctx"
    "is_task_lease (cc_workspace_id ctx) (cc_task_id ctx) l" "l_state l = LeaseActive" "l_version l = v"
    "lease_requests d' = lease_requests d" "resource_evidence d' = resource_evidence d"
proof -
  have keep: "active_leases b = active_leases a \<and> lease_requests b = lease_requests a \<and> resource_evidence b = resource_evidence a"
    if "foldE (insert_lease_resource batch) rs a = Inr b" for a b
    by (rule foldE_relation [where R = "\<lambda>a b. active_leases b = active_leases a \<and> lease_requests b = lease_requests a
        \<and> resource_evidence b = resource_evidence a", OF that]) (auto simp: insert_lease_resource_def)
  from assms show thesis
    by (auto simp: insert_active_lease_def insert_lease_row_def sql_insert_eq_Inr bind_u64_def is_task_lease_def
        split: if_splits dest!: keep intro!: that)
qed

text \<open>
  C5. What an activation means: the task holds the named offer (same offer id and version, not
  expired, cancelled or superseded), it has read every resource of the request again since the
  offer was made, the batch becomes an active lease of the task's agent, every other task's
  evidence about those resources is revoked, and the offer is used up: no later activation of
  the same batch succeeds in the new database.
\<close>

theorem activation_is_justified:
  assumes "lease_inv d" "lease_activate_op E ctx i d = Inr (activate_result (la_batch_id i) True, d')"
  shows "(\<exists>q \<in> set (lease_requests d). q_batch_id q = la_batch_id i \<and> q_workspace_id q = cc_workspace_id ctx
        \<and> q_task_id q = cc_task_id ctx \<and> q_state q = QOffered \<and> q_offer_id q = Some (la_offer_id i)
        \<and> q_version q = la_version i
        \<and> (\<exists>obs at. q_offered_at q = Some at \<and> current_observations d (request_resources (la_batch_id i) d) = Inr obs
             \<and> has_current_evidence d ctx obs (Some at)))
    \<and> (\<exists>l \<in> set (active_leases d'). l_batch_id l = la_batch_id i \<and> l_agent_id l = cc_agent_id ctx
        \<and> is_task_lease (cc_workspace_id ctx) (cc_task_id ctx) l \<and> l_state l = LeaseActive)
    \<and> (\<forall>k \<in> set (request_resources (la_batch_id i) d). \<forall>e \<in> set (resource_evidence d'). peer_evidence ctx e \<longrightarrow>
         \<not> resource_keys_overlap k (evidence_key (cc_workspace_id ctx) e))
    \<and> (\<forall>E' i' r'' d''. la_batch_id i' = la_batch_id i \<longrightarrow> lease_activate_op E' ctx i' d' = Inr (r'', d'') \<longrightarrow>
         r'' = activate_result (la_batch_id i) False \<and> d'' = d')"
proof (rule lease_activate_opD [OF assms(2)], goal_cases)
  case 1
  then show ?case by (simp add: activate_result_def)
next
  case (2 v t offered_at obs version d1 d3)
  obtain q where q: "q \<in> set (lease_requests d)" "q_batch_id q = la_batch_id i" "q_workspace_id q = cc_workspace_id ctx"
      "q_task_id q = cc_task_id ctx" "rv_state v = q_state q" "rv_version v = q_version q"
      "rv_offer_id v = q_offer_id q" "rv_offered_at v = q_offered_at q"
      "rv_resources v = request_resources (q_batch_id q) d"
    by (rule lease_request_rowD [OF 2(1)])
  obtain l where l: "active_leases d1 = active_leases d @ [l]" "l_batch_id l = la_batch_id i" "l_agent_id l = cc_agent_id ctx"
      "is_task_lease (cc_workspace_id ctx) (cc_task_id ctx) l" "l_state l = LeaseActive"
      "lease_requests d1 = lease_requests d"
    by (rule insert_active_lease_row [OF 2(14)])
  let ?p = "\<lambda>q. q_workspace_id q = cc_workspace_id ctx \<and> q_task_id q = cc_task_id ctx
    \<and> q_batch_id q = la_batch_id i \<and> q_state q = QOffered \<and> q_version q = la_version i"
  let ?f = "\<lambda>q. q\<lparr>q_state := QActivated, q_version := version, q_updated_at := cc_observed_at ctx\<rparr>"
  let ?dr = "revoke_peers ctx (rv_resources v) d1"
  have d3: "d3 = ?dr\<lparr>lease_requests := sql_update ?p ?f (lease_requests ?dr)\<rparr>"
    using 2(15) by (auto simp: activate_request_def Let_def split: if_splits)
  have rows: "lease_requests d' = sql_update ?p ?f (lease_requests d)" "active_leases d' = active_leases d @ [l]"
    using core_eqD [OF 2(16)] core_eqD [OF revoke_peers_core] l(1,6) by (simp_all add: d3)
  have used: "q_state r \<noteq> QOffered" if "r \<in> set (lease_requests d')" "q_batch_id r = la_batch_id i" for r
    using that(1) unfolding rows(1)
  proof (cases rule: in_sql_updateE)
    case 1
    have "r = q" by (rule one_request_per_batch [OF lease_invD(1) [OF assms(1)] 1(1) q(1)]) (simp add: that(2) q(2))
    with 1(2) q 2(6,8) show ?thesis by simp
  qed simp
  have "r'' = activate_result (la_batch_id i) False \<and> d'' = d'"
    if "la_batch_id i' = la_batch_id i" "lease_activate_op E' ctx i' d' = Inr (r'', d'')" for E' i' r'' d''
  proof (rule lease_activate_opD [OF that(2)], goal_cases)
    case 1
    with that(1) show ?case by simp
  next
    case (2 v')
    from lease_request_rowD [OF 2(1)] used that(1) 2(6) show ?case by metis
  qed
  moreover have "\<not> resource_keys_overlap k (evidence_key (cc_workspace_id ctx) e)"
    if "k \<in> set (request_resources (la_batch_id i) d)" "e \<in> set (resource_evidence d')" "peer_evidence ctx e" for k e
    using revoke_peers_valid [of e ctx "rv_resources v" d1] that 2(18) q(2,9) by (simp add: d3)
  ultimately show ?case
    using q l rows(2) 2(6-11) by (intro conjI bexI [of _ q] bexI [of _ l] exI [of _ obs] exI [of _ offered_at]) auto
qed

subsection \<open>A completed write\<close>

lemma invalidate_valid:
  assumes "e \<in> set (resource_evidence (invalidate_uncertain_write ctx obs d))" "e_valid e"
    "e_workspace_id e = cc_workspace_id ctx"
  shows "\<forall>ob \<in> set obs. \<not> resource_keys_overlap (obs_resource ob) (evidence_key (cc_workspace_id ctx) e)"
proof -
  have "e \<in> set (resource_evidence d) \<and> (\<forall>ob \<in> set obs. \<not> resource_keys_overlap (obs_resource ob)
      (evidence_key (cc_workspace_id ctx) e))"
    using assms(1) unfolding invalidate_uncertain_write_def
  proof (induction obs arbitrary: d)
    case (Cons ob obs)
    with revoke_overlapping_valid [of e ctx "obs_resource ob" None d] assms(2,3) show ?case by simp
  qed simp
  then show ?thesis ..
qed

lemma settle_lease_frame:
  assumes "settle_lease st batch d = (b, d')"
  shows "write_attempts d' = write_attempts d" "resource_evidence d' = resource_evidence d"
    "set (lease_resources d') \<subseteq> set (lease_resources d)"
  using assms by (auto simp: settle_lease_def delete_leases_def drain_leases_def Let_def split: if_splits)

lemma finish_draining_task_frame:
  assumes "finish_draining_task ctx d = (b, d')"
  shows "write_attempts d' = write_attempts d" "resource_evidence d' = resource_evidence d"
    "set (lease_resources d') \<subseteq> set (lease_resources d)"
  using assms by (auto simp: finish_draining_task_def delete_leases_def Let_def split: option.splits if_splits)

text \<open>The status a completion gives the attempt, from the client's report.\<close>

lemma classify_completionD:
  assumes "classify_completion ctx i w d = Inr (st, own, d1)"
  shows "st = WCompleted \<longleftrightarrow> wc_terminal i = TSuccess \<and> wc_expected_post_resources i \<noteq> []
      \<and> is_ok (validate_operation_transition (wa_operation w) (wa_start_observations w)
           (sort_observations (wc_expected_post_resources i)) (sort_observations (wc_post_resources i)))"
    and "st = WFailed \<longleftrightarrow> wc_terminal i = TFailedKnown
      \<and> observations_same_state (wa_start_observations w) (sort_observations (wc_post_resources i))"
    and "st = WUncertain \<Longrightarrow> own = None \<and> d1 = invalidate_uncertain_write ctx (wa_start_observations w) d"
proof -
  from assms obtain actual expected where
    can: "canonicalize_observations ctx (wc_post_resources i) = Inr actual"
      "canonicalize_observations ctx (wc_expected_post_resources i) = Inr expected"
    by (auto simp: classify_completion_def)
  note eqs = canonicalize_workspace(1) [OF can(1)] canonicalize_workspace(1) [OF can(2)]
  have ne: "sort_observations xs = [] \<longleftrightarrow> xs = []" for xs
    by (metis length_0_conv length_sort sort_observations_def)
  from assms show "st = WCompleted \<longleftrightarrow> wc_terminal i = TSuccess \<and> wc_expected_post_resources i \<noteq> []
      \<and> is_ok (validate_operation_transition (wa_operation w) (wa_start_observations w)
           (sort_observations (wc_expected_post_resources i)) (sort_observations (wc_post_resources i)))"
    "st = WFailed \<longleftrightarrow> wc_terminal i = TFailedKnown
      \<and> observations_same_state (wa_start_observations w) (sort_observations (wc_post_resources i))"
    "st = WUncertain \<Longrightarrow> own = None \<and> d1 = invalidate_uncertain_write ctx (wa_start_observations w) d"
    by (auto simp: classify_completion_def can Let_def eqs ne split: if_splits)
qed

text \<open>What the steps of a completion leave behind.\<close>

lemma completion_rows:
  assumes "completion_steps E ctx i w d st d'"
  obtains own d1 where "classify_completion ctx i w d = Inr (st, own, d1)"
    "write_attempts d' = sql_update (\<lambda>a. wa_attempt_id a = wc_attempt_id i \<and> wa_status a = Executing)
      (\<lambda>a. a\<lparr>wa_status := write_row_status_of st, wa_completed_at := Some (cc_observed_at ctx),
        wa_terminal_result := Some i\<rparr>) (write_attempts d)"
    "\<forall>lr \<in> set (lease_resources d'). lr_in_flight_attempt_id lr \<noteq> Some (wc_attempt_id i)"
    "own = None \<longrightarrow> resource_evidence d' = resource_evidence d1"
proof -
  from assms obtain own d1 d2 d3 released d4 finished d5 d6 p where
    d1: "classify_completion ctx i w d = Inr (st, own, d1)" and d2: "finish_attempt ctx i st d1 = Inr d2"
    and d3: "(case own of None \<Rightarrow> Inr d2
            | Some obs \<Rightarrow> insert_own_write_evidence E ctx (wc_attempt_id i) obs d2) = Inr d3"
    and d4: "settle_lease st (wa_batch_id w) (release_slots (wc_attempt_id i) d3) = (released, d4)"
    and d5: "finish_draining_task ctx d4 = (finished, d5)"
    and d6: "(if released \<or> finished then promote_waiters E (cc_observed_at ctx) d5 else Inr d5) = Inr d6"
    and d': "append_audit E ctx ''write.completed'' p d6 = Inr d'"
    unfolding completion_steps_def by blast
  have d65: "write_attempts d6 = write_attempts d5" "lease_resources d6 = lease_resources d5"
      "resource_evidence d6 = resource_evidence d5"
    using d6 by (auto split: if_splits dest: promote_waiters_keeps)
  note frames = settle_lease_frame [OF d4] finish_draining_task_frame [OF d5] d65
    core_eqD [OF append_audit_core [OF d']] append_audit_evidence [OF d']
  have "core d3 = core d2" using d3 by (auto split: option.splits dest: insert_own_write_evidence_core)
  note eqs = core_eqD(6) [OF this] core_eqD(6) [OF classify_completion_core [OF d1]]
  show thesis
  proof (rule that [OF d1])
    show "\<forall>lr \<in> set (lease_resources d'). lr_in_flight_attempt_id lr \<noteq> Some (wc_attempt_id i)"
    proof
      fix lr assume "lr \<in> set (lease_resources d')"
      with frames have "lr \<in> set (lease_resources (release_slots (wc_attempt_id i) d3))" by auto
      then show "lr_in_flight_attempt_id lr \<noteq> Some (wc_attempt_id i)"
        by (auto simp: release_slots_def elim!: in_sql_updateE)
    qed
    have d2': "d2 = d1\<lparr>write_attempts := sql_update (\<lambda>a. wa_attempt_id a = wc_attempt_id i \<and> wa_status a = Executing)
      (\<lambda>a. a\<lparr>wa_status := write_row_status_of st, wa_completed_at := Some (cc_observed_at ctx),
        wa_terminal_result := Some i\<rparr>) (write_attempts d1)\<rparr>"
      using d2 by (auto simp: finish_attempt_def Let_def split: if_splits)
    show "write_attempts d' = sql_update (\<lambda>a. wa_attempt_id a = wc_attempt_id i \<and> wa_status a = Executing)
      (\<lambda>a. a\<lparr>wa_status := write_row_status_of st, wa_completed_at := Some (cc_observed_at ctx),
        wa_terminal_result := Some i\<rparr>) (write_attempts d)"
      using frames eqs by (simp add: release_slots_def d2')
    show "own = None \<longrightarrow> resource_evidence d' = resource_evidence d1"
      using frames d3 by (auto simp: release_slots_def d2')
  qed
qed

text \<open>
  C6. How a write ends: a completion is accepted only for an executing attempt with its own
  permit and invocation, and ends it for good. It counts as completed exactly when the client
  reports success and the observed transition is the one the operation stands for, as failed
  exactly when the client reports failure and nothing has changed, and as uncertain otherwise;
  then no evidence of any task about those resources stays valid. No resource stays marked with
  the attempt.
\<close>

theorem completion_classified:
  assumes "lease_inv d" "write_complete_op E ctx i d = Inr (r, d')"
  shows "\<exists>w st. w \<in> set (write_attempts d) \<and> wa_attempt_id w = wc_attempt_id i \<and> wa_permit_id w = wc_permit_id i
    \<and> wa_invocation_id w = wc_invocation_id i \<and> wa_task_id w = cc_task_id ctx \<and> wa_status w = Executing
    \<and> r = RComplete \<lparr>wcr_attempt_id = wc_attempt_id i, wcr_status = st\<rparr>
    \<and> (st = WCompleted \<longleftrightarrow> wc_terminal i = TSuccess \<and> wc_expected_post_resources i \<noteq> []
         \<and> is_ok (validate_operation_transition (wa_operation w) (wa_start_observations w)
              (sort_observations (wc_expected_post_resources i)) (sort_observations (wc_post_resources i))))
    \<and> (st = WFailed \<longleftrightarrow> wc_terminal i = TFailedKnown
         \<and> observations_same_state (wa_start_observations w) (sort_observations (wc_post_resources i)))
    \<and> (st = WUncertain \<longrightarrow> (\<forall>e \<in> set (resource_evidence d'). e_valid e \<and> e_workspace_id e = cc_workspace_id ctx \<longrightarrow>
         (\<forall>ob \<in> set (wa_start_observations w). \<not> resource_keys_overlap (obs_resource ob)
            (evidence_key (cc_workspace_id ctx) e))))
    \<and> (\<forall>w' \<in> set (write_attempts d'). wa_attempt_id w' = wc_attempt_id i \<longrightarrow> wa_status w' = write_row_status_of st)
    \<and> (\<forall>lr \<in> set (lease_resources d'). lr_in_flight_attempt_id lr \<noteq> Some (wc_attempt_id i))"
proof (rule write_complete_opD [OF assms(2)], goal_cases)
  case (1 w st)
  obtain own d1 where d1: "classify_completion ctx i w d = Inr (st, own, d1)"
    and rows: "write_attempts d' = sql_update (\<lambda>a. wa_attempt_id a = wc_attempt_id i \<and> wa_status a = Executing)
      (\<lambda>a. a\<lparr>wa_status := write_row_status_of st, wa_completed_at := Some (cc_observed_at ctx),
        wa_terminal_result := Some i\<rparr>) (write_attempts d)"
    and free: "\<forall>lr \<in> set (lease_resources d'). lr_in_flight_attempt_id lr \<noteq> Some (wc_attempt_id i)"
    and ev: "own = None \<longrightarrow> resource_evidence d' = resource_evidence d1"
    by (rule completion_rows [OF 1(8)])
  have "wa_status w' = write_row_status_of st"
    if "w' \<in> set (write_attempts d')" "wa_attempt_id w' = wc_attempt_id i" for w'
    using that(1) unfolding rows
  proof (cases rule: in_sql_updateE)
    case old: 1
    from one_attempt [OF lease_invD(1) [OF assms(1)] old(1) 1(1)] that(2) 1(2) have "w' = w" by simp
    with old(2) that(2) 1(5) show ?thesis by simp
  qed simp
  moreover have "\<forall>ob \<in> set (wa_start_observations w). \<not> resource_keys_overlap (obs_resource ob) (evidence_key (cc_workspace_id ctx) e)"
    if "st = WUncertain" "e \<in> set (resource_evidence d')" "e_valid e" "e_workspace_id e = cc_workspace_id ctx" for e
    using classify_completionD(3) [OF d1 that(1)] ev that invalidate_valid by metis
  ultimately show ?case
    using 1 free classify_completionD(1,2) [OF d1] by (intro exI [of _ w] exI [of _ st]) blast
qed

subsection \<open>Witnesses\<close>

text \<open>The reader of the example asks to create its file, and reports that it does not know how that went.\<close>

lemma reader_ready:
  obtains a p bs d' where "write_prepare_op demo_env (demo_ctx ''write-a'' ''A'') (demo_prepare_input ''a'') reader_after
    = Inr (RPrepare (Ready a p bs), d')"
proof -
  have "case write_prepare_op demo_env (demo_ctx ''write-a'' ''A'') (demo_prepare_input ''a'') reader_after of
      Inr (RPrepare (Ready a p bs), d') \<Rightarrow> True | _ \<Rightarrow> False"
    by code_simp
  then show thesis
    by (auto intro: that split: sum.splits prod.splits command_response.splits write_prepare_result.splits)
qed

theorem ready_is_justified_witness:
  "\<exists>a p bs d'. write_prepare_op demo_env (demo_ctx ''write-a'' ''A'') (demo_prepare_input ''a'') reader_after
      = Inr (RPrepare (Ready a p bs), d')
    \<and> (\<exists>w \<in> set (write_attempts d'). wa_attempt_id w = a \<and> wa_operation w = Create ''a'')"
proof (rule reader_ready)
  fix a p bs d' assume r: "write_prepare_op demo_env (demo_ctx ''write-a'' ''A'') (demo_prepare_input ''a'') reader_after
      = Inr (RPrepare (Ready a p bs), d')"
  from ready_is_justified [OF r] r show ?thesis by (auto simp: demo_prepare_input_def)
qed

definition one_writer :: db where
  "one_writer = run_all demo_env [demo_prepare ''A'' ''a''] reader_after"

definition demo_lost :: write_complete_input where
  "demo_lost = \<lparr>wc_attempt_id = ''8'', wc_permit_id = ''9'', wc_invocation_id = ''a'', wc_terminal = TUncertain,
     wc_post_resources = [], wc_expected_post_resources = [], wc_error = None\<rparr>"

lemma one_writer_inv: "lease_inv one_writer"
  unfolding one_writer_def reader_after_def
  by (intro reachable_inv run_all_reachable reader_reachable)

theorem completion_classified_witness:
  "\<exists>d'. write_complete_op demo_env (demo_ctx ''lost'' ''A'') demo_lost one_writer
      = Inr (RComplete \<lparr>wcr_attempt_id = ''8'', wcr_status = WUncertain\<rparr>, d')
    \<and> (\<forall>lr \<in> set (lease_resources d'). lr_in_flight_attempt_id lr \<noteq> Some ''8'')"
proof -
  have "is_ok (write_complete_op demo_env (demo_ctx ''lost'' ''A'') demo_lost one_writer)" by code_simp
  then obtain r d' where c: "write_complete_op demo_env (demo_ctx ''lost'' ''A'') demo_lost one_writer = Inr (r, d')"
    by (auto simp: is_ok_iff)
  from completion_classified [OF one_writer_inv c] obtain st where
    r: "r = RComplete \<lparr>wcr_attempt_id = ''8'', wcr_status = st\<rparr>" and "st \<noteq> WCompleted" "st \<noteq> WFailed"
    and free: "\<forall>lr \<in> set (lease_resources d'). lr_in_flight_attempt_id lr \<noteq> Some ''8''"
    by (auto simp: demo_lost_def)
  then have "st = WUncertain" by (cases st) simp_all
  with c r free show ?thesis by auto
qed

text \<open>In the waiting line of the example, \<open>C\<close> has its offer and has read the entry again.\<close>

definition reread_entry :: "db \<Rightarrow> db" where
  "reread_entry d = d
     \<lparr>resources := [\<lparr>r_workspace_id = ''w'', r_resource_id = ''entry:1:2:c'', r_kind = Entry,
        r_canonical_path = ''c'', r_state = EntrySt EntryAbsent, r_generation = 1, r_updated_at = ''0''\<rparr>],
      resource_evidence := [\<lparr>e_evidence_id = ''e'', e_workspace_id = ''w'', e_task_id = ''C'',
        e_source_kind = SourceRead, e_source_id = ''r'', e_resource_id = ''entry:1:2:c'',
        e_resource_kind = Entry, e_canonical_path = ''c'', e_observation = demo_entry ''c'' 1, e_generation = 1,
        e_complete = True, e_stable = True, e_exact = True, e_valid = True, e_recorded_at = ''1'',
        e_read_started_at = Some ''1''\<rparr>]\<rparr>"

definition offered_line :: db where
  "offered_line = (case promote_waiters demo_env ''0'' waiting_line of
     Inl _ \<Rightarrow> waiting_line | Inr d \<Rightarrow> reread_entry d)"

lemma offered_line_inv: "lease_inv offered_line"
proof -
  have "core (reread_entry d) = core d" for d by (simp add: reread_entry_def)
  then have "lease_inv (reread_entry d) = lease_inv d" for d by (rule lease_inv_core)
  then show ?thesis
    using waiting_line_inv promote_waiters_inv by (auto simp: offered_line_def split: sum.splits)
qed

definition demo_activation :: lease_activate_input where
  "demo_activation = \<lparr>la_batch_id = ''batch-C'', la_offer_id = ''0'', la_version = 2, la_lease_expires_at = ''9''\<rparr>"

theorem activation_is_justified_witness:
  "\<exists>d'. lease_activate_op demo_env (demo_ctx ''act'' ''C'') demo_activation offered_line
      = Inr (activate_result ''batch-C'' True, d')
    \<and> (\<exists>l \<in> set (active_leases d'). l_batch_id l = ''batch-C'' \<and> l_agent_id l = ''agent-C'')"
proof -
  have "case lease_activate_op demo_env (demo_ctx ''act'' ''C'') demo_activation offered_line of
      Inr (r, d') \<Rightarrow> r = activate_result ''batch-C'' True | _ \<Rightarrow> False" by code_simp
  then obtain d' where a: "lease_activate_op demo_env (demo_ctx ''act'' ''C'') demo_activation offered_line
      = Inr (activate_result (la_batch_id demo_activation) True, d')"
    by (auto simp: demo_activation_def split: sum.splits prod.splits)
  from activation_is_justified [OF offered_line_inv a] a show ?thesis
    by (auto simp: demo_activation_def demo_ctx_def)
qed

end
