(* ===== verification/Store_Resources.thy ===== *)
theory Store_Resources
  imports Store_History
begin

section \<open>The resource table as a map\<close>

text \<open>
  The abstract specification of what the store remembers about the world: a map from a
  resource (workspace and id) to its kind, its state and a generation, which an observation
  updates with \<open>observe\<close>. \<open>sync_observations\<close>, which works on the table row by row and revokes
  evidence on the way, refines it.
\<close>

type_synonym resource_view = "string \<times> string \<rightharpoonup> resource_kind \<times> resource_state \<times> nat"

definition view_key :: "resource_key \<Rightarrow> string \<times> string" where
  "view_key k = (rk_workspace_id k, rk_resource_id k)"

definition resource_view :: "db \<Rightarrow> resource_view" where
  "resource_view d = (\<lambda>(ws, rid). map_option (\<lambda>r. (r_kind r, r_state r, r_generation r))
     (sql_first (\<lambda>r. r_workspace_id r = ws \<and> r_resource_id r = rid) (resources d)))"

text \<open>A new resource has generation 1; a change of kind or state starts a new generation.\<close>

fun observe :: "resource_observation \<Rightarrow> (resource_kind \<times> resource_state \<times> nat) option
    \<Rightarrow> resource_kind \<times> resource_state \<times> nat" where
  "observe ob None = (rk_kind (obs_resource ob), observed_state ob, 1)"
| "observe ob (Some (k, s, g)) =
     (if k \<noteq> rk_kind (obs_resource ob) \<or> state_json s \<noteq> observation_state_json ob
      then (rk_kind (obs_resource ob), observed_state ob, g + 1) else (k, s, g))"

definition observe_in :: "resource_observation \<Rightarrow> resource_view \<times> resource_observation list
    \<Rightarrow> resource_view \<times> resource_observation list" where
  "observe_in ob = (\<lambda>(m, out). let v = observe ob (m (view_key (obs_resource ob))) in
     (m(view_key (obs_resource ob) \<mapsto> v), out @ [with_generation ob (snd (snd v))]))"

lemma observe_in_pair:
  "observe_in ob (m, out) = (m(view_key (obs_resource ob) \<mapsto> observe ob (m (view_key (obs_resource ob)))),
     out @ [with_generation ob (snd (snd (observe ob (m (view_key (obs_resource ob))))))])"
  by (simp add: observe_in_def Let_def)

subsection \<open>One observation\<close>

lemma view_lookup:
  "resource_view d (view_key k) = map_option (\<lambda>r. (r_kind r, r_state r, r_generation r)) (sql_first (is_resource k) (resources d))"
  by (simp add: resource_view_def view_key_def is_resource_def [abs_def])

lemma resource_view_cong: "resources d' = resources d \<Longrightarrow> resource_view d' = resource_view d"
  by (simp add: resource_view_def)

lemma find_map_same: "(\<And>x. P (f x) = P x) \<Longrightarrow> List.find P (map f xs) = map_option f (List.find P xs)"
  by (induction xs) auto

lemma find_append_cases:
  "List.find P (xs @ [y]) = (case List.find P xs of None \<Rightarrow> (if P y then Some y else None) | Some z \<Rightarrow> Some z)"
  by (induction xs) auto

lemma sync_resource_refines:
  assumes "sync_resource ctx ob d = Inr (g, d')"
  shows "resource_view d' = (resource_view d)(view_key (obs_resource ob) \<mapsto> observe ob (resource_view d (view_key (obs_resource ob))))
    \<and> g = snd (snd (observe ob (resource_view d (view_key (obs_resource ob)))))"
proof -
  let ?k = "obs_resource ob" and ?d = "revoke_overlapping ctx (obs_resource ob) None d"
  have keep: "resources ?d = resources d" by (simp add: ledger_eqD(2) [OF evidence_ledger(1)])
  show ?thesis
  proof (cases "sql_first (is_resource ?k) (resources d)")
    case None
    define row where "row = \<lparr>r_workspace_id = rk_workspace_id ?k, r_resource_id = rk_resource_id ?k,
      r_kind = rk_kind ?k, r_canonical_path = rk_canonical_path ?k,
      r_state = observed_state ob, r_generation = 1, r_updated_at = cc_observed_at ctx\<rparr>"
    from assms keep have d': "resources d' = resources d @ [row]" "g = 1"
      unfolding sync_resource_def Let_def None option.case row_def by auto
    have old: "resource_view d (view_key ?k) = None" unfolding view_lookup None by simp
    have "resource_view d' k = ((resource_view d)(view_key ?k \<mapsto> observe ob None)) k" for k
      using old by (cases k) (auto simp: resource_view_def d' sql_first_def find_append_cases row_def view_key_def
          split: option.splits)
    with old d'(2) show ?thesis by (auto simp: fun_eq_iff)
  next
    case (Some row)
    have old: "resource_view d (view_key ?k) = Some (r_kind row, r_state row, r_generation row)"
      unfolding view_lookup Some by simp
    show ?thesis
    proof (cases "r_kind row \<noteq> rk_kind ?k \<or> state_json (r_state row) \<noteq> observation_state_json ob")
      case True
      let ?f = "\<lambda>row. row\<lparr>r_kind := rk_kind ?k, r_state := observed_state ob, r_generation := g,
        r_updated_at := cc_observed_at ctx\<rparr>"
      from True Some assms keep have d': "resources d' = sql_update (is_resource ?k) ?f (resources d)"
          and g: "g = r_generation row + 1"
        by (auto simp: sync_resource_def Let_def bind_u64_def split: if_splits)
      have "resource_view d' k = ((resource_view d)(view_key ?k \<mapsto> observe ob (resource_view d (view_key ?k)))) k" for k
      proof -
        obtain ws rid where k: "k = (ws, rid)" by (cases k)
        have found: "List.find (\<lambda>r. r_workspace_id r = ws \<and> r_resource_id r = rid) (resources d')
            = map_option (\<lambda>r. if is_resource ?k r then ?f r else r)
                (List.find (\<lambda>r. r_workspace_id r = ws \<and> r_resource_id r = rid) (resources d))"
          unfolding d' sql_update_def by (rule find_map_same) simp
        have hit: "is_resource ?k r \<longleftrightarrow> k = view_key ?k"
          if "List.find (\<lambda>r. r_workspace_id r = ws \<and> r_resource_id r = rid) (resources d) = Some r" for r
          using that by (auto simp: k find_Some_iff is_resource_def view_key_def)
        have views: "resource_view d k = map_option (\<lambda>r. (r_kind r, r_state r, r_generation r))
            (List.find (\<lambda>r. r_workspace_id r = ws \<and> r_resource_id r = rid) (resources d))"
          "resource_view d' k = map_option (\<lambda>r. (r_kind r, r_state r, r_generation r))
            (List.find (\<lambda>r. r_workspace_id r = ws \<and> r_resource_id r = rid) (resources d'))"
          by (simp_all add: resource_view_def k sql_first_def)
        show ?thesis
        proof (cases "List.find (\<lambda>r. r_workspace_id r = ws \<and> r_resource_id r = rid) (resources d)")
          case None
          with old views(1) have "k \<noteq> view_key ?k" by auto
          with None views found show ?thesis by simp
        next
          case (Some r)
          with hit [OF Some] views found old True g show ?thesis by (cases "k = view_key ?k") auto
        qed
      qed
      with True g old show ?thesis by (auto simp: fun_eq_iff)
    next
      case False
      with Some assms show ?thesis
        using old by (auto simp: sync_resource_def Let_def fun_upd_idem_iff)
    qed
  qed
qed

subsection \<open>All observations of a command\<close>

text \<open>
  C12. Recording observations refines the abstract map: what \<open>sync_observations\<close> leaves in the
  resource table, and the generations it returns, are those of observing the resources one
  after the other, in their canonical order, in the map the table stands for.
\<close>

theorem observations_refine_view:
  assumes "sync_observations ctx input d = Inr (obs, d')"
  shows "(resource_view d', obs) = fold observe_in (sort_observations input) (resource_view d, [])"
proof -
  from assms obtain seen where
    "foldE (sync_step ctx) (sort_observations input) ([], [], d) = Inr (seen, obs, d')"
    by (auto simp: sync_observations_def)
  moreover have "foldE (sync_step ctx) xs (s, out, d) = Inr (s', out', d') \<Longrightarrow>
      (resource_view d', out') = fold observe_in xs (resource_view d, out)" for xs s out d s' out'
  proof (induction xs arbitrary: s out d)
    case (Cons ob xs)
    from Cons.prems obtain g d1 where sync: "sync_resource ctx ob d = Inr (g, d1)"
      and rest: "foldE (sync_step ctx) xs (rk_identity (obs_resource ob) # s, out @ [with_generation ob g],
        insert_alias (obs_resource ob) d1) = Inr (s', out', d')"
      by (auto simp: sync_step_def [of ctx ob])
    have same: "resource_view (insert_alias (obs_resource ob) d1) = resource_view d1"
      by (rule resource_view_cong) (simp add: ledger_eqD(2) [OF evidence_ledger(4)])
    note sync_resource_refines [OF sync]
    then show ?case
      using Cons.IH [OF rest] unfolding same fold_simps observe_in_pair by metis
  qed simp
  ultimately show ?thesis by blast
qed

theorem observations_refine_view_witness:
  "\<exists>obs d'. sync_observations (demo_ctx ''r'' ''A'') [demo_entry ''b'' 0, demo_entry ''a'' 0] create_v2_schema = Inr (obs, d')
     \<and> obs = [demo_entry ''a'' 1, demo_entry ''b'' 1]
     \<and> resource_view d' (''w'', ''entry:1:2:b'') = Some (Entry, EntrySt EntryAbsent, 1)"
proof -
  have ok: "is_ok (sync_observations (demo_ctx ''r'' ''A'') [demo_entry ''b'' 0, demo_entry ''a'' 0] create_v2_schema)"
    by code_simp
  have sorted: "sort_observations [demo_entry ''b'' 0, demo_entry ''a'' 0] = [demo_entry ''a'' 0, demo_entry ''b'' 0]"
    by code_simp
  from ok obtain obs d' where s: "sync_observations (demo_ctx ''r'' ''A'') [demo_entry ''b'' 0, demo_entry ''a'' 0]
      create_v2_schema = Inr (obs, d')" by (auto simp: is_ok_iff)
  have empty: "resource_view create_v2_schema = Map.empty"
    by (auto simp: resource_view_def create_v2_schema_def sql_first_def)
  from observations_refine_view [OF s] have
    "resource_view d' = fst (fold observe_in [demo_entry ''a'' 0, demo_entry ''b'' 0] (Map.empty, []))"
    "obs = snd (fold observe_in [demo_entry ''a'' 0, demo_entry ''b'' 0] (Map.empty, []))"
    unfolding sorted empty by (metis fst_conv, metis snd_conv)
  with s show ?thesis by (auto simp: observe_in_def demo_entry_def view_key_def Let_def)
qed

end
