(* ===== verification/Store_Limits.thy ===== *)
theory Store_Limits
  imports Scenario
begin

section \<open>Limits of the store\<close>

text \<open>
  Behaviour of the store that departs from its documents or its tests, shown on concrete
  databases: time stamps are compared as text, an offer whose time to live is too large makes
  promotion panic, and a draining lease that waits for an uncertain write to be resolved is
  deleted when another write of the batch completes.
\<close>

text \<open>An offer that is valid for another half second, and the same offer after \<open>expire_offers\<close>.\<close>

definition fractional_offer :: request_row where
  "fractional_offer = mark_offered ''o'' ''2026-08-02T00:00:00Z'' ''2026-08-02T00:00:01.5Z'' (demo_request 1 ''B'')"

text \<open>
  Time stamps are compared as text: an offer that expires at \<open>00:00:01.5Z\<close> is expired at
  \<open>00:00:01Z\<close>, half a second early, because a full stop is smaller than \<open>Z\<close>.
\<close>

theorem offer_expires_early:
  "lease_requests (expire_offers ''2026-08-02T00:00:01Z'' (waiting_line\<lparr>lease_requests := [fractional_offer]\<rparr>))
     = [fractional_offer\<lparr>q_state := QExpired, q_updated_at := ''2026-08-02T00:00:01Z''\<rparr>]"
  by (simp add: expire_offers_def sql_update_def fractional_offer_def mark_offered_def)

definition endless_offers :: coordination_settings where
  "endless_offers = default_settings\<lparr>offer_ttl_seconds := 2 ^ 62\<rparr>"

text \<open>
  Valid settings can stop the queue: with an offer time to live that \<open>validate\<close> accepts, the
  sum of the current time and the time to live is not representable, and promotion panics
  instead of returning an error.
\<close>

theorem promotion_panics:
  "validate_settings endless_offers = Inr ()
   \<and> promote_waiters demo_env ''0'' (waiting_line\<lparr>tasks := map (\<lambda>t. t\<lparr>t_settings := endless_offers\<rparr>) (tasks waiting_line)\<rparr>)
       = Inl (Panic ''resulting value is out of range'')"
  by code_simp

text \<open>A draining lease of a task with an uncertain write.\<close>

definition uncertain_lease :: db where
  "uncertain_lease = drain_leases (is_batch_lease ''batch-A'') (waiting_line
     \<lparr>write_attempts := [\<lparr>wa_attempt_id = ''1'', wa_permit_id = ''2'', wa_workspace_id = ''w'', wa_task_id = ''A'',
        wa_invocation_id = ''i'', wa_batch_id = ''batch-A'', wa_operation = Create ''a'',
        wa_start_observations = [demo_entry ''a'' 1], wa_status = WriteUncertain, wa_started_at = ''0'',
        wa_deadline = ''9'', wa_completed_at = Some ''1'', wa_terminal_result = None\<rparr>]\<rparr>)"

text \<open>
  An uncertain write does not keep its lease: the lease drains while the outcome of a write
  under it is uncertain, but when another write of the batch completes the lease is deleted and
  its resources can be offered to another task.
\<close>

theorem uncertain_lease_deleted:
  "lease_inv uncertain_lease \<and> map l_state (active_leases uncertain_lease) = [LeaseDraining]
   \<and> map wa_status (write_attempts uncertain_lease) = [WriteUncertain]
   \<and> active_leases (snd (settle_lease WCompleted ''batch-A'' uncertain_lease)) = []"
proof -
  have "lease_inv (waiting_line\<lparr>write_attempts := [w]\<rparr>)" if "wa_status w \<noteq> Executing" for w
    using waiting_line_inv that
    by (auto simp: lease_inv_def inv_parts unique_by_def waiting_line_def create_v2_schema_def)
  then have "lease_inv uncertain_lease" unfolding uncertain_lease_def by (intro drain_leases_inv) simp
  moreover have "map l_state (active_leases uncertain_lease) = [LeaseDraining]
     \<and> map wa_status (write_attempts uncertain_lease) = [WriteUncertain]
     \<and> active_leases (snd (settle_lease WCompleted ''batch-A'' uncertain_lease)) = []" by code_simp
  ultimately show ?thesis by simp
qed

end
