(* ===== verification/Resolver.thy ===== *)
theory Resolver
  imports Operations
begin

section \<open>The resource resolver\<close>

text \<open>
  \<open>ResourceResolver\<close> of \<^verbatim>\<open>src/crates/stateful-core/src/resource.rs\<close>: it observes files, links,
  absent names and directory trees and gives them physical identities. Other processes change
  the file system meanwhile, so a resolver runs against a \<open>world\<close>: \<open>W t\<close> is the file system the
  \<open>t\<close>-th system call sees. An \<open>observer\<close> takes the number of calls made so far and returns its
  result with the number afterwards; \<open>None\<close> is a call that does not return, which happens when a
  file grows as fast as it is read or a directory tree never ends. The loops get \<open>fuel\<close>.

  BLAKE3 is the parameter \<open>h\<close>; a hasher that is fed in parts hashes the concatenation, so the
  model collects the bytes.
\<close>

subsection \<open>Observers\<close>

type_synonym world = "nat \<Rightarrow> fs"
type_synonym 'a observer = "nat \<Rightarrow> ((resource_error + 'a) \<times> nat) option"

definition retO :: "'a \<Rightarrow> 'a observer" where
  "retO x t = Some (Inr x, t)"

definition failO :: "resource_error \<Rightarrow> 'a observer" where
  "failO e t = Some (Inl e, t)"

definition liftO :: "'a checked \<Rightarrow> 'a observer" where
  "liftO m t = Some (m, t)"

definition bindO :: "'a observer \<Rightarrow> ('a \<Rightarrow> 'b observer) \<Rightarrow> 'b observer" where
  "bindO m f t =
     (case m t of
        None \<Rightarrow> None
      | Some (Inl e, t') \<Rightarrow> Some (Inl e, t')
      | Some (Inr x, t') \<Rightarrow> f x t')"

text \<open>A system call whose error the code looks at, and one with \<open>map_err(io_error)\<close> and \<open>?\<close>.\<close>

definition sysO :: "world \<Rightarrow> (fs \<Rightarrow> 'a) \<Rightarrow> 'a observer" where
  "sysO W f t = Some (Inr (f (W t)), Suc t)"

definition io_result :: "string \<Rightarrow> io_error + 'a \<Rightarrow> 'a checked" where
  "io_result path m = mapErr (IoError path) m"

definition path_text :: "string list \<Rightarrow> string" where
  "path_text path = ''/'' @ join_path path"

definition callO :: "world \<Rightarrow> string list \<Rightarrow> (fs \<Rightarrow> io_error + 'a) \<Rightarrow> 'a observer" where
  "callO W path f = bindO (sysO W f) (\<lambda>r. liftO (io_result (path_text path) r))"

fun foldO :: "('a \<Rightarrow> 's \<Rightarrow> 's observer) \<Rightarrow> 'a list \<Rightarrow> 's \<Rightarrow> 's observer" where
  "foldO f [] s = retO s"
| "foldO f (x # xs) s = bindO (f x s) (foldO f xs)"

subsection \<open>Metadata and digests\<close>

definition blake3_digest :: "(string \<Rightarrow> string) \<Rightarrow> string \<Rightarrow> content_digest" where
  "blake3_digest h bytes = \<lparr>cd_algorithm = Blake3, cd_value = h bytes\<rparr>"

definition digest_bytes :: "(string \<Rightarrow> string) \<Rightarrow> string \<Rightarrow> content_digest" where
  "digest_bytes h bytes = blake3_digest h bytes"

definition buffer_size :: nat where
  "buffer_size = 64 * 1024"

fun read_to_end :: "world \<Rightarrow> string list \<Rightarrow> nat \<Rightarrow> inode \<Rightarrow> string \<Rightarrow> string observer" where
  "read_to_end W path 0 file hashed t = None"
| "read_to_end W path (Suc n) file hashed t =
     bindO (callO W path (file_read file (length hashed) buffer_size)) (\<lambda>chunk.
       if chunk = [] then retO hashed else read_to_end W path n file (hashed @ chunk)) t"

definition digest_reader ::
  "world \<Rightarrow> (string \<Rightarrow> string) \<Rightarrow> nat \<Rightarrow> string list \<Rightarrow> inode \<Rightarrow> content_digest observer" where
  "digest_reader W h fuel path file =
     bindO (read_to_end W path fuel file []) (\<lambda>hashed. retO (blake3_digest h hashed))"

definition symlink_target_digest :: "(string \<Rightarrow> string) \<Rightarrow> string \<Rightarrow> content_digest \<times> nat" where
  "symlink_target_digest h target = (digest_bytes h target, length target)"

definition metadata_identity :: "metadata \<Rightarrow> inode" where
  "metadata_identity m = (md_dev m, md_ino m)"

definition filesystem_identity :: "metadata \<Rightarrow> string" where
  "filesystem_identity m = nat_digits (md_dev m) @ '':'' @ nat_digits (md_ino m)"

definition same_file_snapshot :: "metadata \<Rightarrow> metadata \<Rightarrow> bool" where
  "same_file_snapshot l r =
     (metadata_identity l = metadata_identity r \<and> md_len l = md_len r
      \<and> md_mtime l = md_mtime r \<and> md_mtime_nsec l = md_mtime_nsec r
      \<and> md_ctime l = md_ctime r \<and> md_ctime_nsec l = md_ctime_nsec r)"

definition regular_file_has_multiple_links :: "metadata \<Rightarrow> bool" where
  "regular_file_has_multiple_links m = (md_nlink m > 1)"

definition hash_tree_field :: "string \<Rightarrow> string \<Rightarrow> string" where
  "hash_tree_field name v = be64 (length name) @ name @ be64 (length v) @ v"

definition hash_tree_metadata :: "string \<Rightarrow> string \<Rightarrow> metadata \<Rightarrow> string" where
  "hash_tree_metadata kind relative_path m =
     hash_tree_field ''kind'' kind
     @ hash_tree_field ''path'' relative_path
     @ hash_tree_field ''identity'' (filesystem_identity m)
     @ hash_tree_field ''byte_len'' (be64 (md_len m))"

definition path_string :: "string \<Rightarrow> string checked" where
  "path_string p = (if utf8_valid p then Inr p else Inl (NonUtf8Path p))"

definition checked_segments :: "string \<Rightarrow> string list checked" where
  "checked_segments p = mapErr (\<lambda>_. InvalidRelativePath p) (validated_relative_path p)"

subsection \<open>The resolver\<close>

record resolver =
  rr_workspace_id :: string
  rr_root :: "string list"

definition resolver_new :: "world \<Rightarrow> string \<Rightarrow> string list \<Rightarrow> resolver observer" where
  "resolver_new W workspace_id root_input =
     (if blank workspace_id then failO EmptyWorkspace
      else bindO (callO W root_input (canonicalize root_input)) (\<lambda>root.
           bindO (sysO W (path_is_dir root)) (\<lambda>is_dir.
           if \<not> is_dir
           then bindO (liftO (path_string (path_text root))) (\<lambda>p. failO (InvalidWorkspace p))
           else retO \<lparr>rr_workspace_id = workspace_id, rr_root = root\<rparr>)))"

definition join_validated :: "resolver \<Rightarrow> string \<Rightarrow> string list checked" where
  "join_validated R relative_path =
     bindE (checked_segments relative_path) (\<lambda>normalized. Inr (rr_root R @ normalized))"

fun reject_loop ::
  "world \<Rightarrow> string \<Rightarrow> bool \<Rightarrow> bool \<Rightarrow> string list \<Rightarrow> string list \<Rightarrow> string list \<Rightarrow> unit observer" where
  "reject_loop W relative_path allow_absent_final allow_final_symlink target current [] = retO ()"
| "reject_loop W relative_path allow_absent_final allow_final_symlink target current (c # cs) =
     (let current' = current @ [c] in
      bindO (sysO W (symlink_metadata current')) (\<lambda>r.
      case r of
        Inr m \<Rightarrow>
          if md_type m = SymlinkType
          then if allow_final_symlink \<and> current' = target then retO ()
               else failO (SymlinkFile relative_path)
          else reject_loop W relative_path allow_absent_final allow_final_symlink target current' cs
      | Inl e \<Rightarrow>
          if allow_absent_final \<and> e = NotFoundIo \<and> current' = target then retO ()
          else failO (IoError (path_text current') e)))"

definition reject_symlink_components ::
  "world \<Rightarrow> resolver \<Rightarrow> string \<Rightarrow> bool \<Rightarrow> bool \<Rightarrow> unit observer" where
  "reject_symlink_components W R relative_path allow_absent_final allow_final_symlink =
     bindO (liftO (checked_segments relative_path)) (\<lambda>normalized.
     reject_loop W relative_path allow_absent_final allow_final_symlink
       (rr_root R @ normalized) (rr_root R) normalized)"

definition canonical_inside :: "world \<Rightarrow> resolver \<Rightarrow> string list \<Rightarrow> string list observer" where
  "canonical_inside W R path =
     bindO (callO W path (canonicalize path)) (\<lambda>canonical.
     if take (length (rr_root R)) canonical \<noteq> rr_root R
     then bindO (liftO (path_string (path_text path))) (\<lambda>p. failO (WorkspaceEscape p))
     else retO canonical)"

definition relative_string :: "resolver \<Rightarrow> string list \<Rightarrow> string checked" where
  "relative_string R path =
     (if take (length (rr_root R)) path \<noteq> rr_root R
      then bindE (path_string (path_text path)) (\<lambda>p. Inl (WorkspaceEscape p))
      else path_string (join_path (drop (length (rr_root R)) path)))"

definition object_key :: "resolver \<Rightarrow> string list \<Rightarrow> metadata \<Rightarrow> resource_key checked" where
  "object_key R path m =
     bindE (relative_string R path) (\<lambda>canonical_path.
     Inr \<lparr>rk_workspace_id = rr_workspace_id R, rk_kind = Object,
          rk_resource_id = ''object:'' @ filesystem_identity m,
          rk_canonical_path = canonical_path\<rparr>)"

definition directory_key :: "resolver \<Rightarrow> string list \<Rightarrow> metadata \<Rightarrow> resource_key checked" where
  "directory_key R path m =
     bindE (relative_string R path) (\<lambda>canonical_path.
     Inr \<lparr>rk_workspace_id = rr_workspace_id R, rk_kind = DirectoryTree,
          rk_resource_id = ''directory:'' @ filesystem_identity m,
          rk_canonical_path = canonical_path\<rparr>)"

definition entry_key_from_lexical :: "world \<Rightarrow> resolver \<Rightarrow> string list \<Rightarrow> resource_key observer" where
  "entry_key_from_lexical W R lexical =
     (if lexical = [] \<or> \<not> utf8_valid (last lexical)
      then bindO (liftO (path_string (path_text lexical))) (\<lambda>p. failO (InvalidRelativePath p))
      else
        let name = last lexical; parent = butlast lexical in
        bindO (canonical_inside W R parent) (\<lambda>canonical_parent.
        bindO (liftO (relative_string R canonical_parent)) (\<lambda>parent_relative.
        let canonical_path = (if parent_relative = [] then name else parent_relative @ ''/'' @ name) in
        bindO (callO W canonical_parent (metadata_of canonical_parent)) (\<lambda>parent_metadata.
        retO \<lparr>rk_workspace_id = rr_workspace_id R, rk_kind = Entry,
              rk_resource_id = ''entry:'' @ filesystem_identity parent_metadata @ '':'' @ name,
              rk_canonical_path = canonical_path\<rparr>))))"

subsection \<open>Observing files, links and absent names\<close>

definition observe_existing_file ::
  "world \<Rightarrow> (string \<Rightarrow> string) \<Rightarrow> nat \<Rightarrow> resolver \<Rightarrow> string \<Rightarrow> resource_observation list observer" where
  "observe_existing_file W h fuel R relative_path =
     bindO (reject_symlink_components W R relative_path False False) (\<lambda>_.
     bindO (liftO (join_validated R relative_path)) (\<lambda>lexical.
     bindO (callO W lexical (symlink_metadata lexical)) (\<lambda>link_metadata.
     if md_type link_metadata = SymlinkType then failO (SymlinkFile relative_path)
     else
     bindO (callO W lexical (file_open lexical)) (\<lambda>file.
     bindO (callO W lexical (\<lambda>F. file_metadata F file)) (\<lambda>before.
     if md_type before \<noteq> RegularType then failO (NotRegularFile relative_path)
     else
     bindO (canonical_inside W R lexical) (\<lambda>canonical.
     bindO (digest_reader W h fuel lexical file) (\<lambda>digest.
     bindO (callO W lexical (\<lambda>F. file_metadata F file)) (\<lambda>after.
     bindO (callO W lexical (metadata_of lexical)) (\<lambda>current.
     bindO (if \<not> same_file_snapshot before after \<or> \<not> same_file_snapshot after current then retO True
            else bindO (canonical_inside W R lexical) (\<lambda>again. retO (again \<noteq> canonical))) (\<lambda>unstable.
     if unstable then failO (UnstableObservation relative_path)
     else
     bindO (liftO (object_key R canonical after)) (\<lambda>object.
     bindO (entry_key_from_lexical W R lexical) (\<lambda>entry.
     retO [ObjectObs object (ObjectPresent RegularFile digest (md_len after)) 0,
           EntryObs entry (EntryPresent RegularFile (md_dev after) (md_ino after) None) 0]))))))))))))"

definition observe_existing_symlink_entry ::
  "world \<Rightarrow> (string \<Rightarrow> string) \<Rightarrow> resolver \<Rightarrow> string \<Rightarrow> resource_observation list observer" where
  "observe_existing_symlink_entry W h R relative_path =
     bindO (reject_symlink_components W R relative_path False True) (\<lambda>_.
     bindO (liftO (join_validated R relative_path)) (\<lambda>lexical.
     bindO (callO W lexical (symlink_metadata lexical)) (\<lambda>before.
     if md_type before \<noteq> SymlinkType then failO (SymlinkFile relative_path)
     else
     bindO (callO W lexical (read_link lexical)) (\<lambda>target.
     let (digest, byte_len) = symlink_target_digest h target in
     bindO (callO W lexical (symlink_metadata lexical)) (\<lambda>after.
     bindO (callO W lexical (read_link lexical)) (\<lambda>current_target.
     if md_type after \<noteq> SymlinkType \<or> \<not> same_file_snapshot before after \<or> target \<noteq> current_target
     then failO (UnstableObservation relative_path)
     else
     bindO (liftO (object_key R lexical after)) (\<lambda>object.
     bindO (entry_key_from_lexical W R lexical) (\<lambda>entry.
     retO [ObjectObs object (ObjectPresent Symlink digest byte_len) 0,
           EntryObs entry (EntryPresent Symlink (md_dev after) (md_ino after) None) 0]))))))))"

definition observe_existing_target ::
  "world \<Rightarrow> (string \<Rightarrow> string) \<Rightarrow> nat \<Rightarrow> resolver \<Rightarrow> string \<Rightarrow> bool \<Rightarrow> resource_observation list observer" where
  "observe_existing_target W h fuel R relative_path entry_only =
     (if entry_only then observe_existing_symlink_entry W h R relative_path
      else observe_existing_file W h fuel R relative_path)"

definition observe_absent_entry ::
  "world \<Rightarrow> resolver \<Rightarrow> string \<Rightarrow> resource_observation list observer" where
  "observe_absent_entry W R relative_path =
     bindO (reject_symlink_components W R relative_path True False) (\<lambda>_.
     bindO (liftO (join_validated R relative_path)) (\<lambda>lexical.
     bindO (sysO W (symlink_metadata lexical)) (\<lambda>r.
     case r of
       Inr m \<Rightarrow>
         if md_type m = SymlinkType then failO (SymlinkFile relative_path)
         else failO (NotAbsent relative_path)
     | Inl e \<Rightarrow>
         if e \<noteq> NotFoundIo then failO (IoError (path_text lexical) e)
         else
         bindO (entry_key_from_lexical W R lexical) (\<lambda>entry.
         bindO (sysO W (symlink_metadata lexical)) (\<lambda>again.
         bindO (if again \<noteq> Inl NotFoundIo then retO True
                else bindO (entry_key_from_lexical W R lexical) (\<lambda>entry'. retO (entry \<noteq> entry'))) (\<lambda>unstable.
         if unstable then failO (UnstableObservation relative_path)
         else retO [EntryObs entry EntryAbsent 0]))))))"

definition absent_entry :: "world \<Rightarrow> resolver \<Rightarrow> string \<Rightarrow> resource_key list observer" where
  "absent_entry W R relative_path =
     bindO (observe_absent_entry W R relative_path) (\<lambda>obs.
     retO (resource_set_new (map obs_resource obs)))"

subsection \<open>Observing directory trees\<close>

fun hash_tree_entry ::
  "world \<Rightarrow> (string \<Rightarrow> string) \<Rightarrow> nat \<Rightarrow> resolver \<Rightarrow> nat \<Rightarrow> string list \<Rightarrow> string \<times> nat
     \<Rightarrow> (string \<times> nat) observer" where
  "hash_tree_entry W h fuel R 0 path st t = None"
| "hash_tree_entry W h fuel R (Suc n) path st t =
     bindO (callO W path (symlink_metadata path)) (\<lambda>m.
     bindO (liftO (relative_string R path)) (\<lambda>relative.
     if md_type m = SymlinkType then failO (SymlinkInDirectoryTree relative)
     else if md_type m = DirectoryType
     then
       let st1 = (fst st @ hash_tree_metadata ''d'' relative m, snd st) in
       bindO (callO W path (read_dir path)) (\<lambda>names.
       case List.find (\<lambda>name. \<not> utf8_valid name) names of
         Some name \<Rightarrow> failO (NonUtf8Path (path_text (path @ [name])))
       | None \<Rightarrow>
           foldO (\<lambda>name (hashed, entry_count).
               hash_tree_entry W h fuel R n (path @ [name]) (hashed, entry_count + 1))
             (sort names) st1)
     else if md_type m \<noteq> RegularType then failO (UnsupportedTreeEntry relative)
     else if regular_file_has_multiple_links m then failO (HardlinkedRegularFile relative)
     else
     bindO (callO W path (file_open path)) (\<lambda>file.
     bindO (callO W path (\<lambda>F. file_metadata F file)) (\<lambda>before.
     bindO (digest_reader W h fuel path file) (\<lambda>digest.
     bindO (callO W path (\<lambda>F. file_metadata F file)) (\<lambda>after.
     bindO (callO W path (symlink_metadata path)) (\<lambda>current.
     if md_type current = SymlinkType \<or> \<not> same_file_snapshot before after
        \<or> \<not> same_file_snapshot after current
     then failO (UnstableObservation relative)
     else
     bindO (liftO (relative_string R path)) (\<lambda>relative'.
     retO (fst st @ hash_tree_metadata ''f'' relative' after
             @ hash_tree_field ''digest'' (cd_value digest), snd st))))))))) t"

definition directory_snapshot ::
  "world \<Rightarrow> (string \<Rightarrow> string) \<Rightarrow> nat \<Rightarrow> resolver \<Rightarrow> string list \<Rightarrow> (content_digest \<times> nat) observer" where
  "directory_snapshot W h fuel R directory =
     bindO (hash_tree_entry W h fuel R fuel directory ([], 0)) (\<lambda>(hashed, entry_count).
     retO (blake3_digest h hashed, entry_count))"

definition observe_directory_tree ::
  "world \<Rightarrow> (string \<Rightarrow> string) \<Rightarrow> nat \<Rightarrow> resolver \<Rightarrow> string \<Rightarrow> resource_observation list observer" where
  "observe_directory_tree W h fuel R relative_path =
     bindO (reject_symlink_components W R relative_path False False) (\<lambda>_.
     bindO (liftO (join_validated R relative_path)) (\<lambda>lexical.
     bindO (callO W lexical (symlink_metadata lexical)) (\<lambda>m.
     if md_type m = SymlinkType then failO (SymlinkFile relative_path)
     else if md_type m \<noteq> DirectoryType then failO (NotDirectory relative_path)
     else
     bindO (canonical_inside W R lexical) (\<lambda>canonical.
     bindO (directory_snapshot W h fuel R canonical) (\<lambda>(before_snapshot, before_count).
     bindO (callO W lexical (symlink_metadata lexical)) (\<lambda>after.
     bindO (directory_snapshot W h fuel R canonical) (\<lambda>(after_snapshot, after_count).
     bindO (if \<not> same_file_snapshot m after then retO True
            else bindO (canonical_inside W R lexical) (\<lambda>again.
              retO (again \<noteq> canonical \<or> before_snapshot \<noteq> after_snapshot
                    \<or> before_count \<noteq> after_count))) (\<lambda>unstable.
     if unstable then failO (UnstableObservation relative_path)
     else
     bindO (liftO (directory_key R canonical after)) (\<lambda>directory.
     retO [TreeObs directory
             (TreePresent (md_dev after) (md_ino after) after_snapshot after_count) 0])))))))))"

definition directory_tree ::
  "world \<Rightarrow> (string \<Rightarrow> string) \<Rightarrow> nat \<Rightarrow> resolver \<Rightarrow> string \<Rightarrow> resource_key list observer" where
  "directory_tree W h fuel R relative_path =
     bindO (observe_directory_tree W h fuel R relative_path) (\<lambda>obs.
     retO (resource_set_new (map obs_resource obs)))"

definition observe_rmdir ::
  "world \<Rightarrow> (string \<Rightarrow> string) \<Rightarrow> nat \<Rightarrow> resolver \<Rightarrow> string \<Rightarrow> resource_observation list observer" where
  "observe_rmdir W h fuel R relative_path =
     bindO (observe_directory_tree W h fuel R relative_path) (\<lambda>tree.
     case tree of
       TreeObs _ (TreePresent device inode _ entry_count) _ # _ \<Rightarrow>
         bindO (liftO (join_validated R relative_path)) (\<lambda>lexical.
         bindO (callO W lexical (symlink_metadata lexical)) (\<lambda>m.
         if md_type m = SymlinkType then failO (SymlinkFile relative_path)
         else if md_type m \<noteq> DirectoryType \<or> (device, inode) \<noteq> metadata_identity m
         then failO (UnstableObservation relative_path)
         else
         bindO (entry_key_from_lexical W R lexical) (\<lambda>key.
         let entry = EntryObs key
               (EntryPresent Directory (md_dev m) (md_ino m) (Some (entry_count = 0))) 0 in
         bindO (observe_directory_tree W h fuel R relative_path) (\<lambda>again.
         if tree \<noteq> again then failO (UnstableObservation relative_path)
         else retO [hd tree, entry]))))
     | _ \<Rightarrow> failO (InvalidOperationObservation ''directory tree observation is absent''))"

subsection \<open>Observing what an operation needs\<close>

definition observe_pair ::
  "resource_observation list observer \<Rightarrow> resource_observation list observer \<Rightarrow> string
     \<Rightarrow> resource_observation list observer" where
  "observe_pair source destination old_path =
     bindO source (\<lambda>before.
     bindO destination (\<lambda>absent.
     bindO source (\<lambda>after.
     if before \<noteq> after then failO (UnstableObservation old_path)
     else retO (before @ absent))))"

definition observe_operation ::
  "world \<Rightarrow> (string \<Rightarrow> string) \<Rightarrow> nat \<Rightarrow> resolver \<Rightarrow> mutation_operation
     \<Rightarrow> resource_observation list observer" where
  "observe_operation W h fuel R operation =
     bindO (case operation of
         Create path \<Rightarrow> observe_absent_entry W R path
       | Mkdir path \<Rightarrow> observe_absent_entry W R path
       | Update path \<Rightarrow> observe_existing_file W h fuel R path
       | Delete path entry_only \<Rightarrow> observe_existing_target W h fuel R path entry_only
       | Rename old_path new_path entry_only \<Rightarrow>
           observe_pair (observe_existing_target W h fuel R old_path entry_only)
             (observe_absent_entry W R new_path) old_path
       | Move old_path new_path entry_only \<Rightarrow>
           observe_pair (observe_existing_target W h fuel R old_path entry_only)
             (observe_absent_entry W R new_path) old_path
       | Hardlink old_path new_path \<Rightarrow>
           observe_pair (observe_existing_file W h fuel R old_path)
             (observe_absent_entry W R new_path) old_path
       | Rmdir path \<Rightarrow> observe_rmdir W h fuel R path
       | WriteDirectory path \<Rightarrow> observe_directory_tree W h fuel R path
       | StructuredCommit _ \<Rightarrow>
           failO (AdapterSuppliedObservation ''structured_commit .git metadata'')) (\<lambda>observations.
     bindO (liftO (validate_operation_start operation observations)) (\<lambda>_. retO observations))"

end
