(* ===== verification/Resolver_Races.thy ===== *)
theory Resolver_Races
  imports Resolver "HOL-Library.Code_Target_Nat"
begin

section \<open>Observations while the file system changes\<close>

text \<open>
  \<open>observe_existing_file\<close> opens a file, reads it in parts and compares the metadata before, after
  and at the path. The theorem says when this is a snapshot: if a file that has the same length
  and time stamps at two moments kept its content in between (which is what the kernel's change
  time is for), a successful observation describes one moment, whatever other processes do.
\<close>

subsection \<open>Successful observers\<close>

lemma bindO_InrE [elim!]:
  assumes "bindO m f t = Some (Inr y, t')"
  obtains x s where "m t = Some (Inr x, s)" "f x s = Some (Inr y, t')"
  using assms by (auto simp: bindO_def split: option.splits sum.splits)

lemma retO_iff [simp]: "retO x t = Some (r, t') \<longleftrightarrow> r = Inr x \<and> t' = t"
  by (auto simp: retO_def)

lemma failO_iff [simp]: "failO e t = Some (r, t') \<longleftrightarrow> r = Inl e \<and> t' = t"
  by (auto simp: failO_def)

lemma liftO_iff [simp]: "liftO m t = Some (r, t') \<longleftrightarrow> m = r \<and> t' = t"
  by (auto simp: liftO_def)

lemma sysO_iff [simp]: "sysO W f t = Some (r, t') \<longleftrightarrow> r = Inr (f (W t)) \<and> t' = Suc t"
  by (auto simp: sysO_def)

lemma callO_Inr [simp]: "callO W path f t = Some (Inr x, t') \<longleftrightarrow> f (W t) = Inr x \<and> t' = Suc t"
  by (auto simp: callO_def bindO_def sysO_def io_result_def liftO_def)

text \<open>Time only goes forward.\<close>

definition forward :: "'a observer \<Rightarrow> bool" where
  "forward m = (\<forall>t x t'. m t = Some (Inr x, t') \<longrightarrow> t \<le> t')"

lemma forwardD: "forward m \<Longrightarrow> m t = Some (Inr x, t') \<Longrightarrow> t \<le> t'"
  by (auto simp: forward_def)

lemma forward_basic [intro, simp]:
  "forward (retO x)" "forward (failO e)" "forward (liftO r)" "forward (sysO W f)" "forward (callO W p g)"
  by (auto simp: forward_def)

lemma forward_bind [intro]: "forward m \<Longrightarrow> (\<And>x. forward (f x)) \<Longrightarrow> forward (bindO m f)"
  by (fastforce simp: forward_def)

lemma forward_if [intro]: "forward m \<Longrightarrow> forward m' \<Longrightarrow> forward (if b then m else m')"
  by simp

lemma forward_canonical_inside [intro, simp]: "forward (canonical_inside W R p)"
  unfolding canonical_inside_def by (intro forward_bind forward_if forward_basic)

lemma forward_reject_loop: "forward (reject_loop W p a s target current cs)"
proof (induction cs arbitrary: current)
  case (Cons c cs)
  have "forward (case r of
        Inr m \<Rightarrow>
          if md_type m = SymlinkType
          then if s \<and> current @ [c] = target then retO () else failO (SymlinkFile p)
          else reject_loop W p a s target (current @ [c]) cs
      | Inl e \<Rightarrow>
          if a \<and> e = NotFoundIo \<and> current @ [c] = target then retO ()
          else failO (IoError (path_text (current @ [c])) e))" for r
    by (cases r) (simp_all add: Cons.IH)
  then show ?case unfolding reject_loop.simps Let_def by (intro forward_bind forward_basic)
qed simp

lemma forward_reject_symlink_components [intro, simp]:
  "forward (reject_symlink_components W R p a s)"
  unfolding reject_symlink_components_def by (intro forward_bind forward_basic forward_reject_loop)

lemma forward_read_to_end [intro, simp]: "forward (read_to_end W path n file hashed)"
proof (induction n arbitrary: hashed)
  case (Suc n)
  have "forward (bindO (callO W path (file_read file (length hashed) buffer_size)) (\<lambda>chunk.
       if chunk = [] then retO hashed else read_to_end W path n file (hashed @ chunk)))"
    using Suc.IH by (intro forward_bind forward_if forward_basic)
  then show ?case by (auto simp: forward_def)
qed (simp add: forward_def)

lemma forward_entry_key [intro, simp]: "forward (entry_key_from_lexical W R lexical)"
  unfolding entry_key_from_lexical_def Let_def
  by (intro forward_if forward_bind forward_basic forward_canonical_inside)

subsection \<open>What a step has seen\<close>

definition entry_seen :: "world \<Rightarrow> resolver \<Rightarrow> string list \<Rightarrow> resource_key \<Rightarrow> nat \<Rightarrow> nat \<Rightarrow> bool" where
  "entry_seen W R lexical key t t' =
     (\<exists>u v rel m. t \<le> u \<and> u < v \<and> v < t'
        \<and> canonicalize (butlast lexical) (W u) = Inr (rr_root R @ rel)
        \<and> metadata_of (rr_root R @ rel) (W v) = Inr m
        \<and> key = \<lparr>rk_workspace_id = rr_workspace_id R, rk_kind = Entry,
                 rk_resource_id = ''entry:'' @ filesystem_identity m @ '':'' @ last lexical,
                 rk_canonical_path = join_path (rel @ [last lexical])\<rparr>)"

lemma canonical_inside_Inr:
  "canonical_inside W R path t = Some (Inr c, t')
    \<longleftrightarrow> t' = Suc t \<and> (\<exists>rel. c = rr_root R @ rel \<and> canonicalize path (W t) = Inr c)"
  by (auto simp: canonical_inside_def bindO_def callO_def sysO_def liftO_def io_result_def
      mapErr_def path_string_def failO_def retO_def
      split: sum.splits if_splits)
    (metis append_take_drop_id)+

lemma relative_string_inside [simp]:
  "relative_string R (rr_root R @ rel) = Inr p \<longleftrightarrow> utf8_valid (join_path rel) \<and> p = join_path rel"
  by (auto simp: relative_string_def path_string_def)


lemma walk_names: "walk F follow links stack cs = Inr stack' \<Longrightarrow> [] \<notin> fst ` set stack
    \<Longrightarrow> [] \<notin> fst ` set stack'"
proof (induction F follow links stack cs rule: walk.induct)
  case (2 F follow links stack c cs)
  from "2.prems"(1) obtain entries where e: "lookup_entries F (here F stack) = Inr entries" by auto
  have tl: "[] \<notin> fst ` set (tl stack)" using "2.prems"(2) by (cases stack) auto
  show ?case
  proof (cases "c = [] \<or> c = ''.'' \<or> c = ''..''")
    case True
    then show ?thesis using "2.IH"(1,2) [OF e] "2.prems" e tl by (auto split: if_splits)
  next
    case False
    with "2.prems"(1) e obtain i where i: "map_of entries c = Some i"
      by (auto split: option.splits)
    show ?thesis
    proof (cases "link_target F i")
      case None
      then show ?thesis using "2.IH"(3) [OF e] "2.prems" e i False by auto
    next
      case (Some target)
      then show ?thesis using "2.IH"(4) [OF e _ _ i Some] "2.prems" e i False
        by (auto split: if_splits nat.splits)
    qed
  qed
qed simp

lemma canonicalize_names: "canonicalize path F = Inr c \<Longrightarrow> [] \<notin> set c"
  using walk_names [of F True max_symlinks "[]" path]
  by (fastforce simp: canonicalize_def resolve_def)

lemma join_path_empty: "[] \<notin> set rel \<Longrightarrow> join_path rel = [] \<longleftrightarrow> rel = []"
  by (induction rel rule: join_path.induct) auto

lemma join_path_snoc: "rel \<noteq> [] \<Longrightarrow> join_path (rel @ [n]) = join_path rel @ ''/'' @ n"
  by (induction rel rule: join_path.induct) auto

lemma entry_key_seen:
  assumes "entry_key_from_lexical W R lexical t = Some (Inr key, t')"
  shows "entry_seen W R lexical key t t'"
proof -
  let ?parent = "butlast lexical"
  from assms obtain c s p m where c: "canonical_inside W R ?parent t = Some (Inr c, s)"
    and p: "relative_string R c = Inr p" and m: "metadata_of c (W s) = Inr m" and t': "t' = Suc s"
    and key: "key = \<lparr>rk_workspace_id = rr_workspace_id R, rk_kind = Entry,
                 rk_resource_id = ''entry:'' @ filesystem_identity m @ '':'' @ last lexical,
                 rk_canonical_path = (if p = [] then last lexical else p @ ''/'' @ last lexical)\<rparr>"
    by (auto simp: entry_key_from_lexical_def Let_def split: if_splits)
  from c obtain rel where rel: "c = rr_root R @ rel" "canonicalize ?parent (W t) = Inr c" "s = Suc t"
    by (auto simp: canonical_inside_Inr)
  have p': "p = join_path rel" using p rel(1) by simp
  have "[] \<notin> set rel" using canonicalize_names [OF rel(2)] rel(1) by simp
  then have "(if p = [] then last lexical else p @ ''/'' @ last lexical) = join_path (rel @ [last lexical])"
    using p' by (auto simp: join_path_empty join_path_snoc)
  then show ?thesis using rel m t' key unfolding entry_seen_def by (intro exI conjI) auto
qed

lemma entry_seen_earlier:
  "entry_seen W R lexical key t t' \<Longrightarrow> s \<le> t \<Longrightarrow> entry_seen W R lexical key s t'"
  unfolding entry_seen_def
  by (elim exE conjE, intro exI conjI, erule (1) order_trans, assumption+)

lemma entry_seen_later: "entry_seen W R lexical key t t' \<Longrightarrow> Suc t < t'"
  by (auto simp: entry_seen_def)

subsection \<open>Reading a file that does not change\<close>

text \<open>The fields of a node that \<open>same_file_snapshot\<close> compares.\<close>

definition stamp :: "node \<Rightarrow> nat \<times> int \<times> int \<times> int \<times> int" where
  "stamp n = (body_len (nd_body n), nd_mtime n, nd_mtime_nsec n, nd_ctime n, nd_ctime_nsec n)"

definition stat_tracks_content :: "world \<Rightarrow> bool" where
  "stat_tracks_content W =
     (\<forall>i s v n k. s \<le> v \<longrightarrow> fs_nodes (W s) i = Some n \<longrightarrow> fs_nodes (W v) i = Some k
        \<longrightarrow> stamp n = stamp k
        \<longrightarrow> (\<forall>u. s \<le> u \<longrightarrow> u \<le> v
               \<longrightarrow> (\<exists>m. fs_nodes (W u) i = Some m \<and> nd_body m = nd_body n)))"

definition file_here :: "fs \<Rightarrow> string list \<Rightarrow> inode \<Rightarrow> string \<Rightarrow> bool" where
  "file_here F path i bytes =
     (\<exists>stack n. resolve F True path = Inr stack \<and> here F stack = i
        \<and> fs_nodes F i = Some n \<and> nd_body n = FileNode bytes)"

lemma file_metadata_Inr:
  "file_metadata F i = Inr m \<longleftrightarrow> (\<exists>n. fs_nodes F i = Some n \<and> m = node_metadata i n)"
  by (auto simp: file_metadata_def node_at_def result_simps)

lemma metadata_of_Inr:
  "metadata_of path F = Inr m \<longleftrightarrow>
     (\<exists>stack n. resolve F True path = Inr stack \<and> fs_nodes F (here F stack) = Some n
        \<and> m = node_metadata (here F stack) n)"
  by (auto simp: metadata_of_def file_metadata_Inr result_simps)

lemma same_file_snapshot_nodes:
  "same_file_snapshot (node_metadata i n) (node_metadata j k) \<longleftrightarrow> i = j \<and> stamp n = stamp k"
  by (auto simp: same_file_snapshot_def node_metadata_def metadata_identity_def stamp_def prod_eq_iff)

lemma read_to_end_content:
  assumes "read_to_end W path n file hashed t = Some (Inr bytes, t')"
    and "\<And>u. t \<le> u \<Longrightarrow> u < t' \<Longrightarrow> \<exists>m. fs_nodes (W u) file = Some m \<and> nd_body m = FileNode content"
    and "hashed = take (length hashed) content"
  shows "bytes = content"
  using assms
proof (induction n arbitrary: hashed t)
  case (Suc n)
  from Suc.prems(1) obtain chunk where
    r: "file_read file (length hashed) buffer_size (W t) = Inr chunk" and
    rest: "(if chunk = [] then retO hashed else read_to_end W path n file (hashed @ chunk)) (Suc t)
             = Some (Inr bytes, t')"
    by auto
  have "Suc t \<le> t'" using rest forwardD [OF forward_read_to_end [of W path n "file" "hashed @ chunk"]]
    by (auto split: if_splits)
  then obtain m where "fs_nodes (W t) file = Some m" "nd_body m = FileNode content"
    using Suc.prems(2) [of t] by auto
  with r have chunk: "chunk = take buffer_size (drop (length hashed) content)"
    by (auto simp: file_read_def node_at_def)
  have all: "hashed @ chunk = take (length (hashed @ chunk)) content"
  proof -
    have "take (length chunk) (drop (length hashed) content) = chunk"
      using chunk by (simp add: min_def)
    then show ?thesis using Suc.prems(3) by (simp add: take_add)
  qed
  show ?case
  proof (cases "chunk = []")
    case True
    then have "length content \<le> length hashed" using chunk by (simp add: buffer_size_def)
    then show ?thesis using rest True Suc.prems(3) by simp
  next
    case False
    then show ?thesis using rest Suc.IH [OF _ _ all, of "Suc t"] Suc.prems(2) by simp
  qed
qed simp

subsection \<open>Snapshots\<close>

lemma same_snapshot_content:
  assumes track: "stat_tracks_content W" and "s \<le> u" "u \<le> v"
    and "file_metadata (W s) i = Inr a" "file_metadata (W v) j = Inr b" "same_file_snapshot a b"
    and "md_type a = RegularType"
  obtains content where "length content = md_len a"
    and "\<forall>w. s \<le> w \<longrightarrow> w \<le> v \<longrightarrow> (\<exists>m. fs_nodes (W w) i = Some m \<and> nd_body m = FileNode content)"
proof -
  from assms obtain n k where n: "fs_nodes (W s) i = Some n" "a = node_metadata i n"
    and k: "fs_nodes (W v) i = Some k" "stamp n = stamp k"
    by (auto simp: file_metadata_Inr same_file_snapshot_nodes)
  from assms(7) n(2) obtain content where c: "nd_body n = FileNode content"
    by (cases "nd_body n") (auto simp: node_metadata_def)
  have "s \<le> v" using assms(2,3) by simp
  then have "\<forall>w. s \<le> w \<longrightarrow> w \<le> v \<longrightarrow> (\<exists>m. fs_nodes (W w) i = Some m \<and> nd_body m = FileNode content)"
    using track n(1) k c unfolding stat_tracks_content_def by metis
  then show thesis using that [of content] c n(2) by (simp add: node_metadata_def)
qed

lemma observe_existing_file_steps:
  assumes "observe_existing_file W h fuel R p t = Some (Inr obs, t')"
  obtains s v segs i before bytes after current rel key where
    "t \<le> s" "Suc s \<le> v" "checked_segments p = Inr segs"
    "file_metadata (W s) i = Inr before" "md_type before = RegularType"
    "read_to_end W (rr_root R @ segs) fuel i [] (Suc (Suc s)) = Some (Inr bytes, v)"
    "file_metadata (W v) i = Inr after"
    "metadata_of (rr_root R @ segs) (W (Suc v)) = Inr current"
    "same_file_snapshot before after" "same_file_snapshot after current"
    "canonicalize (rr_root R @ segs) (W (Suc (Suc v))) = Inr (rr_root R @ rel)"
    "entry_key_from_lexical W R (rr_root R @ segs) (Suc (Suc (Suc v))) = Some (Inr key, t')"
    "utf8_valid (join_path rel)"
    "obs = [ObjectObs \<lparr>rk_workspace_id = rr_workspace_id R, rk_kind = Object,
                      rk_resource_id = ''object:'' @ filesystem_identity after,
                      rk_canonical_path = join_path rel\<rparr>
              (ObjectPresent RegularFile (blake3_digest h bytes) (md_len after)) 0,
            EntryObs key (EntryPresent RegularFile (md_dev after) (md_ino after) None) 0]"
proof -
  from assms obtain s0 segs i before bytes after current rel v key object where *:
    "checked_segments p = Inr segs"
    "file_metadata (W (Suc (Suc s0))) i = Inr before" "md_type before = RegularType"
    "read_to_end W (rr_root R @ segs) fuel i [] (Suc (Suc (Suc (Suc s0)))) = Some (Inr bytes, v)"
    "file_metadata (W v) i = Inr after"
    "metadata_of (rr_root R @ segs) (W (Suc v)) = Inr current"
    "same_file_snapshot before after" "same_file_snapshot after current"
    "canonicalize (rr_root R @ segs) (W (Suc (Suc v))) = Inr (rr_root R @ rel)"
    "object_key R (rr_root R @ rel) after = Inr object"
    "entry_key_from_lexical W R (rr_root R @ segs) (Suc (Suc (Suc v))) = Some (Inr key, t')"
    "obs = [ObjectObs object (ObjectPresent RegularFile (blake3_digest h bytes) (md_len after)) 0,
            EntryObs key (EntryPresent RegularFile (md_dev after) (md_ino after) None) 0]"
    "reject_symlink_components W R p False False t = Some (Inr (), s0)"
    by (fastforce simp: observe_existing_file_def digest_reader_def join_validated_def canonical_inside_Inr
        split: if_splits)
  have "t \<le> s0" using forwardD [OF forward_reject_symlink_components *(13)] .
  have "Suc (Suc (Suc s0)) \<le> v" using forwardD [OF forward_read_to_end *(4)] by simp
  with that [of "Suc (Suc s0)" v segs i before bytes after current rel key] * \<open>t \<le> s0\<close>
  show thesis by (auto simp: object_key_def)
qed

text \<open>
  C13. A successful observation of a file is a snapshot: if equal metadata means that the content
  did not change in between, there is one moment during the call at which the path led to a
  regular file with exactly the reported identity, length and content digest. The reported path
  is the canonical path of the file at a moment of the call, inside the workspace, and the entry
  is keyed by the directory that its parent path led to. Nothing is assumed about what other
  processes do to the file system meanwhile.
\<close>

theorem observation_is_a_snapshot:
  assumes "stat_tracks_content W"
    and "observe_existing_file W h fuel R p t = Some (Inr obs, t')"
  shows "\<exists>segs u i bytes rel key. validated_relative_path p = Inr segs \<and> t \<le> u \<and> Suc u < t'
    \<and> file_here (W u) (rr_root R @ segs) i bytes
    \<and> canonicalize (rr_root R @ segs) (W (Suc u)) = Inr (rr_root R @ rel)
    \<and> entry_seen W R (rr_root R @ segs) key t t'
    \<and> obs = [ObjectObs \<lparr>rk_workspace_id = rr_workspace_id R, rk_kind = Object,
                       rk_resource_id = object_id (fst i) (snd i),
                       rk_canonical_path = join_path rel\<rparr>
               (ObjectPresent RegularFile (digest_bytes h bytes) (length bytes)) 0,
             EntryObs key (EntryPresent RegularFile (fst i) (snd i) None) 0]"
proof -
  obtain s v segs i before bytes after current rel key where steps:
    "t \<le> s" "Suc s \<le> v" "checked_segments p = Inr segs"
    "file_metadata (W s) i = Inr before" "md_type before = RegularType"
    "read_to_end W (rr_root R @ segs) fuel i [] (Suc (Suc s)) = Some (Inr bytes, v)"
    "file_metadata (W v) i = Inr after"
    "metadata_of (rr_root R @ segs) (W (Suc v)) = Inr current"
    "same_file_snapshot before after" "same_file_snapshot after current"
    "canonicalize (rr_root R @ segs) (W (Suc (Suc v))) = Inr (rr_root R @ rel)"
    "entry_key_from_lexical W R (rr_root R @ segs) (Suc (Suc (Suc v))) = Some (Inr key, t')"
    "utf8_valid (join_path rel)"
    "obs = [ObjectObs \<lparr>rk_workspace_id = rr_workspace_id R, rk_kind = Object,
                      rk_resource_id = ''object:'' @ filesystem_identity after,
                      rk_canonical_path = join_path rel\<rparr>
              (ObjectPresent RegularFile (blake3_digest h bytes) (md_len after)) 0,
            EntryObs key (EntryPresent RegularFile (md_dev after) (md_ino after) None) 0]"
    using assms(2) by (rule observe_existing_file_steps)
  from steps(8) obtain stack n where n: "resolve (W (Suc v)) True (rr_root R @ segs) = Inr stack"
    "fs_nodes (W (Suc v)) (here (W (Suc v)) stack) = Some n"
    "current = node_metadata (here (W (Suc v)) stack) n"
    by (auto simp: metadata_of_Inr)
  from steps(7) obtain a where a: "after = node_metadata i a" by (auto simp: file_metadata_Inr)
  have same: "same_file_snapshot before current" using steps(9,10) by (simp add: same_file_snapshot_def)
  have i: "here (W (Suc v)) stack = i" using steps(10) n(3) a by (simp add: same_file_snapshot_nodes)
  have "file_metadata (W (Suc v)) i = Inr current" using n i by (auto simp: file_metadata_Inr)
  from same_snapshot_content [OF assms(1) _ _ steps(4) this same steps(5), of v] steps(2)
  obtain content where len: "length content = md_len before" and content:
    "\<forall>w. s \<le> w \<longrightarrow> w \<le> Suc v \<longrightarrow> (\<exists>m. fs_nodes (W w) i = Some m \<and> nd_body m = FileNode content)"
    by auto
  have bytes: "bytes = content"
    by (rule read_to_end_content [OF steps(6)]) (use content in auto)
  have "file_here (W (Suc v)) (rr_root R @ segs) i bytes"
    unfolding file_here_def using n i spec [OF content, of "Suc v"] steps(2) bytes by auto
  moreover have key: "entry_seen W R (rr_root R @ segs) key (Suc (Suc (Suc v))) t'"
    using steps(12) by (rule entry_key_seen)
  moreover have "entry_seen W R (rr_root R @ segs) key t t'" "Suc (Suc v) < t'"
    using entry_seen_earlier [OF key, of t] entry_seen_later [OF key] steps(1,2) by simp_all
  moreover have "md_len after = length bytes" "md_dev after = fst i" "md_ino after = snd i"
    "''object:'' @ filesystem_identity after = object_id (fst i) (snd i)"
    using steps(9) len bytes a
    by (simp_all add: same_file_snapshot_def node_metadata_def filesystem_identity_def object_id_def)
  moreover have "validated_relative_path p = Inr segs" using steps(3) by (simp add: checked_segments_def)
  ultimately show ?thesis using steps(1,2,11,14) unfolding digest_bytes_def
    by (intro exI [of _ segs] exI [of _ "Suc v"] exI [of _ i] exI [of _ bytes] exI [of _ rel]
        exI [of _ key]) auto
qed

subsection \<open>A workspace with two files, one of which is being written\<close>

definition demo_node :: "node_body \<Rightarrow> int \<Rightarrow> node" where
  "demo_node body time =
     \<lparr>nd_body = body, nd_mtime = time, nd_mtime_nsec = 0, nd_ctime = time, nd_ctime_nsec = 0,
      nd_nlink = 1, nd_readable = True, nd_searchable = True, nd_mode = 420\<rparr>"

definition demo_fs :: "string \<Rightarrow> int \<Rightarrow> fs" where
  "demo_fs other time =
     \<lparr>fs_root = (1, 2),
      fs_nodes = map_of
        [((1, 2), demo_node (DirNode [(''w'', (1, 3))] 0) 0),
         ((1, 3), demo_node (DirNode [(''b'', (1, 5)), (''a'', (1, 4))] 0) 0),
         ((1, 4), demo_node (FileNode ''hi'') 0),
         ((1, 5), demo_node (FileNode other) time)]\<rparr>"

definition demo_world :: world where
  "demo_world t = (if t < 4 then demo_fs ''old'' 1 else demo_fs ''new'' 2)"

definition demo_resolver :: resolver where
  "demo_resolver = \<lparr>rr_workspace_id = ''ws'', rr_root = [''w'']\<rparr>"

definition demo_file_observation :: "resource_observation list" where
  "demo_file_observation =
     [ObjectObs \<lparr>rk_workspace_id = ''ws'', rk_kind = Object, rk_resource_id = ''object:1:4'',
                 rk_canonical_path = ''a''\<rparr>
        (ObjectPresent RegularFile \<lparr>cd_algorithm = Blake3, cd_value = ''hi''\<rparr> 2) 0,
      EntryObs \<lparr>rk_workspace_id = ''ws'', rk_kind = Entry, rk_resource_id = ''entry:1:3:a'',
                rk_canonical_path = ''a''\<rparr> (EntryPresent RegularFile 1 4 None) 0]"

lemma demo_observation:
  "observe_existing_file demo_world (\<lambda>b. b) 3 demo_resolver ''a'' 0 = Some (Inr demo_file_observation, 12)"
  by code_simp

lemma demo_tracks: "stat_tracks_content demo_world"
  by (auto simp: stat_tracks_content_def demo_world_def demo_fs_def demo_node_def stamp_def
      split: if_splits)

theorem observation_is_a_snapshot_witness:
  "\<exists>segs u i bytes rel key. validated_relative_path ''a'' = Inr segs \<and> 0 \<le> u \<and> Suc u < 12
    \<and> file_here (demo_world u) ([''w''] @ segs) i bytes
    \<and> canonicalize ([''w''] @ segs) (demo_world (Suc u)) = Inr ([''w''] @ rel)
    \<and> entry_seen demo_world demo_resolver ([''w''] @ segs) key 0 12
    \<and> demo_file_observation =
        [ObjectObs \<lparr>rk_workspace_id = ''ws'', rk_kind = Object,
                    rk_resource_id = object_id (fst i) (snd i), rk_canonical_path = join_path rel\<rparr>
           (ObjectPresent RegularFile (digest_bytes (\<lambda>b. b) bytes) (length bytes)) 0,
         EntryObs key (EntryPresent RegularFile (fst i) (snd i) None) 0]"
  using observation_is_a_snapshot [OF demo_tracks demo_observation]
  by (simp add: demo_resolver_def)

end
