(* ===== verification/Resolver_Quiet.thy ===== *)
theory Resolver_Quiet
  imports Resolver_Races
begin

section \<open>Observations of a quiet file system\<close>

text \<open>
  When nothing else runs, the observation of a regular file that is reached without links
  succeeds, reports what the file is, and is accepted as the start of an update. The fuel is
  enough as soon as it covers the file in parts of the size of the buffer, and one call more
  to see its end.
\<close>

abbreviation quiet :: "fs \<Rightarrow> world" where
  "quiet F \<equiv> \<lambda>_. F"

lemma bindO_step: "m t = Some (Inr x, s) \<Longrightarrow> bindO m f t = f x s"
  by (simp add: bindO_def)

lemma callO_eval: "f (W t) = Inr x \<Longrightarrow> callO W p f t = Some (Inr x, Suc t)"
  by simp

lemma callO_step: "f (W t) = Inr x \<Longrightarrow> bindO (callO W p f) k t = k x (Suc t)"
  by (rule bindO_step) simp

lemma sysO_step: "bindO (sysO W f) k t = k (f (W t)) (Suc t)"
  by (rule bindO_step) simp

lemma liftO_step: "m = Inr x \<Longrightarrow> bindO (liftO m) k t = k x t"
  by (rule bindO_step) simp

lemma plain_metadata:
  assumes "plain F [] (cs @ [c]) (e # stack)"
  obtains n where "fs_nodes F (snd e) = Some n" "body_type (nd_body n) \<noteq> SymlinkType"
    "symlink_metadata (cs @ [c]) F = Inr (node_metadata (snd e) n)"
    "metadata_of (cs @ [c]) F = Inr (node_metadata (snd e) n)"
proof -
  obtain stack' where s: "plain F [] cs stack'" "plain F stack' [c] (e # stack)"
    using plain_appendD [OF assms] by auto
  from s(2) obtain n where n: "fs_nodes F (snd e) = Some n" "link_target F (snd e) = None"
    by (auto elim!: plain_ConsE)
  have "here F (e # stack) = snd e" by (cases e) (simp add: here_def)
  then have "symlink_metadata (cs @ [c]) F = Inr (node_metadata (snd e) n)"
    "metadata_of (cs @ [c]) F = Inr (node_metadata (snd e) n)"
    using n(1) by (simp_all add: symlink_metadata_def metadata_of_def resolve_plain [OF assms]
        file_metadata_def node_at_def)
  moreover have "body_type (nd_body n) \<noteq> SymlinkType"
    using n by (cases "nd_body n") (auto simp: link_target_def)
  ultimately show thesis using that n(1) by blast
qed

lemma plain_snocD:
  "plain F stack (cs @ [c]) (e # stack') \<Longrightarrow> plain F stack cs stack' \<and> plain F stack' [c] (e # stack')"
  by (auto dest!: plain_appendD elim!: plain_ConsE intro: plain.intros)

lemma reject_loop_plain:
  assumes "plain F [] current stack" and "plain F stack cs stack'"
  shows "reject_loop (quiet F) p a s target current cs t = Some (Inr (), t + length cs)"
  using assms
proof (induction cs arbitrary: current stack t)
  case (Cons c cs)
  from Cons.prems(2) obtain i where c: "plain F stack [c] ((c, i) # stack)" "plain F ((c, i) # stack) cs stack'"
    by (auto elim!: plain_ConsE intro!: plain.intros)
  have p: "plain F [] (current @ [c]) ((c, i) # stack)" using plain_append [OF Cons.prems(1) c(1)] .
  obtain n where "symlink_metadata (current @ [c]) F = Inr (node_metadata i n)"
    "body_type (nd_body n) \<noteq> SymlinkType"
    using plain_metadata [OF p] by auto
  then show ?case using Cons.IH [OF p c(2), of "Suc t"]
    by (simp add: sysO_step Let_def node_metadata_def)
qed simp

lemma canonical_inside_plain:
  assumes "plain F [] (rr_root R @ cs) stack" and "fs_nodes F (here F stack) \<noteq> None"
  shows "canonical_inside (quiet F) R (rr_root R @ cs) t = Some (Inr (rr_root R @ cs), Suc t)"
proof -
  have "canonicalize (rr_root R @ cs) F = Inr (rr_root R @ cs)"
    using assms plain_names [OF assms(1)]
    by (auto simp: canonicalize_def resolve_plain node_at_def simp del: rev_map)
  then show ?thesis by (simp add: canonical_inside_Inr)
qed

lemma read_to_end_quiet:
  assumes "fs_nodes F i = Some n" "nd_body n = FileNode bytes"
    and "hashed = take (length hashed) bytes" and "length bytes \<le> length hashed + k * buffer_size"
  shows "\<exists>t'. read_to_end (quiet F) path (Suc k) i hashed t = Some (Inr bytes, t')"
  using assms(3,4)
proof (induction k arbitrary: hashed t)
  case 0
  then have "file_read i (length hashed) buffer_size F = Inr []" "hashed = bytes"
    using assms(1,2) by (auto simp: file_read_def node_at_def)
  then show ?case by (simp add: callO_step)
next
  case (Suc k)
  define chunk where "chunk = take buffer_size (drop (length hashed) bytes)"
  have r: "file_read i (length hashed) buffer_size F = Inr chunk"
    using assms(1,2) by (simp add: file_read_def node_at_def chunk_def)
  have h: "hashed @ chunk = take (length (hashed @ chunk)) bytes"
  proof -
    have "take (length chunk) (drop (length hashed) bytes) = chunk"
      by (simp add: chunk_def min_def)
    then show ?thesis using Suc.prems(1) by (simp add: take_add)
  qed
  show ?case
  proof (cases "chunk = []")
    case True
    then have "length bytes \<le> length hashed" by (simp add: chunk_def buffer_size_def)
    then show ?thesis using Suc.prems(1) r True
      by (simp only: read_to_end.simps) (auto simp: callO_step simp del: read_to_end.simps)
  next
    case False
    have "length bytes \<le> length (hashed @ chunk) + k * buffer_size"
      using Suc.prems(2) by (auto simp: chunk_def min_def)
    from Suc.IH [OF h this] show ?thesis using r False
      by (subst read_to_end.simps) (simp add: callO_step del: read_to_end.simps)
  qed
qed

text \<open>\<open>regular_file F R segs i bytes pi\<close>: below the root of the workspace the components \<open>segs\<close> lead,
  without links, to a readable regular file \<open>i\<close> with the given content in the directory \<open>pi\<close>.\<close>

definition regular_file ::
  "fs \<Rightarrow> resolver \<Rightarrow> string list \<Rightarrow> inode \<Rightarrow> string \<Rightarrow> inode \<Rightarrow> bool" where
  "regular_file F R segs i bytes pi =
     (\<exists>stack n. plain F [] (rr_root R @ segs) ((last segs, i) # stack) \<and> here F stack = pi
        \<and> segs \<noteq> [] \<and> fs_nodes F i = Some n \<and> nd_body n = FileNode bytes \<and> nd_readable n)"

definition file_observation ::
  "(string \<Rightarrow> string) \<Rightarrow> resolver \<Rightarrow> string list \<Rightarrow> inode \<Rightarrow> string \<Rightarrow> inode \<Rightarrow> resource_observation list" where
  "file_observation h R segs i bytes pi =
     [ObjectObs \<lparr>rk_workspace_id = rr_workspace_id R, rk_kind = Object,
                 rk_resource_id = object_id (fst i) (snd i), rk_canonical_path = join_path segs\<rparr>
        (ObjectPresent RegularFile (digest_bytes h bytes) (length bytes)) 0,
      EntryObs \<lparr>rk_workspace_id = rr_workspace_id R, rk_kind = Entry,
                rk_resource_id = ''entry:'' @ nat_digits (fst pi) @ '':'' @ nat_digits (snd pi) @ '':'' @ last segs,
                rk_canonical_path = join_path segs\<rparr> (EntryPresent RegularFile (fst i) (snd i) None) 0]"

lemma plain_clean: "plain F stack cs stack' \<Longrightarrow> c \<in> set cs \<Longrightarrow> clean_segment c"
  by (induction rule: plain.induct) auto

lemma entry_key_plain:
  assumes "plain F [] (rr_root R @ segs) ((last segs, i) # stack)" "segs \<noteq> []"
    and "here F stack = pi" and "utf8_valid (last segs)" "utf8_valid (join_path (butlast segs))"
  shows "entry_key_from_lexical (quiet F) R (rr_root R @ segs) t =
    Some (Inr \<lparr>rk_workspace_id = rr_workspace_id R, rk_kind = Entry,
               rk_resource_id = ''entry:'' @ nat_digits (fst pi) @ '':'' @ nat_digits (snd pi) @ '':'' @ last segs,
               rk_canonical_path = join_path segs\<rparr>, Suc (Suc t))"
proof -
  let ?parent = "rr_root R @ butlast segs"
  have segs: "rr_root R @ segs = ?parent @ [last segs]" using assms(2) by simp
  from assms(1) have p: "plain F [] ?parent stack"
    and last: "plain F stack [last segs] ((last segs, i) # stack)"
    unfolding segs by (blast dest: plain_snocD)+
  from last obtain n where n: "fs_nodes F pi = Some n"
    using assms(3) by (auto elim!: plain_ConsE simp: lookup_entries_def node_at_def)
  have md: "metadata_of ?parent F = Inr (node_metadata pi n)"
    using p assms(3) n by (simp add: metadata_of_def resolve_plain file_metadata_def node_at_def)
  have "butlast segs \<noteq> [] \<Longrightarrow> join_path (butlast segs @ [last segs]) = join_path (butlast segs) @ ''/'' @ last segs"
    by (rule join_path_snoc)
  moreover have "[] \<notin> set (butlast segs)"
    using plain_clean [OF assms(1)] by (auto simp: clean_segment_def dest: in_set_butlastD)
  ultimately have path: "(if join_path (butlast segs) = [] then last segs
      else join_path (butlast segs) @ ''/'' @ last segs) = join_path segs"
    using assms(2) by (cases "butlast segs = []") (auto simp: join_path_empty, metis append_butlast_last_id append_Nil join_path.simps(2))
  have "canonical_inside (quiet F) R ?parent t = Some (Inr ?parent, Suc t)"
    using p assms(3) n by (simp add: canonical_inside_plain)
  then show ?thesis
    using assms(2,4,5) md path unfolding entry_key_from_lexical_def Let_def
    by (auto simp: bindO_step [where x = ?parent and s = "Suc t"] butlast_append
        liftO_step [where x = "join_path (butlast segs)"] callO_step
        filesystem_identity_def node_metadata_def split: if_splits)
qed

lemma reject_plain:
  assumes "plain F [] (rr_root R @ segs) stack" "validated_relative_path p = Inr segs"
  shows "reject_symlink_components (quiet F) R p a s t = Some (Inr (), t + length segs)"
proof -
  from assms(1) obtain rs where "plain F [] (rr_root R) rs" "plain F rs segs stack"
    by (blast dest: plain_appendD)
  then show ?thesis using assms(2)
    by (simp add: reject_symlink_components_def checked_segments_def liftO_step reject_loop_plain)
qed

lemma observe_file_quiet:
  assumes "regular_file F R segs i bytes pi" "validated_relative_path p = Inr segs"
    and "utf8_valid (join_path segs)" "utf8_valid (last segs)" "utf8_valid (join_path (butlast segs))"
    and "length bytes + buffer_size \<le> fuel * buffer_size"
  shows "\<exists>t'. observe_existing_file (quiet F) h fuel R p t
           = Some (Inr (file_observation h R segs i bytes pi), t')"
proof -
  from assms(1) obtain stack n where p: "plain F [] (rr_root R @ segs) ((last segs, i) # stack)"
    and pi: "here F stack = pi" and segs: "segs \<noteq> []"
    and n: "fs_nodes F i = Some n" "nd_body n = FileNode bytes" "nd_readable n"
    by (auto simp: regular_file_def)
  let ?lexical = "rr_root R @ segs" and ?m = "node_metadata i n"
  have here: "here F ((last segs, i) # stack) = i" by (simp add: here_def)
  have md: "symlink_metadata ?lexical F = Inr ?m" "metadata_of ?lexical F = Inr ?m"
    "file_open ?lexical F = Inr i" "file_metadata F i = Inr ?m"
    using p here n
    by (simp_all add: symlink_metadata_def metadata_of_def file_open_def resolve_plain
        file_metadata_def node_at_def)
  have m: "md_type ?m = RegularType" "md_len ?m = length bytes" "md_dev ?m = fst i" "md_ino ?m = snd i"
    "same_file_snapshot ?m ?m"
    using n(2) by (simp_all add: node_metadata_def same_file_snapshot_def)
  have inside: "canonical_inside (quiet F) R ?lexical s = Some (Inr ?lexical, Suc s)" for s
    using p here n by (simp add: canonical_inside_plain)
  obtain k where k: "fuel = Suc k" "length bytes \<le> k * buffer_size"
    using assms(6) by (cases fuel) (auto simp: buffer_size_def)
  obtain v where v: "read_to_end (quiet F) ?lexical fuel i [] (Suc (Suc (Suc (Suc (t + length segs)))))
      = Some (Inr bytes, v)"
    using read_to_end_quiet [OF n(1,2), of "[]" k ?lexical] k by (auto simp del: read_to_end.simps)
  have digest: "digest_reader (quiet F) h fuel ?lexical i (Suc (Suc (Suc (Suc (t + length segs)))))
      = Some (Inr (digest_bytes h bytes), v)"
    using v by (simp add: digest_reader_def bindO_def digest_bytes_def)
  have join: "join_validated R p = Inr ?lexical"
    using assms(2) by (simp add: join_validated_def checked_segments_def)
  have object: "object_key R ?lexical ?m = Inr \<lparr>rk_workspace_id = rr_workspace_id R, rk_kind = Object,
      rk_resource_id = object_id (fst i) (snd i), rk_canonical_path = join_path segs\<rparr>"
    using assms(3) m by (simp add: object_key_def object_id_def filesystem_identity_def bindE_eq_Inr)
  show ?thesis
    unfolding observe_existing_file_def file_observation_def
    by (simp add: bindO_def reject_plain [OF p assms(2)] liftO_def join callO_eval md m
        inside digest object retO_def entry_key_plain [OF p segs pi assms(4,5)])
qed

lemma ends_with_append: "ends_with (a @ b) b"
  by (simp add: ends_with_def)

lemma basename_join:
  "segs \<noteq> [] \<Longrightarrow> \<forall>s \<in> set segs. clean_segment s \<Longrightarrow> basename (join_path segs) = last segs"
  by (simp add: basename_def split_join clean_segment_def)

lemma file_observation_accepted:
  assumes "validated_relative_path p = Inr segs" "segs \<noteq> []" "\<forall>s \<in> set segs. clean_segment s"
    and "rr_workspace_id R \<noteq> []"
  shows "validate_operation_start (Update p) (file_observation h R segs i bytes pi) = Inr ()"
proof -
  have path: "checked_operation_path p = Inr (join_path segs)"
    using assms(1) by (simp add: checked_operation_path_def operation_path_def)
  have "ends_with (''entry:'' @ a @ '':'' @ b @ '':'' @ last segs) ('':'' @ last segs)" for a b
    using ends_with_append [of "''entry:'' @ a @ '':'' @ b" "'':'' @ last segs"] by simp
  then show ?thesis
    using assms(2-4) basename_join [of segs]
    by (simp add: path file_observation_def validate_regular_file_def require_shape_def at_key_def
        validate_regular_file_from_set_def observation_at_def validate_present_regular_entry_def
        validate_present_entry_def validate_entry_resource_def starts_with_def digest_bytes_def
        blake3_digest_def)
qed

text \<open>
  C15. On a file system nothing else changes, observing an update of a regular file that is
  reached without symbolic links returns: the result is the observation of its identity,
  content digest, length and directory entry, and it is accepted as the start of the update. The
  fuel has to cover the content in parts of 64 KiB and one part more.
\<close>

theorem quiet_update_observed:
  assumes "regular_file F R segs i bytes pi" and "validated_relative_path p = Inr segs"
    and "utf8_valid (join_path segs)" "utf8_valid (last segs)" "utf8_valid (join_path (butlast segs))"
    and "rr_workspace_id R \<noteq> []" and "length bytes + buffer_size \<le> fuel * buffer_size"
  shows "\<exists>t'. observe_operation (quiet F) h fuel R (Update p) t
           = Some (Inr (file_observation h R segs i bytes pi), t')"
proof -
  obtain t' where obs: "observe_existing_file (quiet F) h fuel R p t
      = Some (Inr (file_observation h R segs i bytes pi), t')"
    using observe_file_quiet [OF assms(1-5,7)] by blast
  have "segs \<noteq> []" "\<forall>s \<in> set segs. clean_segment s"
    using assms(1) plain_clean by (fastforce simp: regular_file_def)+
  then show ?thesis
    using obs file_observation_accepted [OF assms(2) _ _ assms(6)]
    by (simp add: observe_operation_def bindO_def liftO_def retO_def)
qed

lemma demo_regular_file: "regular_file (demo_fs ''x'' 0) demo_resolver [''a''] (1, 4) ''hi'' (1, 3)"
  unfolding regular_file_def
  by (rule exI [of _ "[(''w'', (1, 3))]"])
    (auto simp: demo_resolver_def demo_fs_def demo_node_def here_def lookup_entries_def node_at_def
      link_target_def clean_segment_def intro!: plain.intros)

theorem quiet_update_observed_witness:
  "\<exists>t'. observe_operation (quiet (demo_fs ''x'' 0)) (\<lambda>b. b) 2 demo_resolver (Update ''./a'') 7
     = Some (Inr demo_file_observation, t')"
proof -
  have obs: "file_observation (\<lambda>b. b) demo_resolver [''a''] (1, 4) ''hi'' (1, 3) = demo_file_observation"
    by code_simp
  have "validated_relative_path ''./a'' = Inr [''a'']" "utf8_valid (join_path [''a''])"
    "utf8_valid (last [''a''])" "utf8_valid (join_path (butlast [''a'']))"
    "rr_workspace_id demo_resolver \<noteq> []" "length ''hi'' + buffer_size \<le> 2 * buffer_size"
    by (code_simp, code_simp, code_simp, code_simp, code_simp, simp add: buffer_size_def)
  from quiet_update_observed [OF demo_regular_file this, of "\<lambda>b. b" 7] show ?thesis
    unfolding obs .
qed

end
