(* ===== verification/Resolver_Trees.thy ===== *)
theory Resolver_Trees
  imports Resolver_Quiet Json
begin

section \<open>Directory snapshots\<close>

text \<open>
  \<open>directory_snapshot\<close> hashes a directory tree. What it is meant to identify is the listing of the
  tree: for every directory its path, identity and size, for every file its path, identity and
  content, in the order of the names. The bytes that are hashed encode the listing as a prefix
  code (the interface \<open>prefix_code\<close> of \<open>Json\<close>), so under a hash without collisions two
  snapshots are equal exactly when the listings are.
\<close>

datatype tree_item =
    TreeDir string inode nat
  | TreeFile string inode string

fun tree_listing :: "fs \<Rightarrow> resolver \<Rightarrow> nat \<Rightarrow> string list \<Rightarrow> tree_item list" where
  "tree_listing F R 0 path = []"
| "tree_listing F R (Suc n) path =
     (case resolve F False path of
        Inl _ \<Rightarrow> []
      | Inr stack \<Rightarrow>
          let i = here F stack; relative = join_path (drop (length (rr_root R)) path) in
          case map_option nd_body (fs_nodes F i) of
            Some (FileNode bytes) \<Rightarrow> [TreeFile relative i bytes]
          | Some (DirNode entries len) \<Rightarrow>
              TreeDir relative i len
              # concat (map (\<lambda>name. tree_listing F R n (path @ [name])) (sort (map fst entries)))
          | _ \<Rightarrow> [])"

definition identity_text :: "inode \<Rightarrow> string" where
  "identity_text i = nat_digits (fst i) @ '':'' @ nat_digits (snd i)"

definition encode_head :: "string \<Rightarrow> string \<Rightarrow> inode \<Rightarrow> nat \<Rightarrow> string" where
  "encode_head kind relative i len =
     hash_tree_field ''kind'' kind @ hash_tree_field ''path'' relative
     @ hash_tree_field ''identity'' (identity_text i) @ hash_tree_field ''byte_len'' (be64 len)"

fun encode_item :: "(string \<Rightarrow> string) \<Rightarrow> tree_item \<Rightarrow> string" where
  "encode_item h (TreeDir relative i len) = encode_head ''d'' relative i len"
| "encode_item h (TreeFile relative i bytes) =
     encode_head ''f'' relative i (length bytes) @ hash_tree_field ''digest'' (h bytes)"

definition inode_ok :: "inode \<Rightarrow> bool" where
  "inode_ok i = (fst i < 2 ^ 64 \<and> snd i < 2 ^ 64)"

fun item_ok :: "(string \<Rightarrow> string) \<Rightarrow> tree_item \<Rightarrow> bool" where
  "item_ok h (TreeDir relative i len) = (length relative < 2 ^ 64 \<and> inode_ok i \<and> len < 2 ^ 64)"
| "item_ok h (TreeFile relative i bytes) =
     (length relative < 2 ^ 64 \<and> inode_ok i \<and> length bytes < 2 ^ 64 \<and> length (h bytes) < 2 ^ 64)"

subsection \<open>The encoding is a prefix code\<close>

lemma field_prefix:
  assumes "hash_tree_field name v @ r = hash_tree_field name w @ s"
    and "length v < 2 ^ 64" "length w < 2 ^ 64"
  shows "v = w \<and> r = s"
proof -
  have "be64 (length v) @ v @ r = be64 (length w) @ w @ s"
    using assms(1) by (simp add: hash_tree_field_def)
  from be64_prefix [OF this assms(2,3)] show ?thesis by (metis append_eq_append_conv)
qed

lemma length_nat_digits: "length (nat_digits n) \<le> Suc (n div 10)"
proof (induction n rule: nat_digits.induct)
  case (1 n)
  show ?case
  proof (cases "n < 10")
    case False
    then show ?thesis using "1.IH" [OF False] by (subst nat_digits_step) auto
  qed (simp add: nat_digits_small)
qed

lemma length_identity_text: "inode_ok i \<Longrightarrow> length (identity_text i) < 2 ^ 64"
proof -
  assume "inode_ok i"
  then have "fst i div 10 < 2 ^ 62" "snd i div 10 < 2 ^ 62"
    by (auto simp: inode_ok_def intro!: less_mult_imp_div_less)
  then show ?thesis using length_nat_digits [of "fst i"] length_nat_digits [of "snd i"]
    by (simp add: identity_text_def)
qed

lemma digits_no_colon: "CHR '':'' \<notin> set (nat_digits n)"
proof (induction n rule: nat_digits.induct)
  case (1 n)
  have digit: "CHR '':'' \<noteq> char_of (48 + k :: nat)" if "k < 10" for k
  proof
    assume "CHR '':'' = (char_of (48 + k) :: char)"
    from arg_cong [OF this, of "of_char :: char \<Rightarrow> nat"] that show False by simp
  qed
  show ?case
  proof (cases "n < 10")
    case True
    then show ?thesis using digit by (simp add: nat_digits_small)
  next
    case False
    then show ?thesis using "1.IH" [OF False] digit [of "n mod 10"] by (simp add: nat_digits_step)
  qed
qed

lemma identity_text_inject: "identity_text i = identity_text j \<Longrightarrow> i = j"
proof -
  assume "identity_text i = identity_text j"
  then have "split_on (CHR '':'') (identity_text i) = split_on (CHR '':'') (identity_text j)" by simp
  then show "i = j"
    by (simp add: identity_text_def split_on_append_sep split_on_no_sep digits_no_colon prod_eq_iff)
qed

lemma head_prefix:
  assumes "encode_head k p i m @ r = encode_head l q j n @ s"
    and "length k < 2 ^ 64" "length l < 2 ^ 64" "length p < 2 ^ 64" "length q < 2 ^ 64"
    and "inode_ok i" "inode_ok j" "m < 2 ^ 64" "n < 2 ^ 64"
  shows "k = l \<and> p = q \<and> i = j \<and> m = n \<and> r = s"
proof -
  from field_prefix [of "''kind''", OF _ assms(2,3)] assms(1)
  have "k = l" and 1: "hash_tree_field ''path'' p @ hash_tree_field ''identity'' (identity_text i)
      @ hash_tree_field ''byte_len'' (be64 m) @ r
    = hash_tree_field ''path'' q @ hash_tree_field ''identity'' (identity_text j)
      @ hash_tree_field ''byte_len'' (be64 n) @ s"
    by (simp_all add: encode_head_def)
  from field_prefix [OF 1 assms(4,5)]
  have "p = q" and 2: "hash_tree_field ''identity'' (identity_text i) @ hash_tree_field ''byte_len'' (be64 m) @ r
    = hash_tree_field ''identity'' (identity_text j) @ hash_tree_field ''byte_len'' (be64 n) @ s"
    by simp_all
  from field_prefix [OF 2 length_identity_text length_identity_text, OF assms(6,7)]
  have "identity_text i = identity_text j"
    and 3: "hash_tree_field ''byte_len'' (be64 m) @ r = hash_tree_field ''byte_len'' (be64 n) @ s"
    by simp_all
  from field_prefix [OF 3] have "be64 m = be64 n" "r = s" by simp_all
  then show ?thesis
    using \<open>k = l\<close> \<open>p = q\<close> identity_text_inject [OF \<open>identity_text i = _\<close>] be64_inject assms(8,9) by blast
qed

lemma item_prefix:
  assumes "inj h" "item_ok h x" "item_ok h y" "encode_item h x @ r = encode_item h y @ s"
  shows "x = y \<and> r = s"
proof (cases x)
  case (TreeDir p i m)
  then show ?thesis
    using assms(2-4) by (cases y) (auto dest!: head_prefix)
next
  case (TreeFile p i bytes)
  then obtain q j bytes' where y: "y = TreeFile q j bytes'"
    using assms(2-4) by (cases y) (auto dest!: head_prefix)
  have "p = q \<and> i = j \<and> hash_tree_field ''digest'' (h bytes) @ r = hash_tree_field ''digest'' (h bytes') @ s"
    using assms(2-4) TreeFile y by (auto dest!: head_prefix)
  with field_prefix [of "''digest''" "h bytes" r "h bytes'" s] show ?thesis
    using assms(1-3) TreeFile y by (auto dest: injD)
qed


interpretation tree_code: prefix_code "encode_item h" "\<lambda>x. inj h \<and> item_ok h x" "\<lambda>x. x" for h
  by unfold_locales (use item_prefix in blast)+

lemma encode_item_nonempty: "encode_item h x \<noteq> []"
proof
  assume "encode_item h x = []"
  then have "length (encode_item h x) = 0" by simp
  then show False by (cases x) (simp_all add: encode_head_def hash_tree_field_def)
qed

subsection \<open>A snapshot hashes the listing\<close>

lemma walk_follow:
  "walk F False links stack cs = Inr stack' \<Longrightarrow> link_target F (here F stack') = None
    \<Longrightarrow> walk F True links stack cs = Inr stack'"
proof (induction F "False" links stack cs rule: walk.induct)
  case (2 F links stack c cs)
  from "2.prems"(1) obtain entries where e: "lookup_entries F (here F stack) = Inr entries" by auto
  show ?case
  proof (cases "c = [] \<or> c = ''.'' \<or> c = ''..''")
    case True
    then show ?thesis using "2.hyps"(1,2) [OF e] "2.prems" e by (auto split: if_splits)
  next
    case False
    with "2.prems"(1) e obtain i where i: "map_of entries c = Some i" by (auto split: option.splits)
    show ?thesis
    proof (cases "link_target F i")
      case None
      then show ?thesis using "2.hyps"(3) [OF e] "2.prems" e i False by auto
    next
      case (Some target)
      then have "cs \<noteq> []" using "2.prems" e i False by (auto simp: here_def)
      then show ?thesis using "2.hyps"(4) [OF e _ _ i Some] "2.prems" e i False Some
        by (auto split: nat.splits)
    qed
  qed
qed simp

lemma resolve_follow:
  "resolve F False path = Inr stack \<Longrightarrow> link_target F (here F stack) = None \<Longrightarrow> resolve F True path = Inr stack"
  unfolding resolve_def by (rule walk_follow)

definition hashes :: "fs \<Rightarrow> (string \<Rightarrow> string) \<Rightarrow> tree_item list \<Rightarrow> string \<times> nat \<Rightarrow> string \<times> nat \<Rightarrow> bool" where
  "hashes F h items st st' =
     (fst st' = fst st @ concat (map (encode_item h) items) \<and> snd st' = snd st + length items)"

lemma foldO_hashes:
  assumes "foldO (\<lambda>name (hashed, entry_count). f name (hashed, entry_count + 1)) names st t = Some (Inr st', t')"
    and "\<And>name a c s x s'. f name (a, c + 1) s = Some (Inr x, s') \<Longrightarrow> hashes F h (g name) (a, c) x"
  shows "hashes F h (concat (map g names)) st st'"
  using assms(1)
proof (induction names arbitrary: st t)
  case Nil
  then show ?case by (simp add: hashes_def)
next
  case (Cons name names)
  obtain a c where st: "st = (a, c)" by (cases st)
  from Cons.prems obtain x s where x: "f name (a, c + 1) t = Some (Inr x, s)"
    and rest: "foldO (\<lambda>name (hashed, entry_count). f name (hashed, entry_count + 1)) names x s
      = Some (Inr st', t')"
    unfolding st by auto
  have "hashes F h (g name) (a, c) x" using assms(2) [OF x] .
  with Cons.IH [OF rest] show ?case by (simp add: hashes_def st)
qed

lemma symlink_metadata_Inr:
  "symlink_metadata path F = Inr m \<longleftrightarrow>
     (\<exists>stack n. resolve F False path = Inr stack \<and> fs_nodes F (here F stack) = Some n
        \<and> m = node_metadata (here F stack) n)"
  by (auto simp: symlink_metadata_def file_metadata_Inr result_simps)

lemma relative_string_Inr: "relative_string R path = Inr p \<Longrightarrow> p = join_path (drop (length (rr_root R)) path)"
  by (auto simp: relative_string_def path_string_def split: if_splits)

lemma hash_tree_metadata_head:
  "hash_tree_metadata kind relative (node_metadata i n) = encode_head kind relative i (body_len (nd_body n))"
  by (simp add: hash_tree_metadata_def encode_head_def filesystem_identity_def identity_text_def
      node_metadata_def)

lemma hash_tree_entry_quiet:
  "hash_tree_entry (quiet F) h fuel R n path (a, c) t = Some (Inr st', t')
    \<Longrightarrow> hashes F h (tree_listing F R n path) (a, c) (fst st', snd st' + 1)"
proof (induction n arbitrary: path a c t st' t')
  case (Suc n)
  from Suc.prems obtain m relative where m: "symlink_metadata path F = Inr m"
    and rel: "relative_string R path = Inr relative" by auto
  from m obtain stack nd where nd: "resolve F False path = Inr stack"
    "fs_nodes F (here F stack) = Some nd" "m = node_metadata (here F stack) nd"
    by (auto simp: symlink_metadata_Inr)
  let ?i = "here F stack"
  have relative: "relative = join_path (drop (length (rr_root R)) path)"
    using rel by (rule relative_string_Inr)
  show ?case
  proof (cases "nd_body nd")
    case (DirNode entries len)
    have "link_target F ?i = None" using nd(2) DirNode by (simp add: link_target_def)
    then have "resolve F True path = Inr stack" using nd(1) by (blast intro: resolve_follow)
    then have names: "read_dir path F = Inr ns \<Longrightarrow> ns = map fst entries" for ns
      using nd(2) DirNode by (auto simp: read_dir_def node_at_def split: if_splits)
    from Suc.prems m rel nd(3) DirNode obtain s where
      "foldO (\<lambda>name (hashed, entry_count).
          hash_tree_entry (quiet F) h fuel R n (path @ [name]) (hashed, entry_count + 1))
        (sort (map fst entries)) (a @ hash_tree_metadata ''d'' relative m, c) s = Some (Inr st', t')"
      by (auto simp: node_metadata_def Let_def split: option.splits dest!: names)
    moreover have "hashes F h (tree_listing F R n (path @ [name])) (b, k) x"
      if "hash_tree_entry (quiet F) h fuel R n (path @ [name]) (b, k + 1) s = Some (Inr x, s')"
      for name b k s x s' using Suc.IH [OF that] by (simp add: hashes_def)
    ultimately have "hashes F h (concat (map (\<lambda>name. tree_listing F R n (path @ [name]))
        (sort (map fst entries)))) (a @ hash_tree_metadata ''d'' relative m, c) st'"
      by (rule foldO_hashes)
    then show ?thesis using nd DirNode relative
      by (simp add: hashes_def hash_tree_metadata_head)
  next
    case (FileNode bytes)
    from Suc.prems m rel nd(3) FileNode obtain i before hashed s v after current where f:
      "file_metadata F i = Inr before"
      "read_to_end (quiet F) path fuel i [] s = Some (Inr hashed, v)"
      "file_metadata F i = Inr after" "symlink_metadata path F = Inr current"
      "same_file_snapshot after current"
      "st' = (a @ hash_tree_metadata ''f'' relative after
               @ hash_tree_field ''digest'' (h hashed), c)"
      by (auto simp: node_metadata_def digest_reader_def blake3_digest_def split: if_splits)
    have "current = m" using f(4) m by simp
    then have i: "i = ?i" "after = m" using f(3,5) nd
      by (auto simp: file_metadata_Inr same_file_snapshot_nodes)
    have "hashed = bytes"
      by (rule read_to_end_content [OF f(2)]) (use nd(2) i FileNode in auto)
    then show ?thesis using f(6) i nd FileNode relative
      by (simp add: hashes_def hash_tree_metadata_head)
  qed (use Suc.prems m rel nd(3) in \<open>auto simp: node_metadata_def split: if_splits\<close>)
qed simp

lemma directory_snapshot_quiet:
  assumes "directory_snapshot (quiet F) h fuel R directory t = Some (Inr (digest, entries), t')"
  shows "digest = blake3_digest h (concat (map (encode_item h) (tree_listing F R fuel directory)))"
    and "Suc entries = length (tree_listing F R fuel directory)"
  using assms hash_tree_entry_quiet [of F h fuel R fuel directory "[]" 0 t]
  by (auto simp: directory_snapshot_def hashes_def)

text \<open>
  C14. A directory snapshot identifies the tree: under a hash without collisions, the snapshots of
  a directory in two file systems are equal exactly when the trees have the same listing, that is
  the same names, the same identities of directories and files, the same sizes of directories and
  the same contents of files. The count is the number of names below the directory. Sizes and
  inode numbers are those of \<open>u64\<close>.
\<close>

theorem snapshot_identifies_tree:
  assumes "inj h"
    and "directory_snapshot (quiet F) h fuel R directory t = Some (Inr (digest, entries), t')"
    and "directory_snapshot (quiet G) h fuel R directory s = Some (Inr (digest', entries'), s')"
    and "list_all (item_ok h) (tree_listing F R fuel directory)"
    and "list_all (item_ok h) (tree_listing G R fuel directory)"
  shows "(digest = digest' \<longleftrightarrow> tree_listing F R fuel directory = tree_listing G R fuel directory)
    \<and> Suc entries = length (tree_listing F R fuel directory)"
proof -
  let ?items = "tree_listing F R fuel directory" and ?items' = "tree_listing G R fuel directory"
  have "digest = digest' \<longleftrightarrow> concat (map (encode_item h) ?items) = concat (map (encode_item h) ?items')"
    using directory_snapshot_quiet(1) [OF assms(2)] directory_snapshot_quiet(1) [OF assms(3)] injD [OF assms(1)]
    by (auto simp: blake3_digest_def)
  also have "\<dots> \<longleftrightarrow> ?items = ?items'"
    using tree_code.concat_enc_inject [of ?items h ?items'] assms(1,4,5) encode_item_nonempty
    by (auto simp: list_all_iff)
  finally show ?thesis using directory_snapshot_quiet(2) [OF assms(2)] by simp
qed

theorem snapshot_identifies_tree_witness:
  "directory_snapshot (quiet (demo_fs ''x'' 0)) (\<lambda>b. b) 3 demo_resolver [''w''] 0
     \<noteq> directory_snapshot (quiet (demo_fs ''y'' 0)) (\<lambda>b. b) 3 demo_resolver [''w''] 0
   \<and> tree_listing (demo_fs ''x'' 0) demo_resolver 3 [''w'']
     = [TreeDir [] (1, 3) 0, TreeFile ''a'' (1, 4) ''hi'', TreeFile ''b'' (1, 5) ''x'']"
proof -
  have x: "tree_listing (demo_fs ''x'' 0) demo_resolver 3 [''w'']
      = [TreeDir [] (1, 3) 0, TreeFile ''a'' (1, 4) ''hi'', TreeFile ''b'' (1, 5) ''x'']"
    and y: "tree_listing (demo_fs ''y'' 0) demo_resolver 3 [''w'']
      = [TreeDir [] (1, 3) 0, TreeFile ''a'' (1, 4) ''hi'', TreeFile ''b'' (1, 5) ''y'']"
    by code_simp+
  have "case directory_snapshot (quiet (demo_fs ''x'' 0)) (\<lambda>b. b) 3 demo_resolver [''w''] 0 of
      Some (Inr _, _) \<Rightarrow> True | _ \<Rightarrow> False"
    by code_simp
  then obtain d c t' where d: "directory_snapshot (quiet (demo_fs ''x'' 0)) (\<lambda>b. b) 3 demo_resolver [''w''] 0
      = Some (Inr (d, c), t')"
    by (auto split: option.splits sum.splits)
  have "case directory_snapshot (quiet (demo_fs ''y'' 0)) (\<lambda>b. b) 3 demo_resolver [''w''] 0 of
      Some (Inr _, _) \<Rightarrow> True | _ \<Rightarrow> False"
    by code_simp
  then obtain d' c' s' where d': "directory_snapshot (quiet (demo_fs ''y'' 0)) (\<lambda>b. b) 3 demo_resolver [''w''] 0
      = Some (Inr (d', c'), s')"
    by (auto split: option.splits sum.splits)
  have "d \<noteq> d'"
    using snapshot_identifies_tree [OF _ d d'] unfolding x y by (simp add: inode_ok_def)
  then show ?thesis using d d' x by simp
qed

end
