(* ===== verification/Observation_Types.thy ===== *)
theory Observation_Types
  imports Resolver_Races
begin

section \<open>Well-typed observations\<close>

text \<open>
  What the resolver of \<^verbatim>\<open>resource.rs\<close> returns is well typed: an observation pairs a state with a key of the
  same kind, in the workspace of the resolver, at generation 0, which is the store's to assign.
\<close>

fun observation_typed :: "string \<Rightarrow> resource_observation \<Rightarrow> bool" where
  "observation_typed workspace (ObjectObs key state generation) \<longleftrightarrow>
     rk_kind key = Object \<and> rk_workspace_id key = workspace \<and> generation = 0"
| "observation_typed workspace (EntryObs key state generation) \<longleftrightarrow>
     rk_kind key = Entry \<and> rk_workspace_id key = workspace \<and> generation = 0"
| "observation_typed workspace (TreeObs key state generation) \<longleftrightarrow>
     rk_kind key = DirectoryTree \<and> rk_workspace_id key = workspace \<and> generation = 0"

text \<open>An observer that returns only lists of such observations.\<close>

definition typed :: "string \<Rightarrow> resource_observation list observer \<Rightarrow> bool" where
  "typed workspace m \<longleftrightarrow> (\<forall>t obs t'. m t = Some (Inr obs, t') \<longrightarrow> list_all (observation_typed workspace) obs)"

lemma typedI: "(\<And>t obs t'. m t = Some (Inr obs, t') \<Longrightarrow> list_all (observation_typed workspace) obs) \<Longrightarrow> typed workspace m"
  by (auto simp: typed_def)

lemma typedD: "typed workspace m \<Longrightarrow> m t = Some (Inr obs, t') \<Longrightarrow> list_all (observation_typed workspace) obs"
  by (auto simp: typed_def)

lemma typed_fail: "typed workspace (failO e)"
  by (auto simp: typed_def failO_def)

lemma key_types:
  "object_key R path m = Inr key \<Longrightarrow> rk_kind key = Object \<and> rk_workspace_id key = rr_workspace_id R"
  "directory_key R path m = Inr key \<Longrightarrow> rk_kind key = DirectoryTree \<and> rk_workspace_id key = rr_workspace_id R"
  by (auto simp: object_key_def directory_key_def bindE_eq_Inr)

lemma entry_key_types:
  "entry_key_from_lexical W R lexical t = Some (Inr key, t') \<Longrightarrow> rk_kind key = Entry \<and> rk_workspace_id key = rr_workspace_id R"
  by (auto simp: entry_key_from_lexical_def Let_def retO_def failO_def split: if_splits)

lemmas observation_defs = observe_existing_file_def observe_existing_symlink_entry_def observe_absent_entry_def
  observe_directory_tree_def

lemma observers_typed:
  "typed (rr_workspace_id R) (observe_existing_file W h fuel R path)"
  "typed (rr_workspace_id R) (observe_existing_symlink_entry W h R path)"
  "typed (rr_workspace_id R) (observe_absent_entry W R path)"
  "typed (rr_workspace_id R) (observe_directory_tree W h fuel R path)"
  by (rule typedI, auto simp: observation_defs Let_def retO_def failO_def liftO_def split: if_splits sum.splits prod.splits
      dest!: key_types entry_key_types)+

lemma rmdir_typed: "typed (rr_workspace_id R) (observe_rmdir W h fuel R path)"
proof (rule typedI)
  fix t obs t' assume run: "observe_rmdir W h fuel R path t = Some (Inr obs, t')"
  then obtain tree t1 rest key state generation where tree: "observe_directory_tree W h fuel R path t = Some (Inr tree, t1)"
    and first: "tree = TreeObs key state generation # rest"
    by (auto simp: observe_rmdir_def failO_def split: list.splits resource_observation.splits)
  from tree have "list_all (observation_typed (rr_workspace_id R)) tree" by (rule typedD [OF observers_typed(4)])
  with run tree show "list_all (observation_typed (rr_workspace_id R)) obs"
    unfolding first
    by (auto simp: observe_rmdir_def Let_def retO_def failO_def split: if_splits directory_tree_state.splits dest!: entry_key_types)
qed

lemma pair_typed: "typed workspace m \<Longrightarrow> typed workspace n \<Longrightarrow> typed workspace (observe_pair m n path)"
  by (rule typedI) (auto simp: observe_pair_def retO_def failO_def typed_def split: if_splits, blast+)

text \<open>
  C28. Whatever the file system does meanwhile, the observations that \<open>observe_operation\<close> returns are well typed
  (the kind of every key is the kind of its state, its workspace is the resolver's, its generation is
  0), and they are accepted as the start of the operation they were made for.
\<close>

theorem observations_are_typed:
  assumes "observe_operation W h fuel R operation t = Some (Inr obs, t')"
  shows "list_all (observation_typed (rr_workspace_id R)) obs \<and> validate_operation_start operation obs = Inr ()"
proof -
  have target: "typed (rr_workspace_id R) (observe_existing_target W h fuel R path entry_only)" for path entry_only
    by (simp add: observe_existing_target_def observers_typed)
  from assms show ?thesis
    by (cases operation)
      (auto simp: observe_operation_def liftO_def retO_def failO_def
        dest: typedD [OF observers_typed(1)] typedD [OF observers_typed(3)] typedD [OF observers_typed(4)] typedD [OF target]
          typedD [OF rmdir_typed] typedD [OF pair_typed [OF target observers_typed(3)]]
          typedD [OF pair_typed [OF observers_typed(1) observers_typed(3)]])
qed

theorem observations_are_typed_witness:
  "\<exists>obs t. observe_operation demo_world (\<lambda>b. b) 3 demo_resolver (Update ''a'') 0 = Some (Inr obs, t)
     \<and> length obs = 2 \<and> list_all (observation_typed ''ws'') obs"
proof -
  have "case observe_operation demo_world (\<lambda>b. b) 3 demo_resolver (Update ''a'') 0 of
      None \<Rightarrow> False | Some (r, t) \<Rightarrow> \<not> isl r \<and> length (projr r) = 2" by code_simp
  then obtain obs t where run: "observe_operation demo_world (\<lambda>b. b) 3 demo_resolver (Update ''a'') 0 = Some (Inr obs, t)" "length obs = 2"
    by (auto split: option.splits) (metis sum.collapse(2))
  with observations_are_typed [OF run(1)] show ?thesis by (auto simp: demo_resolver_def)
qed

end
