(* ===== verification/Server.thy ===== *)
theory Server
  imports Store_History
begin

section \<open>The HTTP server\<close>

text \<open>
  The router and handlers of \<^verbatim>\<open>src/crates/stateful-server/src/lib.rs\<close> and \<^verbatim>\<open>protocol.rs\<close>,
  with the request envelope of \<^verbatim>\<open>src/crates/stateful-core/src/types.rs\<close>. The state is the shared
  store behind its mutex: a handler that panics while it holds the lock poisons it
  (\<open>srv_poisoned\<close>), and gives no response. The work of \<open>axum\<close> and \<open>serde\<close> is a parameter, the
  record \<open>codec\<close>: deserialising the envelope, the payloads and the query strings, serialising
  results, decoding a path segment, and answering what no route matches.
\<close>

subsection \<open>The request envelope\<close>

datatype actor_type = ActorAgent | ActorSubagent | ActorHuman | ActorSystem

datatype protocol_version = V2

datatype contract_revision = Lease1

record agent_identity =
  ai_agent_id :: string
  ai_turn_id :: "string option"
  ai_actor_id :: string
  ai_actor_type :: actor_type
  ai_owner_id :: "string option"
  ai_parent_agent_id :: "string option"
  ai_parent_actor_id :: "string option"

record workspace_identity =
  wi_root :: string
  wi_workspace_id :: string
  wi_repo_id :: string
  wi_worktree_id :: string
  wi_branch :: string

datatype source_ref_kind = Hook | Cli

record source_ref =
  sr_kind :: source_ref_kind
  sr_event :: string
  sr_tool_name :: "string option"
  sr_source_ref :: string

record request_envelope =
  re_protocol_version :: protocol_version
  re_contract_revision :: contract_revision
  re_task_id :: string
  re_request_id :: string
  re_observed_at :: string
  re_agent :: agent_identity
  re_workspace :: workspace_identity
  re_source :: source_ref

datatype protocol_error = Mismatch | InvalidPayload

definition command_context_of :: "request_envelope \<Rightarrow> command_context" where
  "command_context_of request =
     \<lparr>cc_request_id = re_request_id request, cc_task_id = re_task_id request,
      cc_agent_id = ai_agent_id (re_agent request),
      cc_workspace_id = wi_workspace_id (re_workspace request),
      cc_observed_at = re_observed_at request\<rparr>"

subsection \<open>Requests and responses\<close>

datatype http_method = GET | POST

record http_request =
  hr_method :: http_method
  hr_path :: string
  hr_authorization :: "string option"
  hr_query :: string
  hr_body :: json

record http_response =
  rs_status :: nat
  rs_body :: json

record lease_request_query =
  lq_workspace_id :: string
  lq_task_id :: string
  lq_now :: string

text \<open>What the handlers call in \<open>axum\<close> and \<open>serde\<close>.\<close>

record codec =
  decode_envelope :: "json \<Rightarrow> (request_envelope \<times> json) option"
  decode_task_start :: "json \<Rightarrow> task_start_input option"
  decode_task_heartbeat :: "json \<Rightarrow> task_heartbeat_input option"
  decode_task_end :: "json \<Rightarrow> task_end_input option"
  decode_read_start :: "json \<Rightarrow> read_start_input option"
  decode_read_complete :: "json \<Rightarrow> read_complete_input option"
  decode_write_prepare :: "json \<Rightarrow> write_prepare_input option"
  decode_write_complete :: "json \<Rightarrow> write_complete_input option"
  decode_lease_activate :: "json \<Rightarrow> lease_activate_input option"
  decode_lease_release :: "json \<Rightarrow> lease_release_input option"
  decode_lease_query :: "string \<Rightarrow> lease_request_query option"
  decode_audit_query :: "string \<Rightarrow> nat option option"
  encode_response :: "command_response \<Rightarrow> json"
  encode_lease_status :: "lease_request_status \<Rightarrow> json"
  encode_status :: "status_snapshot \<Rightarrow> json"
  encode_audit :: "audit_row list \<Rightarrow> json"
  path_segment :: "string \<Rightarrow> string option"
  rejection :: "http_request \<Rightarrow> http_response"

definition jopt_string :: "string option \<Rightarrow> json" where
  "jopt_string = jopt JString"

definition error_response :: "nat \<Rightarrow> string \<Rightarrow> string \<Rightarrow> string option \<Rightarrow> http_response" where
  "error_response status reason_code message rid =
     \<lparr>rs_status = status, rs_body = JObject
        [(''protocol_version'', JString ''stateful.v2''), (''contract_revision'', JString ''lease-1''),
         (''decision'', JString ''error''), (''reason_code'', JString reason_code),
         (''request_id'', jopt_string rid), (''message'', JString message)]\<rparr>"

definition success_response :: "string option \<Rightarrow> json \<Rightarrow> http_response" where
  "success_response rid payload =
     \<lparr>rs_status = 200, rs_body = JObject
        [(''protocol_version'', JString ''stateful.v2''), (''contract_revision'', JString ''lease-1''),
         (''request_id'', jopt_string rid), (''payload'', payload)]\<rparr>"

text \<open>\<open>StoreError::to_string\<close>. A panic never becomes a response.\<close>

fun store_error_text :: "store_error \<Rightarrow> string" where
  "store_error_text (StoreIo m) = ''io error: '' @ m"
| "store_error_text (Sqlite m) = ''sqlite error: '' @ m"
| "store_error_text (StoreJson m) = ''json error: '' @ m"
| "store_error_text (InvalidTimestamp m) = ''invalid timestamp: '' @ m"
| "store_error_text (InvalidInput m) = ''invalid input: '' @ m"
| "store_error_text IdempotencyMismatch =
     ''idempotency key was reused with a different command or payload''"
| "store_error_text (NotFound m) = ''not found: '' @ m"
| "store_error_text (Ownership m) = ''ownership violation: '' @ m"
| "store_error_text (InvalidState m) = ''invalid state: '' @ m"
| "store_error_text (Corrupt m) = ''corrupt state: '' @ m"
| "store_error_text (Panic m) = m"

fun store_error_status :: "store_error \<Rightarrow> nat \<times> string" where
  "store_error_status (InvalidTimestamp _) = (400, ''invalid_input'')"
| "store_error_status (InvalidInput _) = (400, ''invalid_input'')"
| "store_error_status IdempotencyMismatch = (409, ''idempotency_mismatch'')"
| "store_error_status (NotFound _) = (404, ''not_found'')"
| "store_error_status (Ownership _) = (403, ''ownership_violation'')"
| "store_error_status (InvalidState _) = (409, ''invalid_state'')"
| "store_error_status _ = (500, ''store_error'')"

definition store_error_response :: "store_error \<Rightarrow> string option \<Rightarrow> http_response" where
  "store_error_response e rid =
     (let (status, reason_code) = store_error_status e
      in error_response status reason_code (store_error_text e) rid)"

fun protocol_error_response :: "protocol_error \<Rightarrow> http_response" where
  "protocol_error_response e =
     (let (reason_code, message) = (case e of
            Mismatch \<Rightarrow> (''protocol_mismatch'', ''stateful.v2 lease-1 envelope required'')
          | InvalidPayload \<Rightarrow> (''invalid_payload'', ''payload does not match the command''))
      in \<lparr>rs_status = 400, rs_body = JObject
           [(''protocol_version'', JString ''stateful.v2''), (''contract_revision'', JString ''lease-1''),
            (''decision'', JString ''error''), (''reason_code'', JString reason_code),
            (''message'', JString message)]\<rparr>)"

subsection \<open>Routes\<close>

datatype endpoint =
    Health | TaskStartRoute | TaskHeartbeatRoute | TaskFinalizeRoute | TaskCancelRoute
  | ReadStartRoute | ReadCompleteRoute | WritePrepareRoute | WriteCompleteRoute
  | LeaseActivateRoute | LeaseReleaseRoute | LeaseRequestRoute string | StatusRoute | AuditRoute

definition post_routes :: "(string \<times> endpoint) list" where
  "post_routes =
     [(''/v2/tasks/start'', TaskStartRoute), (''/v2/tasks/heartbeat'', TaskHeartbeatRoute),
      (''/v2/tasks/finalize'', TaskFinalizeRoute), (''/v2/tasks/cancel'', TaskCancelRoute),
      (''/v2/reads/start'', ReadStartRoute), (''/v2/reads/complete'', ReadCompleteRoute),
      (''/v2/writes/prepare'', WritePrepareRoute), (''/v2/writes/complete'', WriteCompleteRoute),
      (''/v2/commits/prepare'', WritePrepareRoute), (''/v2/commits/complete'', WriteCompleteRoute),
      (''/v2/leases/activate'', LeaseActivateRoute), (''/v2/leases/release'', LeaseReleaseRoute)]"

definition get_routes :: "(string \<times> endpoint) list" where
  "get_routes = [(''/health'', Health), (''/v2/status'', StatusRoute), (''/v2/audit'', AuditRoute)]"

definition build_router :: "codec \<Rightarrow> http_request \<Rightarrow> endpoint option" where
  "build_router C req =
     (case hr_method req of
        POST \<Rightarrow> map_of post_routes (hr_path req)
      | GET \<Rightarrow>
          (case map_of get_routes (hr_path req) of
             Some e \<Rightarrow> Some e
           | None \<Rightarrow>
               (case strip_prefix ''/v2/lease-requests/'' (hr_path req) of
                  None \<Rightarrow> None
                | Some segment \<Rightarrow> map_option LeaseRequestRoute (path_segment C segment))))"

definition has_valid_bearer_token :: "string option \<Rightarrow> string \<Rightarrow> bool" where
  "has_valid_bearer_token authorization expected =
     (case authorization of
        None \<Rightarrow> False
      | Some v \<Rightarrow> strip_prefix ''Bearer '' v = Some expected)"

subsection \<open>Handlers\<close>

record server =
  srv_bearer_token :: string
  srv_store :: db
  srv_poisoned :: bool

text \<open>The payload type of a route, and the command its handler passes to the store.\<close>

fun parse_payload :: "codec \<Rightarrow> endpoint \<Rightarrow> command_context \<Rightarrow> json \<Rightarrow> command option" where
  "parse_payload C TaskStartRoute ctx p = map_option (TaskStart ctx) (decode_task_start C p)"
| "parse_payload C TaskHeartbeatRoute ctx p = map_option (TaskHeartbeat ctx) (decode_task_heartbeat C p)"
| "parse_payload C TaskFinalizeRoute ctx p = map_option (TaskFinalize ctx) (decode_task_end C p)"
| "parse_payload C TaskCancelRoute ctx p = map_option (TaskCancel ctx) (decode_task_end C p)"
| "parse_payload C ReadStartRoute ctx p = map_option (ReadStart ctx) (decode_read_start C p)"
| "parse_payload C ReadCompleteRoute ctx p = map_option (ReadComplete ctx) (decode_read_complete C p)"
| "parse_payload C WritePrepareRoute ctx p = map_option (WritePrepare ctx) (decode_write_prepare C p)"
| "parse_payload C WriteCompleteRoute ctx p = map_option (WriteComplete ctx) (decode_write_complete C p)"
| "parse_payload C LeaseActivateRoute ctx p = map_option (LeaseActivate ctx) (decode_lease_activate C p)"
| "parse_payload C LeaseReleaseRoute ctx p = map_option (LeaseRelease ctx) (decode_lease_release C p)"
| "parse_payload C _ ctx p = None"

definition parse_command ::
  "codec \<Rightarrow> endpoint \<Rightarrow> json \<Rightarrow> protocol_error + (request_envelope \<times> command)" where
  "parse_command C ep body =
     (case decode_envelope C body of
        None \<Rightarrow> Inl Mismatch
      | Some (request, payload) \<Rightarrow>
          (case parse_payload C ep (command_context_of request) payload of
             None \<Rightarrow> Inl InvalidPayload
           | Some c \<Rightarrow> Inr (request, c)))"

definition poisoned_response :: "string option \<Rightarrow> http_response" where
  "poisoned_response rid =
     error_response 500 ''store_unavailable'' ''state store lock is poisoned'' rid"

text \<open>Running a store method under the lock: \<open>None\<close> is a handler that panicked.\<close>

definition with_lock ::
  "string option \<Rightarrow> (db \<Rightarrow> (json \<times> db) result) \<Rightarrow> server \<Rightarrow> http_response option \<times> server" where
  "with_lock rid operation s =
     (if srv_poisoned s then (Some (poisoned_response rid), s)
      else case transact (operation (srv_store s)) (srv_store s) of
        (Inr payload, d) \<Rightarrow> (Some (success_response rid payload), s\<lparr>srv_store := d\<rparr>)
      | (Inl (Panic m), d) \<Rightarrow> (None, s\<lparr>srv_store := d, srv_poisoned := True\<rparr>)
      | (Inl e, d) \<Rightarrow> (Some (store_error_response e rid), s\<lparr>srv_store := d\<rparr>))"

definition execute_command ::
  "env \<Rightarrow> codec \<Rightarrow> endpoint \<Rightarrow> json \<Rightarrow> server \<Rightarrow> http_response option \<times> server" where
  "execute_command E C ep body s =
     (case parse_command C ep body of
        Inl e \<Rightarrow> (Some (protocol_error_response e), s)
      | Inr (request, c) \<Rightarrow>
          with_lock (Some (re_request_id request))
            (\<lambda>d. map_sum id (\<lambda>(r, d'). (encode_response C r, d')) (run_command E c d)) s)"

definition query_store ::
  "(db \<Rightarrow> json result) \<Rightarrow> server \<Rightarrow> http_response option \<times> server" where
  "query_store operation s = with_lock None (\<lambda>d. map_sum id (\<lambda>p. (p, d)) (operation d)) s"

definition default_audit_limit :: nat where
  "default_audit_limit = 100"

definition handle_endpoint ::
  "env \<Rightarrow> codec \<Rightarrow> endpoint \<Rightarrow> http_request \<Rightarrow> server \<Rightarrow> http_response option \<times> server" where
  "handle_endpoint E C ep req s =
     (case ep of
        LeaseRequestRoute batch \<Rightarrow>
          (case decode_lease_query C (hr_query req) of
             None \<Rightarrow> (Some (rejection C req), s)
           | Some q \<Rightarrow> query_store (\<lambda>d. map_sum id (encode_lease_status C)
               (lease_request_status_of E (lq_workspace_id q) (lq_task_id q) batch (lq_now q) d)) s)
      | StatusRoute \<Rightarrow> query_store (\<lambda>d. Inr (encode_status C (store_status d))) s
      | AuditRoute \<Rightarrow>
          (case decode_audit_query C (hr_query req) of
             None \<Rightarrow> (Some (rejection C req), s)
           | Some limit \<Rightarrow> query_store (\<lambda>d. Inr (encode_audit C (audit_events_of
               (case limit of None \<Rightarrow> default_audit_limit | Some n \<Rightarrow> n) d))) s)
      | _ \<Rightarrow> execute_command E C ep (hr_body req) s)"

definition require_bearer ::
  "(http_request \<Rightarrow> server \<Rightarrow> http_response option \<times> server) \<Rightarrow> http_request \<Rightarrow> server
     \<Rightarrow> http_response option \<times> server" where
  "require_bearer next req s =
     (if \<not> has_valid_bearer_token (hr_authorization req) (srv_bearer_token s)
      then (Some (error_response 401 ''unauthorized'' ''valid bearer token required'' None), s)
      else next req s)"

definition handle_request ::
  "env \<Rightarrow> codec \<Rightarrow> http_request \<Rightarrow> server \<Rightarrow> http_response option \<times> server" where
  "handle_request E C req s =
     (case build_router C req of
        None \<Rightarrow> (Some (rejection C req), s)
      | Some Health \<Rightarrow> (Some \<lparr>rs_status = 200, rs_body = JNull\<rparr>, s)
      | Some ep \<Rightarrow> require_bearer (handle_endpoint E C ep) req s)"

text \<open>
  One turn of \<open>run_maintenance_loop\<close>: the new state, and whether the loop goes on. A poisoned
  lock ends it with an error, and a panic takes the server down; any other error is logged.
\<close>

definition run_maintenance :: "env \<Rightarrow> string option \<Rightarrow> server \<Rightarrow> bool \<times> server" where
  "run_maintenance E now s =
     (case now of
        None \<Rightarrow> (True, s)
      | Some now \<Rightarrow>
          if srv_poisoned s then (False, s)
          else case transact (map_sum id (Pair ()) (maintain E now (srv_store s))) (srv_store s) of
            (Inl (Panic m), d) \<Rightarrow> (False, s\<lparr>srv_store := d, srv_poisoned := True\<rparr>)
          | (_, d) \<Rightarrow> (True, s\<lparr>srv_store := d\<rparr>))"

subsection \<open>The server is a front of the store\<close>

lemma with_lock_store:
  assumes "with_lock rid operation s = (resp, s')"
  shows "srv_store s' = snd (transact (operation (srv_store s)) (srv_store s)) \<or> s' = s"
    and "srv_bearer_token s' = srv_bearer_token s" and "srv_poisoned s \<Longrightarrow> s' = s \<and> resp = Some (poisoned_response rid)"
  using assms by (auto simp: with_lock_def split: if_splits prod.splits sum.splits store_error.splits)

lemma transact_map: "snd (transact (map_sum id (\<lambda>(r, d'). (f r, d')) m) d) = snd (transact m d)"
  by (cases m) (auto simp: transact_def)

lemma transact_query: "snd (transact (map_sum id (\<lambda>p. (p, d)) m) d) = d"
  by (cases m) (auto simp: transact_def)

lemma execute_command_store:
  assumes "execute_command E C ep body s = (resp, s')"
  shows "store_step\<^sup>=\<^sup>= (srv_store s) (srv_store s')"
proof (cases "parse_command C ep body")
  case (Inr p)
  obtain request c where p: "p = (request, c)" by (cases p)
  from assms Inr p have lock: "with_lock (Some (re_request_id request))
      (\<lambda>d. map_sum id (\<lambda>(r, d'). (encode_response C r, d')) (run_command E c d)) s = (resp, s')"
    by (simp add: execute_command_def)
  obtain r d where t: "transact (run_command E c (srv_store s)) (srv_store s) = (r, d)" by (cases "transact (run_command E c (srv_store s)) (srv_store s)")
  then have "store_step (srv_store s) d" by (rule store_step.command)
  with with_lock_store(1) [OF lock] t show ?thesis by (auto simp: transact_map)
qed (use assms in \<open>auto simp: execute_command_def\<close>)

lemma query_store_same: "query_store operation s = (resp, s') \<Longrightarrow> srv_store s' = srv_store s"
  unfolding query_store_def by (drule with_lock_store(1)) (auto simp: transact_query)

lemma handle_request_store:
  assumes "handle_request E C req s = (resp, s')"
  shows "store_step\<^sup>=\<^sup>= (srv_store s) (srv_store s')"
  using assms
  by (auto simp: handle_request_def require_bearer_def handle_endpoint_def split: option.splits if_splits endpoint.splits
      dest!: query_store_same execute_command_store)

lemma run_maintenance_store:
  assumes "run_maintenance E now s = (b, s')"
  shows "store_step\<^sup>=\<^sup>= (srv_store s) (srv_store s')"
proof -
  have "store_step (srv_store s) d" if "transact (map_sum id (Pair ()) (maintain E n (srv_store s))) (srv_store s) = (u, d)" for n u d
    using that by (rule store_step.maintenance)
  with assms show ?thesis
    by (auto simp: run_maintenance_def split: option.splits if_splits prod.splits sum.splits store_error.splits)
qed

inductive server_step :: "server \<Rightarrow> server \<Rightarrow> bool" where
  request: "handle_request E C req s = (resp, s') \<Longrightarrow> server_step s s'"
| tick: "run_maintenance E now s = (b, s') \<Longrightarrow> server_step s s'"

text \<open>The states of a server that was started on an empty store.\<close>

inductive served :: "string \<Rightarrow> server \<Rightarrow> bool" for token where
  started: "served token \<lparr>srv_bearer_token = token, srv_store = create_v2_schema, srv_poisoned = False\<rparr>"
| step: "served token s \<Longrightarrow> server_step s s' \<Longrightarrow> served token s'"

text \<open>A concrete codec and server, for the witnesses.\<close>

definition demo_codec :: codec where
  "demo_codec =
     \<lparr>decode_envelope = (\<lambda>j. Some (\<lparr>re_protocol_version = V2, re_contract_revision = Lease1, re_task_id = ''A'',
        re_request_id = ''start'', re_observed_at = ''0'',
        re_agent = \<lparr>ai_agent_id = ''agent-A'', ai_turn_id = None, ai_actor_id = ''a'', ai_actor_type = ActorAgent,
          ai_owner_id = None, ai_parent_agent_id = None, ai_parent_actor_id = None\<rparr>,
        re_workspace = \<lparr>wi_root = ''/'', wi_workspace_id = ''w'', wi_repo_id = ''r'', wi_worktree_id = ''t'', wi_branch = ''main''\<rparr>,
        re_source = \<lparr>sr_kind = Cli, sr_event = ''e'', sr_tool_name = None, sr_source_ref = ''s''\<rparr>\<rparr>, j)),
      decode_task_start = (\<lambda>j. Some \<lparr>ts_next_action = ''edit'', ts_settings = default_settings, ts_expires_at = ''5'',
        ts_runtime_process = None\<rparr>),
      decode_task_heartbeat = (\<lambda>j. None), decode_task_end = (\<lambda>j. None), decode_read_start = (\<lambda>j. None),
      decode_read_complete = (\<lambda>j. None), decode_write_prepare = (\<lambda>j. None), decode_write_complete = (\<lambda>j. None),
      decode_lease_activate = (\<lambda>j. None), decode_lease_release = (\<lambda>j. None), decode_lease_query = (\<lambda>q. None),
      decode_audit_query = (\<lambda>q. Some None), encode_response = (\<lambda>r. JNull), encode_lease_status = (\<lambda>r. JNull),
      encode_status = (\<lambda>r. JNull), encode_audit = (\<lambda>r. JNull), path_segment = Some,
      rejection = (\<lambda>r. \<lparr>rs_status = 404, rs_body = JNull\<rparr>)\<rparr>"

definition demo_server :: server where
  "demo_server = \<lparr>srv_bearer_token = ''t'', srv_store = create_v2_schema, srv_poisoned = False\<rparr>"

definition demo_request_to :: "string option \<Rightarrow> http_request" where
  "demo_request_to auth = \<lparr>hr_method = POST, hr_path = ''/v2/tasks/start'', hr_authorization = auth, hr_query = [],
     hr_body = JNull\<rparr>"

text \<open>
  C16. The server refines the store: whatever requests it gets, in whatever order and with
  whatever clock, and whenever maintenance runs, the database behind a server is one the store
  can reach by its own commands, so every invariant of reachable databases holds for it; the
  token the server was started with never changes.
\<close>

theorem server_refines_store:
  assumes "served token s"
  shows "reachable (srv_store s) \<and> srv_bearer_token s = token"
  using assms
proof (induction rule: served.induct)
  case (step s s')
  from step.hyps(2) have "store_step\<^sup>=\<^sup>= (srv_store s) (srv_store s') \<and> srv_bearer_token s' = srv_bearer_token s"
  proof (cases rule: server_step.cases)
    case (request E C req resp)
    then show ?thesis
      using handle_request_store [OF request]
      by (auto simp: handle_request_def require_bearer_def handle_endpoint_def execute_command_def query_store_def
          split: option.splits if_splits endpoint.splits sum.splits dest!: with_lock_store(2))
  next
    case (tick E now b)
    then show ?thesis
      using run_maintenance_store [OF tick]
      by (auto simp: run_maintenance_def split: option.splits if_splits prod.splits sum.splits store_error.splits)
  qed
  with step.IH show ?case by (auto intro: reachable.step)
qed (auto intro: reachable.opened)

theorem server_refines_store_witness:
  "\<exists>s. served ''t'' s \<and> map t_task_id (tasks (srv_store s)) = [''A''] \<and> reachable (srv_store s)"
proof -
  let ?s = "snd (handle_request demo_env demo_codec (demo_request_to (Some ''Bearer t'')) demo_server)"
  have "served ''t'' ?s"
    by (rule served.step [OF served.started server_step.request, where s' = ?s]) (simp add: demo_server_def prod_eq_iff)
  moreover have "map t_task_id (tasks (srv_store ?s)) = [''A'']" by code_simp
  ultimately show ?thesis using server_refines_store [of "''t''" ?s] by (intro exI [of _ ?s] conjI) simp_all
qed

text \<open>
  C17. No token, no effect: a request to any endpoint but the health check whose authorization
  header is not exactly \<open>Bearer\<close> and the server's token is answered with status 401 and changes
  nothing, not even the poisoned flag.
\<close>

theorem unauthorized_changes_nothing:
  assumes "build_router C req = Some ep" "ep \<noteq> Health"
    and "hr_authorization req \<noteq> Some (''Bearer '' @ srv_bearer_token s)"
  shows "handle_request E C req s = (Some (error_response 401 ''unauthorized'' ''valid bearer token required'' None), s)"
proof -
  from assms(3) have "\<not> has_valid_bearer_token (hr_authorization req) (srv_bearer_token s)"
    unfolding has_valid_bearer_token_def strip_prefix_Some by (auto split: option.splits)
  with assms(1,2) show ?thesis by (cases ep) (simp_all add: handle_request_def require_bearer_def)
qed

theorem unauthorized_changes_nothing_witness:
  "handle_request demo_env demo_codec (demo_request_to (Some ''Bearer x'')) demo_server
     = (Some (error_response 401 ''unauthorized'' ''valid bearer token required'' None), demo_server)"
  by (rule unauthorized_changes_nothing [where ep = TaskStartRoute])
    (simp_all add: demo_request_to_def build_router_def post_routes_def demo_server_def)



text \<open>
  A panic stops the server for good: once a handler has panicked under the lock, no request
  and no maintenance turn changes the state again.
\<close>

theorem poisoned_server_frozen:
  assumes "srv_poisoned s" "server_step\<^sup>*\<^sup>* s s'"
  shows "s' = s"
  using assms(2)
proof (induction rule: rtranclp_induct)
  case (step u v)
  note lock = with_lock_store(3)
  from step.hyps(2) have "v = s"
    unfolding step.IH
  proof (cases rule: server_step.cases)
    case (request E C req resp)
    then show ?thesis using assms(1)
      by (auto simp: handle_request_def require_bearer_def handle_endpoint_def execute_command_def query_store_def
          split: option.splits if_splits endpoint.splits sum.splits dest!: lock)
  next
    case (tick E now b)
    then show ?thesis using assms(1) by (auto simp: run_maintenance_def split: option.splits)
  qed
  then show ?case .
qed simp

theorem poisoned_server_frozen_witness:
  "snd (handle_request demo_env demo_codec (demo_request_to (Some ''Bearer t'')) (demo_server\<lparr>srv_poisoned := True\<rparr>))
     = demo_server\<lparr>srv_poisoned := True\<rparr>"
  by (rule poisoned_server_frozen)
    (simp_all, rule r_into_rtranclp, rule server_step.request, rule surjective_pairing)

end
