(* ===== verification/Shell.thy ===== *)
theory Shell
  imports Prelude
begin

section \<open>Shell words\<close>

text \<open>
  \<^verbatim>\<open>src/crates/stateful-cli/src/shell_command.rs\<close> splits a wrapper command into its words and
  refuses everything that a shell would expand; \<^verbatim>\<open>src/crates/stateful-cli/src/sandbox/parse.rs\<close>
  builds such a command by quoting. Text is a list of UTF-8 bytes: the characters the splitter
  looks at are ASCII, except for white space, which is matched by its encoding.
\<close>

datatype quote_state = QuoteNone | QuoteSingle | QuoteDouble

definition control_characters :: string where
  "control_characters =
     [CHR 0x0A, CHR 0x0D, CHR '';'', CHR ''|'', CHR ''&'', CHR ''<'', CHR ''>'', CHR 0x60, CHR ''$'', CHR ''*'',
      CHR ''?'', CHR ''['', CHR '']'', CHR ''{'', CHR ''}'', CHR ''~'', CHR ''('', CHR '')'', CHR ''#'', CHR ''!'']"

abbreviation apostrophe :: char where "apostrophe \<equiv> CHR 0x27"

abbreviation quotation_mark :: char where "quotation_mark \<equiv> CHR 0x22"

abbreviation backslash :: char where "backslash \<equiv> CHR 0x5C"

text \<open>The white space character at the front of a text, if there is one.\<close>

definition leading_whitespace :: "string \<Rightarrow> string option" where
  "leading_whitespace s = List.find (\<lambda>w. take (length w) s = w) whitespace_encodings"

lemma leading_whitespace_Some:
  assumes "leading_whitespace s = Some w"
  shows "w \<noteq> []" "s = w @ drop (length w) s"
proof -
  from assms have w: "w \<in> set whitespace_encodings" "take (length w) s = w"
    by (auto simp: leading_whitespace_def find_Some_iff)
  then show "w \<noteq> []" by (auto simp: whitespace_encodings_code)
  from w(2) show "s = w @ drop (length w) s" by (metis append_take_drop_id)
qed

text \<open>The loop of \<open>split_simple_command_words\<close>, with its four variables.\<close>

function split_words :: "quote_state \<Rightarrow> bool \<Rightarrow> string \<Rightarrow> string list \<Rightarrow> string \<Rightarrow> string + string list" where
  "split_words state in_word current ws [] =
     (if state \<noteq> QuoteNone then Inl ''Bash wrapper command has unterminated quotes''
      else Inr (if in_word then ws @ [current] else ws))"
| "split_words QuoteNone in_word current ws (ch # rest) =
     (if ch \<in> set control_characters
      then Inl ''Bash wrapper command must be a single literal command''
      else if ch = apostrophe then split_words QuoteSingle True current ws rest
      else if ch = quotation_mark then split_words QuoteDouble True current ws rest
      else if ch = backslash
      then (if rest \<noteq> [] \<and> hd rest = apostrophe
            then split_words QuoteNone True (current @ [apostrophe]) ws (tl rest)
            else Inl ''Bash wrapper command must not use shell escapes'')
      else case leading_whitespace (ch # rest) of
        Some w \<Rightarrow>
          if in_word then split_words QuoteNone False [] (ws @ [current]) (drop (length w) (ch # rest))
          else split_words QuoteNone in_word current ws (drop (length w) (ch # rest))
      | None \<Rightarrow> split_words QuoteNone True (current @ [ch]) ws rest)"
| "split_words QuoteSingle in_word current ws (ch # rest) =
     (if ch = apostrophe then split_words QuoteNone in_word current ws rest
      else split_words QuoteSingle in_word (current @ [ch]) ws rest)"
| "split_words QuoteDouble in_word current ws (ch # rest) =
     (if ch = quotation_mark then split_words QuoteNone in_word current ws rest
      else if ch \<in> {CHR 0x60, CHR ''$'', backslash}
      then Inl ''Bash wrapper command must not use shell expansion''
      else split_words QuoteDouble in_word (current @ [ch]) ws rest)"
  by pat_completeness auto
termination
  by (relation "measure (\<lambda>(_, _, _, _, s). length s)") (auto dest!: leading_whitespace_Some(1) simp: diff_less)

definition split_simple_command_words :: "string \<Rightarrow> string + string list" where
  "split_simple_command_words command = split_words QuoteNone False [] [] command"

definition ascii_alphanumeric :: "char \<Rightarrow> bool" where
  "ascii_alphanumeric c =
     (CHR ''0'' \<le> c \<and> c \<le> CHR ''9'' \<or> CHR ''A'' \<le> c \<and> c \<le> CHR ''Z'' \<or> CHR ''a'' \<le> c \<and> c \<le> CHR ''z'')"

definition ascii_digit :: "char \<Rightarrow> bool" where
  "ascii_digit c = (CHR ''0'' \<le> c \<and> c \<le> CHR ''9'')"

definition first_word_is_env_assignment :: "string \<Rightarrow> bool" where
  "first_word_is_env_assignment word =
     (CHR ''='' \<in> set word
      \<and> (let name = takeWhile (\<lambda>c. c \<noteq> CHR ''='') word in
         name \<noteq> [] \<and> list_all (\<lambda>c. c = CHR ''_'' \<or> ascii_alphanumeric c) name \<and> \<not> ascii_digit (hd name)))"

subsection \<open>Quoting\<close>

definition shell_quote :: "string \<Rightarrow> string" where
  "shell_quote value =
     [apostrophe]
     @ concat (map (\<lambda>c. if c = apostrophe then [apostrophe, backslash, apostrophe, apostrophe] else [c]) value)
     @ [apostrophe]"

definition validate_sequence_shell :: "string \<Rightarrow> string + unit" where
  "validate_sequence_shell shell =
     (if take 1 shell \<noteq> ''/'' \<or> CHR 0x00 \<in> set shell \<or> CHR 0x0A \<in> set shell \<or> CHR 0x0D \<in> set shell
      then Inl ''stateful sandbox run --sequence-shell requires an absolute shell path''
      else Inr ())"

definition sequence_script :: "string list \<Rightarrow> string" where
  "sequence_script steps = ''set -e'' @ [CHR 0x0A] @ concat (map (\<lambda>step. step @ [CHR 0x0A]) steps)"

definition resolve_sandbox_run_command ::
  "string option \<Rightarrow> string list \<Rightarrow> string option \<Rightarrow> string + string" where
  "resolve_sandbox_run_command command sequences sequence_shell =
     (if command \<noteq> None \<and> sequences \<noteq> []
      then Inl ''stateful sandbox run accepts either --command or --sequence, not both''
      else if sequences = []
      then (if sequence_shell \<noteq> None
            then Inl ''stateful sandbox run --sequence-shell requires --sequence''
            else case command of
              None \<Rightarrow> Inl ''stateful sandbox run requires exactly one --command or at least one --sequence''
            | Some command \<Rightarrow>
                if blank command then Inl ''stateful sandbox run requires a non-empty --command''
                else Inr command)
      else if list_ex blank sequences
      then Inl ''stateful sandbox run --sequence requires a non-empty value''
      else
        let shell = (case sequence_shell of None \<Rightarrow> ''/bin/sh'' | Some s \<Rightarrow> s) in
        bindE (validate_sequence_shell shell) (\<lambda>_.
        Inr (shell_quote shell @ '' -c '' @ shell_quote (sequence_script sequences))))"

subsection \<open>Quoting is undone by splitting\<close>

text \<open>Inside apostrophes everything is literal, and the quoted apostrophe comes back as one.\<close>

lemma split_quoted_body:
  "split_words QuoteSingle True current ws
     (concat (map (\<lambda>c. if c = apostrophe then [apostrophe, backslash, apostrophe, apostrophe] else [c]) value)
        @ apostrophe # rest)
   = split_words QuoteNone True (current @ value) ws rest"
proof (induction "value" arbitrary: current)
  case (Cons c cs)
  show ?case
    using Cons.IH [of "current @ [c]"]
    by (cases "c = apostrophe") (simp_all add: control_characters_def)
qed simp

lemma split_quoted:
  "split_words QuoteNone in_word current ws (shell_quote v @ rest) = split_words QuoteNone True (current @ v) ws rest"
  using split_quoted_body [of current ws v rest] by (simp add: shell_quote_def control_characters_def)

lemma split_space:
  "split_words QuoteNone True current ws (CHR '' '' # rest) = split_words QuoteNone False [] (ws @ [current]) rest"
proof -
  have "leading_whitespace (CHR '' '' # rest) = Some '' ''"
    by (simp add: leading_whitespace_def whitespace_encodings_code)
  then show ?thesis by (simp add: control_characters_def)
qed

declare split_words.simps(2) [simp del]

fun join_words :: "string list \<Rightarrow> string" where
  "join_words [] = []"
| "join_words [w] = shell_quote w"
| "join_words (w # v # ws) = shell_quote w @ CHR '' '' # join_words (v # ws)"

lemma split_joined: "split_words QuoteNone False [] acc (join_words ws) = Inr (acc @ ws)"
proof (induction ws arbitrary: acc rule: join_words.induct)
  case (2 w)
  then show ?case using split_quoted [of False "[]" acc w "[]"] by simp
next
  case (3 w v ws)
  then show ?case by (simp add: split_quoted split_space)
qed simp

text \<open>
  Quoting and splitting are inverse: any words, whatever bytes they hold, quoted with
  \<open>shell_quote\<close> and separated by spaces, are split into exactly those words again.
\<close>

theorem quoted_words_split: "split_simple_command_words (join_words ws) = Inr ws"
  by (simp add: split_simple_command_words_def split_joined)

text \<open>
  The command built from a sequence is one literal command: when the arguments of
  \<open>sandbox run\<close> are a sequence of steps, the resolved command splits into the shell, \<open>-c\<close> and the
  script, whose lines are \<open>set -e\<close> and the given steps in their order.
\<close>

theorem sequence_command_splits:
  assumes "resolve_sandbox_run_command None (step # steps) sequence_shell = Inr command"
  shows "split_simple_command_words command
    = Inr [case sequence_shell of None \<Rightarrow> ''/bin/sh'' | Some s \<Rightarrow> s, ''-c'', sequence_script (step # steps)]"
proof -
  define shell where "shell = (case sequence_shell of None \<Rightarrow> ''/bin/sh'' | Some s \<Rightarrow> s)"
  have flag: "split_words QuoteNone False [] [shell] (''-c '' @ rest) = split_words QuoteNone False [] [shell, ''-c''] rest" for rest
    by (simp add: split_words.simps(2) control_characters_def leading_whitespace_def whitespace_encodings_code)
  from assms have "command = shell_quote shell @ '' -c '' @ shell_quote (sequence_script (step # steps))"
    by (auto simp: resolve_sandbox_run_command_def shell_def Let_def bindE_eq_Inr split: if_splits)
  then show ?thesis
    using flag split_quoted [of False "[]" "[shell, ''-c'']" "sequence_script (step # steps)" "[]"]
    by (simp add: split_simple_command_words_def split_quoted split_space flip: shell_def)
qed

theorem sequence_command_splits_witness:
  "\<exists>command. resolve_sandbox_run_command None [''make'', [CHR ''a'', apostrophe, CHR '';'']] None = Inr command
     \<and> split_simple_command_words command = Inr [''/bin/sh'', ''-c'', sequence_script [''make'', [CHR ''a'', apostrophe, CHR '';'']]]"
proof -
  have "is_ok (resolve_sandbox_run_command None [''make'', [CHR ''a'', apostrophe, CHR '';'']] None)" by code_simp
  then obtain command where c: "resolve_sandbox_run_command None [''make'', [CHR ''a'', apostrophe, CHR '';'']] None = Inr command"
    by (auto simp: is_ok_iff)
  from sequence_command_splits [OF c] c show ?thesis by simp
qed

text \<open>
  No shell operator gets through: after any quoted words, an unquoted operator, expansion or
  line break makes the splitter refuse the whole command, whatever follows it.
\<close>

theorem unquoted_operator_refused:
  assumes "c \<in> set control_characters"
  shows "split_simple_command_words (join_words ws @ c # rest)
    = Inl ''Bash wrapper command must be a single literal command''"
proof -
  have "split_words QuoteNone b cur acc (join_words ws @ c # rest)
      = Inl ''Bash wrapper command must be a single literal command''" for b cur acc
  proof (induction ws arbitrary: b cur acc rule: join_words.induct)
    case 1
    with assms show ?case by (simp add: split_words.simps(2))
  next
    case (2 w)
    with assms show ?case by (simp add: split_quoted split_words.simps(2))
  next
    case (3 w v ws)
    then show ?case by (simp add: split_quoted split_space)
  qed
  then show ?thesis by (simp add: split_simple_command_words_def)
qed

theorem unquoted_operator_refused_witness:
  "split_simple_command_words (join_words [''stateful'', ''status''] @ '';rm'')
     = Inl ''Bash wrapper command must be a single literal command''"
  using unquoted_operator_refused [of "CHR '';''" "[''stateful'', ''status'']" "''rm''"]
  by (simp add: control_characters_def)

end
