(* ===== verification/Process_Find.thy ===== *)
theory Process_Find
  imports Json Paths Shell "HOL-Library.Code_Target_Nat"
begin

section \<open>Finding processes without showing their arguments\<close>

text \<open>
  \<^verbatim>\<open>src/crates/stateful-cli/src/sandbox/process_find.rs\<close>: the selectors of
  \<open>stateful sandbox process find\<close>, the parser of the output of \<open>ps\<close>, the filter and the JSON of
  the result. The output of \<open>ps\<close> and the id of the running process are arguments. Machine
  integers are kept at their width by the parsers.
\<close>

type_synonym 'a checked = "string + 'a"

record process_info =
  pi_pid :: nat
  pi_ppid :: nat
  pi_pgid :: nat
  pi_user :: string
  pi_uid :: int
  pi_stat :: string
  pi_start :: string
  pi_etime :: string
  pi_time :: string
  pi_pcpu :: string
  pi_pmem :: string
  pi_rss :: nat
  pi_vsz :: nat
  pi_nice :: int
  pi_pri :: int
  pi_tty :: string
  pi_comm :: string

record process_find_row =
  pr_info :: process_info
  pr_command :: string

record process_find_request =
  pf_names :: "string list"
  pf_contains :: "string list"
  pf_pids :: "nat list"
  pf_parent_pids :: "nat list"
  pf_process_groups :: "nat list"
  pf_fields :: "string list"

definition PROCESS_FIND_DEFAULT_FIELDS :: "string list" where
  "PROCESS_FIND_DEFAULT_FIELDS =
     [''pid'', ''ppid'', ''pgid'', ''user'', ''uid'', ''stat'', ''start'', ''etime'', ''time'', ''pcpu'', ''pmem'',
      ''rss'', ''vsz'', ''nice'', ''pri'', ''tty'', ''comm'']"

definition PROCESS_FIND_FORBIDDEN_FIELDS :: "string list" where
  "PROCESS_FIND_FORBIDDEN_FIELDS = [''command'', ''args'', ''argv'', ''env'']"

subsection \<open>Text\<close>

fun text_contains :: "string \<Rightarrow> string \<Rightarrow> bool" where
  "text_contains [] needle = (needle = [])"
| "text_contains (c # cs) needle = (take (length needle) (c # cs) = needle \<or> text_contains cs needle)"

text \<open>\<open>char::is_control\<close>: C0, DEL and C1, the latter encoded as two bytes.\<close>

fun has_control :: "string \<Rightarrow> bool" where
  "has_control [] = False"
| "has_control (c # cs) =
     (of_char c < (32 :: nat) \<or> c = CHR 0x7F
      \<or> c = CHR 0xC2 \<and> cs \<noteq> [] \<and> (128 :: nat) \<le> of_char (hd cs) \<and> of_char (hd cs) < (160 :: nat)
      \<or> has_control cs)"

fun split_whitespace_fuel :: "nat \<Rightarrow> string \<Rightarrow> string \<Rightarrow> string list" where
  "split_whitespace_fuel 0 current s = []"
| "split_whitespace_fuel (Suc n) current s =
     (if s = [] then (if current = [] then [] else [current])
      else case leading_whitespace s of
        Some w \<Rightarrow> (if current = [] then [] else [current]) @ split_whitespace_fuel n [] (drop (length w) s)
      | None \<Rightarrow> split_whitespace_fuel n (current @ [hd s]) (tl s))"

text \<open>Every pass drops at least one byte, so one more than the length is enough fuel.\<close>

definition split_whitespace :: "string \<Rightarrow> string list" where
  "split_whitespace s = split_whitespace_fuel (Suc (length s)) [] s"

text \<open>\<open>str::lines\<close>: a final line break does not begin another line, and CR LF is a line break.\<close>

definition text_lines :: "string \<Rightarrow> string list" where
  "text_lines s =
     (let ls = split_on (CHR 0x0A) s;
          ls = (if last ls = [] then butlast ls else ls)
      in map (\<lambda>l. if l \<noteq> [] \<and> last l = CHR 0x0D then butlast l else l) ls)"

definition digits_value :: "string \<Rightarrow> nat option" where
  "digits_value s =
     (if s \<noteq> [] \<and> list_all (\<lambda>c. CHR ''0'' \<le> c \<and> c \<le> CHR ''9'') s
      then Some (foldl (\<lambda>n c. 10 * n + (of_char c - 48)) 0 s) else None)"

text \<open>\<open>str::parse\<close> of an unsigned and of a signed integer of the given width.\<close>

definition parse_unsigned :: "nat \<Rightarrow> string \<Rightarrow> nat option" where
  "parse_unsigned bits s =
     (case digits_value (if s \<noteq> [] \<and> hd s = CHR ''+'' then tl s else s) of
        None \<Rightarrow> None
      | Some n \<Rightarrow> if n < 2 ^ bits then Some n else None)"

definition parse_signed :: "nat \<Rightarrow> string \<Rightarrow> int option" where
  "parse_signed bits s =
     (let negative = (s \<noteq> [] \<and> hd s = CHR ''-'');
          digits = (if s \<noteq> [] \<and> (hd s = CHR ''+'' \<or> hd s = CHR ''-'') then tl s else s)
      in case digits_value digits of
        None \<Rightarrow> None
      | Some n \<Rightarrow>
          let v = (if negative then - int n else int n) in
          if - (2 ^ (bits - 1)) \<le> v \<and> v < 2 ^ (bits - 1) then Some v else None)"

definition invalid_field :: "string \<Rightarrow> string \<Rightarrow> string" where
  "invalid_field field v = ''stateful sandbox process find invalid '' @ field @ '' field `'' @ v @ ''`''"

definition parse_process_find_u32_field :: "string \<Rightarrow> string \<Rightarrow> nat checked" where
  "parse_process_find_u32_field v field = ok_or (invalid_field field v) (parse_unsigned 32 v)"

definition parse_process_find_u64_field :: "string \<Rightarrow> string \<Rightarrow> nat checked" where
  "parse_process_find_u64_field v field = ok_or (invalid_field field v) (parse_unsigned 64 v)"

definition parse_process_find_i32_field :: "string \<Rightarrow> string \<Rightarrow> int checked" where
  "parse_process_find_i32_field v field = ok_or (invalid_field field v) (parse_signed 32 v)"

subsection \<open>Validating a request\<close>

definition validate_process_name_selector :: "string \<Rightarrow> unit checked" where
  "validate_process_name_selector name =
     (if blank name then Inl ''stateful sandbox process find --name must not be empty''
      else if \<not> list_all (\<lambda>c. ascii_alphanumeric c \<or> c \<in> set ''._-'') name
      then Inl ''stateful sandbox process find --name contains unsupported characters''
      else Inr ())"

definition validate_process_contains_selector :: "string \<Rightarrow> unit checked" where
  "validate_process_contains_selector contains =
     (let trimmed = trim contains in
      if length trimmed < 3
      then Inl ''stateful sandbox process find --contains must be at least 3 characters''
      else if has_control trimmed
      then Inl ''stateful sandbox process find --contains contains control characters''
      else Inr ())"

definition process_find_is_safe_field :: "string \<Rightarrow> bool" where
  "process_find_is_safe_field field = (field \<in> set PROCESS_FIND_DEFAULT_FIELDS)"

definition forbidden_field :: "string \<Rightarrow> string" where
  "forbidden_field field = ''stateful sandbox process find cannot expose field `'' @ field @ ''`''"

definition unknown_field :: "string \<Rightarrow> string" where
  "unknown_field field = ''stateful sandbox process find unknown field `'' @ field @ ''`''"

definition validate_process_find_fields :: "string list \<Rightarrow> unit checked" where
  "validate_process_find_fields fs =
     foldE (\<lambda>field _.
       if field \<in> set PROCESS_FIND_FORBIDDEN_FIELDS then Inl (forbidden_field field)
       else if \<not> process_find_is_safe_field field then Inl (unknown_field field)
       else Inr ()) fs ()"

definition validate_process_find_request :: "process_find_request \<Rightarrow> unit checked" where
  "validate_process_find_request request =
     (if pf_names request = [] \<and> pf_contains request = [] \<and> pf_pids request = []
         \<and> pf_parent_pids request = [] \<and> pf_process_groups request = []
      then Inl ''stateful sandbox process find requires at least one selector''
      else
        bindE (foldE (\<lambda>n _. validate_process_name_selector n) (pf_names request) ()) (\<lambda>_.
        bindE (foldE (\<lambda>c _. validate_process_contains_selector c) (pf_contains request) ()) (\<lambda>_.
        bindE (foldE (\<lambda>(label, ids) _.
            if 0 \<in> set ids
            then Inl (''stateful sandbox process find '' @ label @ '' selectors must be positive'')
            else Inr ())
          [(''--pid'', pf_pids request), (''--parent-pid'', pf_parent_pids request),
           (''--process-group'', pf_process_groups request)] ()) (\<lambda>_.
        validate_process_find_fields (pf_fields request)))))"

subsection \<open>Reading the output of ps\<close>

text \<open>\<open>[_].join(" ")\<close>.\<close>

fun join_spaces :: "string list \<Rightarrow> string" where
  "join_spaces [] = []"
| "join_spaces [s] = s"
| "join_spaces (s # t # ts) = s @ '' '' @ join_spaces (t # ts)"

definition parse_process_line :: "string list \<Rightarrow> process_find_row checked" where
  "parse_process_line fs =
     bindE (parse_process_find_u32_field (fs ! 0) ''pid'') (\<lambda>pid.
     bindE (parse_process_find_u32_field (fs ! 1) ''ppid'') (\<lambda>ppid.
     bindE (parse_process_find_u32_field (fs ! 2) ''pgid'') (\<lambda>pgid.
     bindE (parse_process_find_i32_field (fs ! 4) ''uid'') (\<lambda>uid.
     bindE (parse_process_find_u64_field (fs ! 11) ''rss'') (\<lambda>rss.
     bindE (parse_process_find_u64_field (fs ! 12) ''vsz'') (\<lambda>vsz.
     bindE (parse_process_find_i32_field (fs ! 13) ''nice'') (\<lambda>nice.
     bindE (parse_process_find_i32_field (fs ! 14) ''pri'') (\<lambda>pri.
     Inr \<lparr>pr_info =
            \<lparr>pi_pid = pid, pi_ppid = ppid, pi_pgid = pgid, pi_user = fs ! 3, pi_uid = uid,
             pi_stat = fs ! 5, pi_start = fs ! 6, pi_etime = fs ! 7, pi_time = fs ! 8,
             pi_pcpu = fs ! 9, pi_pmem = fs ! 10, pi_rss = rss, pi_vsz = vsz, pi_nice = nice,
             pi_pri = pri, pi_tty = fs ! 15, pi_comm = fs ! 16\<rparr>,
          pr_command =
            (if length fs > length PROCESS_FIND_DEFAULT_FIELDS
             then join_spaces (drop (length PROCESS_FIND_DEFAULT_FIELDS) fs)
             else fs ! 16)\<rparr>))))))))"

definition parse_process_find_ps_output :: "string \<Rightarrow> process_find_row list checked" where
  "parse_process_find_ps_output output =
     foldE (\<lambda>line rows.
       let fs = split_whitespace line in
       if length fs < length PROCESS_FIND_DEFAULT_FIELDS then Inr rows
       else bindE (parse_process_line fs) (\<lambda>row. Inr (rows @ [row])))
     (text_lines output) []"

subsection \<open>Filtering and printing\<close>

definition process_comm_basename :: "string \<Rightarrow> string" where
  "process_comm_basename comm =
     (if components comm = [] then comm
      else case last (components comm) of Normal name \<Rightarrow> name | _ \<Rightarrow> comm)"

definition process_find_row_matches :: "process_find_request \<Rightarrow> process_find_row \<Rightarrow> bool" where
  "process_find_row_matches request row =
     ((pf_names request = []
         \<or> list_ex (\<lambda>name. pi_comm (pr_info row) = name \<or> process_comm_basename (pi_comm (pr_info row)) = name)
              (pf_names request))
      \<and> (pf_contains request = [] \<or> list_ex (text_contains (pr_command row)) (pf_contains request))
      \<and> (pf_pids request = [] \<or> pi_pid (pr_info row) \<in> set (pf_pids request))
      \<and> (pf_parent_pids request = [] \<or> pi_ppid (pr_info row) \<in> set (pf_parent_pids request))
      \<and> (pf_process_groups request = [] \<or> pi_pgid (pr_info row) \<in> set (pf_process_groups request)))"

definition filter_process_find_rows ::
  "nat \<Rightarrow> process_find_request \<Rightarrow> process_find_row list \<Rightarrow> process_info list" where
  "filter_process_find_rows own_pid request rows =
     map pr_info (filter (process_find_row_matches request)
       (filter (\<lambda>row. pi_pid (pr_info row) \<noteq> own_pid) rows))"

definition jint :: "int \<Rightarrow> json" where
  "jint i = JNumber (if i < 0 then CHR ''-'' # nat_digits (nat (- i)) else nat_digits (nat i))"

definition process_find_info_field_value :: "process_info \<Rightarrow> string \<Rightarrow> json checked" where
  "process_find_info_field_value info field =
     (if field = ''pid'' then Inr (jint (int (pi_pid info)))
      else if field = ''ppid'' then Inr (jint (int (pi_ppid info)))
      else if field = ''pgid'' then Inr (jint (int (pi_pgid info)))
      else if field = ''user'' then Inr (JString (pi_user info))
      else if field = ''uid'' then Inr (jint (pi_uid info))
      else if field = ''stat'' then Inr (JString (pi_stat info))
      else if field = ''start'' then Inr (JString (pi_start info))
      else if field = ''etime'' then Inr (JString (pi_etime info))
      else if field = ''time'' then Inr (JString (pi_time info))
      else if field = ''pcpu'' then Inr (JString (pi_pcpu info))
      else if field = ''pmem'' then Inr (JString (pi_pmem info))
      else if field = ''rss'' then Inr (jint (int (pi_rss info)))
      else if field = ''vsz'' then Inr (jint (int (pi_vsz info)))
      else if field = ''nice'' then Inr (jint (pi_nice info))
      else if field = ''pri'' then Inr (jint (pi_pri info))
      else if field = ''tty'' then Inr (JString (pi_tty info))
      else if field = ''comm'' then Inr (JString (pi_comm info))
      else if field \<in> set PROCESS_FIND_FORBIDDEN_FIELDS then Inl (forbidden_field field)
      else Inl (unknown_field field))"

text \<open>\<open>serde_json::Map::insert\<close> on the ordered map of the default features.\<close>

fun json_insert :: "string \<Rightarrow> json \<Rightarrow> (string \<times> json) list \<Rightarrow> (string \<times> json) list" where
  "json_insert k v [] = [(k, v)]"
| "json_insert k v ((l, w) # kvs) =
     (if k = l then (k, v) # kvs else if k < l then (k, v) # (l, w) # kvs else (l, w) # json_insert k v kvs)"

definition process_find_info_to_json :: "process_info \<Rightarrow> string list \<Rightarrow> json checked" where
  "process_find_info_to_json info requested_fields =
     bindE (foldE (\<lambda>field process.
         bindE (process_find_info_field_value info field) (\<lambda>v. Inr (json_insert field v process)))
       (if requested_fields = [] then PROCESS_FIND_DEFAULT_FIELDS else requested_fields) [])
     (\<lambda>process. Inr (JObject process))"

definition process_find_output_for_rows ::
  "nat \<Rightarrow> process_find_request \<Rightarrow> process_find_row list \<Rightarrow> json list checked" where
  "process_find_output_for_rows own_pid request rows =
     bindE (validate_process_find_fields (pf_fields request)) (\<lambda>_.
     mapE (\<lambda>info. process_find_info_to_json info (pf_fields request))
       (filter_process_find_rows own_pid request rows))"

text \<open>\<open>read_rows\<close> is \<open>read_process_find_rows\<close>: the result of running \<open>ps\<close>, or its error.\<close>

definition run_sandbox_process_find ::
  "nat \<Rightarrow> string checked \<Rightarrow> process_find_request \<Rightarrow> json list checked" where
  "run_sandbox_process_find own_pid ps_output request =
     bindE (validate_process_find_request request) (\<lambda>_.
     bindE (bindE ps_output parse_process_find_ps_output) (\<lambda>rows.
     process_find_output_for_rows own_pid request rows))"

subsection \<open>What the output shows\<close>

lemma json_insert_keys: "fst ` set (json_insert k v kvs) = insert k (fst ` set kvs)"
  by (induction k v kvs rule: json_insert.induct) auto

lemma fields_keys:
  assumes "foldE (\<lambda>field process. bindE (process_find_info_field_value info field) (\<lambda>v. Inr (json_insert field v process)))
      fs acc = Inr kvs"
  shows "fst ` set kvs = fst ` set acc \<union> set fs"
  using assms
proof (induction fs arbitrary: acc)
  case (Cons f fs)
  from Cons.prems obtain v where "foldE (\<lambda>field process. bindE (process_find_info_field_value info field)
      (\<lambda>v. Inr (json_insert field v process))) fs (json_insert f v acc) = Inr kvs" by auto
  from Cons.IH [OF this] show ?case by (simp add: json_insert_keys)
qed simp

lemma info_to_json_keys:
  assumes "process_find_info_to_json info fs = Inr j"
  obtains kvs where "j = JObject kvs" "fst ` set kvs = (if fs = [] then set PROCESS_FIND_DEFAULT_FIELDS else set fs)"
proof -
  from assms obtain kvs where j: "j = JObject kvs"
    and fold: "foldE (\<lambda>field process. bindE (process_find_info_field_value info field) (\<lambda>v. Inr (json_insert field v process)))
      (if fs = [] then PROCESS_FIND_DEFAULT_FIELDS else fs) [] = Inr kvs"
    unfolding process_find_info_to_json_def by (auto simp: bindE_eq_Inr)
  from fields_keys [OF fold] show thesis by (intro that [OF j]) auto
qed

lemma validated_fields_safe:
  assumes "validate_process_find_fields fs = Inr u" "f \<in> set fs"
  shows "f \<in> set PROCESS_FIND_DEFAULT_FIELDS"
proof -
  from foldE_checks [OF assms(1) [unfolded validate_process_find_fields_def] assms(2)]
  show ?thesis by (auto simp: process_find_is_safe_field_def split: if_splits)
qed

lemma forbidden_not_default: "set PROCESS_FIND_DEFAULT_FIELDS \<inter> set PROCESS_FIND_FORBIDDEN_FIELDS = {}"
  by (simp add: PROCESS_FIND_DEFAULT_FIELDS_def PROCESS_FIND_FORBIDDEN_FIELDS_def)

text \<open>
  C39. Processes are shown without their arguments: a successful search returns one object for
  every process that \<open>ps\<close> listed, that matches all selectors and is not the searching process
  itself, in that order. The keys of each object are the requested fields, or all safe fields
  when none was requested, and the command line and the environment are never among them.
\<close>

theorem process_find_private:
  assumes "run_sandbox_process_find own_pid ps_output request = Inr found"
  shows "\<exists>rows. bindE ps_output parse_process_find_ps_output = Inr rows
    \<and> list_all2 (\<lambda>row j. process_find_info_to_json (pr_info row) (pf_fields request) = Inr j
         \<and> (\<exists>kvs. j = JObject kvs
             \<and> fst ` set kvs = (if pf_fields request = [] then set PROCESS_FIND_DEFAULT_FIELDS else set (pf_fields request))
             \<and> fst ` set kvs \<inter> set PROCESS_FIND_FORBIDDEN_FIELDS = {}))
       (filter (\<lambda>row. pi_pid (pr_info row) \<noteq> own_pid \<and> process_find_row_matches request row) rows) found"
proof -
  from assms obtain rows where rows: "bindE ps_output parse_process_find_ps_output = Inr rows"
    and val: "validate_process_find_fields (pf_fields request) = Inr ()"
    and found: "mapE (\<lambda>info. process_find_info_to_json info (pf_fields request))
      (filter_process_find_rows own_pid request rows) = Inr found"
    unfolding run_sandbox_process_find_def process_find_output_for_rows_def bindE_eq_Inr by auto
  have filtered: "filter_process_find_rows own_pid request rows
      = map pr_info (filter (\<lambda>row. pi_pid (pr_info row) \<noteq> own_pid \<and> process_find_row_matches request row) rows)"
    by (simp add: filter_process_find_rows_def conj_commute)
  have "\<exists>kvs. j = JObject kvs
      \<and> fst ` set kvs = (if pf_fields request = [] then set PROCESS_FIND_DEFAULT_FIELDS else set (pf_fields request))
      \<and> fst ` set kvs \<inter> set PROCESS_FIND_FORBIDDEN_FIELDS = {}"
    if "process_find_info_to_json info (pf_fields request) = Inr j" for info j
  proof (rule info_to_json_keys [OF that])
    fix kvs assume kvs: "j = JObject kvs"
      "fst ` set kvs = (if pf_fields request = [] then set PROCESS_FIND_DEFAULT_FIELDS else set (pf_fields request))"
    then have "fst ` set kvs \<subseteq> set PROCESS_FIND_DEFAULT_FIELDS" using validated_fields_safe [OF val] by auto
    then have "fst ` set kvs \<inter> set PROCESS_FIND_FORBIDDEN_FIELDS = {}" using forbidden_not_default by blast
    with kvs show ?thesis by blast
  qed
  with found show ?thesis
    unfolding filtered mapE_eq_Inr_iff list_all2_map1 using rows
    by (intro exI [of _ rows]) (auto elim!: list_all2_mono)
qed

definition demo_search :: process_find_request where
  "demo_search = \<lparr>pf_names = [''sh''], pf_contains = [], pf_pids = [], pf_parent_pids = [], pf_process_groups = [],
     pf_fields = [''pid'', ''comm'']\<rparr>"

definition demo_ps :: string where
  "demo_ps = ''7 1 7 me 501 S 9 0 0 0 0 12 34 0 20 tty /bin/sh -c secret''"

theorem process_find_private_witness:
  "run_sandbox_process_find 99 (Inr demo_ps) demo_search
     = Inr [JObject [(''comm'', JString ''/bin/sh''), (''pid'', JNumber ''7'')]]
   \<and> {''comm'', ''pid''} \<inter> set PROCESS_FIND_FORBIDDEN_FIELDS = {}"
proof -
  have run: "run_sandbox_process_find 99 (Inr demo_ps) demo_search
     = Inr [JObject [(''comm'', JString ''/bin/sh''), (''pid'', JNumber ''7'')]]" by code_simp
  from process_find_private [OF run] run show ?thesis
    by (auto simp: list_all2_Cons2)
qed

end
