(* ===== verification/Push.thy ===== *)
theory Push
  imports Process_Find
begin

section \<open>The structured push\<close>

text \<open>
  \<^verbatim>\<open>src/crates/stateful-cli/src/push.rs\<close>. Git is a parameter: \<open>G args\<close> is what running
  \<open>git\<close> with the arguments gives, an I/O error or an exit status with the two outputs (the
  standard output is \<open>None\<close> when it is not UTF-8). Every function returns its result together
  with the git commands it has run, in order, so that a property can speak about the push that
  really happens.
\<close>

record git_output =
  go_success :: bool
  go_stdout :: "string option"
  go_stderr :: string

type_synonym git = "string list \<Rightarrow> git_output checked"
type_synonym 'a with_git = "'a checked \<times> string list list"

definition bindG :: "'a with_git \<Rightarrow> ('a \<Rightarrow> 'b with_git) \<Rightarrow> 'b with_git" where
  "bindG m f = (case m of
     (Inl e, calls) \<Rightarrow> (Inl e, calls)
   | (Inr x, calls) \<Rightarrow> (fst (f x), calls @ snd (f x)))"

definition no_git :: "'a checked \<Rightarrow> 'a with_git" where
  "no_git r = (r, [])"

record push_request =
  pq_remote :: "string option"
  pq_branch :: "string option"

record push_target =
  pt_remote :: string
  pt_branch :: string
  pt_explicit :: bool

record push_result =
  pres_remote :: string
  pres_branch :: string

fun has_whitespace :: "string \<Rightarrow> bool" where
  "has_whitespace [] = False"
| "has_whitespace (c # cs) = (leading_whitespace (c # cs) \<noteq> None \<or> has_whitespace cs)"

definition validate_push_value :: "string \<Rightarrow> string \<Rightarrow> unit checked" where
  "validate_push_value label v =
     (if blank v then Inl (''push '' @ label @ '' is required'')
      else if take 1 v = ''-'' then Inl (''push '' @ label @ '' must not start with '' @ [CHR 0x27, CHR ''-'', CHR 0x27])
      else if CHR '':'' \<in> set v then Inl (''push '' @ label @ '' must not contain '' @ [CHR 0x27, CHR '':'', CHR 0x27])
      else if has_whitespace v \<or> has_control v
      then Inl (''push '' @ label @ '' must not contain whitespace or control characters'')
      else Inr ())"

definition git_failed :: "string list \<Rightarrow> git_output \<Rightarrow> string" where
  "git_failed args out = ''git '' @ join_spaces args @ '' failed: '' @ trim (go_stderr out)"

definition git_status :: "git \<Rightarrow> string list \<Rightarrow> unit with_git" where
  "git_status G args =
     (bindE (G args) (\<lambda>out. if \<not> go_success out then Inl (git_failed args out) else Inr ()), [args])"

definition git_stdout :: "git \<Rightarrow> string list \<Rightarrow> string with_git" where
  "git_stdout G args =
     (bindE (G args) (\<lambda>out. if \<not> go_success out then Inl (git_failed args out)
        else ok_or ''invalid utf-8 sequence'' (go_stdout out)), [args])"

definition status_args :: "string list" where
  "status_args = [''status'', ''--porcelain=v1'', ''--untracked-files=all'']"

definition ensure_clean_worktree :: "git \<Rightarrow> unit with_git" where
  "ensure_clean_worktree G =
     bindG (git_stdout G status_args) (\<lambda>status.
     no_git (if \<not> blank status
       then Inl ''stateful push requires a clean working tree; commit or remove local changes first''
       else Inr ()))"

definition current_branch :: "git \<Rightarrow> string with_git" where
  "current_branch G =
     (let args = [''symbolic-ref'', ''--quiet'', ''--short'', ''HEAD''] in
      (bindE (G args) (\<lambda>out.
         if \<not> go_success out then Inl ''stateful push requires an attached branch''
         else bindE (ok_or ''invalid utf-8 sequence'' (go_stdout out)) (\<lambda>s. Inr (trim s))), [args]))"

definition ensure_upstream :: "git \<Rightarrow> unit with_git" where
  "ensure_upstream G =
     (let args = [''rev-parse'', ''--abbrev-ref'', ''--symbolic-full-name'', [CHR ''@'', CHR ''{'', CHR ''u'', CHR ''}'']] in
      (bindE (G args) (\<lambda>out.
         if \<not> go_success out
         then Inl ''stateful push without an explicit target requires the current branch to have an upstream''
         else Inr ()), [args]))"

definition branch_remote :: "git \<Rightarrow> string \<Rightarrow> string with_git" where
  "branch_remote G branch =
     bindG (git_stdout G [''config'', ''--get'', ''branch.'' @ branch @ ''.remote'']) (\<lambda>remote.
     no_git (if blank remote
       then Inl (''stateful push could not resolve upstream remote for `'' @ branch @ ''`'')
       else Inr (trim remote)))"

definition map_git_err :: "string \<Rightarrow> 'a with_git \<Rightarrow> 'a with_git" where
  "map_git_err message m = (mapErr (\<lambda>_. message) (fst m), snd m)"

definition validate_push_remote :: "git \<Rightarrow> string \<Rightarrow> unit with_git" where
  "validate_push_remote G remote =
     bindG (no_git (validate_push_value ''remote'' remote)) (\<lambda>_.
     map_git_err (''stateful push remote `'' @ remote @ ''` is not configured'')
       (git_status G [''remote'', ''get-url'', remote]))"

definition validate_push_branch :: "git \<Rightarrow> string \<Rightarrow> unit with_git" where
  "validate_push_branch G branch =
     bindG (no_git (validate_push_value ''branch'' branch)) (\<lambda>_.
     if branch = ''HEAD''
     then no_git (Inl ''stateful push branch must name the current branch, not HEAD'')
     else map_git_err (''stateful push branch `'' @ branch @ ''` is not a valid branch name'')
       (git_status G [''check-ref-format'', ''--branch'', branch]))"

definition resolve_push_target ::
  "git \<Rightarrow> string \<Rightarrow> string option \<Rightarrow> string option \<Rightarrow> push_target with_git" where
  "resolve_push_target G current remote branch =
     (case (remote, branch) of
        (None, None) \<Rightarrow>
          bindG (ensure_upstream G) (\<lambda>_.
          bindG (branch_remote G current) (\<lambda>remote.
          no_git (Inr \<lparr>pt_remote = remote, pt_branch = current, pt_explicit = False\<rparr>)))
      | (Some remote, Some branch) \<Rightarrow>
          no_git (
            bindE (validate_push_value ''remote'' remote) (\<lambda>_.
            bindE (validate_push_value ''branch'' branch) (\<lambda>_.
            if branch \<noteq> current
            then Inl (''stateful push explicit branch `'' @ branch @ ''` must match current branch `'' @ current @ ''`'')
            else Inr \<lparr>pt_remote = remote, pt_branch = branch, pt_explicit = True\<rparr>)))
      | _ \<Rightarrow> no_git (Inl ''stateful push requires both remote and branch, or neither''))"

definition push_args :: "push_target \<Rightarrow> string list" where
  "push_args target =
     (if pt_explicit target then [''push'', pt_remote target, pt_branch target] else [''push''])"

definition run_structured_push :: "git \<Rightarrow> push_request \<Rightarrow> push_result with_git" where
  "run_structured_push G request =
     bindG (ensure_clean_worktree G) (\<lambda>_.
     bindG (current_branch G) (\<lambda>current.
     bindG (resolve_push_target G current (pq_remote request) (pq_branch request)) (\<lambda>target.
     bindG (validate_push_remote G (pt_remote target)) (\<lambda>_.
     bindG (validate_push_branch G (pt_branch target)) (\<lambda>_.
     bindG (git_status G (push_args target)) (\<lambda>_.
     no_git (Inr \<lparr>pres_remote = pt_remote target, pres_branch = pt_branch target\<rparr>)))))))"

subsection \<open>What a push may do\<close>

text \<open>A git command was run: by the first part, or by the second after the first succeeded.\<close>

lemma bindG_called:
  assumes "c \<in> set (snd (bindG m f))"
  obtains "c \<in> set (snd m)" | x where "fst m = Inr x" "c \<in> set (snd (f x))"
  using assms by (auto simp: bindG_def split: prod.splits sum.splits)

lemma bindG_Inr: "fst (bindG m f) = Inr y \<longleftrightarrow> (\<exists>x. fst m = Inr x \<and> fst (f x) = Inr y)"
  by (auto simp: bindG_def split: prod.splits sum.splits)

lemma no_git_simps [simp]: "fst (no_git r) = r" "snd (no_git r) = []"
  by (simp_all add: no_git_def)

lemma map_git_err_simps [simp]:
  "fst (map_git_err e m) = Inr x \<longleftrightarrow> fst m = Inr x" "snd (map_git_err e m) = snd m"
  by (simp_all add: map_git_err_def)

definition push_value_ok :: "string \<Rightarrow> bool" where
  "push_value_ok v = (v \<noteq> [] \<and> hd v \<noteq> CHR ''-'' \<and> CHR '':'' \<notin> set v \<and> \<not> has_whitespace v \<and> \<not> has_control v)"

lemma validate_push_value_ok: "validate_push_value label v = Inr u \<Longrightarrow> push_value_ok v"
  by (cases v) (auto simp: validate_push_value_def push_value_ok_def trim_def trim_start_def trim_end_def split: if_splits)

text \<open>No step before the last one runs \<open>git push\<close>.\<close>

lemma checks_do_not_push:
  "c \<in> set (snd (ensure_clean_worktree G)) \<Longrightarrow> hd c \<noteq> ''push''"
  "c \<in> set (snd (current_branch G)) \<Longrightarrow> hd c \<noteq> ''push''"
  "c \<in> set (snd (resolve_push_target G current remote branch)) \<Longrightarrow> hd c \<noteq> ''push''"
  "c \<in> set (snd (validate_push_remote G r)) \<Longrightarrow> hd c \<noteq> ''push''"
  "c \<in> set (snd (validate_push_branch G b)) \<Longrightarrow> hd c \<noteq> ''push''"
  by (auto simp: ensure_clean_worktree_def current_branch_def resolve_push_target_def validate_push_remote_def
      validate_push_branch_def ensure_upstream_def branch_remote_def git_stdout_def git_status_def status_args_def Let_def
      split: option.splits if_splits elim!: bindG_called)

lemma resolve_push_targetD:
  assumes "fst (resolve_push_target G current remote branch) = Inr target"
  shows "pt_branch target = current" "pt_explicit target \<Longrightarrow> remote = Some (pt_remote target) \<and> branch = Some (pt_branch target)"
    "\<not> pt_explicit target \<Longrightarrow> remote = None \<and> branch = None"
  using assms by (auto simp: resolve_push_target_def bindG_Inr split: option.splits if_splits)


text \<open>A repository on \<open>main\<close> with a remote \<open>origin\<close>.\<close>

definition demo_git :: git where
  "demo_git args = Inr
     \<lparr>go_success = True,
      go_stdout = Some (if hd args = ''symbolic-ref'' then ''main'' else if hd args = ''config'' then ''origin'' else []),
      go_stderr = []\<rparr>"


end
