(* ===== verification/Process_Inspection.thy ===== *)
theory Process_Inspection
  imports Process_Find Shell
begin

section \<open>Commands that inspect processes\<close>

text \<open>
  The part of \<^verbatim>\<open>src/crates/stateful-cli/src/sandbox.rs\<close> that refuses sandboxed commands which run
  \<^verbatim>\<open>ps\<close> or \<^verbatim>\<open>pgrep\<close>, directly, behind wrappers and assignments, in substitutions or as the text of
  an inner shell. The functions of the code take an index into a vector; here they take the rest
  of the list. The nesting depth, at most five in the code, is the number of levels that are left,
  and what is checked one level deeper is the argument \<open>nested\<close>.
\<close>

subsection \<open>Segments and words\<close>

definition close_segment :: "string list \<Rightarrow> string \<Rightarrow> string list" where
  "close_segment segments current = (if blank current then segments else segments @ [trim current])"

fun segments_from :: "quote_state \<Rightarrow> string list \<Rightarrow> string \<Rightarrow> string \<Rightarrow> string list" where
  "segments_from state segments current [] = close_segment segments current"
| "segments_from QuoteNone segments current (ch # rest) =
     (if ch = apostrophe then segments_from QuoteSingle segments (current @ [ch]) rest
      else if ch = quotation_mark then segments_from QuoteDouble segments (current @ [ch]) rest
      else if ch \<in> {CHR '';'', CHR ''|'', CHR ''&'', CHR ''('', CHR '')'', CHR 0x0A, CHR 0x0D}
      then segments_from QuoteNone (close_segment segments current) [] rest
      else segments_from QuoteNone segments (current @ [ch]) rest)"
| "segments_from QuoteSingle segments current (ch # rest) =
     segments_from (if ch = apostrophe then QuoteNone else QuoteSingle) segments (current @ [ch]) rest"
| "segments_from QuoteDouble segments current (ch # rest) =
     segments_from (if ch = quotation_mark then QuoteNone else QuoteDouble) segments (current @ [ch]) rest"

definition simple_shell_command_segments :: "string \<Rightarrow> string list" where
  "simple_shell_command_segments command = segments_from QuoteNone [] [] command"

function inspection_words :: "quote_state \<Rightarrow> bool \<Rightarrow> string \<Rightarrow> string list \<Rightarrow> string \<Rightarrow> string + string list" where
  "inspection_words state in_word current ws [] =
     (if state \<noteq> QuoteNone then Inl ''sandbox run command has unterminated quotes''
      else Inr (if in_word then ws @ [current] else ws))"
| "inspection_words QuoteNone in_word current ws (ch # rest) =
     (if ch = apostrophe then inspection_words QuoteSingle True current ws rest
      else if ch = quotation_mark then inspection_words QuoteDouble True current ws rest
      else if ch = backslash
      then inspection_words QuoteNone True (current @ [if rest = [] then ch else hd rest]) ws (tl rest)
      else case leading_whitespace (ch # rest) of
        Some w \<Rightarrow>
          if in_word then inspection_words QuoteNone False [] (ws @ [current]) (drop (length w) (ch # rest))
          else inspection_words QuoteNone in_word current ws (drop (length w) (ch # rest))
      | None \<Rightarrow> inspection_words QuoteNone True (current @ [ch]) ws rest)"
| "inspection_words QuoteSingle in_word current ws (ch # rest) =
     (if ch = apostrophe then inspection_words QuoteNone in_word current ws rest
      else inspection_words QuoteSingle in_word (current @ [ch]) ws rest)"
| "inspection_words QuoteDouble in_word current ws (ch # rest) =
     (if ch = quotation_mark then inspection_words QuoteNone in_word current ws rest
      else if ch = backslash
      then inspection_words QuoteDouble in_word (current @ [if rest = [] then ch else hd rest]) ws (tl rest)
      else inspection_words QuoteDouble in_word (current @ [ch]) ws rest)"
  by pat_completeness auto
termination
  by (relation "measure (\<lambda>(_, _, _, _, s). length s)") (auto dest!: leading_whitespace_Some(1) simp: diff_less)

definition split_process_inspection_command_words :: "string \<Rightarrow> string + string list" where
  "split_process_inspection_command_words command = inspection_words QuoteNone False [] [] command"

subsection \<open>Substitutions\<close>

text \<open>
  The text of a substitution and what follows it, from behind its opening parenthesis or
  backquote.
\<close>

fun collect_parenthesized :: "nat \<Rightarrow> quote_state \<Rightarrow> string \<Rightarrow> string \<Rightarrow> (string \<times> string) option" where
  "collect_parenthesized depth state nested [] = None"
| "collect_parenthesized depth QuoteNone nested (ch # rest) =
     (if ch = apostrophe then collect_parenthesized depth QuoteSingle (nested @ [ch]) rest
      else if ch = quotation_mark then collect_parenthesized depth QuoteDouble (nested @ [ch]) rest
      else if ch = backslash
      then (case rest of
              [] \<Rightarrow> collect_parenthesized depth QuoteNone (nested @ [ch]) []
            | c # cs \<Rightarrow> collect_parenthesized depth QuoteNone (nested @ [ch, c]) cs)
      else if ch = CHR ''('' then collect_parenthesized (Suc depth) QuoteNone (nested @ [ch]) rest
      else if ch = CHR '')''
      then (if depth = 1 then Some (nested, rest)
            else collect_parenthesized (depth - 1) QuoteNone (nested @ [ch]) rest)
      else collect_parenthesized depth QuoteNone (nested @ [ch]) rest)"
| "collect_parenthesized depth QuoteSingle nested (ch # rest) =
     collect_parenthesized depth (if ch = apostrophe then QuoteNone else QuoteSingle) (nested @ [ch]) rest"
| "collect_parenthesized depth QuoteDouble nested (ch # rest) =
     collect_parenthesized depth (if ch = quotation_mark then QuoteNone else QuoteDouble) (nested @ [ch]) rest"

definition collect_parenthesized_shell_command :: "string \<Rightarrow> (string \<times> string) option" where
  "collect_parenthesized_shell_command s = collect_parenthesized 1 QuoteNone [] s"

fun collect_backtick :: "string \<Rightarrow> string \<Rightarrow> (string \<times> string) option" where
  "collect_backtick nested [] = None"
| "collect_backtick nested [ch] = (if ch = CHR 0x60 then Some (nested, []) else None)"
| "collect_backtick nested (ch # c # cs) =
     (if ch = CHR 0x60 then Some (nested, c # cs)
      else if ch = backslash then collect_backtick (nested @ [c]) cs
      else collect_backtick (nested @ [ch]) (c # cs))"

definition collect_backtick_shell_command :: "string \<Rightarrow> (string \<times> string) option" where
  "collect_backtick_shell_command s = collect_backtick [] s"

lemma collect_parenthesized_shorter:
  "collect_parenthesized depth state nested s = Some (n, rest) \<Longrightarrow> length rest < length s"
  by (induction depth state nested s rule: collect_parenthesized.induct)
    (auto split: if_splits list.splits)

lemma collect_backtick_shorter: "collect_backtick nested s = Some (n, rest) \<Longrightarrow> length rest < length s"
  by (induction nested s rule: collect_backtick.induct) (auto split: if_splits)

text \<open>
  \<open>substitution ch rest\<close>: the substitution that starts at \<open>ch\<close>, with the text behind it. One that
  does not end is skipped as a single character.
\<close>

definition substitution :: "char \<Rightarrow> string \<Rightarrow> (string \<times> string) option" where
  "substitution ch rest =
     (if ch = CHR ''$'' \<and> take 1 rest = ''('' then collect_parenthesized_shell_command (tl rest)
      else if ch = CHR 0x60 then collect_backtick_shell_command rest
      else None)"

lemma substitution_shorter: "substitution ch rest = Some (n, rest') \<Longrightarrow> length rest' < Suc (length rest)"
  by (cases rest)
    (auto simp: substitution_def collect_parenthesized_shell_command_def collect_backtick_shell_command_def
      split: if_splits dest!: collect_parenthesized_shorter collect_backtick_shorter)

function substitutions_from :: "(string \<Rightarrow> bool) \<Rightarrow> quote_state \<Rightarrow> string \<Rightarrow> bool" where
  "substitutions_from nested state [] = False"
| "substitutions_from nested QuoteNone (ch # rest) =
     (if ch = apostrophe then substitutions_from nested QuoteSingle rest
      else if ch = quotation_mark then substitutions_from nested QuoteDouble rest
      else if ch = backslash then substitutions_from nested QuoteNone (tl rest)
      else case substitution ch rest of
        Some (command, rest') \<Rightarrow> nested command \<or> substitutions_from nested QuoteNone rest'
      | None \<Rightarrow> substitutions_from nested QuoteNone rest)"
| "substitutions_from nested QuoteSingle (ch # rest) =
     substitutions_from nested (if ch = apostrophe then QuoteNone else QuoteSingle) rest"
| "substitutions_from nested QuoteDouble (ch # rest) =
     (if ch = quotation_mark then substitutions_from nested QuoteNone rest
      else if ch = backslash then substitutions_from nested QuoteDouble (tl rest)
      else case substitution ch rest of
        Some (command, rest') \<Rightarrow> nested command \<or> substitutions_from nested QuoteDouble rest'
      | None \<Rightarrow> substitutions_from nested QuoteDouble rest)"
  by pat_completeness auto
termination
  by (relation "measure (\<lambda>(_, _, s). length s)") (auto dest: substitution_shorter)

definition shell_substitutions_invoke_raw_process_inspection :: "(string \<Rightarrow> bool) \<Rightarrow> string \<Rightarrow> bool" where
  "shell_substitutions_invoke_raw_process_inspection nested command = substitutions_from nested QuoteNone command"

subsection \<open>Wrappers\<close>

definition is_option :: "string \<Rightarrow> bool" where
  "is_option word = (take 1 word = ''-'' \<and> length word > 1)"

fun skip_process_wrapper_options :: "string list \<Rightarrow> string list" where
  "skip_process_wrapper_options [] = []"
| "skip_process_wrapper_options (word # ws) =
     (if word = ''--'' then ws
      else if is_option word then skip_process_wrapper_options ws
      else word # ws)"

function skip_exec_process_wrapper_options :: "string list \<Rightarrow> string list" where
  "skip_exec_process_wrapper_options [] = []"
| "skip_exec_process_wrapper_options (word # ws) =
     (if word = ''--'' then ws
      else if word = ''-a'' then skip_exec_process_wrapper_options (tl ws)
      else if is_option word then skip_exec_process_wrapper_options ws
      else word # ws)"
  by pat_completeness auto
termination by (relation "measure length") auto

definition env_option_consumes :: "string \<Rightarrow> bool" where
  "env_option_consumes word = (word \<in> {''-u'', ''--unset'', ''-C'', ''--chdir'', ''-P'', ''--path''})"

function env_process_wrapper_invokes_raw_process_inspection :: "(string \<Rightarrow> bool) \<Rightarrow> string list \<Rightarrow> bool" where
  "env_process_wrapper_invokes_raw_process_inspection nested [] = False"
| "env_process_wrapper_invokes_raw_process_inspection nested (word # ws) =
     (if word = ''--'' then False
      else if first_word_is_env_assignment word then env_process_wrapper_invokes_raw_process_inspection nested ws
      else case strip_prefix ''--split-string='' word of
        Some command \<Rightarrow> nested command
      | None \<Rightarrow>
          if word = ''-S'' \<or> word = ''--split-string'' then (ws \<noteq> [] \<and> nested (hd ws))
          else case strip_prefix ''-S'' word of
            Some command \<Rightarrow> nested command
          | None \<Rightarrow>
              if is_option word
              then env_process_wrapper_invokes_raw_process_inspection nested
                     (if env_option_consumes word then tl ws else ws)
              else False)"
  by pat_completeness auto
termination by (relation "measure (\<lambda>(_, ws). length ws)") auto

function skip_env_process_wrapper :: "string list \<Rightarrow> string list" where
  "skip_env_process_wrapper [] = []"
| "skip_env_process_wrapper (word # ws) =
     (if word = ''--'' then ws
      else if first_word_is_env_assignment word then skip_env_process_wrapper ws
      else if is_option word
      then skip_env_process_wrapper
             (if env_option_consumes word \<or> word = ''-S'' \<or> word = ''--split-string'' then tl ws else ws)
      else word # ws)"
  by pat_completeness auto
termination by (relation "measure length") auto

fun shell_c_argument_invokes_raw_process_inspection :: "(string \<Rightarrow> bool) \<Rightarrow> string list \<Rightarrow> bool" where
  "shell_c_argument_invokes_raw_process_inspection nested [] = False"
| "shell_c_argument_invokes_raw_process_inspection nested (word # ws) =
     (if word = ''-c'' \<or> (take 1 word = ''-'' \<and> CHR ''c'' \<in> set word) then (ws \<noteq> [] \<and> nested (hd ws))
      else shell_c_argument_invokes_raw_process_inspection nested ws)"

lemma skip_shorter:
  "length (skip_process_wrapper_options ws) \<le> length ws"
  "length (skip_exec_process_wrapper_options ws) \<le> length ws"
  "length (skip_env_process_wrapper ws) \<le> length ws"
proof -
  show "length (skip_process_wrapper_options ws) \<le> length ws"
    by (induction ws rule: skip_process_wrapper_options.induct) auto
  show "length (skip_exec_process_wrapper_options ws) \<le> length ws"
    by (induction ws rule: skip_exec_process_wrapper_options.induct) auto
  show "length (skip_env_process_wrapper ws) \<le> length ws"
  proof (induction ws rule: skip_env_process_wrapper.induct)
    case (2 word ws)
    then show ?case by (cases "first_word_is_env_assignment word") (auto split: if_splits)
  qed simp
qed

definition shell_keywords :: "string list" where
  "shell_keywords = [''!'', ''if'', ''then'', ''do'', ''else'', ''elif'', ''while'', ''until'']"

function simple_command_words_invoke_raw_process_inspection :: "(string \<Rightarrow> bool) \<Rightarrow> string list \<Rightarrow> bool" where
  "simple_command_words_invoke_raw_process_inspection nested [] = False"
| "simple_command_words_invoke_raw_process_inspection nested (word # ws) =
     (if first_word_is_env_assignment word \<or> word \<in> set shell_keywords
      then simple_command_words_invoke_raw_process_inspection nested ws
      else
        let command = process_comm_basename word in
        if command \<in> {''ps'', ''pgrep''} then True
        else if command \<in> {''time'', ''command''}
        then simple_command_words_invoke_raw_process_inspection nested (skip_process_wrapper_options ws)
        else if command = ''exec''
        then simple_command_words_invoke_raw_process_inspection nested (skip_exec_process_wrapper_options ws)
        else if command = ''env''
        then env_process_wrapper_invokes_raw_process_inspection nested ws
             \<or> simple_command_words_invoke_raw_process_inspection nested (skip_env_process_wrapper ws)
        else if command \<in> {''sh'', ''bash'', ''zsh'', ''dash''}
        then shell_c_argument_invokes_raw_process_inspection nested ws
        else False)"
  by pat_completeness auto
termination
  by (relation "measure (\<lambda>(_, ws). length ws)") (auto simp: le_imp_less_Suc skip_shorter)

primrec invokes_raw_process_inspection :: "nat \<Rightarrow> string \<Rightarrow> bool" where
  "invokes_raw_process_inspection 0 command = True"
| "invokes_raw_process_inspection (Suc levels) command =
     (shell_substitutions_invoke_raw_process_inspection (invokes_raw_process_inspection levels) command
      \<or> list_ex (\<lambda>segment. case split_process_inspection_command_words segment of
           Inl _ \<Rightarrow> False
         | Inr ws \<Rightarrow> simple_command_words_invoke_raw_process_inspection (invokes_raw_process_inspection levels) ws)
         (simple_shell_command_segments command))"

definition sandbox_run_command_invokes_raw_process_inspection :: "string \<Rightarrow> nat \<Rightarrow> bool" where
  "sandbox_run_command_invokes_raw_process_inspection command depth = invokes_raw_process_inspection (5 - depth) command"

definition validate_sandbox_run_process_inspection :: "string \<Rightarrow> string + unit" where
  "validate_sandbox_run_process_inspection command =
     guardE (\<not> sandbox_run_command_invokes_raw_process_inspection command 0)
       ''process inspection must use stateful sandbox process find''"

end
