(* ===== verification/Sandbox_Shape.thy ===== *)
theory Sandbox_Shape
  imports Process_Inspection File_System
begin

section \<open>What a sandboxed run may ask for\<close>

text \<open>
  The checks that \<^verbatim>\<open>src/crates/stateful-cli/src/sandbox.rs\<close> makes on a request before anything runs:
  target paths, the one typed operation of a mutation, the git commands of the read-only git
  profile, network and owner. \<^verbatim>\<open>serde_json\<close>, which reads an operation, is an argument.
\<close>

datatype fs_profile = ReadOnlyFs | MutationFs | GitFs

datatype network_policy = NetworkDisabled | NetworkEnabled

record sandbox_run_request =
  sq_fs :: fs_profile
  sq_network :: network_policy
  sq_purpose :: "string option"
  sq_task_id :: "string option"
  sq_agent_id :: "string option"
  sq_workspace_id :: "string option"
  sq_operations :: "string list"
  sq_command :: string
  sq_timeout_seconds :: "nat option"
  sq_stream_events :: bool

record validated_sandbox_run_shape =
  vs_operations :: "mutation_operation list"
  vs_direct_command :: "string list option"

record sandbox_command_result =
  sc_status :: string
  sc_exit_code :: "int option"
  sc_stdout :: string
  sc_stderr :: string

subsection \<open>Target paths\<close>

definition ascii_lower :: "char \<Rightarrow> char" where
  "ascii_lower c = (if CHR ''A'' \<le> c \<and> c \<le> CHR ''Z'' then char_of (of_char c + 32 :: nat) else c)"

definition eq_ignore_ascii_case :: "string \<Rightarrow> string \<Rightarrow> bool" where
  "eq_ignore_ascii_case a b = (map ascii_lower a = map ascii_lower b)"

definition is_git_internal_segment :: "string \<Rightarrow> bool" where
  "is_git_internal_segment segment = eq_ignore_ascii_case segment ''.git''"

definition sandbox_segment :: "string \<Rightarrow> string \<Rightarrow> string list \<Rightarrow> string + string list" where
  "sandbox_segment field segment segments =
     (if segment = [] \<or> segment = ''.'' then Inr segments
      else if segment = ''..''
      then Inl (''stateful sandbox run '' @ field @ '' entries must stay inside the repo'')
      else if is_git_internal_segment segment then Inl ''stateful sandbox run refuses Git internals''
      else if segment = ''.stateful''
      then Inl ''stateful sandbox run refuses its private staging directory''
      else if has_control segment
      then Inl ''stateful sandbox run paths must not contain control characters''
      else Inr (segments @ [segment]))"

definition normalize_sandbox_target_path :: "string \<Rightarrow> string \<Rightarrow> string + string" where
  "normalize_sandbox_target_path field path =
     (let trimmed = trim path; normalized = portable trimmed in
      if trimmed = [] then Inl (''stateful sandbox run '' @ field @ '' entries must not be empty'')
      else if is_absolute trimmed \<or> take 1 normalized = ''/''
      then Inl (''stateful sandbox run '' @ field @ '' entries must be repo-relative'')
      else
        bindE (foldE (sandbox_segment field) (split_on (CHR ''/'') normalized) []) (\<lambda>segments.
        if segments = [] then Inl (''stateful sandbox run '' @ field @ '' entries must not be empty'')
        else Inr (join_path segments)))"

subsection \<open>Operations\<close>

abbreviation target_path :: "string \<Rightarrow> string + string" where
  "target_path \<equiv> normalize_sandbox_target_path ''operation path''"

definition two_targets ::
  "(string \<Rightarrow> string \<Rightarrow> mutation_operation) \<Rightarrow> string \<Rightarrow> string \<Rightarrow> string \<Rightarrow> string + mutation_operation" where
  "two_targets build what old_path new_path =
     bindE (target_path old_path) (\<lambda>old. bindE (target_path new_path) (\<lambda>new.
     if old = new then Inl (''sandbox '' @ what @ '' source and destination must differ'')
     else Inr (build old new)))"

fun normalize_mutation_operation :: "mutation_operation \<Rightarrow> string + mutation_operation" where
  "normalize_mutation_operation (Create path) = bindE (target_path path) (\<lambda>p. Inr (Create p))"
| "normalize_mutation_operation (Update path) = bindE (target_path path) (\<lambda>p. Inr (Update p))"
| "normalize_mutation_operation (Mkdir path) = bindE (target_path path) (\<lambda>p. Inr (Mkdir p))"
| "normalize_mutation_operation (Rmdir path) = bindE (target_path path) (\<lambda>p. Inr (Rmdir p))"
| "normalize_mutation_operation (WriteDirectory path) = bindE (target_path path) (\<lambda>p. Inr (WriteDirectory p))"
| "normalize_mutation_operation (Delete path entry_only) =
     (if entry_only then Inl ''sandbox does not execute symlink-entry deletes''
      else bindE (target_path path) (\<lambda>p. Inr (Delete p entry_only)))"
| "normalize_mutation_operation (Rename old_path new_path entry_only) =
     (if entry_only then Inl ''sandbox does not execute symlink-entry moves''
      else two_targets (\<lambda>p q. Rename p q entry_only) ''move'' old_path new_path)"
| "normalize_mutation_operation (Move old_path new_path entry_only) =
     (if entry_only then Inl ''sandbox does not execute symlink-entry moves''
      else two_targets (\<lambda>p q. Move p q entry_only) ''move'' old_path new_path)"
| "normalize_mutation_operation (Hardlink old_path new_path) = two_targets Hardlink ''hardlink'' old_path new_path"
| "normalize_mutation_operation (StructuredCommit paths) =
     Inl (''sandbox does not execute operation `'' @ kind_name (StructuredCommit paths) @ ''`'')"

fun operation_paths :: "mutation_operation \<Rightarrow> string list" where
  "operation_paths (Create path) = [path]"
| "operation_paths (Update path) = [path]"
| "operation_paths (Mkdir path) = [path]"
| "operation_paths (Rmdir path) = [path]"
| "operation_paths (WriteDirectory path) = [path]"
| "operation_paths (Delete path _) = [path]"
| "operation_paths (Rename old_path new_path _) = [old_path, new_path]"
| "operation_paths (Move old_path new_path _) = [old_path, new_path]"
| "operation_paths (Hardlink old_path new_path) = [old_path, new_path]"
| "operation_paths (StructuredCommit _) = []"

definition declare_target :: "string \<Rightarrow> string list \<Rightarrow> string + string list" where
  "declare_target path targets =
     (if path \<in> set targets
      then Inl (''sandbox operations must not declare target `'' @ path @ ''` more than once'')
      else Inr (targets @ [path]))"

definition parse_operation_step ::
  "(string \<Rightarrow> string + mutation_operation) \<Rightarrow> string \<Rightarrow> mutation_operation list \<times> string list
     \<Rightarrow> string + (mutation_operation list \<times> string list)" where
  "parse_operation_step from_str v acc =
     (let (operations, targets) = acc in
      bindE (mapErr (\<lambda>e. ''--operation must be a typed MutationOperation JSON object: '' @ e) (from_str v)) (\<lambda>raw.
      bindE (normalize_mutation_operation raw) (\<lambda>operation.
      bindE (foldE declare_target (operation_paths operation) targets) (\<lambda>targets'.
      Inr (operations @ [operation], targets')))))"

definition parse_mutation_operations ::
  "(string \<Rightarrow> string + mutation_operation) \<Rightarrow> string list \<Rightarrow> string + mutation_operation list" where
  "parse_mutation_operations from_str values =
     bindE (foldE (parse_operation_step from_str) values ([], [])) (\<lambda>(operations, _). Inr operations)"

subsection \<open>The git profile\<close>

fun reject_syntax :: "quote_state \<Rightarrow> string \<Rightarrow> string + unit" where
  "reject_syntax state [] = (if state \<noteq> QuoteNone then Inl ''unterminated quotes'' else Inr ())"
| "reject_syntax QuoteNone (ch # rest) =
     (if ch = apostrophe then reject_syntax QuoteSingle rest
      else if ch = quotation_mark then reject_syntax QuoteDouble rest
      else if ch = CHR ''$'' \<and> take 1 rest = ''('' then Inl ''command substitution is not supported''
      else if ch = backslash then Inl ''shell escapes are not supported''
      else if ch \<in> {CHR '';'', CHR ''|'', CHR ''&'', CHR ''<'', CHR ''>'', CHR 0x0A, CHR 0x0D, CHR 0x60}
      then Inl ''shell control syntax is not supported''
      else reject_syntax QuoteNone rest)"
| "reject_syntax QuoteSingle (ch # rest) =
     reject_syntax (if ch = apostrophe then QuoteNone else QuoteSingle) rest"
| "reject_syntax QuoteDouble (ch # rest) =
     (if ch = quotation_mark then reject_syntax QuoteNone rest
      else if ch = CHR ''$'' \<and> take 1 rest = ''('' then Inl ''command substitution is not supported''
      else if ch = CHR 0x60 then Inl ''command substitution is not supported''
      else if ch = backslash then Inl ''shell escapes are not supported''
      else reject_syntax QuoteDouble rest)"

definition reject_direct_profile_shell_syntax :: "string \<Rightarrow> string + unit" where
  "reject_direct_profile_shell_syntax command = reject_syntax QuoteNone command"

definition starts_with :: "string \<Rightarrow> string \<Rightarrow> bool" where
  "starts_with s pre = (take (length pre) s = pre)"

fun git_profile_subcommand :: "string list \<Rightarrow> string + (string \<times> string list)" where
  "git_profile_subcommand [] = Inl ''git profile requires an explicit git subcommand''"
| "git_profile_subcommand (word # ws) =
     (if word = ''--'' then Inl ''git profile requires an explicit git subcommand''
      else if starts_with word ''-c'' then Inl ''git profile does not allow inline git config''
      else if word = ''--config-env'' \<or> starts_with word ''--config-env='' then Inl ''git profile does not allow config-env''
      else if starts_with word ''-C'' \<or> word \<in> {''--git-dir'', ''--work-tree'', ''--namespace'', ''--exec-path''}
         \<or> starts_with word ''--git-dir='' \<or> starts_with word ''--work-tree='' \<or> starts_with word ''--namespace=''
         \<or> starts_with word ''--exec-path=''
      then Inl ''git profile does not allow git path or exec flags''
      else if starts_with word ''-'' then git_profile_subcommand ws
      else Inr (word, ws))"

definition GIT_PROFILE_ALLOWED_SUBCOMMANDS :: "string list" where
  "GIT_PROFILE_ALLOWED_SUBCOMMANDS =
     [''blame'', ''cat-file'', ''describe'', ''diff'', ''log'', ''ls-files'', ''rev-list'', ''rev-parse'', ''show'', ''status'']"

definition validate_git_profile_subcommand_args :: "string \<Rightarrow> string list \<Rightarrow> string + unit" where
  "validate_git_profile_subcommand_args subcommand args = Inr ()"

definition validate_git_profile_words :: "string list \<Rightarrow> string + unit" where
  "validate_git_profile_words words =
     bindE (git_profile_subcommand (tl words)) (\<lambda>(subcommand, args).
     if subcommand \<notin> set GIT_PROFILE_ALLOWED_SUBCOMMANDS
     then Inl (''git profile does not allow git subcommand `'' @ subcommand @ ''`'')
     else validate_git_profile_subcommand_args subcommand args)"

definition parse_git_profile_command :: "string \<Rightarrow> string + string list" where
  "parse_git_profile_command command =
     (let single = (\<lambda>reason. ''git profile requires a single git command: '' @ reason) in
      bindE (mapErr single (reject_direct_profile_shell_syntax command)) (\<lambda>_.
      bindE (mapErr single (split_simple_command_words command)) (\<lambda>words.
      if words = [] \<or> hd words \<noteq> ''git'' then Inl ''git profile requires a single git command''
      else bindE (validate_git_profile_words words) (\<lambda>_. Inr words))))"

definition validate_git_profile_command :: "string \<Rightarrow> string + string list" where
  "validate_git_profile_command command =
     mapErr (\<lambda>reason. ''git profile requires a single git command: '' @ reason) (parse_git_profile_command command)"

subsection \<open>The request\<close>

definition none_or_empty :: "string option \<Rightarrow> bool" where
  "none_or_empty v = (case v of None \<Rightarrow> True | Some s \<Rightarrow> s = [])"

definition validate_sandbox_run_request_shape ::
  "(string \<Rightarrow> string + mutation_operation) \<Rightarrow> sandbox_run_request \<Rightarrow> string + validated_sandbox_run_shape" where
  "validate_sandbox_run_request_shape from_str request =
     (if blank (sq_command request) then Inl ''stateful sandbox run requires a non-empty --command''
      else
        bindE (validate_sandbox_run_process_inspection (sq_command request)) (\<lambda>_.
        bindE (parse_mutation_operations from_str (sq_operations request)) (\<lambda>operations.
        bindE (case sq_fs request of
            ReadOnlyFs \<Rightarrow>
              if operations \<noteq> [] then Inl ''read-only sandbox does not accept --operation''
              else if sq_network request \<noteq> NetworkDisabled
              then Inl ''read-only sandbox run requires --network disabled''
              else Inr None
          | GitFs \<Rightarrow>
              if operations \<noteq> [] \<or> sq_network request = NetworkEnabled
              then Inl ''git sandbox permits only read-only git commands with disabled network''
              else bindE (validate_git_profile_command (sq_command request)) (\<lambda>words. Inr (Some words))
          | MutationFs \<Rightarrow>
              if operations = [] then Inl ''mutation sandbox requires at least one --operation''
              else if length operations \<noteq> 1 then Inl ''mutation sandbox accepts exactly one --operation per command''
              else if none_or_empty (sq_task_id request) then Inl ''mutation sandbox requires --task-id''
              else if none_or_empty (sq_agent_id request) then Inl ''mutation sandbox requires --agent-id''
              else if sq_network request = NetworkEnabled \<and> none_or_empty (sq_purpose request)
              then Inl ''networked mutation sandbox requires --purpose''
              else Inr None) (\<lambda>direct_command.
        Inr \<lparr>vs_operations = operations, vs_direct_command = direct_command\<rparr>))))"

definition sandbox_run_cli_exit_code :: "sandbox_command_result \<Rightarrow> int option" where
  "sandbox_run_cli_exit_code output =
     (if sc_status output = ''exited''
      then (case sc_exit_code output of None \<Rightarrow> Some 1 | Some code \<Rightarrow> if code = 0 then None else Some code)
      else Some 1)"

definition sandbox_run_timeout_duration :: "nat option \<Rightarrow> nat" where
  "sandbox_run_timeout_duration timeout_seconds =
     max 1 (case timeout_seconds of None \<Rightarrow> 3600 | Some n \<Rightarrow> n)"

subsection \<open>Accepted requests are confined\<close>

text \<open>A path that stays inside the repository, outside Git's directory and the staging directory.\<close>

definition sandbox_clean :: "string \<Rightarrow> bool" where
  "sandbox_clean segment \<longleftrightarrow> clean_segment segment \<and> map ascii_lower segment \<noteq> ''.git'' \<and> segment \<noteq> ''.stateful''
     \<and> \<not> has_control segment"

definition confined :: "string \<Rightarrow> bool" where
  "confined path \<longleftrightarrow> (\<exists>segments. segments \<noteq> [] \<and> path = join_path segments \<and> validated_relative_path path = Inr segments
     \<and> list_all sandbox_clean segments)"

lemma sandbox_segments_clean:
  assumes "foldE (sandbox_segment field) raw segments = Inr segments'" "list_all sandbox_clean segments"
    and "\<forall>s \<in> set raw. CHR ''/'' \<notin> set s \<and> CHR 0x5C \<notin> set s"
  shows "list_all sandbox_clean segments'"
  using assms
proof (induction raw arbitrary: segments)
  case (Cons r raw)
  from Cons.prems(1) obtain segments1 where step: "sandbox_segment field r segments = Inr segments1"
    and rest: "foldE (sandbox_segment field) raw segments1 = Inr segments'" by (auto elim!: bindE_InrE)
  have git: "map ascii_lower ''.git'' = ''.git''" by code_simp
  have "segments1 = segments \<or> segments1 = segments @ [r] \<and> sandbox_clean r"
    using step Cons.prems(3) git
    by (auto simp: sandbox_segment_def sandbox_clean_def clean_segment_def is_git_internal_segment_def
        eq_ignore_ascii_case_def split: if_splits)
  with Cons.prems(2) have "list_all sandbox_clean segments1" by auto
  with Cons.IH [OF rest] Cons.prems(3) show ?case by simp
qed simp

lemma target_path_confined:
  assumes "normalize_sandbox_target_path field path = Inr q"
  shows "confined q"
proof -
  from assms obtain segments where
    fold: "foldE (sandbox_segment field) (split_on (CHR ''/'') (portable (trim path))) [] = Inr segments"
    and q: "segments \<noteq> []" "q = join_path segments"
    by (auto simp: normalize_sandbox_target_path_def Let_def elim!: bindE_InrE split: if_splits)
  have "list_all sandbox_clean segments"
    by (rule sandbox_segments_clean [OF fold]) (use split_on_segment portable_segments in \<open>auto, blast\<close>)
  with q validated_join_clean [of segments] show ?thesis
    by (auto simp: confined_def list_all_iff sandbox_clean_def)
qed

lemma normalized_operation_confined:
  assumes "normalize_mutation_operation raw = Inr operation"
  shows "operation_paths operation \<noteq> []" "distinct (operation_paths operation)"
    "list_all confined (operation_paths operation)" "operation \<noteq> StructuredCommit paths"
  using assms
  by (cases raw; auto simp: two_targets_def elim!: bindE_InrE split: if_splits dest: target_path_confined)+

lemma parsed_operations:
  assumes "parse_mutation_operations from_str values = Inr operations" "operation \<in> set operations"
  obtains raw where "normalize_mutation_operation raw = Inr operation"
proof -
  let ?P = "\<lambda>(operations, _). \<forall>operation \<in> set operations. \<exists>raw. normalize_mutation_operation raw = Inr operation"
  from assms(1) obtain targets where "foldE (parse_operation_step from_str) values ([], []) = Inr (operations, targets)"
    by (auto simp: parse_mutation_operations_def elim!: bindE_InrE)
  then have "?P (operations, targets)"
    by (rule foldE_invariant [where P = ?P]) (auto simp: parse_operation_step_def elim!: bindE_InrE)
  with assms(2) that show thesis by auto
qed

definition git_option_allowed :: "string \<Rightarrow> bool" where
  "git_option_allowed word \<longleftrightarrow> starts_with word ''-'' \<and> \<not> starts_with word ''-c'' \<and> \<not> starts_with word ''-C''
     \<and> list_all (\<lambda>flag. word \<noteq> flag \<and> \<not> starts_with word (flag @ ''=''))
         [''--config-env'', ''--git-dir'', ''--work-tree'', ''--namespace'', ''--exec-path'']"

lemma git_profile_subcommand_found:
  "git_profile_subcommand ws = Inr (subcommand, args)
     \<Longrightarrow> \<exists>options. ws = options @ subcommand # args \<and> list_all git_option_allowed options"
proof (induction ws)
  case (Cons word ws)
  show ?case
  proof (cases "starts_with word ''-''")
    case True
    with Cons.prems have "git_profile_subcommand ws = Inr (subcommand, args)" "git_option_allowed word"
      by (auto simp: git_option_allowed_def split: if_splits)
    with Cons.IH obtain options where "ws = options @ subcommand # args" "list_all git_option_allowed options" by blast
    with \<open>git_option_allowed word\<close> show ?thesis by (intro exI [of _ "word # options"]) simp
  next
    case False
    with Cons.prems show ?thesis by (auto split: if_splits intro: exI [of _ "[]"])
  qed
qed simp

text \<open>
  C25. A sandboxed run only asks for what its profile may do: an accepted mutation names its task
  and agent and exactly one operation, never a commit, on different paths that stay inside the
  repository and outside \<^verbatim>\<open>.git\<close> in any spelling and the staging directory, and uses the network
  only with a purpose; an accepted read-only run has neither operations nor network; an accepted
  git run is one of the listed subcommands, without options that change the configuration, the
  repository or the programs git runs.
\<close>

theorem sandbox_request_confined:
  assumes "validate_sandbox_run_request_shape from_str request = Inr shape"
  shows "case sq_fs request of
      MutationFs \<Rightarrow> (\<exists>operation task agent. vs_operations shape = [operation] \<and> (\<nexists>paths. operation = StructuredCommit paths)
        \<and> sq_task_id request = Some task \<and> task \<noteq> [] \<and> sq_agent_id request = Some agent \<and> agent \<noteq> []
        \<and> operation_paths operation \<noteq> [] \<and> distinct (operation_paths operation)
        \<and> list_all confined (operation_paths operation))
        \<and> (sq_network request = NetworkDisabled \<or> (\<exists>purpose. sq_purpose request = Some purpose \<and> purpose \<noteq> []))
    | ReadOnlyFs \<Rightarrow> vs_operations shape = [] \<and> sq_network request = NetworkDisabled
    | GitFs \<Rightarrow> vs_operations shape = [] \<and> sq_network request = NetworkDisabled
        \<and> (\<exists>options subcommand args. split_simple_command_words (sq_command request) = Inr (''git'' # options @ subcommand # args)
            \<and> subcommand \<in> set GIT_PROFILE_ALLOWED_SUBCOMMANDS \<and> list_all git_option_allowed options)"
proof -
  from assms have parsed: "parse_mutation_operations from_str (sq_operations request) = Inr (vs_operations shape)"
    by (auto simp: validate_sandbox_run_request_shape_def elim!: bindE_InrE split: if_splits)
  show ?thesis
  proof (cases "sq_fs request")
    case MutationFs
    with assms obtain operation where one: "vs_operations shape = [operation]"
      by (auto simp: validate_sandbox_run_request_shape_def length_Suc_conv elim!: bindE_InrE split: if_splits)
    with parsed obtain raw where "normalize_mutation_operation raw = Inr operation" by (auto elim: parsed_operations)
    note op = normalized_operation_confined [OF this]
    from assms MutationFs one op show ?thesis
      by (cases "sq_network request")
        (auto simp: validate_sandbox_run_request_shape_def none_or_empty_def elim!: bindE_InrE split: if_splits option.splits)
  next
    case ReadOnlyFs
    with assms show ?thesis
      by (auto simp: validate_sandbox_run_request_shape_def elim!: bindE_InrE split: if_splits)
  next
    case GitFs
    with assms obtain words where words: "parse_git_profile_command (sq_command request) = Inr words"
      and none: "vs_operations shape = []" "sq_network request \<noteq> NetworkEnabled"
      by (auto simp: validate_sandbox_run_request_shape_def validate_git_profile_command_def mapErr_eq_Inr
          elim!: bindE_InrE split: if_splits)
    from words obtain subcommand args where "split_simple_command_words (sq_command request) = Inr words"
        "words \<noteq> []" "hd words = ''git''" "git_profile_subcommand (tl words) = Inr (subcommand, args)"
        "subcommand \<in> set GIT_PROFILE_ALLOWED_SUBCOMMANDS"
      by (auto simp: parse_git_profile_command_def validate_git_profile_words_def mapErr_eq_Inr Let_def elim!: bindE_InrE split: if_splits)
    with git_profile_subcommand_found [of "tl words" subcommand args] none GitFs show ?thesis
      by (cases words; cases "sq_network request") auto
  qed
qed

definition demo_sandbox_request :: sandbox_run_request where
  "demo_sandbox_request =
     \<lparr>sq_fs = GitFs, sq_network = NetworkDisabled, sq_purpose = None, sq_task_id = None, sq_agent_id = None,
      sq_workspace_id = None, sq_operations = [], sq_command = ''git --no-pager log -1'', sq_timeout_seconds = None,
      sq_stream_events = False\<rparr>"

theorem sandbox_request_confined_witness:
  "\<exists>shape. validate_sandbox_run_request_shape (\<lambda>t. Inl []) demo_sandbox_request = Inr shape \<and> vs_operations shape = []
     \<and> (\<exists>subcommand. subcommand \<in> set GIT_PROFILE_ALLOWED_SUBCOMMANDS)"
proof -
  have "is_ok (validate_sandbox_run_request_shape (\<lambda>t. Inl []) demo_sandbox_request)" by code_simp
  then obtain shape where ok: "validate_sandbox_run_request_shape (\<lambda>t. Inl []) demo_sandbox_request = Inr shape"
    by (auto simp: is_ok_iff)
  from sandbox_request_confined [OF this] ok show ?thesis by (auto simp: demo_sandbox_request_def)
qed

text \<open>
  The check for process inspection has a hole: it splits the command at operators without knowing
  that a backslash makes an apostrophe an ordinary character, so what follows an escaped apostrophe
  is taken for quoted text.
\<close>

lemma escaped_apostrophe_hides_ps:
  "validate_sandbox_run_process_inspection (''echo '' @ [backslash, apostrophe] @ ''; ps'') = Inr ()"
  "validate_sandbox_run_process_inspection ''echo ; ps'' \<noteq> Inr ()"
  by code_simp+

end
