(* ===== verification/Client.thy ===== *)
theory Client
  imports Server Resolver Push Sandbox_Shape
begin

section \<open>The client of the server\<close>

text \<open>
  \<^verbatim>\<open>src/crates/stateful-cli/src/runtime.rs\<close>: how a command line process finds the server, checks
  that it talks to a loopback address and to the process that was registered, and runs one
  command.

  A client runs in a \<open>host\<close>: the file system, the clock, \<^verbatim>\<open>ps\<close>, the network and fresh UUIDs, each as
  the \<open>n\<close>-th external call sees it, and the other clients of the server, who may change its
  state before each request of this client. The state is the number of calls made so far, the
  server, and a trace of what the client has done to files and which processes it has run. A run returns an error or a value, with the state; \<open>None\<close> is a run that panics or does
  not return. A request can be lost, and an answer can be lost after the server has done the
  work. \<open>serde\<close> on the client's side is part of the host.
\<close>

subsection \<open>Runs\<close>

record server_runtime =
  sv_base_url :: string
  sv_token :: string
  sv_workspace_id :: string
  sv_pid :: nat
  sv_process_start_identity :: string

datatype decision_kind = DecisionAllow | DecisionWarn | DecisionDeny | DecisionError

record command_response_body =
  cb_protocol_version :: protocol_version
  cb_contract_revision :: contract_revision
  cb_request_id :: "string option"
  cb_payload :: json

record error_response_body =
  eb_protocol_version :: protocol_version
  eb_contract_revision :: contract_revision
  eb_decision :: decision_kind
  eb_reason_code :: string
  eb_message :: string
  eb_request_id :: "string option"

datatype delivery = Delivered | RequestLost string | ResponseLost string

text \<open>
  What a client does to the outside: changes of files, and processes it runs. A process has a
  program, arguments, a working directory and changes to the environment it inherits, in order:
  \<open>ClearEnv\<close>, \<open>SetEnv\<close>, \<open>RemoveEnv\<close>.
\<close>

datatype file_action =
    CreateDir "string list"
  | CreateDirAll "string list"
  | CopyFile "string list" "string list"
  | RenamePath "string list" "string list"
  | HardLink "string list" "string list"
  | RemoveFile "string list"
  | RemoveDir "string list"
  | RemoveDirAll "string list"
  | CreateNew "string list" nat
  | WriteFile "string list" string
  | SetPermissions "string list" nat
  | SyncDir "string list"

datatype env_change = ClearEnv | SetEnv string string | RemoveEnv string

record process =
  pr_program :: string
  pr_args :: "string list"
  pr_cwd :: "string list option"
  pr_env :: "env_change list"
  pr_stdin :: "string option"

record process_output =
  po_success :: bool
  po_stdout :: string
  po_stderr :: string

datatype action = Changed file_action | Ran process | Spawned process

record host =
  ho_env :: env
  ho_codec :: codec
  ho_files :: "nat \<Rightarrow> fs"
  ho_clock :: "nat \<Rightarrow> int"
  ho_ps :: "nat \<Rightarrow> string list \<Rightarrow> string + (bool \<times> (string + string))"
  ho_pid :: nat
  ho_cwd :: "string list"
  ho_exe :: "string list"
  ho_uuid :: "nat \<Rightarrow> string"
  ho_network :: "nat \<Rightarrow> delivery"
  ho_others :: "nat \<Rightarrow> server \<Rightarrow> server"
  ho_task_result :: "json \<Rightarrow> string + task_command_result"
  ho_read_result :: "json \<Rightarrow> string + read_command_result"
  ho_prepare_result :: "json \<Rightarrow> string + write_prepare_result"
  ho_complete_result :: "json \<Rightarrow> string + write_complete_result"
  ho_activate_result :: "json \<Rightarrow> string + lease_activate_result"
  ho_lease_status :: "json \<Rightarrow> string + lease_request_status"
  ho_response_body :: "json \<Rightarrow> string + command_response_body"
  ho_error_body :: "json \<Rightarrow> string + error_response_body"
  ho_runtime_file :: "string \<Rightarrow> string + server_runtime"
  ho_environ :: "(string \<times> string) list"
  ho_temp_dir :: "string list"
  ho_change :: "nat \<Rightarrow> file_action \<Rightarrow> io_error + unit"
  ho_output :: "nat \<Rightarrow> process \<Rightarrow> io_error + process_output"
  ho_spawn :: "nat \<Rightarrow> process \<Rightarrow> io_error + nat"
  ho_try_wait :: "nat \<Rightarrow> nat \<Rightarrow> io_error + int option option"
  ho_kill :: "nat \<Rightarrow> nat \<Rightarrow> io_error + unit"
  ho_pipe :: "nat \<Rightarrow> nat \<Rightarrow> bool \<Rightarrow> (io_error + string) list"
  ho_signals :: "nat \<Rightarrow> io_error + unit"
  ho_cancelled :: "nat \<Rightarrow> bool"
  ho_instant :: "nat \<Rightarrow> nat"

record client_state =
  cl_step :: nat
  cl_server :: server
  cl_trace :: "action list"

type_synonym ('e, 'a) run = "client_state \<Rightarrow> (('e + 'a) \<times> client_state) option"

definition retR :: "'a \<Rightarrow> ('e, 'a) run" where
  "retR x s = Some (Inr x, s)"

definition failR :: "'e \<Rightarrow> ('e, 'a) run" where
  "failR e s = Some (Inl e, s)"

definition panicR :: "('e, 'a) run" where
  "panicR s = None"

definition liftR :: "'e + 'a \<Rightarrow> ('e, 'a) run" where
  "liftR m s = Some (m, s)"

definition tryR :: "('e, 'a) run \<Rightarrow> ('f, 'e + 'a) run" where
  "tryR m s = map_option (\<lambda>(r, s'). (Inr r, s')) (m s)"

definition bindR :: "('e, 'a) run \<Rightarrow> ('a \<Rightarrow> ('e, 'b) run) \<Rightarrow> ('e, 'b) run" where
  "bindR m f s =
     (case m s of
        None \<Rightarrow> None
      | Some (Inl e, s') \<Rightarrow> Some (Inl e, s')
      | Some (Inr x, s') \<Rightarrow> f x s')"

definition mapErrR :: "('e \<Rightarrow> 'f) \<Rightarrow> ('e, 'a) run \<Rightarrow> ('f, 'a) run" where
  "mapErrR g m s = map_option (\<lambda>(r, s'). (mapErr g r, s')) (m s)"

text \<open>One external call, numbered.\<close>

definition externR :: "(nat \<Rightarrow> 'a) \<Rightarrow> ('e, 'a) run" where
  "externR f s = Some (Inr (f (cl_step s)), s\<lparr>cl_step := Suc (cl_step s)\<rparr>)"

text \<open>An external call that does something.\<close>

definition actR :: "action \<Rightarrow> (nat \<Rightarrow> 'a) \<Rightarrow> ('e, 'a) run" where
  "actR a f s =
     Some (Inr (f (cl_step s)), s\<lparr>cl_step := Suc (cl_step s), cl_trace := cl_trace s @ [a]\<rparr>)"

definition changeR :: "host \<Rightarrow> file_action \<Rightarrow> (io_error, unit) run" where
  "changeR H a = bindR (actR (Changed a) (\<lambda>n. ho_change H n a)) liftR"

definition outputR :: "host \<Rightarrow> process \<Rightarrow> (io_error, process_output) run" where
  "outputR H p = bindR (actR (Ran p) (\<lambda>n. ho_output H n p)) liftR"

definition spawnR :: "host \<Rightarrow> process \<Rightarrow> (io_error, nat) run" where
  "spawnR H p = bindR (actR (Spawned p) (\<lambda>n. ho_spawn H n p)) liftR"

text \<open>A resolver call, and a single file system call.\<close>

definition observeR :: "host \<Rightarrow> (world \<Rightarrow> 'a observer) \<Rightarrow> (resource_error, 'a) run" where
  "observeR H m s =
     map_option (\<lambda>(r, n). (r, s\<lparr>cl_step := n\<rparr>)) (m (ho_files H) (cl_step s))"

definition fileR :: "host \<Rightarrow> (fs \<Rightarrow> 'a) \<Rightarrow> ('e, 'a) run" where
  "fileR H f = externR (\<lambda>n. f (ho_files H n))"

definition now_utc :: "host \<Rightarrow> ('e, int) run" where
  "now_utc H = externR (ho_clock H)"

definition now_rfc3339 :: "host \<Rightarrow> ('e, string) run" where
  "now_rfc3339 H =
     bindR (now_utc H) (\<lambda>v.
     case format_rfc3339 (ho_env H) v of None \<Rightarrow> panicR | Some text \<Rightarrow> retR text)"

subsection \<open>Processes\<close>

text \<open>\<open>Display\<close> of the errors of \<open>str::parse\<close> for unsigned integers.\<close>

definition parse_int_error :: "string \<Rightarrow> string" where
  "parse_int_error s =
     (if s = [] then ''cannot parse integer from empty string''
      else if digits_value (if hd s = CHR ''+'' then tl s else s) = None
      then ''invalid digit found in string''
      else ''number too large to fit in target type'')"

definition process_missing :: "nat \<Rightarrow> string" where
  "process_missing pid = ''process '' @ nat_digits pid @ '' does not exist''"

definition process_ps_output :: "host \<Rightarrow> nat \<Rightarrow> string list \<Rightarrow> (string, string) run" where
  "process_ps_output H pid columns =
     (if pid = 0 then failR ''process id must be nonzero''
      else
        bindR (externR (\<lambda>n. ho_ps H n ([''-p'', nat_digits pid]
                 @ concat (map (\<lambda>column. [''-o'', column]) columns)))) (\<lambda>r.
        bindR (liftR r) (\<lambda>(success, stdout).
        if \<not> success then failR (process_missing pid)
        else bindR (liftR stdout) (\<lambda>output.
          if blank output then failR (process_missing pid) else retR output))))"

definition process_start_identity_for_pid :: "host \<Rightarrow> nat \<Rightarrow> (string, string) run" where
  "process_start_identity_for_pid H pid =
     bindR (process_ps_output H pid [''lstart='', ''uid='', ''comm='']) (\<lambda>output.
     let canonical = join_spaces (split_whitespace output) in
     if canonical = []
     then failR (''process '' @ nat_digits pid @ '' does not have a start identity'')
     else retR (cd_value (digest_bytes (blake3_hex (ho_env H)) canonical)))"

definition process_parent_pid :: "host \<Rightarrow> nat \<Rightarrow> (string, nat option) run" where
  "process_parent_pid H pid =
     bindR (process_ps_output H pid [''ppid='']) (\<lambda>output.
     case parse_unsigned 32 (trim output) of
       None \<Rightarrow> failR (parse_int_error (trim output))
     | Some parent \<Rightarrow> retR (if parent > 1 then Some parent else None))"

subsection \<open>Loopback URLs\<close>

text \<open>\<open>str::split_once\<close> and \<open>str::rsplit_once\<close>.\<close>

fun split_once :: "string \<Rightarrow> string \<Rightarrow> (string \<times> string) option" where
  "split_once sep [] = (if sep = [] then Some ([], []) else None)"
| "split_once sep (c # cs) =
     (if take (length sep) (c # cs) = sep then Some ([], drop (length sep) (c # cs))
      else map_option (\<lambda>(a, b). (c # a, b)) (split_once sep cs))"

definition rsplit_once :: "string \<Rightarrow> string \<Rightarrow> (string \<times> string) option" where
  "rsplit_once sep s = map_option (\<lambda>(a, b). (rev b, rev a)) (split_once (rev sep) (rev s))"

text \<open>The address parser of \<^verbatim>\<open>std::net\<close>: numbers, IPv4 addresses, the groups of an IPv6 address.\<close>

definition digit_in :: "nat \<Rightarrow> char \<Rightarrow> nat option" where
  "digit_in radix c =
     (let v = (if CHR ''0'' \<le> c \<and> c \<le> CHR ''9'' then of_char c - 48
               else if CHR ''a'' \<le> c \<and> c \<le> CHR ''f'' then of_char c - 87
               else if CHR ''A'' \<le> c \<and> c \<le> CHR ''F'' then of_char c - 55
               else 16)
      in if v < radix then Some v else None)"

definition read_number :: "nat \<Rightarrow> nat \<Rightarrow> bool \<Rightarrow> nat \<Rightarrow> string \<Rightarrow> (nat \<times> string) option" where
  "read_number radix max_digits allow_zero_prefix limit s =
     (let ds = takeWhile (\<lambda>c. digit_in radix c \<noteq> None) s;
          v = foldl (\<lambda>n c. radix * n + the (digit_in radix c)) 0 ds
      in if ds = [] \<or> length ds > max_digits
            \<or> (\<not> allow_zero_prefix \<and> hd ds = CHR ''0'' \<and> length ds > 1) \<or> v > limit
         then None else Some (v, drop (length ds) s))"

definition read_separator ::
  "char \<Rightarrow> nat \<Rightarrow> (string \<Rightarrow> ('a \<times> string) option) \<Rightarrow> string \<Rightarrow> ('a \<times> string) option" where
  "read_separator sep index inner s =
     (if index = 0 then inner s
      else case s of [] \<Rightarrow> None | c # cs \<Rightarrow> if c = sep then inner cs else None)"

fun read_octets :: "nat \<Rightarrow> nat \<Rightarrow> string \<Rightarrow> (nat list \<times> string) option" where
  "read_octets 0 index s = Some ([], s)"
| "read_octets (Suc k) index s =
     (case read_separator (CHR ''.'') index (read_number 10 3 False 255) s of
        None \<Rightarrow> None
      | Some (v, rest) \<Rightarrow> map_option (\<lambda>(vs, r). (v # vs, r)) (read_octets k (Suc index) rest))"

definition read_ipv4_addr :: "string \<Rightarrow> (nat list \<times> string) option" where
  "read_ipv4_addr s = read_octets 4 0 s"

fun read_groups :: "nat \<Rightarrow> nat \<Rightarrow> string \<Rightarrow> nat list \<times> bool \<times> string" where
  "read_groups 0 index s = ([], False, s)"
| "read_groups (Suc k) index s =
     (case (if k > 0 then read_separator (CHR '':'') index read_ipv4_addr s else None) of
        Some (v, rest) \<Rightarrow> ([256 * v ! 0 + v ! 1, 256 * v ! 2 + v ! 3], True, rest)
      | None \<Rightarrow>
          (case read_separator (CHR '':'') index (read_number 16 4 True 65535) s of
             None \<Rightarrow> ([], False, s)
           | Some (g, rest) \<Rightarrow>
               let (gs, v4, r) = read_groups k (Suc index) rest in (g # gs, v4, r)))"

definition read_ipv6_addr :: "string \<Rightarrow> (nat list \<times> string) option" where
  "read_ipv6_addr s =
     (let (head, head_ipv4, rest) = read_groups 8 0 s in
      if length head = 8 then Some (head, rest)
      else if head_ipv4 \<or> take 2 rest \<noteq> ''::'' then None
      else
        let (tail, _, rest') = read_groups (8 - (length head + 1)) 0 (drop 2 rest) in
        Some (head @ replicate (8 - length head - length tail) 0 @ tail, rest'))"

definition ip_is_loopback :: "string \<Rightarrow> bool" where
  "ip_is_loopback host =
     (case read_ipv4_addr host of
        Some (octets, rest) \<Rightarrow> rest = [] \<and> hd octets = 127
      | None \<Rightarrow>
          (case read_ipv6_addr host of
             Some (groups, rest) \<Rightarrow> rest = [] \<and> groups = [0, 0, 0, 0, 0, 0, 0, 1]
           | None \<Rightarrow> False))"

definition host_is_loopback :: "string \<Rightarrow> bool" where
  "host_is_loopback host = (eq_ignore_ascii_case host ''localhost'' \<or> ip_is_loopback host)"

definition split_authority :: "string \<Rightarrow> string + (string \<times> string)" where
  "split_authority authority =
     (case strip_prefix ''['' authority of
        Some rest \<Rightarrow>
          bindE (ok_or ''invalid bracketed stateful server authority'' (split_once '']:'' rest)) (\<lambda>(host, port).
          if host = [] \<or> port = [] \<or> CHR '']'' \<in> set port
          then Inl ''invalid bracketed stateful server authority''
          else Inr (host, port))
      | None \<Rightarrow>
          bindE (ok_or ''missing stateful server port'' (rsplit_once '':'' authority)) (\<lambda>(host, port).
          if host = [] \<or> port = [] \<or> CHR '':'' \<in> set host
          then Inl ''invalid stateful server authority''
          else Inr (host, port)))"

record parsed_base_url =
  pu_socket_addr :: string
  pu_host_header :: string

definition parse_http_base_url :: "string \<Rightarrow> string + parsed_base_url" where
  "parse_http_base_url base_url =
     bindE (ok_or ''only http:// loopback state server URLs are supported''
              (strip_prefix ''http://'' base_url)) (\<lambda>without_scheme.
     let (authority, rest) =
       (case split_once ''/'' without_scheme of None \<Rightarrow> (without_scheme, []) | Some p \<Rightarrow> p) in
     if rest \<noteq> [] then Inl ''stateful runtime base URL must not contain a path''
     else if authority = [] then Inl ''missing stateful server authority''
     else
       bindE (split_authority authority) (\<lambda>(host, port).
       if \<not> host_is_loopback host then Inl ''stateful runtime must use a loopback HTTP base URL''
       else
         bindE (ok_or (parse_int_error port) (parse_unsigned 16 port)) (\<lambda>_.
         Inr \<lparr>pu_socket_addr = authority, pu_host_header = authority\<rparr>)))"

definition runtime_base_url_is_loopback :: "string \<Rightarrow> bool" where
  "runtime_base_url_is_loopback base_url = is_ok (parse_http_base_url base_url)"

subsection \<open>Finding the server\<close>

definition validate_runtime_file :: "server_runtime \<Rightarrow> string + unit" where
  "validate_runtime_file runtime =
     bindE (parse_http_base_url (sv_base_url runtime)) (\<lambda>_.
     if sv_token runtime = [] then Inl ''stateful runtime token must not be empty''
     else if sv_workspace_id runtime = [] then Inl ''stateful runtime workspace id must not be empty''
     else if sv_pid runtime = 0 then Inl ''stateful runtime process id must be nonzero''
     else if blank (sv_process_start_identity runtime)
     then Inl ''stateful runtime process start identity must not be empty''
     else Inr ())"

definition parse_runtime_file :: "host \<Rightarrow> string \<Rightarrow> string + server_runtime" where
  "parse_runtime_file H contents =
     bindE (ho_runtime_file H contents) (\<lambda>runtime.
     bindE (validate_runtime_file runtime) (\<lambda>_. Inr runtime))"

text \<open>\<open>fs::read_to_string\<close>: open the file, read it to its end, check that it is UTF-8.\<close>

definition read_to_string :: "string list \<Rightarrow> fs \<Rightarrow> io_error + string" where
  "read_to_string path F =
     bindE (file_open path F) (\<lambda>i.
     bindE (node_at F i) (\<lambda>n.
     case nd_body n of
       FileNode bytes \<Rightarrow> if utf8_valid bytes then Inr bytes else Inl InvalidDataIo
     | DirNode _ _ \<Rightarrow> Inl IsADirectoryIo
     | _ \<Rightarrow> Inl InvalidInputIo))"

definition runtime_file_path :: "string list \<Rightarrow> string list" where
  "runtime_file_path repo_root = repo_root @ [''.stateful_core'', ''runtime'', ''server.json'']"

definition discover_runtime :: "host \<Rightarrow> string list \<Rightarrow> (string, server_runtime) run" where
  "discover_runtime H repo_root =
     bindR (fileR H (read_to_string (runtime_file_path repo_root))) (\<lambda>r.
     bindR (liftR (mapErr io_error_text r)) (\<lambda>contents. liftR (parse_runtime_file H contents)))"

definition discover_runtime_with_global ::
  "host \<Rightarrow> string list \<Rightarrow> string list \<Rightarrow> (string, server_runtime) run" where
  "discover_runtime_with_global H repo_root server_json =
     bindR (fileR H (read_to_string server_json)) (\<lambda>r.
     case r of
       Inr contents \<Rightarrow> liftR (parse_runtime_file H contents)
     | Inl e \<Rightarrow> if e = NotFoundIo then discover_runtime H repo_root else failR (io_error_text e))"

definition validate_runtime_process_identity :: "host \<Rightarrow> server_runtime \<Rightarrow> (string, unit) run" where
  "validate_runtime_process_identity H runtime =
     (if sv_pid runtime = 0 \<or> blank (sv_process_start_identity runtime)
      then failR ''stateful runtime process identity is incomplete''
      else
        bindR (mapErrR (\<lambda>_. ''stateful runtime process '' @ nat_digits (sv_pid runtime) @ '' is unavailable'')
                 (process_start_identity_for_pid H (sv_pid runtime))) (\<lambda>observed.
        if observed \<noteq> sv_process_start_identity runtime
        then failR (''stateful runtime process identity does not match pid '' @ nat_digits (sv_pid runtime))
        else retR ()))"

subsection \<open>Commands\<close>

record command_identity =
  ci_task_id :: string
  ci_request_id :: string
  ci_observed_at :: string
  ci_agent :: agent_identity
  ci_workspace :: workspace_identity
  ci_source :: source_ref

definition envelope :: "command_identity \<Rightarrow> request_envelope" where
  "envelope identity =
     \<lparr>re_protocol_version = V2, re_contract_revision = Lease1, re_task_id = ci_task_id identity,
      re_request_id = ci_request_id identity, re_observed_at = ci_observed_at identity,
      re_agent = ci_agent identity, re_workspace = ci_workspace identity, re_source = ci_source identity\<rparr>"

fun actor_type_name :: "actor_type \<Rightarrow> string" where
  "actor_type_name ActorAgent = ''agent''"
| "actor_type_name ActorSubagent = ''subagent''"
| "actor_type_name ActorHuman = ''human''"
| "actor_type_name ActorSystem = ''system''"

fun source_ref_kind_name :: "source_ref_kind \<Rightarrow> string" where
  "source_ref_kind_name Hook = ''hook''"
| "source_ref_kind_name Cli = ''cli''"

definition agent_json :: "agent_identity \<Rightarrow> json" where
  "agent_json a = JObject
     ([(''agent_id'', JString (ai_agent_id a))]
      @ skip_none ''turn_id'' JString (ai_turn_id a)
      @ [(''actor_id'', JString (ai_actor_id a)),
         (''actor_type'', JString (actor_type_name (ai_actor_type a)))]
      @ skip_none ''owner_id'' JString (ai_owner_id a)
      @ skip_none ''parent_agent_id'' JString (ai_parent_agent_id a)
      @ skip_none ''parent_actor_id'' JString (ai_parent_actor_id a))"

definition workspace_json :: "workspace_identity \<Rightarrow> json" where
  "workspace_json w = JObject
     [(''root'', JString (wi_root w)), (''workspace_id'', JString (wi_workspace_id w)),
      (''repo_id'', JString (wi_repo_id w)), (''worktree_id'', JString (wi_worktree_id w)),
      (''branch'', JString (wi_branch w))]"

definition source_json :: "source_ref \<Rightarrow> json" where
  "source_json r = JObject
     ([(''kind'', JString (source_ref_kind_name (sr_kind r))), (''event'', JString (sr_event r))]
      @ skip_none ''tool_name'' JString (sr_tool_name r)
      @ [(''source_ref'', JString (sr_source_ref r))])"

definition command_request_json :: "request_envelope \<Rightarrow> json \<Rightarrow> json" where
  "command_request_json e payload = JObject
     [(''protocol_version'', JString ''stateful.v2''), (''contract_revision'', JString ''lease-1''),
      (''task_id'', JString (re_task_id e)), (''request_id'', JString (re_request_id e)),
      (''observed_at'', JString (re_observed_at e)), (''agent'', agent_json (re_agent e)),
      (''workspace'', workspace_json (re_workspace e)), (''source'', source_json (re_source e)),
      (''payload'', payload)]"

record command_error =
  er_status_code :: "nat option"
  er_reason_code :: string
  er_message :: string
  er_request_id :: "string option"

definition transport_error :: "string \<Rightarrow> command_error" where
  "transport_error e =
     \<lparr>er_status_code = None, er_reason_code = ''transport_error'', er_message = e, er_request_id = None\<rparr>"

definition protocol_mismatch :: "nat option \<Rightarrow> string \<Rightarrow> command_error" where
  "protocol_mismatch status message =
     \<lparr>er_status_code = status, er_reason_code = ''protocol_mismatch'', er_message = message,
      er_request_id = None\<rparr>"

definition command_error_text :: "command_error \<Rightarrow> string" where
  "command_error_text e =
     ''stateful command failed ''
     @ (case er_status_code e of None \<Rightarrow> [] | Some status \<Rightarrow> ''with HTTP '' @ nat_digits status @ '' '')
     @ er_reason_code e @ '': '' @ er_message e"

definition validate_http_path :: "string \<Rightarrow> string + unit" where
  "validate_http_path path =
     (if path = [] \<or> CHR 0x0D \<in> set path \<or> CHR 0x0A \<in> set path
      then Inl ''invalid stateful server request path'' else Inr ())"

definition validate_v2_path :: "string \<Rightarrow> command_error + unit" where
  "validate_v2_path path =
     (if strip_prefix ''/v2/'' path = None
      then Inl (protocol_mismatch None ''stateful commands must use a /v2/ route'')
      else mapErr transport_error (validate_http_path path))"

text \<open>The request on its way to the server and back. A handler that panics closes the connection.\<close>

definition send_request :: "host \<Rightarrow> http_request \<Rightarrow> (string, http_response) run" where
  "send_request H req s =
     (let n = cl_step s; sv = ho_others H n (cl_server s); s1 = s\<lparr>cl_step := Suc n, cl_server := sv\<rparr> in
      case ho_network H n of
        RequestLost e \<Rightarrow> Some (Inl e, s1)
      | Delivered \<Rightarrow>
          (case handle_request (ho_env H) (ho_codec H) req sv of
             (Some response, sv') \<Rightarrow> Some (Inr response, s1\<lparr>cl_server := sv'\<rparr>)
           | (None, sv') \<Rightarrow> Some (Inl ''missing HTTP status line'', s1\<lparr>cl_server := sv'\<rparr>))
      | ResponseLost e \<Rightarrow>
          Some (Inl e, s1\<lparr>cl_server := snd (handle_request (ho_env H) (ho_codec H) req sv)\<rparr>))"

definition checked_send ::
  "host \<Rightarrow> server_runtime \<Rightarrow> http_method \<Rightarrow> string \<Rightarrow> json \<Rightarrow> (string, http_response) run" where
  "checked_send H runtime verb path body =
     bindR (validate_runtime_process_identity H runtime) (\<lambda>_.
     bindR (liftR (validate_http_path path)) (\<lambda>_.
     bindR (liftR (parse_http_base_url (sv_base_url runtime))) (\<lambda>_.
     if sv_token runtime = [] then failR ''stateful runtime token must not be empty''
     else
       let (target, query) = (case split_once ''?'' path of None \<Rightarrow> (path, []) | Some p \<Rightarrow> p) in
       send_request H \<lparr>hr_method = verb, hr_path = target,
         hr_authorization = Some (''Bearer '' @ sv_token runtime), hr_query = query, hr_body = body\<rparr>)))"

definition get_response :: "host \<Rightarrow> server_runtime \<Rightarrow> string \<Rightarrow> (string, http_response) run" where
  "get_response H runtime path = checked_send H runtime GET path JNull"

definition post_json_value ::
  "host \<Rightarrow> server_runtime \<Rightarrow> string \<Rightarrow> json \<Rightarrow> (string, http_response) run" where
  "post_json_value H runtime path body = checked_send H runtime POST path body"

definition decode_payload ::
  "host \<Rightarrow> (json \<Rightarrow> string + 'r) \<Rightarrow> http_response \<Rightarrow> command_error + (string option \<times> 'r)" where
  "decode_payload H decode response =
     (let status = rs_status response in
      if 200 \<le> status \<and> status < 300
      then
        bindE (mapErr (\<lambda>e. protocol_mismatch (Some status) (''invalid stateful.v2 lease-1 response: '' @ e))
                 (bindE (ho_response_body H (rs_body response)) (\<lambda>b.
                  bindE (decode (cb_payload b)) (\<lambda>payload. Inr (b, payload))))) (\<lambda>(b, payload).
        if cb_protocol_version b \<noteq> V2 \<or> cb_contract_revision b \<noteq> Lease1
        then Inl (protocol_mismatch (Some 200) ''response does not use the stateful.v2 lease-1 contract'')
        else Inr (cb_request_id b, payload))
      else
        bindE (mapErr (\<lambda>e. protocol_mismatch (Some status) (''invalid stateful.v2 lease-1 error response: '' @ e))
                 (ho_error_body H (rs_body response))) (\<lambda>b.
        if eb_protocol_version b \<noteq> V2 \<or> eb_contract_revision b \<noteq> Lease1 \<or> eb_decision b \<noteq> DecisionError
        then Inl (protocol_mismatch (Some status)
          ''non-success response does not use the stateful.v2 lease-1 error contract'')
        else Inl \<lparr>er_status_code = Some status, er_reason_code = eb_reason_code b,
                  er_message = eb_message b, er_request_id = eb_request_id b\<rparr>))"

definition post_command ::
  "host \<Rightarrow> (json \<Rightarrow> string + 'r) \<Rightarrow> server_runtime \<Rightarrow> string \<Rightarrow> command_identity \<Rightarrow> json
     \<Rightarrow> (command_error, 'r) run" where
  "post_command H decode runtime path identity payload =
     bindR (liftR (validate_v2_path path)) (\<lambda>_.
     bindR (mapErrR transport_error
              (post_json_value H runtime path (command_request_json (envelope identity) payload))) (\<lambda>response.
     bindR (liftR (decode_payload H decode response)) (\<lambda>(rid, r).
     if rid \<noteq> Some (ci_request_id identity)
     then failR (protocol_mismatch (Some 200) ''command response request_id does not match the request'')
     else retR r)))"

definition get_payload ::
  "host \<Rightarrow> (json \<Rightarrow> string + 'r) \<Rightarrow> server_runtime \<Rightarrow> string \<Rightarrow> (command_error, 'r) run" where
  "get_payload H decode runtime path =
     bindR (liftR (validate_v2_path path)) (\<lambda>_.
     bindR (mapErrR transport_error (get_response H runtime path)) (\<lambda>response.
     bindR (liftR (decode_payload H decode response)) (\<lambda>(_, r). retR r)))"

definition validate_agent_id :: "string \<Rightarrow> string \<Rightarrow> string + unit" where
  "validate_agent_id agent_id label =
     (if agent_id = [] then Inl (label @ '' is set but empty'')
      else if \<not> list_all (\<lambda>c. ascii_alphanumeric c \<or> c = CHR ''-'' \<or> c = CHR ''_'') agent_id
      then Inl (label @ '' contains unsupported characters'')
      else Inr ())"

end
