(* ===== verification/Hooks.thy ===== *)
theory Hooks
  imports Client
begin

section \<open>Agent hooks\<close>

text \<open>
  \<^verbatim>\<open>src/crates/stateful-cli/src/hook.rs\<close>: what runs before and after the tools of an agent. For an
  OMP agent a native read or write is turned into commands of the server: a write is allowed only
  with the attempt and the permit of a prepared write, a read is reported as exact only when the
  text the agent saw is the file. For a Codex agent every native tool is refused, and a shell
  command is allowed only when it is one of the wrapper commands of the installed binary.

  The Codex task owner files and the heartbeat helper process are not part of this theory.
  \<open>serde\<close>, \<open>serde_yaml\<close> and \<open>clap\<close> are the record \<open>hook_codec\<close>. The error texts of \<open>time\<close> are
  replaced by fixed texts.
\<close>

subsection \<open>Inputs\<close>

datatype hook_outcome = HookAllow | AllowWithContext string | HookDeny string

datatype omp_hook_outcome = OmpAllow | AllowWithWriteAttempt string string | OmpBlock string

definition hook_output :: "(string \<times> json) list \<Rightarrow> json" where
  "hook_output members =
     JObject [(''hookSpecificOutput'', JObject ((''hookEventName'', JString ''PreToolUse'') # members))]"

fun to_stdout_json :: "hook_outcome \<Rightarrow> json" where
  "to_stdout_json HookAllow = JObject []"
| "to_stdout_json (AllowWithContext message) = hook_output [(''additionalContext'', JString message)]"
| "to_stdout_json (HookDeny reason) =
     hook_output [(''permissionDecision'', JString ''deny''), (''permissionDecisionReason'', JString reason)]"

fun omp_outcome_json :: "omp_hook_outcome \<Rightarrow> json" where
  "omp_outcome_json OmpAllow = JObject [(''decision'', JString ''allow'')]"
| "omp_outcome_json (AllowWithWriteAttempt attempt_id permit_id) =
     JObject [(''decision'', JString ''allow''), (''stateful'', JObject [(''write_attempt'', JObject
       [(''attempt_id'', JString attempt_id), (''permit_id'', JString permit_id)])])]"
| "omp_outcome_json (OmpBlock reason) =
     JObject [(''decision'', JString ''block''), (''reason'', JString reason)]"

record omp_session_start_output =
  so_decision :: string
  so_task_id :: string
  so_agent_id :: string
  so_workspace_id :: string

record task_context =
  tc_task_id :: string
  tc_agent_id :: string
  tc_turn_id :: "string option"
  tc_actor_id :: string
  tc_owner_id :: string
  tc_workspace :: workspace_identity

record codex_input =
  cx_session_id :: string
  cx_turn_id :: string
  cx_tool_name :: "string option"
  cx_tool_input :: json

record omp_input =
  om_event_type :: string
  om_runtime :: string
  om_version :: string
  om_cwd :: "string option"
  om_session_id :: string
  om_leaf_agent_id :: string
  om_task_id :: "string option"
  om_tool_name :: "string option"
  om_tool_call_id :: "string option"
  om_input :: json
  om_is_error :: bool
  om_content :: json
  om_details :: json
  om_attempt_id :: "string option"
  om_permit_id :: "string option"
  om_will_continue :: "bool option"

record settings_file =
  sf_heartbeat_interval_seconds :: "nat option"
  sf_inactivity_timeout_seconds :: "nat option"
  sf_lease_expiry_seconds :: "nat option"
  sf_offer_ttl_seconds :: "nat option"

record sandbox_run_args =
  sa_fs :: fs_profile
  sa_network :: network_policy
  sa_purpose :: "string option"
  sa_task_id :: "string option"
  sa_agent_id :: "string option"
  sa_workspace_id :: "string option"
  sa_operations :: "string list"
  sa_json :: bool
  sa_command :: "string option"
  sa_sequences :: "string list"
  sa_sequence_shell :: "string option"
  sa_timeout_seconds :: "nat option"
  sa_stream_events :: bool

datatype install_agent = CodexAgent | OmpAgent

datatype server_command =
    ServerStart bool string nat bool string
  | ServerRestart
  | ServerStop
  | ServerStatus

datatype hook_event =
  SessionStart | UserPromptSubmit | PreToolUse | PostToolUse | StopEvent | HeartbeatEvent

datatype hook_runtime = CodexHook hook_event | OmpHook hook_event

datatype cli_command =
    InstallCommand bool "install_agent list" "string option" "string option" bool
  | ServerCommand "server_command option" string nat string
  | StatusCommand
  | CommitCommand string string string "string list"
  | LeaseRelease string string string
  | DoctorCommand
  | CodexCommand string "string list"
  | SandboxRun sandbox_run_args
  | SandboxProcess process_find_request bool
  | EnableCommand "string option"
  | DisableCommand "string option"
  | ReposList
  | HookCommand hook_runtime

record hook_codec =
  parse_omp_input :: "string \<Rightarrow> string + omp_input"
  parse_codex_input :: "string \<Rightarrow> string + codex_input"
  parse_settings_file :: "string \<Rightarrow> string + settings_file"
  try_parse_from :: "string list \<Rightarrow> string + cli_command"

subsection \<open>Helpers\<close>

fun json_get :: "string \<Rightarrow> json \<Rightarrow> json option" where
  "json_get key (JObject members) = map_of members key"
| "json_get key _ = None"

fun as_str :: "json \<Rightarrow> string option" where
  "as_str (JString s) = Some s"
| "as_str _ = None"

fun as_u64 :: "json \<Rightarrow> nat option" where
  "as_u64 (JNumber s) = (case digits_value s of None \<Rightarrow> None | Some n \<Rightarrow> if n < 2 ^ 64 then Some n else None)"
| "as_u64 _ = None"

definition json_pointer :: "string list \<Rightarrow> json \<Rightarrow> json option" where
  "json_pointer keys j = foldl (\<lambda>v key. Option.bind v (json_get key)) (Some j) keys"

definition json_text :: "json option \<Rightarrow> string option" where
  "json_text v = Option.bind v as_str"

definition non_null :: "json option \<Rightarrow> bool" where
  "non_null v = (case v of None \<Rightarrow> False | Some j \<Rightarrow> j \<noteq> JNull)"

definition nonempty :: "string \<Rightarrow> string \<Rightarrow> string + unit" where
  "nonempty label v = guardE (\<not> blank v) label"

definition required :: "string option \<Rightarrow> string \<Rightarrow> string + string" where
  "required v message =
     bindE (ok_or message v) (\<lambda>v. bindE (nonempty message v) (\<lambda>_. Inr v))"

definition relative_path :: "string \<Rightarrow> string + string" where
  "relative_path path =
     bindE (guardE (path \<noteq> [] \<and> \<not> is_absolute path) ''target path must be nonempty and relative'') (\<lambda>_.
     bindE (guardE (CHR 0x5C \<notin> set path
              \<and> list_all (\<lambda>segment. segment \<noteq> [] \<and> segment \<noteq> ''.'' \<and> segment \<noteq> ''..'')
                  (split_on (CHR ''/'') path))
              ''target path must be a normalized relative path'') (\<lambda>_. Inr path))"

definition strip_suffix :: "string \<Rightarrow> string \<Rightarrow> string option" where
  "strip_suffix suf s = (if ends_with s suf then Some (take (length s - length suf) s) else None)"

definition raw_path :: "json \<Rightarrow> string + string" where
  "raw_path input =
     bindE (guardE (json_get ''offset'' input = None \<and> json_get ''limit'' input = None)
              ''OMP read evidence requires no selector'') (\<lambda>_.
     bindE (required (json_text (json_get ''path'' input)) ''OMP read lacks typed path'') (\<lambda>path.
     bindE (ok_or ''OMP read evidence requires unrestricted :raw'' (strip_suffix '':raw'' path)) relative_path))"

definition invocation_of :: "omp_input \<Rightarrow> string + string" where
  "invocation_of i = required (om_tool_call_id i) ''OMP tool payload lacks toolCallId''"

definition hook_id :: "env \<Rightarrow> string \<Rightarrow> string list \<Rightarrow> string" where
  "hook_id E namespace fs =
     namespace @ ''-''
     @ cd_value (digest_bytes (blake3_hex E) (namespace @ concat (map (\<lambda>field. CHR 0x00 # field) fs)))"

definition url_encode :: "string \<Rightarrow> string" where
  "url_encode s = concat (map (\<lambda>c.
     if ascii_alphanumeric c \<or> c \<in> {CHR ''-'', CHR ''_'', CHR ''.'', CHR ''~''} then [c]
     else let n = of_char c; hex = (\<lambda>k. if k < 10 then char_of (48 + k) else char_of (55 + k :: nat))
          in [CHR ''%'', hex (n div 16), hex (n mod 16)]) s)"

definition after_seconds :: "host \<Rightarrow> string \<Rightarrow> nat \<Rightarrow> (string, string) run" where
  "after_seconds H observed_at secs =
     (case parse_rfc3339 (ho_env H) observed_at of
        None \<Rightarrow> failR ''timestamp cannot be parsed''
      | Some at \<Rightarrow>
          if secs \<ge> 2 ^ 63 then failR ''coordination duration is too large''
          else if \<not> representable (ho_env H) (at + seconds (int secs)) then panicR
          else (case format_rfc3339 (ho_env H) (at + seconds (int secs)) of
                  None \<Rightarrow> failR ''timestamp cannot be formatted''
                | Some text \<Rightarrow> retR text))"

text \<open>A path given as text, relative to the working directory unless it is absolute.\<close>

definition path_of_text :: "host \<Rightarrow> string \<Rightarrow> string list" where
  "path_of_text H text =
     (if is_absolute text then split_on (CHR ''/'') (tl text) else ho_cwd H @ split_on (CHR ''/'') text)"

definition canonicalize_text :: "host \<Rightarrow> string \<Rightarrow> fs \<Rightarrow> io_error + string list" where
  "canonicalize_text H text F =
     (if text = [] then Inl NotFoundIo else canonicalize (path_of_text H text) F)"

definition join_relative :: "string list \<Rightarrow> string \<Rightarrow> string list" where
  "join_relative repo path = repo @ split_on (CHR ''/'') path"

definition resolverR :: "host \<Rightarrow> (world \<Rightarrow> 'a observer) \<Rightarrow> (string, 'a) run" where
  "resolverR H m = mapErrR resource_error_text (observeR H m)"

definition command_error_message :: "command_error \<Rightarrow> string" where
  "command_error_message e = er_reason_code e @ '': '' @ er_message e"

definition hash_of :: "host \<Rightarrow> string \<Rightarrow> string" where
  "hash_of H = blake3_hex (ho_env H)"

definition workspace_of ::
  "host \<Rightarrow> server_runtime \<Rightarrow> string list \<Rightarrow> (string, workspace_identity) run" where
  "workspace_of H runtime repo =
     bindR (fileR H (canonicalize repo)) (\<lambda>r.
     bindR (liftR (mapErr io_error_text r)) (\<lambda>canonical.
     let root = utf8_lossy (path_text canonical); repo_id = hook_id (ho_env H) ''repo'' [root] in
     retR \<lparr>wi_root = root, wi_workspace_id = sv_workspace_id runtime, wi_repo_id = repo_id,
           wi_worktree_id = repo_id, wi_branch = ''canonical''\<rparr>))"

definition omp_task :: "host \<Rightarrow> omp_input \<Rightarrow> server_runtime \<Rightarrow> string list \<Rightarrow> (string, task_context) run" where
  "omp_task H i runtime repo =
     bindR (liftR (guardE (om_runtime i = ''omp'' \<and> om_version i = ''17.2.3'')
                     ''unsupported OMP runtime contract; requires 17.2.3'')) (\<lambda>_.
     bindR (liftR (nonempty ''OMP sessionId'' (om_session_id i))) (\<lambda>_.
     bindR (liftR (nonempty ''OMP leafAgentId'' (om_leaf_agent_id i))) (\<lambda>_.
     let task_id = hook_id (ho_env H) ''omp-task'' [om_session_id i, om_leaf_agent_id i];
         agent_id = ''omp:'' @ om_session_id i @ '':'' @ om_leaf_agent_id i in
     bindR (liftR (guardE (case om_task_id i of None \<Rightarrow> True | Some task \<Rightarrow> task = task_id)
                     ''OMP task_id does not match its session and leaf owner'')) (\<lambda>_.
     bindR (workspace_of H runtime repo) (\<lambda>workspace.
     retR \<lparr>tc_task_id = task_id, tc_agent_id = agent_id, tc_turn_id = None, tc_actor_id = agent_id,
           tc_owner_id = om_leaf_agent_id i, tc_workspace = workspace\<rparr>)))))"

definition identity_at ::
  "host \<Rightarrow> task_context \<Rightarrow> string \<Rightarrow> string \<Rightarrow> string option \<Rightarrow> string \<Rightarrow> command_identity" where
  "identity_at H task event discriminator tool observed_at =
     \<lparr>ci_task_id = tc_task_id task,
      ci_request_id = hook_id (ho_env H) ''request'' [tc_task_id task, event, discriminator],
      ci_observed_at = observed_at,
      ci_agent = \<lparr>ai_agent_id = tc_agent_id task, ai_turn_id = tc_turn_id task,
                  ai_actor_id = tc_actor_id task, ai_actor_type = ActorAgent,
                  ai_owner_id = Some (tc_owner_id task), ai_parent_agent_id = None,
                  ai_parent_actor_id = None\<rparr>,
      ci_workspace = tc_workspace task,
      ci_source = \<lparr>sr_kind = Hook, sr_event = event, sr_tool_name = tool,
                   sr_source_ref = tc_agent_id task @ '':'' @ discriminator\<rparr>\<rparr>"

definition identity_now ::
  "host \<Rightarrow> task_context \<Rightarrow> string \<Rightarrow> string \<Rightarrow> string option \<Rightarrow> (string, command_identity) run" where
  "identity_now H task event discriminator tool =
     bindR (now_rfc3339 H) (\<lambda>now. retR (identity_at H task event discriminator tool now))"

definition settings_of :: "host \<Rightarrow> hook_codec \<Rightarrow> string list \<Rightarrow> (string, coordination_settings) run" where
  "settings_of H K repo =
     bindR (fileR H (read_to_string (repo @ [''.stateful'', ''config.yml'']))) (\<lambda>r.
     bindR (case r of
         Inr contents \<Rightarrow> liftR (parse_settings_file K contents)
       | Inl e \<Rightarrow>
           if e = NotFoundIo
           then retR \<lparr>sf_heartbeat_interval_seconds = None, sf_inactivity_timeout_seconds = None,
                      sf_lease_expiry_seconds = None, sf_offer_ttl_seconds = None\<rparr>
           else failR (io_error_text e)) (\<lambda>configured.
     let pick = (\<lambda>c d. case c of None \<Rightarrow> d | Some v \<Rightarrow> v);
         settings =
           \<lparr>heartbeat_interval_seconds =
              pick (sf_heartbeat_interval_seconds configured) (heartbeat_interval_seconds default_settings),
            inactivity_timeout_seconds =
              pick (sf_inactivity_timeout_seconds configured) (inactivity_timeout_seconds default_settings),
            lease_expiry_seconds =
              pick (sf_lease_expiry_seconds configured) (lease_expiry_seconds default_settings),
            offer_ttl_seconds =
              pick (sf_offer_ttl_seconds configured) (offer_ttl_seconds default_settings)\<rparr>
     in bindR (liftR (validate_settings settings)) (\<lambda>_. retR settings)))"

definition runtime_process :: "host \<Rightarrow> (string, runtime_process_input) run" where
  "runtime_process H =
     bindR (process_parent_pid H (ho_pid H)) (\<lambda>parent.
     bindR (liftR (ok_or ''hook has no live adapter parent process'' parent)) (\<lambda>pid.
     bindR (process_start_identity_for_pid H pid) (\<lambda>identity.
     retR \<lparr>rp_pid = pid, rp_process_start_identity = identity\<rparr>)))"

subsection \<open>Reads\<close>

definition read_observation ::
  "host \<Rightarrow> nat \<Rightarrow> resolver \<Rightarrow> string \<Rightarrow> (string, resource_observation list) run" where
  "read_observation H fuel R path =
     bindR (tryR (observeR H (\<lambda>W. observe_existing_file W (hash_of H) fuel R path))) (\<lambda>r.
     case r of
       Inr obs \<Rightarrow> retR obs
     | Inl e \<Rightarrow>
         (case e of
            IoError _ NotFoundIo \<Rightarrow>
              bindR (resolverR H (\<lambda>W. absent_entry W R path)) (\<lambda>keys.
              retR (map (\<lambda>resource. EntryObs resource EntryAbsent 0) keys))
          | _ \<Rightarrow> failR (resource_error_text e)))"

definition post ::
  "host \<Rightarrow> (json \<Rightarrow> string + 'r) \<Rightarrow> server_runtime \<Rightarrow> string \<Rightarrow> command_identity \<Rightarrow> json
     \<Rightarrow> (string, 'r) run" where
  "post H decode runtime path identity payload =
     mapErrR command_error_message (post_command H decode runtime path identity payload)"

definition start_read ::
  "host \<Rightarrow> nat \<Rightarrow> omp_input \<Rightarrow> server_runtime \<Rightarrow> string list \<Rightarrow> task_context
     \<Rightarrow> (string, omp_hook_outcome) run" where
  "start_read H fuel i runtime repo task =
     bindR (liftR (invocation_of i)) (\<lambda>invocation.
     bindR (resolverR H (\<lambda>W. resolver_new W (wi_workspace_id (tc_workspace task)) repo)) (\<lambda>R.
     bindR (identity_now H task ''read.start'' invocation (Some ''read'')) (\<lambda>identity.
     bindR (liftR (raw_path (om_input i))) (\<lambda>path.
     bindR (read_observation H fuel R path) (\<lambda>obs.
     bindR (post H (ho_read_result H) runtime ''/v2/reads/start'' identity (read_start_json
              \<lparr>rs_read_id = hook_id (ho_env H) ''read'' [tc_task_id task, invocation],
               rs_invocation_id = invocation, rs_resources = obs\<rparr>)) (\<lambda>_.
     retR OmpAllow))))))"

text \<open>The parts of \<open>exact_read\<close> that look at the payload: the text and the path it was read from.\<close>

definition exact_payload :: "omp_input \<Rightarrow> (string \<times> string) option" where
  "exact_payload i =
     (if om_is_error i \<or> non_null (json_get ''truncation'' (om_details i))
         \<or> non_null (json_pointer [''meta'', ''truncation''] (om_details i))
         \<or> non_null (json_pointer [''meta'', ''limits''] (om_details i))
      then None
      else
        Option.bind (json_pointer [''meta'', ''source''] (om_details i)) (\<lambda>src.
        if json_text (json_get ''type'' src) \<noteq> Some ''path'' then None
        else Option.bind (json_text (json_get ''value'' src)) (\<lambda>source.
        case om_content i of
          JArray [content] \<Rightarrow>
            if json_text (json_get ''type'' content) \<noteq> Some ''text'' then None
            else Option.bind (json_text (json_get ''text'' content)) (\<lambda>text.
              if Option.bind (json_get ''fileSize'' (om_details i)) as_u64 \<noteq> Some (length text)
                 \<or> json_text (json_pointer [''displayContent'', ''text''] (om_details i)) \<noteq> Some text
              then None else Some (source, text))
        | _ \<Rightarrow> None)))"

definition exact_read :: "host \<Rightarrow> omp_input \<Rightarrow> string list \<Rightarrow> string \<Rightarrow> (string, bool) run" where
  "exact_read H i repo path =
     (case exact_payload i of
        None \<Rightarrow> retR False
      | Some (source, text) \<Rightarrow>
          bindR (fileR H (canonicalize (join_relative repo path))) (\<lambda>r.
          case r of
            Inl _ \<Rightarrow> retR False
          | Inr expected \<Rightarrow>
              bindR (fileR H (canonicalize_text H source)) (\<lambda>reported.
              if reported \<noteq> Inr expected then retR False
              else bindR (fileR H (read_to_string expected)) (\<lambda>bytes. retR (bytes = Inr text)))))"

definition complete_read ::
  "host \<Rightarrow> nat \<Rightarrow> omp_input \<Rightarrow> server_runtime \<Rightarrow> string list \<Rightarrow> task_context \<Rightarrow> (string, unit) run" where
  "complete_read H fuel i runtime repo task =
     bindR (liftR (invocation_of i)) (\<lambda>invocation.
     bindR (liftR (raw_path (om_input i))) (\<lambda>path.
     bindR (resolverR H (\<lambda>W. resolver_new W (wi_workspace_id (tc_workspace task)) repo)) (\<lambda>R.
     bindR (exact_read H i repo path) (\<lambda>exact.
     bindR (identity_now H task ''read.complete'' invocation (Some ''read'')) (\<lambda>identity.
     bindR (tryR (read_observation H fuel R path)) (\<lambda>r.
     bindR (post H (ho_read_result H) runtime ''/v2/reads/complete'' identity (read_complete_json
              \<lparr>rc_read_id = hook_id (ho_env H) ''read'' [tc_task_id task, invocation],
               rc_invocation_id = invocation,
               rc_resources = (case r of Inl _ \<Rightarrow> [] | Inr obs \<Rightarrow> obs),
               rc_terminal_success = exact, rc_complete = exact, rc_stable = exact, rc_exact = exact\<rparr>)) (\<lambda>_.
     retR ())))))))"

subsection \<open>Writes\<close>

definition write_operation ::
  "host \<Rightarrow> json \<Rightarrow> string list \<Rightarrow> (string, mutation_operation) run" where
  "write_operation H input repo =
     bindR (liftR (bindE (required (json_text (json_get ''path'' input)) ''OMP write lacks typed path'')
                     relative_path)) (\<lambda>path.
     bindR (fileR H (symlink_metadata (join_relative repo path))) (\<lambda>r.
     case r of
       Inr _ \<Rightarrow> retR (Update path)
     | Inl e \<Rightarrow> if e = NotFoundIo then retR (Create path) else failR (io_error_text e)))"

definition as_i64 :: "nat \<Rightarrow> int" where
  "as_i64 n = (if n < 2 ^ 63 then int n else int n - 2 ^ 64)"

definition lease_request_path :: "string \<Rightarrow> task_context \<Rightarrow> string \<Rightarrow> string" where
  "lease_request_path batch task now =
     ''/v2/lease-requests/'' @ batch @ ''?workspace_id='' @ url_encode (wi_workspace_id (tc_workspace task))
     @ ''&task_id='' @ url_encode (tc_task_id task) @ ''&now='' @ url_encode now"

definition activate_offer ::
  "host \<Rightarrow> server_runtime \<Rightarrow> task_context \<Rightarrow> coordination_settings \<Rightarrow> string \<Rightarrow> lease_request_status
     \<Rightarrow> (string, omp_hook_outcome) run" where
  "activate_offer H runtime task settings batch status =
     bindR (liftR (ok_or ''offered lease lacks offer_id'' (lrs_offer_id status))) (\<lambda>offer_id.
     bindR (externR (ho_uuid H)) (\<lambda>fresh.
     bindR (identity_now H task ''lease.activate''
              (batch @ '':'' @ nat_digits (lrs_version status) @ '':'' @ offer_id @ '':'' @ fresh)
              (Some ''write'')) (\<lambda>command.
     bindR (after_seconds H (ci_observed_at command) (lease_expiry_seconds settings)) (\<lambda>expires.
     bindR (post H (ho_activate_result H) runtime ''/v2/leases/activate'' command (lease_activate_json
              \<lparr>la_batch_id = batch, la_offer_id = offer_id, la_version = lrs_version status,
               la_lease_expires_at = expires\<rparr>)) (\<lambda>activated.
     retR (OmpBlock (if \<not> lar_active activated
       then ''reread_required: offered lease remains inactive; full native reread is required before a new prepare retries activation''
       else ''reread_required: lease activated; full native reread and a new prepare are required before mutation'')))))))"

fun poll_offer ::
  "host \<Rightarrow> server_runtime \<Rightarrow> task_context \<Rightarrow> coordination_settings \<Rightarrow> int \<Rightarrow> nat \<Rightarrow> string
     \<Rightarrow> (string, omp_hook_outcome) run" where
  "poll_offer H runtime task settings deadline 0 batch s = None"
| "poll_offer H runtime task settings deadline (Suc n) batch s =
     bindR (now_utc H) (\<lambda>now.
     if deadline \<le> now
     then retR (OmpBlock ''offer_timeout: queued write offer did not arrive in time'')
     else
     bindR (now_rfc3339 H) (\<lambda>now_text.
     bindR (mapErrR command_error_message (get_payload H (ho_lease_status H) runtime
              (lease_request_path batch task now_text))) (\<lambda>status.
     case lrs_state status of
       QQueued \<Rightarrow> poll_offer H runtime task settings deadline n batch
     | QOffered \<Rightarrow> activate_offer H runtime task settings batch status
     | QSuperseded \<Rightarrow>
         bindR (liftR (ok_or ''superseded request lacks replacement'' (lrs_superseded_by status)))
           (poll_offer H runtime task settings deadline n)
     | QActivated \<Rightarrow>
         retR (OmpBlock ''reread_required: activated leases cannot execute before a full reread'')
     | _ \<Rightarrow> retR (OmpBlock ''write queue request is no longer active'')))) s"

definition wait_offer ::
  "host \<Rightarrow> nat \<Rightarrow> server_runtime \<Rightarrow> task_context \<Rightarrow> coordination_settings \<Rightarrow> string
     \<Rightarrow> (string, omp_hook_outcome) run" where
  "wait_offer H fuel runtime task settings initial_batch =
     bindR (now_utc H) (\<lambda>now.
     let deadline = now + seconds (as_i64 (offer_ttl_seconds settings)) in
     if \<not> representable (ho_env H) deadline then panicR
     else poll_offer H runtime task settings deadline fuel initial_batch)"

definition prepare_write ::
  "host \<Rightarrow> hook_codec \<Rightarrow> nat \<Rightarrow> omp_input \<Rightarrow> server_runtime \<Rightarrow> string list \<Rightarrow> task_context
     \<Rightarrow> (string, omp_hook_outcome) run" where
  "prepare_write H K fuel i runtime repo task =
     bindR (liftR (invocation_of i)) (\<lambda>invocation.
     bindR (write_operation H (om_input i) repo) (\<lambda>operation.
     bindR (settings_of H K repo) (\<lambda>settings.
     bindR (resolverR H (\<lambda>W. resolver_new W (wi_workspace_id (tc_workspace task)) repo)) (\<lambda>R.
     bindR (identity_now H task ''write.prepare'' invocation (Some ''write'')) (\<lambda>command.
     bindR (resolverR H (\<lambda>W. observe_operation W (hash_of H) fuel R operation)) (\<lambda>current.
     bindR (after_seconds H (ci_observed_at command) (offer_ttl_seconds settings)) (\<lambda>request_expires_at.
     bindR (after_seconds H (ci_observed_at command) (lease_expiry_seconds settings)) (\<lambda>lease_expires_at.
     bindR (after_seconds H (ci_observed_at command) (lease_expiry_seconds settings)) (\<lambda>attempt_deadline.
     bindR (post H (ho_prepare_result H) runtime ''/v2/writes/prepare'' command (write_prepare_json
              \<lparr>wp_invocation_id = invocation, wp_operation = operation, wp_current = current,
               wp_request_expires_at = request_expires_at, wp_lease_expires_at = lease_expires_at,
               wp_attempt_deadline = attempt_deadline\<rparr>)) (\<lambda>result.
     case result of
       Ready attempt_id permit_id _ \<Rightarrow> retR (AllowWithWriteAttempt attempt_id permit_id)
     | Queued batch_id \<Rightarrow> wait_offer H fuel runtime task settings batch_id
     | RereadRequired _ \<Rightarrow>
         retR (OmpBlock ''reread_required: full native reread is required before mutation'')
     | Denied reason_code \<Rightarrow> retR (OmpBlock (''write denied: '' @ reason_code))))))))))))"

definition write_target_matches ::
  "host \<Rightarrow> omp_input \<Rightarrow> string list \<Rightarrow> mutation_operation \<Rightarrow> (string, bool) run" where
  "write_target_matches H i repo operation =
     (case (case operation of Create path \<Rightarrow> Some path | Update path \<Rightarrow> Some path | _ \<Rightarrow> None) of
        None \<Rightarrow> retR False
      | Some path \<Rightarrow>
          (case json_text (json_get ''resolvedPath'' (om_details i)) of
             None \<Rightarrow> retR False
           | Some reported \<Rightarrow>
               bindR (fileR H (canonicalize (join_relative repo path))) (\<lambda>expected.
               if \<not> is_ok expected then retR False
               else bindR (fileR H (canonicalize_text H reported)) (\<lambda>r. retR (r = expected)))))"

definition observe_written ::
  "host \<Rightarrow> nat \<Rightarrow> resolver \<Rightarrow> mutation_operation \<Rightarrow> (string, resource_observation list) run" where
  "observe_written H fuel R operation =
     (case operation of
        Create path \<Rightarrow> resolverR H (\<lambda>W. observe_existing_file W (hash_of H) fuel R path)
      | Update path \<Rightarrow> resolverR H (\<lambda>W. observe_existing_file W (hash_of H) fuel R path)
      | _ \<Rightarrow> failR ''OMP native write does not support this operation'')"

definition complete_write ::
  "host \<Rightarrow> nat \<Rightarrow> omp_input \<Rightarrow> server_runtime \<Rightarrow> string list \<Rightarrow> task_context \<Rightarrow> (string, unit) run" where
  "complete_write H fuel i runtime repo task =
     bindR (liftR (invocation_of i)) (\<lambda>invocation.
     bindR (write_operation H (om_input i) repo) (\<lambda>operation.
     bindR (resolverR H (\<lambda>W. resolver_new W (wi_workspace_id (tc_workspace task)) repo)) (\<lambda>R.
     bindR (if om_is_error i then retR False else write_target_matches H i repo operation) (\<lambda>success.
     bindR (tryR (if success then observe_written H fuel R operation
                  else resolverR H (\<lambda>W. observe_operation W (hash_of H) fuel R operation))) (\<lambda>r.
     let after_write = (case r of Inl _ \<Rightarrow> [] | Inr obs \<Rightarrow> obs);
         terminal = (if success \<and> after_write \<noteq> [] then TSuccess
                     else if om_is_error i then TFailedKnown else TUncertain) in
     bindR (identity_now H task ''write.complete'' invocation (Some ''write'')) (\<lambda>identity.
     bindR (liftR (required (om_attempt_id i) ''OMP write result lacks prepared attempt_id'')) (\<lambda>attempt_id.
     bindR (liftR (required (om_permit_id i) ''OMP write result lacks prepared permit_id'')) (\<lambda>permit_id.
     bindR (post H (ho_complete_result H) runtime ''/v2/writes/complete'' identity (write_complete_json
              \<lparr>wc_attempt_id = attempt_id, wc_permit_id = permit_id, wc_invocation_id = invocation,
               wc_terminal = terminal, wc_post_resources = after_write,
               wc_expected_post_resources = (if success then after_write else []),
               wc_error = (if om_is_error i then Some ''OMP reported tool failure'' else None)\<rparr>)) (\<lambda>_.
     retR ())))))))))"

subsection \<open>The OMP hooks\<close>

definition omp_pre ::
  "host \<Rightarrow> hook_codec \<Rightarrow> nat \<Rightarrow> string \<Rightarrow> server_runtime \<Rightarrow> string list \<Rightarrow> (string, omp_hook_outcome) run" where
  "omp_pre H K fuel input runtime repo =
     bindR (liftR (parse_omp_input K input)) (\<lambda>i.
     bindR (omp_task H i runtime repo) (\<lambda>task.
     if om_event_type i \<noteq> ''tool_call'' then retR (OmpBlock ''OMP pre-tool payload must be tool_call'')
     else
       let tool = (case om_tool_name i of None \<Rightarrow> [] | Some tool \<Rightarrow> tool) in
       if tool = ''read'' then start_read H fuel i runtime repo task
       else if tool = ''write'' then prepare_write H K fuel i runtime repo task
       else retR (OmpBlock (''unknown_writer: unsupported OMP tool `'' @ tool @ ''`''))))"

definition omp_start ::
  "host \<Rightarrow> hook_codec \<Rightarrow> string \<Rightarrow> server_runtime \<Rightarrow> string list \<Rightarrow> (string, omp_session_start_output) run" where
  "omp_start H K input runtime repo =
     bindR (liftR (parse_omp_input K input)) (\<lambda>i.
     bindR (liftR (guardE (om_event_type i = ''agent_start'') ''OMP task start requires agent_start'')) (\<lambda>_.
     bindR (omp_task H i runtime repo) (\<lambda>task.
     bindR (settings_of H K repo) (\<lambda>settings.
     bindR (identity_now H task ''task.start'' ''agent_start'' None) (\<lambda>command.
     bindR (after_seconds H (ci_observed_at command) (inactivity_timeout_seconds settings)) (\<lambda>expires_at.
     bindR (runtime_process H) (\<lambda>process.
     bindR (post H (ho_task_result H) runtime ''/v2/tasks/start'' command (task_start_json
              \<lparr>ts_next_action = ''OMP leaf task active'', ts_settings = settings,
               ts_expires_at = expires_at, ts_runtime_process = Some process\<rparr>)) (\<lambda>result.
     bindR (liftR (guardE (tr_task_id result = tc_task_id task)
                     ''task start returned a different task owner'')) (\<lambda>_.
     retR \<lparr>so_decision = ''allow'', so_task_id = tc_task_id task, so_agent_id = tc_agent_id task,
           so_workspace_id = wi_workspace_id (tc_workspace task)\<rparr>)))))))))"

definition heartbeat_task ::
  "host \<Rightarrow> task_context \<Rightarrow> server_runtime \<Rightarrow> coordination_settings \<Rightarrow> string \<Rightarrow> (string, unit) run" where
  "heartbeat_task H task runtime settings next_action =
     bindR (now_rfc3339 H) (\<lambda>discriminator.
     bindR (identity_now H task ''task.heartbeat'' discriminator None) (\<lambda>command.
     bindR (after_seconds H (ci_observed_at command) (inactivity_timeout_seconds settings)) (\<lambda>expires_at.
     bindR (post H (ho_task_result H) runtime ''/v2/tasks/heartbeat'' command (task_heartbeat_json
              \<lparr>th_next_action = next_action, th_expires_at = expires_at\<rparr>)) (\<lambda>_. retR ()))))"

definition end_hook_task ::
  "host \<Rightarrow> server_runtime \<Rightarrow> task_context \<Rightarrow> string \<Rightarrow> string \<Rightarrow> (string, unit) run" where
  "end_hook_task H runtime task path event =
     bindR (identity_now H task event event None) (\<lambda>command.
     bindR (post H (ho_task_result H) runtime path command (task_end_json \<lparr>te_handoff = None\<rparr>)) (\<lambda>_.
     retR ()))"

definition omp_post ::
  "host \<Rightarrow> hook_codec \<Rightarrow> nat \<Rightarrow> string \<Rightarrow> server_runtime \<Rightarrow> string list \<Rightarrow> (string, unit) run" where
  "omp_post H K fuel input runtime repo =
     bindR (liftR (parse_omp_input K input)) (\<lambda>i.
     bindR (omp_task H i runtime repo) (\<lambda>task.
     if om_event_type i = ''heartbeat''
     then bindR (settings_of H K repo) (\<lambda>settings.
          heartbeat_task H task runtime settings ''OMP leaf task active'')
     else if om_event_type i = ''tool_result''
     then
       let tool = (case om_tool_name i of None \<Rightarrow> [] | Some tool \<Rightarrow> tool) in
       if tool = ''read'' then complete_read H fuel i runtime repo task
       else if tool = ''write'' then complete_write H fuel i runtime repo task
       else retR ()
     else failR (''OMP post payload has unsupported type `'' @ om_event_type i @ ''`'')))"

definition omp_stop ::
  "host \<Rightarrow> hook_codec \<Rightarrow> string \<Rightarrow> server_runtime \<Rightarrow> string list \<Rightarrow> (string, unit) run" where
  "omp_stop H K input runtime repo =
     bindR (liftR (parse_omp_input K input)) (\<lambda>i.
     bindR (omp_task H i runtime repo) (\<lambda>task.
     if om_event_type i = ''agent_end'' \<and> om_will_continue i = Some True then retR ()
     else if om_event_type i = ''agent_end''
     then end_hook_task H runtime task ''/v2/tasks/finalize'' ''task.finalize''
     else if om_event_type i = ''session_shutdown''
     then end_hook_task H runtime task ''/v2/tasks/cancel'' ''task.cancel''
     else failR (''OMP stop payload has unsupported type `'' @ om_event_type i @ ''`'')))"

subsection \<open>The Codex gate\<close>

definition handle_pre_tool_use :: "string option \<Rightarrow> hook_outcome" where
  "handle_pre_tool_use tool_name =
     (let tool = (case tool_name of None \<Rightarrow> ''unknown'' | Some tool \<Rightarrow> tool) in
      HookDeny (
        if tool \<in> {''read'', ''Read''}
        then ''Codex native reads are wrapper_required: complete typed terminal payload is unavailable''
        else if tool \<in> {''apply_patch'', ''write'', ''edit'', ''Write'', ''Edit''}
        then ''Codex native writes are wrapper_required: use the owned Stateful wrapper''
        else ''unknown_writer: only owned Stateful wrappers may mutate an enabled workspace''))"

definition wrapper_allowed :: "string \<Rightarrow> string \<Rightarrow> cli_command \<Rightarrow> bool" where
  "wrapper_allowed task_id agent_id command =
     (case command of
        SandboxRun args \<Rightarrow>
          (case sa_fs args of
             MutationFs \<Rightarrow> sa_task_id args = Some task_id \<and> sa_agent_id args = Some agent_id
           | _ \<Rightarrow> True)
      | SandboxProcess _ _ \<Rightarrow> True
      | StatusCommand \<Rightarrow> True
      | DoctorCommand \<Rightarrow> True
      | ReposList \<Rightarrow> True
      | CommitCommand _ command_task command_agent _ \<Rightarrow> command_task = task_id \<and> command_agent = agent_id
      | LeaseRelease _ command_task command_agent \<Rightarrow> command_task = task_id \<and> command_agent = agent_id
      | _ \<Rightarrow> False)"

definition validate_codex_wrapper_command ::
  "host \<Rightarrow> hook_codec \<Rightarrow> codex_input \<Rightarrow> (string, unit) run" where
  "validate_codex_wrapper_command H K i =
     bindR (liftR (ok_or ''Bash payload lacks a command'' (json_text (json_get ''command'' (cx_tool_input i))))) (\<lambda>command.
     bindR (liftR (split_simple_command_words command)) (\<lambda>words.
     bindR (liftR (guardE (words \<noteq> []) ''Bash command is empty'')) (\<lambda>_.
     bindR (fileR H (canonicalize_text H (hd words))) (\<lambda>r.
     bindR (liftR (mapErr io_error_text r)) (\<lambda>requested.
     bindR (fileR H (canonicalize (ho_exe H))) (\<lambda>r.
     bindR (liftR (mapErr io_error_text r)) (\<lambda>installed.
     bindR (liftR (guardE (requested = installed)
              (''use the exact installed Stateful binary `'' @ utf8_lossy (path_text installed) @ ''`''))) (\<lambda>_.
     bindR (liftR (mapErr (\<lambda>e. ''invalid Stateful wrapper command: '' @ e) (try_parse_from K words))) (\<lambda>cli.
     let task_id = hook_id (ho_env H) ''codex-task'' [cx_session_id i, cx_turn_id i];
         agent_id = ''codex:'' @ cx_session_id i in
     liftR (guardE (wrapper_allowed task_id agent_id cli)
       ''only read-only sandbox commands and mutation, commit, or lease-release wrappers bound to this task are allowed''))))))))))"

definition handle_pre_tool_use_in_repo ::
  "host \<Rightarrow> hook_codec \<Rightarrow> string \<Rightarrow> (string, hook_outcome) run" where
  "handle_pre_tool_use_in_repo H K input =
     bindR (liftR (parse_codex_input K input)) (\<lambda>i.
     if (case cx_tool_name i of None \<Rightarrow> False | Some name \<Rightarrow> eq_ignore_ascii_case name ''bash'')
     then
       bindR (tryR (validate_codex_wrapper_command H K i)) (\<lambda>r.
       retR (case r of
           Inr _ \<Rightarrow> HookAllow
         | Inl e \<Rightarrow> HookDeny (''Codex Bash is wrapper_required: '' @ e)))
     else retR (handle_pre_tool_use (cx_tool_name i)))"

end
