(* ===== verification/Client_Runs.thy ===== *)
theory Client_Runs
  imports Hooks
begin

section \<open>Rules for runs of a client\<close>

text \<open>
  \<open>relates P m\<close>: wherever the run \<open>m\<close> starts, the state it ends in is related by \<open>P\<close>. The locale \<open>run_relation\<close> has the rules for the combinators of \<open>Client\<close>, the locale
  \<open>serving\<close> adds the request itself and has the rules for all hooks. It is interpreted for the histories of the server, and \<open>run_relation\<close> also for an unchanged server, which
  covers the parts of a hook that only look at files, clocks and processes.
\<close>

lemma bindR_InrE:
  assumes "bindR m f s = Some (Inr y, s')"
  obtains x s1 where "m s = Some (Inr x, s1)" "f x s1 = Some (Inr y, s')"
  using assms by (auto simp: bindR_def split: option.splits sum.splits)

lemma bindR_cases:
  assumes "bindR m f s = Some (r, s')"
  obtains e where "m s = Some (Inl e, s')" "r = Inl e"
  | x s1 where "m s = Some (Inr x, s1)" "f x s1 = Some (r, s')"
  using assms by (auto simp: bindR_def split: option.splits sum.splits)

lemma run_iff [simp]:
  "retR x s = Some (r, s') \<longleftrightarrow> r = Inr x \<and> s' = s"
  "failR e s = Some (r, s') \<longleftrightarrow> r = Inl e \<and> s' = s"
  "liftR m s = Some (r, s') \<longleftrightarrow> m = r \<and> s' = s"
  "panicR s = Some (r, s') \<longleftrightarrow> False"
  "externR f s = Some (r, s') \<longleftrightarrow> r = Inr (f (cl_step s)) \<and> s' = s\<lparr>cl_step := Suc (cl_step s)\<rparr>"
  "fileR H g s = Some (r, s') \<longleftrightarrow> r = Inr (g (ho_files H (cl_step s))) \<and> s' = s\<lparr>cl_step := Suc (cl_step s)\<rparr>"
  "actR a h s = Some (r, s') \<longleftrightarrow> r = Inr (h (cl_step s)) \<and> s' = s\<lparr>cl_step := Suc (cl_step s), cl_trace := cl_trace s @ [a]\<rparr>"
  by (auto simp: retR_def failR_def liftR_def panicR_def externR_def fileR_def actR_def)

lemma mapErrR_Inr [simp]: "mapErrR g m s = Some (Inr x, s') \<longleftrightarrow> m s = Some (Inr x, s')"
  by (auto simp: mapErrR_def mapErr_eq_Inr)

lemma tryR_iff [simp]: "tryR m s = Some (r, s') \<longleftrightarrow> (\<exists>v. r = Inr v \<and> m s = Some (v, s'))"
  by (auto simp: tryR_def)

definition relates :: "(client_state \<Rightarrow> client_state \<Rightarrow> bool) \<Rightarrow> ('e, 'a) run \<Rightarrow> bool" where
  "relates P m \<longleftrightarrow> (\<forall>s r s'. m s = Some (r, s') \<longrightarrow> P s s')"

lemma relatesI: "(\<And>s r s'. m s = Some (r, s') \<Longrightarrow> P s s') \<Longrightarrow> relates P m"
  by (simp add: relates_def)

lemma relatesD: "relates P m \<Longrightarrow> m s = Some (r, s') \<Longrightarrow> P s s'"
  by (simp add: relates_def)

lemma relates_mono: "relates P m \<Longrightarrow> (\<And>s s'. P s s' \<Longrightarrow> P' s s') \<Longrightarrow> relates P' m"
  by (auto simp: relates_def)

locale run_relation =
  fixes P :: "client_state \<Rightarrow> client_state \<Rightarrow> bool"
  assumes same_run: "cl_server s' = cl_server s \<Longrightarrow> cl_trace s' = cl_trace s \<Longrightarrow> P s s'"
    and follows: "P s t \<Longrightarrow> P t u \<Longrightarrow> P s u"
begin

lemma relates_basic:
  "relates P (retR x)" "relates P (failR e)" "relates P panicR" "relates P (liftR m)"
  "relates P (externR f)" "relates P (fileR H g)"
  by (auto simp: relates_def intro: same_run)

lemma relates_observe: "relates P (observeR H m)"
  by (auto simp: relates_def observeR_def intro: same_run)

lemma relates_bind: "relates P m \<Longrightarrow> (\<And>x. relates P (f x)) \<Longrightarrow> relates P (bindR m f)"
  unfolding relates_def by (blast elim: bindR_cases intro: follows)

lemma relates_map:
  "relates P m \<Longrightarrow> relates P (mapErrR g m)" "relates P m \<Longrightarrow> relates P (tryR m)"
  by (auto simp: relates_def mapErrR_def)

lemma relates_if: "(b \<Longrightarrow> relates P m) \<Longrightarrow> (\<not> b \<Longrightarrow> relates P n) \<Longrightarrow> relates P (if b then m else n)"
  by simp

lemma relates_let: "(\<And>x. relates P (f x)) \<Longrightarrow> relates P (Let v f)"
  by simp

lemma relates_option: "relates P m \<Longrightarrow> (\<And>x. relates P (f x)) \<Longrightarrow> relates P (case v of None \<Rightarrow> m | Some x \<Rightarrow> f x)"
  by (simp split: option.split)

lemma relates_sum: "(\<And>e. relates P (f e)) \<Longrightarrow> (\<And>x. relates P (g x)) \<Longrightarrow> relates P (case v of Inl e \<Rightarrow> f e | Inr x \<Rightarrow> g x)"
  by (simp split: sum.split)

lemma relates_pair: "(\<And>a b. relates P (f a b)) \<Longrightarrow> relates P (case v of (a, b) \<Rightarrow> f a b)"
  by (simp split: prod.split)

lemmas run_relation_rules = relates_bind relates_if relates_let relates_option relates_sum relates_pair
  relates_map relates_observe relates_basic

lemma relates_clock: "relates P (now_utc H)" "relates P (now_rfc3339 H)"
  by (auto simp: now_utc_def now_rfc3339_def intro!: run_relation_rules)

lemma relates_process:
  "relates P (process_ps_output H pid columns)" "relates P (process_start_identity_for_pid H pid)"
  "relates P (process_parent_pid H pid)" "relates P (runtime_process H)"
  "relates P (validate_runtime_process_identity H runtime)"
  unfolding runtime_process_def process_parent_pid_def process_start_identity_for_pid_def process_ps_output_def
    validate_runtime_process_identity_def
  by (intro run_relation_rules)+

lemma relates_lookups:
  "relates P (resolverR H m)" "relates P (after_seconds H at secs)" "relates P (workspace_of H runtime repo)"
  "relates P (omp_task H i runtime repo)" "relates P (identity_now H task event disc tool)"
  "relates P (settings_of H K repo)" "relates P (write_operation H input repo)"
  "relates P (write_target_matches H i repo operation)" "relates P (exact_read H i repo path)"
  unfolding resolverR_def after_seconds_def workspace_of_def omp_task_def identity_now_def settings_of_def write_operation_def
    write_target_matches_def exact_read_def
  by (intro run_relation_rules relates_clock)+

lemma relates_observations:
  "relates P (read_observation H fuel R path)" "relates P (observe_written H fuel R operation)"
  unfolding read_observation_def observe_written_def
  by (auto split: mutation_operation.split resource_error.split io_error.split sum.split
      intro!: run_relation_rules relates_lookups)

end

text \<open>A host whose other clients only use the server.\<close>

definition others_serve :: "host \<Rightarrow> bool" where
  "others_serve H \<longleftrightarrow> (\<forall>n sv. server_step\<^sup>*\<^sup>* sv (ho_others H n sv))"

locale serving = run_relation +
  fixes H :: host
  assumes relates_send: "relates P (send_request H req)"
begin

lemma relates_request:
  "relates P (checked_send H runtime verb path body)" "relates P (post_command H decode runtime path identity payload)"
  "relates P (get_payload H decode' runtime path)" "relates P (post H decode runtime path identity payload)"
proof -
  have send: "relates P (checked_send H runtime verb path body)" for runtime verb path body
    unfolding checked_send_def by (intro run_relation_rules relates_process relates_send)
  then show "relates P (checked_send H runtime verb path body)" .
  show post: "relates P (post_command H decode runtime path identity payload)"
    unfolding post_command_def post_json_value_def by (intro run_relation_rules send)
  then show "relates P (post H decode runtime path identity payload)"
    unfolding post_def by (rule run_relation_rules)
  show "relates P (get_payload H decode' runtime path)"
    unfolding get_payload_def get_response_def by (intro run_relation_rules send)
qed

lemmas serving_rules = run_relation_rules relates_request relates_lookups relates_observations relates_clock relates_process

lemma relates_activate: "relates P (activate_offer H runtime task settings batch status)"
  unfolding activate_offer_def by (intro serving_rules)

lemma relates_poll: "relates P (poll_offer H runtime task settings deadline fuel batch)"
proof (induction fuel arbitrary: batch)
  case 0
  then show ?case by (simp add: relates_def)
next
  case (Suc n)
  have step: "poll_offer H runtime task settings deadline (Suc n) batch = bindR (now_utc H) (\<lambda>now.
     if deadline \<le> now
     then retR (OmpBlock ''offer_timeout: queued write offer did not arrive in time'')
     else
     bindR (now_rfc3339 H) (\<lambda>now_text.
     bindR (mapErrR command_error_message (get_payload H (ho_lease_status H) runtime
              (lease_request_path batch task now_text))) (\<lambda>status.
     case lrs_state status of
       QQueued \<Rightarrow> poll_offer H runtime task settings deadline n batch
     | QOffered \<Rightarrow> activate_offer H runtime task settings batch status
     | QSuperseded \<Rightarrow>
         bindR (liftR (ok_or ''superseded request lacks replacement'' (lrs_superseded_by status)))
           (poll_offer H runtime task settings deadline n)
     | QActivated \<Rightarrow>
         retR (OmpBlock ''reread_required: activated leases cannot execute before a full reread'')
     | _ \<Rightarrow> retR (OmpBlock ''write queue request is no longer active''))))"
    by (rule ext, rule poll_offer.simps(2))
  show ?case
    unfolding step
    by (intro serving_rules) (simp split: lease_request_state.split, intro conjI impI serving_rules relates_activate Suc.IH)
qed

lemma relates_reads:
  "relates P (start_read H fuel i runtime repo task)" "relates P (complete_read H fuel i runtime repo task)"
  unfolding start_read_def complete_read_def by (intro serving_rules)+

lemma relates_prepare: "relates P (prepare_write H K fuel i runtime repo task)"
  unfolding prepare_write_def wait_offer_def
  by (intro serving_rules) (auto split: write_prepare_result.split intro!: serving_rules relates_poll)

lemma relates_complete: "relates P (complete_write H fuel i runtime repo task)"
  unfolding complete_write_def by (intro serving_rules)

lemma relates_hooks:
  "relates P (omp_pre H K fuel input runtime repo)" "relates P (omp_start H K input runtime repo)"
  "relates P (omp_post H K fuel input runtime repo)" "relates P (omp_stop H K input runtime repo)"
  unfolding omp_pre_def omp_start_def omp_post_def omp_stop_def heartbeat_task_def end_hook_task_def
  by (intro serving_rules relates_reads relates_prepare relates_complete)+

end

interpretation quiet: run_relation "\<lambda>s s'. cl_server s' = cl_server s"
  by unfold_locales simp_all

lemma send_request_steps:
  assumes "others_serve H"
  shows "relates (\<lambda>s s'. server_step\<^sup>*\<^sup>* (cl_server s) (cl_server s')) (send_request H req)"
proof -
  have "server_step\<^sup>*\<^sup>* sv (snd (handle_request E C req (ho_others H n sv)))" for E C n sv
    using assms unfolding others_serve_def
    by (metis rtranclp.rtrancl_into_rtrancl server_step.request surjective_pairing)
  moreover have "server_step\<^sup>*\<^sup>* sv (ho_others H n sv)" for n sv
    using assms by (simp add: others_serve_def)
  ultimately show ?thesis
    unfolding relates_def send_request_def Let_def
    by (auto split: delivery.splits prod.splits option.splits) (metis snd_conv)+
qed

interpretation serve: serving "\<lambda>s s'. others_serve H \<longrightarrow> server_step\<^sup>*\<^sup>* (cl_server s) (cl_server s')" H for H
proof unfold_locales
  show "relates (\<lambda>s s'. others_serve H \<longrightarrow> server_step\<^sup>*\<^sup>* (cl_server s) (cl_server s')) (send_request H req)" for req
    using send_request_steps [of H req] by (auto simp: relates_def)
qed auto

end
