(* ===== verification/Client_Commands.thy ===== *)
theory Client_Commands
  imports Client_Runs Store_Admission
begin

section \<open>Commands of a client are commands of the store\<close>

text \<open>
  From \<open>post_command\<close> of \<^verbatim>\<open>runtime.rs\<close> through the network and the server to the store: what an
  answer the client accepts says about the database, and what is known when the answer is lost.
\<close>

text \<open>
  \<^verbatim>\<open>serde\<close> on both sides: what one side writes the other side reads as the same value, or rejects.
\<close>

definition faithful_serde :: "host \<Rightarrow> bool" where
  "faithful_serde H \<longleftrightarrow>
     (\<forall>e p e' p'. decode_envelope (ho_codec H) (command_request_json e p) = Some (e', p') \<longrightarrow> e' = e \<and> p' = p)
     \<and> (\<forall>rid p b. ho_response_body H (rs_body (success_response rid p)) = Inr b \<longrightarrow> cb_payload b = p)"

definition faithful_prepare :: "host \<Rightarrow> bool" where
  "faithful_prepare H \<longleftrightarrow>
     (\<forall>i i'. decode_write_prepare (ho_codec H) (write_prepare_json i) = Some i' \<longrightarrow> i' = i)
     \<and> (\<forall>r x. ho_prepare_result H (encode_response (ho_codec H) r) = Inr x \<longrightarrow> r = RPrepare x)"

definition command_routed :: "string \<Rightarrow> endpoint \<Rightarrow> bool" where
  "command_routed path ep \<longleftrightarrow> map_of post_routes path = Some ep"

lemma routed_path:
  assumes "command_routed path ep"
  shows "split_once ''?'' path = None" "ep \<noteq> Health"
    "handle_endpoint E C ep req s = execute_command E C ep (hr_body req) s"
  using assms
  by (auto simp: command_routed_def post_routes_def handle_endpoint_def split: if_splits)

lemma checked_send_sent:
  assumes "checked_send H runtime verb path body s = Some (Inr response, s')" "split_once ''?'' path = None"
  obtains n where "ho_network H n = Delivered"
    "handle_request (ho_env H) (ho_codec H)
       \<lparr>hr_method = verb, hr_path = path, hr_authorization = Some (''Bearer '' @ sv_token runtime), hr_query = [],
        hr_body = body\<rparr> (ho_others H n (cl_server s)) = (Some response, cl_server s')"
proof -
  from assms obtain s1 where
    ident: "validate_runtime_process_identity H runtime s = Some (Inr (), s1)" and
    send: "send_request H \<lparr>hr_method = verb, hr_path = path, hr_authorization = Some (''Bearer '' @ sv_token runtime),
       hr_query = [], hr_body = body\<rparr> s1 = Some (Inr response, s')"
    unfolding checked_send_def by (auto elim!: bindR_InrE split: if_splits)
  have same: "cl_server s1 = cl_server s"
    using relatesD [OF quiet.relates_process(5) ident] .
  show thesis
    by (rule that [of "cl_step s1"]; use send in \<open>simp add: send_request_def Let_def split: delivery.splits prod.splits option.splits\<close>)
      (auto simp: same)
qed

lemma execute_command_success:
  assumes "execute_command E C ep body sv = (Some response, sv')" "200 \<le> rs_status response" "rs_status response < 300"
  obtains request c r where "parse_command C ep body = Inr (request, c)" "\<not> srv_poisoned sv"
    "run_command E c (srv_store sv) = Inr (r, srv_store sv')" "\<not> srv_poisoned sv'"
    "response = success_response (Some (re_request_id request)) (encode_response C r)"
proof -
  have status: "rs_status (store_error_response e rid) \<ge> 400" for e rid
    by (cases e) (auto simp: store_error_response_def error_response_def)
  show thesis
  proof (cases "parse_command C ep body")
    case (Inl e)
    with assms show thesis by (cases e) (auto simp: execute_command_def)
  next
    case (Inr p)
    obtain request c where p: "p = (request, c)" by (cases p)
    have "\<not> srv_poisoned sv"
      using assms Inr p by (auto simp: execute_command_def with_lock_def poisoned_response_def error_response_def)
    moreover have "\<exists>r d. run_command E c (srv_store sv) = Inr (r, d)"
    proof (cases "run_command E c (srv_store sv)")
      case (Inl e)
      with assms(1) Inr p calculation have "response = store_error_response e (Some (re_request_id request))"
        by (cases e) (auto simp: execute_command_def with_lock_def transact_def)
      with status [of e "Some (re_request_id request)"] assms(3) show ?thesis by simp
    qed auto
    ultimately show thesis
      using that [OF Inr [unfolded p]] assms Inr p
      by (auto simp: execute_command_def with_lock_def transact_def)
  qed
qed

lemma decode_payload_accepted:
  assumes "decode_payload H decode response = Inr (rid, x)"
  shows "200 \<le> rs_status response \<and> rs_status response < 300
    \<and> (\<exists>b. ho_response_body H (rs_body response) = Inr b \<and> decode (cb_payload b) = Inr x)"
proof -
  have "200 \<le> rs_status response \<and> rs_status response < 300"
    using assms by (auto simp: decode_payload_def Let_def bindE_eq_Inr split: if_splits)
  with assms show ?thesis
    by (auto simp: decode_payload_def Let_def bindE_eq_Inr mapErr_eq_Inr split: if_splits)
qed

lemma post_command_answered:
  assumes "post_command H decode runtime path identity payload s = Some (Inr x, s')"
  obtains response b where "checked_send H runtime POST path (command_request_json (envelope identity) payload) s
      = Some (Inr response, s')"
    "200 \<le> rs_status response" "rs_status response < 300" "ho_response_body H (rs_body response) = Inr b"
    "decode (cb_payload b) = Inr x"
  using assms
  by (auto simp: post_command_def post_json_value_def elim!: bindR_InrE split: if_splits dest!: decode_payload_accepted)

lemma post_command_runs:
  assumes "post_command H decode runtime path identity payload s = Some (Inr x, s')"
    and "command_routed path ep" "faithful_serde H"
  shows "\<exists>n c r. parse_payload (ho_codec H) ep (command_context_of (envelope identity)) payload = Some c
     \<and> run_command (ho_env H) c (srv_store (ho_others H n (cl_server s))) = Inr (r, srv_store (cl_server s'))
     \<and> srv_bearer_token (ho_others H n (cl_server s)) = sv_token runtime
     \<and> decode (encode_response (ho_codec H) r) = Inr x"
proof -
  let ?C = "ho_codec H" and ?body = "command_request_json (envelope identity) payload"
  obtain response b where sent: "checked_send H runtime POST path ?body s = Some (Inr response, s')"
    and status: "200 \<le> rs_status response" "rs_status response < 300"
    and body: "ho_response_body H (rs_body response) = Inr b" "decode (cb_payload b) = Inr x"
    by (rule post_command_answered [OF assms(1)])
  obtain n where answer: "handle_request (ho_env H) ?C
      \<lparr>hr_method = POST, hr_path = path, hr_authorization = Some (''Bearer '' @ sv_token runtime), hr_query = [],
       hr_body = ?body\<rparr> (ho_others H n (cl_server s)) = (Some response, cl_server s')"
    by (rule checked_send_sent [OF sent routed_path(1) [OF assms(2)]])
  have "build_router ?C \<lparr>hr_method = POST, hr_path = path, hr_authorization = Some (''Bearer '' @ sv_token runtime),
      hr_query = [], hr_body = ?body\<rparr> = Some ep"
    using assms(2) by (simp add: build_router_def command_routed_def)
  with answer status routed_path [OF assms(2)] have token: "srv_bearer_token (ho_others H n (cl_server s)) = sv_token runtime"
    and exec: "execute_command (ho_env H) ?C ep ?body (ho_others H n (cl_server s)) = (Some response, cl_server s')"
    by (auto simp: handle_request_def require_bearer_def has_valid_bearer_token_def strip_prefix_Some error_response_def
        split: endpoint.splits if_splits)
  from execute_command_success [OF exec status] obtain request c r where
    parsed: "parse_command ?C ep ?body = Inr (request, c)"
    and run: "run_command (ho_env H) c (srv_store (ho_others H n (cl_server s))) = Inr (r, srv_store (cl_server s'))"
    and response: "response = success_response (Some (re_request_id request)) (encode_response ?C r)" by metis
  from parsed assms(3) have "parse_payload ?C ep (command_context_of (envelope identity)) payload = Some c"
    by (fastforce simp: parse_command_def faithful_serde_def split: option.splits)
  moreover have "decode (encode_response ?C r) = Inr x"
    using body assms(3) response by (auto simp: faithful_serde_def)
  ultimately show ?thesis using run token by blast
qed

lemma write_prepare_answer:
  assumes "write_prepare E ctx i d = Inr (RPrepare (Ready a p bs), d')"
  shows "case sql_first (is_receipt ctx) (command_receipts d) of
      None \<Rightarrow> \<exists>w \<in> set (write_attempts d'). wa_attempt_id w = a \<and> wa_permit_id w = p \<and> wa_status w = Executing
        \<and> wa_workspace_id w = cc_workspace_id ctx \<and> wa_task_id w = cc_task_id ctx \<and> wa_operation w = wp_operation i
    | Some receipt \<Rightarrow> cr_response receipt = RPrepare (Ready a p bs) \<and> cr_command_kind receipt = ''write.prepare'' \<and> d' = d"
proof (cases "sql_first (is_receipt ctx) (command_receipts d)")
  case None
  with assms obtain d1 d2 where op: "write_prepare_op E ctx i d1 = Inr (RPrepare (Ready a p bs), d2)"
    and rec: "record_command E ctx ''write.prepare'' (write_prepare_json i) (RPrepare (Ready a p bs)) d2 = Inr d'"
    by (auto simp: write_prepare_def accepted_command_def)
  from ready_executing [OF op] obtain w where "w \<in> set (write_attempts d2)" "wa_attempt_id w = a" "wa_permit_id w = p"
      "wa_workspace_id w = cc_workspace_id ctx" "wa_task_id w = cc_task_id ctx" "wa_status w = Executing"
      "wa_operation w = wp_operation i" by metis
  with core_eqD(6) [OF record_command_core [OF rec]] show ?thesis unfolding None option.case by (intro bexI [of _ w]) simp_all
next
  case (Some receipt)
  with assms show ?thesis
    by (auto simp: write_prepare_def accepted_command_def receipt_matches_def split: if_splits)
qed

text \<open>
  A write is granted between two databases: the attempt with its permit is executing for the task
  and the operation, or the call is a repetition that is answered from the receipt of the first one.
\<close>

definition write_granted :: "command_context \<Rightarrow> mutation_operation \<Rightarrow> string \<Rightarrow> string \<Rightarrow> db \<Rightarrow> db \<Rightarrow> bool" where
  "write_granted ctx operation a p d d' \<longleftrightarrow>
     (case sql_first (is_receipt ctx) (command_receipts d) of
        None \<Rightarrow> \<exists>w \<in> set (write_attempts d'). wa_attempt_id w = a \<and> wa_permit_id w = p \<and> wa_status w = Executing
          \<and> wa_workspace_id w = cc_workspace_id ctx \<and> wa_task_id w = cc_task_id ctx \<and> wa_operation w = operation
      | Some receipt \<Rightarrow> (\<exists>bs. cr_response receipt = RPrepare (Ready a p bs)) \<and> cr_command_kind receipt = ''write.prepare''
          \<and> d' = d)"

lemma post_prepare_granted:
  assumes "post_command H (ho_prepare_result H) runtime path identity (write_prepare_json payload) s = Some (Inr (Ready a p bs), s')"
    and "command_routed path WritePrepareRoute" "faithful_serde H" "faithful_prepare H"
  shows "\<exists>n. write_granted (command_context_of (envelope identity)) (wp_operation payload) a p
     (srv_store (ho_others H n (cl_server s))) (srv_store (cl_server s'))"
proof -
  let ?ctx = "command_context_of (envelope identity)"
  from post_command_runs [OF assms(1,2,3)] obtain n c r where
    parsed: "parse_payload (ho_codec H) WritePrepareRoute ?ctx (write_prepare_json payload) = Some c"
    and run: "run_command (ho_env H) c (srv_store (ho_others H n (cl_server s))) = Inr (r, srv_store (cl_server s'))"
    and answer: "ho_prepare_result H (encode_response (ho_codec H) r) = Inr (Ready a p bs)" by blast
  from answer assms(4) have "r = RPrepare (Ready a p bs)" unfolding faithful_prepare_def by blast
  moreover from parsed assms(4) have "c = WritePrepare ?ctx payload" by (auto simp: faithful_prepare_def)
  ultimately have "write_prepare (ho_env H) ?ctx payload (srv_store (ho_others H n (cl_server s)))
      = Inr (RPrepare (Ready a p bs), srv_store (cl_server s'))" using run by simp
  from write_prepare_answer [OF this] show ?thesis
    unfolding write_granted_def by (intro exI [of _ n]) (auto simp del: sql_first_None split: option.splits)
qed

subsection \<open>Retries\<close>

text \<open>What is left behind by one exchange, whatever became of the answer.\<close>

lemma checked_send_effect:
  assumes "checked_send H runtime verb path body s = Some (res, s')" "split_once ''?'' path = None"
  obtains "cl_server s' = cl_server s" | n where "cl_server s' = ho_others H n (cl_server s)"
  | n where "cl_server s' = snd (handle_request (ho_env H) (ho_codec H)
      \<lparr>hr_method = verb, hr_path = path, hr_authorization = Some (''Bearer '' @ sv_token runtime), hr_query = [],
       hr_body = body\<rparr> (ho_others H n (cl_server s)))"
proof -
  let ?req = "\<lparr>hr_method = verb, hr_path = path, hr_authorization = Some (''Bearer '' @ sv_token runtime), hr_query = [],
       hr_body = body\<rparr>"
  obtain r s1 where ident: "validate_runtime_process_identity H runtime s = Some (r, s1)"
    using assms(1) by (auto simp: checked_send_def elim!: bindR_cases)
  have same: "cl_server s1 = cl_server s" using relatesD [OF quiet.relates_process(5) ident] .
  from assms ident consider "s' = s1" | "send_request H ?req s1 = Some (res, s')"
    unfolding checked_send_def by (auto elim!: bindR_cases split: if_splits)
  then show thesis
  proof cases
    case 1
    with same that(1) show thesis by simp
  next
    case 2
    with that(2,3) show thesis
      unfolding send_request_def same [symmetric]
      by (auto simp: Let_def split: delivery.splits prod.splits option.splits) (metis snd_conv)+
  qed
qed

lemma execute_command_effect:
  assumes "execute_command E C ep body sv = (resp, sv')" "srv_store sv' \<noteq> srv_store sv"
  obtains request c r where "parse_command C ep body = Inr (request, c)"
    "run_command E c (srv_store sv) = Inr (r, srv_store sv')"
proof -
  obtain request c where parsed: "parse_command C ep body = Inr (request, c)"
    using assms by (cases "parse_command C ep body") (auto simp: execute_command_def)
  with assms that [OF parsed] show thesis
    by (cases "run_command E c (srv_store sv)")
      (auto simp: execute_command_def with_lock_def transact_def split: if_splits store_error.splits)
qed

lemma post_command_effect:
  assumes "post_command H decode runtime path identity payload s = Some (res, s')"
    and "command_routed path ep" "faithful_serde H"
  obtains "srv_store (cl_server s') = srv_store (cl_server s)"
  | n where "srv_store (cl_server s') = srv_store (ho_others H n (cl_server s))"
  | n c r where "parse_payload (ho_codec H) ep (command_context_of (envelope identity)) payload = Some c"
      "run_command (ho_env H) c (srv_store (ho_others H n (cl_server s))) = Inr (r, srv_store (cl_server s'))"
proof -
  let ?body = "command_request_json (envelope identity) payload"
  from assms(1) consider "s' = s" | res' where "checked_send H runtime POST path ?body s = Some (res', s')"
    unfolding post_command_def post_json_value_def mapErrR_def
    by (auto elim!: bindR_cases split: if_splits)
  then show thesis
  proof cases
    case 1
    then show thesis using that(1) by simp
  next
    case sent: 2
    from checked_send_effect [OF sent routed_path(1) [OF assms(2)]] show thesis
    proof cases
      case 1 then show thesis using that(1) by simp
    next
      case (2 n) then show thesis using that(2) by simp
    next
      case (3 n)
      let ?sv = "ho_others H n (cl_server s)"
      let ?req = "\<lparr>hr_method = POST, hr_path = path, hr_authorization = Some (''Bearer '' @ sv_token runtime),
          hr_query = [], hr_body = ?body\<rparr>"
      show thesis
      proof (cases "srv_store (cl_server s') = srv_store ?sv")
        case True then show thesis by (rule that(2))
      next
        case False
        obtain resp where handled: "handle_request (ho_env H) (ho_codec H) ?req ?sv = (resp, cl_server s')"
          using 3 by (cases "handle_request (ho_env H) (ho_codec H) ?req ?sv") simp
        have "build_router (ho_codec H) ?req = Some ep"
          using assms(2) by (simp add: build_router_def command_routed_def)
        with handled False routed_path [OF assms(2)] have "execute_command (ho_env H) (ho_codec H) ep ?body ?sv = (resp, cl_server s')"
          by (auto simp: handle_request_def require_bearer_def split: endpoint.splits if_splits)
        from execute_command_effect [OF this False] obtain request c r where
          parsed: "parse_command (ho_codec H) ep ?body = Inr (request, c)"
          and run: "run_command (ho_env H) c (srv_store ?sv) = Inr (r, srv_store (cl_server s'))" .
        from parsed assms(3) have "parse_payload (ho_codec H) ep (command_context_of (envelope identity)) payload = Some c"
          by (fastforce simp: parse_command_def faithful_serde_def split: option.splits)
        from that(3) [OF this run] show thesis .
      qed
    qed
  qed
qed

lemma server_steps_store: "server_step\<^sup>*\<^sup>* sv sv' \<Longrightarrow> store_step\<^sup>*\<^sup>* (srv_store sv) (srv_store sv')"
proof (induction rule: rtranclp_induct)
  case (step u v)
  have "store_step\<^sup>=\<^sup>= (srv_store u) (srv_store v)"
    using step.hyps(2) by cases (auto dest!: handle_request_store run_maintenance_store)
  with step.IH show ?case by (auto intro: rtranclp.rtrancl_into_rtrancl)
qed simp

lemma steps_reachable: "store_step\<^sup>*\<^sup>* d d' \<Longrightarrow> reachable d \<Longrightarrow> reachable d'"
  by (induction rule: rtranclp_induct) (auto intro: reachable.step)

end
