(* ===== verification/Hook_Scenario.thy ===== *)
theory Hook_Scenario
  imports Client_Commands Resolver_Races
begin

section \<open>A concrete host\<close>

text \<open>
  An agent in the workspace \<open>/w\<close>, whose entry \<open>c\<close> it has found absent, and a server that knows it: used to
  show that the hypotheses of the properties of clients and hooks can hold together. The serde
  functions of this host accept exactly the messages of the run; the 100th external call is a
  request that is lost.
\<close>

subsection \<open>Encodings lose nothing\<close>

lemma resource_key_json_inject [simp]: "resource_key_json a = resource_key_json b \<longleftrightarrow> a = b"
  by (cases a; cases b) (auto simp: resource_key_json_def)

lemma observation_json_inject [simp]: "observation_json a = observation_json b \<longleftrightarrow> a = b"
  by (cases a; cases b) simp_all

lemma map_json_inject [simp]:
  "map JString xs = map JString ys \<longleftrightarrow> xs = ys" "map observation_json obs = map observation_json obs' \<longleftrightarrow> obs = obs'"
  by (auto simp: inj_def intro: map_injective)

lemma operation_json_inject [simp]: "operation_json a = operation_json b \<longleftrightarrow> a = b"
  by (cases a; cases b) auto

lemma write_prepare_json_inject [simp]: "write_prepare_json a = write_prepare_json b \<longleftrightarrow> a = b"
  by (cases a; cases b) (auto simp: write_prepare_json_def)

lemma agent_json_inject [simp]: "agent_json a = agent_json b \<longleftrightarrow> a = b"
  by (cases a; cases b; cases "ai_actor_type a"; cases "ai_actor_type b")
    (auto simp: agent_json_def skip_none_def split: option.splits)

lemma workspace_json_inject [simp]: "workspace_json a = workspace_json b \<longleftrightarrow> a = b"
  by (cases a; cases b) (auto simp: workspace_json_def)

lemma source_json_inject [simp]: "source_json a = source_json b \<longleftrightarrow> a = b"
  by (cases a; cases b; cases "sr_kind a"; cases "sr_kind b")
    (auto simp: source_json_def skip_none_def split: option.splits)

lemma command_request_json_inject:
  "command_request_json e p = command_request_json e' p' \<Longrightarrow> e' = e \<and> p' = p"
  by (cases e; cases e'; cases "re_protocol_version e"; cases "re_protocol_version e'"; cases "re_contract_revision e"; cases "re_contract_revision e'")
    (auto simp: command_request_json_def)

subsection \<open>The host\<close>

fun demo_response_body :: "json \<Rightarrow> string + command_response_body" where
  "demo_response_body (JObject [_, _, (_, rid), (_, payload)]) =
     Inr \<lparr>cb_protocol_version = V2, cb_contract_revision = Lease1, cb_request_id = as_str rid, cb_payload = payload\<rparr>"
| "demo_response_body _ = Inl ''body''"

fun demo_encode :: "command_response \<Rightarrow> json" where
  "demo_encode (RPrepare (Ready a p bs)) = JArray (JString a # JString p # map JString bs)"
| "demo_encode _ = JNull"

fun demo_prepare_result :: "json \<Rightarrow> string + write_prepare_result" where
  "demo_prepare_result (JArray (JString a # JString p # bs)) = Inr (Ready a p (map (\<lambda>j. the (as_str j)) bs))"
| "demo_prepare_result _ = Inl ''result''"

definition hook_ctx :: "string \<Rightarrow> command_context" where
  "hook_ctx request =
     \<lparr>cc_request_id = request, cc_task_id = ''omp-task-h'', cc_agent_id = ''omp:s:l'', cc_workspace_id = ''ws'',
      cc_observed_at = ''0''\<rparr>"

definition hook_observation :: "resource_observation list" where
  "hook_observation =
     [EntryObs \<lparr>rk_workspace_id = ''ws'', rk_kind = Entry, rk_resource_id = ''entry:1:3:c'', rk_canonical_path = ''c''\<rparr>
        EntryAbsent 0]"

definition hook_store :: db where
  "hook_store = run_all demo_env
     [TaskStart (hook_ctx ''start'') \<lparr>ts_next_action = ''edit'', ts_settings = default_settings, ts_expires_at = ''5'',
        ts_runtime_process = None\<rparr>,
      ReadStart (hook_ctx ''read'') \<lparr>rs_read_id = ''r'', rs_invocation_id = ''i'', rs_resources = hook_observation\<rparr>,
      ReadComplete (hook_ctx ''done'') \<lparr>rc_read_id = ''r'', rc_invocation_id = ''i'', rc_resources = hook_observation,
        rc_terminal_success = True, rc_complete = True, rc_stable = True, rc_exact = True\<rparr>] create_v2_schema"

definition hook_server :: server where
  "hook_server = \<lparr>srv_bearer_token = ''t'', srv_store = hook_store, srv_poisoned = False\<rparr>"

definition hook_payload :: write_prepare_input where
  "hook_payload =
     \<lparr>wp_invocation_id = ''call'', wp_operation = Create ''c'', wp_current = hook_observation,
      wp_request_expires_at = [CHR 0xA8], wp_lease_expires_at = ''l'', wp_attempt_deadline = ''l''\<rparr>"

definition hook_envelope :: request_envelope where
  "hook_envelope =
     \<lparr>re_protocol_version = V2, re_contract_revision = Lease1, re_task_id = ''omp-task-h'', re_request_id = ''request-h'',
      re_observed_at = ''0'',
      re_agent = \<lparr>ai_agent_id = ''omp:s:l'', ai_turn_id = None, ai_actor_id = ''omp:s:l'', ai_actor_type = ActorAgent,
        ai_owner_id = Some ''l'', ai_parent_agent_id = None, ai_parent_actor_id = None\<rparr>,
      re_workspace = \<lparr>wi_root = ''/w'', wi_workspace_id = ''ws'', wi_repo_id = ''repo-h'', wi_worktree_id = ''repo-h'',
        wi_branch = ''canonical''\<rparr>,
      re_source = \<lparr>sr_kind = Hook, sr_event = ''write.prepare'', sr_tool_name = Some ''write'', sr_source_ref = ''omp:s:l:call''\<rparr>\<rparr>"

definition hook_host :: host where
  "hook_host =
     \<lparr>ho_env = demo_env,
      ho_codec = demo_codec
        \<lparr>decode_envelope := (\<lambda>j. if j = command_request_json hook_envelope (write_prepare_json hook_payload)
           then Some (hook_envelope, write_prepare_json hook_payload) else None),
         decode_write_prepare := (\<lambda>j. if j = write_prepare_json hook_payload then Some hook_payload else None),
         encode_response := demo_encode\<rparr>,
      ho_files = demo_world, ho_clock = (\<lambda>n. seconds 48), ho_ps = (\<lambda>n args. Inr (True, Inr ''ps'')), ho_pid = 7,
      ho_cwd = [''w''], ho_exe = [''w'', ''a''], ho_uuid = nat_digits, ho_network = (\<lambda>n. if n = 100 then RequestLost ''timeout'' else Delivered),
      ho_others = (\<lambda>n s. s), ho_task_result = (\<lambda>j. Inl []), ho_read_result = (\<lambda>j. Inl []),
      ho_prepare_result = demo_prepare_result, ho_complete_result = (\<lambda>j. Inl []), ho_activate_result = (\<lambda>j. Inl []),
      ho_lease_status = (\<lambda>j. Inl []), ho_response_body = demo_response_body, ho_error_body = (\<lambda>j. Inl []),
      ho_runtime_file = (\<lambda>t. Inl []), ho_environ = [], ho_temp_dir = [''tmp''],
      ho_change = (\<lambda>n a. Inl PermissionDeniedIo), ho_output = (\<lambda>n p. Inl NotFoundIo),
      ho_spawn = (\<lambda>n p. Inl NotFoundIo), ho_try_wait = (\<lambda>n c. Inr None), ho_kill = (\<lambda>n c. Inr ()),
      ho_pipe = (\<lambda>n c e. []), ho_signals = (\<lambda>n. Inr ()), ho_cancelled = (\<lambda>n. False), ho_instant = (\<lambda>n. n)\<rparr>"

lemma hook_host_simps [simp]:
  "ho_env hook_host = demo_env" "ho_others hook_host n s = s" "ho_network hook_host n = (if n = 100 then RequestLost ''timeout'' else Delivered)"
  "ho_prepare_result hook_host = demo_prepare_result" "ho_response_body hook_host = demo_response_body"
  "ho_clock hook_host n = seconds 48" "ho_files hook_host = demo_world"
  by (simp_all add: hook_host_def)

definition hook_runtime_file :: server_runtime where
  "hook_runtime_file =
     \<lparr>sv_base_url = ''http://127.0.0.1:43873'', sv_token = ''t'', sv_workspace_id = ''ws'', sv_pid = 9,
      sv_process_start_identity = ''h''\<rparr>"

definition hook_input :: omp_input where
  "hook_input =
     \<lparr>om_event_type = ''tool_call'', om_runtime = ''omp'', om_version = ''17.2.3'', om_cwd = None, om_session_id = ''s'',
      om_leaf_agent_id = ''l'', om_task_id = None, om_tool_name = Some ''write'', om_tool_call_id = Some ''call'',
      om_input = JObject [(''path'', JString ''c'')], om_is_error = False, om_content = JNull, om_details = JNull,
      om_attempt_id = None, om_permit_id = None, om_will_continue = None\<rparr>"

definition demo_hook_codec :: hook_codec where
  "demo_hook_codec =
     \<lparr>parse_omp_input = (\<lambda>t. Inr hook_input), parse_codex_input = (\<lambda>t. Inl []), parse_settings_file = (\<lambda>t. Inl []),
      try_parse_from = (\<lambda>ws. Inl [])\<rparr>"

lemma hook_host_faithful: "faithful_serde hook_host" "faithful_prepare hook_host"
proof -
  show "faithful_serde hook_host"
    by (auto simp: faithful_serde_def hook_host_def success_response_def dest: command_request_json_inject split: if_splits)
  have "demo_prepare_result (demo_encode r) = Inr x \<Longrightarrow> r = RPrepare x" for r x
    by (cases r rule: demo_encode.cases) (auto simp: comp_def)
  then show "faithful_prepare hook_host"
    by (auto simp: faithful_prepare_def hook_host_def split: if_splits)
qed

definition hook_start :: client_state where
  "hook_start = \<lparr>cl_step = 0, cl_server = hook_server, cl_trace = []\<rparr>"

subsection \<open>The run\<close>

text \<open>Everything before the request, whatever the server is.\<close>

abbreviation at_step :: "nat \<Rightarrow> server \<Rightarrow> client_state" where
  "at_step n sv \<equiv> \<lparr>cl_step = n, cl_server = sv, cl_trace = []\<rparr>"

definition hook_task :: task_context where
  "hook_task =
     \<lparr>tc_task_id = ''omp-task-h'', tc_agent_id = ''omp:s:l'', tc_turn_id = None, tc_actor_id = ''omp:s:l'',
      tc_owner_id = ''l'', tc_workspace = \<lparr>wi_root = ''/w'', wi_workspace_id = ''ws'', wi_repo_id = ''repo-h'',
        wi_worktree_id = ''repo-h'', wi_branch = ''canonical''\<rparr>\<rparr>"

lemma hook_lookups:
  "omp_task hook_host hook_input hook_runtime_file [''w''] (at_step 0 sv) = Some (Inr hook_task, at_step 1 sv)"
  "write_operation hook_host (om_input hook_input) [''w''] (at_step 1 sv) = Some (Inr (Create ''c''), at_step 2 sv)"
  "settings_of hook_host demo_hook_codec [''w''] (at_step 2 sv) = Some (Inr default_settings, at_step 3 sv)"
  "resolverR hook_host (\<lambda>W. resolver_new W ''ws'' [''w'']) (at_step 3 sv) = Some (Inr demo_resolver, at_step 5 sv)"
  "resolverR hook_host (\<lambda>W. observe_operation W (hash_of hook_host) 3 demo_resolver (Create ''c'')) (at_step 6 sv)
     = Some (Inr hook_observation, at_step 13 sv)"
  "validate_runtime_process_identity hook_host hook_runtime_file (at_step 13 sv) = Some (Inr (), at_step 14 sv)"
  by code_simp+

lemma hook_clock: "(now_rfc3339 hook_host :: (string, string) run) (at_step 5 sv) = Some (Inr ''0'', at_step 6 sv)"
  by code_simp

lemma hook_times:
  "after_seconds hook_host ''0'' 120 (at_step n sv) = Some (Inr [CHR 0xA8], at_step n sv)"
  "after_seconds hook_host ''0'' 60 (at_step n sv) = Some (Inr ''l'', at_step n sv)"
  by code_simp+

lemma hook_checks:
  "validate_v2_path ''/v2/writes/prepare'' = Inr ()" "validate_http_path ''/v2/writes/prepare'' = Inr ()"
  "is_ok (parse_http_base_url (sv_base_url hook_runtime_file))" "sv_token hook_runtime_file = ''t''"
  "split_once ''?'' ''/v2/writes/prepare'' = None"
  by code_simp+

lemma hook_identity:
  "envelope (identity_at hook_host hook_task ''write.prepare'' ''call'' (Some ''write'') ''0'') = hook_envelope"
  "ci_request_id (identity_at hook_host hook_task ''write.prepare'' ''call'' (Some ''write'') ''0'') = ''request-h''"
  by code_simp+

lemma hook_prepared:
  "map_sum id fst (run_command demo_env (WritePrepare (hook_ctx ''request-h'') hook_payload) hook_store)
     = Inr (RPrepare (Ready ''8'' ''9'' [''7'']))"
  by code_simp

lemma hook_answer:
  obtains d where "handle_request demo_env (ho_codec hook_host)
      \<lparr>hr_method = POST, hr_path = ''/v2/writes/prepare'', hr_authorization = Some (''Bearer '' @ ''t''), hr_query = [],
       hr_body = command_request_json hook_envelope (write_prepare_json hook_payload)\<rparr> hook_server
    = (Some (success_response (Some ''request-h'') (JArray [JString ''8'', JString ''9'', JString ''7''])), hook_server\<lparr>srv_store := d\<rparr>)"
proof -
  from hook_prepared obtain d where run: "run_command demo_env (WritePrepare (hook_ctx ''request-h'') hook_payload) hook_store
      = Inr (RPrepare (Ready ''8'' ''9'' [''7'']), d)"
    by (cases "run_command demo_env (WritePrepare (hook_ctx ''request-h'') hook_payload) hook_store") auto
  have ctx: "command_context_of hook_envelope = hook_ctx ''request-h''" "re_request_id hook_envelope = ''request-h''"
    by (simp_all add: command_context_of_def hook_envelope_def hook_ctx_def)
  show thesis
    by (rule that [of d])
      (use run in \<open>simp add: handle_request_def build_router_def post_routes_def require_bearer_def has_valid_bearer_token_def
        strip_prefix_def handle_endpoint_def execute_command_def parse_command_def hook_host_def hook_server_def ctx
        with_lock_def transact_def del: run_command.simps\<close>)
qed

end
