(* ===== verification/Hook_Properties.thy ===== *)
theory Hook_Properties
  imports Hook_Scenario
begin

section \<open>What the hooks guarantee\<close>

text \<open>
  Properties of \<open>Hooks\<close> that hold whatever other agents, other processes and the network do.
\<close>

subsection \<open>An allowed write is a prepared write\<close>

lemma poll_blocks:
  "poll_offer H runtime task settings deadline fuel batch s = Some (Inr x, s') \<Longrightarrow> \<exists>reason. x = OmpBlock reason"
proof (induction fuel arbitrary: batch s)
  case (Suc n)
  have activate: "activate_offer H runtime task settings batch status t = Some (Inr x, s') \<Longrightarrow> \<exists>reason. x = OmpBlock reason"
    for batch status t by (auto simp: activate_offer_def elim!: bindR_InrE)
  from Suc.prems show ?case
    by (auto elim!: bindR_InrE split: if_splits lease_request_state.splits) (use activate Suc.IH in blast)+
qed simp

lemma write_operation_target:
  assumes "write_operation H input repo s = Some (Inr operation, s')"
  obtains path where "relative_path path = Inr path" "operation \<in> {Create path, Update path}"
    "json_text (json_get ''path'' input) = Some path" "cl_server s' = cl_server s"
proof -
  have same: "relative_path q = Inr path \<Longrightarrow> q = path" for q path
    by (auto simp: relative_path_def elim!: bindE_InrE)
  from assms show thesis
    by (auto simp: write_operation_def required_def nonempty_def ok_or_eq_Inr elim!: bindR_InrE bindE_InrE
        split: sum.splits if_splits intro!: that) (use same in metis)+
qed

lemma omp_task_ids:
  assumes "omp_task H i runtime repo s = Some (Inr task, s')"
  shows "tc_task_id task = hook_id (ho_env H) ''omp-task'' [om_session_id i, om_leaf_agent_id i]"
    "tc_agent_id task = ''omp:'' @ om_session_id i @ '':'' @ om_leaf_agent_id i"
    "wi_workspace_id (tc_workspace task) = sv_workspace_id runtime" "cl_server s' = cl_server s"
  using relatesD [OF quiet.relates_lookups(4) assms] assms
  by (auto simp: omp_task_def workspace_of_def Let_def elim!: bindR_InrE)

lemma identity_at_simps [simp]:
  "ci_observed_at (identity_at H task event discriminator tool at) = at"
  "ci_task_id (identity_at H task event discriminator tool at) = tc_task_id task"
  by (simp_all add: identity_at_def)

lemma wait_blocks [simp]: "wait_offer H fuel runtime task settings batch s \<noteq> Some (Inr (AllowWithWriteAttempt a p), s')"
proof
  assume "wait_offer H fuel runtime task settings batch s = Some (Inr (AllowWithWriteAttempt a p), s')"
  then obtain deadline s1 where "poll_offer H runtime task settings deadline fuel batch s1 = Some (Inr (AllowWithWriteAttempt a p), s')"
    by (auto simp: wait_offer_def Let_def elim!: bindR_InrE split: if_splits)
  from poll_blocks [OF this] show False by simp
qed

lemma prepare_write_posted:
  assumes "prepare_write H K fuel i runtime repo task s = Some (Inr (AllowWithWriteAttempt a p), s')"
  obtains invocation operation s2 at current t1 t2 t3 bs s3 where "om_tool_call_id i = Some invocation"
    "write_operation H (om_input i) repo s = Some (Inr operation, s2)"
    "post_command H (ho_prepare_result H) runtime ''/v2/writes/prepare''
       (identity_at H task ''write.prepare'' invocation (Some ''write'') at)
       (write_prepare_json \<lparr>wp_invocation_id = invocation, wp_operation = operation, wp_current = current,
          wp_request_expires_at = t1, wp_lease_expires_at = t2, wp_attempt_deadline = t3\<rparr>) s3
       = Some (Inr (Ready a p bs), s')" "cl_server s3 = cl_server s2"
  using assms
  by (auto simp: prepare_write_def invocation_of_def required_def nonempty_def ok_or_eq_Inr post_def identity_now_def
      elim!: bindR_InrE bindE_InrE split: write_prepare_result.splits
      dest!: relatesD [OF quiet.relates_lookups(1)] relatesD [OF quiet.relates_lookups(2)] relatesD [OF quiet.relates_lookups(6)]
        relatesD [OF quiet.relates_clock(2)])

text \<open>
  C18. An OMP agent is told to write only when the server has prepared the write: when the hook
  before a tool call allows a write with an attempt and a permit, then the call was sent as
  \<open>write.prepare\<close> for the task, the agent and the path of the call, and either the attempt with
  that permit is executing for this task and operation, or the call is a repetition, answered
  from the receipt of the first one without any change.
\<close>

theorem allowed_write_is_prepared:
  assumes "omp_pre H K fuel input runtime repo s = Some (Inr (AllowWithWriteAttempt a p), s')"
    and "faithful_serde H" "faithful_prepare H"
  shows "\<exists>i invocation path operation ctx n. parse_omp_input K input = Inr i \<and> om_event_type i = ''tool_call''
     \<and> om_tool_name i = Some ''write'' \<and> om_tool_call_id i = Some invocation
     \<and> json_text (json_get ''path'' (om_input i)) = Some path \<and> relative_path path = Inr path
     \<and> operation \<in> {Create path, Update path}
     \<and> cc_task_id ctx = hook_id (ho_env H) ''omp-task'' [om_session_id i, om_leaf_agent_id i]
     \<and> cc_agent_id ctx = ''omp:'' @ om_session_id i @ '':'' @ om_leaf_agent_id i
     \<and> cc_workspace_id ctx = sv_workspace_id runtime
     \<and> cc_request_id ctx = hook_id (ho_env H) ''request'' [cc_task_id ctx, ''write.prepare'', invocation]
     \<and> write_granted ctx operation a p (srv_store (ho_others H n (cl_server s))) (srv_store (cl_server s'))"
proof -
  from assms(1) obtain i task s1 where i: "parse_omp_input K input = Inr i" "om_event_type i = ''tool_call''"
      "om_tool_name i = Some ''write''"
    and task: "omp_task H i runtime repo s = Some (Inr task, s1)"
    and prep: "prepare_write H K fuel i runtime repo task s1 = Some (Inr (AllowWithWriteAttempt a p), s')"
    by (auto simp: omp_pre_def start_read_def Let_def elim!: bindR_InrE split: if_splits option.splits)
  obtain invocation operation s2 at current t1 t2 t3 bs s3 where
    inv: "om_tool_call_id i = Some invocation"
    and op: "write_operation H (om_input i) repo s1 = Some (Inr operation, s2)"
    and posted: "post_command H (ho_prepare_result H) runtime ''/v2/writes/prepare''
       (identity_at H task ''write.prepare'' invocation (Some ''write'') at)
       (write_prepare_json \<lparr>wp_invocation_id = invocation, wp_operation = operation, wp_current = current,
          wp_request_expires_at = t1, wp_lease_expires_at = t2, wp_attempt_deadline = t3\<rparr>) s3
       = Some (Inr (Ready a p bs), s')"
    and same: "cl_server s3 = cl_server s2"
    by (rule prepare_write_posted [OF prep])
  define payload where "payload = \<lparr>wp_invocation_id = invocation, wp_operation = operation, wp_current = current,
    wp_request_expires_at = t1, wp_lease_expires_at = t2, wp_attempt_deadline = t3\<rparr>"
  note posted = posted [folded payload_def]
  obtain path where path: "relative_path path = Inr path" "operation \<in> {Create path, Update path}"
      "json_text (json_get ''path'' (om_input i)) = Some path" "cl_server s2 = cl_server s1"
    by (rule write_operation_target [OF op])
  let ?ctx = "command_context_of (envelope (identity_at H task ''write.prepare'' invocation (Some ''write'') at))"
  have "command_routed ''/v2/writes/prepare'' WritePrepareRoute" by (simp add: command_routed_def post_routes_def)
  from post_prepare_granted [OF posted this assms(2,3)] obtain n where
    granted: "write_granted ?ctx operation a p (srv_store (ho_others H n (cl_server s))) (srv_store (cl_server s'))"
    using same path(4) omp_task_ids(4) [OF task] by (auto simp: payload_def)
  have ctx: "cc_task_id ?ctx = hook_id (ho_env H) ''omp-task'' [om_session_id i, om_leaf_agent_id i]"
    "cc_agent_id ?ctx = ''omp:'' @ om_session_id i @ '':'' @ om_leaf_agent_id i"
    "cc_workspace_id ?ctx = sv_workspace_id runtime"
    "cc_request_id ?ctx = hook_id (ho_env H) ''request'' [cc_task_id ?ctx, ''write.prepare'', invocation]"
    using omp_task_ids [OF task] by (simp_all add: identity_at_def envelope_def command_context_of_def)
  show ?thesis
    by (rule exI [of _ i], rule exI [of _ invocation], rule exI [of _ path], rule exI [of _ operation], rule exI [of _ ?ctx],
        rule exI [of _ n], intro conjI)
      (fact i inv path ctx granted)+
qed

abbreviation hook_command :: command_identity where
  "hook_command \<equiv> identity_at hook_host hook_task ''write.prepare'' ''call'' (Some ''write'') ''0''"

lemma hook_post:
  obtains d where "post_command hook_host demo_prepare_result hook_runtime_file ''/v2/writes/prepare'' hook_command
      (write_prepare_json hook_payload) (at_step 13 hook_server)
    = Some (Inr (Ready ''8'' ''9'' [''7'']), at_step 15 (hook_server\<lparr>srv_store := d\<rparr>))"
proof -
  obtain d where answer: "handle_request demo_env (ho_codec hook_host)
      \<lparr>hr_method = POST, hr_path = ''/v2/writes/prepare'', hr_authorization = Some (''Bearer '' @ ''t''), hr_query = [],
       hr_body = command_request_json hook_envelope (write_prepare_json hook_payload)\<rparr> hook_server
    = (Some (success_response (Some ''request-h'') (JArray [JString ''8'', JString ''9'', JString ''7''])), hook_server\<lparr>srv_store := d\<rparr>)"
    by (rule hook_answer)
  have send: "checked_send hook_host hook_runtime_file POST ''/v2/writes/prepare''
      (command_request_json hook_envelope (write_prepare_json hook_payload)) (at_step 13 hook_server)
    = Some (Inr (success_response (Some ''request-h'') (JArray [JString ''8'', JString ''9'', JString ''7''])),
        at_step 15 (hook_server\<lparr>srv_store := d\<rparr>))"
    using hook_checks(3) answer
    by (auto simp: checked_send_def bindR_def hook_lookups liftR_def hook_checks is_ok_iff send_request_def)
  show thesis
    by (rule that [of d])
      (simp add: post_command_def mapErrR_def bindR_def liftR_def hook_checks post_json_value_def hook_identity
        send decode_payload_def success_response_def jopt_string_def jopt_def retR_def)
qed

lemma hook_until_post:
  "omp_pre hook_host demo_hook_codec 3 [] hook_runtime_file [''w''] (at_step 0 sv)
     = bindR (post hook_host demo_prepare_result hook_runtime_file ''/v2/writes/prepare'' hook_command (write_prepare_json hook_payload))
         (\<lambda>result. case result of
            Ready attempt_id permit_id _ \<Rightarrow> retR (AllowWithWriteAttempt attempt_id permit_id)
          | Queued batch_id \<Rightarrow> wait_offer hook_host 3 hook_runtime_file hook_task default_settings batch_id
          | RereadRequired _ \<Rightarrow> retR (OmpBlock ''reread_required: full native reread is required before mutation'')
          | Denied reason_code \<Rightarrow> retR (OmpBlock (''write denied: '' @ reason_code))) (at_step 13 sv)"
proof -
  have input: "parse_omp_input demo_hook_codec [] = Inr hook_input" "om_event_type hook_input = ''tool_call''"
    "om_tool_name hook_input = Some ''write''" "invocation_of hook_input = Inr ''call''"
    by (simp_all add: demo_hook_codec_def hook_input_def invocation_of_def required_def nonempty_def) code_simp
  have settings: "offer_ttl_seconds default_settings = 120" "lease_expiry_seconds default_settings = 60"
    "wi_workspace_id (tc_workspace hook_task) = ''ws''"
    by (simp_all add: default_settings_def hook_task_def)
  show ?thesis
    using hook_times [of _ sv]
    by (simp add: omp_pre_def prepare_write_def bindR_def liftR_def input hook_lookups hook_clock identity_now_def retR_def
        settings hook_payload_def del: One_nat_def split: option.split sum.split prod.split write_prepare_result.split)
qed

lemma hook_run:
  obtains d where "omp_pre hook_host demo_hook_codec 3 [] hook_runtime_file [''w''] hook_start
    = Some (Inr (AllowWithWriteAttempt ''8'' ''9''), at_step 15 (hook_server\<lparr>srv_store := d\<rparr>))"
proof -
  obtain d where "post_command hook_host demo_prepare_result hook_runtime_file ''/v2/writes/prepare'' hook_command
      (write_prepare_json hook_payload) (at_step 13 hook_server)
    = Some (Inr (Ready ''8'' ''9'' [''7'']), at_step 15 (hook_server\<lparr>srv_store := d\<rparr>))" by (rule hook_post)
  then show thesis
    by (intro that [of d]) (simp add: hook_start_def hook_until_post bindR_def post_def mapErrR_def retR_def)
qed

theorem allowed_write_is_prepared_witness:
  "\<exists>s' path ctx. omp_pre hook_host demo_hook_codec 3 [] hook_runtime_file [''w''] hook_start
       = Some (Inr (AllowWithWriteAttempt ''8'' ''9''), s')
     \<and> json_text (json_get ''path'' (om_input hook_input)) = Some path \<and> relative_path path = Inr path
     \<and> cc_workspace_id (ctx :: command_context) = ''ws'' \<and> cc_task_id ctx = hook_id demo_env ''omp-task'' [om_session_id hook_input, om_leaf_agent_id hook_input]"
proof -
  obtain d where run: "omp_pre hook_host demo_hook_codec 3 [] hook_runtime_file [''w''] hook_start
      = Some (Inr (AllowWithWriteAttempt ''8'' ''9''), at_step 15 (hook_server\<lparr>srv_store := d\<rparr>))" by (rule hook_run)
  have input: "parse_omp_input demo_hook_codec [] = Inr hook_input" "sv_workspace_id hook_runtime_file = ''ws''"
    by (simp_all add: demo_hook_codec_def hook_runtime_file_def)
  show ?thesis
    using allowed_write_is_prepared [OF run hook_host_faithful] run unfolding input by auto
qed

subsection \<open>Retries\<close>

text \<open>
  C19. A command is executed at most once, however often it is sent: let a client send a command
  and lose the answer or get any other result, let the server go on for any time, and let the
  client send the same command again and get a value. Then either the first sending had no effect,
  or it executed the command, the second one changed nothing, and the value is the answer to the
  first.
\<close>

theorem retried_command_runs_once:
  assumes "reachable (srv_store (cl_server s))" "others_serve H" "faithful_serde H" "command_routed path ep"
    and first: "post_command H decode runtime path identity payload s = Some (res, s1)"
    and between: "server_step\<^sup>*\<^sup>* (cl_server s1) (cl_server s2)"
    and retry: "post_command H decode runtime path identity payload s2 = Some (Inr x, s3)"
  shows "\<exists>c n m. parse_payload (ho_codec H) ep (command_context_of (envelope identity)) payload = Some c
     \<and> (srv_store (cl_server s1) \<in> {srv_store (cl_server s), srv_store (ho_others H n (cl_server s))}
        \<or> (\<exists>r. run_command (ho_env H) c (srv_store (ho_others H n (cl_server s))) = Inr (r, srv_store (cl_server s1))
              \<and> decode (encode_response (ho_codec H) r) = Inr x
              \<and> srv_store (cl_server s3) = srv_store (ho_others H m (cl_server s2))))"
proof -
  let ?E = "ho_env H" and ?C = "ho_codec H" and ?ctx = "command_context_of (envelope identity)"
  from post_command_runs [OF retry assms(4,3)] obtain m c r2 where
    parsed: "parse_payload ?C ep ?ctx payload = Some c"
    and run2: "run_command ?E c (srv_store (ho_others H m (cl_server s2))) = Inr (r2, srv_store (cl_server s3))"
    and answer: "decode (encode_response ?C r2) = Inr x" by blast
  from first assms(4,3) show ?thesis
  proof (cases rule: post_command_effect)
    case (3 n c' r)
    with parsed have run1: "run_command ?E c (srv_store (ho_others H n (cl_server s))) = Inr (r, srv_store (cl_server s1))" by simp
    have "reachable (srv_store (ho_others H n (cl_server s)))"
      using assms(1,2) steps_reachable server_steps_store unfolding others_serve_def by blast
    moreover have "store_step\<^sup>*\<^sup>* (srv_store (cl_server s1)) (srv_store (ho_others H m (cl_server s2)))"
      using server_steps_store [OF between] assms(2) server_steps_store unfolding others_serve_def by (meson rtranclp_trans)
    moreover obtain ctx kind pl where call: "command_call c = (ctx, kind, pl)" by (cases "command_call c")
    ultimately obtain receipt where rec: "sql_first (is_receipt ctx) (command_receipts (srv_store (ho_others H m (cl_server s2)))) = Some receipt"
        "receipt_matches ?E kind pl receipt" "cr_response receipt = r" "validate_context ?E ctx = Inr ()"
      using later_receipt run1 by metis
    obtain operation where "run_command ?E c = accepted_command ?E ctx kind pl operation"
      by (rule run_command_accepted [OF call])
    with rec run2 have "r2 = r" "srv_store (cl_server s3) = srv_store (ho_others H m (cl_server s2))"
      by (auto simp: accepted_command_def)
    with parsed run1 answer show ?thesis by blast
  qed (use parsed in blast)+
qed

lemma hook_store_reachable: "reachable (srv_store hook_server)"
  unfolding hook_server_def hook_store_def by (simp add: run_all_reachable reachable.opened)

lemma hook_routed: "command_routed ''/v2/writes/prepare'' WritePrepareRoute"
  by (simp add: command_routed_def post_routes_def)

lemma hook_others: "others_serve hook_host"
  by (simp add: others_serve_def)

theorem retried_command_runs_once_witness:
  "\<exists>res s1 s3. post_command hook_host demo_prepare_result hook_runtime_file ''/v2/writes/prepare'' hook_command
       (write_prepare_json hook_payload) (at_step 99 hook_server) = Some (Inl res, s1)
     \<and> post_command hook_host demo_prepare_result hook_runtime_file ''/v2/writes/prepare'' hook_command
       (write_prepare_json hook_payload) (at_step 13 (cl_server s1)) = Some (Inr (Ready ''8'' ''9'' [''7'']), s3)
     \<and> (\<exists>c. parse_payload (ho_codec hook_host) WritePrepareRoute (command_context_of (envelope hook_command))
          (write_prepare_json hook_payload) = Some c)"
proof -
  obtain d where retry: "post_command hook_host demo_prepare_result hook_runtime_file ''/v2/writes/prepare'' hook_command
      (write_prepare_json hook_payload) (at_step 13 hook_server)
    = Some (Inr (Ready ''8'' ''9'' [''7'']), at_step 15 (hook_server\<lparr>srv_store := d\<rparr>))" by (rule hook_post)
  have "validate_runtime_process_identity hook_host hook_runtime_file (at_step 99 sv) = Some (Inr (), at_step 100 sv)" for sv
    by code_simp
  then have "checked_send hook_host hook_runtime_file POST ''/v2/writes/prepare''
      (command_request_json hook_envelope (write_prepare_json hook_payload)) (at_step 99 hook_server)
    = Some (Inl ''timeout'', at_step 101 hook_server)"
    using hook_checks(3) by (auto simp: checked_send_def bindR_def liftR_def hook_checks is_ok_iff send_request_def)
  then have first: "post_command hook_host demo_prepare_result hook_runtime_file ''/v2/writes/prepare'' hook_command
      (write_prepare_json hook_payload) (at_step 99 hook_server) = Some (Inl (transport_error ''timeout''), at_step 101 hook_server)"
    by (simp add: post_command_def mapErrR_def bindR_def liftR_def hook_checks post_json_value_def hook_identity)
  show ?thesis
    using retried_command_runs_once [OF _ hook_others hook_host_faithful(1) hook_routed first _ retry] first retry hook_store_reachable
    by auto
qed

subsection \<open>Waiting ends\<close>

text \<open>\<open>ends m\<close>: the run \<open>m\<close> returns, wherever it starts, and does not go back in time.\<close>

definition ends :: "('e, 'a) run \<Rightarrow> bool" where
  "ends m \<longleftrightarrow> (\<forall>s. \<exists>r s'. m s = Some (r, s') \<and> cl_step s \<le> cl_step s')"

lemma endsE:
  assumes "ends m"
  obtains r s' where "m s = Some (r, s')" "cl_step s \<le> cl_step s'"
  using assms unfolding ends_def by blast

lemma ends_basic: "ends (retR x)" "ends (failR e)" "ends (liftR m)" "ends (externR f)" "ends (fileR H g)"
  by (auto simp: ends_def retR_def failR_def liftR_def externR_def fileR_def)

lemma ends_bind: "ends m \<Longrightarrow> (\<And>x. ends (f x)) \<Longrightarrow> ends (bindR m f)"
  unfolding ends_def
proof (intro allI)
  fix s
  assume m: "\<forall>s. \<exists>r s'. m s = Some (r, s') \<and> cl_step s \<le> cl_step s'"
    and f: "\<And>x. \<forall>s. \<exists>r s'. f x s = Some (r, s') \<and> cl_step s \<le> cl_step s'"
  obtain r s1 where 1: "m s = Some (r, s1)" "cl_step s \<le> cl_step s1" using m by blast
  show "\<exists>r s'. bindR m f s = Some (r, s') \<and> cl_step s \<le> cl_step s'"
  proof (cases r)
    case (Inr x)
    obtain r' s2 where "f x s1 = Some (r', s2)" "cl_step s1 \<le> cl_step s2" using f by blast
    with 1 Inr show ?thesis by (auto simp: bindR_def)
  qed (use 1 in \<open>auto simp: bindR_def\<close>)
qed

lemma ends_map: "ends m \<Longrightarrow> ends (mapErrR g m)"
  unfolding ends_def mapErrR_def by fastforce

lemma ends_cases:
  "(b \<Longrightarrow> ends m) \<Longrightarrow> (\<not> b \<Longrightarrow> ends n) \<Longrightarrow> ends (if b then m else n)"
  "(\<And>x. ends (f x)) \<Longrightarrow> ends (Let v f)" "(\<And>a b. ends (h a b)) \<Longrightarrow> ends (case w of (a, b) \<Rightarrow> h a b)"
  by (auto split: prod.split)

lemmas ends_rules = ends_bind ends_cases ends_map ends_basic

lemma ends_send: "ends (send_request H req)"
  unfolding ends_def send_request_def Let_def by (auto split: delivery.split prod.split option.split)

lemma ends_request:
  "ends (checked_send H runtime verb path body)" "ends (get_payload H decode runtime path)"
  "ends (post H decode' runtime path identity payload)"
proof -
  have send: "ends (checked_send H runtime verb path body)" for runtime verb path body
    unfolding checked_send_def validate_runtime_process_identity_def process_start_identity_for_pid_def process_ps_output_def
    by (intro ends_rules ends_send)
  then show "ends (checked_send H runtime verb path body)" .
  from send show "ends (get_payload H decode runtime path)" "ends (post H decode' runtime path identity payload)"
    unfolding get_payload_def get_response_def post_def post_command_def post_json_value_def by (intro ends_rules; simp)+
qed

text \<open>The clock is one that the \<^verbatim>\<open>time\<close> crate can print, read and add a lease to.\<close>

definition sane_clock :: "host \<Rightarrow> coordination_settings \<Rightarrow> bool" where
  "sane_clock H settings \<longleftrightarrow>
     (\<forall>n. \<exists>t. format_rfc3339 (ho_env H) (ho_clock H n) = Some t \<and> parse_rfc3339 (ho_env H) t = Some (ho_clock H n)
        \<and> representable (ho_env H) (ho_clock H n + seconds (int (lease_expiry_seconds settings))))"

lemma ends_now: "sane_clock H settings \<Longrightarrow> ends (now_rfc3339 H)"
  unfolding ends_def now_rfc3339_def now_utc_def bindR_def externR_def sane_clock_def
  by (auto simp: retR_def split: option.split)

lemma ends_window:
  assumes "sane_clock H settings" "\<And>command t. ends (f command t)"
  shows "ends (bindR (identity_now H task event discriminator tool) (\<lambda>command.
    bindR (after_seconds H (ci_observed_at command) (lease_expiry_seconds settings)) (f command)))" (is "ends ?m")
  unfolding ends_def
proof
  fix s :: client_state
  obtain t where t: "format_rfc3339 (ho_env H) (ho_clock H (cl_step s)) = Some t"
      "parse_rfc3339 (ho_env H) t = Some (ho_clock H (cl_step s))"
      "representable (ho_env H) (ho_clock H (cl_step s) + seconds (int (lease_expiry_seconds settings)))"
    using assms(1) unfolding sane_clock_def by blast
  let ?s = "s\<lparr>cl_step := Suc (cl_step s)\<rparr>" and ?c = "identity_at H task event discriminator tool t"
  have "identity_now H task event discriminator tool s = Some (Inr ?c, ?s)"
    using t(1) by (simp add: identity_now_def now_rfc3339_def now_utc_def bindR_def externR_def retR_def)
  then have "?m s = bindR (after_seconds H t (lease_expiry_seconds settings)) (f ?c) ?s" by (simp add: bindR_def)
  moreover have "ends (bindR (after_seconds H t (lease_expiry_seconds settings)) (f ?c))"
    using t(2,3) assms(2) by (auto simp: after_seconds_def split: option.split intro!: ends_rules)
  ultimately show "\<exists>r s'. ?m s = Some (r, s') \<and> cl_step s \<le> cl_step s'"
    by (auto elim!: endsE [of _ ?s])
qed

lemma ends_activate:
  assumes "sane_clock H settings"
  shows "ends (activate_offer H runtime task settings batch status)"
  unfolding activate_offer_def by (intro ends_rules ends_window [OF assms] ends_request)

lemma poll_offer_ends:
  assumes "sane_clock H settings" "\<forall>n\<ge>N. deadline \<le> ho_clock H n" "N < cl_step s + fuel" "0 < fuel"
  shows "\<exists>r s'. poll_offer H runtime task settings deadline fuel batch s = Some (r, s')"
  using assms(3,4)
proof (induction fuel arbitrary: batch s)
  case (Suc fuel)
  let ?s = "s\<lparr>cl_step := Suc (cl_step s)\<rparr>"
  show ?case
  proof (cases "deadline \<le> ho_clock H (cl_step s)")
    case True
    then show ?thesis by (simp add: now_utc_def bindR_def externR_def retR_def)
  next
    case False
    with assms(2) have "cl_step s < N" by (meson not_le)
    then have more: "N < cl_step t + fuel \<and> 0 < fuel" if "cl_step ?s \<le> cl_step t" for t :: client_state
      using that Suc.prems(1) by simp
    define answer where "answer = bindR (now_rfc3339 H) (\<lambda>now_text.
      mapErrR command_error_message (get_payload H (ho_lease_status H) runtime (lease_request_path batch task now_text)))"
    have "ends answer"
      unfolding answer_def by (intro ends_rules ends_now [OF assms(1)] ends_request)
    then obtain r t where answer: "answer ?s = Some (r, t)" "cl_step ?s \<le> cl_step t" by (rule endsE)
    note again = Suc.IH [OF more [OF answer(2), THEN conjunct1] more [OF answer(2), THEN conjunct2]]
    have split: "poll_offer H runtime task settings deadline (Suc fuel) batch s = bindR answer (\<lambda>status.
        case lrs_state status of
          QQueued \<Rightarrow> poll_offer H runtime task settings deadline fuel batch
        | QOffered \<Rightarrow> activate_offer H runtime task settings batch status
        | QSuperseded \<Rightarrow>
            bindR (liftR (ok_or ''superseded request lacks replacement'' (lrs_superseded_by status)))
              (poll_offer H runtime task settings deadline fuel)
        | QActivated \<Rightarrow>
            retR (OmpBlock ''reread_required: activated leases cannot execute before a full reread'')
        | _ \<Rightarrow> retR (OmpBlock ''write queue request is no longer active'')) ?s"
      using False
      by (simp add: now_utc_def bindR_def externR_def answer_def split: option.split sum.split prod.split)
    show ?thesis
    proof (cases r)
      case (Inl e)
      with answer(1) show ?thesis unfolding split by (simp add: bindR_def)
    next
      case (Inr status)
      obtain r' t' where "activate_offer H runtime task settings batch status t = Some (r', t')"
        by (rule endsE [OF ends_activate [OF assms(1)]])
      with answer(1) Inr again show ?thesis
        unfolding split
        by (cases "lrs_state status"; cases "lrs_superseded_by status")
          (simp_all add: bindR_def retR_def liftR_def ok_or_def)
    qed
  qed
qed simp

text \<open>
  C26. Waiting for an offer ends, and never with a permission: when the clock has passed the time to
  live of an offer by the \<open>N\<close>-th external call, the wait is over after at most \<open>N\<close> turns, whatever
  the server answers, and a wait that ends without an error blocks the tool call.
\<close>

theorem waiting_ends:
  assumes "sane_clock H settings"
    and "representable (ho_env H) (ho_clock H (cl_step s) + seconds (as_i64 (offer_ttl_seconds settings)))"
    and "\<forall>n\<ge>N. ho_clock H (cl_step s) + seconds (as_i64 (offer_ttl_seconds settings)) \<le> ho_clock H n" "N < fuel"
  shows "\<exists>r s'. wait_offer H fuel runtime task settings batch s = Some (r, s')
     \<and> (case r of Inl _ \<Rightarrow> True | Inr x \<Rightarrow> \<exists>reason. x = OmpBlock reason)"
proof -
  let ?deadline = "ho_clock H (cl_step s) + seconds (as_i64 (offer_ttl_seconds settings))"
  let ?s = "s\<lparr>cl_step := Suc (cl_step s)\<rparr>"
  have "\<exists>r s'. poll_offer H runtime task settings ?deadline fuel batch ?s = Some (r, s')"
    by (rule poll_offer_ends [OF assms(1,3)]) (use assms(4) in simp_all)
  then obtain r s' where poll: "poll_offer H runtime task settings ?deadline fuel batch ?s = Some (r, s')" by blast
  have "wait_offer H fuel runtime task settings batch s = poll_offer H runtime task settings ?deadline fuel batch ?s"
    using assms(2) by (simp add: wait_offer_def now_utc_def bindR_def externR_def)
  with poll poll_blocks show ?thesis by (auto split: sum.split)
qed

definition late_host :: host where
  "late_host = hook_host\<lparr>ho_clock := (\<lambda>n. seconds (if n = 0 then 48 else 200))\<rparr>"

definition short_lease :: coordination_settings where
  "short_lease = default_settings\<lparr>lease_expiry_seconds := 10\<rparr>"

theorem waiting_ends_witness:
  "\<exists>r s'. wait_offer late_host 2 hook_runtime_file hook_task short_lease ''b'' hook_start = Some (r, s')
     \<and> (case r of Inl _ \<Rightarrow> True | Inr x \<Rightarrow> \<exists>reason. x = OmpBlock reason)"
proof (rule waiting_ends [where N = 1])
  have "of_char (char_of (48 :: nat)) = (48 :: int)" "of_char (char_of (200 :: nat)) = (200 :: int)" by code_simp+
  then show "sane_clock late_host short_lease"
    by (simp add: sane_clock_def late_host_def hook_host_def demo_env_def short_lease_def default_settings_def seconds_def)
qed (simp_all add: late_host_def hook_host_def demo_env_def short_lease_def default_settings_def seconds_def hook_start_def
    as_i64_def)

subsection \<open>Hooks only use the server\<close>

lemma served_steps: "server_step\<^sup>*\<^sup>* sv sv' \<Longrightarrow> served token sv \<Longrightarrow> served token sv'"
  by (induction rule: rtranclp_induct) (auto intro: served.step)



subsection \<open>The Codex gate\<close>

text \<open>
  The specification of the gate: commands that only look, and the owner a command that changes
  something acts for.
\<close>

definition only_looks :: "cli_command \<Rightarrow> bool" where
  "only_looks c \<longleftrightarrow> (\<exists>args. c = SandboxRun args \<and> sa_fs args \<noteq> MutationFs) \<or> (\<exists>q j. c = SandboxProcess q j)
     \<or> c \<in> {StatusCommand, DoctorCommand, ReposList}"

definition acts_for :: "string \<Rightarrow> string \<Rightarrow> cli_command \<Rightarrow> bool" where
  "acts_for task agent c \<longleftrightarrow>
     (\<exists>args. c = SandboxRun args \<and> sa_task_id args = Some task \<and> sa_agent_id args = Some agent)
     \<or> (\<exists>message paths. c = CommitCommand message task agent paths) \<or> (\<exists>batch. c = LeaseRelease batch task agent)"

lemma wrapper_allowed_iff: "wrapper_allowed task agent c \<longleftrightarrow> only_looks c \<or> acts_for task agent c"
  by (cases c) (auto simp: wrapper_allowed_def only_looks_def acts_for_def split: fs_profile.splits)

text \<open>
  C24. The Codex gate is closed: a tool call that is not denied is a \<open>bash\<close> call whose command
  consists of plain words, the first of which resolves to the installed binary itself, and parses
  to a command of the program that only looks, or that acts for the task of this turn and the
  agent of this session. Nothing is sent to the server.
\<close>

theorem codex_gate_closed:
  assumes "handle_pre_tool_use_in_repo H K input s = Some (Inr outcome, s')" "\<nexists>reason. outcome = HookDeny reason"
  shows "\<exists>i name command words binary cli n. parse_codex_input K input = Inr i \<and> outcome = HookAllow
     \<and> cx_tool_name i = Some name \<and> map ascii_lower name = ''bash''
     \<and> json_text (json_get ''command'' (cx_tool_input i)) = Some command
     \<and> split_simple_command_words command = Inr words \<and> words \<noteq> []
     \<and> canonicalize_text H (hd words) (ho_files H n) = Inr binary
     \<and> canonicalize (ho_exe H) (ho_files H (Suc n)) = Inr binary
     \<and> try_parse_from K words = Inr cli
     \<and> (only_looks cli
        \<or> acts_for (hook_id (ho_env H) ''codex-task'' [cx_session_id i, cx_turn_id i]) (''codex:'' @ cx_session_id i) cli)
     \<and> cl_server s' = cl_server s"
proof -
  have lower: "map ascii_lower ''bash'' = ''bash''" by code_simp
  from assms obtain i name u where i: "parse_codex_input K input = Inr i" "cx_tool_name i = Some name"
      "eq_ignore_ascii_case name ''bash''" "outcome = HookAllow"
    and valid: "validate_codex_wrapper_command H K i s = Some (Inr u, s')"
    by (auto simp: handle_pre_tool_use_in_repo_def handle_pre_tool_use_def Let_def elim!: bindR_InrE
        split: if_splits option.splits sum.splits)
  from valid obtain command words binary cli where
    "json_text (json_get ''command'' (cx_tool_input i)) = Some command" "split_simple_command_words command = Inr words"
    "words \<noteq> []" "canonicalize_text H (hd words) (ho_files H (cl_step s)) = Inr binary"
    "canonicalize (ho_exe H) (ho_files H (Suc (cl_step s))) = Inr binary" "try_parse_from K words = Inr cli"
    "wrapper_allowed (hook_id (ho_env H) ''codex-task'' [cx_session_id i, cx_turn_id i]) (''codex:'' @ cx_session_id i) cli"
    "cl_server s' = cl_server s"
    by (auto simp: validate_codex_wrapper_command_def Let_def ok_or_eq_Inr guardE_eq_Inr mapErr_eq_Inr elim!: bindR_InrE)
  with i lower show ?thesis
    unfolding wrapper_allowed_iff eq_ignore_ascii_case_def by (intro exI conjI) simp_all
qed

definition gate_codec :: hook_codec where
  "gate_codec = demo_hook_codec
     \<lparr>parse_codex_input := (\<lambda>t. Inr \<lparr>cx_session_id = ''s'', cx_turn_id = ''u'', cx_tool_name = Some ''Bash'',
        cx_tool_input = JObject [(''command'', JString ''/w/a status'')]\<rparr>),
      try_parse_from := (\<lambda>words. if words = [''/w/a'', ''status''] then Inr StatusCommand else Inl [])\<rparr>"

theorem codex_gate_closed_witness:
  "\<exists>words cli. split_simple_command_words ''/w/a status'' = Inr words \<and> try_parse_from gate_codec words = Inr cli
     \<and> (only_looks cli \<or> acts_for (hook_id demo_env ''codex-task'' [''s'', ''u'']) ''codex:s'' cli)"
proof -
  have "handle_pre_tool_use_in_repo hook_host gate_codec [] (at_step 0 sv) = Some (Inr HookAllow, at_step 2 sv)" for sv
    by code_simp
  from codex_gate_closed [OF this] show ?thesis by (auto simp: gate_codec_def json_text_def split: if_splits)
qed

end
