(* ===== verification/Runtime_Contract.thy ===== *)
theory Runtime_Contract
  imports Hooks
begin

section \<open>The contract with the agent runtimes\<close>

text \<open>
  \<^verbatim>\<open>src/crates/stateful-cli/src/runtime_contract.rs\<close>: which events of the agent runtimes Codex and
  OMP prove what, checked against captured payloads. A payload that does not prove a complete
  read or write leads to \<open>WrapperRequired\<close>.
\<close>

datatype fixture_source = Captured | Handwritten

record 'a runtime_event =
  ev_source :: fixture_source
  ev_runtime :: string
  ev_version :: string
  ev_event_type :: string
  ev_cwd :: string
  ev_event :: 'a

datatype native_tool_support = Supported | WrapperRequired string

record codex_turn_event =
  ct_session_id :: string
  ct_turn_id :: string

record codex_tool_call =
  tl_session_id :: string
  tl_turn_id :: string
  tl_tool_name :: string
  tl_tool_use_id :: string
  tl_tool_input :: json

record codex_tool_result = codex_tool_call +
  tl_tool_response :: json

record omp_agent_start =
  as_event_type :: string
  as_session_id :: string
  as_leaf_agent_id :: string

record omp_agent_end =
  an_event_type :: string
  an_session_id :: string
  an_leaf_agent_id :: string
  an_task_id :: string
  an_will_continue :: bool

record omp_session_shutdown =
  ss_event_type :: string
  ss_session_id :: string
  ss_leaf_agent_id :: string
  ss_task_id :: string

record omp_tool_call =
  oc_event_type :: string
  oc_tool_name :: string
  oc_tool_call_id :: string
  oc_input :: json
  oc_task_id :: "string option"
  oc_leaf_agent_id :: "string option"

record omp_tool_result =
  or_event_type :: string
  or_tool_name :: string
  or_tool_call_id :: string
  or_input :: json
  or_is_error :: bool
  or_content :: json
  or_details :: json
  or_task_id :: "string option"
  or_leaf_agent_id :: "string option"

definition validate_codex_result :: "codex_tool_call \<Rightarrow> codex_tool_result \<Rightarrow> string + unit" where
  "validate_codex_result call result =
     bindE (guardE (tl_session_id call = tl_session_id result) ''Codex session_id changed'') (\<lambda>_.
     bindE (guardE (tl_turn_id call = tl_turn_id result) ''Codex turn_id changed'') (\<lambda>_.
     bindE (guardE (tl_tool_name call = tl_tool_name result) ''Codex tool_name changed'') (\<lambda>_.
     bindE (guardE (tl_tool_use_id call = tl_tool_use_id result) ''Codex tool_use_id changed'') (\<lambda>_.
     guardE (tl_tool_input call = tl_tool_input result) ''Codex tool_input changed''))))"

definition validate_codex_turn_start_stop :: "codex_turn_event \<Rightarrow> codex_turn_event \<Rightarrow> string + unit" where
  "validate_codex_turn_start_stop start stop =
     bindE (guardE (ct_session_id start = ct_session_id stop) ''Codex session_id changed'') (\<lambda>_.
     guardE (ct_turn_id start = ct_turn_id stop) ''Codex turn_id changed'')"

definition codex_native_tool_support :: "string \<Rightarrow> native_tool_support" where
  "codex_native_tool_support tool_name =
     WrapperRequired ''Codex hook payloads do not prove typed terminal status or complete native content; use the Stateful wrapper''"

definition validate_omp_result :: "omp_tool_call \<Rightarrow> omp_tool_result \<Rightarrow> string + unit" where
  "validate_omp_result call result =
     bindE (guardE (oc_tool_call_id call = or_tool_call_id result) ''OMP toolCallId changed'') (\<lambda>_.
     bindE (guardE (oc_tool_name call = or_tool_name result) ''OMP toolName changed'') (\<lambda>_.
     guardE (oc_input call = or_input result) ''OMP input changed''))"

definition validate_omp_event :: "'a runtime_event \<Rightarrow> string \<Rightarrow> string \<Rightarrow> string + unit" where
  "validate_omp_event event outer inner =
     bindE (guardE (ev_runtime event = ''omp'') ''runtime is not OMP'') (\<lambda>_.
     bindE (guardE (ev_version event = ''17.2.3'') ''OMP version is not 17.2.3'') (\<lambda>_.
     bindE (guardE (ev_event_type event = outer) ''OMP outer event type changed'') (\<lambda>_.
     guardE (inner = outer) ''OMP inner event type changed'')))"

definition validate_omp_agent_start :: "omp_agent_start runtime_event \<Rightarrow> string + unit" where
  "validate_omp_agent_start event =
     bindE (validate_omp_event event ''agent_start'' (as_event_type (ev_event event))) (\<lambda>_.
     bindE (guardE (\<not> blank (as_session_id (ev_event event))) ''OMP agent_start lacks sessionId'') (\<lambda>_.
     guardE (\<not> blank (as_leaf_agent_id (ev_event event))) ''OMP agent_start lacks leafAgentId''))"

definition validate_omp_agent_end :: "omp_agent_end runtime_event \<Rightarrow> string + unit" where
  "validate_omp_agent_end event =
     bindE (validate_omp_event event ''agent_end'' (an_event_type (ev_event event))) (\<lambda>_.
     bindE (guardE (\<not> blank (an_session_id (ev_event event))) ''OMP agent_end lacks sessionId'') (\<lambda>_.
     bindE (guardE (\<not> blank (an_leaf_agent_id (ev_event event))) ''OMP agent_end lacks leafAgentId'') (\<lambda>_.
     guardE (\<not> blank (an_task_id (ev_event event))) ''OMP agent_end lacks task_id'')))"

definition validate_omp_session_shutdown :: "omp_session_shutdown runtime_event \<Rightarrow> string + unit" where
  "validate_omp_session_shutdown event =
     bindE (validate_omp_event event ''session_shutdown'' (ss_event_type (ev_event event))) (\<lambda>_.
     bindE (guardE (\<not> blank (ss_session_id (ev_event event))) ''OMP session_shutdown lacks sessionId'') (\<lambda>_.
     bindE (guardE (\<not> blank (ss_leaf_agent_id (ev_event event))) ''OMP session_shutdown lacks leafAgentId'') (\<lambda>_.
     guardE (\<not> blank (ss_task_id (ev_event event))) ''OMP session_shutdown lacks task_id'')))"

definition is_same_captured_omp_version :: "'a runtime_event \<Rightarrow> 'b runtime_event \<Rightarrow> bool" where
  "is_same_captured_omp_version left right \<longleftrightarrow>
     ev_source left = Captured \<and> ev_source right = Captured \<and> ev_runtime left = ''omp'' \<and> ev_runtime right = ''omp''
     \<and> ev_version left = ''17.2.3'' \<and> ev_version right = ''17.2.3''"

text \<open>The content of a read result: an array with exactly one text entry.\<close>

definition content_text :: "json \<Rightarrow> string + string" where
  "content_text content =
     (case content of
        JArray [entry] \<Rightarrow>
          ok_or ''OMP read result is not one exact text payload''
            (if json_text (json_get ''type'' entry) = Some ''text'' then json_text (json_get ''text'' entry) else None)
      | JArray _ \<Rightarrow> Inl ''OMP read result is not one exact text payload''
      | _ \<Rightarrow> Inl ''OMP read content is not an array'')"

definition source_path :: "json \<Rightarrow> string option" where
  "source_path details =
     (case json_pointer [''meta'', ''source''] details of
        None \<Rightarrow> None
      | Some source \<Rightarrow>
          if json_text (json_get ''type'' source) = Some ''path'' then json_text (json_get ''value'' source) else None)"

definition omp_native_read_support ::
  "omp_tool_call runtime_event \<Rightarrow> omp_tool_result runtime_event \<Rightarrow> native_tool_support" where
  "omp_native_read_support call result =
     (let c = ev_event call; r = ev_event result; details = or_details r in
      if \<not> is_same_captured_omp_version call result
      then WrapperRequired ''OMP payload was not captured from one runtime version''
      else if ev_event_type call \<noteq> ''tool_call'' \<or> ev_event_type result \<noteq> ''tool_result''
      then WrapperRequired ''OMP tool event type is invalid''
      else if \<not> is_ok (validate_omp_result c r)
      then WrapperRequired ''OMP tool_call/tool_result correlation failed''
      else if oc_event_type c \<noteq> ''tool_call'' \<or> or_event_type r \<noteq> ''tool_result''
      then WrapperRequired ''OMP nested tool event type is invalid''
      else if oc_tool_name c \<noteq> ''read'' \<or> or_is_error r
      then WrapperRequired ''OMP result is not a successful native read''
      else case json_text (json_get ''path'' (oc_input c)) of
        None \<Rightarrow> WrapperRequired ''OMP read path is missing''
      | Some path \<Rightarrow>
          if \<not> ends_with path '':raw'' \<or> json_get ''offset'' (oc_input c) \<noteq> None
             \<or> json_get ''limit'' (oc_input c) \<noteq> None
          then WrapperRequired ''OMP read is not an unrestricted :raw read''
          else case source_path details of
            None \<Rightarrow> WrapperRequired ''OMP read result lacks path source metadata''
          | Some source \<Rightarrow>
              if source = [] \<or> non_null (json_get ''truncation'' details)
                 \<or> non_null (json_pointer [''meta'', ''truncation''] details)
                 \<or> non_null (json_pointer [''meta'', ''limits''] details)
              then WrapperRequired ''OMP read result is truncated or not path-backed''
              else case content_text (or_content r) of
                Inl e \<Rightarrow> WrapperRequired e
              | Inr text \<Rightarrow>
                  if Option.bind (json_get ''fileSize'' details) as_u64 \<noteq> Some (length text)
                     \<or> json_text (json_pointer [''displayContent'', ''text''] details) \<noteq> Some text
                  then WrapperRequired ''OMP read output differs from its file size or display payload''
                  else Supported)"

definition omp_native_write_support ::
  "omp_tool_call runtime_event \<Rightarrow> omp_tool_result runtime_event \<Rightarrow> native_tool_support" where
  "omp_native_write_support call result =
     (let c = ev_event call; r = ev_event result in
      if \<not> is_same_captured_omp_version call result
      then WrapperRequired ''OMP payload was not captured from one runtime version''
      else if ev_event_type call \<noteq> ''tool_call'' \<or> ev_event_type result \<noteq> ''tool_result''
              \<or> oc_event_type c \<noteq> ''tool_call'' \<or> or_event_type r \<noteq> ''tool_result''
      then WrapperRequired ''OMP tool event type is invalid''
      else if \<not> is_ok (validate_omp_result c r)
      then WrapperRequired ''OMP tool_call/tool_result correlation failed''
      else if oc_tool_name c \<noteq> ''write'' \<or> or_is_error r
      then WrapperRequired ''OMP result is not a successful native write''
      else case json_text (json_get ''resolvedPath'' (or_details r)) of
        None \<Rightarrow> WrapperRequired ''OMP write result lacks resolvedPath''
      | Some path \<Rightarrow>
          if path = [] then WrapperRequired ''OMP write result lacks resolvedPath'' else Supported)"

end
