(* ===== verification/Repo_Registry.thy ===== *)
theory Repo_Registry
  imports Hooks
begin

section \<open>Enabled repositories\<close>

text \<open>
  \<^verbatim>\<open>src/crates/stateful-cli/src/global_paths.rs\<close> and \<^verbatim>\<open>repo_registry.rs\<close>: where the global files are,
  which repositories are enabled, and the gate every wrapper command passes. The registry is a
  YAML file; \<^verbatim>\<open>serde_yaml\<close> and \<^verbatim>\<open>serde_json\<close> are the record \<open>registry_codec\<close>. A message of
  \<open>with_context\<close> replaces the text of the error it wraps. Paths are absolute here; a relative
  \<^verbatim>\<open>STATEFUL_HOME\<close> is taken from the working directory, as the system calls do.
\<close>

record global_paths =
  gp_home :: "string list"
  gp_config_yml :: "string list"
  gp_state_db :: "string list"
  gp_runtime_dir :: "string list"
  gp_server_json :: "string list"
  gp_server_lock :: "string list"
  gp_server_log :: "string list"
  gp_repos_dir :: "string list"

record repo_entry =
  rg_repo_id :: string
  rg_root :: string
  rg_enabled :: bool
  rg_enabled_at :: string
  rg_policy_config_path :: string
  rg_policy_revision :: nat

record legacy_repo_entry = repo_entry +
  lg_allowed_tools :: "string list"
  lg_unclassified_tools :: "string list"

record repo_identity =
  rt_repo_id :: string
  rt_worktree_id :: string
  rt_root :: string
  rt_branch :: string

datatype repo_gate = EnabledRepo "string list" | DisabledRepo | OutsideGitRepo

record registry_codec =
  yaml_registry :: "string \<Rightarrow> string + repo_entry list"
  yaml_legacy_registry :: "string \<Rightarrow> string + legacy_repo_entry list"
  registry_yaml :: "repo_entry list \<Rightarrow> string + string"
  entry_json :: "repo_entry \<Rightarrow> string + string"

subsection \<open>Global paths\<close>

definition global_paths_new :: "string list \<Rightarrow> global_paths" where
  "global_paths_new home =
     (let runtime_dir = home @ [''runtime''] in
      \<lparr>gp_home = home, gp_config_yml = home @ [''config.yml''], gp_state_db = home @ [''state.db''],
       gp_runtime_dir = runtime_dir, gp_server_json = runtime_dir @ [''server.json''],
       gp_server_lock = runtime_dir @ [''server.lock''], gp_server_log = runtime_dir @ [''server.log''],
       gp_repos_dir = home @ [''repos'']\<rparr>)"

definition global_paths_from_env :: "host \<Rightarrow> string + global_paths" where
  "global_paths_from_env H =
     (case map_of (ho_environ H) ''STATEFUL_HOME'' of
        Some path \<Rightarrow>
          if path = [] then Inl ''STATEFUL_HOME is set but empty''
          else Inr (global_paths_new (path_of_text H path))
      | None \<Rightarrow>
          bindE (ok_or ''HOME is not set; set STATEFUL_HOME'' (map_of (ho_environ H) ''HOME'')) (\<lambda>home.
          if home = [] then Inl ''HOME is set but empty; set STATEFUL_HOME''
          else Inr (global_paths_new (path_of_text H home @ [''.stateful_core'']))))"

definition discover_runtime_with_optional_global ::
  "host \<Rightarrow> string list \<Rightarrow> (string, server_runtime) run" where
  "discover_runtime_with_optional_global H repo_root =
     (case global_paths_from_env H of
        Inr paths \<Rightarrow> discover_runtime_with_global H repo_root (gp_server_json paths)
      | Inl _ \<Rightarrow> discover_runtime H repo_root)"

subsection \<open>Helpers\<close>

definition display :: "string list \<Rightarrow> string" where
  "display path = utf8_lossy (path_text path)"

text \<open>\<open>with_context\<close>, and \<open>?\<close> on an error of the standard library.\<close>

definition contextR :: "string \<Rightarrow> ('e, 'a) run \<Rightarrow> (string, 'a) run" where
  "contextR message m = mapErrR (\<lambda>_. message) m"

definition ioR :: "(io_error, 'a) run \<Rightarrow> (string, 'a) run" where
  "ioR m = mapErrR io_error_text m"

definition readR :: "host \<Rightarrow> (fs \<Rightarrow> io_error + 'a) \<Rightarrow> (io_error, 'a) run" where
  "readR H f = bindR (fileR H f) liftR"

definition changeS :: "host \<Rightarrow> file_action \<Rightarrow> (string, unit) run" where
  "changeS H a = ioR (changeR H a)"

definition readS :: "host \<Rightarrow> (fs \<Rightarrow> io_error + 'a) \<Rightarrow> (string, 'a) run" where
  "readS H f = ioR (readR H f)"

text \<open>A value that is dropped at the end, a loop with \<open>?\<close> in its body, and \<open>fs::read\<close>.\<close>

definition finallyR :: "('e, 'a) run \<Rightarrow> ('f, 'b) run \<Rightarrow> ('e, 'a) run" where
  "finallyR m cleanup = bindR (tryR m) (\<lambda>r. bindR (tryR cleanup) (\<lambda>_. liftR r))"

fun forR :: "('a \<Rightarrow> ('e, unit) run) \<Rightarrow> 'a list \<Rightarrow> ('e, unit) run" where
  "forR f [] = retR ()"
| "forR f (x # xs) = bindR (f x) (\<lambda>_. forR f xs)"

definition read_bytes :: "string list \<Rightarrow> fs \<Rightarrow> io_error + string" where
  "read_bytes path F =
     bindE (file_open path F) (\<lambda>i.
     bindE (node_at F i) (\<lambda>n.
     case nd_body n of
       FileNode bytes \<Rightarrow> Inr bytes
     | DirNode _ _ \<Rightarrow> Inl IsADirectoryIo
     | _ \<Rightarrow> Inl InvalidInputIo))"

definition current_unix_timestamp :: "host \<Rightarrow> (string, string) run" where
  "current_unix_timestamp H =
     bindR (now_utc H) (\<lambda>now.
     if now < 0 then failR ''system clock is before unix epoch''
     else retR (nat_digits (nat (now div seconds 1))))"

definition registry_temp_path :: "host \<Rightarrow> global_paths \<Rightarrow> (string, string list) run" where
  "registry_temp_path H paths =
     (if gp_config_yml paths = [] then failR ''global config path has no parent''
      else if \<not> utf8_valid (last (gp_config_yml paths))
      then failR ''global config file name is not valid UTF-8''
      else
        bindR (now_utc H) (\<lambda>now.
        if now < 0 then failR ''system clock is before unix epoch''
        else retR (butlast (gp_config_yml paths)
          @ [''.'' @ last (gp_config_yml paths) @ ''.'' @ nat_digits (ho_pid H) @ ''.''
             @ nat_digits (nat now) @ ''.tmp''])))"

definition repo_id_for_root :: "host \<Rightarrow> string list \<Rightarrow> string" where
  "repo_id_for_root H root =
     ''repo-'' @ cd_value (digest_bytes (blake3_hex (ho_env H)) (display root))"

definition workspace_id_for_repo_id :: "string \<Rightarrow> string" where
  "workspace_id_for_repo_id repo_id =
     ''workspace-'' @ (case strip_prefix ''repo-'' repo_id of None \<Rightarrow> repo_id | Some rest \<Rightarrow> rest)"

definition default_config_yml :: string where
  "default_config_yml =
     ''protocol_version: stateful.v2'' @ [CHR 0x0A]
     @ ''heartbeat_interval_seconds: 1'' @ [CHR 0x0A]
     @ ''inactivity_timeout_seconds: 5'' @ [CHR 0x0A]
     @ ''lease_expiry_seconds: 60'' @ [CHR 0x0A]
     @ ''offer_ttl_seconds: 120'' @ [CHR 0x0A] @ ''    ''"

definition plain_git :: "string list \<Rightarrow> string list \<Rightarrow> process" where
  "plain_git cwd args =
     \<lparr>pr_program = ''git'', pr_args = args, pr_cwd = Some cwd, pr_env = [], pr_stdin = None\<rparr>"

definition registry_branch :: "host \<Rightarrow> string list \<Rightarrow> ('e, string option) run" where
  "registry_branch H repo_root =
     bindR (tryR (outputR H (plain_git repo_root [''branch'', ''--show-current'']))) (\<lambda>r.
     retR (case r of
       Inl _ \<Rightarrow> None
     | Inr out \<Rightarrow>
         if \<not> po_success out \<or> \<not> utf8_valid (po_stdout out) \<or> trim (po_stdout out) = [] then None
         else Some (trim (po_stdout out))))"

subsection \<open>The registry\<close>

definition load_registry :: "host \<Rightarrow> registry_codec \<Rightarrow> global_paths \<Rightarrow> (string, repo_entry list) run" where
  "load_registry H K paths =
     (let config = gp_config_yml paths in
      bindR (fileR H (path_exists config)) (\<lambda>exists.
      if \<not> exists then retR []
      else
        bindR (contextR (''failed to read repo registry config '' @ display config)
                 (readR H (read_to_string config))) (\<lambda>text.
        if blank text then retR []
        else contextR (''failed to parse repo registry config '' @ display config)
               (liftR (yaml_registry K text)))))"

definition save_registry ::
  "host \<Rightarrow> registry_codec \<Rightarrow> global_paths \<Rightarrow> repo_entry list \<Rightarrow> (string, unit) run" where
  "save_registry H K paths registry =
     (let config = gp_config_yml paths in
      bindR (if config = [] then retR ()
             else contextR (''failed to create global config directory '' @ display (butlast config))
                    (changeR H (CreateDirAll (butlast config)))) (\<lambda>_.
      bindR (contextR ''failed to serialize repo registry'' (liftR (registry_yaml K registry))) (\<lambda>text.
      bindR (registry_temp_path H paths) (\<lambda>temp_path.
      bindR (contextR (''failed to write temporary registry '' @ display temp_path)
               (changeR H (WriteFile temp_path text))) (\<lambda>_.
      contextR (''failed to replace repo registry config '' @ display config)
        (changeR H (RenamePath temp_path config)))))))"

text \<open>\<open>From<LegacyRepoEntry> for RepoEntry\<close> keeps the fields of the new format.\<close>

definition repo_entry_of :: "legacy_repo_entry \<Rightarrow> repo_entry" where
  "repo_entry_of e =
     \<lparr>rg_repo_id = rg_repo_id e, rg_root = rg_root e, rg_enabled = rg_enabled e,
      rg_enabled_at = rg_enabled_at e, rg_policy_config_path = rg_policy_config_path e,
      rg_policy_revision = rg_policy_revision e\<rparr>"

definition migrate_legacy_writer_policy ::
  "host \<Rightarrow> registry_codec \<Rightarrow> global_paths \<Rightarrow> (string, unit) run" where
  "migrate_legacy_writer_policy H K paths =
     (let config = gp_config_yml paths in
      bindR (contextR (''failed to read repo registry config '' @ display config)
               (readR H (read_to_string config))) (\<lambda>text.
      if blank text \<or> is_ok (yaml_registry K text) then retR ()
      else
        bindR (contextR (''failed to parse repo registry config '' @ display config)
                 (liftR (yaml_legacy_registry K text))) (\<lambda>legacy.
        save_registry H K paths (map repo_entry_of legacy))))"

text \<open>\<open>PathBuf\<close>s are equal when their components are.\<close>

definition root_matches :: "string list \<Rightarrow> repo_entry \<Rightarrow> bool" where
  "root_matches root entry \<longleftrightarrow> components (rg_root entry) = components (path_text root)"

definition enabled_entry :: "host \<Rightarrow> repo_entry list \<Rightarrow> string list \<Rightarrow> ('e, repo_entry option) run" where
  "enabled_entry H registry repo_root =
     bindR (fileR H (canonicalize repo_root)) (\<lambda>r.
     retR (case r of
       Inl _ \<Rightarrow> None
     | Inr root \<Rightarrow> find (\<lambda>entry. rg_enabled entry \<and> root_matches root entry) registry))"

definition is_enabled :: "host \<Rightarrow> repo_entry list \<Rightarrow> string list \<Rightarrow> ('e, bool) run" where
  "is_enabled H registry repo_root =
     bindR (enabled_entry H registry repo_root) (\<lambda>entry. retR (entry \<noteq> None))"

text \<open>Upwards from a directory to the first one with a \<^verbatim>\<open>.git\<close>; the path is reversed.\<close>

fun climb_to_git :: "host \<Rightarrow> string \<Rightarrow> string list \<Rightarrow> (string, string list) run" where
  "climb_to_git H start [] =
     bindR (fileR H (path_exists [''.git''])) (\<lambda>found.
     if found then retR [] else failR (''no git root found from '' @ start))"
| "climb_to_git H start (c # cs) =
     bindR (fileR H (path_exists (rev (c # cs) @ [''.git'']))) (\<lambda>found.
     if found then retR (rev (c # cs)) else climb_to_git H start cs)"

definition detect_git_root :: "host \<Rightarrow> string list \<Rightarrow> (string, string list) run" where
  "detect_git_root H start =
     bindR (contextR (''failed to canonicalize '' @ display start) (readR H (canonicalize start))) (\<lambda>canonical.
     bindR (fileR H (path_is_file canonical)) (\<lambda>is_file.
     climb_to_git H (display start) (rev (if is_file then butlast canonical else canonical))))"

definition repo_gate :: "host \<Rightarrow> registry_codec \<Rightarrow> global_paths \<Rightarrow> string list \<Rightarrow> (string, repo_gate) run" where
  "repo_gate H K paths start =
     bindR (tryR (detect_git_root H start)) (\<lambda>r.
     case r of
       Inl _ \<Rightarrow> retR OutsideGitRepo
     | Inr root \<Rightarrow>
         bindR (load_registry H K paths) (\<lambda>registry.
         bindR (is_enabled H registry root) (\<lambda>enabled.
         retR (if enabled then EnabledRepo root else DisabledRepo))))"

definition repo_identity_for_enabled_repo ::
  "host \<Rightarrow> registry_codec \<Rightarrow> global_paths \<Rightarrow> string list \<Rightarrow> (string, repo_identity) run" where
  "repo_identity_for_enabled_repo H K paths start =
     bindR (detect_git_root H start) (\<lambda>repo_root.
     bindR (load_registry H K paths) (\<lambda>registry.
     bindR (enabled_entry H registry repo_root) (\<lambda>found.
     bindR (liftR (ok_or ''enabled repo metadata not found'' found)) (\<lambda>entry.
     bindR (registry_branch H repo_root) (\<lambda>branch.
     retR \<lparr>rt_repo_id = rg_repo_id entry, rt_worktree_id = rg_repo_id entry,
           rt_root = utf8_lossy (rg_root entry),
           rt_branch = (case branch of None \<Rightarrow> ''unknown'' | Some b \<Rightarrow> b)\<rparr>)))))"

definition workspace_id_for_enabled_repo ::
  "host \<Rightarrow> registry_codec \<Rightarrow> global_paths \<Rightarrow> string list \<Rightarrow> (string, string) run" where
  "workspace_id_for_enabled_repo H K paths start =
     bindR (detect_git_root H start) (\<lambda>repo_root.
     bindR (load_registry H K paths) (\<lambda>registry.
     bindR (enabled_entry H registry repo_root) (\<lambda>found.
     bindR (liftR (ok_or ''enabled repo metadata not found'' found)) (\<lambda>entry.
     retR (workspace_id_for_repo_id (rg_repo_id entry))))))"

subsection \<open>Enabling and disabling\<close>

definition ensure_repo_configs :: "host \<Rightarrow> string list \<Rightarrow> (string, unit) run" where
  "ensure_repo_configs H root =
     (let stateful_dir = root @ [''.stateful'']; policy_config = stateful_dir @ [''config.yml''] in
      bindR (contextR (''failed to create '' @ display stateful_dir) (changeR H (CreateDirAll stateful_dir))) (\<lambda>_.
      bindR (fileR H (path_exists policy_config)) (\<lambda>exists.
      if exists then retR ()
      else contextR (''failed to write '' @ display policy_config)
             (changeR H (WriteFile policy_config default_config_yml)))))"

definition write_repo_metadata ::
  "host \<Rightarrow> registry_codec \<Rightarrow> global_paths \<Rightarrow> repo_entry \<Rightarrow> (string, unit) run" where
  "write_repo_metadata H K paths entry =
     (let metadata_path = gp_repos_dir paths @ [rg_repo_id entry @ ''.json''] in
      bindR (contextR (''failed to create repo metadata directory '' @ display (gp_repos_dir paths))
               (changeR H (CreateDirAll (gp_repos_dir paths)))) (\<lambda>_.
      bindR (contextR ''failed to serialize repo metadata'' (liftR (entry_json K entry))) (\<lambda>metadata.
      contextR (''failed to write '' @ display metadata_path)
        (changeR H (WriteFile metadata_path (metadata @ [CHR 0x0A]))))))"

definition saturating_succ_u64 :: "nat \<Rightarrow> nat" where
  "saturating_succ_u64 n = min (Suc n) (2 ^ 64 - 1)"

definition entry_matches :: "string \<Rightarrow> string list \<Rightarrow> repo_entry \<Rightarrow> bool" where
  "entry_matches repo_id root existing \<longleftrightarrow> rg_repo_id existing = repo_id \<or> root_matches root existing"

definition next_policy_revision :: "string \<Rightarrow> string list \<Rightarrow> repo_entry list \<Rightarrow> nat" where
  "next_policy_revision repo_id root registry =
     (case find (entry_matches repo_id root) registry of
        None \<Rightarrow> 1
      | Some existing \<Rightarrow> saturating_succ_u64 (rg_policy_revision existing))"

text \<open>\<open>iter_mut().find(...)\<close> and the assignment: the first match is replaced.\<close>

fun update_first :: "('a \<Rightarrow> bool) \<Rightarrow> ('a \<Rightarrow> 'a) \<Rightarrow> 'a list \<Rightarrow> 'a list" where
  "update_first P f [] = []"
| "update_first P f (x # xs) = (if P x then f x # xs else x # update_first P f xs)"

definition upsert_entry :: "string list \<Rightarrow> repo_entry \<Rightarrow> repo_entry list \<Rightarrow> repo_entry list" where
  "upsert_entry root entry registry =
     (let P = entry_matches (rg_repo_id entry) root in
      if list_ex P registry then update_first P (\<lambda>_. entry) registry else registry @ [entry])"

definition enable_repo ::
  "host \<Rightarrow> registry_codec \<Rightarrow> global_paths \<Rightarrow> string list \<Rightarrow> (string, repo_entry) run" where
  "enable_repo H K paths repo =
     bindR (detect_git_root H repo) (\<lambda>root.
     bindR (ensure_repo_configs H root) (\<lambda>_.
     let repo_id = repo_id_for_root H root in
     bindR (load_registry H K paths) (\<lambda>registry.
     bindR (current_unix_timestamp H) (\<lambda>enabled_at.
     let entry = \<lparr>rg_repo_id = repo_id, rg_root = path_text root, rg_enabled = True, rg_enabled_at = enabled_at,
           rg_policy_config_path = path_text (root @ [''.stateful'', ''config.yml'']),
           rg_policy_revision = next_policy_revision repo_id root registry\<rparr> in
     bindR (save_registry H K paths (upsert_entry root entry registry)) (\<lambda>_.
     bindR (write_repo_metadata H K paths entry) (\<lambda>_. retR entry))))))"

definition disable_entries :: "string list \<Rightarrow> repo_entry list \<Rightarrow> repo_entry list" where
  "disable_entries root registry = update_first (root_matches root) (\<lambda>entry. entry\<lparr>rg_enabled := False\<rparr>) registry"

definition disable_repo ::
  "host \<Rightarrow> registry_codec \<Rightarrow> global_paths \<Rightarrow> string list \<Rightarrow> (string, repo_entry) run" where
  "disable_repo H K paths repo =
     bindR (detect_git_root H repo) (\<lambda>root.
     bindR (load_registry H K paths) (\<lambda>registry.
     bindR (liftR (ok_or (''repo is not registered: '' @ display root) (find (root_matches root) registry))) (\<lambda>entry.
     let disabled = entry\<lparr>rg_enabled := False\<rparr> in
     bindR (save_registry H K paths (disable_entries root registry)) (\<lambda>_.
     bindR (write_repo_metadata H K paths disabled) (\<lambda>_. retR disabled)))))"

end
