(* ===== verification/Registry_Properties.thy ===== *)
theory Registry_Properties
  imports Repo_Registry
begin

section \<open>The registry of repositories\<close>

text \<open>
  Enabling and disabling repositories in \<^verbatim>\<open>repo_registry.rs\<close>. The locale \<open>switches\<close> states what the gate of the
  tools relies on: what is found after a repository was enabled or disabled. It is interpreted for the list of
  entries that the registry file holds.
\<close>

locale switches =
  fixes enabled :: "'r \<Rightarrow> 's \<Rightarrow> 'e option" and enable :: "'r \<Rightarrow> 'e \<Rightarrow> 's \<Rightarrow> 's" and disable :: "'r \<Rightarrow> 's \<Rightarrow> 's"
    and ok :: "'s \<Rightarrow> bool" and fits :: "'r \<Rightarrow> 'e \<Rightarrow> 's \<Rightarrow> bool" and same :: "'r \<Rightarrow> 'r \<Rightarrow> bool"
  assumes enable_ok: "ok s \<Longrightarrow> fits r e s \<Longrightarrow> ok (enable r e s)"
    and disable_ok: "ok s \<Longrightarrow> ok (disable r s)"
    and enabled_enable: "ok s \<Longrightarrow> fits r e s \<Longrightarrow> enabled r (enable r e s) = Some e"
    and enabled_disable: "ok s \<Longrightarrow> enabled r (disable r s) = None"
    and enable_other: "ok s \<Longrightarrow> fits r e s \<Longrightarrow> \<not> same r' r \<Longrightarrow> enabled r' (enable r e s) = enabled r' s"
    and disable_other: "ok s \<Longrightarrow> \<not> same r' r \<Longrightarrow> enabled r' (disable r s) = enabled r' s"
begin

lemma switched_off: "ok s \<Longrightarrow> fits r e s \<Longrightarrow> enabled r (disable r (enable r e s)) = None"
  by (rule enabled_disable [OF enable_ok])

lemma switched_other: "ok s \<Longrightarrow> fits r e s \<Longrightarrow> \<not> same r' r \<Longrightarrow> enabled r' (disable r (enable r e s)) = enabled r' s"
  by (simp add: disable_other enable_ok enable_other)

end

subsection \<open>Entries\<close>

abbreviation root_of :: "repo_entry \<Rightarrow> path_component list" where
  "root_of entry \<equiv> components (rg_root entry)"

definition same_root :: "string list \<Rightarrow> string list \<Rightarrow> bool" where
  "same_root r r' \<longleftrightarrow> components (path_text r) = components (path_text r')"

text \<open>What \<open>enabled_entry\<close> looks for once the path is canonical.\<close>

definition registered :: "string list \<Rightarrow> repo_entry list \<Rightarrow> repo_entry option" where
  "registered root registry = find (\<lambda>entry. rg_enabled entry \<and> root_matches root entry) registry"

text \<open>One entry per root, and identifiers that stand for roots, as the hash of the root gives them.\<close>

definition registry_ok :: "repo_entry list \<Rightarrow> bool" where
  "registry_ok registry \<longleftrightarrow> distinct (map root_of registry) \<and> distinct (map rg_repo_id registry)"

definition entry_fits :: "string list \<Rightarrow> repo_entry \<Rightarrow> repo_entry list \<Rightarrow> bool" where
  "entry_fits root entry registry \<longleftrightarrow> rg_enabled entry \<and> root_matches root entry
     \<and> (\<forall>e \<in> set registry. rg_repo_id e = rg_repo_id entry \<longleftrightarrow> root_of e = root_of entry)"

lemma update_first_map:
  assumes "distinct (map key xs)" "\<And>x. x \<in> set xs \<Longrightarrow> P x \<longleftrightarrow> key x = k"
  shows "update_first P f xs = map (\<lambda>x. if key x = k then f x else x) xs"
  using assms
proof (induction xs)
  case (Cons x xs)
  have "map (\<lambda>y. if key y = k then f y else y) xs = xs" if "key x = k"
    using that Cons.prems(1) by (auto intro!: map_idI) (metis image_eqI)
  with Cons show ?case by auto
qed simp

lemma upsert_fitting:
  assumes "registry_ok registry" "entry_fits root entry registry"
  shows "upsert_entry root entry registry =
    (if root_of entry \<in> set (map root_of registry) then map (\<lambda>e. if root_of e = root_of entry then entry else e) registry
     else registry @ [entry])"
proof -
  have P: "entry_matches (rg_repo_id entry) root e \<longleftrightarrow> root_of e = root_of entry" if "e \<in> set registry" for e
    using that assms(2) by (auto simp: entry_matches_def entry_fits_def root_matches_def)
  have "list_ex (entry_matches (rg_repo_id entry) root) registry \<longleftrightarrow> root_of entry \<in> set (map root_of registry)"
    using P by (auto simp: list_ex_iff image_iff) metis
  moreover have "update_first (entry_matches (rg_repo_id entry) root) (\<lambda>_. entry) registry
      = map (\<lambda>e. if root_of e = root_of entry then entry else e) registry"
    by (rule update_first_map [of root_of]) (use assms(1) P in \<open>auto simp: registry_ok_def\<close>)
  ultimately show ?thesis by (simp add: upsert_entry_def Let_def)
qed

lemma disable_matching:
  assumes "registry_ok registry"
  shows "disable_entries root registry
    = map (\<lambda>e. if root_of e = components (path_text root) then e\<lparr>rg_enabled := False\<rparr> else e) registry"
  unfolding disable_entries_def
  by (rule update_first_map) (use assms in \<open>auto simp: registry_ok_def root_matches_def\<close>)

lemma registered_iff:
  assumes "registry_ok registry"
  shows "registered root registry = Some e \<longleftrightarrow> e \<in> set registry \<and> rg_enabled e \<and> root_matches root e"
proof -
  have "find (\<lambda>entry. rg_enabled entry \<and> root_matches root entry) registry = Some e
      \<longleftrightarrow> e \<in> set registry \<and> rg_enabled e \<and> root_matches root e" if "distinct (map root_of registry)"
    using that by (induction registry) (auto simp: root_matches_def image_iff)
  with assms show ?thesis by (simp add: registered_def registry_ok_def)
qed

lemma registered_None: "registered root registry = None \<longleftrightarrow> (\<forall>e \<in> set registry. \<not> (rg_enabled e \<and> root_matches root e))"
  by (auto simp: registered_def find_None_iff)

lemma mapped_ok:
  assumes "registry_ok registry" "\<And>e. e \<in> set registry \<Longrightarrow> root_of (f e) = root_of e \<and> rg_repo_id (f e) = rg_repo_id e"
  shows "registry_ok (map f registry)"
proof -
  have "map root_of (map f registry) = map root_of registry" "map rg_repo_id (map f registry) = map rg_repo_id registry"
    using assms(2) by auto
  with assms(1) show ?thesis unfolding registry_ok_def by metis
qed

lemma upsert_ok:
  assumes "registry_ok registry" "entry_fits root entry registry"
  shows "registry_ok (upsert_entry root entry registry)"
proof (cases "root_of entry \<in> set (map root_of registry)")
  case True
  have "registry_ok (map (\<lambda>e. if root_of e = root_of entry then entry else e) registry)"
    by (rule mapped_ok [OF assms(1)]) (use assms(2) in \<open>auto simp: entry_fits_def\<close>)
  with True assms show ?thesis by (simp add: upsert_fitting)
next
  case False
  then have "root_of e \<noteq> root_of entry" if "e \<in> set registry" for e using that by (auto simp: image_iff)
  then have "rg_repo_id entry \<notin> rg_repo_id ` set registry" using assms(2) by (auto simp: entry_fits_def image_iff)
  with assms False show ?thesis by (simp add: upsert_fitting registry_ok_def)
qed

lemma disable_entries_ok: "registry_ok registry \<Longrightarrow> registry_ok (disable_entries root registry)"
  by (simp add: disable_matching) (rule mapped_ok, auto)

lemma option_eqI: "(\<And>x. m = Some x \<longleftrightarrow> n = Some x) \<Longrightarrow> m = n"
  by (cases m; cases n) auto

interpretation registry: switches registered upsert_entry disable_entries registry_ok entry_fits same_root
proof unfold_locales
  fix s r e assume ok: "registry_ok s" and fits: "entry_fits r e s"
  show ok': "registry_ok (upsert_entry r e s)" by (rule upsert_ok [OF ok fits])
  have members: "x \<in> set (upsert_entry r e s) \<longleftrightarrow> x = e \<or> x \<in> set s \<and> root_of x \<noteq> root_of e" for x
    using ok fits by (auto simp: upsert_fitting image_iff)
  show "registered r (upsert_entry r e s) = Some e"
    using fits by (simp add: registered_iff [OF ok'] members entry_fits_def)
  show "registered r' (upsert_entry r e s) = registered r' s" if "\<not> same_root r' r" for r'
    by (rule option_eqI) (use fits that in \<open>auto simp: registered_iff [OF ok] registered_iff [OF ok'] members entry_fits_def same_root_def root_matches_def\<close>)
next
  fix s r assume ok: "registry_ok s"
  show ok': "registry_ok (disable_entries r s)" by (rule disable_entries_ok [OF ok])
  show "registered r (disable_entries r s) = None"
    using ok by (auto simp: registered_None disable_matching root_matches_def)
  have members: "x \<in> set (disable_entries r s) \<longleftrightarrow> (\<exists>e \<in> set s. x = (if root_of e = components (path_text r) then e\<lparr>rg_enabled := False\<rparr> else e))" for x
    by (auto simp: disable_matching [OF ok])
  show "registered r' (disable_entries r s) = registered r' s" if "\<not> same_root r' r" for r'
    by (rule option_eqI) (use that in \<open>auto simp: registered_iff [OF ok] registered_iff [OF ok'] members same_root_def root_matches_def\<close>, metis)
qed


definition example_entry :: "string \<Rightarrow> string \<Rightarrow> nat \<Rightarrow> repo_entry" where
  "example_entry name root revision =
     \<lparr>rg_repo_id = name, rg_root = root, rg_enabled = True, rg_enabled_at = ''0'', rg_policy_config_path = [], rg_policy_revision = revision\<rparr>"


end
