(* ===== verification/Sandbox_Launch.thy ===== *)
theory Sandbox_Launch
  imports Repo_Registry
begin

section \<open>Launching a sandboxed command\<close>

text \<open>
  The part of \<^verbatim>\<open>src/crates/stateful-cli/src/sandbox.rs\<close> that builds the process of a sandboxed
  command on Linux (the arguments of \<^verbatim>\<open>bwrap\<close>, the environment, the Git configuration of the git
  profile) and supervises it: it waits for the child, a signal or the deadline, and ends the
  process group. \<^verbatim>\<open>bwrap\<close>, \<^verbatim>\<open>git\<close> and \<^verbatim>\<open>kill\<close> are programs of the host; the variant for macOS is
  compiled only there.
\<close>

datatype writable_path_kind = WritableFile | WritableDirectory

record sandbox_writable_path =
  sw_path :: "string list"
  sw_kind :: writable_path_kind

definition writable_file :: "string list \<Rightarrow> sandbox_writable_path" where
  "writable_file path = \<lparr>sw_path = path, sw_kind = WritableFile\<rparr>"

definition writable_directory :: "string list \<Rightarrow> sandbox_writable_path" where
  "writable_directory path = \<lparr>sw_path = path, sw_kind = WritableDirectory\<rparr>"

record git_profile_identity =
  gi_name :: string
  gi_email :: string

record git_profile_config =
  gc_identity :: "git_profile_identity option"
  gc_credential_helpers :: "string list"

subsection \<open>The environment\<close>

definition STATEFUL_SANDBOX_RUN_ACTIVE_ENV :: string where
  "STATEFUL_SANDBOX_RUN_ACTIVE_ENV = ''STATEFUL_SANDBOX_RUN_ACTIVE''"

definition STATEFUL_ALLOW_NESTED_SANDBOX_RUN_ENV :: string where
  "STATEFUL_ALLOW_NESTED_SANDBOX_RUN_ENV = ''STATEFUL_ALLOW_NESTED_SANDBOX_RUN''"

definition sandbox_temp_dir :: "sandbox_writable_path list \<Rightarrow> string list option" where
  "sandbox_temp_dir writable_paths =
     map_option (\<lambda>w. sw_path w @ [''.stateful-tmp''])
       (find (\<lambda>w. sw_kind w = WritableDirectory) writable_paths)"

definition kept_variables :: "string list" where
  "kept_variables =
     [''PATH'', ''HOME'', ''USER'', ''LOGNAME'', ''LANG'', ''LC_ALL'', ''LC_CTYPE'', ''SSL_CERT_FILE'',
      ''SSL_CERT_DIR'', ''NIX_SSL_CERT_FILE'']"

definition apply_sandbox_temp_env :: "host \<Rightarrow> string list option \<Rightarrow> env_change list" where
  "apply_sandbox_temp_env H temp_dir =
     ClearEnv
     # concat (map (\<lambda>key. case map_of (ho_environ H) key of None \<Rightarrow> [] | Some v \<Rightarrow> [SetEnv key v]) kept_variables)
     @ [SetEnv STATEFUL_SANDBOX_RUN_ACTIVE_ENV ''1'']
     @ (case temp_dir of
          None \<Rightarrow> []
        | Some dir \<Rightarrow>
            [SetEnv ''TMPDIR'' (path_text dir), SetEnv ''TEMP'' (path_text dir), SetEnv ''TMP'' (path_text dir)]
            @ (if dir = [] then [] else [SetEnv ''CARGO_TARGET_DIR'' (path_text (butlast dir @ [''target'']))]))"

definition remove_git_profile_env :: "host \<Rightarrow> env_change list" where
  "remove_git_profile_env H =
     map RemoveEnv (filter (\<lambda>key.
       let name = utf8_lossy key in
       name = ''GIT_CONFIG_COUNT'' \<or> starts_with name ''GIT_CONFIG_KEY_'' \<or> starts_with name ''GIT_CONFIG_VALUE_''
       \<or> starts_with name ''GIT_'') (map fst (ho_environ H)))"

definition git_config_entries :: "string list \<Rightarrow> git_profile_config \<Rightarrow> (string \<times> string) list" where
  "git_config_entries hooks_dir config =
     [(''core.hooksPath'', path_text hooks_dir), (''core.fsmonitor'', ''false''), (''diff.external'', []),
      (''interactive.diffFilter'', []), (''protocol.ext.allow'', ''never''),
      (''branch.autoSetupMerge'', ''false''), (''branch.autoSetupRebase'', ''never'')]
     @ (case gc_identity config of
          None \<Rightarrow> []
        | Some identity \<Rightarrow> [(''user.name'', gi_name identity), (''user.email'', gi_email identity)])
     @ map (\<lambda>helper. (''credential.helper'', helper)) (gc_credential_helpers config)"

definition apply_git_profile_env ::
  "host \<Rightarrow> string list \<Rightarrow> string list \<Rightarrow> git_profile_config \<Rightarrow> env_change list" where
  "apply_git_profile_env H temp_dir hooks_dir config =
     (let entries = git_config_entries hooks_dir config in
      apply_sandbox_temp_env H (Some temp_dir)
      @ remove_git_profile_env H
      @ [SetEnv ''GIT_CONFIG_NOSYSTEM'' ''1'', SetEnv ''GIT_CONFIG_GLOBAL'' ''/dev/null'',
         SetEnv ''GIT_CONFIG_COUNT'' (nat_digits (length entries)), SetEnv ''GIT_LFS_SKIP_SMUDGE'' ''1'',
         SetEnv ''GIT_TERMINAL_PROMPT'' ''0'', SetEnv ''GIT_EDITOR'' '':'', SetEnv ''GIT_SEQUENCE_EDITOR'' '':'',
         SetEnv ''GIT_PAGER'' ''cat'', SetEnv ''PAGER'' ''cat'']
      @ concat (map (\<lambda>(index, key, v).
          [SetEnv (''GIT_CONFIG_KEY_'' @ nat_digits index) key,
           SetEnv (''GIT_CONFIG_VALUE_'' @ nat_digits index) v]) (enumerate 0 entries)))"

definition allow_direct_nested_sandbox_run :: "host \<Rightarrow> bool" where
  "allow_direct_nested_sandbox_run H \<longleftrightarrow>
     map_of (ho_environ H) STATEFUL_SANDBOX_RUN_ACTIVE_ENV \<noteq> None
     \<and> map_of (ho_environ H) STATEFUL_ALLOW_NESTED_SANDBOX_RUN_ENV = Some ''1''"

subsection \<open>The configuration of the git profile\<close>

definition git_profile_config_values :: "host \<Rightarrow> string list \<Rightarrow> string \<Rightarrow> ('e, string list) run" where
  "git_profile_config_values H cwd key =
     bindR (tryR (outputR H
       \<lparr>pr_program = ''git'', pr_args = [''-C'', path_text cwd, ''config'', ''--get-all'', key], pr_cwd = None,
        pr_env = remove_git_profile_env H @ [SetEnv ''GIT_TERMINAL_PROMPT'' ''0''], pr_stdin = None\<rparr>)) (\<lambda>r.
     retR (case r of
       Inl _ \<Rightarrow> []
     | Inr out \<Rightarrow>
         if \<not> po_success out \<or> \<not> utf8_valid (po_stdout out) then []
         else filter (\<lambda>v. v \<noteq> []) (map trim (text_lines (po_stdout out)))))"

definition git_profile_config_value :: "host \<Rightarrow> string list \<Rightarrow> string \<Rightarrow> ('e, string option) run" where
  "git_profile_config_value H cwd key =
     bindR (git_profile_config_values H cwd key) (\<lambda>vs. retR (if vs = [] then None else Some (last vs)))"

definition discover_git_profile_identity :: "host \<Rightarrow> string list \<Rightarrow> ('e, git_profile_identity option) run" where
  "discover_git_profile_identity H cwd =
     bindR (git_profile_config_value H cwd ''user.name'') (\<lambda>name.
     case name of
       None \<Rightarrow> retR None
     | Some name \<Rightarrow>
         bindR (git_profile_config_value H cwd ''user.email'') (\<lambda>email.
         retR (map_option (\<lambda>email. \<lparr>gi_name = name, gi_email = email\<rparr>) email)))"

definition allowed_git_profile_credential_helper :: "string \<Rightarrow> string option" where
  "allowed_git_profile_credential_helper helper =
     (let h = trim helper in
      if h \<in> {''store'', ''cache'', ''osxkeychain''} then Some h
      else if h \<in> {''!gh auth git-credential'', ''! gh auth git-credential''} then Some ''!gh auth git-credential''
      else None)"

text \<open>\<open>filter(|helper| seen.insert(helper))\<close> keeps the first of equal helpers.\<close>

fun keep_first :: "'a list \<Rightarrow> 'a list \<Rightarrow> 'a list" where
  "keep_first seen [] = []"
| "keep_first seen (x # xs) =
     (if x \<in> set seen then keep_first seen xs else x # keep_first (x # seen) xs)"

definition discover_git_profile_credential_helpers :: "host \<Rightarrow> string list \<Rightarrow> ('e, string list) run" where
  "discover_git_profile_credential_helpers H cwd =
     bindR (git_profile_config_values H cwd ''credential.helper'') (\<lambda>vs.
     retR (keep_first [] (List.map_filter allowed_git_profile_credential_helper vs)))"

definition discover_git_profile_config :: "host \<Rightarrow> string list \<Rightarrow> ('e, git_profile_config) run" where
  "discover_git_profile_config H cwd =
     bindR (discover_git_profile_identity H cwd) (\<lambda>identity.
     bindR (discover_git_profile_credential_helpers H cwd) (\<lambda>helpers.
     retR \<lparr>gc_identity = identity, gc_credential_helpers = helpers\<rparr>))"

definition git_profile_persistent_metadata_paths ::
  "host \<Rightarrow> string list \<Rightarrow> ('e, sandbox_writable_path list) run" where
  "git_profile_persistent_metadata_paths H repo_root =
     (let dot_git = repo_root @ [''.git''] in
      bindR (fileR H (path_exists dot_git)) (\<lambda>exists.
      bindR (if exists then fileR H (\<lambda>F. \<not> path_is_dir dot_git F) else retR False) (\<lambda>linked.
      retR (if linked then [writable_file dot_git]
            else [writable_file (dot_git @ [''config'']), writable_file (dot_git @ [''config.worktree'']),
                  writable_directory (dot_git @ [''hooks''])]))))"

fun filterR :: "('a \<Rightarrow> ('e, bool) run) \<Rightarrow> 'a list \<Rightarrow> ('e, 'a list) run" where
  "filterR P [] = retR []"
| "filterR P (x # xs) =
     bindR (P x) (\<lambda>keep. bindR (filterR P xs) (\<lambda>ys. retR (if keep then x # ys else ys)))"

definition existing_git_profile_persistent_metadata_paths ::
  "host \<Rightarrow> string list \<Rightarrow> ('e, sandbox_writable_path list) run" where
  "existing_git_profile_persistent_metadata_paths H repo_root =
     bindR (git_profile_persistent_metadata_paths H repo_root)
       (filterR (\<lambda>w. fileR H (path_exists (sw_path w))))"

subsection \<open>The arguments of bubblewrap\<close>

definition bubblewrap_base_args_with_connect_sockets ::
  "string list \<Rightarrow> sandbox_writable_path list \<Rightarrow> string list list \<Rightarrow> network_policy \<Rightarrow> string list" where
  "bubblewrap_base_args_with_connect_sockets cwd writable_paths connect_sockets network =
     [''--unshare-all'', ''--die-with-parent'']
     @ [case network of NetworkDisabled \<Rightarrow> ''--unshare-net'' | NetworkEnabled \<Rightarrow> ''--share-net'']
     @ [''--ro-bind'', ''/'', ''/'', ''--proc'', ''/proc'', ''--dev-bind'', ''/dev/null'', ''/dev/null'',
        ''--dev-bind'', ''/dev/zero'', ''/dev/zero'', ''--dev-bind'', ''/dev/urandom'', ''/dev/urandom'']
     @ concat (map (\<lambda>w. [''--bind'', path_text (sw_path w), path_text (sw_path w)]) writable_paths)
     @ concat (map (\<lambda>socket. [''--ro-bind'', path_text socket, path_text socket]) connect_sockets)
     @ [''--chdir'', path_text cwd]"

definition bubblewrap_base_args ::
  "string list \<Rightarrow> sandbox_writable_path list \<Rightarrow> network_policy \<Rightarrow> string list" where
  "bubblewrap_base_args cwd writable_paths network =
     bubblewrap_base_args_with_connect_sockets cwd writable_paths [] network"

definition bubblewrap_args ::
  "string \<Rightarrow> string list \<Rightarrow> sandbox_writable_path list \<Rightarrow> string list list \<Rightarrow> network_policy \<Rightarrow> string list" where
  "bubblewrap_args command cwd writable_paths connect_sockets network =
     bubblewrap_base_args_with_connect_sockets cwd writable_paths connect_sockets network
     @ [''--'', ''/bin/sh'', ''-c'', command]"

definition bubblewrap_git_args ::
  "string list \<Rightarrow> string list \<Rightarrow> sandbox_writable_path list \<Rightarrow> network_policy \<Rightarrow> sandbox_writable_path list
     \<Rightarrow> string list" where
  "bubblewrap_git_args words cwd writable_paths network protected_paths =
     bubblewrap_base_args cwd writable_paths network
     @ concat (map (\<lambda>w. [''--ro-bind'', path_text (sw_path w), path_text (sw_path w)]) protected_paths)
     @ [''--'', ''git''] @ drop 1 words"

definition bubblewrap_command ::
  "host \<Rightarrow> string \<Rightarrow> string list \<Rightarrow> sandbox_writable_path list \<Rightarrow> string list list \<Rightarrow> string list option
     \<Rightarrow> network_policy \<Rightarrow> process" where
  "bubblewrap_command H command cwd writable_paths connect_sockets temp_dir network =
     \<lparr>pr_program = ''bwrap'', pr_args = bubblewrap_args command cwd writable_paths connect_sockets network,
      pr_cwd = None, pr_env = apply_sandbox_temp_env H temp_dir, pr_stdin = None\<rparr>"

definition bubblewrap_git_command ::
  "host \<Rightarrow> string list \<Rightarrow> string list \<Rightarrow> sandbox_writable_path list \<Rightarrow> string list \<Rightarrow> string list
     \<Rightarrow> git_profile_config \<Rightarrow> network_policy \<Rightarrow> ('e, process) run" where
  "bubblewrap_git_command H words cwd writable_paths temp_dir hooks_dir config network =
     bindR (existing_git_profile_persistent_metadata_paths H cwd) (\<lambda>protected_paths.
     retR \<lparr>pr_program = ''bwrap'', pr_args = bubblewrap_git_args words cwd writable_paths network protected_paths,
           pr_cwd = None, pr_env = apply_git_profile_env H temp_dir hooks_dir config, pr_stdin = None\<rparr>)"

definition direct_shell_command :: "string \<Rightarrow> string list \<Rightarrow> process" where
  "direct_shell_command command cwd =
     \<lparr>pr_program = ''/bin/sh'', pr_args = [''-c'', command], pr_cwd = Some cwd, pr_env = [], pr_stdin = None\<rparr>"

definition direct_git_command :: "string list \<Rightarrow> string list \<Rightarrow> process" where
  "direct_git_command words cwd =
     \<lparr>pr_program = ''git'', pr_args = drop 1 words, pr_cwd = Some cwd, pr_env = [], pr_stdin = None\<rparr>"

subsection \<open>Supervision\<close>

text \<open>
  \<open>Instant\<close> counts nanoseconds; adding a \<open>Duration\<close> panics when the seconds leave \<open>i64\<close>. The child
  is known by its process id; \<open>ho_try_wait\<close> tells whether it has ended, with its exit code if it
  was not killed by a signal. The reads of its two pipes happen in threads and are collected at
  the end; the events that \<open>emit_sandbox_stream_event\<close> prints meanwhile are part of the result of
  \<open>read_sandbox_pipe_to_end\<close>.
\<close>

definition instant_add :: "nat \<Rightarrow> nat \<Rightarrow> nat option" where
  "instant_add t d = (if (t + d) div 1000000000 < 2 ^ 63 then Some (t + d) else None)"

definition instantR :: "host \<Rightarrow> ('e, nat) run" where
  "instantR H = externR (ho_instant H)"

definition try_waitR :: "host \<Rightarrow> nat \<Rightarrow> (io_error, int option option) run" where
  "try_waitR H pid = bindR (externR (\<lambda>n. ho_try_wait H n pid)) liftR"

definition emit_sandbox_stream_event :: "string \<Rightarrow> string \<Rightarrow> json list" where
  "emit_sandbox_stream_event stream bytes =
     (if bytes = [] then []
      else [JObject [(''event'', JString ''sandbox_output''), (''stream'', JString stream),
                     (''chunk'', JString (utf8_lossy bytes))]])"

fun read_sandbox_pipe_to_end ::
  "string \<Rightarrow> bool \<Rightarrow> (io_error + string) list \<Rightarrow> json list \<times> (io_error + string)" where
  "read_sandbox_pipe_to_end stream stream_events [] = ([], Inr [])"
| "read_sandbox_pipe_to_end stream stream_events (Inl e # reads) = ([], Inl e)"
| "read_sandbox_pipe_to_end stream stream_events (Inr chunk # reads) =
     (if chunk = [] then ([], Inr [])
      else
        let (events, r) = read_sandbox_pipe_to_end stream stream_events reads in
        ((if stream_events then emit_sandbox_stream_event stream chunk else []) @ events,
         bindE r (\<lambda>bytes. Inr (chunk @ bytes))))"

definition kill_args :: "string \<Rightarrow> bool \<Rightarrow> nat \<Rightarrow> process" where
  "kill_args signal separator pid =
     \<lparr>pr_program = ''/bin/kill'',
      pr_args = [signal] @ (if separator then [''--''] else []) @ [''-'' @ nat_digits pid],
      pr_cwd = None, pr_env = [], pr_stdin = None\<rparr>"

definition signal_sandbox_process_group :: "host \<Rightarrow> nat \<Rightarrow> string \<Rightarrow> ('e, unit) run" where
  "signal_sandbox_process_group H pid signal =
     bindR (tryR (outputR H (kill_args signal True pid))) (\<lambda>r.
     if (case r of Inl _ \<Rightarrow> False | Inr out \<Rightarrow> po_success out) then retR ()
     else bindR (tryR (outputR H (kill_args signal False pid))) (\<lambda>_. retR ()))"

definition kill_direct_sandbox_child :: "host \<Rightarrow> nat \<Rightarrow> (string, unit) run" where
  "kill_direct_sandbox_child H pid =
     bindR (externR (\<lambda>n. ho_kill H n pid)) (\<lambda>r.
     case r of
       Inr _ \<Rightarrow> retR ()
     | Inl e \<Rightarrow> if e = InvalidInputIo then retR () else failR (io_error_text e))"

fun await_exit :: "host \<Rightarrow> nat \<Rightarrow> nat \<Rightarrow> nat \<Rightarrow> nat \<Rightarrow> (string, int option option) run" where
  "await_exit H pid started timeout 0 s = None"
| "await_exit H pid started timeout (Suc n) s =
     bindR (instantR H) (\<lambda>now.
     if now - started < timeout
     then bindR (ioR (try_waitR H pid)) (\<lambda>status.
          case status of Some code \<Rightarrow> retR (Some code) | None \<Rightarrow> await_exit H pid started timeout n)
     else retR None) s"

definition wait_for_sandbox_child_exit ::
  "host \<Rightarrow> nat \<Rightarrow> nat \<Rightarrow> nat \<Rightarrow> (string, int option option) run" where
  "wait_for_sandbox_child_exit H fuel pid timeout =
     bindR (instantR H) (\<lambda>started. await_exit H pid started timeout fuel)"

definition terminate_sandbox_child :: "host \<Rightarrow> nat \<Rightarrow> nat \<Rightarrow> (string, int option option) run" where
  "terminate_sandbox_child H fuel pid =
     bindR (signal_sandbox_process_group H pid ''-TERM'') (\<lambda>_.
     bindR (wait_for_sandbox_child_exit H fuel pid 500000000) (\<lambda>status.
     case status of
       Some code \<Rightarrow> bindR (signal_sandbox_process_group H pid ''-KILL'') (\<lambda>_. retR (Some code))
     | None \<Rightarrow>
         bindR (signal_sandbox_process_group H pid ''-KILL'') (\<lambda>_.
         bindR (kill_direct_sandbox_child H pid) (\<lambda>_.
         wait_for_sandbox_child_exit H fuel pid 500000000))))"

definition cleanup_sandbox_process_group :: "host \<Rightarrow> nat \<Rightarrow> bool \<Rightarrow> (string, unit) run" where
  "cleanup_sandbox_process_group H pid already_terminated =
     (if already_terminated then retR ()
      else
        bindR (signal_sandbox_process_group H pid ''-TERM'') (\<lambda>_.
        signal_sandbox_process_group H pid ''-KILL''))"

datatype child_end = ChildExited | ChildCancelled | ChildTimedOut

definition stop_child :: "host \<Rightarrow> nat \<Rightarrow> nat \<Rightarrow> child_end \<Rightarrow> string \<Rightarrow> (string, child_end \<times> int option) run" where
  "stop_child H fuel pid how failure =
     bindR (terminate_sandbox_child H fuel pid) (\<lambda>status.
     bindR (liftR (ok_or failure status)) (\<lambda>code. retR (how, code)))"

fun await_child :: "host \<Rightarrow> nat \<Rightarrow> nat \<Rightarrow> nat \<Rightarrow> nat \<Rightarrow> (string, child_end \<times> int option) run" where
  "await_child H fuel pid deadline 0 s = None"
| "await_child H fuel pid deadline (Suc n) s =
     bindR (ioR (try_waitR H pid)) (\<lambda>status.
     case status of
       Some code \<Rightarrow> retR (ChildExited, code)
     | None \<Rightarrow>
         bindR (externR (ho_cancelled H)) (\<lambda>cancelled.
         if cancelled
         then stop_child H fuel pid ChildCancelled ''cancelled and failed to terminate sandbox command''
         else
           bindR (instantR H) (\<lambda>now.
           if deadline \<le> now
           then stop_child H fuel pid ChildTimedOut ''timed out and failed to terminate sandbox command''
           else await_child H fuel pid deadline n))) s"

fun child_status :: "child_end \<Rightarrow> string" where
  "child_status ChildExited = ''exited''"
| "child_status ChildCancelled = ''cancelled''"
| "child_status ChildTimedOut = ''timed_out''"

definition pipeR :: "host \<Rightarrow> nat \<Rightarrow> bool \<Rightarrow> bool \<Rightarrow> (io_error, string) run" where
  "pipeR H pid is_stderr stream_events =
     bindR (externR (\<lambda>n. snd (read_sandbox_pipe_to_end (if is_stderr then ''stderr'' else ''stdout'') stream_events
                             (ho_pipe H n pid is_stderr)))) liftR"

definition run_command_with_timeout_and_cancel ::
  "host \<Rightarrow> nat \<Rightarrow> process \<Rightarrow> nat \<Rightarrow> bool \<Rightarrow> (string, sandbox_command_result) run" where
  "run_command_with_timeout_and_cancel H fuel command timeout stream_events =
     bindR (ioR (spawnR H command)) (\<lambda>pid.
     bindR (instantR H) (\<lambda>now.
     case instant_add now timeout of
       None \<Rightarrow> panicR
     | Some deadline \<Rightarrow>
         bindR (await_child H fuel pid deadline fuel) (\<lambda>(how, code).
         bindR (cleanup_sandbox_process_group H pid (how \<noteq> ChildExited)) (\<lambda>_.
         bindR (ioR (pipeR H pid False stream_events)) (\<lambda>stdout.
         bindR (ioR (pipeR H pid True stream_events)) (\<lambda>stderr.
         retR \<lparr>sc_status = child_status how, sc_exit_code = code, sc_stdout = utf8_lossy stdout,
               sc_stderr = utf8_lossy stderr\<rparr>))))))"

definition run_command_with_timeout ::
  "host \<Rightarrow> nat \<Rightarrow> process \<Rightarrow> nat \<Rightarrow> bool \<Rightarrow> (string, sandbox_command_result) run" where
  "run_command_with_timeout H fuel command timeout stream_events =
     bindR (ioR (bindR (externR (ho_signals H)) liftR)) (\<lambda>_.
     run_command_with_timeout_and_cancel H fuel command timeout stream_events)"

subsection \<open>Sandboxed commands\<close>

text \<open>The parameters \<open>allow_signal\<close> and the ones for macOS have no effect on Linux and are left out.\<close>

definition run_sandboxed_command ::
  "host \<Rightarrow> nat \<Rightarrow> string \<Rightarrow> string list \<Rightarrow> sandbox_writable_path list \<Rightarrow> string list list \<Rightarrow> network_policy
     \<Rightarrow> nat \<Rightarrow> bool \<Rightarrow> bool \<Rightarrow> (string, sandbox_command_result) run" where
  "run_sandboxed_command H fuel command cwd writable_paths connect_sockets network timeout stream_events allow_direct_nested =
     (let temp_dir = sandbox_temp_dir writable_paths in
      if allow_direct_nested \<and> allow_direct_nested_sandbox_run H
      then run_command_with_timeout H fuel
             ((direct_shell_command command cwd)\<lparr>pr_env := apply_sandbox_temp_env H temp_dir\<rparr>) timeout stream_events
      else run_command_with_timeout H fuel
             (bubblewrap_command H command cwd writable_paths connect_sockets temp_dir network) timeout stream_events)"

definition run_private_sandbox_command ::
  "host \<Rightarrow> nat \<Rightarrow> string \<Rightarrow> string list \<Rightarrow> sandbox_writable_path list \<Rightarrow> nat \<Rightarrow> (string, sandbox_command_result) run" where
  "run_private_sandbox_command H fuel command cwd writable_paths timeout =
     run_sandboxed_command H fuel command cwd writable_paths [] NetworkDisabled timeout False False"

definition run_sandboxed_git_command ::
  "host \<Rightarrow> nat \<Rightarrow> string list \<Rightarrow> string list \<Rightarrow> sandbox_writable_path list \<Rightarrow> string list \<Rightarrow> string list
     \<Rightarrow> network_policy \<Rightarrow> nat \<Rightarrow> bool \<Rightarrow> (string, sandbox_command_result) run" where
  "run_sandboxed_git_command H fuel words cwd writable_paths temp_dir hooks_dir network timeout stream_events =
     bindR (discover_git_profile_config H cwd) (\<lambda>config.
     if allow_direct_nested_sandbox_run H
     then run_command_with_timeout H fuel
            ((direct_git_command words cwd)\<lparr>pr_env := apply_git_profile_env H temp_dir hooks_dir config\<rparr>)
            timeout stream_events
     else
       bindR (bubblewrap_git_command H words cwd writable_paths temp_dir hooks_dir config network) (\<lambda>command.
       run_command_with_timeout H fuel command timeout stream_events))"

end
