(* ===== verification/Sandbox_Stage.thy ===== *)
theory Sandbox_Stage
  imports Sandbox_Launch
begin

section \<open>The private stage of a mutation\<close>

text \<open>
  \<open>PrivateStage\<close> of \<^verbatim>\<open>src/crates/stateful-cli/src/sandbox.rs\<close>: a command that may change one thing
  works on a copy under \<^verbatim>\<open>.stateful/sandbox-staging\<close>; when its result has the shape the operation
  names, exactly that operation is applied to the workspace, and the stage is removed whatever
  happened. Trees are walked with fuel, because other processes may grow them meanwhile.
\<close>

record private_stage =
  st_repo_root :: "string list"
  st_root :: "string list"

subsection \<open>Directories\<close>

fun ensure_private_loop :: "host \<Rightarrow> string list \<Rightarrow> string list \<Rightarrow> (string, unit) run" where
  "ensure_private_loop H cursor [] = retR ()"
| "ensure_private_loop H cursor (c # cs) =
     bindR (fileR H (symlink_metadata (cursor @ [c]))) (\<lambda>r.
     case r of
       Inr m \<Rightarrow>
         if md_type m = SymlinkType then failR ''sandbox private staging path is symlinked''
         else if md_type m \<noteq> DirectoryType then failR ''sandbox private staging path is not a directory''
         else ensure_private_loop H (cursor @ [c]) cs
     | Inl e \<Rightarrow>
         if e = NotFoundIo
         then bindR (changeS H (CreateDir (cursor @ [c]))) (\<lambda>_. ensure_private_loop H (cursor @ [c]) cs)
         else failR (io_error_text e))"

definition ensure_private_directory :: "host \<Rightarrow> string list \<Rightarrow> string list \<Rightarrow> (string, unit) run" where
  "ensure_private_directory H repo_root directory =
     (if take (length repo_root) directory \<noteq> repo_root then failR ''prefix not found''
      else ensure_private_loop H repo_root (drop (length repo_root) directory))"

fun workspace_components_loop :: "host \<Rightarrow> string list \<Rightarrow> string list \<Rightarrow> (string, unit) run" where
  "workspace_components_loop H cursor [] = retR ()"
| "workspace_components_loop H cursor (c # cs) =
     bindR (fileR H (symlink_metadata (cursor @ [c]))) (\<lambda>r.
     case r of
       Inr m \<Rightarrow>
         if md_type m = SymlinkType then failR ''sandbox workspace target has a symlinked component''
         else workspace_components_loop H (cursor @ [c]) cs
     | Inl e \<Rightarrow> if e = NotFoundIo then retR () else failR (io_error_text e))"

definition ensure_workspace_components :: "host \<Rightarrow> string list \<Rightarrow> string \<Rightarrow> (string, unit) run" where
  "ensure_workspace_components H repo_root relative =
     bindR (readS H (canonicalize repo_root)) (\<lambda>root.
     workspace_components_loop H root (split_on (CHR ''/'') relative))"

fun validate_directory_tree :: "host \<Rightarrow> nat \<Rightarrow> string list \<Rightarrow> (string, unit) run" where
  "validate_directory_tree H 0 path = panicR"
| "validate_directory_tree H (Suc n) path =
     bindR (readS H (symlink_metadata path)) (\<lambda>m.
     if md_type m \<noteq> DirectoryType then failR ''sandbox write-directory target must be a real directory''
     else
       bindR (readS H (read_dir path)) (\<lambda>names.
       forR (\<lambda>name.
         bindR (readS H (symlink_metadata (path @ [name]))) (\<lambda>m.
         if md_type m = SymlinkType
         then failR (''sandbox write-directory refuses symlink `'' @ display (path @ [name]) @ ''`'')
         else if md_type m = DirectoryType then validate_directory_tree H n (path @ [name])
         else if md_type m = RegularType
         then (if md_nlink m > 1
               then failR (''sandbox write-directory refuses hardlinked file `'' @ display (path @ [name]) @ ''`'')
               else retR ())
         else failR (''sandbox write-directory refuses unsupported entry `'' @ display (path @ [name]) @ ''`''))) names))"

fun copy_directory_tree :: "host \<Rightarrow> nat \<Rightarrow> string list \<Rightarrow> string list \<Rightarrow> (string, unit) run" where
  "copy_directory_tree H 0 source destination = panicR"
| "copy_directory_tree H (Suc n) source destination =
     bindR (validate_directory_tree H (Suc n) source) (\<lambda>_.
     bindR (changeS H (CreateDir destination)) (\<lambda>_.
     bindR (readS H (read_dir source)) (\<lambda>names.
     forR (\<lambda>name.
       bindR (readS H (symlink_metadata (source @ [name]))) (\<lambda>m.
       if md_type m = DirectoryType then copy_directory_tree H n (source @ [name]) (destination @ [name])
       else if md_type m = RegularType then changeS H (CopyFile (source @ [name]) (destination @ [name]))
       else failR ''sandbox directory staging supports only regular files'')) names)))"

subsection \<open>What the staged result must look like\<close>

definition must_be :: "string \<Rightarrow> string \<Rightarrow> string" where
  "must_be shown what = ''sandbox staged target `'' @ shown @ ''` must be '' @ what"

definition require_regular_file :: "host \<Rightarrow> string list \<Rightarrow> string \<Rightarrow> (string, unit) run" where
  "require_regular_file H path shown =
     bindR (mapErrR (\<lambda>_. must_be shown ''a regular file'') (readR H (symlink_metadata path))) (\<lambda>m.
     if md_type m \<noteq> RegularType then failR (must_be shown ''a regular file'') else retR ())"

definition require_absent :: "host \<Rightarrow> string list \<Rightarrow> string \<Rightarrow> (string, unit) run" where
  "require_absent H path shown =
     bindR (fileR H (symlink_metadata path)) (\<lambda>r.
     if is_ok r then failR (must_be shown ''absent'') else retR ())"

definition require_empty_directory :: "host \<Rightarrow> string list \<Rightarrow> string \<Rightarrow> (string, unit) run" where
  "require_empty_directory H path shown =
     bindR (mapErrR (\<lambda>_. must_be shown ''an empty directory'') (readR H (symlink_metadata path))) (\<lambda>m.
     if md_type m \<noteq> DirectoryType then failR (must_be shown ''an empty directory'')
     else bindR (readS H (read_dir path)) (\<lambda>names.
       if names \<noteq> [] then failR (must_be shown ''an empty directory'') else retR ()))"

definition require_same_regular_file ::
  "host \<Rightarrow> string list \<Rightarrow> string list \<Rightarrow> string \<Rightarrow> string \<Rightarrow> (string, unit) run" where
  "require_same_regular_file H left right old new =
     bindR (require_regular_file H left old) (\<lambda>_.
     bindR (require_regular_file H right new) (\<lambda>_.
     bindR (readS H (metadata_of left)) (\<lambda>l.
     bindR (readS H (metadata_of right)) (\<lambda>r.
     if (md_dev l, md_ino l) \<noteq> (md_dev r, md_ino r)
     then failR ''sandbox staged hardlink targets must be aliases'' else retR ()))))"

subsection \<open>The stage\<close>

definition workspace_path :: "private_stage \<Rightarrow> string \<Rightarrow> string list" where
  "workspace_path stage relative = join_relative (st_repo_root stage) relative"

definition staged_path :: "private_stage \<Rightarrow> string \<Rightarrow> string list" where
  "staged_path stage relative = join_relative (st_root stage) relative"

definition stage_new :: "host \<Rightarrow> string list \<Rightarrow> (string, private_stage) run" where
  "stage_new H repo_root =
     (let private_root = repo_root @ [''.stateful'', ''sandbox-staging''] in
      bindR (ensure_private_directory H repo_root private_root) (\<lambda>_.
      bindR (externR (ho_uuid H)) (\<lambda>fresh.
      bindR (changeS H (CreateDir (private_root @ [fresh]))) (\<lambda>_.
      retR \<lparr>st_repo_root = repo_root, st_root = private_root @ [fresh]\<rparr>))))"

definition stage_drop :: "host \<Rightarrow> private_stage \<Rightarrow> (io_error, unit) run" where
  "stage_drop H stage = changeR H (RemoveDirAll (st_root stage))"

definition make_parent :: "host \<Rightarrow> private_stage \<Rightarrow> string \<Rightarrow> (string, unit) run" where
  "make_parent H stage path = changeS H (CreateDirAll (butlast (staged_path stage path)))"

definition copy_existing :: "host \<Rightarrow> nat \<Rightarrow> private_stage \<Rightarrow> string \<Rightarrow> (string, unit) run" where
  "copy_existing H fuel stage path =
     bindR (readS H (symlink_metadata (workspace_path stage path))) (\<lambda>m.
     if md_type m = SymlinkType then failR (''sandbox staging refuses symlink target `'' @ path @ ''`'')
     else
       bindR (make_parent H stage path) (\<lambda>_.
       if md_type m = RegularType then changeS H (CopyFile (workspace_path stage path) (staged_path stage path))
       else if md_type m = DirectoryType
       then copy_directory_tree H fuel (workspace_path stage path) (staged_path stage path)
       else failR ''sandbox staging supports only regular files and directories''))"

definition unsupported_staged :: "mutation_operation \<Rightarrow> string" where
  "unsupported_staged operation = ''unsupported staged operation `'' @ kind_name operation @ ''`''"

definition validate_workspace_paths :: "host \<Rightarrow> private_stage \<Rightarrow> mutation_operation \<Rightarrow> (string, unit) run" where
  "validate_workspace_paths H stage operation =
     forR (ensure_workspace_components H (st_repo_root stage)) (operation_paths operation)"

definition stage_populate :: "host \<Rightarrow> nat \<Rightarrow> private_stage \<Rightarrow> mutation_operation \<Rightarrow> (string, unit) run" where
  "stage_populate H fuel stage operation =
     bindR (validate_workspace_paths H stage operation) (\<lambda>_.
     case operation of
       Update path \<Rightarrow> copy_existing H fuel stage path
     | Delete path _ \<Rightarrow> copy_existing H fuel stage path
     | Rmdir path \<Rightarrow> copy_existing H fuel stage path
     | WriteDirectory path \<Rightarrow> copy_existing H fuel stage path
     | Create path \<Rightarrow> make_parent H stage path
     | Mkdir path \<Rightarrow> make_parent H stage path
     | Rename old new _ \<Rightarrow> bindR (copy_existing H fuel stage old) (\<lambda>_. make_parent H stage new)
     | Move old new _ \<Rightarrow> bindR (copy_existing H fuel stage old) (\<lambda>_. make_parent H stage new)
     | Hardlink old new \<Rightarrow> bindR (copy_existing H fuel stage old) (\<lambda>_. make_parent H stage new)
     | _ \<Rightarrow> failR (unsupported_staged operation))"

definition stage_validate :: "host \<Rightarrow> nat \<Rightarrow> private_stage \<Rightarrow> mutation_operation \<Rightarrow> (string, unit) run" where
  "stage_validate H fuel stage operation =
     (let moved = (\<lambda>old new.
        bindR (require_absent H (staged_path stage old) old) (\<lambda>_.
        require_regular_file H (staged_path stage new) new)) in
      case operation of
        Create path \<Rightarrow> require_regular_file H (staged_path stage path) path
      | Update path \<Rightarrow> require_regular_file H (staged_path stage path) path
      | Delete path _ \<Rightarrow> require_absent H (staged_path stage path) path
      | Rmdir path \<Rightarrow> require_absent H (staged_path stage path) path
      | Mkdir path \<Rightarrow> require_empty_directory H (staged_path stage path) path
      | Rename old new _ \<Rightarrow> moved old new
      | Move old new _ \<Rightarrow> moved old new
      | Hardlink old new \<Rightarrow>
          require_same_regular_file H (staged_path stage old) (staged_path stage new) old new
      | WriteDirectory path \<Rightarrow> validate_directory_tree H fuel (staged_path stage path)
      | _ \<Rightarrow> failR (unsupported_staged operation))"

definition replace_directory :: "host \<Rightarrow> private_stage \<Rightarrow> string \<Rightarrow> (string, unit) run" where
  "replace_directory H stage path =
     (let destination = workspace_path stage path; backup = st_root stage @ [''previous-directory''] in
      bindR (changeS H (RenamePath destination backup)) (\<lambda>_.
      bindR (tryR (changeR H (RenamePath (staged_path stage path) destination))) (\<lambda>r.
      case r of
        Inl e \<Rightarrow> bindR (tryR (changeR H (RenamePath backup destination))) (\<lambda>_. failR (io_error_text e))
      | Inr _ \<Rightarrow> changeS H (RemoveDirAll backup))))"

definition stage_apply :: "host \<Rightarrow> private_stage \<Rightarrow> mutation_operation \<Rightarrow> (string, unit) run" where
  "stage_apply H stage operation =
     bindR (validate_workspace_paths H stage operation) (\<lambda>_.
     case operation of
       Create path \<Rightarrow> changeS H (RenamePath (staged_path stage path) (workspace_path stage path))
     | Update path \<Rightarrow> changeS H (RenamePath (staged_path stage path) (workspace_path stage path))
     | Delete path _ \<Rightarrow> changeS H (RemoveFile (workspace_path stage path))
     | Rename old new _ \<Rightarrow> changeS H (RenamePath (workspace_path stage old) (workspace_path stage new))
     | Move old new _ \<Rightarrow> changeS H (RenamePath (workspace_path stage old) (workspace_path stage new))
     | Hardlink old new \<Rightarrow> changeS H (HardLink (workspace_path stage old) (workspace_path stage new))
     | Mkdir path \<Rightarrow> changeS H (CreateDir (workspace_path stage path))
     | Rmdir path \<Rightarrow> changeS H (RemoveDir (workspace_path stage path))
     | WriteDirectory path \<Rightarrow> replace_directory H stage path
     | _ \<Rightarrow> failR (unsupported_staged operation))"

end
