(* ===== verification/Codex_Owners.thy ===== *)
theory Codex_Owners
  imports Repo_Registry
begin

section \<open>The owners of Codex tasks\<close>

text \<open>
  The rest of \<^verbatim>\<open>src/crates/stateful-cli/src/hook.rs\<close>: Codex starts a task per turn. The hook writes
  an owner file with the process that runs the turn, starts the task on the server and a
  heartbeat helper; the owner file is what a wrapper command later finds its task by, through
  its ancestors in the process tree. A stopped turn first disables its owner file, then ends
  the task. \<open>serde_json\<close> for the owner file and the input of the helper is the record
  \<open>owner_codec\<close>.
\<close>

record owned_task_owner =
  ow_task_id :: string
  ow_agent_id :: string
  ow_workspace_id :: string
  ow_session_id :: string
  ow_turn_id :: string
  ow_pid :: nat
  ow_process_start_identity :: string
  ow_heartbeat_enabled :: bool
  ow_task_start_observed_at :: string
  ow_task_start_input :: task_start_input

record codex_heartbeat_input =
  ch_repo_root :: string
  ch_owner :: owned_task_owner

record owner_codec =
  parse_owner :: "string \<Rightarrow> string + owned_task_owner"
  print_owner :: "owned_task_owner \<Rightarrow> string + string"
  parse_heartbeat :: "string \<Rightarrow> string + codex_heartbeat_input"
  print_heartbeat :: "codex_heartbeat_input \<Rightarrow> string + string"

subsection \<open>Owner files\<close>

definition owner_directory :: "string list \<Rightarrow> string list" where
  "owner_directory repo = repo @ [''.stateful_core'', ''runtime'', ''tasks'']"

definition owner_path :: "string list \<Rightarrow> string \<Rightarrow> string list" where
  "owner_path repo task_id = join_relative (owner_directory repo) (task_id @ ''.json'')"

definition sync_parent_dir :: "host \<Rightarrow> string list \<Rightarrow> (string, unit) run" where
  "sync_parent_dir H path =
     (if path = [] then failR ''runtime file path has no parent''
      else
        bindR (readS H (file_open (butlast path))) (\<lambda>_.
        changeS H (SyncDir (butlast path))))"

text \<open>
  The steps \<open>create_owner\<close> and \<open>persist_owner\<close> share: a new file for this process only, its
  contents, and removal of a file that could not be written. An owner that cannot be serialised
  leaves the empty file behind.
\<close>

definition owner_temporary :: "host \<Rightarrow> string list \<Rightarrow> owned_task_owner \<Rightarrow> string list" where
  "owner_temporary H repo owner =
     join_relative (owner_directory repo) (''.'' @ ow_task_id owner @ ''.'' @ nat_digits (ho_pid H) @ ''.tmp'')"

definition write_owner_temporary ::
  "host \<Rightarrow> owner_codec \<Rightarrow> string list \<Rightarrow> owned_task_owner \<Rightarrow> (string, unit) run" where
  "write_owner_temporary H OC repo owner =
     (let temporary = owner_temporary H repo owner in
      bindR (changeS H (CreateDirAll (owner_directory repo))) (\<lambda>_.
      bindR (changeS H (CreateNew temporary 384)) (\<lambda>_.
      bindR (liftR (print_owner OC owner)) (\<lambda>contents.
      bindR (tryR (changeS H (WriteFile temporary contents))) (\<lambda>r.
      case r of
        Inl e \<Rightarrow> bindR (tryR (changeS H (RemoveFile temporary))) (\<lambda>_. failR e)
      | Inr _ \<Rightarrow> retR ())))))"

definition create_owner :: "host \<Rightarrow> owner_codec \<Rightarrow> string list \<Rightarrow> owned_task_owner \<Rightarrow> (string, bool) run" where
  "create_owner H OC repo owner =
     (let target = owner_path repo (ow_task_id owner); temporary = owner_temporary H repo owner in
      bindR (write_owner_temporary H OC repo owner) (\<lambda>_.
      bindR (tryR (changeR H (HardLink temporary target))) (\<lambda>r.
      bindR (tryR (changeS H (RemoveFile temporary))) (\<lambda>_.
      bindR (case r of
               Inr _ \<Rightarrow> retR True
             | Inl e \<Rightarrow> if e = AlreadyExistsIo then retR False else failR (io_error_text e)) (\<lambda>created.
      if \<not> created then retR False
      else
        bindR (changeS H (SetPermissions target 384)) (\<lambda>_.
        bindR (sync_parent_dir H target) (\<lambda>_. retR True)))))))"

definition persist_owner :: "host \<Rightarrow> owner_codec \<Rightarrow> string list \<Rightarrow> owned_task_owner \<Rightarrow> (string, unit) run" where
  "persist_owner H OC repo owner =
     (let target = owner_path repo (ow_task_id owner); temporary = owner_temporary H repo owner in
      bindR (write_owner_temporary H OC repo owner) (\<lambda>_.
      bindR (tryR (changeR H (RenamePath temporary target))) (\<lambda>r.
      case r of
        Inl e \<Rightarrow> bindR (tryR (changeS H (RemoveFile temporary))) (\<lambda>_. failR (io_error_text e))
      | Inr _ \<Rightarrow>
          bindR (changeS H (SetPermissions target 384)) (\<lambda>_. sync_parent_dir H target))))"

definition deactivate_owner ::
  "host \<Rightarrow> owner_codec \<Rightarrow> string list \<Rightarrow> string \<Rightarrow> (string, owned_task_owner option) run" where
  "deactivate_owner H OC repo task_id =
     bindR (fileR H (read_bytes (owner_path repo task_id))) (\<lambda>r.
     case r of
       Inl e \<Rightarrow> if e = NotFoundIo then retR None else failR (io_error_text e)
     | Inr contents \<Rightarrow>
         bindR (liftR (parse_owner OC contents)) (\<lambda>owner.
         let disabled = owner\<lparr>ow_heartbeat_enabled := False\<rparr> in
         bindR (persist_owner H OC repo disabled) (\<lambda>_. retR (Some disabled))))"

definition remove_owner :: "host \<Rightarrow> string list \<Rightarrow> string \<Rightarrow> (string, unit) run" where
  "remove_owner H repo task_id =
     bindR (tryR (changeR H (RemoveFile (owner_path repo task_id)))) (\<lambda>r.
     case r of
       Inr _ \<Rightarrow> sync_parent_dir H (owner_path repo task_id)
     | Inl e \<Rightarrow> if e = NotFoundIo then retR () else failR (io_error_text e))"

subsection \<open>Finding and recording the owner\<close>

fun ancestors_from :: "host \<Rightarrow> nat \<Rightarrow> nat \<Rightarrow> (nat \<times> string) list \<Rightarrow> (string, (nat \<times> string) list) run" where
  "ancestors_from H 0 pid found = retR found"
| "ancestors_from H (Suc n) pid found =
     bindR (process_start_identity_for_pid H pid) (\<lambda>identity.
     if pid \<in> fst ` set found then failR ''process ancestor cycle detected''
     else
       let found' = (pid, identity) # found in
       bindR (process_parent_pid H pid) (\<lambda>parent.
       case parent of
         None \<Rightarrow> retR found'
       | Some p \<Rightarrow> if p = pid then retR found' else ancestors_from H n p found'))"

definition ancestors :: "host \<Rightarrow> (string, (nat \<times> string) list) run" where
  "ancestors H = ancestors_from H 128 (ho_pid H) []"

definition has_json_extension :: "string \<Rightarrow> bool" where
  "has_json_extension name =
     (case rsplit_once ''.'' name of None \<Rightarrow> False | Some (stem, extension) \<Rightarrow> stem \<noteq> [] \<and> extension = ''json'')"

fun live_owners ::
  "host \<Rightarrow> owner_codec \<Rightarrow> string list \<Rightarrow> (nat \<times> string) list \<Rightarrow> string list \<Rightarrow> owned_task_owner list
     \<Rightarrow> (string, owned_task_owner list) run" where
  "live_owners H OC directory processes [] found = retR found"
| "live_owners H OC directory processes (name # names) found =
     (if \<not> has_json_extension name then live_owners H OC directory processes names found
      else
        bindR (readS H (read_bytes (directory @ [name]))) (\<lambda>contents.
        bindR (liftR (parse_owner OC contents)) (\<lambda>owner.
        if \<not> ow_heartbeat_enabled owner then live_owners H OC directory processes names found
        else case map_of processes (ow_pid owner) of
          None \<Rightarrow> live_owners H OC directory processes names found
        | Some identity \<Rightarrow>
            if identity \<noteq> ow_process_start_identity owner
            then failR ''owned wrapper found a stale Codex task owner record''
            else live_owners H OC directory processes names (found @ [owner]))))"

definition resolve_owned_wrapper_task ::
  "host \<Rightarrow> owner_codec \<Rightarrow> string list \<Rightarrow> (string, owned_task_owner) run" where
  "resolve_owned_wrapper_task H OC repo =
     bindR (ancestors H) (\<lambda>processes.
     bindR (fileR H (read_dir (owner_directory repo))) (\<lambda>r.
     case r of
       Inl e \<Rightarrow>
         failR (if e = NotFoundIo then ''owned wrapper has no active Codex task owner'' else io_error_text e)
     | Inr names \<Rightarrow>
         bindR (live_owners H OC (owner_directory repo) processes names []) (\<lambda>found.
         case found of
           [owner] \<Rightarrow> retR owner
         | [] \<Rightarrow> failR ''owned wrapper has no live Codex task owner''
         | _ \<Rightarrow> failR ''owned wrapper found multiple live Codex task owners'')))"

definition codex_parent :: "host \<Rightarrow> (string, nat) run" where
  "codex_parent H =
     bindR (process_parent_pid H (ho_pid H)) (\<lambda>parent.
     liftR (ok_or ''Codex hook has no live parent process'' parent))"

definition matching_owner ::
  "host \<Rightarrow> owner_codec \<Rightarrow> string \<Rightarrow> task_context \<Rightarrow> codex_input \<Rightarrow> (string, owned_task_owner) run" where
  "matching_owner H OC contents task i =
     bindR (liftR (parse_owner OC contents)) (\<lambda>owner.
     bindR (codex_parent H) (\<lambda>pid.
     bindR (if ow_task_id owner = tc_task_id task \<and> ow_agent_id owner = tc_agent_id task
               \<and> ow_workspace_id owner = wi_workspace_id (tc_workspace task)
               \<and> ow_session_id owner = cx_session_id i \<and> ow_turn_id owner = cx_turn_id i \<and> ow_pid owner = pid
            then bindR (tryR (process_start_identity_for_pid H pid)) (\<lambda>identity.
                 retR (identity = Inr (ow_process_start_identity owner)))
            else retR False) (\<lambda>matches.
     if matches then retR owner else failR ''existing Codex owner does not match the replayed task'')))"

definition record_owner ::
  "host \<Rightarrow> owner_codec \<Rightarrow> string list \<Rightarrow> task_context \<Rightarrow> codex_input \<Rightarrow> string \<Rightarrow> task_start_input
     \<Rightarrow> (string, owned_task_owner) run" where
  "record_owner H OC repo task i task_start_observed_at start_input =
     bindR (fileR H (read_bytes (owner_path repo (tc_task_id task)))) (\<lambda>r.
     case r of
       Inr contents \<Rightarrow> matching_owner H OC contents task i
     | Inl e \<Rightarrow>
         if e \<noteq> NotFoundIo then failR (io_error_text e)
         else
           bindR (codex_parent H) (\<lambda>pid.
           bindR (process_start_identity_for_pid H pid) (\<lambda>identity.
           let owner =
             \<lparr>ow_task_id = tc_task_id task, ow_agent_id = tc_agent_id task,
              ow_workspace_id = wi_workspace_id (tc_workspace task), ow_session_id = cx_session_id i,
              ow_turn_id = cx_turn_id i, ow_pid = pid, ow_process_start_identity = identity,
              ow_heartbeat_enabled = True, ow_task_start_observed_at = task_start_observed_at,
              ow_task_start_input = start_input\<rparr> in
           bindR (create_owner H OC repo owner) (\<lambda>created.
           if created then retR owner
           else bindR (readS H (read_bytes (owner_path repo (tc_task_id task)))) (\<lambda>contents.
                matching_owner H OC contents task i)))))"

subsection \<open>Tasks\<close>

definition codex_task ::
  "host \<Rightarrow> codex_input \<Rightarrow> server_runtime \<Rightarrow> string list \<Rightarrow> (string, task_context) run" where
  "codex_task H i runtime repo =
     bindR (liftR (nonempty ''Codex session_id'' (cx_session_id i))) (\<lambda>_.
     bindR (liftR (nonempty ''Codex turn_id'' (cx_turn_id i))) (\<lambda>_.
     let agent_id = ''codex:'' @ cx_session_id i in
     bindR (workspace_of H runtime repo) (\<lambda>workspace.
     retR \<lparr>tc_task_id = hook_id (ho_env H) ''codex-task'' [cx_session_id i, cx_turn_id i],
           tc_agent_id = agent_id, tc_turn_id = Some (cx_turn_id i),
           tc_actor_id = agent_id @ '':'' @ cx_turn_id i, tc_owner_id = agent_id, tc_workspace = workspace\<rparr>)))"

definition task_for_owner ::
  "host \<Rightarrow> owned_task_owner \<Rightarrow> server_runtime \<Rightarrow> string list \<Rightarrow> (string, task_context) run" where
  "task_for_owner H owner runtime repo =
     bindR (workspace_of H runtime repo) (\<lambda>workspace.
     bindR (liftR (guardE (wi_workspace_id workspace = ow_workspace_id owner) ''Codex owner workspace changed'')) (\<lambda>_.
     retR \<lparr>tc_task_id = ow_task_id owner, tc_agent_id = ow_agent_id owner, tc_turn_id = Some (ow_turn_id owner),
           tc_actor_id = ow_agent_id owner @ '':'' @ ow_turn_id owner, tc_owner_id = ow_agent_id owner,
           tc_workspace = workspace\<rparr>))"

definition end_codex_task_result ::
  "host \<Rightarrow> server_runtime \<Rightarrow> task_context \<Rightarrow> string \<Rightarrow> string \<Rightarrow> (command_error, task_command_result) run" where
  "end_codex_task_result H runtime task path event =
     bindR (now_rfc3339 H) (\<lambda>observed_at.
     post_command H (ho_task_result H) runtime path (identity_at H task event observed_at None observed_at)
       (task_end_json \<lparr>te_handoff = None\<rparr>))"

text \<open>\<open>Debug\<close> of a task status.\<close>

fun task_status_debug :: "task_status \<Rightarrow> string" where
  "task_status_debug Active = ''Active''"
| "task_status_debug Draining = ''Draining''"
| "task_status_debug Completed = ''Completed''"
| "task_status_debug Cancelled = ''Cancelled''"
| "task_status_debug Failed = ''Failed''"

definition finish_codex_owner_result ::
  "host \<Rightarrow> string list \<Rightarrow> string \<Rightarrow> task_command_result \<Rightarrow> (string, bool) run" where
  "finish_codex_owner_result H repo task_id result =
     (if task_is_terminal (tr_status result)
      then bindR (remove_owner H repo task_id) (\<lambda>_. retR True)
      else if tr_draining result then retR False
      else failR (''Codex task '' @ task_id @ '' stop returned unexpected non-terminal status ''
             @ task_status_debug (tr_status result)))"

definition finish_codex_owner ::
  "host \<Rightarrow> string list \<Rightarrow> server_runtime \<Rightarrow> task_context \<Rightarrow> string \<Rightarrow> (string, bool) run" where
  "finish_codex_owner H repo runtime task task_id =
     bindR (tryR (end_codex_task_result H runtime task ''/v2/tasks/finalize'' ''task.finalize'')) (\<lambda>r.
     case r of
       Inr result \<Rightarrow> finish_codex_owner_result H repo task_id result
     | Inl finalize_error \<Rightarrow>
         if er_reason_code finalize_error = ''not_found''
         then bindR (remove_owner H repo task_id) (\<lambda>_. retR True)
         else
           bindR (tryR (end_codex_task_result H runtime task ''/v2/tasks/cancel'' ''task.cancel'')) (\<lambda>r.
           case r of
             Inr result \<Rightarrow> finish_codex_owner_result H repo task_id result
           | Inl cancel_error \<Rightarrow>
               if er_reason_code cancel_error = ''not_found''
               then bindR (remove_owner H repo task_id) (\<lambda>_. retR True)
               else failR (''could not terminally stop Codex task '' @ task_id @ '': finalize failed (''
                      @ command_error_text finalize_error @ ''); cancel failed ('' @ command_error_text cancel_error
                      @ '')'')))"

definition finish_missed_owner ::
  "host \<Rightarrow> owner_codec \<Rightarrow> string list \<Rightarrow> server_runtime \<Rightarrow> string \<Rightarrow> string \<Rightarrow> string \<Rightarrow> (string, unit) run" where
  "finish_missed_owner H OC repo runtime session_id current_turn_id name =
     (if \<not> has_json_extension name then retR ()
      else
        bindR (readS H (read_bytes (owner_directory repo @ [name]))) (\<lambda>contents.
        bindR (liftR (parse_owner OC contents)) (\<lambda>owner.
        if ow_session_id owner \<noteq> session_id \<or> ow_turn_id owner = current_turn_id then retR ()
        else
          bindR (deactivate_owner H OC repo (ow_task_id owner)) (\<lambda>found.
          case found of
            None \<Rightarrow> retR ()
          | Some owner \<Rightarrow>
              bindR (task_for_owner H owner runtime repo) (\<lambda>task.
              bindR (finish_codex_owner H repo runtime task (ow_task_id owner)) (\<lambda>finished.
              if finished then retR ()
              else failR (''previous Codex task '' @ ow_task_id owner
                     @ '' is draining; refusing a new turn in session '' @ session_id)))))))"

definition cleanup_missed_codex_owners ::
  "host \<Rightarrow> owner_codec \<Rightarrow> string list \<Rightarrow> server_runtime \<Rightarrow> string \<Rightarrow> string \<Rightarrow> (string, unit) run" where
  "cleanup_missed_codex_owners H OC repo runtime session_id current_turn_id =
     bindR (fileR H (read_dir (owner_directory repo))) (\<lambda>r.
     case r of
       Inl e \<Rightarrow> if e = NotFoundIo then retR () else failR (io_error_text e)
     | Inr names \<Rightarrow> forR (finish_missed_owner H OC repo runtime session_id current_turn_id) names)"

subsection \<open>The heartbeat helper\<close>

definition spawn_codex_heartbeat ::
  "host \<Rightarrow> owner_codec \<Rightarrow> string list \<Rightarrow> owned_task_owner \<Rightarrow> (string, unit) run" where
  "spawn_codex_heartbeat H OC repo owner =
     bindR (readS H (canonicalize repo)) (\<lambda>root.
     bindR (liftR (print_heartbeat OC \<lparr>ch_repo_root = path_text root, ch_owner = owner\<rparr>)) (\<lambda>input.
     bindR (ioR (spawnR H \<lparr>pr_program = path_text (ho_exe H), pr_args = [''hook'', ''codex'', ''heartbeat''],
                   pr_cwd = Some repo, pr_env = [], pr_stdin = Some input\<rparr>)) (\<lambda>_. retR ())))"

definition owned_task_is_live ::
  "host \<Rightarrow> owner_codec \<Rightarrow> string list \<Rightarrow> owned_task_owner \<Rightarrow> (string, bool) run" where
  "owned_task_is_live H OC repo expected =
     bindR (fileR H (read_to_string (owner_path repo (ow_task_id expected)))) (\<lambda>r.
     case r of
       Inl e \<Rightarrow> if e = NotFoundIo then retR False else failR (io_error_text e)
     | Inr contents \<Rightarrow>
         bindR (liftR (parse_owner OC contents)) (\<lambda>current.
         if current \<noteq> expected then retR False
         else bindR (tryR (process_start_identity_for_pid H (ow_pid expected))) (\<lambda>identity.
              retR (identity = Inr (ow_process_start_identity expected)))))"

definition heartbeat_codex_once ::
  "host \<Rightarrow> string list \<Rightarrow> owned_task_owner \<Rightarrow> coordination_settings \<Rightarrow> (string, unit) run" where
  "heartbeat_codex_once H repo owner settings =
     bindR (discover_runtime_with_optional_global H repo) (\<lambda>runtime.
     bindR (codex_task H \<lparr>cx_session_id = ow_session_id owner, cx_turn_id = ow_turn_id owner, cx_tool_name = None,
              cx_tool_input = JNull\<rparr> runtime repo) (\<lambda>task.
     bindR (liftR (guardE (tc_task_id task = ow_task_id owner \<and> tc_agent_id task = ow_agent_id owner
                      \<and> wi_workspace_id (tc_workspace task) = ow_workspace_id owner)
              ''Codex heartbeat task ownership changed'')) (\<lambda>_.
     heartbeat_task H task runtime settings ''Codex root turn active'')))"

fun heartbeat_loop ::
  "host \<Rightarrow> owner_codec \<Rightarrow> nat \<Rightarrow> string list \<Rightarrow> owned_task_owner \<Rightarrow> coordination_settings \<Rightarrow> (string, unit) run" where
  "heartbeat_loop H OC 0 repo owner settings = panicR"
| "heartbeat_loop H OC (Suc n) repo owner settings =
     bindR (owned_task_is_live H OC repo owner) (\<lambda>live.
     if \<not> live then retR ()
     else bindR (tryR (heartbeat_codex_once H repo owner settings)) (\<lambda>_.
          heartbeat_loop H OC n repo owner settings))"

definition run_codex_heartbeat :: "host \<Rightarrow> owner_codec \<Rightarrow> nat \<Rightarrow> string \<Rightarrow> (string, unit) run" where
  "run_codex_heartbeat H OC fuel text =
     bindR (liftR (parse_heartbeat OC text)) (\<lambda>i.
     bindR (readS H (canonicalize_text H (ch_repo_root i))) (\<lambda>repo.
     let owner = ch_owner i; settings = ts_settings (ow_task_start_input owner) in
     bindR (liftR (guardE (ow_task_id owner = hook_id (ho_env H) ''codex-task'' [ow_session_id owner, ow_turn_id owner]
                      \<and> ow_agent_id owner = ''codex:'' @ ow_session_id owner)
              ''Codex heartbeat owner identity is invalid'')) (\<lambda>_.
     bindR (liftR (validate_settings settings)) (\<lambda>_.
     heartbeat_loop H OC fuel repo owner settings))))"

subsection \<open>The Codex hooks\<close>

definition single_quoted :: "string \<Rightarrow> string" where
  "single_quoted text =
     concat (map (\<lambda>c. if c = apostrophe then [apostrophe, backslash, apostrophe, apostrophe] else [c]) text)"

definition codex_instructions :: "task_context \<Rightarrow> string list \<Rightarrow> string" where
  "codex_instructions task binary =
     ''Stateful V2 task_id='' @ tc_task_id task @ '' agent_id='' @ tc_agent_id task
     @ ''. Native Codex tools are fail-closed because their terminal payload contract is unverified. Use adapter-owned wrapper commands through Bash, beginning with the exact binary ''
     @ [apostrophe] @ single_quoted (display binary) @ [apostrophe]
     @ ''. Mutation sandbox, commit, and lease release commands must pass this task and agent identity.''"

definition handle_user_prompt_submit_in_repo ::
  "host \<Rightarrow> hook_codec \<Rightarrow> owner_codec \<Rightarrow> string \<Rightarrow> string list \<Rightarrow> (string, string) run" where
  "handle_user_prompt_submit_in_repo H K OC input repo =
     bindR (liftR (parse_codex_input K input)) (\<lambda>i.
     bindR (discover_runtime_with_optional_global H repo) (\<lambda>runtime.
     bindR (cleanup_missed_codex_owners H OC repo runtime (cx_session_id i) (cx_turn_id i)) (\<lambda>_.
     bindR (codex_task H i runtime repo) (\<lambda>task.
     bindR (settings_of H K repo) (\<lambda>settings.
     bindR (now_rfc3339 H) (\<lambda>observed_at.
     bindR (after_seconds H observed_at (inactivity_timeout_seconds settings)) (\<lambda>expires_at.
     bindR (runtime_process H) (\<lambda>process.
     bindR (record_owner H OC repo task i observed_at
              \<lparr>ts_next_action = ''Codex root turn active'', ts_settings = settings, ts_expires_at = expires_at,
               ts_runtime_process = Some process\<rparr>) (\<lambda>owner.
     bindR (tryR (post_command H (ho_task_result H) runtime ''/v2/tasks/start''
              (identity_at H task ''task.start'' ''user_prompt_submit'' None (ow_task_start_observed_at owner))
              (task_start_json (ow_task_start_input owner)))) (\<lambda>r.
     bindR (case r of
              Inr result \<Rightarrow> retR result
            | Inl e \<Rightarrow>
                bindR (if er_reason_code e = ''invalid_input''
                       then bindR (tryR (remove_owner H repo (tc_task_id task))) (\<lambda>_. retR ()) else retR ()) (\<lambda>_.
                failR (command_error_message e))) (\<lambda>result.
     bindR (liftR (guardE (tr_task_id result = tc_task_id task)
                     ''task start returned a different task owner'')) (\<lambda>_.
     bindR (if ow_heartbeat_enabled owner then tryR (spawn_codex_heartbeat H OC repo owner) else retR (Inr ())) (\<lambda>spawned.
     case spawned of
       Inl e \<Rightarrow>
         bindR (tryR (deactivate_owner H OC repo (tc_task_id task))) (\<lambda>_.
         bindR (tryR (end_codex_task_result H runtime task ''/v2/tasks/cancel'' ''task.cancel'')) (\<lambda>r.
         bindR (case r of
                  Inl _ \<Rightarrow> retR ()
                | Inr result \<Rightarrow>
                    bindR (tryR (finish_codex_owner_result H repo (tc_task_id task) result)) (\<lambda>_. retR ())) (\<lambda>_.
         failR e)))
     | Inr _ \<Rightarrow>
         bindR (readS H (canonicalize (ho_exe H))) (\<lambda>binary.
         retR (codex_instructions task binary)))))))))))))))"

definition handle_stop_in_repo ::
  "host \<Rightarrow> hook_codec \<Rightarrow> owner_codec \<Rightarrow> string \<Rightarrow> string list \<Rightarrow> (string, unit) run" where
  "handle_stop_in_repo H K OC input repo =
     bindR (liftR (parse_codex_input K input)) (\<lambda>i.
     bindR (liftR (nonempty ''Codex session_id'' (cx_session_id i))) (\<lambda>_.
     bindR (liftR (nonempty ''Codex turn_id'' (cx_turn_id i))) (\<lambda>_.
     let task_id = hook_id (ho_env H) ''codex-task'' [cx_session_id i, cx_turn_id i] in
     bindR (deactivate_owner H OC repo task_id) (\<lambda>_.
     bindR (discover_runtime_with_optional_global H repo) (\<lambda>runtime.
     bindR (codex_task H i runtime repo) (\<lambda>task.
     bindR (finish_codex_owner H repo runtime task task_id) (\<lambda>_. retR ())))))))"

text \<open>
  The entry points: a hook in a repository that is not enabled does nothing, except that an OMP
  agent is told that its tool call is allowed. The result is what is printed, if anything;
  messages on standard error are left out. The input is given, and \<open>parse_json\<close> is \<^verbatim>\<open>serde_json\<close>.
\<close>

definition hook_cwd :: "host \<Rightarrow> (string \<Rightarrow> string + json) \<Rightarrow> string \<Rightarrow> (string, string list) run" where
  "hook_cwd H parse_json input =
     bindR (liftR (parse_json input)) (\<lambda>v.
     retR (case json_text (json_get ''cwd'' v) of None \<Rightarrow> ho_cwd H | Some text \<Rightarrow> path_of_text H text))"

definition enabled_repo :: "host \<Rightarrow> registry_codec \<Rightarrow> string list \<Rightarrow> (string, string list option) run" where
  "enabled_repo H R start =
     bindR (liftR (global_paths_from_env H)) (\<lambda>paths.
     bindR (repo_gate H R paths start) (\<lambda>gate.
     retR (case gate of EnabledRepo root \<Rightarrow> Some root | _ \<Rightarrow> None)))"

definition user_prompt_output :: "string \<Rightarrow> json" where
  "user_prompt_output message =
     JObject [(''hookSpecificOutput'', JObject
       [(''hookEventName'', JString ''UserPromptSubmit''), (''additionalContext'', JString message)])]"

definition run_codex ::
  "host \<Rightarrow> hook_codec \<Rightarrow> owner_codec \<Rightarrow> registry_codec \<Rightarrow> (string \<Rightarrow> string + json) \<Rightarrow> nat \<Rightarrow> hook_event \<Rightarrow> string
     \<Rightarrow> (string, json option) run" where
  "run_codex H K OC R parse_json fuel command input =
     (if command = HeartbeatEvent then bindR (run_codex_heartbeat H OC fuel input) (\<lambda>_. retR None)
      else
        bindR (hook_cwd H parse_json input) (\<lambda>cwd.
        bindR (enabled_repo H R cwd) (\<lambda>found.
        case found of
          None \<Rightarrow> retR None
        | Some repo \<Rightarrow>
            (case command of
               PreToolUse \<Rightarrow>
                 bindR (handle_pre_tool_use_in_repo H K input) (\<lambda>outcome.
                 retR (if outcome = HookAllow then None else Some (to_stdout_json outcome)))
             | UserPromptSubmit \<Rightarrow>
                 bindR (tryR (handle_user_prompt_submit_in_repo H K OC input repo)) (\<lambda>r.
                 retR (case r of Inl _ \<Rightarrow> None | Inr message \<Rightarrow> Some (user_prompt_output message)))
             | StopEvent \<Rightarrow> bindR (tryR (handle_stop_in_repo H K OC input repo)) (\<lambda>_. retR None)
             | _ \<Rightarrow> retR None))))"

definition session_start_json :: "omp_session_start_output \<Rightarrow> json" where
  "session_start_json x =
     JObject [(''decision'', JString (so_decision x)), (''task_id'', JString (so_task_id x)),
              (''agent_id'', JString (so_agent_id x)), (''workspace_id'', JString (so_workspace_id x))]"

definition run_omp ::
  "host \<Rightarrow> hook_codec \<Rightarrow> registry_codec \<Rightarrow> (string \<Rightarrow> string + json) \<Rightarrow> nat \<Rightarrow> hook_event \<Rightarrow> string
     \<Rightarrow> (string, json option) run" where
  "run_omp H K R parse_json fuel command input =
     bindR (hook_cwd H parse_json input) (\<lambda>cwd.
     bindR (enabled_repo H R cwd) (\<lambda>found.
     case found of
       None \<Rightarrow>
         retR (if command = PreToolUse then Some (JObject [(''decision'', JString ''allow'')]) else None)
     | Some repo \<Rightarrow>
         bindR (discover_runtime_with_optional_global H repo) (\<lambda>runtime.
         case command of
           SessionStart \<Rightarrow> bindR (omp_start H K input runtime repo) (\<lambda>x. retR (Some (session_start_json x)))
         | PreToolUse \<Rightarrow> bindR (omp_pre H K fuel input runtime repo) (\<lambda>x. retR (Some (omp_outcome_json x)))
         | PostToolUse \<Rightarrow> bindR (omp_post H K fuel input runtime repo) (\<lambda>_. retR None)
         | StopEvent \<Rightarrow> bindR (omp_stop H K input runtime repo) (\<lambda>_. retR None)
         | UserPromptSubmit \<Rightarrow> failR ''OMP does not use UserPromptSubmit''
         | HeartbeatEvent \<Rightarrow> failR ''OMP does not use the Codex heartbeat helper'')))"

end
