(* ===== verification/Sandbox_Mutation.thy ===== *)
theory Sandbox_Mutation
  imports Sandbox_Stage Codex_Owners
begin

section \<open>Mutations in the sandbox\<close>

text \<open>
  \<open>run_sandbox_in_repo\<close> of \<^verbatim>\<open>src/crates/stateful-cli/src/sandbox.rs\<close>, and for the mutation profile the
  whole course of one operation: observe, record the read, prepare until the server says
  \<open>Ready\<close> (rereading and waiting for an offer as it asks), run the command on a private stage, apply
  the result, report the outcome. The loops depend on the answers of the server and take fuel;
  \<open>J\<close> is \<^verbatim>\<open>serde_json\<close> for the operation of the request.
\<close>

definition commandR ::
  "host \<Rightarrow> (json \<Rightarrow> string + 'r) \<Rightarrow> server_runtime \<Rightarrow> string \<Rightarrow> command_identity \<Rightarrow> json \<Rightarrow> (string, 'r) run" where
  "commandR H decode runtime path identity payload =
     mapErrR command_error_text (post_command H decode runtime path identity payload)"

definition sandbox_identity ::
  "host \<Rightarrow> string \<Rightarrow> string \<Rightarrow> workspace_identity \<Rightarrow> string \<Rightarrow> ('e, command_identity) run" where
  "sandbox_identity H task_id agent_id workspace event =
     bindR (externR (ho_uuid H)) (\<lambda>fresh.
     bindR (now_rfc3339 H) (\<lambda>now.
     retR \<lparr>ci_task_id = task_id, ci_request_id = fresh, ci_observed_at = now,
           ci_agent = \<lparr>ai_agent_id = agent_id, ai_turn_id = None, ai_actor_id = agent_id, ai_actor_type = ActorAgent,
             ai_owner_id = None, ai_parent_agent_id = None, ai_parent_actor_id = None\<rparr>,
           ci_workspace = workspace,
           ci_source = \<lparr>sr_kind = Cli, sr_event = event, sr_tool_name = Some ''sandbox'', sr_source_ref = event\<rparr>\<rparr>))"

definition timestamp_after :: "host \<Rightarrow> string \<Rightarrow> nat \<Rightarrow> (string, string) run" where
  "timestamp_after H observed_at secs =
     (case parse_rfc3339 (ho_env H) observed_at of
        None \<Rightarrow> failR ''timestamp cannot be parsed''
      | Some at \<Rightarrow>
          if secs \<ge> 2 ^ 63 then failR ''sandbox command duration is too large''
          else if \<not> representable (ho_env H) (at + seconds (int secs)) then panicR
          else (case format_rfc3339 (ho_env H) (at + seconds (int secs)) of
                  None \<Rightarrow> failR ''timestamp cannot be formatted''
                | Some text \<Rightarrow> retR text))"

definition sandbox_workspace_identity ::
  "host \<Rightarrow> registry_codec \<Rightarrow> string list \<Rightarrow> global_paths \<Rightarrow> server_runtime \<Rightarrow> string option
     \<Rightarrow> (string, workspace_identity) run" where
  "sandbox_workspace_identity H R repo_root paths runtime workspace_id =
     bindR (repo_identity_for_enabled_repo H R paths repo_root) (\<lambda>repo.
     retR \<lparr>wi_root = rt_root repo,
           wi_workspace_id = (case workspace_id of None \<Rightarrow> sv_workspace_id runtime | Some w \<Rightarrow> w),
           wi_repo_id = rt_repo_id repo, wi_worktree_id = rt_worktree_id repo, wi_branch = rt_branch repo\<rparr>)"

definition record_exact_read ::
  "host \<Rightarrow> server_runtime \<Rightarrow> workspace_identity \<Rightarrow> string \<Rightarrow> string \<Rightarrow> resource_observation list
     \<Rightarrow> (string, unit) run" where
  "record_exact_read H runtime workspace task_id agent_id observations =
     bindR (externR (ho_uuid H)) (\<lambda>read_id.
     bindR (externR (ho_uuid H)) (\<lambda>invocation_id.
     bindR (sandbox_identity H task_id agent_id workspace ''sandbox.read.start'') (\<lambda>identity.
     bindR (commandR H (ho_read_result H) runtime ''/v2/reads/start'' identity (read_start_json
              \<lparr>rs_read_id = read_id, rs_invocation_id = invocation_id, rs_resources = observations\<rparr>)) (\<lambda>_.
     bindR (sandbox_identity H task_id agent_id workspace ''sandbox.read.complete'') (\<lambda>identity.
     bindR (commandR H (ho_read_result H) runtime ''/v2/reads/complete'' identity (read_complete_json
              \<lparr>rc_read_id = read_id, rc_invocation_id = invocation_id, rc_resources = observations,
               rc_terminal_success = True, rc_complete = True, rc_stable = True, rc_exact = True\<rparr>)) (\<lambda>_.
     retR ()))))))"

definition offer_query :: "string \<Rightarrow> string \<Rightarrow> string \<Rightarrow> string \<Rightarrow> string" where
  "offer_query batch workspace_id task_id now =
     ''/v2/lease-requests/'' @ batch @ ''?workspace_id='' @ workspace_id @ ''&task_id='' @ task_id @ ''&now='' @ now"

fun wait_for_offer ::
  "host \<Rightarrow> server_runtime \<Rightarrow> workspace_identity \<Rightarrow> string \<Rightarrow> nat \<Rightarrow> nat \<Rightarrow> nat \<Rightarrow> string
     \<Rightarrow> (string, string \<times> lease_request_status) run" where
  "wait_for_offer H runtime workspace task_id started timeout 0 batch = panicR"
| "wait_for_offer H runtime workspace task_id started timeout (Suc n) batch =
     bindR (instantR H) (\<lambda>now.
     if \<not> now - started < timeout then failR ''sandbox write lease offer timed out''
     else
       bindR (now_rfc3339 H) (\<lambda>now_text.
       bindR (mapErrR command_error_text (get_payload H (ho_lease_status H) runtime
                (offer_query batch (wi_workspace_id workspace) task_id now_text))) (\<lambda>status.
       case lrs_state status of
         QOffered \<Rightarrow> retR (batch, status)
       | QSuperseded \<Rightarrow>
           bindR (liftR (ok_or ''superseded lease request has no replacement'' (lrs_superseded_by status)))
             (wait_for_offer H runtime workspace task_id started timeout n)
       | QQueued \<Rightarrow> wait_for_offer H runtime workspace task_id started timeout n batch
       | QActivated \<Rightarrow> retR (batch, status)
       | _ \<Rightarrow> failR ''sandbox write lease request is no longer active'')))"

definition reobserve ::
  "host \<Rightarrow> nat \<Rightarrow> workspace_identity \<Rightarrow> mutation_operation \<Rightarrow> (string, resource_observation list) run" where
  "reobserve H fuel workspace operation =
     bindR (resolverR H (\<lambda>W. resolver_new W (wi_workspace_id workspace) (path_of_text H (wi_root workspace)))) (\<lambda>R.
     resolverR H (\<lambda>W. observe_operation W (hash_of H) fuel R operation))"

definition activate_sandbox_offer ::
  "host \<Rightarrow> server_runtime \<Rightarrow> workspace_identity \<Rightarrow> string \<Rightarrow> string \<Rightarrow> coordination_settings \<Rightarrow> string
     \<Rightarrow> lease_request_status \<Rightarrow> (string, unit) run" where
  "activate_sandbox_offer H runtime workspace task_id agent_id settings batch status =
     bindR (liftR (ok_or ''offered lease request has no offer id'' (lrs_offer_id status))) (\<lambda>offer_id.
     bindR (sandbox_identity H task_id agent_id workspace ''sandbox.lease.activate'') (\<lambda>command.
     bindR (timestamp_after H (ci_observed_at command) (lease_expiry_seconds settings)) (\<lambda>expires.
     bindR (commandR H (ho_activate_result H) runtime ''/v2/leases/activate'' command (lease_activate_json
              \<lparr>la_batch_id = batch, la_offer_id = offer_id, la_version = lrs_version status,
               la_lease_expires_at = expires\<rparr>)) (\<lambda>activated.
     liftR (guardE (lar_active activated) ''sandbox lease activation was rejected'')))))"

fun prepare_loop ::
  "host \<Rightarrow> nat \<Rightarrow> server_runtime \<Rightarrow> workspace_identity \<Rightarrow> string \<Rightarrow> string \<Rightarrow> mutation_operation \<Rightarrow> string \<Rightarrow> nat
     \<Rightarrow> nat \<Rightarrow> coordination_settings \<Rightarrow> nat \<Rightarrow> resource_observation list \<Rightarrow> (string, write_prepare_result) run" where
  "prepare_loop H fuel runtime workspace task_id agent_id operation invocation timeout started settings 0 current = panicR"
| "prepare_loop H fuel runtime workspace task_id agent_id operation invocation timeout started settings (Suc n) current =
     bindR (sandbox_identity H task_id agent_id workspace ''sandbox.write.prepare'') (\<lambda>command.
     bindR (timestamp_after H (ci_observed_at command) (offer_ttl_seconds settings)) (\<lambda>request_expires_at.
     bindR (timestamp_after H (ci_observed_at command) (lease_expiry_seconds settings)) (\<lambda>lease_expires_at.
     bindR (timestamp_after H (ci_observed_at command) timeout) (\<lambda>attempt_deadline.
     bindR (commandR H (ho_prepare_result H) runtime ''/v2/writes/prepare'' command (write_prepare_json
              \<lparr>wp_invocation_id = invocation, wp_operation = operation, wp_current = current,
               wp_request_expires_at = request_expires_at, wp_lease_expires_at = lease_expires_at,
               wp_attempt_deadline = attempt_deadline\<rparr>)) (\<lambda>prepared.
     case prepared of
       Ready a p bs \<Rightarrow> retR (Ready a p bs)
     | Denied reason \<Rightarrow> retR (Denied reason)
     | RereadRequired _ \<Rightarrow>
         bindR (reobserve H fuel workspace operation) (\<lambda>current.
         bindR (record_exact_read H runtime workspace task_id agent_id current) (\<lambda>_.
         prepare_loop H fuel runtime workspace task_id agent_id operation invocation timeout started settings n current))
     | Queued batch \<Rightarrow>
         bindR (wait_for_offer H runtime workspace task_id started (offer_ttl_seconds settings * 1000000000) fuel batch)
           (\<lambda>(batch, status).
         bindR (reobserve H fuel workspace operation) (\<lambda>current.
         bindR (record_exact_read H runtime workspace task_id agent_id current) (\<lambda>_.
         bindR (if lrs_state status = QOffered
                then activate_sandbox_offer H runtime workspace task_id agent_id settings batch status
                else retR ()) (\<lambda>_.
         prepare_loop H fuel runtime workspace task_id agent_id operation invocation timeout started settings n current)))))))))"

definition prepare_until_ready ::
  "host \<Rightarrow> hook_codec \<Rightarrow> nat \<Rightarrow> server_runtime \<Rightarrow> workspace_identity \<Rightarrow> string \<Rightarrow> string \<Rightarrow> mutation_operation
     \<Rightarrow> string \<Rightarrow> resource_observation list \<Rightarrow> nat \<Rightarrow> (string, write_prepare_result) run" where
  "prepare_until_ready H K fuel runtime workspace task_id agent_id operation invocation current timeout =
     bindR (instantR H) (\<lambda>started.
     bindR (settings_of H K (path_of_text H (wi_root workspace))) (\<lambda>settings.
     bindR (record_exact_read H runtime workspace task_id agent_id current) (\<lambda>_.
     prepare_loop H fuel runtime workspace task_id agent_id operation invocation timeout started settings fuel current)))"

subsection \<open>One operation\<close>

definition observe_expected_post ::
  "host \<Rightarrow> nat \<Rightarrow> resolver \<Rightarrow> mutation_operation \<Rightarrow> (string, resource_observation list) run" where
  "observe_expected_post H fuel R operation =
     (let observe = (\<lambda>op. resolverR H (\<lambda>W. observe_operation W (hash_of H) fuel R op));
          both = (\<lambda>a b. bindR (observe a) (\<lambda>post. bindR (observe b) (\<lambda>more. retR (post @ more)))) in
      case operation of
        Create path \<Rightarrow> observe (Update path)
      | Update path \<Rightarrow> observe (Update path)
      | Delete path _ \<Rightarrow> observe (Create path)
      | Rmdir path \<Rightarrow> observe (Create path)
      | Mkdir path \<Rightarrow> observe (Rmdir path)
      | Rename old new _ \<Rightarrow> both (Update new) (Create old)
      | Move old new _ \<Rightarrow> both (Update new) (Create old)
      | Hardlink old new \<Rightarrow> both (Update old) (Update new)
      | WriteDirectory path \<Rightarrow> observe (WriteDirectory path)
      | _ \<Rightarrow> failR (''sandbox does not execute operation `'' @ kind_name operation @ ''`''))"

definition exited_clean :: "sandbox_command_result \<Rightarrow> bool" where
  "exited_clean result \<longleftrightarrow> sc_status result = ''exited'' \<and> sc_exit_code result = Some 0"

definition staged_execution ::
  "host \<Rightarrow> nat \<Rightarrow> string list \<Rightarrow> resolver \<Rightarrow> mutation_operation \<Rightarrow> resource_observation list \<Rightarrow> sandbox_run_request
     \<Rightarrow> nat \<Rightarrow> (string, sandbox_command_result) run" where
  "staged_execution H fuel repo_root R operation pre request timeout =
     bindR (stage_new H repo_root) (\<lambda>stage.
     finallyR (
       bindR (stage_populate H fuel stage operation) (\<lambda>_.
       bindR (run_sandboxed_command H fuel (sq_command request) (st_root stage) [writable_directory (st_root stage)] []
                (sq_network request) (timeout * 1000000000) (sq_stream_events request) True) (\<lambda>result.
       if \<not> exited_clean result then retR result
       else
         bindR (stage_validate H fuel stage operation) (\<lambda>_.
         bindR (resolverR H (\<lambda>W. observe_operation W (hash_of H) fuel R operation)) (\<lambda>now.
         if now \<noteq> pre then failR ''workspace changed after write permit was issued''
         else
           bindR (stage_apply H stage operation) (\<lambda>_.
           bindR (observe_expected_post H fuel R operation) (\<lambda>post.
           bindR (liftR (mapErr resource_error_text (validate_operation_transition operation pre post post))) (\<lambda>_.
           retR result))))))))
       (stage_drop H stage))"

record mutation_outcome =
  mo_result :: sandbox_command_result
  mo_terminal :: write_terminal
  mo_post :: "resource_observation list"
  mo_expected :: "resource_observation list"
  mo_error :: "string option"

definition observe_or ::
  "host \<Rightarrow> nat \<Rightarrow> resolver \<Rightarrow> mutation_operation \<Rightarrow> resource_observation list \<Rightarrow> ('e, resource_observation list) run" where
  "observe_or H fuel R operation pre =
     bindR (tryR (resolverR H (\<lambda>W. observe_operation W (hash_of H) fuel R operation))) (\<lambda>r.
     retR (case r of Inl _ \<Rightarrow> pre | Inr obs \<Rightarrow> obs))"

definition mutation_outcome_of ::
  "host \<Rightarrow> nat \<Rightarrow> resolver \<Rightarrow> mutation_operation \<Rightarrow> resource_observation list
     \<Rightarrow> string + sandbox_command_result \<Rightarrow> ('e, mutation_outcome) run" where
  "mutation_outcome_of H fuel R operation pre execution =
     (case execution of
        Inr result \<Rightarrow>
          if exited_clean result
          then
            bindR (tryR (observe_expected_post H fuel R operation)) (\<lambda>r.
            retR (case r of
              Inr obs \<Rightarrow>
                \<lparr>mo_result = result, mo_terminal = TSuccess, mo_post = obs, mo_expected = obs, mo_error = None\<rparr>
            | Inl e \<Rightarrow>
                \<lparr>mo_result = \<lparr>sc_status = ''failed'', sc_exit_code = Some 1, sc_stdout = sc_stdout result,
                   sc_stderr = sc_stderr result @ ''; post-write state is uncertain: '' @ e\<rparr>,
                 mo_terminal = TUncertain, mo_post = pre, mo_expected = [], mo_error = Some e\<rparr>))
          else
            bindR (observe_or H fuel R operation pre) (\<lambda>post.
            retR \<lparr>mo_result = result, mo_terminal = TFailedKnown, mo_post = post, mo_expected = [],
                  mo_error = Some ''sandbox child failed; private staging was discarded''\<rparr>)
      | Inl e \<Rightarrow>
          bindR (observe_or H fuel R operation pre) (\<lambda>post.
          retR \<lparr>mo_result = \<lparr>sc_status = ''failed'', sc_exit_code = Some 1, sc_stdout = [], sc_stderr = e\<rparr>,
                mo_terminal = (if post = pre then TFailedKnown else TUncertain), mo_post = post, mo_expected = [],
                mo_error = Some e\<rparr>))"

definition run_staged_mutation ::
  "host \<Rightarrow> hook_codec \<Rightarrow> nat \<Rightarrow> string list \<Rightarrow> server_runtime \<Rightarrow> workspace_identity \<Rightarrow> string \<Rightarrow> string
     \<Rightarrow> mutation_operation \<Rightarrow> sandbox_run_request \<Rightarrow> nat \<Rightarrow> (string, sandbox_command_result) run" where
  "run_staged_mutation H K fuel repo_root runtime workspace task_id agent_id operation request timeout =
     bindR (resolverR H (\<lambda>W. resolver_new W (wi_workspace_id workspace) repo_root)) (\<lambda>R.
     bindR (resolverR H (\<lambda>W. observe_operation W (hash_of H) fuel R operation)) (\<lambda>pre.
     bindR (externR (ho_uuid H)) (\<lambda>invocation.
     bindR (prepare_until_ready H K fuel runtime workspace task_id agent_id operation invocation pre timeout) (\<lambda>prepared.
     case prepared of
       Ready attempt permit _ \<Rightarrow>
         bindR (tryR (staged_execution H fuel repo_root R operation pre request timeout)) (\<lambda>execution.
         bindR (mutation_outcome_of H fuel R operation pre execution) (\<lambda>outcome.
         bindR (sandbox_identity H task_id agent_id workspace ''sandbox.write.complete'') (\<lambda>identity.
         bindR (commandR H (ho_complete_result H) runtime ''/v2/writes/complete'' identity (write_complete_json
                  \<lparr>wc_attempt_id = attempt, wc_permit_id = permit, wc_invocation_id = invocation,
                   wc_terminal = mo_terminal outcome, wc_post_resources = mo_post outcome,
                   wc_expected_post_resources = mo_expected outcome, wc_error = mo_error outcome\<rparr>)) (\<lambda>_.
         retR (mo_result outcome)))))
     | _ \<Rightarrow> failR ''write prepare did not return an executable permit''))))"

subsection \<open>The request\<close>

fun run_operations ::
  "(mutation_operation \<Rightarrow> (string, sandbox_command_result) run) \<Rightarrow> mutation_operation list \<Rightarrow> sandbox_command_result
     \<Rightarrow> (string, sandbox_command_result) run" where
  "run_operations f [] out = retR out"
| "run_operations f (operation # ops) out =
     bindR (f operation) (\<lambda>result.
     let out' = out\<lparr>sc_stdout := sc_stdout out @ sc_stdout result, sc_stderr := sc_stderr out @ sc_stderr result\<rparr> in
     if exited_clean result then run_operations f ops out'
     else retR (out'\<lparr>sc_status := sc_status result, sc_exit_code := sc_exit_code result\<rparr>))"

definition run_staged_mutations ::
  "host \<Rightarrow> hook_codec \<Rightarrow> owner_codec \<Rightarrow> registry_codec \<Rightarrow> nat \<Rightarrow> string list \<Rightarrow> global_paths \<Rightarrow> sandbox_run_request
     \<Rightarrow> mutation_operation list \<Rightarrow> nat \<Rightarrow> (string, sandbox_command_result) run" where
  "run_staged_mutations H K OC R fuel repo_root paths request operations timeout =
     bindR (resolve_owned_wrapper_task H OC repo_root) (\<lambda>owner.
     case (sq_task_id request, sq_agent_id request) of
       (Some task_id, Some agent_id) \<Rightarrow>
         if ow_task_id owner \<noteq> task_id \<or> ow_agent_id owner \<noteq> agent_id
         then failR ''mutation sandbox task and agent must match its live hook-owned ancestor''
         else
           bindR (liftR (validate_agent_id agent_id ''agent_id'')) (\<lambda>_.
           bindR (discover_runtime_with_global H repo_root (gp_server_json paths)) (\<lambda>runtime.
           bindR (sandbox_workspace_identity H R repo_root paths runtime (sq_workspace_id request)) (\<lambda>workspace.
           run_operations (\<lambda>operation.
             run_staged_mutation H K fuel repo_root runtime workspace task_id agent_id operation request timeout)
             operations \<lparr>sc_status = ''exited'', sc_exit_code = Some 0, sc_stdout = [], sc_stderr = []\<rparr>)))
     | _ \<Rightarrow> panicR)"

definition resolve_sandbox_cwd :: "host \<Rightarrow> string list \<Rightarrow> (string, string list) run" where
  "resolve_sandbox_cwd H repo_root =
     bindR (mapErrR (\<lambda>e. ''stateful sandbox run cwd must exist: '' @ io_error_text e)
              (readR H (canonicalize repo_root))) (\<lambda>cwd.
     bindR (fileR H (path_is_dir cwd)) (\<lambda>is_dir.
     if is_dir then retR cwd else failR ''stateful sandbox run cwd must be a directory''))"

definition run_sandbox_in_repo ::
  "host \<Rightarrow> hook_codec \<Rightarrow> owner_codec \<Rightarrow> registry_codec \<Rightarrow> (string \<Rightarrow> string + mutation_operation) \<Rightarrow> nat \<Rightarrow> string list
     \<Rightarrow> global_paths \<Rightarrow> sandbox_run_request \<Rightarrow> (string, sandbox_command_result) run" where
  "run_sandbox_in_repo H K OC R J fuel start paths request =
     bindR (repo_gate H R paths start) (\<lambda>gate.
     case gate of
       DisabledRepo \<Rightarrow> failR ''stateful sandbox run requires an enabled repo''
     | OutsideGitRepo \<Rightarrow> failR ''stateful sandbox run requires a Git repo''
     | EnabledRepo repo_root \<Rightarrow>
         bindR (liftR (validate_sandbox_run_request_shape J request)) (\<lambda>shape.
         let timeout = sandbox_run_timeout_duration (sq_timeout_seconds request) in
         case sq_fs request of
           ReadOnlyFs \<Rightarrow>
             bindR (resolve_sandbox_cwd H repo_root) (\<lambda>cwd.
             run_sandboxed_command H fuel (sq_command request) cwd [] [] (sq_network request) (timeout * 1000000000)
               (sq_stream_events request) True)
         | GitFs \<Rightarrow>
             (case vs_direct_command shape of
                None \<Rightarrow> panicR
              | Some words \<Rightarrow>
                  bindR (stage_new H repo_root) (\<lambda>temporary.
                  finallyR (
                    bindR (resolve_sandbox_cwd H repo_root) (\<lambda>cwd.
                    run_sandboxed_git_command H fuel words cwd [writable_directory (st_root temporary)]
                      (st_root temporary) (st_root temporary @ [''hooks-disabled'']) (sq_network request)
                      (timeout * 1000000000) (sq_stream_events request)))
                    (stage_drop H temporary)))
         | MutationFs \<Rightarrow>
             run_staged_mutations H K OC R fuel repo_root paths request (vs_operations shape) timeout))"

end
