(* ===== verification/Commit.thy ===== *)
theory Commit
  imports Sandbox_Launch Sandbox_Mutation
begin

section \<open>Structured commits\<close>

text \<open>
  \<^verbatim>\<open>src/crates/stateful-cli/src/commit.rs\<close>: a commit of explicitly named files. The state of the
  files and of the Git metadata is observed, the server prepares the write, the commit is built in a
  private index and work tree, hooks run in a sandbox between two captures of everything they must
  not touch, and \<^verbatim>\<open>HEAD\<close> moves by compare-and-swap. Git is a program of the host: what it answers
  is the host's, what it is asked is the trace. \<open>BTreeMap\<close>s are association lists in key order.
\<close>

definition LEASE_TTL :: nat where "LEASE_TTL = 60"

definition REQUEST_TTL :: nat where "REQUEST_TTL = 120"

record commit_request =
  cq_repo_root :: "string list"
  cq_message :: string
  cq_paths :: "string list"
  cq_identity :: command_identity

record commit_result =
  cm_commit_sha :: string
  cm_committed_paths :: "string list"
  cm_warnings :: "string list"

record git_metadata_snapshot =
  gm_head_sha :: "string option"
  gm_head :: content_digest
  gm_index :: "content_digest option"
  gm_packed_refs :: "content_digest option"
  gm_refs :: "(string \<times> string) list"

record commit_batch =
  bt_tracked :: "(string \<times> resource_observation list) list"
  bt_metadata :: git_metadata_snapshot
  bt_resources :: "resource_observation list"

record prepared_commit =
  pc_invocation_id :: string
  pc_attempt_id :: string
  pc_permit_id :: string
  pc_batch :: commit_batch

record committed_commit =
  kc_result :: commit_result
  kc_post :: "commit_batch option"
  kc_terminal :: write_terminal
  kc_completion_error :: "string option"
  kc_hook_changes :: "(string \<times> string) list"

fun btree_insert :: "'k::linorder \<Rightarrow> 'v \<Rightarrow> ('k \<times> 'v) list \<Rightarrow> ('k \<times> 'v) list" where
  "btree_insert k v [] = [(k, v)]"
| "btree_insert k v ((k', v') # entries) =
     (if k < k' then (k, v) # (k', v') # entries
      else if k = k' then (k, v) # entries
      else (k', v') # btree_insert k v entries)"

definition batch_workspace_id :: "commit_batch \<Rightarrow> string" where
  "batch_workspace_id batch = rk_workspace_id (obs_resource (hd (bt_resources batch)))"

subsection \<open>Git\<close>

definition sanitize_git_environment :: "host \<Rightarrow> env_change list" where
  "sanitize_git_environment H =
     map RemoveEnv [''GIT_DIR'', ''GIT_WORK_TREE'', ''GIT_COMMON_DIR'', ''GIT_INDEX_FILE'', ''GIT_OBJECT_DIRECTORY'',
       ''GIT_ALTERNATE_OBJECT_DIRECTORIES'', ''GIT_NAMESPACE'', ''GIT_EXTERNAL_DIFF'', ''GIT_PAGER'']
     @ map RemoveEnv (filter (\<lambda>key.
         starts_with (utf8_lossy key) ''GIT_CONFIG_'' \<or> starts_with (utf8_lossy key) ''GIT_TRACE'')
         (map fst (ho_environ H)))"

definition git_command :: "host \<Rightarrow> string list \<Rightarrow> string list \<Rightarrow> string list option \<Rightarrow> process" where
  "git_command H repo_root args index =
     \<lparr>pr_program = ''git'', pr_args = args, pr_cwd = Some repo_root,
      pr_env = sanitize_git_environment H @ [SetEnv ''GIT_OPTIONAL_LOCKS'' ''0'']
        @ (case index of None \<Rightarrow> [] | Some path \<Rightarrow> [SetEnv ''GIT_INDEX_FILE'' (path_text path)]),
      pr_stdin = None\<rparr>"

definition git_failure :: "string list \<Rightarrow> process_output \<Rightarrow> string" where
  "git_failure args out =
     ''git '' @ join_spaces args @ '' failed: '' @ trim (utf8_lossy (po_stderr out))"

definition git_stdout_bytes_with_index ::
  "host \<Rightarrow> string list \<Rightarrow> string list \<Rightarrow> string list option \<Rightarrow> (string, string) run" where
  "git_stdout_bytes_with_index H repo_root args index =
     bindR (ioR (outputR H (git_command H repo_root args index))) (\<lambda>out.
     if \<not> po_success out then failR (git_failure args out) else retR (po_stdout out))"

definition from_utf8 :: "string \<Rightarrow> string + string" where
  "from_utf8 bytes = (if utf8_valid bytes then Inr bytes else Inl ''invalid utf-8 sequence'')"

definition git_stdout_with_index ::
  "host \<Rightarrow> string list \<Rightarrow> string list \<Rightarrow> string list option \<Rightarrow> (string, string) run" where
  "git_stdout_with_index H repo_root args index =
     bindR (git_stdout_bytes_with_index H repo_root args index) (\<lambda>bytes. liftR (from_utf8 bytes))"

definition commit_git_stdout :: "host \<Rightarrow> string list \<Rightarrow> string list \<Rightarrow> (string, string) run" where
  "commit_git_stdout H repo_root args = git_stdout_with_index H repo_root args None"

definition git_status_with_index ::
  "host \<Rightarrow> string list \<Rightarrow> string list \<Rightarrow> string list option \<Rightarrow> (string, unit) run" where
  "git_status_with_index H repo_root args index =
     bindR (ioR (outputR H (git_command H repo_root args index))) (\<lambda>out.
     if \<not> po_success out then failR (git_failure args out) else retR ())"

definition commit_git_status :: "host \<Rightarrow> string list \<Rightarrow> string list \<Rightarrow> (string, unit) run" where
  "commit_git_status H repo_root args = git_status_with_index H repo_root args None"

definition git_dir :: "host \<Rightarrow> string list \<Rightarrow> (string, string list) run" where
  "git_dir H repo_root =
     bindR (commit_git_stdout H repo_root [''rev-parse'', ''--absolute-git-dir'']) (\<lambda>out.
     retR (path_of_text H (trim out)))"

definition head_sha :: "host \<Rightarrow> string list \<Rightarrow> (string, string option) run" where
  "head_sha H repo_root =
     bindR (ioR (outputR H (git_command H repo_root [''rev-parse'', ''--verify'', ''HEAD''] None))) (\<lambda>out.
     if po_success out then bindR (liftR (from_utf8 (po_stdout out))) (\<lambda>text. retR (Some (trim text)))
     else retR None)"

definition is_tracked_path :: "host \<Rightarrow> string list \<Rightarrow> string \<Rightarrow> (string, bool) run" where
  "is_tracked_path H repo_root path =
     bindR (ioR (outputR H (git_command H repo_root [''ls-files'', ''--error-unmatch'', ''--'', path] None))) (\<lambda>out.
     retR (po_success out))"

definition matches_tracked_directory :: "host \<Rightarrow> string list \<Rightarrow> string \<Rightarrow> (string, bool) run" where
  "matches_tracked_directory H repo_root path =
     bindR (commit_git_stdout H repo_root [''ls-files'', ''--'', path]) (\<lambda>out.
     retR (list_ex (\<lambda>entry. entry \<noteq> [] \<and> portable entry \<noteq> path) (text_lines out)))"

fun parse_refs :: "string list \<Rightarrow> (string \<times> string) list \<Rightarrow> string + (string \<times> string) list" where
  "parse_refs [] refs = Inr refs"
| "parse_refs (line # rest) refs =
     bindE (ok_or ''invalid Git ref snapshot'' (split_once '' '' line)) (\<lambda>(name, object).
     parse_refs rest (btree_insert name object refs))"

definition git_refs :: "host \<Rightarrow> string list \<Rightarrow> (string, (string \<times> string) list) run" where
  "git_refs H repo_root =
     bindR (commit_git_stdout H repo_root [''for-each-ref'', ''--format=%(refname) %(objectname)'']) (\<lambda>out.
     liftR (parse_refs (text_lines out) []))"

definition optional_digest :: "host \<Rightarrow> string list \<Rightarrow> (string, content_digest option) run" where
  "optional_digest H path =
     bindR (fileR H (read_bytes path)) (\<lambda>r.
     case r of
       Inr bytes \<Rightarrow> retR (Some (digest_bytes (hash_of H) bytes))
     | Inl e \<Rightarrow> if e = NotFoundIo then retR None else failR (io_error_text e))"

definition capture_metadata :: "host \<Rightarrow> string list \<Rightarrow> string list \<Rightarrow> (string, git_metadata_snapshot) run" where
  "capture_metadata H repo_root git_directory =
     bindR (head_sha H repo_root) (\<lambda>sha.
     bindR (readS H (read_bytes (git_directory @ [''HEAD'']))) (\<lambda>head.
     bindR (optional_digest H (git_directory @ [''index''])) (\<lambda>index.
     bindR (optional_digest H (git_directory @ [''packed-refs''])) (\<lambda>packed.
     bindR (git_refs H repo_root) (\<lambda>refs.
     retR \<lparr>gm_head_sha = sha, gm_head = digest_bytes (hash_of H) head, gm_index = index,
           gm_packed_refs = packed, gm_refs = refs\<rparr>)))))"

definition metadata_json :: "git_metadata_snapshot \<Rightarrow> json" where
  "metadata_json m = JObject
     [(''head_sha'', jopt JString (gm_head_sha m)), (''head'', digest_json (gm_head m)),
      (''index'', jopt digest_json (gm_index m)), (''packed_refs'', jopt digest_json (gm_packed_refs m)),
      (''refs'', JObject (map (\<lambda>(name, object). (name, JString object)) (gm_refs m)))]"

definition metadata_observation ::
  "host \<Rightarrow> string \<Rightarrow> string list \<Rightarrow> git_metadata_snapshot \<Rightarrow> (string, resource_observation) run" where
  "metadata_observation H workspace_id git_directory m =
     bindR (readS H (metadata_of git_directory)) (\<lambda>md.
     retR (TreeObs
       \<lparr>rk_workspace_id = workspace_id, rk_kind = DirectoryTree,
        rk_resource_id = ''directory:'' @ nat_digits (md_dev md) @ '':'' @ nat_digits (md_ino md),
        rk_canonical_path = ''.git''\<rparr>
       (TreePresent (md_dev md) (md_ino md) (digest_canonical_json (hash_of H) (metadata_json m))
         (length (gm_refs m) + 3)) 0))"

subsection \<open>Paths\<close>

definition is_broad_text :: "string \<Rightarrow> bool" where
  "is_broad_text path \<longleftrightarrow>
     path = [] \<or> path \<in> {''.'', ''*'', '':/''} \<or> is_absolute path \<or> starts_with path ''-'' \<or> starts_with path '':''
     \<or> text_contains path ''..'' \<or> text_contains path ''//'' \<or> ends_with path ''/'' \<or> CHR 0x5C \<in> set path
     \<or> list_ex (\<lambda>c. c \<in> {CHR ''*'', CHR ''?'', CHR ''['', CHR '']''}) path"

definition is_broad_pathspec :: "host \<Rightarrow> string list \<Rightarrow> string \<Rightarrow> ('e, bool) run" where
  "is_broad_pathspec H repo_root path =
     (if is_broad_text path then retR True else fileR H (path_is_dir (join_relative repo_root path)))"

definition normalize_explicit_path :: "host \<Rightarrow> string list \<Rightarrow> string \<Rightarrow> (string, string) run" where
  "normalize_explicit_path H repo_root original =
     (let path = (case strip_prefix ''./'' original of None \<Rightarrow> original | Some rest \<Rightarrow> rest);
          normalized = normalize_relative_path path in
      bindR (is_broad_pathspec H repo_root path) (\<lambda>broad.
      bindR (if broad then retR True else is_broad_pathspec H repo_root normalized) (\<lambda>broad.
      bindR (if broad then retR True else matches_tracked_directory H repo_root normalized) (\<lambda>broad.
      if broad then failR (''explicit file paths are required; rejected pathspec `'' @ original @ ''`'')
      else
        bindR (fileR H (path_exists (join_relative repo_root normalized))) (\<lambda>exists.
        bindR (if exists then retR True else is_tracked_path H repo_root normalized) (\<lambda>known.
        if known then retR normalized
        else failR (''explicit file path `'' @ original @ ''` is neither tracked nor present'')))))))"

fun mapR :: "('a \<Rightarrow> ('e, 'b) run) \<Rightarrow> 'a list \<Rightarrow> ('e, 'b list) run" where
  "mapR f [] = retR []"
| "mapR f (x # xs) = bindR (f x) (\<lambda>y. bindR (mapR f xs) (\<lambda>ys. retR (y # ys)))"

definition normalize_explicit_paths :: "host \<Rightarrow> string list \<Rightarrow> string list \<Rightarrow> (string, string list) run" where
  "normalize_explicit_paths H repo_root paths =
     (if paths = [] then failR ''explicit tracked file paths are required''
      else bindR (mapR (normalize_explicit_path H repo_root) paths) (\<lambda>normalized.
           retR (remdups_adj (sort normalized))))"

subsection \<open>Observation\<close>

definition observe_commit_target ::
  "host \<Rightarrow> nat \<Rightarrow> string list \<Rightarrow> string \<Rightarrow> string \<Rightarrow> (string, resource_observation list) run" where
  "observe_commit_target H fuel repo_root workspace_id path =
     bindR (resolverR H (\<lambda>W. resolver_new W workspace_id repo_root)) (\<lambda>R. read_observation H fuel R path)"

fun observe_targets ::
  "host \<Rightarrow> nat \<Rightarrow> string list \<Rightarrow> string \<Rightarrow> string list \<Rightarrow> (string \<times> resource_observation list) list
     \<Rightarrow> resource_observation list
     \<Rightarrow> (string, (string \<times> resource_observation list) list \<times> resource_observation list) run" where
  "observe_targets H fuel repo_root workspace_id [] tracked observations = retR (tracked, observations)"
| "observe_targets H fuel repo_root workspace_id (path # paths) tracked observations =
     bindR (observe_commit_target H fuel repo_root workspace_id path) (\<lambda>obs.
     observe_targets H fuel repo_root workspace_id paths (btree_insert path obs tracked) (observations @ obs))"

definition observe_commit_batch ::
  "host \<Rightarrow> nat \<Rightarrow> string list \<Rightarrow> string \<Rightarrow> string list \<Rightarrow> (string, commit_batch) run" where
  "observe_commit_batch H fuel repo_root workspace_id paths =
     bindR (observe_targets H fuel repo_root workspace_id paths [] []) (\<lambda>(tracked, observations).
     bindR (git_dir H repo_root) (\<lambda>git_directory.
     bindR (capture_metadata H repo_root git_directory) (\<lambda>m.
     bindR (metadata_observation H workspace_id git_directory m) (\<lambda>obs.
     retR \<lparr>bt_tracked = tracked, bt_metadata = m, bt_resources = observations @ [obs]\<rparr>))))"

definition same_observations :: "resource_observation list \<Rightarrow> resource_observation list \<Rightarrow> bool" where
  "same_observations left right \<longleftrightarrow>
     sort_key (\<lambda>obs. rk_ord (obs_resource obs)) left = sort_key (\<lambda>obs. rk_ord (obs_resource obs)) right"

definition ensure_batch_unchanged ::
  "host \<Rightarrow> nat \<Rightarrow> string list \<Rightarrow> commit_batch \<Rightarrow> string list \<Rightarrow> (string, unit) run" where
  "ensure_batch_unchanged H fuel repo_root before_batch paths =
     bindR (observe_commit_batch H fuel repo_root (batch_workspace_id before_batch) paths) (\<lambda>current.
     if same_observations (bt_resources current) (bt_resources before_batch) then retR ()
     else failR ''structured commit HEAD, index, ref, or target prestate changed; retry the commit'')"

definition ensure_successful_transition :: "commit_batch \<Rightarrow> commit_batch \<Rightarrow> string + unit" where
  "ensure_successful_transition before_batch after_batch =
     (if bt_metadata before_batch = bt_metadata after_batch
      then Inl ''structured commit did not change Git metadata''
      else foldE (\<lambda>(path, start) _.
        if map_of (bt_tracked after_batch) path = Some start then Inr ()
        else Inl (''structured commit changed tracked target `'' @ path @ ''` outside the hook wrapper''))
        (bt_tracked before_batch) ())"

end
