(* ===== verification/Commit_Run.thy ===== *)
theory Commit_Run
  imports Commit
begin

section \<open>The course of a structured commit\<close>

text \<open>
  The second half of \<^verbatim>\<open>src/crates/stateful-cli/src/commit.rs\<close>: preparing the commit with the
  server, the private work tree in which hooks run, the new commit, and the report to the server.
  Values with a \<open>Drop\<close> are removed by \<open>finallyR\<close> in the reverse order of their creation.
\<close>

subsection \<open>Identities\<close>

definition next_identity :: "host \<Rightarrow> command_identity \<Rightarrow> ('e, command_identity) run" where
  "next_identity H identity =
     bindR (externR (ho_uuid H)) (\<lambda>fresh.
     bindR (now_rfc3339 H) (\<lambda>now.
     retR (identity\<lparr>ci_request_id := fresh, ci_observed_at := now\<rparr>)))"

definition future_rfc3339 :: "host \<Rightarrow> string \<Rightarrow> nat \<Rightarrow> (string, string) run" where
  "future_rfc3339 H observed_at secs =
     (case parse_rfc3339 (ho_env H) observed_at of
        None \<Rightarrow> failR ''timestamp cannot be parsed''
      | Some at \<Rightarrow>
          if secs \<ge> 2 ^ 63 then failR ''out of range integral type conversion attempted''
          else if \<not> representable (ho_env H) (at + seconds (int secs)) then panicR
          else (case format_rfc3339 (ho_env H) (at + seconds (int secs)) of
                  None \<Rightarrow> failR ''timestamp cannot be formatted''
                | Some text \<Rightarrow> retR text))"

text \<open>\<open>percent_encode\<close> is the function \<open>url\<close> of the hooks again.\<close>

definition percent_encode :: "string \<Rightarrow> string" where
  "percent_encode v = concat (map (\<lambda>c.
     if ascii_alphanumeric c \<or> c \<in> {CHR ''-'', CHR ''_'', CHR ''.'', CHR ''~''} then [c]
     else let n = of_char c; hex = (\<lambda>k. if k < 10 then char_of (48 + k) else char_of (55 + k :: nat))
          in [CHR ''%'', hex (n div 16), hex (n mod 16)]) v)"

definition record_commit_read ::
  "host \<Rightarrow> server_runtime \<Rightarrow> command_identity \<Rightarrow> resource_observation list \<Rightarrow> (string, unit) run" where
  "record_commit_read H runtime identity observations =
     bindR (externR (ho_uuid H)) (\<lambda>read_id.
     bindR (externR (ho_uuid H)) (\<lambda>invocation_id.
     bindR (next_identity H identity) (\<lambda>command.
     bindR (commandR H (ho_read_result H) runtime ''/v2/reads/start'' command (read_start_json
              \<lparr>rs_read_id = read_id, rs_invocation_id = invocation_id, rs_resources = observations\<rparr>)) (\<lambda>_.
     bindR (next_identity H identity) (\<lambda>command.
     bindR (commandR H (ho_read_result H) runtime ''/v2/reads/complete'' command (read_complete_json
              \<lparr>rc_read_id = read_id, rc_invocation_id = invocation_id, rc_resources = observations,
               rc_terminal_success = True, rc_complete = True, rc_stable = True, rc_exact = True\<rparr>)) (\<lambda>_.
     retR ()))))))"

subsection \<open>Preparing\<close>

definition activate_commit_offer ::
  "host \<Rightarrow> nat \<Rightarrow> server_runtime \<Rightarrow> command_identity \<Rightarrow> string list \<Rightarrow> string list \<Rightarrow> lease_request_status
     \<Rightarrow> (string, unit) run" where
  "activate_commit_offer H fuel runtime identity repo_root paths status =
     bindR (liftR (ok_or ''stateful commit offer is missing its offer id'' (lrs_offer_id status))) (\<lambda>offer_id.
     bindR (observe_commit_batch H fuel repo_root (wi_workspace_id (ci_workspace identity)) paths) (\<lambda>current.
     bindR (record_commit_read H runtime identity (bt_resources current)) (\<lambda>_.
     bindR (next_identity H identity) (\<lambda>command.
     bindR (future_rfc3339 H (ci_observed_at command) LEASE_TTL) (\<lambda>expires.
     bindR (commandR H (ho_activate_result H) runtime ''/v2/leases/activate'' command (lease_activate_json
              \<lparr>la_batch_id = lrs_batch_id status, la_offer_id = offer_id, la_version = lrs_version status,
               la_lease_expires_at = expires\<rparr>)) (\<lambda>activated.
     liftR (guardE (lar_active activated) ''stateful commit lease activation was rejected'')))))))"

definition commit_query :: "command_identity \<Rightarrow> string \<Rightarrow> string \<Rightarrow> string" where
  "commit_query identity batch now =
     ''/v2/lease-requests/'' @ percent_encode batch @ ''?workspace_id=''
     @ percent_encode (wi_workspace_id (ci_workspace identity)) @ ''&task_id='' @ percent_encode (ci_task_id identity)
     @ ''&now='' @ percent_encode now"

fun wait_for_commit_offer ::
  "host \<Rightarrow> nat \<Rightarrow> server_runtime \<Rightarrow> command_identity \<Rightarrow> string list \<Rightarrow> string list \<Rightarrow> nat \<Rightarrow> nat \<Rightarrow> string
     \<Rightarrow> (string, unit) run" where
  "wait_for_commit_offer H fuel runtime identity repo_root paths deadline 0 batch = panicR"
| "wait_for_commit_offer H fuel runtime identity repo_root paths deadline (Suc n) batch =
     bindR (instantR H) (\<lambda>now.
     if \<not> now < deadline then failR ''stateful commit lease offer timed out''
     else
       bindR (now_rfc3339 H) (\<lambda>now_text.
       bindR (mapErrR command_error_text (get_payload H (ho_lease_status H) runtime
                (commit_query identity batch now_text))) (\<lambda>status.
       case lrs_state status of
         QOffered \<Rightarrow> activate_commit_offer H fuel runtime identity repo_root paths status
       | QActivated \<Rightarrow> retR ()
       | QQueued \<Rightarrow> wait_for_commit_offer H fuel runtime identity repo_root paths deadline n batch
       | QSuperseded \<Rightarrow>
           bindR (liftR (ok_or ''superseded commit lease request has no replacement'' (lrs_superseded_by status)))
             (wait_for_commit_offer H fuel runtime identity repo_root paths deadline n)
       | _ \<Rightarrow> failR ''stateful commit lease request is no longer active'')))"

definition post_commit_prepare ::
  "host \<Rightarrow> server_runtime \<Rightarrow> command_identity \<Rightarrow> string \<Rightarrow> string \<Rightarrow> mutation_operation \<Rightarrow> resource_observation list
     \<Rightarrow> (string, write_prepare_result) run" where
  "post_commit_prepare H runtime identity path invocation operation current =
     bindR (next_identity H identity) (\<lambda>command.
     bindR (future_rfc3339 H (ci_observed_at command) REQUEST_TTL) (\<lambda>request_expires_at.
     bindR (future_rfc3339 H (ci_observed_at command) LEASE_TTL) (\<lambda>lease_expires_at.
     bindR (future_rfc3339 H (ci_observed_at command) LEASE_TTL) (\<lambda>attempt_deadline.
     commandR H (ho_prepare_result H) runtime path command (write_prepare_json
       \<lparr>wp_invocation_id = invocation, wp_operation = operation, wp_current = current,
        wp_request_expires_at = request_expires_at, wp_lease_expires_at = lease_expires_at,
        wp_attempt_deadline = attempt_deadline\<rparr>)))))"

fun prepare_commit_loop ::
  "host \<Rightarrow> nat \<Rightarrow> server_runtime \<Rightarrow> command_identity \<Rightarrow> string list \<Rightarrow> string list \<Rightarrow> nat \<Rightarrow> nat
     \<Rightarrow> (string, prepared_commit) run" where
  "prepare_commit_loop H fuel runtime identity repo_root paths deadline 0 = panicR"
| "prepare_commit_loop H fuel runtime identity repo_root paths deadline (Suc n) =
     bindR (observe_commit_batch H fuel repo_root (wi_workspace_id (ci_workspace identity)) paths) (\<lambda>batch.
     bindR (liftR (mapErr resource_error_text
              (validate_operation_start (StructuredCommit paths) (bt_resources batch)))) (\<lambda>_.
     bindR (record_commit_read H runtime identity (bt_resources batch)) (\<lambda>_.
     bindR (externR (ho_uuid H)) (\<lambda>invocation.
     bindR (post_commit_prepare H runtime identity ''/v2/commits/prepare'' invocation (StructuredCommit paths)
              (bt_resources batch)) (\<lambda>result.
     case result of
       Ready attempt permit _ \<Rightarrow>
         retR \<lparr>pc_invocation_id = invocation, pc_attempt_id = attempt, pc_permit_id = permit, pc_batch = batch\<rparr>
     | Queued batch_id \<Rightarrow>
         bindR (wait_for_commit_offer H fuel runtime identity repo_root paths deadline fuel batch_id) (\<lambda>_.
         prepare_commit_loop H fuel runtime identity repo_root paths deadline n)
     | RereadRequired _ \<Rightarrow>
         bindR (instantR H) (\<lambda>now.
         if now < deadline then prepare_commit_loop H fuel runtime identity repo_root paths deadline n
         else failR ''stateful commit evidence remained stale while waiting for its lease'')
     | Denied reason \<Rightarrow> failR (''stateful commit write preparation denied: '' @ reason))))))"

definition prepare_commit ::
  "host \<Rightarrow> nat \<Rightarrow> server_runtime \<Rightarrow> command_identity \<Rightarrow> string list \<Rightarrow> string list \<Rightarrow> (string, prepared_commit) run" where
  "prepare_commit H fuel runtime identity repo_root paths =
     bindR (instantR H) (\<lambda>now.
     case instant_add now (REQUEST_TTL * 1000000000) of
       None \<Rightarrow> panicR
     | Some deadline \<Rightarrow> prepare_commit_loop H fuel runtime identity repo_root paths deadline fuel)"

subsection \<open>The private work tree\<close>

record private_hook_workspace =
  pw_root :: "string list"
  pw_initial :: "(string \<times> string option) list"

fun copy_targets ::
  "host \<Rightarrow> string list \<Rightarrow> string list \<Rightarrow> string list \<Rightarrow> (string \<times> string option) list
     \<Rightarrow> (string, (string \<times> string option) list) run" where
  "copy_targets H repo_root root [] initial = retR initial"
| "copy_targets H repo_root root (path # paths) initial =
     (let source = join_relative repo_root path; target = join_relative root path in
      bindR (fileR H (read_bytes source)) (\<lambda>r.
      case r of
        Inr contents \<Rightarrow>
          bindR (changeS H (CreateDirAll (butlast target))) (\<lambda>_.
          bindR (changeS H (WriteFile target contents)) (\<lambda>_.
          bindR (readS H (metadata_of source)) (\<lambda>m.
          bindR (changeS H (SetPermissions target (md_mode m))) (\<lambda>_.
          copy_targets H repo_root root paths (btree_insert path (Some contents) initial)))))
      | Inl e \<Rightarrow>
          if e = NotFoundIo then copy_targets H repo_root root paths (btree_insert path None initial)
          else failR (io_error_text e)))"

text \<open>A step whose failure removes the directory: \<open>inspect_err\<close> and the check of \<open>result.is_err()\<close>.\<close>

definition or_remove :: "host \<Rightarrow> string list \<Rightarrow> (string, 'a) run \<Rightarrow> (string, 'a) run" where
  "or_remove H root m =
     bindR (tryR m) (\<lambda>r.
     case r of
       Inr x \<Rightarrow> retR x
     | Inl e \<Rightarrow> bindR (tryR (changeR H (RemoveDirAll root))) (\<lambda>_. failR e))"

definition create_hook_workspace :: "host \<Rightarrow> string list \<Rightarrow> string list \<Rightarrow> (string, private_hook_workspace) run" where
  "create_hook_workspace H repo_root paths =
     bindR (externR (ho_uuid H)) (\<lambda>fresh.
     let made = ho_temp_dir H @ [''stateful-commit-hooks-'' @ nat_digits (ho_pid H) @ ''-'' @ fresh] in
     bindR (changeS H (CreateDir made)) (\<lambda>_.
     bindR (or_remove H made (readS H (canonicalize made))) (\<lambda>root.
     or_remove H root (
       if \<not> utf8_valid (path_text root) then failR ''private hook workspace path must be valid UTF-8''
       else
         bindR (changeS H (SetPermissions root 448)) (\<lambda>_.
         bindR (readS H (canonicalize root)) (\<lambda>canonical.
         if take (length repo_root) canonical = repo_root
         then failR ''private hook workspace must not be inside the repository''
         else
           bindR (changeS H (CreateDir (root @ [''.stateful-tmp'']))) (\<lambda>_.
           bindR (copy_targets H repo_root root paths []) (\<lambda>initial.
           retR \<lparr>pw_root = root, pw_initial = initial\<rparr>))))))))"

definition not_regular :: "string \<Rightarrow> string" where
  "not_regular path = ''hook changed declared target `'' @ path @ ''` away from a regular file''"

fun changed_targets ::
  "host \<Rightarrow> string list \<Rightarrow> (string \<times> string option) list \<Rightarrow> (string \<times> string) list
     \<Rightarrow> (string, (string \<times> string) list) run" where
  "changed_targets H root [] changed = retR changed"
| "changed_targets H root ((path, initial) # rest) changed =
     (let target = join_relative root path in
      case initial of
        Some bytes \<Rightarrow>
          bindR (contextR (not_regular path) (readR H (symlink_metadata target))) (\<lambda>m.
          if md_type m \<noteq> RegularType then failR (not_regular path)
          else
            bindR (readS H (read_bytes target)) (\<lambda>now.
            changed_targets H root rest (if now \<noteq> bytes then btree_insert path now changed else changed)))
      | None \<Rightarrow>
          bindR (fileR H (path_exists target)) (\<lambda>exists.
          if exists
          then failR (''hook created declared absent target `'' @ path @ ''`; use a V2 create before commit'')
          else changed_targets H root rest changed))"

definition changed_existing_targets :: "host \<Rightarrow> private_hook_workspace \<Rightarrow> (string, (string \<times> string) list) run" where
  "changed_existing_targets H workspace = changed_targets H (pw_root workspace) (pw_initial workspace) []"

definition stage_private_target ::
  "host \<Rightarrow> string list \<Rightarrow> string list \<Rightarrow> string list \<Rightarrow> string \<Rightarrow> (string, unit) run" where
  "stage_private_target H repo_root private_root index path =
     bindR (fileR H (path_is_file (join_relative private_root path))) (\<lambda>present.
     let args = (if present then [''add'', ''--force'', ''--'', path] else [''update-index'', ''--force-remove'', ''--'', path]) in
     bindR (git_dir H repo_root) (\<lambda>git_directory.
     bindR (ioR (outputR H
       \<lparr>pr_program = ''git'', pr_args = args, pr_cwd = Some private_root,
        pr_env = sanitize_git_environment H @ [SetEnv ''GIT_DIR'' (path_text git_directory),
          SetEnv ''GIT_WORK_TREE'' (path_text private_root), SetEnv ''GIT_INDEX_FILE'' (path_text index)],
        pr_stdin = None\<rparr>)) (\<lambda>out.
     if po_success out then retR ()
     else failR (''git private stage failed for `'' @ path @ ''`: '' @ trim (utf8_lossy (po_stderr out))))))"

definition stage_private_targets ::
  "host \<Rightarrow> string list \<Rightarrow> string list \<Rightarrow> string list \<Rightarrow> string list \<Rightarrow> (string, unit) run" where
  "stage_private_targets H repo_root private_root index paths =
     forR (stage_private_target H repo_root private_root index) paths"

subsection \<open>Hooks\<close>

definition posix_shell_quote_path :: "string list \<Rightarrow> string \<Rightarrow> string + string" where
  "posix_shell_quote_path path field =
     (let v = path_text path in
      if \<not> utf8_valid v then Inl (field @ '' must be valid UTF-8'')
      else if CHR 0x00 \<in> set v then Inl (field @ '' must not contain a NUL byte'')
      else Inr ([apostrophe]
        @ concat (map (\<lambda>c. if c = apostrophe then [apostrophe, quotation_mark, apostrophe, quotation_mark, apostrophe]
                           else [c]) v)
        @ [apostrophe]))"

definition executable_mode :: "nat \<Rightarrow> bool" where
  "executable_mode mode \<longleftrightarrow> odd (mode div 64) \<or> odd (mode div 8) \<or> odd mode"

definition hook_path :: "host \<Rightarrow> string list \<Rightarrow> string \<Rightarrow> (string, string list option) run" where
  "hook_path H repo_root name =
     bindR (commit_git_stdout H repo_root [''rev-parse'', ''--git-path'', ''hooks/'' @ name]) (\<lambda>out.
     let text = trim out;
         hook = (if is_absolute text then split_on (CHR ''/'') (tl text) else join_relative repo_root text) in
     bindR (fileR H (path_is_file hook)) (\<lambda>present.
     if \<not> present then retR None
     else
       bindR (readS H (metadata_of hook)) (\<lambda>m.
       retR (if executable_mode (md_mode m) then Some hook else None))))"

record hook_boundary =
  hb_worktree_status :: string
  hb_metadata :: git_metadata_snapshot
  hb_index :: "(string \<times> string) list"

fun parse_index :: "string list \<Rightarrow> (string \<times> string) list \<Rightarrow> string + (string \<times> string) list" where
  "parse_index [] snapshot = Inr snapshot"
| "parse_index (entry # entries) snapshot =
     bindE (ok_or ''invalid Git index entry'' (split_once [CHR 0x09] entry)) (\<lambda>(metadata, path).
     parse_index entries (btree_insert path metadata snapshot))"

definition index_snapshot :: "host \<Rightarrow> string list \<Rightarrow> string list \<Rightarrow> (string, (string \<times> string) list) run" where
  "index_snapshot H repo_root index =
     bindR (git_stdout_bytes_with_index H repo_root [''ls-files'', ''--stage'', ''-z''] (Some index)) (\<lambda>bytes.
     liftR (parse_index (filter (\<lambda>entry. entry \<noteq> []) (split_on (CHR 0x00) bytes)) []))"

definition capture_boundary :: "host \<Rightarrow> string list \<Rightarrow> string list \<Rightarrow> (string, hook_boundary) run" where
  "capture_boundary H repo_root index =
     bindR (git_dir H repo_root) (\<lambda>git_directory.
     bindR (git_stdout_bytes_with_index H repo_root [''status'', ''--porcelain=v1'', ''-z'', ''-uall''] None) (\<lambda>status.
     bindR (capture_metadata H repo_root git_directory) (\<lambda>m.
     bindR (index_snapshot H repo_root index) (\<lambda>entries.
     retR \<lparr>hb_worktree_status = status, hb_metadata = m, hb_index = entries\<rparr>))))"

definition changed_bytes_keys :: "(string \<times> 'v) list \<Rightarrow> (string \<times> 'v) list \<Rightarrow> string list" where
  "changed_bytes_keys old new =
     filter (\<lambda>path. map_of old path \<noteq> map_of new path) (remdups_adj (sort (map fst old @ map fst new)))"

definition assert_only_declared :: "hook_boundary \<Rightarrow> hook_boundary \<Rightarrow> string list \<Rightarrow> string + unit" where
  "assert_only_declared old new explicit =
     (if hb_worktree_status old \<noteq> hb_worktree_status new
      then Inl ''hook wrote to the real workspace outside its private staging area''
      else if hb_metadata old \<noteq> hb_metadata new then Inl ''hook modified Git HEAD, refs, or the primary index''
      else foldE (\<lambda>path _. if path \<in> set explicit then Inr ()
             else Inl (''hook modified undeclared index path `'' @ utf8_lossy path @ ''`''))
             (changed_bytes_keys (hb_index old) (hb_index new)) ())"

definition hook_command_text ::
  "string list \<Rightarrow> string list \<Rightarrow> string list \<Rightarrow> string list \<Rightarrow> string list list \<Rightarrow> string + string" where
  "hook_command_text git_directory private_root index hook args =
     bindE (posix_shell_quote_path git_directory ''hook GIT_DIR'') (\<lambda>d.
     bindE (posix_shell_quote_path private_root ''hook GIT_WORK_TREE'') (\<lambda>w.
     bindE (posix_shell_quote_path index ''hook GIT_INDEX_FILE'') (\<lambda>i.
     bindE (posix_shell_quote_path hook ''hook path'') (\<lambda>h.
     foldE (\<lambda>argument text.
       bindE (posix_shell_quote_path argument ''hook argument'') (\<lambda>a. Inr (text @ '' '' @ a))) args
       (''GIT_DIR='' @ d @ '' GIT_WORK_TREE='' @ w @ '' GIT_INDEX_FILE='' @ i @ '' exec '' @ h)))))"

text \<open>\<open>Debug\<close> of an exit code.\<close>

definition exit_code_debug :: "int option \<Rightarrow> string" where
  "exit_code_debug code =
     (case code of
        None \<Rightarrow> ''None''
      | Some n \<Rightarrow> ''Some('' @ (if n < 0 then ''-'' else []) @ nat_digits (nat \<bar>n\<bar>) @ '')'')"

definition run_allowed_hook ::
  "host \<Rightarrow> nat \<Rightarrow> string list \<Rightarrow> string list \<Rightarrow> string list \<Rightarrow> string \<Rightarrow> string list list \<Rightarrow> string list
     \<Rightarrow> (string, unit) run" where
  "run_allowed_hook H fuel repo_root private_root index name args explicit =
     bindR (hook_path H repo_root name) (\<lambda>found.
     case found of
       None \<Rightarrow> retR ()
     | Some hook \<Rightarrow>
         bindR (git_dir H repo_root) (\<lambda>git_directory.
         bindR (liftR (hook_command_text git_directory private_root index hook args)) (\<lambda>command.
         bindR (capture_boundary H repo_root index) (\<lambda>old.
         bindR (mapErrR (\<lambda>e. name @ '' hook sandbox failed: '' @ e)
                  (run_private_sandbox_command H fuel command private_root
                     (writable_directory private_root # map writable_file args) (LEASE_TTL * 1000000000))) (\<lambda>out.
         bindR (capture_boundary H repo_root index) (\<lambda>new.
         bindR (liftR (assert_only_declared old new explicit)) (\<lambda>_.
         if exited_clean out then retR ()
         else failR (name @ '' hook failed ('' @ sc_status out @ '', '' @ exit_code_debug (sc_exit_code out) @ ''): ''
                @ trim (sc_stderr out)))))))))"

subsection \<open>The new commit\<close>

definition temporary_index :: "host \<Rightarrow> string list \<Rightarrow> string list \<Rightarrow> (string, string list) run" where
  "temporary_index H repo_root private_root =
     bindR (externR (ho_uuid H)) (\<lambda>fresh.
     let path = private_root @ [''stateful-commit-index-'' @ nat_digits (ho_pid H) @ ''-'' @ fresh @ ''.index''] in
     bindR (head_sha H repo_root) (\<lambda>sha.
     bindR (git_status_with_index H repo_root
              [''read-tree'', case sha of Some _ \<Rightarrow> ''HEAD'' | None \<Rightarrow> ''--empty''] (Some path)) (\<lambda>_.
     retR path)))"

definition index_drop :: "host \<Rightarrow> string list \<Rightarrow> (io_error, unit) run" where
  "index_drop H path =
     bindR (tryR (changeR H (RemoveFile path)) :: (io_error, io_error + unit) run) (\<lambda>_.
     changeR H (RemoveFile (butlast path @ [last path @ ''.lock''])))"

definition temporary_commit_message :: "host \<Rightarrow> string list \<Rightarrow> string \<Rightarrow> (string, string list) run" where
  "temporary_commit_message H private_root message =
     bindR (externR (ho_uuid H)) (\<lambda>fresh.
     let path = private_root @ [''stateful-commit-message-'' @ nat_digits (ho_pid H) @ ''-'' @ fresh @ ''.txt''] in
     bindR (changeS H (WriteFile path (message @ [CHR 0x0A]))) (\<lambda>_.
     retR path))"

definition update_head_cas :: "host \<Rightarrow> string list \<Rightarrow> string \<Rightarrow> string option \<Rightarrow> (string, unit) run" where
  "update_head_cas H repo_root commit_sha expected_head =
     commit_git_status H repo_root
       [''update-ref'', ''HEAD'', commit_sha, case expected_head of Some head \<Rightarrow> head | None \<Rightarrow> []]"

definition commit_temp_index_with_head_cas ::
  "host \<Rightarrow> string list \<Rightarrow> string list \<Rightarrow> string list \<Rightarrow> string option \<Rightarrow> (string, string) run" where
  "commit_temp_index_with_head_cas H repo_root index message expected_head =
     bindR (head_sha H repo_root) (\<lambda>sha.
     if sha \<noteq> expected_head then failR ''structured commit HEAD prestate changed; retry the commit''
     else
       bindR (git_stdout_with_index H repo_root [''write-tree''] (Some index)) (\<lambda>tree.
       bindR (commit_git_stdout H repo_root
                ([''commit-tree'', trim tree]
                 @ (case expected_head of Some head \<Rightarrow> [''-p'', head] | None \<Rightarrow> [])
                 @ [''-F'', utf8_lossy (path_text message)])) (\<lambda>out.
       bindR (update_head_cas H repo_root (trim out) expected_head) (\<lambda>_.
       retR (trim out)))))"

definition synchronize_primary_index :: "host \<Rightarrow> string list \<Rightarrow> string \<Rightarrow> string list \<Rightarrow> (string, unit) run" where
  "synchronize_primary_index H repo_root commit_sha paths =
     commit_git_status H repo_root ([''reset'', ''--quiet'', commit_sha, ''--''] @ paths)"

text \<open>The part of \<open>commit_prepared\<close> up to the new \<^verbatim>\<open>HEAD\<close>, which yields the commit and what the
  hooks changed, and the part after it, which can only add warnings.\<close>

definition build_commit ::
  "host \<Rightarrow> nat \<Rightarrow> string list \<Rightarrow> string list \<Rightarrow> prepared_commit \<Rightarrow> private_hook_workspace \<Rightarrow> string list
     \<Rightarrow> string list \<Rightarrow> (string, string \<times> (string \<times> string) list) run" where
  "build_commit H fuel repo_root paths prepared workspace index message_path =
     bindR (run_allowed_hook H fuel repo_root (pw_root workspace) index ''pre-commit'' [] paths) (\<lambda>_.
     bindR (stage_private_targets H repo_root (pw_root workspace) index paths) (\<lambda>_.
     bindR (run_allowed_hook H fuel repo_root (pw_root workspace) index ''commit-msg'' [message_path] paths) (\<lambda>_.
     bindR (stage_private_targets H repo_root (pw_root workspace) index paths) (\<lambda>_.
     bindR (changed_existing_targets H workspace) (\<lambda>hook_changes.
     bindR (ensure_batch_unchanged H fuel repo_root (pc_batch prepared) paths) (\<lambda>_.
     bindR (commit_temp_index_with_head_cas H repo_root index message_path
              (gm_head_sha (bt_metadata (pc_batch prepared)))) (\<lambda>commit_sha.
     retR (commit_sha, hook_changes))))))))"

definition post_commit_warnings :: "string list \<Rightarrow> commit_batch \<Rightarrow> string + commit_batch \<Rightarrow> string list" where
  "post_commit_warnings paths start observed =
     (case observed of
        Inl e \<Rightarrow> [''post-commit observation after HEAD update failed: '' @ e]
      | Inr now \<Rightarrow>
          (case validate_operation_transition (StructuredCommit paths) (bt_resources start) (bt_resources now)
                  (bt_resources now) of
             Inl e \<Rightarrow> [''post-commit observation validation after HEAD update failed: '' @ resource_error_text e]
           | Inr _ \<Rightarrow> [])
          @ (case ensure_successful_transition start now of
               Inl e \<Rightarrow> [''post-commit transition check after HEAD update failed: '' @ e]
             | Inr _ \<Rightarrow> []))"

fun join_semicolons :: "string list \<Rightarrow> string" where
  "join_semicolons [] = []"
| "join_semicolons [s] = s"
| "join_semicolons (s # t # ss) = s @ ''; '' @ join_semicolons (t # ss)"

definition finish_commit ::
  "host \<Rightarrow> nat \<Rightarrow> string list \<Rightarrow> string list \<Rightarrow> prepared_commit \<Rightarrow> string \<Rightarrow> (string \<times> string) list
     \<Rightarrow> (string, committed_commit) run" where
  "finish_commit H fuel repo_root paths prepared commit_sha hook_changes =
     bindR (tryR (synchronize_primary_index H repo_root commit_sha paths) :: (string, string + unit) run) (\<lambda>synchronized.
     bindR (tryR (observe_commit_batch H fuel repo_root (batch_workspace_id (pc_batch prepared)) paths)) (\<lambda>observed.
     let warnings = (case synchronized of
                       Inl e \<Rightarrow> [''primary index synchronization after HEAD update failed: '' @ e]
                     | Inr _ \<Rightarrow> []);
         completion_warnings = post_commit_warnings paths (pc_batch prepared) observed in
     retR
       \<lparr>kc_result = \<lparr>cm_commit_sha = commit_sha, cm_committed_paths = paths,
                     cm_warnings = warnings @ completion_warnings\<rparr>,
        kc_post = (case observed of Inl _ \<Rightarrow> None | Inr now \<Rightarrow> Some now),
        kc_terminal = (if completion_warnings = [] then TSuccess else TUncertain),
        kc_completion_error =
          (if completion_warnings = [] then None else Some (join_semicolons completion_warnings)),
        kc_hook_changes = hook_changes\<rparr>))"

definition commit_prepared ::
  "host \<Rightarrow> nat \<Rightarrow> string list \<Rightarrow> string \<Rightarrow> string list \<Rightarrow> prepared_commit \<Rightarrow> (string, committed_commit) run" where
  "commit_prepared H fuel repo_root message paths prepared =
     bindR (ensure_batch_unchanged H fuel repo_root (pc_batch prepared) paths) (\<lambda>_.
     bindR (create_hook_workspace H repo_root paths) (\<lambda>workspace.
     finallyR
       (bindR (temporary_index H repo_root (pw_root workspace)) (\<lambda>index.
        finallyR
          (bindR (stage_private_targets H repo_root (pw_root workspace) index paths) (\<lambda>_.
           bindR (temporary_commit_message H (pw_root workspace) message) (\<lambda>message_path.
           finallyR
             (bindR (build_commit H fuel repo_root paths prepared workspace index message_path)
                (\<lambda>(commit_sha, hook_changes).
              finish_commit H fuel repo_root paths prepared commit_sha hook_changes))
             (changeR H (RemoveFile message_path)))))
          (index_drop H index)))
       (changeR H (RemoveDirAll (pw_root workspace)))))"

subsection \<open>Reports to the server\<close>

fun result_status_debug :: "write_result_status \<Rightarrow> string" where
  "result_status_debug WCompleted = ''Completed''"
| "result_status_debug WFailed = ''Failed''"
| "result_status_debug WUncertain = ''Uncertain''"

fun expected_status :: "write_terminal \<Rightarrow> write_result_status" where
  "expected_status TSuccess = WCompleted"
| "expected_status TFailedKnown = WFailed"
| "expected_status TUncertain = WUncertain"

definition complete_commit ::
  "host \<Rightarrow> server_runtime \<Rightarrow> command_identity \<Rightarrow> prepared_commit \<Rightarrow> write_terminal \<Rightarrow> resource_observation list
     \<Rightarrow> resource_observation list \<Rightarrow> string option \<Rightarrow> (string, unit) run" where
  "complete_commit H runtime identity prepared terminal post_resources expected error =
     bindR (next_identity H identity) (\<lambda>command.
     bindR (commandR H (ho_complete_result H) runtime ''/v2/commits/complete'' command (write_complete_json
              \<lparr>wc_attempt_id = pc_attempt_id prepared, wc_permit_id = pc_permit_id prepared,
               wc_invocation_id = pc_invocation_id prepared, wc_terminal = terminal,
               wc_post_resources = post_resources, wc_expected_post_resources = expected, wc_error = error\<rparr>))
       (\<lambda>result.
     liftR (guardE (wcr_status result = expected_status terminal)
       (''stateful commit completion became '' @ result_status_debug (wcr_status result)))))"

definition complete_failed ::
  "host \<Rightarrow> nat \<Rightarrow> server_runtime \<Rightarrow> command_identity \<Rightarrow> string list \<Rightarrow> prepared_commit \<Rightarrow> string
     \<Rightarrow> (string, commit_result) run" where
  "complete_failed H fuel runtime identity repo_root prepared error =
     bindR (tryR (observe_commit_batch H fuel repo_root (batch_workspace_id (pc_batch prepared))
              (map fst (bt_tracked (pc_batch prepared)))) :: (string, string + commit_batch) run) (\<lambda>observed.
     let (terminal, seen) =
       (case observed of
          Inr now \<Rightarrow>
            (if same_observations (bt_resources now) (bt_resources (pc_batch prepared)) then TFailedKnown
             else TUncertain, bt_resources now)
        | Inl _ \<Rightarrow> (TUncertain, [])) in
     bindR (complete_commit H runtime identity prepared terminal seen seen (Some error)) (\<lambda>_.
     failR error))"

definition hook_write_outcome ::
  "io_error + unit \<Rightarrow> string + resource_observation list \<Rightarrow> resource_observation list
     \<Rightarrow> write_terminal \<times> resource_observation list \<times> string option" where
  "hook_write_outcome written observed current =
     (case (written, observed) of
        (Inr _, Inr now) \<Rightarrow> (TSuccess, now, None)
      | (Inl e, Inr now) \<Rightarrow> (if now = current then TFailedKnown else TUncertain, now, Some (io_error_text e))
      | (Inl e, Inl _) \<Rightarrow> (TUncertain, [], Some (io_error_text e))
      | (Inr _, Inl e) \<Rightarrow> (TUncertain, [], Some e))"

definition apply_hook_change ::
  "host \<Rightarrow> nat \<Rightarrow> server_runtime \<Rightarrow> command_identity \<Rightarrow> string list \<Rightarrow> commit_batch \<Rightarrow> string \<times> string
     \<Rightarrow> (string, unit) run" where
  "apply_hook_change H fuel runtime identity repo_root start = (\<lambda>(path, contents).
     bindR (observe_commit_target H fuel repo_root (wi_workspace_id (ci_workspace identity)) path) (\<lambda>current.
     if map_of (bt_tracked start) path \<noteq> Some current
     then failR (''hook target `'' @ path @ ''` changed before wrapper CAS could apply it'')
     else
       bindR (record_commit_read H runtime identity current) (\<lambda>_.
       bindR (externR (ho_uuid H)) (\<lambda>invocation.
       bindR (post_commit_prepare H runtime identity ''/v2/writes/prepare'' invocation (Update path) current) (\<lambda>result.
       case result of
         Ready attempt permit _ \<Rightarrow>
           bindR (tryR (changeR H (WriteFile (join_relative repo_root path) contents))) (\<lambda>written.
           bindR (tryR (observe_commit_target H fuel repo_root (wi_workspace_id (ci_workspace identity)) path)) (\<lambda>observed.
           let (terminal, seen, error) = hook_write_outcome written observed current in
           bindR (next_identity H identity) (\<lambda>command.
           bindR (commandR H (ho_complete_result H) runtime ''/v2/writes/complete'' command (write_complete_json
                    \<lparr>wc_attempt_id = attempt, wc_permit_id = permit, wc_invocation_id = invocation,
                     wc_terminal = terminal, wc_post_resources = seen, wc_expected_post_resources = seen,
                     wc_error = error\<rparr>)) (\<lambda>_.
           case error of
             None \<Rightarrow> retR ()
           | Some e \<Rightarrow> failR (''hook target `'' @ path @ ''` wrapper apply failed: '' @ e)))))
       | _ \<Rightarrow> failR (''hook target `'' @ path @ ''` could not acquire its commit lease''))))))"

definition apply_hook_changes ::
  "host \<Rightarrow> nat \<Rightarrow> server_runtime \<Rightarrow> command_identity \<Rightarrow> string list \<Rightarrow> commit_batch \<Rightarrow> (string \<times> string) list
     \<Rightarrow> (string, unit) run" where
  "apply_hook_changes H fuel runtime identity repo_root start changes =
     forR (apply_hook_change H fuel runtime identity repo_root start) changes"

subsection \<open>The command\<close>

definition add_warning :: "string \<Rightarrow> string + unit \<Rightarrow> commit_result \<Rightarrow> commit_result" where
  "add_warning text outcome result =
     (case outcome of
        Inl e \<Rightarrow> result\<lparr>cm_warnings := cm_warnings result @ [text @ e]\<rparr>
      | Inr _ \<Rightarrow> result)"

definition report_commit ::
  "host \<Rightarrow> nat \<Rightarrow> server_runtime \<Rightarrow> command_identity \<Rightarrow> string list \<Rightarrow> prepared_commit \<Rightarrow> committed_commit
     \<Rightarrow> (string, commit_result) run" where
  "report_commit H fuel runtime identity repo_root prepared committed =
     (let seen = (case kc_post committed of None \<Rightarrow> [] | Some batch \<Rightarrow> bt_resources batch) in
      bindR (tryR (complete_commit H runtime identity prepared (kc_terminal committed) seen seen
               (kc_completion_error committed))) (\<lambda>completed.
      bindR (tryR (apply_hook_changes H fuel runtime identity repo_root (pc_batch prepared)
               (kc_hook_changes committed))) (\<lambda>applied.
      retR (add_warning ''hook changes after HEAD update failed: '' applied
             (add_warning ''server completion after HEAD update failed: '' completed (kc_result committed))))))"

definition run_structured_commit :: "host \<Rightarrow> nat \<Rightarrow> commit_request \<Rightarrow> (string, commit_result) run" where
  "run_structured_commit H fuel request =
     (let message = trim (cq_message request); identity = cq_identity request in
      if message = [] then failR ''commit message is required''
      else
        bindR (readS H (canonicalize (cq_repo_root request))) (\<lambda>repo_root.
        bindR (fileR H (path_exists (repo_root @ [''.git'']))) (\<lambda>has_git.
        if \<not> has_git then failR ''structured commit requires a Git repository root''
        else if ci_task_id identity = [] \<or> ai_agent_id (ci_agent identity) = []
        then failR ''stateful commit requires an active task and agent identity''
        else
          bindR (readS H (canonicalize (path_of_text H (wi_root (ci_workspace identity))))) (\<lambda>root.
          if root \<noteq> repo_root
          then failR ''stateful commit identity workspace root does not match repository root''
          else
            bindR (normalize_explicit_paths H repo_root (cq_paths request)) (\<lambda>paths.
            bindR (discover_runtime_with_optional_global H repo_root) (\<lambda>runtime.
            bindR (prepare_commit H fuel runtime identity repo_root paths) (\<lambda>prepared.
            bindR (tryR (commit_prepared H fuel repo_root message paths prepared)) (\<lambda>outcome.
            case outcome of
              Inr committed \<Rightarrow> report_commit H fuel runtime identity repo_root prepared committed
            | Inl error \<Rightarrow> complete_failed H fuel runtime identity repo_root prepared error))))))))"

end
