(* ===== verification/Run_Traces.thy ===== *)
theory Run_Traces
  imports Client_Commands Commit_Run
begin

section \<open>What a run does to the outside\<close>

text \<open>
  Runs record their file changes and the processes they start in a trace. \<open>traced Q\<close> relates the
  states around a run that adds only actions with the property \<open>Q\<close>; it is another interpretation of
  the locales \<open>run_relation\<close> and \<open>serving\<close>. The first part adds the rules for the remaining
  combinators to these locales, the second the rules for the actions, and the third goes through
  the registry, the owner files, the sandbox and its stage.
\<close>

subsection \<open>Combinators\<close>

context run_relation
begin

lemma relates_wrap:
  "relates P m \<Longrightarrow> relates P (contextR text m)" "relates P m' \<Longrightarrow> relates P (ioR m')"
  "relates P (readR H f)" "relates P (readS H f')"
  "relates P m \<Longrightarrow> relates P c \<Longrightarrow> relates P (finallyR m c)"
  unfolding contextR_def ioR_def readS_def readR_def finallyR_def by (intro run_relation_rules; assumption?)+

lemma relates_known:
  assumes "relates P m" "\<And>x s s'. m s = Some (Inr x, s') \<Longrightarrow> relates P (f x)"
  shows "relates P (bindR m f)"
  using assms unfolding relates_def by (blast elim: bindR_cases intro: follows)

lemma relates_for: "(\<And>x. x \<in> set xs \<Longrightarrow> relates P (f x)) \<Longrightarrow> relates P (forR f xs)"
  by (induction xs) (auto intro!: run_relation_rules)

lemma relates_mapR: "(\<And>x. x \<in> set xs \<Longrightarrow> relates P (f x)) \<Longrightarrow> relates P (mapR f xs)"
  by (induction xs) (auto intro!: run_relation_rules)

lemma relates_filterR: "(\<And>x. relates P (f x)) \<Longrightarrow> relates P (filterR f xs)"
  by (induction xs) (auto intro!: run_relation_rules)

lemma relates_clocks: "relates P (instantR H)" "relates P (try_waitR H pid)" "relates P (pipeR H pid b c)"
  unfolding instantR_def try_waitR_def pipeR_def by (intro run_relation_rules)+

lemmas tool_rules = run_relation_rules relates_wrap relates_clocks relates_clock relates_process relates_lookups

lemma relates_climb: "relates P (climb_to_git H start path)"
  by (induction path) (auto intro!: tool_rules)

lemma relates_registry:
  "relates P (detect_git_root H start)" "relates P (load_registry H R paths)" "relates P (enabled_entry H entries root)"
  "relates P (is_enabled H entries root)" "relates P (repo_gate H R paths start)"
  unfolding detect_git_root_def load_registry_def enabled_entry_def is_enabled_def repo_gate_def
  by (intro tool_rules relates_climb)+

lemma relates_discover:
  "relates P (discover_runtime H repo)" "relates P (discover_runtime_with_global H repo json)"
  "relates P (discover_runtime_with_optional_global H repo)"
  unfolding discover_runtime_with_optional_global_def discover_runtime_with_global_def discover_runtime_def
  by (intro tool_rules)+

lemma relates_ancestors: "relates P (ancestors_from H n pid found)"
  by (induction n arbitrary: pid found) (auto simp: Let_def intro!: tool_rules)

lemma relates_live_owners: "relates P (live_owners H OC directory processes names found)"
  by (induction names arbitrary: found) (auto intro!: tool_rules)

lemma relates_owner: "relates P (resolve_owned_wrapper_task H OC repo)"
  unfolding resolve_owned_wrapper_task_def ancestors_def
  by (intro tool_rules relates_ancestors relates_live_owners) (auto split: list.split intro!: tool_rules)

lemma relates_components: "relates P (workspace_components_loop H cursor path)"
  by (induction path arbitrary: cursor) (auto intro!: tool_rules)

lemma relates_validate_tree: "relates P (Sandbox_Stage.validate_directory_tree H n path)"
proof (induction n arbitrary: path)
  case (Suc n)
  show ?case by (simp only: Sandbox_Stage.validate_directory_tree.simps) (intro tool_rules relates_for Suc)
qed (simp add: relates_basic)

lemma relates_stage_checks:
  "relates P (validate_workspace_paths H stage operation)" "relates P (stage_validate H fuel stage operation)"
  unfolding validate_workspace_paths_def ensure_workspace_components_def stage_validate_def require_absent_def
    require_same_regular_file_def require_regular_file_def require_empty_directory_def Let_def
  by (auto split: mutation_operation.split intro!: tool_rules relates_for relates_components relates_validate_tree)

lemma relates_expected_post: "relates P (observe_expected_post H fuel R operation)"
  unfolding observe_expected_post_def Let_def
  by (auto split: mutation_operation.split intro!: tool_rules)

lemma relates_outcome: "relates P (mutation_outcome_of H fuel R operation pre execution)"
  unfolding mutation_outcome_of_def observe_or_def by (intro tool_rules relates_expected_post)

lemma relates_identity: "relates P (sandbox_identity H task agent workspace event)" "relates P (next_identity H identity)"
  unfolding sandbox_identity_def next_identity_def by (intro tool_rules)+

lemma relates_times: "relates P (timestamp_after H at secs)" "relates P (future_rfc3339 H at secs)"
  unfolding timestamp_after_def future_rfc3339_def by (intro tool_rules)+

lemma relates_reobserve: "relates P (reobserve H fuel workspace operation)"
  unfolding reobserve_def by (intro tool_rules)

end

subsection \<open>Exchanges with the server\<close>

context serving
begin

lemma relates_command: "relates P (commandR H decode runtime path identity payload)"
  unfolding commandR_def by (intro serving_rules)

lemmas exchange_rules = serving_rules relates_wrap relates_clocks relates_command relates_identity relates_times relates_reobserve

lemma relates_record_read:
  "relates P (record_exact_read H runtime workspace task agent obs)" "relates P (record_commit_read H runtime identity obs)"
  unfolding record_exact_read_def record_commit_read_def by (intro exchange_rules)+

lemma relates_wait: "relates P (wait_for_offer H runtime workspace task started timeout n batch)"
proof (induction n arbitrary: batch)
  case (Suc n)
  show ?case
    by (simp only: wait_for_offer.simps)
      (intro exchange_rules; simp split: lease_request_state.split; intro conjI impI exchange_rules Suc)
qed (simp add: relates_basic)

lemma relates_activate_sandbox: "relates P (activate_sandbox_offer H runtime workspace task agent settings batch status)"
  unfolding activate_sandbox_offer_def by (intro exchange_rules)

lemma relates_prepare_loop:
  "relates P (prepare_loop H fuel runtime workspace task agent operation invocation timeout started settings n current)"
proof (induction n arbitrary: current)
  case (Suc n)
  show ?case
    by (simp only: prepare_loop.simps)
      (intro exchange_rules; simp split: write_prepare_result.split;
       intro conjI impI allI exchange_rules relates_wait relates_activate_sandbox relates_record_read Suc)
qed (simp add: relates_basic)

lemma relates_prepare_until_ready:
  "relates P (prepare_until_ready H K fuel runtime workspace task agent operation invocation current timeout)"
  unfolding prepare_until_ready_def by (intro exchange_rules relates_record_read relates_prepare_loop)

lemma relates_post_prepare: "relates P (post_commit_prepare H runtime identity path invocation operation current)"
  unfolding post_commit_prepare_def by (intro exchange_rules)

lemma relates_complete_commit: "relates P (complete_commit H runtime identity prepared terminal obs expected error)"
  unfolding complete_commit_def by (intro exchange_rules)

end

subsection \<open>Traces\<close>

definition traced :: "(action \<Rightarrow> bool) \<Rightarrow> client_state \<Rightarrow> client_state \<Rightarrow> bool" where
  "traced Q s s' \<longleftrightarrow> (\<exists>t. cl_trace s' = cl_trace s @ t \<and> list_all Q t)"

lemma tracedE:
  assumes "traced Q s s'"
  obtains t where "cl_trace s' = cl_trace s @ t" "list_all Q t"
  using assms by (auto simp: traced_def)

lemma traced_mono: "traced Q s s' \<Longrightarrow> (\<And>a. Q a \<Longrightarrow> Q' a) \<Longrightarrow> traced Q' s s'"
  by (auto simp: traced_def list_all_iff)

interpretation traced: serving "traced Q" H for Q H
proof unfold_locales
  show "traced Q s s'" if "cl_trace s' = cl_trace s" for s s' using that by (auto simp: traced_def)
  show "traced Q s u" if "traced Q s t" "traced Q t u" for s t u
    using that by (auto simp: traced_def)
  show "relates (traced Q) (send_request H req)" for req
    by (rule relatesI) (auto simp: traced_def send_request_def Let_def split: delivery.splits prod.splits option.splits)
qed

lemma traced_action:
  "Q a \<Longrightarrow> relates (traced Q) (actR a f)" "Q (Changed c) \<Longrightarrow> relates (traced Q) (changeR H c)"
  "Q (Changed c) \<Longrightarrow> relates (traced Q) (changeS H c)" "Q (Ran p) \<Longrightarrow> relates (traced Q) (outputR H p)"
  "Q (Spawned p) \<Longrightarrow> relates (traced Q) (spawnR H p)"
proof -
  show act: "relates (traced Q) (actR a f)" if "Q a" for a and f :: "nat \<Rightarrow> 'x"
    using that by (auto simp: traced_def relates_def)
  show change: "relates (traced Q) (changeR H c)" if "Q (Changed c)"
    unfolding changeR_def using that by (intro traced.run_relation_rules) (auto simp: traced_def relates_def)
  then show "relates (traced Q) (changeS H c)" if "Q (Changed c)"
    using that unfolding changeS_def by (intro traced.relates_wrap) 
  show "relates (traced Q) (outputR H p)" if "Q (Ran p)"
    unfolding outputR_def using that by (intro traced.run_relation_rules) (auto simp: traced_def relates_def)
  show "relates (traced Q) (spawnR H p)" if "Q (Spawned p)"
    unfolding spawnR_def using that by (intro traced.run_relation_rules) (auto simp: traced_def relates_def)
qed

lemmas trace_rules = traced.exchange_rules traced_action

subsection \<open>Supervised commands\<close>

text \<open>A command in a sandbox: it is started once, and the only other programs are \<^verbatim>\<open>kill\<close> and, for
  the git profile, the queries of the configuration.\<close>

definition signals :: "process \<Rightarrow> bool" where
  "signals p \<longleftrightarrow> (\<exists>signal separator pid. p = kill_args signal separator pid)"

lemma traced_signal:
  assumes "\<And>p. signals p \<Longrightarrow> Q (Ran p)"
  shows "relates (traced Q) (signal_sandbox_process_group H pid signal)"
  unfolding signal_sandbox_process_group_def
  by (intro trace_rules assms) (auto simp: signals_def)

lemma traced_await_exit: "relates (traced Q) (await_exit H pid started timeout n)"
proof (induction n)
  case 0
  show ?case by (simp add: relates_def)
next
  case (Suc n)
  have "await_exit H pid started timeout (Suc n) = bindR (instantR H) (\<lambda>now.
     if now - started < timeout
     then bindR (ioR (try_waitR H pid)) (\<lambda>status.
          case status of Some code \<Rightarrow> retR (Some code) | None \<Rightarrow> await_exit H pid started timeout n)
     else retR None)" by (rule ext) simp
  then show ?case by (simp only:) (intro trace_rules Suc)
qed

lemma traced_terminate:
  assumes "\<And>p. signals p \<Longrightarrow> Q (Ran p)"
  shows "relates (traced Q) (terminate_sandbox_child H fuel pid)"
    "relates (traced Q) (cleanup_sandbox_process_group H pid done)"
    "relates (traced Q) (stop_child H fuel pid how failure)"
proof -
  show stop: "relates (traced Q) (terminate_sandbox_child H fuel pid)"
    unfolding terminate_sandbox_child_def wait_for_sandbox_child_exit_def kill_direct_sandbox_child_def
    by (intro trace_rules traced_await_exit traced_signal assms)
  then show "relates (traced Q) (stop_child H fuel pid how failure)"
    unfolding stop_child_def by (intro trace_rules)
  show "relates (traced Q) (cleanup_sandbox_process_group H pid done)"
    unfolding cleanup_sandbox_process_group_def by (intro trace_rules traced_signal assms)
qed

lemma traced_await_child:
  assumes "\<And>p. signals p \<Longrightarrow> Q (Ran p)"
  shows "relates (traced Q) (await_child H fuel pid deadline n)"
proof (induction n)
  case 0
  show ?case by (simp add: relates_def)
next
  case (Suc n)
  have "await_child H fuel pid deadline (Suc n) = bindR (ioR (try_waitR H pid)) (\<lambda>status.
     case status of
       Some code \<Rightarrow> retR (ChildExited, code)
     | None \<Rightarrow>
         bindR (externR (ho_cancelled H)) (\<lambda>cancelled.
         if cancelled
         then stop_child H fuel pid ChildCancelled ''cancelled and failed to terminate sandbox command''
         else
           bindR (instantR H) (\<lambda>now.
           if deadline \<le> now
           then stop_child H fuel pid ChildTimedOut ''timed out and failed to terminate sandbox command''
           else await_child H fuel pid deadline n)))" by (rule ext) simp
  then show ?case by (simp only:) (intro trace_rules traced_terminate assms Suc)
qed

lemma traced_supervised:
  assumes "\<And>p. signals p \<Longrightarrow> Q (Ran p)" "Q (Spawned command)"
  shows "relates (traced Q) (run_command_with_timeout H fuel command timeout events)"
  unfolding run_command_with_timeout_def run_command_with_timeout_and_cancel_def
  by (intro trace_rules traced_await_child traced_terminate assms)

end
