(* ===== verification/Sandbox_Runs.thy ===== *)
theory Sandbox_Runs
  imports Run_Traces "HOL-Library.Sublist"
begin

section \<open>What sandboxed runs change\<close>

text \<open>
  The effects of \<^verbatim>\<open>stateful sandbox run\<close> on the outside, over all its profiles: which paths it
  writes, which programs it starts and with which view of the file system, and when it may touch
  the workspace at all.
\<close>

subsection \<open>Paths written\<close>

text \<open>The paths an action creates, removes or writes.\<close>

fun written :: "file_action \<Rightarrow> string list list" where
  "written (CreateDir p) = [p]"
| "written (CreateDirAll p) = [p]"
| "written (CopyFile source p) = [p]"
| "written (RenamePath p q) = [p, q]"
| "written (HardLink p q) = [p, q]"
| "written (RemoveFile p) = [p]"
| "written (RemoveDir p) = [p]"
| "written (RemoveDirAll p) = [p]"
| "written (CreateNew p mode) = [p]"
| "written (WriteFile p contents) = [p]"
| "written (SetPermissions p mode) = [p]"
| "written (SyncDir p) = []"

definition within :: "string list \<Rightarrow> file_action \<Rightarrow> bool" where
  "within zone c \<longleftrightarrow> (\<forall>p \<in> set (written c). prefix zone p)"

lemma withinI [intro]: "(\<And>p. p \<in> set (written c) \<Longrightarrow> prefix zone p) \<Longrightarrow> within zone c"
  by (simp add: within_def)

lemma within_mono: "within zone c \<Longrightarrow> prefix zone' zone \<Longrightarrow> within zone' c"
  by (auto simp: within_def intro: prefix_order.trans)

lemma split_on_nonempty [simp]: "split_on c cs \<noteq> []"
  by (induction cs) (auto split: list.split)

lemma joined_prefix [simp]:
  "prefix root (join_relative root path)" "prefix root (butlast (join_relative root path))"
  by (simp_all add: join_relative_def butlast_append)

lemma staged_prefix [simp]:
  "prefix (st_root stage) (staged_path stage path)" "prefix (st_root stage) (butlast (staged_path stage path))"
  by (simp_all add: staged_path_def)

subsection \<open>The stage\<close>

lemma traced_private_loop:
  assumes "\<And>c. within zone c \<Longrightarrow> Q (Changed c)" "\<And>c cs. path = c # cs \<Longrightarrow> prefix zone (cursor @ [c])"
  shows "relates (traced Q) (ensure_private_loop H cursor path)"
  using assms(2)
proof (induction path arbitrary: cursor)
  case (Cons c cs)
  have next_dir: "prefix zone (cursor @ [c])" by (rule Cons.prems) simp
  then have "prefix zone ((cursor @ [c]) @ [d])" for d by (rule prefix_order.trans) simp
  then have "relates (traced Q) (ensure_private_loop H (cursor @ [c]) cs)" by (intro Cons.IH) simp
  with next_dir show ?case
    by (simp only: ensure_private_loop.simps) (intro trace_rules; auto intro!: assms(1))
qed (simp add: traced.relates_basic)

lemma traced_stage_new:
  assumes "\<And>c. within (repo @ [''.stateful'']) c \<Longrightarrow> Q (Changed c)"
  shows "relates (traced Q) (stage_new H repo)"
proof -
  have "relates (traced Q) (ensure_private_loop H repo [''.stateful'', ''sandbox-staging''])"
    by (rule traced_private_loop [where zone = "repo @ [''.stateful'']"]) (auto intro: assms)
  then show ?thesis
    unfolding stage_new_def ensure_private_directory_def Let_def
    by (intro trace_rules; simp del: ensure_private_loop.simps add: assms within_def)
qed

lemma stage_new_root:
  assumes "stage_new H repo s = Some (Inr stage, s')"
  shows "st_repo_root stage = repo" "prefix (repo @ [''.stateful'']) (st_root stage)"
  using assms by (auto simp: stage_new_def Let_def elim!: bindR_InrE)

lemma traced_copy_tree:
  assumes "\<And>c. within zone c \<Longrightarrow> Q (Changed c)" "prefix zone destination"
  shows "relates (traced Q) (copy_directory_tree H n source destination)"
  using assms(2)
proof (induction n arbitrary: source destination)
  case (Suc n)
  then have deeper: "prefix zone (destination @ [name])" for name by (auto intro: prefix_order.trans)
  show ?case
    by (simp only: copy_directory_tree.simps)
      (intro trace_rules traced.relates_for traced.relates_validate_tree Suc.IH; auto intro!: assms(1) deeper Suc.prems)
qed (simp add: traced.relates_basic)

lemma traced_populate:
  assumes "\<And>c. within (st_root stage) c \<Longrightarrow> Q (Changed c)"
  shows "relates (traced Q) (stage_populate H fuel stage operation)"
proof -
  have parent: "relates (traced Q) (make_parent H stage path)" for path
    unfolding make_parent_def by (intro trace_rules assms) auto
  have "relates (traced Q) (copy_existing H fuel stage path)" for path
    unfolding copy_existing_def
    by (intro trace_rules parent traced_copy_tree [of "st_root stage"] assms) auto
  with parent show ?thesis
    unfolding stage_populate_def
    by (intro trace_rules traced.relates_stage_checks) (auto split: mutation_operation.split intro!: trace_rules)
qed

lemma traced_drop: "(\<And>c. within (st_root stage) c \<Longrightarrow> Q (Changed c)) \<Longrightarrow> relates (traced Q) (stage_drop H stage)"
  unfolding stage_drop_def by (intro trace_rules) (simp add: within_def)

text \<open>What an operation may change: the stage, and the paths it names.\<close>

definition names_path :: "string list \<Rightarrow> mutation_operation \<Rightarrow> string list \<Rightarrow> bool" where
  "names_path repo operation p \<longleftrightarrow> p \<in> join_relative repo ` set (operation_paths operation)"

lemma traced_apply:
  assumes "\<And>c. \<forall>p \<in> set (written c). prefix (st_root stage) p \<or> names_path (st_repo_root stage) operation p \<Longrightarrow> Q (Changed c)"
  shows "relates (traced Q) (stage_apply H stage operation)"
  unfolding stage_apply_def replace_directory_def Let_def
  by (intro trace_rules traced.relates_stage_checks)
    (auto split: mutation_operation.split intro!: trace_rules assms simp: names_path_def workspace_path_def)

subsection \<open>The box\<close>

text \<open>
  How \<^verbatim>\<open>bwrap\<close> reads its options: the directories that are mounted writable, and whether the network
  is shared. Everything else is mounted read-only, and an unknown option is an error.
\<close>

fun bwrap_options :: "string list \<Rightarrow> (string list \<times> bool) option" where
  "bwrap_options [] = None"
| "bwrap_options (option # args) =
     (if option = ''--'' then Some ([], False)
      else if option \<in> {''--unshare-all'', ''--unshare-net'', ''--die-with-parent''} then bwrap_options args
      else if option = ''--share-net'' then map_option (\<lambda>(mounts, _). (mounts, True)) (bwrap_options args)
      else if option \<in> {''--proc'', ''--chdir''}
      then (case args of _ # rest \<Rightarrow> bwrap_options rest | _ \<Rightarrow> None)
      else if option \<in> {''--ro-bind'', ''--dev-bind''}
      then (case args of _ # _ # rest \<Rightarrow> bwrap_options rest | _ \<Rightarrow> None)
      else if option = ''--bind''
      then (case args of _ # target # rest \<Rightarrow> map_option (\<lambda>(mounts, net). (target # mounts, net)) (bwrap_options rest) | _ \<Rightarrow> None)
      else None)"

lemma bwrap_binds:
  "bwrap_options (concat (map (\<lambda>w. [''--bind'', f w, f w]) ws) @ args)
     = map_option (\<lambda>(mounts, net). (map f ws @ mounts, net)) (bwrap_options args)"
proof (induction ws)
  case Nil
  show ?case by (cases "bwrap_options args") auto
next
  case (Cons w ws)
  then show ?case by (cases "bwrap_options args") auto
qed

lemma bwrap_ro_binds: "bwrap_options (concat (map (\<lambda>w. [''--ro-bind'', f w, f w]) ws) @ args) = bwrap_options args"
  by (induction ws) auto

lemma bubblewrap_base_options:
  "bwrap_options (bubblewrap_base_args_with_connect_sockets cwd ws sockets network @ args)
     = map_option (\<lambda>(mounts, net). (map (path_text \<circ> sw_path) ws @ mounts, network = NetworkEnabled \<or> net)) (bwrap_options args)"
  by (cases "bwrap_options args"; cases network)
    (auto simp: bubblewrap_base_args_with_connect_sockets_def bwrap_binds bwrap_ro_binds comp_def)

lemma bubblewrap_options:
  "bwrap_options (bubblewrap_args command cwd ws sockets network)
     = Some (map (path_text \<circ> sw_path) ws, network = NetworkEnabled)"
  "bwrap_options (bubblewrap_git_args words cwd ws network protected)
     = Some (map (path_text \<circ> sw_path) ws, network = NetworkEnabled)"
  by (simp_all add: bubblewrap_args_def bubblewrap_git_args_def bubblewrap_base_args_def bubblewrap_base_options bwrap_ro_binds)

text \<open>A process that starts with an empty environment in a box whose writable part lies in the zone.\<close>

definition boxed :: "network_policy \<Rightarrow> string list \<Rightarrow> process \<Rightarrow> bool" where
  "boxed network zone p \<longleftrightarrow> pr_program p = ''bwrap'' \<and> (\<exists>env. pr_env p = ClearEnv # env)
     \<and> (\<exists>mounts. bwrap_options (pr_args p) = Some (map path_text mounts, network = NetworkEnabled)
          \<and> (\<forall>m \<in> set mounts. prefix zone m))"

lemma bubblewrap_boxed:
  assumes "\<forall>w \<in> set ws. prefix zone (sw_path w)"
  shows "boxed network zone (bubblewrap_command H command cwd ws sockets temp network)"
  using assms
  by (auto simp: boxed_def bubblewrap_command_def bubblewrap_options apply_sandbox_temp_env_def
      intro!: exI [of _ "map sw_path ws"])

lemma traced_sandboxed:
  assumes "\<And>p. signals p \<Longrightarrow> Q (Ran p)" "\<forall>w \<in> set ws. prefix zone (sw_path w)"
    and "\<And>p. allow_direct_nested_sandbox_run H \<or> boxed network zone p \<Longrightarrow> Q (Spawned p)"
  shows "relates (traced Q) (run_sandboxed_command H fuel command cwd ws sockets network timeout events nested)"
  unfolding run_sandboxed_command_def
  by (intro traced.run_relation_rules traced_supervised) (auto intro!: assms bubblewrap_boxed)

lemma traced_private_command:
  assumes "\<And>p. signals p \<Longrightarrow> Q (Ran p)" "\<forall>w \<in> set ws. prefix zone (sw_path w)"
    and "\<And>p. boxed NetworkDisabled zone p \<Longrightarrow> Q (Spawned p)"
  shows "relates (traced Q) (run_private_sandbox_command H fuel command cwd ws timeout)"
  unfolding run_private_sandbox_command_def run_sandboxed_command_def
  by (intro traced.run_relation_rules traced_supervised) (auto intro!: assms bubblewrap_boxed)

definition queries :: "process \<Rightarrow> bool" where
  "queries p \<longleftrightarrow> pr_program p = ''git''
     \<and> (pr_args p = [''branch'', ''--show-current''] \<or> (\<exists>cwd key. pr_args p = [''-C'', cwd, ''config'', ''--get-all'', key]))"

lemma traced_git_config:
  assumes "\<And>p. queries p \<Longrightarrow> Q (Ran p)"
  shows "relates (traced Q) (discover_git_profile_config H cwd)"
proof -
  have "relates (traced Q) (git_profile_config_values H cwd key)" for key
    unfolding git_profile_config_values_def by (intro trace_rules assms) (simp add: queries_def)
  then show ?thesis
    unfolding discover_git_profile_config_def discover_git_profile_identity_def discover_git_profile_credential_helpers_def
      git_profile_config_value_def
    by (intro trace_rules)
qed

lemma traced_sandboxed_git:
  assumes "\<And>p. signals p \<or> queries p \<Longrightarrow> Q (Ran p)" "\<forall>w \<in> set ws. prefix zone (sw_path w)"
    and "\<And>p. allow_direct_nested_sandbox_run H \<or> boxed network zone p \<Longrightarrow> Q (Spawned p)"
  shows "relates (traced Q) (run_sandboxed_git_command H fuel words cwd ws temp hooks network timeout events)"
proof -
  have boxed: "boxed network zone \<lparr>pr_program = ''bwrap'', pr_args = bubblewrap_git_args words cwd ws network protected,
      pr_cwd = None, pr_env = apply_git_profile_env H temp hooks config, pr_stdin = None\<rparr>" for protected config
    using assms(2)
    by (auto simp: boxed_def bubblewrap_options apply_git_profile_env_def apply_sandbox_temp_env_def Let_def
        intro!: exI [of _ "map sw_path ws"])
  have "relates (traced Q) (existing_git_profile_persistent_metadata_paths H cwd :: (string, _) run)"
    unfolding existing_git_profile_persistent_metadata_paths_def git_profile_persistent_metadata_paths_def
    by (intro trace_rules traced.relates_filterR)
  then have run: "relates (traced Q) (bindR (bubblewrap_git_command H words cwd ws temp hooks config network)
      (\<lambda>command. run_command_with_timeout H fuel command timeout events))" for config
    by (intro traced.relates_known traced_supervised assms(1,3))
      (auto simp: bubblewrap_git_command_def boxed intro!: trace_rules elim!: bindR_InrE)
  show ?thesis
    unfolding run_sandboxed_git_command_def
    by (intro traced.run_relation_rules traced_git_config traced_supervised run) (auto intro!: assms)
qed

subsection \<open>One operation\<close>

lemma traced_execution:
  assumes "\<And>p. signals p \<Longrightarrow> Q (Ran p)"
    and "\<And>c. \<forall>p \<in> set (written c). prefix (repo @ [''.stateful'']) p \<or> names_path repo operation p \<Longrightarrow> Q (Changed c)"
    and "\<And>p. allow_direct_nested_sandbox_run H \<or> boxed (sq_network request) (repo @ [''.stateful'']) p \<Longrightarrow> Q (Spawned p)"
  shows "relates (traced Q) (staged_execution H fuel repo R operation pre request timeout)"
proof -
  have staging: "Q (Changed c)" if "within (repo @ [''.stateful'']) c" for c
    using that by (intro assms(2)) (simp add: within_def)
  then have new_ok: "relates (traced Q) (stage_new H repo)" by (rule traced_stage_new)
  show ?thesis
    unfolding staged_execution_def
  proof (rule traced.relates_known [OF new_ok])
    fix stage s s' assume new: "stage_new H repo s = Some (Inr stage, s')"
    note root = stage_new_root [OF new]
    have inside: "Q (Changed c)" if "within (st_root stage) c" for c
      by (rule staging [OF within_mono [OF that root(2)]])
    have apply_ok: "relates (traced Q) (stage_apply H stage operation)"
      by (rule traced_apply, rule assms(2)) (use root in \<open>auto intro: prefix_order.trans\<close>)
    show "relates (traced Q) (finallyR (bindR (stage_populate H fuel stage operation) (\<lambda>_.
       bindR (run_sandboxed_command H fuel (sq_command request) (st_root stage) [writable_directory (st_root stage)] []
                (sq_network request) (timeout * 1000000000) (sq_stream_events request) True) (\<lambda>result.
       if \<not> exited_clean result then retR result
       else
         bindR (stage_validate H fuel stage operation) (\<lambda>_.
         bindR (resolverR H (\<lambda>W. observe_operation W (hash_of H) fuel R operation)) (\<lambda>now.
         if now \<noteq> pre then failR ''workspace changed after write permit was issued''
         else
           bindR (stage_apply H stage operation) (\<lambda>_.
           bindR (observe_expected_post H fuel R operation) (\<lambda>post.
           bindR (liftR (mapErr resource_error_text (validate_operation_transition operation pre post post))) (\<lambda>_.
           retR result)))))))) (stage_drop H stage))"
      by (intro trace_rules traced_populate traced_sandboxed [where zone = "repo @ [''.stateful'']"] traced.relates_stage_checks
          traced.relates_expected_post apply_ok traced_drop inside assms(1,3))
        (simp_all add: writable_directory_def root)
  qed
qed

lemma traced_mutation:
  assumes "\<And>p. signals p \<Longrightarrow> Q (Ran p)"
    and "\<And>c. \<forall>p \<in> set (written c). prefix (repo @ [''.stateful'']) p \<or> names_path repo operation p \<Longrightarrow> Q (Changed c)"
    and "\<And>p. allow_direct_nested_sandbox_run H \<or> boxed (sq_network request) (repo @ [''.stateful'']) p \<Longrightarrow> Q (Spawned p)"
  shows "relates (traced Q) (run_staged_mutation H K fuel repo runtime workspace task agent operation request timeout)"
  unfolding run_staged_mutation_def
  by (intro trace_rules traced.relates_prepare_until_ready)
    (auto split: write_prepare_result.split intro!: trace_rules traced_execution traced.relates_outcome assms)

lemma traced_operations:
  assumes "\<And>operation. operation \<in> set ops \<Longrightarrow> relates (traced Q) (f operation)"
  shows "relates (traced Q) (run_operations f ops out)"
  using assms by (induction ops arbitrary: out) (auto simp: Let_def intro!: trace_rules)

definition sandbox_action :: "host \<Rightarrow> sandbox_run_request \<Rightarrow> mutation_operation list \<Rightarrow> string list \<Rightarrow> action \<Rightarrow> bool" where
  "sandbox_action H request operations repo a \<longleftrightarrow>
     (case a of
        Changed c \<Rightarrow> \<forall>p \<in> set (written c). prefix (repo @ [''.stateful'']) p
          \<or> (\<exists>operation \<in> set operations. names_path repo operation p)
      | Spawned p \<Rightarrow> allow_direct_nested_sandbox_run H \<or> boxed (sq_network request) (repo @ [''.stateful'']) p
      | Ran p \<Rightarrow> signals p \<or> queries p)"

lemma traced_mutations:
  "relates (traced (sandbox_action H request operations repo))
     (run_staged_mutations H K OC R fuel repo paths request operations timeout)"
proof -
  let ?Q = "sandbox_action H request operations repo"
  have "relates (traced ?Q) (sandbox_workspace_identity H R repo paths runtime workspace_id)" for runtime workspace_id
    unfolding sandbox_workspace_identity_def repo_identity_for_enabled_repo_def registry_branch_def
    by (intro trace_rules traced.relates_registry) (simp add: sandbox_action_def queries_def plain_git_def)
  moreover have "relates (traced ?Q) (run_staged_mutation H K fuel repo runtime workspace task agent operation request timeout)"
    if "operation \<in> set operations" for runtime workspace task agent operation
    using that by (intro traced_mutation) (auto simp: sandbox_action_def)
  ultimately show ?thesis
    unfolding run_staged_mutations_def
    by (intro trace_rules traced.relates_owner traced.relates_discover traced_operations)
      (auto split: option.split intro!: trace_rules traced.relates_discover traced_operations)
qed

subsection \<open>No change without a permit\<close>

lemma sandbox_identity_ids:
  assumes "sandbox_identity H task agent workspace event s = Some (Inr command, s')"
  shows "ci_task_id command = task" "ai_agent_id (ci_agent command) = agent" "ci_workspace command = workspace"
  using assms by (auto simp: sandbox_identity_def elim!: bindR_InrE)

lemma prepare_loop_posted:
  assumes "prepare_loop H fuel runtime workspace task agent operation invocation timeout started settings n current s
      = Some (Inr (Ready a p bs), s')"
  shows "\<exists>command payload.
    (\<exists>s1. post_command H (ho_prepare_result H) runtime ''/v2/writes/prepare'' command (write_prepare_json payload) s1
       = Some (Inr (Ready a p bs), s'))
    \<and> ci_task_id command = task \<and> ai_agent_id (ci_agent command) = agent \<and> ci_workspace command = workspace
    \<and> wp_operation payload = operation"
  using assms
proof (induction n arbitrary: current s)
  case (Suc n)
  from Suc.prems [unfolded prepare_loop.simps] show ?case
    apply (elim bindR_InrE)
    subgoal premises prems for command u1 t1 u2 t2 u3 t3 u4 x u5
    proof (cases x)
      case (Ready a' p' bs')
      with prems(6) have ready: "x = Ready a p bs" "u5 = s'" by simp_all
      show ?thesis
        using prems(5) sandbox_identity_ids [OF prems(1)] unfolding ready commandR_def
        by (intro exI conjI) (simp, simp_all)
    qed (use prems(6) in \<open>auto elim!: bindR_InrE split: prod.splits intro: Suc.IH\<close>)
    done
qed simp

text \<open>Runs that keep to \<open>Q\<close>, at least until they pass a state with \<open>E\<close>.\<close>

definition traced_until :: "(action \<Rightarrow> bool) \<Rightarrow> (client_state \<Rightarrow> bool) \<Rightarrow> client_state \<Rightarrow> client_state \<Rightarrow> bool" where
  "traced_until Q E s s' \<longleftrightarrow> traced Q s s' \<or> (\<exists>v. E v \<and> traced Q s v)"

interpretation until: run_relation "traced_until Q E" for Q E
  by unfold_locales (auto simp: traced_until_def intro: traced.same_run traced.follows)

lemma until_mono: "relates (traced Q) m \<Longrightarrow> relates (traced_until Q E) m"
  by (auto simp: relates_def traced_until_def)

lemma until_weaken: "relates (traced_until Q E) m \<Longrightarrow> (\<And>v. E v \<Longrightarrow> E' v) \<Longrightarrow> relates (traced_until Q E') m"
  unfolding relates_def traced_until_def by blast

lemma until_reached:
  assumes "relates (traced Q) m" "\<And>x s s'. m s = Some (Inr x, s') \<Longrightarrow> E s' \<or> relates (traced_until Q E) (f x)"
  shows "relates (traced_until Q E) (bindR m f)"
  using assms unfolding relates_def traced_until_def by (blast elim: bindR_cases intro: traced.follows)

definition staging :: "string list \<Rightarrow> action \<Rightarrow> bool" where
  "staging repo a \<longleftrightarrow> (\<forall>c. a = Changed c \<longrightarrow> within (repo @ [''.stateful'']) c)"

definition seen_again :: "host \<Rightarrow> nat \<Rightarrow> mutation_operation \<Rightarrow> resolver \<Rightarrow> resource_observation list \<Rightarrow> client_state \<Rightarrow> bool" where
  "seen_again H fuel operation R pre v \<longleftrightarrow>
     (\<exists>u. resolverR H (\<lambda>W. observe_operation W (hash_of H) fuel R operation) u = Some (Inr pre, v))"

lemma execution_until:
  "relates (traced_until (staging repo) (seen_again H fuel operation R pre))
     (staged_execution H fuel repo R operation pre request timeout)"
proof -
  let ?Q = "staging repo" and ?E = "seen_again H fuel operation R pre"
  have new_ok: "relates (traced ?Q) (stage_new H repo)" by (rule traced_stage_new) (simp add: staging_def)
  have recheck: "relates (traced_until ?Q ?E) (bindR (resolverR H (\<lambda>W. observe_operation W (hash_of H) fuel R operation)) (\<lambda>now.
      if now \<noteq> pre then failR e else f now))" for e f
    by (rule until_reached [OF traced.relates_lookups(1)]) (auto simp: seen_again_def until.relates_basic)
  show ?thesis
    unfolding staged_execution_def
  proof (rule until.relates_known [OF until_mono [OF new_ok]])
    fix stage s s' assume new: "stage_new H repo s = Some (Inr stage, s')"
    note root = stage_new_root [OF new]
    have inside: "?Q (Changed c)" if "within (st_root stage) c" for c
      using within_mono [OF that root(2)] by (simp add: staging_def)
    have parts: "relates (traced ?Q) (stage_populate H fuel stage operation)" "relates (traced ?Q) (stage_drop H stage)"
      "relates (traced ?Q) (run_sandboxed_command H fuel (sq_command request) (st_root stage) [writable_directory (st_root stage)] []
                (sq_network request) (timeout * 1000000000) (sq_stream_events request) True)"
      by (intro traced_populate traced_drop inside traced_sandboxed [where zone = "repo @ [''.stateful'']"];
          simp add: staging_def writable_directory_def root)+
    show "relates (traced_until ?Q ?E)
      (finallyR (bindR (stage_populate H fuel stage operation) (\<lambda>_.
       bindR (run_sandboxed_command H fuel (sq_command request) (st_root stage) [writable_directory (st_root stage)] []
                (sq_network request) (timeout * 1000000000) (sq_stream_events request) True) (\<lambda>result.
       if \<not> exited_clean result then retR result
       else
         bindR (stage_validate H fuel stage operation) (\<lambda>_.
         bindR (resolverR H (\<lambda>W. observe_operation W (hash_of H) fuel R operation)) (\<lambda>now.
         if now \<noteq> pre then failR ''workspace changed after write permit was issued''
         else
           bindR (stage_apply H stage operation) (\<lambda>_.
           bindR (observe_expected_post H fuel R operation) (\<lambda>post.
           bindR (liftR (mapErr resource_error_text (validate_operation_transition operation pre post post))) (\<lambda>_.
           retR result)))))))) (stage_drop H stage))"
      by (intro until.relates_wrap(5) recheck until.relates_bind until.relates_if until.relates_basic
          parts [THEN until_mono] until_mono [OF traced.relates_stage_checks(2)])
  qed
qed

definition permitted ::
  "host \<Rightarrow> string \<Rightarrow> string \<Rightarrow> workspace_identity \<Rightarrow> mutation_operation \<Rightarrow> client_state \<Rightarrow> bool" where
  "permitted H task agent workspace operation v \<longleftrightarrow>
     (\<exists>(ctx :: command_context) a p n (u :: client_state). cc_task_id ctx = task \<and> cc_agent_id ctx = agent \<and> cc_workspace_id ctx = wi_workspace_id workspace
        \<and> write_granted ctx operation a p (srv_store (ho_others H n (cl_server u))) (srv_store (cl_server v)))"

lemma ready_permitted:
  assumes "prepare_until_ready H K fuel runtime workspace task agent operation invocation pre timeout s = Some (Inr (Ready a p bs), s')"
    and "faithful_serde H" "faithful_prepare H"
  shows "permitted H task agent workspace operation s'"
proof -
  from assms(1) obtain command payload s1 where
    post: "post_command H (ho_prepare_result H) runtime ''/v2/writes/prepare'' command (write_prepare_json payload) s1
       = Some (Inr (Ready a p bs), s')"
    and ids: "ci_task_id command = task" "ai_agent_id (ci_agent command) = agent" "ci_workspace command = workspace"
      "wp_operation payload = operation"
    by (auto simp: prepare_until_ready_def elim!: bindR_InrE dest!: prepare_loop_posted)
  have "command_routed ''/v2/writes/prepare'' WritePrepareRoute" by (simp add: command_routed_def post_routes_def)
  from post_prepare_granted [OF post this assms(2,3)] ids show ?thesis
    unfolding permitted_def
    by (intro exI [of _ "command_context_of (envelope command)"]) (auto simp: command_context_of_def envelope_def)
qed

lemma mutation_until_permit:
  assumes "faithful_serde H" "faithful_prepare H"
  shows "relates (traced_until (\<lambda>a. False) (permitted H task agent workspace operation))
      (run_staged_mutation H K fuel repo runtime workspace task agent operation request timeout)"
  unfolding run_staged_mutation_def
  by (intro until.relates_bind until.relates_lookups until.relates_basic until_reached [OF traced.relates_prepare_until_ready])
    (auto split: write_prepare_result.split intro: ready_permitted [OF _ assms] until.relates_basic)

lemma resolver_silent: "resolverR H f s = Some (x, s') \<Longrightarrow> cl_trace s' = cl_trace s"
  using relatesD [OF traced.relates_lookups(1), of H f s x s' "\<lambda>_. False"] by (auto simp: traced_def list_all_iff)

lemma mutation_until_seen:
  assumes "run_staged_mutation H K fuel repo runtime workspace task agent operation request timeout s = Some (r, s')"
  shows "traced (staging repo) s s' \<or>
     (\<exists>R pre u u' v. resolverR H (\<lambda>W. observe_operation W (hash_of H) fuel R operation) u = Some (Inr pre, u')
        \<and> cl_trace u' = cl_trace s \<and> seen_again H fuel operation R pre v \<and> traced (staging repo) s v)"
proof -
  have tail: "relates (traced_until (staging repo) (seen_again H fuel operation R pre))
      (bindR (externR (ho_uuid H)) (\<lambda>invocation.
       bindR (prepare_until_ready H K fuel runtime workspace task agent operation invocation pre timeout) (\<lambda>prepared.
       case prepared of
         Ready attempt token _ \<Rightarrow>
           bindR (tryR (staged_execution H fuel repo R operation pre request timeout)) (\<lambda>execution.
           bindR (mutation_outcome_of H fuel R operation pre execution) (\<lambda>outcome.
           bindR (sandbox_identity H task agent workspace ''sandbox.write.complete'') (\<lambda>identity.
           bindR (commandR H (ho_complete_result H) runtime ''/v2/writes/complete'' identity (write_complete_json
                    \<lparr>wc_attempt_id = attempt, wc_permit_id = token, wc_invocation_id = invocation,
                     wc_terminal = mo_terminal outcome, wc_post_resources = mo_post outcome,
                     wc_expected_post_resources = mo_expected outcome, wc_error = mo_error outcome\<rparr>)) (\<lambda>_.
           retR (mo_result outcome)))))
       | _ \<Rightarrow> failR ''write prepare did not return an executable permit'')))" for R pre
    by (intro until.relates_bind until.relates_basic until_mono [OF traced.relates_prepare_until_ready])
      (auto split: write_prepare_result.split
        intro!: until.relates_bind until.relates_basic until.relates_map execution_until
          until_mono [OF traced.relates_command] until.relates_outcome until.relates_identity)
  show ?thesis
  proof (cases rule: bindR_cases [OF assms [unfolded run_staged_mutation_def]])
    case (1 e)
    then show ?thesis by (auto simp: traced_def dest: resolver_silent)
  next
    case (2 R s1)
    show ?thesis
    proof (cases rule: bindR_cases [OF 2(2)])
      case (1 e)
      have "cl_trace s' = cl_trace s" by (simp add: resolver_silent [OF 1(1)] resolver_silent [OF 2(1)])
      then show ?thesis by (auto simp: traced_def)
    next
      case second: (2 pre s2)
      have "cl_trace s2 = cl_trace s" by (simp add: resolver_silent [OF second(1)] resolver_silent [OF 2(1)])
      from relatesD [OF tail second(2)]
      have "traced (staging repo) s2 s' \<or> (\<exists>v. seen_again H fuel operation R pre v \<and> traced (staging repo) s2 v)"
        unfolding traced_until_def .
      then have "traced (staging repo) s s' \<or> (\<exists>v. seen_again H fuel operation R pre v \<and> traced (staging repo) s v)"
        using \<open>cl_trace s2 = _\<close> by (simp add: traced_def)
      with \<open>cl_trace s2 = _\<close> second(1) show ?thesis by blast
    qed
  qed
qed

end
