(* ===== verification/Replay_Scenario.thy ===== *)
theory Replay_Scenario
  imports Commit_Run Hook_Scenario
begin

section \<open>A server that has answered before\<close>

text \<open>
  Hosts for whole runs of \<^verbatim>\<open>stateful sandbox run\<close> and \<^verbatim>\<open>stateful commit\<close>: the agent \<open>A\<close> works on the
  task \<open>T\<close> in the workspace \<open>/w\<close>, every identifier it makes is \<open>u\<close>, and the server it reaches has a receipt
  for the command that comes next, so that it answers from the receipt. The decoder of requests is
  written out for the messages of the command line.
\<close>

subsection \<open>Messages\<close>

primrec text_of :: "json \<Rightarrow> string" where
  "text_of (JString t) = t" | "text_of JNull = []" | "text_of (JBool _) = []" | "text_of (JNumber _) = []"
| "text_of (JArray _) = []" | "text_of (JObject _) = []"

definition texts_of :: "json \<Rightarrow> string list" where
  "texts_of j = (case j of JObject kvs \<Rightarrow> map (text_of \<circ> snd) kvs | _ \<Rightarrow> [])"

definition cli_envelope :: "json list \<Rightarrow> request_envelope" where
  "cli_envelope js =
     (let agent = texts_of (js ! 5); w = texts_of (js ! 6); s = texts_of (js ! 7) in
      \<lparr>re_protocol_version = V2, re_contract_revision = Lease1, re_task_id = text_of (js ! 2), re_request_id = text_of (js ! 3),
          re_observed_at = text_of (js ! 4),
          re_agent = \<lparr>ai_agent_id = hd agent, ai_turn_id = None, ai_actor_id = agent ! 1, ai_actor_type = ActorAgent,
            ai_owner_id = None, ai_parent_agent_id = None, ai_parent_actor_id = None\<rparr>,
          re_workspace = \<lparr>wi_root = hd w, wi_workspace_id = w ! 1, wi_repo_id = w ! 2, wi_worktree_id = w ! 3, wi_branch = w ! 4\<rparr>,
          re_source = \<lparr>sr_kind = Cli, sr_event = s ! 1, sr_tool_name = Some (s ! 2), sr_source_ref = s ! 3\<rparr>\<rparr>)"

definition decode_cli_envelope :: "json \<Rightarrow> (request_envelope \<times> json) option" where
  "decode_cli_envelope j =
     (case j of JObject kvs \<Rightarrow>
        if length (texts_of (map snd kvs ! 5)) = 3 \<and> texts_of (map snd kvs ! 5) ! 2 = ''agent''
           \<and> length (texts_of (map snd kvs ! 7)) = 4 \<and> hd (texts_of (map snd kvs ! 7)) = ''cli''
        then Some (cli_envelope (map snd kvs), map snd kvs ! 8) else None
      | _ \<Rightarrow> None)"

lemma decode_cli_envelope_faithful:
  assumes "decode_cli_envelope (command_request_json e p) = Some (e', p')"
  shows "e' = e \<and> p' = p"
proof -
  have "re_protocol_version e = V2" "re_contract_revision e = Lease1"
    by (cases "re_protocol_version e"; cases "re_contract_revision e"; simp)+
  then show ?thesis
    using assms
    by (cases e; cases "re_agent e"; cases "re_workspace e"; cases "re_source e"; cases "ai_actor_type (re_agent e)";
        cases "sr_kind (re_source e)")
      (auto simp: command_request_json_def agent_json_def workspace_json_def source_json_def skip_none_def
        decode_cli_envelope_def texts_of_def cli_envelope_def Let_def split: option.splits if_splits)
qed

subsection \<open>Answers\<close>

definition replay_server :: "string \<times> command_response \<Rightarrow> server" where
  "replay_server answer =
     \<lparr>srv_bearer_token = ''t'',
      srv_store = create_v2_schema\<lparr>command_receipts :=
        [\<lparr>cr_workspace_id = ''ws'', cr_agent_id = ''A'', cr_request_id = ''u'', cr_contract_revision = CONTRACT_REVISION,
          cr_command_kind = fst answer, cr_payload_digest = ''h'', cr_response = snd answer, cr_recorded_at = ''0''\<rparr>]\<rparr>,
      srv_poisoned = False\<rparr>"

definition replay_workspace :: workspace_identity where
  "replay_workspace = \<lparr>wi_root = ''/w'', wi_workspace_id = ''ws'', wi_repo_id = ''repo-h'', wi_worktree_id = ''repo-h'', wi_branch = ''main''\<rparr>"

definition replay_identity :: "string \<Rightarrow> string \<Rightarrow> command_identity" where
  "replay_identity tool event =
     \<lparr>ci_task_id = ''T'', ci_request_id = ''u'', ci_observed_at = ''0'',
      ci_agent = \<lparr>ai_agent_id = ''A'', ai_turn_id = None, ai_actor_id = ''A'', ai_actor_type = ActorAgent,
        ai_owner_id = None, ai_parent_agent_id = None, ai_parent_actor_id = None\<rparr>,
      ci_workspace = replay_workspace,
      ci_source = \<lparr>sr_kind = Cli, sr_event = event, sr_tool_name = Some tool, sr_source_ref = event\<rparr>\<rparr>"

definition replay_codec :: "write_prepare_input \<Rightarrow> codec" where
  "replay_codec payload =
     demo_codec\<lparr>decode_envelope := decode_cli_envelope,
       decode_read_start := (\<lambda>j. Some \<lparr>rs_read_id = [], rs_invocation_id = [], rs_resources = []\<rparr>),
       decode_read_complete := (\<lambda>j. Some \<lparr>rc_read_id = [], rc_invocation_id = [], rc_resources = [], rc_terminal_success = True,
         rc_complete = True, rc_stable = True, rc_exact = True\<rparr>),
       decode_write_prepare := (\<lambda>j. if j = write_prepare_json payload then Some payload else None),
       encode_response := demo_encode\<rparr>"

definition read_answer :: read_command_result where
  "read_answer = \<lparr>rr_read_id = ''u'', rr_status = ReadStarted, rr_evidence_id = None\<rparr>"

definition replay_host ::
  "(nat \<Rightarrow> fs) \<Rightarrow> (nat \<Rightarrow> process \<Rightarrow> io_error + process_output) \<Rightarrow> (nat \<Rightarrow> file_action \<Rightarrow> io_error + unit)
     \<Rightarrow> write_prepare_input \<Rightarrow> (nat \<Rightarrow> (string \<times> command_response) option) \<Rightarrow> host" where
  "replay_host files output change payload answers =
     \<lparr>ho_env = demo_env, ho_codec = replay_codec payload, ho_files = files, ho_clock = (\<lambda>n. seconds 48),
      ho_ps = (\<lambda>n args. Inr (True, Inr ''ps'')), ho_pid = 7, ho_cwd = [''w''], ho_exe = [''w'', ''a''], ho_uuid = (\<lambda>n. ''u''),
      ho_network = (\<lambda>n. if answers n = None then RequestLost ''timeout'' else Delivered),
      ho_others = (\<lambda>n sv. case answers n of None \<Rightarrow> sv | Some answer \<Rightarrow> replay_server answer),
      ho_task_result = (\<lambda>j. Inl []), ho_read_result = (\<lambda>j. Inr read_answer),
      ho_prepare_result = demo_prepare_result, ho_complete_result = (\<lambda>j. Inl []), ho_activate_result = (\<lambda>j. Inl []),
      ho_lease_status = (\<lambda>j. Inl []), ho_response_body = demo_response_body, ho_error_body = (\<lambda>j. Inl []),
      ho_runtime_file = (\<lambda>t. Inr hook_runtime_file), ho_environ = [], ho_temp_dir = [''tmp''],
      ho_change = change, ho_output = output,
      ho_spawn = (\<lambda>n p. Inl NotFoundIo), ho_try_wait = (\<lambda>n c. Inr None), ho_kill = (\<lambda>n c. Inr ()),
      ho_pipe = (\<lambda>n c e. []), ho_signals = (\<lambda>n. Inr ()), ho_cancelled = (\<lambda>n. False), ho_instant = (\<lambda>n. n)\<rparr>"

lemma replay_host_simps [simp]:
  "ho_env (replay_host files output change payload answers) = demo_env" "ho_codec (replay_host files output change payload answers) = replay_codec payload"
  "ho_uuid (replay_host files output change payload answers) = (\<lambda>n. ''u'')" "ho_instant (replay_host files output change payload answers) n = n"
  "ho_others (replay_host files output change payload answers) n sv = (case answers n of None \<Rightarrow> sv | Some answer \<Rightarrow> replay_server answer)"
  "ho_network (replay_host files output change payload answers) n = (if answers n = None then RequestLost ''timeout'' else Delivered)"
  "ho_read_result (replay_host files output change payload answers) = (\<lambda>j. Inr read_answer)"
  "ho_prepare_result (replay_host files output change payload answers) = demo_prepare_result"
  "ho_response_body (replay_host files output change payload answers) = demo_response_body"
  by (simp_all add: replay_host_def)

lemma replay_host_faithful: "faithful_serde (replay_host files output change payload answers)" "faithful_prepare (replay_host files output change payload answers)"
proof -
  show "faithful_serde (replay_host files output change payload answers)"
    by (auto simp: faithful_serde_def replay_codec_def success_response_def dest: decode_cli_envelope_faithful)
  have "demo_prepare_result (demo_encode r) = Inr x \<Longrightarrow> r = RPrepare x" for r x
    by (cases r rule: demo_encode.cases) (auto simp: comp_def)
  then show "faithful_prepare (replay_host files output change payload answers)"
    by (auto simp: faithful_prepare_def replay_codec_def split: if_splits)
qed

abbreviation at :: "nat \<Rightarrow> server \<Rightarrow> action list \<Rightarrow> client_state" where
  "at n sv t \<equiv> \<lparr>cl_step = n, cl_server = sv, cl_trace = t\<rparr>"

lemma replay_checks:
  "validate_runtime_process_identity (replay_host files output change payload answers) hook_runtime_file (at n sv t) = Some (Inr (), at (Suc n) sv t)"
  "(now_rfc3339 (replay_host files output change payload answers) :: (string, string) run) (at n sv t) = Some (Inr ''0'', at (Suc n) sv t)"
  "timestamp_after (replay_host files output change payload answers) ''0'' 120 (at n sv t) = Some (Inr [CHR 0xA8], at n sv t)"
  "timestamp_after (replay_host files output change payload answers) ''0'' 60 (at n sv t) = Some (Inr ''l'', at n sv t)"
  "future_rfc3339 (replay_host files output change payload answers) ''0'' 120 (at n sv t) = Some (Inr [CHR 0xA8], at n sv t)"
  "future_rfc3339 (replay_host files output change payload answers) ''0'' 60 (at n sv t) = Some (Inr ''l'', at n sv t)"
  by code_simp+

lemma replay_paths:
  "validate_v2_path ''/v2/reads/start'' = Inr ()" "validate_http_path ''/v2/reads/start'' = Inr ()"
  "validate_v2_path ''/v2/reads/complete'' = Inr ()" "validate_http_path ''/v2/reads/complete'' = Inr ()"
  "validate_v2_path ''/v2/commits/prepare'' = Inr ()" "validate_http_path ''/v2/commits/prepare'' = Inr ()"
  by code_simp+

definition replay_context :: command_context where
  "replay_context = \<lparr>cc_request_id = ''u'', cc_task_id = ''T'', cc_agent_id = ''A'', cc_workspace_id = ''ws'', cc_observed_at = ''0''\<rparr>"

lemma replay_accepted:
  "accepted_command demo_env replay_context kind j operation (srv_store (replay_server (kind, response)))
     = Inr (response, srv_store (replay_server (kind, response)))"
proof -
  have "validate_context demo_env replay_context = Inr ()" by code_simp
  moreover have "payload_digest demo_env j = ''h''"
    by (simp add: payload_digest_def digest_canonical_json_def demo_env_def)
  ultimately show ?thesis
    by (simp add: accepted_command_def replay_server_def is_receipt_def receipt_matches_def replay_context_def sql_first_def)
qed

lemma replay_envelope:
  "decode_cli_envelope (command_request_json (envelope (replay_identity tool event)) j) = Some (envelope (replay_identity tool event), j)"
  "command_context_of (envelope (replay_identity tool event)) = replay_context"
  by (simp_all add: replay_identity_def envelope_def command_request_json_def agent_json_def workspace_json_def source_json_def
      skip_none_def decode_cli_envelope_def texts_of_def cli_envelope_def Let_def replay_workspace_def replay_context_def
      command_context_of_def)

lemma replay_codec_simps [simp]:
  "decode_envelope (replay_codec payload) = decode_cli_envelope" "encode_response (replay_codec payload) = demo_encode"
  by (simp_all add: replay_codec_def)

lemma replay_server_simps [simp]:
  "srv_bearer_token (replay_server answer) = ''t''" "\<not> srv_poisoned (replay_server answer)"
  "(replay_server answer)\<lparr>srv_store := srv_store (replay_server answer)\<rparr> = replay_server answer"
  by (simp_all add: replay_server_def)

lemma replay_executed:
  assumes "parse_payload (replay_codec payload) ep replay_context j = Some c"
    and "\<And>d. run_command demo_env c d = accepted_command demo_env replay_context kind j' operation d"
  shows "execute_command demo_env (replay_codec payload) ep (command_request_json (envelope (replay_identity tool event)) j)
      (replay_server (kind, response))
    = (Some (success_response (Some ''u'') (demo_encode response)), replay_server (kind, response))"
proof -
  have "re_request_id (envelope (replay_identity tool event)) = ''u''" by (simp add: envelope_def replay_identity_def)
  with assms show ?thesis
    by (simp add: execute_command_def parse_command_def replay_envelope with_lock_def transact_def replay_accepted
        del: run_command.simps)
qed

lemma replay_post:
  fixes decode :: "json \<Rightarrow> string + 'r"
  assumes path: "command_routed path ep" "validate_v2_path path = Inr ()" "validate_http_path path = Inr ()"
    and parse: "parse_payload (replay_codec payload) ep replay_context j = Some c"
    and run: "answers (Suc n) = Some (kind, response)" "\<And>d. run_command demo_env c d = accepted_command demo_env replay_context kind j' operation d"
    and decode: "decode (demo_encode response) = Inr x"
  shows "commandR (replay_host files output change payload answers) decode hook_runtime_file path (replay_identity tool event) j (at n sv t)
    = Some (Inr x, at (Suc (Suc n)) (replay_server (kind, response)) t)"
proof -
  let ?H = "replay_host files output change payload answers"
  let ?server = "replay_server (kind, response)"
  let ?body = "command_request_json (envelope (replay_identity tool event)) j"
  let ?answer = "success_response (Some ''u'') (demo_encode response)"
  note routed = routed_path [OF path(1)]
  let ?request = "\<lparr>hr_method = POST, hr_path = path, hr_authorization = Some (''Bearer '' @ ''t''), hr_query = [], hr_body = ?body\<rparr>"
  have "handle_endpoint demo_env (replay_codec payload) ep ?request ?server = (Some ?answer, ?server)"
    using replay_executed [OF parse run(2)] by (simp add: routed(3))
  then have "handle_request demo_env (replay_codec payload) ?request ?server = (Some ?answer, ?server)"
    using path(1) routed(2)
    by (cases ep) (simp_all add: handle_request_def build_router_def command_routed_def require_bearer_def has_valid_bearer_token_def
        strip_prefix_def)
  then have send: "checked_send ?H hook_runtime_file POST path ?body (at n sv t) = Some (Inr ?answer, at (Suc (Suc n)) ?server t)"
    using hook_checks(3,4) path(3) run(1) routed(1)
    by (auto simp: checked_send_def bindR_def replay_checks liftR_def is_ok_iff send_request_def)
  show ?thesis
    by (simp add: commandR_def post_command_def mapErrR_def bindR_def liftR_def path post_json_value_def send
        decode_payload_def success_response_def jopt_string_def jopt_def retR_def decode)
      (simp add: replay_identity_def)
qed

lemma replay_lost:
  assumes "validate_v2_path path = Inr ()" "validate_http_path path = Inr ()" "answers (Suc n) = None"
  shows "commandR (replay_host files output change payload answers) decode hook_runtime_file path identity j (at n sv t)
    = Some (Inl (command_error_text (transport_error ''timeout'')), at (Suc (Suc n)) sv t)"
  using assms hook_checks(3,4)
  by (auto simp: commandR_def post_command_def mapErrR_def bindR_def liftR_def post_json_value_def checked_send_def replay_checks
      is_ok_iff send_request_def split: option.split)

subsection \<open>Three answers\<close>

text \<open>The start and the end of a read, and the prepared write.\<close>

definition replay_read :: "string \<times> command_response" where
  "replay_read = (''read.start'', RRead read_answer)"

definition replay_read_done :: "string \<times> command_response" where
  "replay_read_done = (''read.complete'', RRead read_answer)"

definition replay_ready :: "string \<times> command_response" where
  "replay_ready = (''write.prepare'', RPrepare (Ready ''a'' ''p'' []))"

lemma replay_steps:
  "answers (Suc n) = Some replay_read \<Longrightarrow>
     commandR (replay_host files output change payload answers) (\<lambda>j. Inr read_answer) hook_runtime_file ''/v2/reads/start'' (replay_identity tool event) j (at n sv t)
       = Some (Inr read_answer, at (Suc (Suc n)) (replay_server replay_read) t)"
  "answers (Suc n) = Some replay_read_done \<Longrightarrow>
     commandR (replay_host files output change payload answers) (\<lambda>j. Inr read_answer) hook_runtime_file ''/v2/reads/complete'' (replay_identity tool event) j (at n sv t)
       = Some (Inr read_answer, at (Suc (Suc n)) (replay_server replay_read_done) t)"
  "answers (Suc n) = Some replay_ready \<Longrightarrow> path \<in> {''/v2/writes/prepare'', ''/v2/commits/prepare''} \<Longrightarrow>
     commandR (replay_host files output change payload answers) demo_prepare_result hook_runtime_file path (replay_identity tool event) (write_prepare_json payload) (at n sv t)
       = Some (Inr (Ready ''a'' ''p'' []), at (Suc (Suc n)) (replay_server replay_ready) t)"
proof -
  let ?C = "replay_codec payload"
  have parse: "parse_payload ?C ReadStartRoute replay_context j = Some (ReadStart replay_context (the (decode_read_start ?C j)))"
    "parse_payload ?C ReadCompleteRoute replay_context j = Some (ReadComplete replay_context (the (decode_read_complete ?C j)))"
    "parse_payload ?C WritePrepareRoute replay_context (write_prepare_json payload) = Some (WritePrepare replay_context payload)" for j
    by (simp_all add: replay_codec_def)
  note steps = run_command.simps(5-7) [unfolded read_start_def read_complete_def write_prepare_def]
  show "answers (Suc n) = Some replay_read \<Longrightarrow>
     commandR (replay_host files output change payload answers) (\<lambda>j. Inr read_answer) hook_runtime_file ''/v2/reads/start'' (replay_identity tool event) j (at n sv t)
       = Some (Inr read_answer, at (Suc (Suc n)) (replay_server replay_read) t)"
    unfolding replay_read_def
    by (rule replay_post [OF _ _ _ parse(1) _ steps(1)]) (simp_all add: replay_paths command_routed_def post_routes_def)
  show "answers (Suc n) = Some replay_read_done \<Longrightarrow>
     commandR (replay_host files output change payload answers) (\<lambda>j. Inr read_answer) hook_runtime_file ''/v2/reads/complete'' (replay_identity tool event) j (at n sv t)
       = Some (Inr read_answer, at (Suc (Suc n)) (replay_server replay_read_done) t)"
    unfolding replay_read_done_def
    by (rule replay_post [OF _ _ _ parse(2) _ steps(2)]) (simp_all add: replay_paths command_routed_def post_routes_def)
  show "answers (Suc n) = Some replay_ready \<Longrightarrow> path \<in> {''/v2/writes/prepare'', ''/v2/commits/prepare''} \<Longrightarrow>
     commandR (replay_host files output change payload answers) demo_prepare_result hook_runtime_file path (replay_identity tool event) (write_prepare_json payload) (at n sv t)
       = Some (Inr (Ready ''a'' ''p'' []), at (Suc (Suc n)) (replay_server replay_ready) t)"
    unfolding replay_ready_def
    by (rule replay_post [OF _ _ _ parse(3) _ steps(3)]) (auto simp: replay_paths hook_checks command_routed_def post_routes_def)
qed

subsection \<open>A repository\<close>

text \<open>The repository \<open>/w\<close> with one file and one owned task, the registry in \<open>/h\<close> that enables it, and a work tree of hooks in \<open>/tmp\<close>.\<close>

definition repo_node :: "node_body \<Rightarrow> node" where
  "repo_node body = demo_node body 0"

definition repo_fs :: "string \<Rightarrow> fs" where
  "repo_fs head =
     \<lparr>fs_root = (1, 2),
      fs_nodes = map_of
        [((1, 2), repo_node (DirNode [(''w'', (1, 3)), (''h'', (1, 4)), (''tmp'', (1, 5))] 0)),
         ((1, 3), repo_node (DirNode [(''a'', (1, 6)), (''.git'', (1, 7)), (''.stateful_core'', (1, 11))] 0)),
         ((1, 4), repo_node (DirNode [(''config.yml'', (1, 8))] 0)),
         ((1, 5), repo_node (DirNode [(''stateful-commit-hooks-7-u'', (1, 9))] 0)),
         ((1, 6), repo_node (FileNode ''hi'')), ((1, 7), repo_node (DirNode [(''HEAD'', (1, 10))] 0)),
         ((1, 8), repo_node (FileNode ''config'')), ((1, 9), repo_node (DirNode [(''a'', (1, 6))] 0)),
         ((1, 10), repo_node (FileNode head)), ((1, 11), repo_node (DirNode [(''runtime'', (1, 12))] 0)),
         ((1, 12), repo_node (DirNode [(''server.json'', (1, 8)), (''tasks'', (1, 13))] 0)),
         ((1, 13), repo_node (DirNode [(''T.json'', (1, 8))] 0))]\<rparr>"

definition repo_paths :: global_paths where
  "repo_paths = global_paths_new [''h'']"

definition repo_codec :: registry_codec where
  "repo_codec =
     \<lparr>yaml_registry = (\<lambda>t. Inr [\<lparr>rg_repo_id = ''repo-h'', rg_root = ''/w'', rg_enabled = True, rg_enabled_at = ''0'', rg_policy_config_path = [], rg_policy_revision = 1\<rparr>]),
      yaml_legacy_registry = (\<lambda>t. Inl []), registry_yaml = (\<lambda>entries. Inl []), entry_json = (\<lambda>entry. Inl [])\<rparr>"

end
