(* ===== verification/Sandbox_Properties.thy ===== *)
theory Sandbox_Properties
  imports Sandbox_Runs Replay_Scenario
begin

section \<open>Properties of sandboxed runs\<close>

text \<open>
  What \<^verbatim>\<open>stateful sandbox run\<close> may change and when, over its whole course: the theorems, and a host on
  which their hypotheses hold. On that host a client creates the entry \<open>c\<close> of the workspace \<open>/w\<close>
  through a server that has the receipts of the three commands the run sends.
\<close>

subsection \<open>No change outside the request\<close>

lemma traced_profile_stage:
  "relates (traced (sandbox_action H request ops repo)) (stage_new H repo)"
    by (rule traced_stage_new) (simp add: sandbox_action_def within_def)

lemma traced_git_profile:
  "relates (traced (sandbox_action H request ops repo)) (bindR (stage_new H repo) (\<lambda>temporary.
      finallyR (bindR (resolve_sandbox_cwd H repo) (\<lambda>cwd.
        run_sandboxed_git_command H fuel words cwd [writable_directory (st_root temporary)] (st_root temporary)
          (st_root temporary @ [''hooks-disabled'']) (sq_network request) timeout (sq_stream_events request)))
        (stage_drop H temporary)))"
    unfolding resolve_sandbox_cwd_def
    by (rule traced.relates_known [OF traced_profile_stage], drule stage_new_root(2))
      (intro trace_rules traced_sandboxed_git [where zone = "repo @ [''.stateful'']"] traced_drop;
       auto simp: sandbox_action_def writable_directory_def within_def intro: prefix_order.trans)

lemma traced_read_profile:
  "relates (traced (sandbox_action H request ops repo)) (bindR (resolve_sandbox_cwd H repo) (\<lambda>cwd.
      run_sandboxed_command H fuel (sq_command request) cwd [] [] (sq_network request) timeout (sq_stream_events request) True))"
    unfolding resolve_sandbox_cwd_def
    by (intro trace_rules traced_sandboxed [where zone = "repo @ [''.stateful'']"]) (auto simp: sandbox_action_def)


text \<open>A read-only command in the enabled repository \<open>/w\<close>.\<close>

definition look_host :: host where
  "look_host = replay_host (\<lambda>n. repo_fs ''ref'') (\<lambda>n p. Inl NotFoundIo) (\<lambda>n a. Inl PermissionDeniedIo) hook_payload (\<lambda>n. None)"

definition look_request :: sandbox_run_request where
  "look_request = \<lparr>sq_fs = ReadOnlyFs, sq_network = NetworkDisabled, sq_purpose = Some ''look'', sq_task_id = None, sq_agent_id = None,
     sq_workspace_id = None, sq_operations = [], sq_command = ''cat a'', sq_timeout_seconds = None, sq_stream_events = False\<rparr>"

fun spawned_only :: "action list \<Rightarrow> bool" where
  "spawned_only [Spawned p] = True"
| "spawned_only _ = False"

lemma spawned_onlyD: "spawned_only t \<Longrightarrow> \<exists>p. t = [Spawned p]"
  by (cases t rule: spawned_only.cases) auto

lemma look_gate: "repo_gate look_host repo_codec repo_paths [''w''] (at 0 sv []) = Some (Inr (EnabledRepo [''w'']), at 6 sv [])"
  by code_simp

lemma look_shape: "validate_sandbox_run_request_shape J look_request = Inr \<lparr>vs_operations = [], vs_direct_command = None\<rparr>"
  by code_simp

lemma look_spawns:
  "case bindR (resolve_sandbox_cwd look_host [''w'']) (\<lambda>cwd.
       run_sandboxed_command look_host 3 ''cat a'' cwd [] [] NetworkDisabled 3600000000000 False True) (at 6 sv []) of
     None \<Rightarrow> False
   | Some (r, s') \<Rightarrow> spawned_only (cl_trace s')"
  by code_simp


subsection \<open>No change without a permit\<close>


text \<open>
  A run that creates the entry \<open>c\<close>: it observes, records the read, gets its permit and begins its stage, which
  the host refuses.
\<close>

definition box_payload :: write_prepare_input where
  "box_payload =
     \<lparr>wp_invocation_id = ''u'', wp_operation = Create ''c'', wp_current = hook_observation,
      wp_request_expires_at = [CHR 0xA8], wp_lease_expires_at = ''l'', wp_attempt_deadline = ''l''\<rparr>"

definition box_host :: host where
  "box_host = replay_host demo_world (\<lambda>n p. Inl NotFoundIo) (\<lambda>n a. Inl PermissionDeniedIo) box_payload
     (\<lambda>n. if n = 17 then Some replay_read else if n = 21 then Some replay_read_done else if n = 25 then Some replay_ready else None)"

definition box_request :: sandbox_run_request where
  "box_request = \<lparr>sq_fs = MutationFs, sq_network = NetworkDisabled, sq_purpose = None, sq_task_id = Some ''T'', sq_agent_id = Some ''A'',
     sq_workspace_id = None, sq_operations = [''op''], sq_command = ''touch c'', sq_timeout_seconds = None, sq_stream_events = False\<rparr>"

lemma box_lookups:
  "resolverR box_host (\<lambda>W. resolver_new W ''ws'' [''w'']) (at 0 sv []) = Some (Inr demo_resolver, at 2 sv [])"
  "resolverR box_host (\<lambda>W. observe_operation W (hash_of box_host) 3 demo_resolver (Create ''c'')) (at 2 sv [])
     = Some (Inr hook_observation, at 9 sv [])"
  "settings_of box_host demo_hook_codec [''w''] (at 11 sv []) = Some (Inr default_settings, at 12 sv [])"
  "path_of_text box_host ''/w'' = [''w'']"
  by code_simp+

definition box_trace :: "action list" where
  "box_trace = [Changed (CreateDir [''w'', ''.stateful''])]"

lemma box_execution:
  "case staged_execution box_host 3 [''w''] demo_resolver (Create ''c'') hook_observation box_request 60 (at 26 sv []) of
     None \<Rightarrow> False | Some (r, s') \<Rightarrow> isl r \<and> cl_step s' = 28 \<and> cl_server s' = sv \<and> cl_trace s' = box_trace"
  by code_simp

lemma box_outcome:
  "\<exists>outcome n. (mutation_outcome_of box_host 3 demo_resolver (Create ''c'') hook_observation (Inl e) :: (string, mutation_outcome) run) (at 28 sv t)
     = Some (Inr outcome, at n sv t) \<and> 28 \<le> n"
proof -
  have "case (observe_or box_host 3 demo_resolver (Create ''c'') hook_observation :: (string, _) run) (at 28 sv t) of
     None \<Rightarrow> False | Some (r, s') \<Rightarrow> \<not> isl r \<and> 28 \<le> cl_step s' \<and> cl_server s' = sv \<and> cl_trace s' = t"
    by code_simp
  then show ?thesis
    by (auto simp: mutation_outcome_of_def bindR_def retR_def isl_def split: option.splits sum.splits intro!: exI)
qed

lemma box_identity: "(sandbox_identity box_host ''T'' ''A'' replay_workspace event :: (string, _) run) (at n sv t)
    = Some (Inr (replay_identity ''sandbox'' event), at (Suc (Suc n)) sv t)"
  by (simp add: sandbox_identity_def bindR_def externR_def box_host_def replay_checks replay_identity_def retR_def)

lemma box_prepared:
  "prepare_until_ready box_host demo_hook_codec 3 hook_runtime_file replay_workspace ''T'' ''A'' (Create ''c'') ''u'' hook_observation 60 (at 10 sv [])
     = Some (Inr (Ready ''a'' ''p'' []), at 26 (replay_server replay_ready) [])"
proof -
  have ids: "wi_root replay_workspace = ''/w''" "ci_observed_at (replay_identity tool event) = ''0''" for tool event
    by (simp_all add: replay_workspace_def replay_identity_def)
  have settings: "offer_ttl_seconds default_settings = 120" "lease_expiry_seconds default_settings = 60"
    by (simp_all add: default_settings_def)
  have step: "instantR box_host (at n sv t) = Some (Inr n, at (Suc n) sv t)" for n sv t
    by (simp add: box_host_def instantR_def replay_host_def)
  have host: "ho_read_result box_host = (\<lambda>j. Inr read_answer)" "ho_prepare_result box_host = demo_prepare_result" "ho_uuid box_host n = ''u''" for n
    by (simp_all add: box_host_def)
  have times: "timestamp_after box_host ''0'' 120 (at n sv t) = Some (Inr [CHR 0xA8], at n sv t)"
    "timestamp_after box_host ''0'' 60 (at n sv t) = Some (Inr ''l'', at n sv t)" for n sv t
    by (simp_all add: box_host_def replay_checks)
  have posts: "commandR box_host (\<lambda>j. Inr read_answer) hook_runtime_file ''/v2/reads/start'' (replay_identity tool event) j (at 16 sv t)
      = Some (Inr read_answer, at 18 (replay_server replay_read) t)"
    "commandR box_host (\<lambda>j. Inr read_answer) hook_runtime_file ''/v2/reads/complete'' (replay_identity tool event) j (at 20 sv t)
      = Some (Inr read_answer, at 22 (replay_server replay_read_done) t)"
    "commandR box_host demo_prepare_result hook_runtime_file ''/v2/writes/prepare'' (replay_identity tool event) (write_prepare_json box_payload) (at 24 sv t)
      = Some (Inr (Ready ''a'' ''p'' []), at 26 (replay_server replay_ready) t)" for tool event j sv t
    by (simp_all add: box_host_def replay_steps)
  show ?thesis
    unfolding prepare_until_ready_def record_exact_read_def ids numeral_3_eq_3 prepare_loop.simps
    by (simp add: bindR_def step ids settings box_lookups box_identity externR_def host times posts [unfolded box_payload_def] retR_def)
qed

lemma box_run:
  "\<exists>r s'. run_staged_mutation box_host demo_hook_codec 3 [''w''] hook_runtime_file replay_workspace ''T'' ''A'' (Create ''c'') box_request 60 (at 0 sv [])
     = Some (r, s') \<and> cl_trace s' = box_trace"
proof -
  have host: "ho_uuid box_host n = ''u''" "wi_workspace_id replay_workspace = ''ws''" for n by (simp_all add: box_host_def replay_workspace_def)
  obtain e where execution: "staged_execution box_host 3 [''w''] demo_resolver (Create ''c'') hook_observation box_request 60
      (at 26 (replay_server replay_ready) []) = Some (Inl e, at 28 (replay_server replay_ready) box_trace)"
    using box_execution [of "replay_server replay_ready"] by (auto simp: isl_def split: option.splits)
  obtain outcome n where outcome: "(mutation_outcome_of box_host 3 demo_resolver (Create ''c'') hook_observation (Inl e) :: (string, _) run)
      (at 28 (replay_server replay_ready) box_trace) = Some (Inr outcome, at n (replay_server replay_ready) box_trace)" "28 \<le> n"
    using box_outcome by blast
  have path: "validate_v2_path ''/v2/writes/complete'' = Inr ()" "validate_http_path ''/v2/writes/complete'' = Inr ()" by code_simp+
  have lost: "commandR box_host (ho_complete_result box_host) hook_runtime_file ''/v2/writes/complete'' identity j (at (Suc (Suc n)) sv t)
      = Some (Inl (command_error_text (transport_error ''timeout'')), at (Suc (Suc (Suc (Suc n)))) sv t)" for identity j sv t
    unfolding box_host_def by (rule replay_lost [OF path]) (use outcome(2) in simp)
  show ?thesis
    unfolding run_staged_mutation_def
    by (simp add: bindR_def externR_def host box_lookups box_prepared tryR_def execution outcome(1) box_identity lost)
qed


subsection \<open>Agents of Codex\<close>

interpretation idle: run_relation "\<lambda>s s'. cl_server s' = cl_server s \<and> cl_trace s' = cl_trace s"
  by unfold_locales auto

lemma codex_id_refused: "\<exists>e. validate_agent_id (''codex:'' @ session) label = Inl e"
  by (auto simp: validate_agent_id_def ascii_alphanumeric_def)

text \<open>
  C32. An agent of Codex cannot use the mutation profile: the hooks give it the identifier \<^verbatim>\<open>codex:\<close> with its session, the
  gate lets its commands pass and the sandbox insists that the request carries this identifier, but
  \<open>validate_agent_id\<close> refuses the colon. So every such run that returns fails, sends nothing to the server and
  changes nothing.
\<close>

theorem codex_mutations_refused:
  assumes "run_sandbox_in_repo H K OC R J fuel start paths request s = Some (r, s')"
    and "sq_fs request = MutationFs" "sq_agent_id request = Some (''codex:'' @ session)"
  shows "(\<exists>e. r = Inl e) \<and> cl_server s' = cl_server s \<and> cl_trace s' = cl_trace s"
proof -
  obtain agent e where agent: "sq_agent_id request = Some agent" and refused: "validate_agent_id agent ''agent_id'' = Inl e"
    using assms(3) codex_id_refused by blast
  let ?tail = "\<lambda>repo ops timeout. run_staged_mutations H K OC R fuel repo paths request ops timeout"
  have fails: "\<exists>e. r = Inl e" if "?tail repo ops timeout u = Some (r, u')" for repo ops timeout u r u'
    using that refused agent
    by (auto simp: run_staged_mutations_def elim!: bindR_cases split: option.splits if_splits)
  have silent: "relates (\<lambda>s s'. cl_server s' = cl_server s \<and> cl_trace s' = cl_trace s) (?tail repo ops timeout)" for repo ops timeout
    unfolding run_staged_mutations_def agent
    by (rule idle.relates_bind [OF idle.relates_owner])
      (auto simp: refused relates_def bindR_def liftR_def split: option.splits)
  show ?thesis
  proof (cases rule: bindR_cases [OF assms(1) [unfolded run_sandbox_in_repo_def]])
    case (1 e)
    then show ?thesis using relatesD [OF idle.relates_registry(5) 1(1)] by simp
  next
    case (2 gate s1)
    note gate = relatesD [OF idle.relates_registry(5) 2(1)]
    show ?thesis
    proof (cases gate)
      case (EnabledRepo repo)
      show ?thesis
      proof (cases "validate_sandbox_run_request_shape J request")
        case (Inr shape)
        then have "?tail repo (vs_operations shape) (sandbox_run_timeout_duration (sq_timeout_seconds request)) s1 = Some (r, s')"
          using 2(2) EnabledRepo assms(2) by (simp add: Let_def liftR_def bindR_def [of "liftR _"])
        from fails [OF this] relatesD [OF silent this] gate show ?thesis by simp
      qed (use 2(2) EnabledRepo gate in \<open>auto simp: bindR_def liftR_def\<close>)
    qed (use 2(2) gate in \<open>auto simp: failR_def\<close>)
  qed
qed

definition codex_request :: sandbox_run_request where
  "codex_request = \<lparr>sq_fs = MutationFs, sq_network = NetworkDisabled, sq_purpose = Some ''make'', sq_task_id = Some ''T'', sq_agent_id = Some ''codex:s'',
     sq_workspace_id = None, sq_operations = [''op''], sq_command = ''touch c'', sq_timeout_seconds = None, sq_stream_events = False\<rparr>"

definition codex_host :: host where
  "codex_host = look_host\<lparr>ho_ps := (\<lambda>n args. Inr (True, Inr ''1''))\<rparr>"

definition codex_owner :: owned_task_owner where
  "codex_owner = \<lparr>ow_task_id = ''T'', ow_agent_id = ''codex:s'', ow_workspace_id = ''ws'', ow_session_id = ''s'', ow_turn_id = ''u'', ow_pid = 7,
     ow_process_start_identity = ''h'', ow_heartbeat_enabled = True, ow_task_start_observed_at = ''0'',
     ow_task_start_input = \<lparr>ts_next_action = ''edit'', ts_settings = default_settings, ts_expires_at = ''5'', ts_runtime_process = None\<rparr>\<rparr>"

definition codex_codec :: owner_codec where
  "codex_codec = \<lparr>parse_owner = (\<lambda>t. Inr codex_owner), print_owner = (\<lambda>x. Inl []), parse_heartbeat = (\<lambda>t. Inl []), print_heartbeat = (\<lambda>x. Inl [])\<rparr>"

lemma codex_steps:
  "repo_gate codex_host repo_codec repo_paths [''w''] (at 0 sv []) = Some (Inr (EnabledRepo [''w'']), at 6 sv [])"
  "validate_sandbox_run_request_shape (\<lambda>t. Inr (Create ''c'')) codex_request = Inr \<lparr>vs_operations = [Create ''c''], vs_direct_command = None\<rparr>"
  "resolve_owned_wrapper_task codex_host codex_codec [''w''] (at 6 sv []) = Some (Inr codex_owner, at 10 sv [])"
  "validate_agent_id ''codex:s'' ''agent_id'' = Inl ''agent_id contains unsupported characters''"
  by code_simp+

theorem codex_mutations_refused_witness:
  "\<exists>s'. run_sandbox_in_repo codex_host demo_hook_codec codex_codec repo_codec (\<lambda>t. Inr (Create ''c'')) 3 [''w''] repo_paths codex_request (at 0 hook_server [])
       = Some (Inl ''agent_id contains unsupported characters'', s')
     \<and> cl_server s' = hook_server \<and> cl_trace s' = []"
proof -
  let ?run = "run_sandbox_in_repo codex_host demo_hook_codec codex_codec repo_codec (\<lambda>t. Inr (Create ''c'')) 3 [''w''] repo_paths codex_request (at 0 hook_server [])"
  have ids: "sq_task_id codex_request = Some ''T''" "sq_agent_id codex_request = Some ''codex:s''" "sq_fs codex_request = MutationFs"
    "ow_task_id codex_owner = ''T''" "ow_agent_id codex_owner = ''codex:s''"
    by (simp_all add: codex_request_def codex_owner_def)
  have run: "?run = Some (Inl ''agent_id contains unsupported characters'', at 10 hook_server [])"
    unfolding run_sandbox_in_repo_def run_staged_mutations_def ids
    by (simp add: bindR_def codex_steps liftR_def ids)
  have "sq_agent_id codex_request = Some (''codex:'' @ ''s'')" by (simp add: ids)
  from codex_mutations_refused [OF run ids(3) this] run show ?thesis by simp
qed

end
