(* ===== verification/Supervision.thy ===== *)
theory Supervision
  imports Run_Traces Replay_Scenario
begin

section \<open>Supervised commands end\<close>

text \<open>
  \<open>run_command_with_timeout\<close> of \<^verbatim>\<open>sandbox.rs\<close> polls its child, asks it to stop when the time is over and kills
  it when it does not. The loops take fuel; this theory shows how much is enough once the clock of the
  host moves between two polls, which sleep in the code.
\<close>

definition clock_advances :: "host \<Rightarrow> bool" where
  "clock_advances H \<longleftrightarrow> (\<forall>n. ho_instant H n < ho_instant H (Suc n))"

lemma clock_advances_steps:
  assumes "clock_advances H" "n \<le> m"
  shows "ho_instant H n + (m - n) \<le> ho_instant H m"
  using assms(2)
proof (induction rule: dec_induct)
  case (step m)
  moreover have "ho_instant H m < ho_instant H (Suc m)" using assms(1) by (simp add: clock_advances_def)
  ultimately show ?case by linarith
qed simp

text \<open>Runs that always return, and the number of steps they take at least.\<close>

definition always_returns :: "('e, 'a) run \<Rightarrow> bool" where
  "always_returns m \<longleftrightarrow> (\<forall>s. m s \<noteq> None)"

lemma total_rules [intro]:
  "always_returns (retR x)" "always_returns (failR e)" "always_returns (liftR r)" "always_returns (externR f)" "always_returns (actR a g)"
  "always_returns (instantR H)" "always_returns m \<Longrightarrow> always_returns (tryR m)" "always_returns m' \<Longrightarrow> always_returns (mapErrR k m')"
  by (auto simp: always_returns_def retR_def failR_def liftR_def externR_def actR_def instantR_def tryR_def mapErrR_def)

lemma total_bind [intro]: "always_returns m \<Longrightarrow> (\<And>x. always_returns (f x)) \<Longrightarrow> always_returns (bindR m f)"
  by (auto simp: always_returns_def bindR_def split: option.split sum.split)

lemma total_if: "always_returns m \<Longrightarrow> always_returns n \<Longrightarrow> always_returns (if b then m else n)"
  by simp

lemma total_sum: "(\<And>e. always_returns (f e)) \<Longrightarrow> (\<And>x. always_returns (g x)) \<Longrightarrow> always_returns (case v of Inl e \<Rightarrow> f e | Inr x \<Rightarrow> g x)"
  by (simp split: sum.split)

lemma total_option: "always_returns m \<Longrightarrow> (\<And>x. always_returns (f x)) \<Longrightarrow> always_returns (case v of None \<Rightarrow> m | Some x \<Rightarrow> f x)"
  by (simp split: option.split)

lemmas returning = total_rules total_bind total_if total_sum total_option

lemma total_effects: "always_returns (try_waitR H pid)" "always_returns (outputR H p)" "always_returns (spawnR H p)" "always_returns (pipeR H pid b c)"
  unfolding try_waitR_def outputR_def spawnR_def pipeR_def by (intro returning)+

lemma total_signals:
  "always_returns (signal_sandbox_process_group H pid signal)" "always_returns (kill_direct_sandbox_child H pid)"
  "always_returns (cleanup_sandbox_process_group H pid done)"
  unfolding cleanup_sandbox_process_group_def signal_sandbox_process_group_def kill_direct_sandbox_child_def
  by (intro returning total_effects)+

lemma instant_step: "bindR (instantR H) f s = f (ho_instant H (cl_step s)) (s\<lparr>cl_step := Suc (cl_step s)\<rparr>)"
  by (simp add: bindR_def instantR_def externR_def)

lemma bind_returns: "m s \<noteq> None \<Longrightarrow> (\<And>x s'. m s = Some (Inr x, s') \<Longrightarrow> f x s' \<noteq> None) \<Longrightarrow> bindR m f s \<noteq> None"
  by (auto simp: bindR_def split: option.splits sum.splits)

lemma signal_step: "ioR (bindR (externR (ho_signals H)) liftR) s
    = Some (mapErr io_error_text (ho_signals H (cl_step s)), s\<lparr>cl_step := Suc (cl_step s)\<rparr>)"
  by (simp add: ioR_def mapErrR_def bindR_def externR_def liftR_def)

lemma spawn_step: "ioR (spawnR H command) s = Some (mapErr io_error_text (ho_spawn H (cl_step s) command),
    s\<lparr>cl_step := Suc (cl_step s), cl_trace := cl_trace s @ [Spawned command]\<rparr>)"
  by (simp add: ioR_def spawnR_def mapErrR_def bindR_def actR_def liftR_def)

lemma await_exit_ends:
  assumes "clock_advances H" "started + timeout \<le> ho_instant H (cl_step s) + n"
  shows "await_exit H pid started timeout (Suc n) s \<noteq> None"
  using assms(2)
proof (induction n arbitrary: s)
  case 0
  then show ?case by (auto simp: bindR_def instantR_def externR_def retR_def)
next
  case (Suc n)
  have "await_exit H pid started timeout (Suc n) s' \<noteq> None" if "cl_step s < cl_step s'" for s'
    using Suc.IH [of s'] Suc.prems clock_advances_steps [OF assms(1), of "cl_step s" "cl_step s'"] that by linarith
  then show ?case
    by (simp only: await_exit.simps(2) [of _ _ _ _ "Suc n"])
      (auto simp: bindR_def instantR_def externR_def retR_def ioR_def mapErrR_def try_waitR_def liftR_def simp del: await_exit.simps
        split: sum.splits option.splits)
qed

lemma total_wait:
  assumes "clock_advances H" "timeout < fuel"
  shows "always_returns (wait_for_sandbox_child_exit H fuel pid timeout)"
proof -
  obtain n where n: "fuel = Suc n" "timeout \<le> n" using assms(2) by (cases fuel) auto
  have "await_exit H pid (ho_instant H k) timeout (Suc n) s \<noteq> None" if "cl_step s = Suc k" for k s
    using await_exit_ends [OF assms(1), of "ho_instant H k" timeout s n pid] clock_advances_steps [OF assms(1), of k "Suc k"] n(2) that
    by (auto simp del: await_exit.simps)
  then show ?thesis
    by (auto simp: always_returns_def wait_for_sandbox_child_exit_def bindR_def instantR_def externR_def n(1) simp del: await_exit.simps)
qed

lemma total_stop:
  assumes "clock_advances H" "500000000 < fuel"
  shows "always_returns (stop_child H fuel pid how failure)"
  unfolding stop_child_def terminate_sandbox_child_def
  by (intro returning total_signals total_wait assms)

lemma await_child_ends:
  assumes "clock_advances H" "500000000 < fuel" "deadline \<le> ho_instant H (cl_step s) + n"
  shows "await_child H fuel pid deadline (Suc n) s \<noteq> None"
  using assms(3)
proof (induction n arbitrary: s)
  case 0
  have "ho_instant H (cl_step s) \<le> ho_instant H (Suc (Suc (cl_step s)))"
    using clock_advances_steps [OF assms(1), of "cl_step s" "Suc (Suc (cl_step s))"] by simp
  with 0 total_stop [OF assms(1,2)] show ?case
    by (auto simp: bindR_def instantR_def externR_def retR_def ioR_def mapErrR_def try_waitR_def liftR_def always_returns_def
        split: sum.splits option.splits)
next
  case (Suc n)
  have "await_child H fuel pid deadline (Suc n) s' \<noteq> None" if "cl_step s < cl_step s'" for s'
    using Suc.IH [of s'] Suc.prems clock_advances_steps [OF assms(1), of "cl_step s" "cl_step s'"] that by linarith
  with total_stop [OF assms(1,2)] show ?case
    by (simp only: await_child.simps(2) [of _ _ _ _ "Suc n"])
      (auto simp: bindR_def instantR_def externR_def retR_def ioR_def mapErrR_def try_waitR_def liftR_def always_returns_def simp del: await_child.simps
        split: sum.splits option.splits)
qed

lemma supervised_returns:
  assumes "clock_advances H" "500000000 < fuel" "timeout < fuel"
    and "instant_add (ho_instant H (cl_step s + 2)) timeout \<noteq> None"
  shows "run_command_with_timeout H fuel command timeout events s \<noteq> None"
proof -
  obtain n where n: "fuel = Suc n" "timeout \<le> n" using assms(3) by (cases fuel) auto
  have child: "await_child H fuel pid deadline fuel s \<noteq> None"
    if "instant_add (ho_instant H k) timeout = Some deadline" "cl_step s = Suc k" for pid deadline k s
  proof -
    have "deadline \<le> ho_instant H (cl_step s) + n"
      using that n(2) clock_advances_steps [OF assms(1), of k "Suc k"] by (auto simp: instant_add_def split: if_splits)
    from await_child_ends [OF assms(1,2) this] show ?thesis unfolding n(1) .
  qed
  have tail: "always_returns (bindR (cleanup_sandbox_process_group H pid (how \<noteq> ChildExited)) (\<lambda>_.
         bindR (ioR (pipeR H pid False events)) (\<lambda>stdout.
         bindR (ioR (pipeR H pid True events)) (\<lambda>stderr.
         retR \<lparr>sc_status = child_status how, sc_exit_code = code, sc_stdout = utf8_lossy stdout,
               sc_stderr = utf8_lossy stderr\<rparr>))))" for pid how code
    unfolding ioR_def by (intro returning total_signals total_effects)
  let ?rest = "\<lambda>pid now. case instant_add now timeout of
       None \<Rightarrow> panicR
     | Some deadline \<Rightarrow>
         bindR (await_child H fuel pid deadline fuel) (\<lambda>(how, code).
         bindR (cleanup_sandbox_process_group H pid (how \<noteq> ChildExited)) (\<lambda>_.
         bindR (ioR (pipeR H pid False events)) (\<lambda>stdout.
         bindR (ioR (pipeR H pid True events)) (\<lambda>stderr.
         retR \<lparr>sc_status = child_status how, sc_exit_code = code, sc_stdout = utf8_lossy stdout,
               sc_stderr = utf8_lossy stderr\<rparr>))))"
  have rest: "bindR (instantR H) (?rest pid) u \<noteq> None" if u: "cl_step u = cl_step s + 2" for pid u
  proof -
    obtain deadline where deadline: "instant_add (ho_instant H (cl_step u)) timeout = Some deadline" using assms(4) u by auto
    let ?u = "u\<lparr>cl_step := Suc (cl_step u)\<rparr>"
    obtain x u1 where "await_child H fuel pid deadline fuel ?u = Some (x, u1)" using child [OF deadline, of ?u pid] by auto
    with deadline tail show "bindR (instantR H) (?rest pid) u \<noteq> None"
      by (auto simp: instant_step bindR_def [of "await_child _ _ _ _ _"] always_returns_def simp del: await_child.simps
          split: sum.split prod.split)
  qed
  show ?thesis
    unfolding run_command_with_timeout_def run_command_with_timeout_and_cancel_def
  proof (rule bind_returns)
    fix x s1 assume "ioR (bindR (externR (ho_signals H)) liftR) s = Some (Inr x, s1)"
    then have step: "cl_step s1 = Suc (cl_step s)" by (auto simp: signal_step)
    show "bindR (ioR (spawnR H command)) (\<lambda>pid. bindR (instantR H) (?rest pid)) s1 \<noteq> None"
    proof (rule bind_returns)
      fix pid s2 assume "ioR (spawnR H command) s1 = Some (Inr pid, s2)"
      with step show "bindR (instantR H) (?rest pid) s2 \<noteq> None" by (intro rest) (auto simp: spawn_step)
    qed (simp add: spawn_step)
  qed (simp add: signal_step)
qed

lemma supervised_status:
  assumes "run_command_with_timeout H fuel command timeout events s = Some (Inr result, s')"
  shows "sc_status result \<in> {''exited'', ''cancelled'', ''timed_out''}"
proof -
  have "\<exists>how. sc_status result = child_status how"
    using assms [unfolded run_command_with_timeout_def run_command_with_timeout_and_cancel_def]
    by (elim bindR_InrE) (auto elim!: bindR_InrE split: option.splits prod.splits simp del: child_status.simps await_child.simps)
  moreover have "child_status how \<in> {''exited'', ''cancelled'', ''timed_out''}" for how by (cases how) simp_all
  ultimately show ?thesis by metis
qed


definition slow_host :: host where
  "slow_host = (replay_host (\<lambda>n. repo_fs ''ref'') (\<lambda>n p. Inl NotFoundIo) (\<lambda>n a. Inl PermissionDeniedIo) hook_payload (\<lambda>n. None))
     \<lparr>ho_spawn := (\<lambda>n p. Inr 5)\<rparr>"


end
