(* ===== verification/Commit_Hooks.thy ===== *)
theory Commit_Hooks
  imports Commit_Run
begin

section \<open>Hooks of a commit\<close>

text \<open>
  The two things that keep a Git hook inside its private work tree in \<^verbatim>\<open>commit.rs\<close>: the check of what it
  changed, compared with its specification over maps, and the command line that starts it, read back by the splitter
  of shell words.
\<close>

subsection \<open>What a hook changed\<close>

lemma changed_keys:
  "path \<in> set (changed_bytes_keys old new) \<longleftrightarrow> map_of old path \<noteq> map_of new path"
proof -
  have "map_of old path = None \<and> map_of new path = None" if "path \<notin> set (map fst old @ map fst new)"
    using that by (auto simp: map_of_eq_None_iff)
  then show ?thesis by (auto simp: changed_bytes_keys_def) (metis map_of_eq_None_iff)
qed


subsection \<open>How a hook is started\<close>

text \<open>The quoting of the hook command, read back by the splitter of shell words.\<close>

lemma posix_body:
  "split_words QuoteSingle True current ws
     (concat (map (\<lambda>c. if c = apostrophe then [apostrophe, quotation_mark, apostrophe, quotation_mark, apostrophe] else [c]) v)
        @ apostrophe # rest)
   = split_words QuoteNone True (current @ v) ws rest"
proof (induction v arbitrary: current)
  case (Cons c cs)
  show ?case
    using Cons.IH [of "current @ [c]"]
    by (cases "c = apostrophe") (simp_all add: split_words.simps control_characters_def)
qed simp

lemma posix_quoted:
  assumes "posix_shell_quote_path path label = Inr q"
  shows "split_words QuoteNone in_word current ws (q @ rest) = split_words QuoteNone True (current @ path_text path) ws rest"
  using assms posix_body [of current ws "path_text path" rest]
  by (auto simp: posix_shell_quote_path_def Let_def split_words.simps control_characters_def split: if_splits)

lemma quoted_arguments:
  assumes "foldE (\<lambda>argument text. bindE (posix_shell_quote_path argument label) (\<lambda>a. Inr (text @ '' '' @ a))) args start = Inr out"
  shows "\<exists>tail. out = start @ tail \<and> (\<forall>current ws. split_words QuoteNone True current ws tail = Inr (ws @ [current] @ map path_text args))"
  using assms
proof (induction args arbitrary: start)
  case Nil
  then show ?case by (auto simp: split_words.simps)
next
  case (Cons argument args)
  then obtain a where quoted: "posix_shell_quote_path argument label = Inr a"
    and rest: "foldE (\<lambda>argument text. bindE (posix_shell_quote_path argument label) (\<lambda>a. Inr (text @ '' '' @ a))) args (start @ '' '' @ a) = Inr out"
    by (auto simp: bindE_eq_Inr)
  from Cons.IH [OF rest] obtain tail where "out = (start @ '' '' @ a) @ tail"
    "\<forall>current ws. split_words QuoteNone True current ws tail = Inr (ws @ [current] @ map path_text args)" by blast
  with quoted show ?case
    by (intro exI [of _ "'' '' @ a @ tail"]) (auto simp: split_space posix_quoted)
qed

text \<open>
  C30. The command line built for a hook runs the hook: whatever bytes the paths contain, the shell words of
  \<open>hook_command_text\<close> are the three assignments of Git's variables, \<^verbatim>\<open>exec\<close>, the hook and its arguments.
\<close>

theorem hook_command_words:
  assumes "hook_command_text directory tree index hook args = Inr command"
  shows "split_simple_command_words command
    = Inr ([''GIT_DIR='' @ path_text directory, ''GIT_WORK_TREE='' @ path_text tree, ''GIT_INDEX_FILE='' @ path_text index, ''exec'',
            path_text hook] @ map path_text args)"
proof -
  from assms obtain d w i h where
    quoted: "posix_shell_quote_path directory ''hook GIT_DIR'' = Inr d" "posix_shell_quote_path tree ''hook GIT_WORK_TREE'' = Inr w"
      "posix_shell_quote_path index ''hook GIT_INDEX_FILE'' = Inr i" "posix_shell_quote_path hook ''hook path'' = Inr h"
    and fold: "foldE (\<lambda>argument text. bindE (posix_shell_quote_path argument ''hook argument'') (\<lambda>a. Inr (text @ '' '' @ a))) args
       (''GIT_DIR='' @ d @ '' GIT_WORK_TREE='' @ w @ '' GIT_INDEX_FILE='' @ i @ '' exec '' @ h) = Inr command"
    by (auto simp: hook_command_text_def bindE_eq_Inr)
  from quoted_arguments [OF fold] obtain tail where
    command: "command = ''GIT_DIR='' @ d @ '' GIT_WORK_TREE='' @ w @ '' GIT_INDEX_FILE='' @ i @ '' exec '' @ h @ tail"
    and tail: "\<And>current ws. split_words QuoteNone True current ws tail = Inr (ws @ [current] @ map path_text args)" by auto
  have literal: "split_words QuoteNone False [] ws (''GIT_DIR='' @ rest) = split_words QuoteNone True ''GIT_DIR='' ws rest"
    "split_words QuoteNone True current ws ('' GIT_WORK_TREE='' @ rest) = split_words QuoteNone True ''GIT_WORK_TREE='' (ws @ [current]) rest"
    "split_words QuoteNone True current ws ('' GIT_INDEX_FILE='' @ rest) = split_words QuoteNone True ''GIT_INDEX_FILE='' (ws @ [current]) rest"
    "split_words QuoteNone True current ws ('' exec '' @ rest) = split_words QuoteNone False [] (ws @ [current, ''exec'']) rest" for ws rest current
    by (simp_all add: split_words.simps(2) control_characters_def leading_whitespace_def whitespace_encodings_code)
  show ?thesis
    unfolding split_simple_command_words_def command
    by (simp only: literal posix_quoted [OF quoted(1)] posix_quoted [OF quoted(2)] posix_quoted [OF quoted(3)] posix_quoted [OF quoted(4)] tail) simp
qed

theorem hook_command_words_witness:
  "\<exists>command. hook_command_text [''w'', ''.git''] [''tmp'', [CHR ''a'', apostrophe, CHR ''$'']] [''tmp'', ''i''] [''w'', ''.git'', ''hooks'', ''pre-commit''] [[''m'']]
       = Inr command
     \<and> split_simple_command_words command
       = Inr [''GIT_DIR=/w/.git'', ''GIT_WORK_TREE=/tmp/a'' @ [apostrophe, CHR ''$''], ''GIT_INDEX_FILE=/tmp/i'', ''exec'', ''/w/.git/hooks/pre-commit'', ''/m'']"
proof -
  have "is_ok (hook_command_text [''w'', ''.git''] [''tmp'', [CHR ''a'', apostrophe, CHR ''$'']] [''tmp'', ''i''] [''w'', ''.git'', ''hooks'', ''pre-commit''] [[''m'']])"
    by code_simp
  then obtain command where c: "hook_command_text [''w'', ''.git''] [''tmp'', [CHR ''a'', apostrophe, CHR ''$'']] [''tmp'', ''i'']
      [''w'', ''.git'', ''hooks'', ''pre-commit''] [[''m'']] = Inr command" by (auto simp: is_ok_iff)
  have "path_text [''w'', ''.git''] = ''/w/.git''" "path_text [''tmp'', [CHR ''a'', apostrophe, CHR ''$'']] = ''/tmp/a'' @ [apostrophe, CHR ''$'']"
    "path_text [''tmp'', ''i''] = ''/tmp/i''" "path_text [''w'', ''.git'', ''hooks'', ''pre-commit''] = ''/w/.git/hooks/pre-commit''"
    "path_text [''m''] = ''/m''" by code_simp+
  with hook_command_words [OF c] c show ?thesis by simp
qed

end
