(* ===== verification/Commit_Properties.thy ===== *)
theory Commit_Properties
  imports Sandbox_Runs Replay_Scenario
begin

section \<open>How a structured commit moves HEAD\<close>

text \<open>
  The commands a structured commit gives to Git. All but one leave every ref alone; the
  exception is the compare-and-swap of \<^verbatim>\<open>HEAD\<close>, which follows the creation of the commit at once.
\<close>

subsection \<open>Quiet commands\<close>

text \<open>Commands of Git that move no ref; \<^verbatim>\<open>reset\<close> with paths only writes the index.\<close>

definition git_quiet :: "string list \<Rightarrow> bool" where
  "git_quiet args \<longleftrightarrow>
     (\<exists>rest. args = ''reset'' # ''--quiet'' # rest \<and> (\<exists>sha path paths. rest = sha # ''--'' # path # paths))
     \<or> args \<noteq> [] \<and> hd args \<in> {''rev-parse'', ''ls-files'', ''for-each-ref'', ''status'', ''read-tree'', ''add'', ''update-index'',
          ''write-tree'', ''commit-tree''}"

definition still :: "action \<Rightarrow> bool" where
  "still a \<longleftrightarrow>
     (case a of
        Ran p \<Rightarrow> signals p \<or> pr_program p = ''git'' \<and> git_quiet (pr_args p)
      | Spawned p \<Rightarrow> \<exists>zone. boxed NetworkDisabled zone p
      | Changed c \<Rightarrow> True)"

lemma still_simps [simp]:
  "still (Changed c)" "signals p \<Longrightarrow> still (Ran p)"
  "git_quiet args \<Longrightarrow> still (Ran (git_command H repo args index))"
  "boxed NetworkDisabled zone p \<Longrightarrow> still (Spawned p)"
  by (auto simp: still_def git_command_def)

lemma quiet_git:
  assumes "git_quiet args"
  shows "relates (traced still) (git_stdout_bytes_with_index H repo args index)"
    "relates (traced still) (git_stdout_with_index H repo args index)" "relates (traced still) (commit_git_stdout H repo args)"
    "relates (traced still) (git_status_with_index H repo args index)" "relates (traced still) (commit_git_status H repo args)"
  unfolding commit_git_stdout_def commit_git_status_def git_stdout_with_index_def git_stdout_bytes_with_index_def git_status_with_index_def
  by (intro trace_rules still_simps assms)+

lemma quiet_head:
  "relates (traced still) (head_sha H repo)" "relates (traced still) (git_dir H repo)" "relates (traced still) (git_refs H repo)"
  "relates (traced still) (is_tracked_path H repo path)" "relates (traced still) (matches_tracked_directory H repo path)"
  unfolding head_sha_def git_dir_def git_refs_def is_tracked_path_def matches_tracked_directory_def
  by (intro trace_rules quiet_git still_simps; simp add: git_quiet_def)+

lemma quiet_paths:
  "relates (traced still) (normalize_explicit_paths H repo paths)"
  unfolding normalize_explicit_paths_def normalize_explicit_path_def is_broad_pathspec_def Let_def
  by (intro trace_rules traced.relates_mapR quiet_head)

lemma quiet_capture:
  "relates (traced still) (capture_metadata H repo directory)" "relates (traced still) (capture_boundary H repo index)"
  unfolding capture_metadata_def capture_boundary_def optional_digest_def index_snapshot_def
  by (intro trace_rules quiet_head quiet_git; simp add: git_quiet_def)+

lemma quiet_observe_target: "relates (traced still) (observe_commit_target H fuel repo workspace path)"
  unfolding observe_commit_target_def read_observation_def
  by (intro trace_rules) (auto split: resource_error.split io_error.split intro!: trace_rules)

lemma quiet_observe_targets: "relates (traced still) (observe_targets H fuel repo workspace paths tracked observations)"
  by (induction paths arbitrary: tracked observations) (auto intro!: trace_rules quiet_observe_target)

lemma quiet_observe:
  "relates (traced still) (observe_commit_batch H fuel repo workspace paths)"
  "relates (traced still) (ensure_batch_unchanged H fuel repo batch paths)"
  unfolding ensure_batch_unchanged_def observe_commit_batch_def metadata_observation_def
  by (intro trace_rules quiet_observe_targets quiet_head quiet_capture; (auto intro!: trace_rules quiet_head quiet_capture)?)+

subsection \<open>Before the commit\<close>

lemma quiet_wait: "relates (traced still) (wait_for_commit_offer H fuel runtime identity repo paths deadline n batch)"
proof (induction n arbitrary: batch)
  case (Suc n)
  have "relates (traced still) (activate_commit_offer H fuel runtime identity repo paths status)" for status
    unfolding activate_commit_offer_def by (intro trace_rules quiet_observe traced.relates_record_read)
  with Suc show ?case
    by (simp only: wait_for_commit_offer.simps) (intro trace_rules; simp split: lease_request_state.split; intro conjI impI trace_rules)
qed (simp add: traced.relates_basic)

lemma quiet_prepare_loop: "relates (traced still) (prepare_commit_loop H fuel runtime identity repo paths deadline n)"
proof (induction n)
  case (Suc n)
  then show ?case
    by (simp only: prepare_commit_loop.simps)
      (intro trace_rules quiet_observe traced.relates_record_read traced.relates_post_prepare;
       simp split: write_prepare_result.split; intro conjI impI allI trace_rules quiet_wait)
qed (simp add: traced.relates_basic)

lemma quiet_prepare: "relates (traced still) (prepare_commit H fuel runtime identity repo paths)"
  unfolding prepare_commit_def by (intro trace_rules quiet_prepare_loop)

lemma quiet_targets: "relates (traced still) (copy_targets H repo root paths initial)"
  by (induction paths arbitrary: initial) (auto simp: Let_def intro!: trace_rules)

lemma quiet_or_remove: "relates (traced still) m \<Longrightarrow> relates (traced still) (or_remove H root m)"
  unfolding or_remove_def by (intro trace_rules) simp_all

lemma quiet_workspace: "relates (traced still) (create_hook_workspace H repo paths)"
  unfolding create_hook_workspace_def Let_def by (intro quiet_or_remove trace_rules quiet_targets) simp_all

lemma quiet_stage: "relates (traced still) (stage_private_targets H repo zone index paths)"
  unfolding stage_private_targets_def stage_private_target_def Let_def
  by (intro traced.relates_for trace_rules quiet_head) (simp add: still_def git_quiet_def)

lemma quiet_hook:
  assumes "\<forall>a \<in> set args. prefix zone a"
  shows "relates (traced still) (run_allowed_hook H fuel repo zone index name args explicit)"
proof -
  have "relates (traced still) (hook_path H repo name)"
    unfolding hook_path_def by (intro trace_rules quiet_git) (simp add: git_quiet_def)
  moreover have "relates (traced still) (run_private_sandbox_command H fuel command zone
      (writable_directory zone # map writable_file args) timeout)" for command timeout
    by (rule traced_private_command [where zone = zone])
      (use assms in \<open>auto simp: writable_directory_def writable_file_def still_def\<close>)
  ultimately show ?thesis
    unfolding run_allowed_hook_def by (intro trace_rules quiet_head quiet_capture)
qed

subsection \<open>How runs end\<close>

text \<open>What a run returns together with what it adds to the trace. The conditions used below survive quiet
  actions in front, and hold of every quiet failure.\<close>

definition concludes :: "('e + 'a \<Rightarrow> action list \<Rightarrow> bool) \<Rightarrow> ('e, 'a) run \<Rightarrow> bool" where
  "concludes Q m \<longleftrightarrow> (\<forall>s r s'. m s = Some (r, s') \<longrightarrow> (\<exists>t. cl_trace s' = cl_trace s @ t \<and> Q r t))"

lemma concludesE:
  assumes "concludes Q m" "m s = Some (r, s')"
  obtains t where "cl_trace s' = cl_trace s @ t" "Q r t"
  using assms unfolding concludes_def by blast

definition settled :: "('e + 'a \<Rightarrow> action list \<Rightarrow> bool) \<Rightarrow> bool" where
  "settled Q \<longleftrightarrow> (\<forall>e t. list_all still t \<longrightarrow> Q (Inl e) t) \<and> (\<forall>r t t'. list_all still t \<longrightarrow> Q r t' \<longrightarrow> Q r (t @ t'))"

lemma concludes_after:
  assumes "settled Q" "relates (traced still) m" "\<And>x s s'. m s = Some (Inr x, s') \<Longrightarrow> concludes Q (f x)"
  shows "concludes Q (bindR m f)"
  unfolding concludes_def
proof (intro allI impI)
  fix s r s' assume "bindR m f s = Some (r, s')"
  then show "\<exists>t. cl_trace s' = cl_trace s @ t \<and> Q r t"
  proof (cases rule: bindR_cases)
    case (1 e)
    with assms(1,2) show ?thesis by (fastforce simp: settled_def dest!: relatesD elim: tracedE)
  next
    case (2 x s1)
    obtain t where t: "cl_trace s1 = cl_trace s @ t" "list_all still t"
      using relatesD [OF assms(2) 2(1)] by (rule tracedE)
    obtain t' where "cl_trace s' = cl_trace s1 @ t'" "Q r t'" using assms(3) [OF 2(1)] 2(2) by (rule concludesE)
    with t assms(1) show ?thesis by (auto simp: settled_def)
  qed
qed

lemma concludes_fail: "settled Q \<Longrightarrow> concludes Q (failR e)"
  by (auto simp: concludes_def settled_def failR_def)

lemma concludes_if: "(b \<Longrightarrow> concludes Q m) \<Longrightarrow> (\<not> b \<Longrightarrow> concludes Q n) \<Longrightarrow> concludes Q (if b then m else n)"
  by simp

lemma concludes_quiet:
  assumes "relates (traced still) m" "\<And>s r s' t. m s = Some (r, s') \<Longrightarrow> list_all still t \<Longrightarrow> Q r t"
  shows "concludes Q m"
  using assms unfolding concludes_def by (blast dest: relatesD elim: tracedE)

lemma concludes_try:
  assumes "concludes Q m" "\<And>r t. Q r t \<Longrightarrow> concludes (\<lambda>r' t'. Q' r' (t @ t')) (f r)"
  shows "concludes Q' (bindR (tryR m) f)"
  unfolding concludes_def
proof (intro allI impI)
  fix s r' s' assume "bindR (tryR m) f s = Some (r', s')"
  then obtain r s1 where "m s = Some (r, s1)" and rest: "f r s1 = Some (r', s')"
    by (auto simp: bindR_def tryR_def split: option.splits)
  then obtain t where t: "cl_trace s1 = cl_trace s @ t" "Q r t" using assms(1) by (blast elim: concludesE)
  obtain t' where "cl_trace s' = cl_trace s1 @ t'" "Q' r' (t @ t')" by (rule concludesE [OF assms(2) [OF t(2)] rest])
  with t show "\<exists>t. cl_trace s' = cl_trace s @ t \<and> Q' r' t" by (intro exI [of _ "t @ t'"]) simp
qed

lemma concludes_failed: "Q (Inl e) t \<Longrightarrow> concludes (\<lambda>r t'. Q r (t @ t')) (failR e)"
  by (simp add: concludes_def failR_def)

lemma concludes_bind:
  assumes "concludes Q m" "\<And>e t. Q (Inl e) t \<Longrightarrow> Q' (Inl e) t" "\<And>x t. Q (Inr x) t \<Longrightarrow> concludes (\<lambda>r' t'. Q' r' (t @ t')) (f x)"
  shows "concludes Q' (bindR m f)"
proof -
  have "bindR m f = bindR (tryR m) (\<lambda>r. case r of Inl e \<Rightarrow> failR e | Inr x \<Rightarrow> f x)"
    by (rule ext) (auto simp: bindR_def tryR_def failR_def split: option.split sum.split)
  then show ?thesis
    by (simp only:) (rule concludes_try [OF assms(1)], auto split: sum.split intro: assms(3) concludes_failed assms(2))
qed

lemma concludes_finally:
  assumes "concludes Q m" "relates (traced still) c" "\<And>r t t'. Q r t \<Longrightarrow> list_all still t' \<Longrightarrow> Q r (t @ t')"
  shows "concludes Q (finallyR m c)"
  unfolding finallyR_def
proof (rule concludes_try [OF assms(1)])
  fix r t assume "Q r t"
  then show "concludes (\<lambda>r' t'. Q r' (t @ t')) (bindR (tryR c) (\<lambda>_. liftR r))"
    by (intro concludes_quiet traced.run_relation_rules assms(2))
      (auto simp: bindR_def tryR_def liftR_def assms(3) split: option.splits)
qed

subsection \<open>The moved HEAD\<close>

definition cas_command :: "host \<Rightarrow> string list \<Rightarrow> string \<Rightarrow> string option \<Rightarrow> process" where
  "cas_command H repo sha old =
     git_command H repo [''update-ref'', ''HEAD'', sha, case old of Some head \<Rightarrow> head | None \<Rightarrow> []] None"

definition tree_command :: "host \<Rightarrow> string list \<Rightarrow> string \<Rightarrow> string option \<Rightarrow> string \<Rightarrow> process" where
  "tree_command H repo tree old message =
     git_command H repo ([''commit-tree'', tree] @ (case old of Some head \<Rightarrow> [''-p'', head] | None \<Rightarrow> []) @ [''-F'', message]) None"

definition failed :: "host \<Rightarrow> action \<Rightarrow> bool" where
  "failed H a \<longleftrightarrow> (\<exists>p n. a = Ran p \<and> (\<forall>out. ho_output H n p = Inr out \<longrightarrow> \<not> po_success out))"

definition moved :: "host \<Rightarrow> string list \<Rightarrow> string option \<Rightarrow> string + string \<Rightarrow> action list \<Rightarrow> bool" where
  "moved H repo old r t \<longleftrightarrow>
     (case r of
        Inr sha \<Rightarrow> \<exists>t1 t2 tree message. t = t1 @ [Ran (tree_command H repo tree old message), Ran (cas_command H repo sha old)] @ t2
          \<and> list_all still t1 \<and> list_all still t2
      | Inl e \<Rightarrow> \<forall>a \<in> set t. still a \<or> failed H a)"

abbreviation moving :: "host \<Rightarrow> string list \<Rightarrow> string option \<Rightarrow> ('a \<Rightarrow> string) \<Rightarrow> string + 'a \<Rightarrow> action list \<Rightarrow> bool" where
  "moving H repo old sha r t \<equiv> moved H repo old (map_sum id sha r) t"

lemma moved_quiet:
  "moved H repo old r t \<Longrightarrow> list_all still t' \<Longrightarrow> moved H repo old r (t @ t')"
  "moved H repo old r t \<Longrightarrow> list_all still t' \<Longrightarrow> moved H repo old r (t' @ t)"
proof -
  assume "moved H repo old r t" "list_all still t'"
  then show "moved H repo old r (t @ t')"
    by (cases r) (fastforce simp: moved_def list_all_iff)+
next
  assume moved: "moved H repo old r t" "list_all still t'"
  show "moved H repo old r (t' @ t)"
  proof (cases r)
    case (Inr sha)
    with moved obtain t1 t2 tree message where
      "t = t1 @ [Ran (tree_command H repo tree old message), Ran (cas_command H repo sha old)] @ t2" "list_all still t1" "list_all still t2"
      by (auto simp: moved_def)
    with moved(2) have "t' @ t = (t' @ t1) @ [Ran (tree_command H repo tree old message), Ran (cas_command H repo sha old)] @ t2"
      "list_all still (t' @ t1)" by simp_all
    with \<open>list_all still t2\<close> Inr show ?thesis unfolding moved_def by (simp only: sum.case) blast
  qed (use moved in \<open>auto simp: moved_def list_all_iff\<close>)
qed

lemma settled_moving: "settled (moving H repo old sha)"
  by (auto simp: settled_def moved_quiet(2)) (auto simp: moved_def list_all_iff)

lemma git_output_trace:
  "commit_git_stdout H repo args s = Some (r, s') \<Longrightarrow> cl_trace s' = cl_trace s @ [Ran (git_command H repo args None)]"
  by (auto simp: commit_git_stdout_def git_stdout_with_index_def git_stdout_bytes_with_index_def ioR_def outputR_def mapErrR_def
      liftR_def failR_def retR_def elim!: bindR_cases split: if_splits sum.splits)

lemma head_cas_trace:
  assumes "update_head_cas H repo sha old s = Some (r, s')"
  shows "cl_trace s' = cl_trace s @ [Ran (cas_command H repo sha old)]" "isl r \<Longrightarrow> failed H (Ran (cas_command H repo sha old))"
  using assms
  by (auto simp: update_head_cas_def commit_git_status_def git_status_with_index_def ioR_def outputR_def mapErrR_def cas_command_def
      liftR_def failR_def retR_def failed_def isl_def elim!: bindR_cases split: if_splits sum.splits intro!: exI [of _ "cl_step s"])

lemma head_cas:
  "concludes (moving H repo old (\<lambda>sha. sha)) (commit_temp_index_with_head_cas H repo index message old)"
proof -
  have quiet: "git_quiet [''write-tree'']" "git_quiet (''commit-tree'' # rest)" for rest by (simp_all add: git_quiet_def)
  have swap: "concludes (moving H repo old (\<lambda>sha. sha)) (bindR (commit_git_stdout H repo
                ([''commit-tree'', trim tree] @ (case old of Some head \<Rightarrow> [''-p'', head] | None \<Rightarrow> [])
                 @ [''-F'', utf8_lossy (path_text message)])) (\<lambda>out.
       bindR (update_head_cas H repo (trim out) old) (\<lambda>_. retR (trim out))))" (is "concludes _ (bindR (commit_git_stdout H repo ?args) _)") for tree
  proof -
    let ?tree = "Ran (tree_command H repo (trim tree) old (utf8_lossy (path_text message)))"
    have "still ?tree" using quiet(2) by (simp add: tree_command_def)
    have made: "concludes (\<lambda>r t. t = [?tree]) (commit_git_stdout H repo ?args)"
      by (auto simp: concludes_def tree_command_def dest: git_output_trace)
    have cas: "concludes (\<lambda>r t. moving H repo old (\<lambda>sha. sha) r (?tree # t)) (bindR (update_head_cas H repo sha old) (\<lambda>_. retR sha))" for sha
      unfolding concludes_def
    proof (intro allI impI)
      fix s r s' assume "bindR (update_head_cas H repo sha old) (\<lambda>_. retR sha) s = Some (r, s')"
      then show "\<exists>t. cl_trace s' = cl_trace s @ t \<and> moving H repo old (\<lambda>sha. sha) r (?tree # t)"
      proof (cases rule: bindR_cases)
        case (1 e)
        from head_cas_trace [OF 1(1)] \<open>still ?tree\<close> 1(2) show ?thesis by (auto simp: moved_def)
      next
        case (2 x s1)
        have "moved H repo old (Inr sha) ([] @ [?tree, Ran (cas_command H repo sha old)] @ [])"
          unfolding moved_def sum.case by (intro exI conjI, rule refl) simp_all
        with head_cas_trace(1) [OF 2(1)] 2(2) show ?thesis by (auto simp: retR_def)
      qed
    qed
    show ?thesis
      by (rule concludes_bind [OF made]) (use \<open>still ?tree\<close> cas in \<open>auto simp: moved_def\<close>)
  qed
  show ?thesis
    unfolding commit_temp_index_with_head_cas_def
    by (intro concludes_after [OF settled_moving quiet_head(1)] concludes_if concludes_fail settled_moving
        concludes_after [OF settled_moving quiet_git(2) [OF quiet(1)]] swap)
qed

subsection \<open>The prepared commit\<close>

lemma quiet_changed: "relates (traced still) (changed_targets H root targets changed)"
  by (induction targets arbitrary: changed) (auto simp: Let_def split: option.split prod.split intro!: trace_rules)

lemma build_moves:
  assumes "prefix (pw_root workspace) message"
  shows "concludes (moving H repo (gm_head_sha (bt_metadata (pc_batch prepared))) fst)
    (build_commit H fuel repo paths prepared workspace index message)"
  unfolding build_commit_def changed_existing_targets_def
  by (intro concludes_after [OF settled_moving] quiet_hook quiet_stage quiet_changed quiet_observe concludes_bind [OF head_cas])
    (use assms in \<open>auto simp: concludes_def retR_def moved_quiet\<close>)

lemma finish_quiet:
  assumes "paths \<noteq> []"
  shows "relates (traced still) (finish_commit H fuel repo paths prepared sha changes)"
proof -
  have "git_quiet ([''reset'', ''--quiet'', sha, ''--''] @ paths)"
    using assms by (cases paths) (auto simp: git_quiet_def)
  then show ?thesis
    unfolding finish_commit_def synchronize_primary_index_def by (intro trace_rules quiet_git quiet_observe)
qed

lemma finish_result:
  assumes "finish_commit H fuel repo paths prepared sha changes s = Some (r, s')"
  shows "\<exists>committed. r = Inr committed \<and> cm_commit_sha (kc_result committed) = sha"
  using assms by (auto simp: finish_commit_def Let_def retR_def elim!: bindR_cases)

lemma prepared_moves:
  assumes "paths \<noteq> []"
  shows "concludes (moving H repo (gm_head_sha (bt_metadata (pc_batch prepared))) (\<lambda>committed. cm_commit_sha (kc_result committed)))
    (commit_prepared H fuel repo message paths prepared)" (is "concludes ?Q _")
proof -
  have quiet: "relates (traced still) (temporary_index H repo root)" "relates (traced still) (index_drop H index)"
    "relates (traced still) (changeR H c)" for root index c
    unfolding temporary_index_def index_drop_def Let_def
    by (intro trace_rules quiet_head quiet_git; auto simp: git_quiet_def split: option.split)+
  have finish: "concludes ?Q (bindR (build_commit H fuel repo paths prepared workspace index path) (\<lambda>(sha, changes).
      finish_commit H fuel repo paths prepared sha changes))" if "prefix (pw_root workspace) path" for workspace index path
  proof (rule concludes_bind [OF build_moves [OF that]])
    fix x :: "string \<times> (string \<times> string) list" and t
    assume "moving H repo (gm_head_sha (bt_metadata (pc_batch prepared))) fst (Inr x) t"
    then show "concludes (\<lambda>r' t'. ?Q r' (t @ t')) (case x of (sha, changes) \<Rightarrow> finish_commit H fuel repo paths prepared sha changes)"
      by (cases x) (auto intro!: concludes_quiet finish_quiet assms moved_quiet(1) dest!: finish_result)
  qed (simp add: moved_def)
  have inner: "concludes ?Q (bindR (temporary_commit_message H (pw_root workspace) message) (\<lambda>path.
      finallyR (bindR (build_commit H fuel repo paths prepared workspace index path) (\<lambda>(sha, changes).
        finish_commit H fuel repo paths prepared sha changes)) (changeR H (RemoveFile path))))" for workspace index
    by (rule concludes_after [OF settled_moving], unfold temporary_commit_message_def Let_def, intro trace_rules)
      (auto intro!: concludes_finally finish quiet moved_quiet(1) elim!: bindR_InrE)
  show ?thesis
    unfolding commit_prepared_def
    by (intro concludes_after [OF settled_moving quiet_observe(2)] concludes_after [OF settled_moving quiet_workspace]
        concludes_after [OF settled_moving quiet(1)] concludes_after [OF settled_moving quiet_stage] concludes_finally inner quiet(2,3) moved_quiet(1))
qed

subsection \<open>The whole command\<close>

lemma quiet_complete: "relates (traced still) (complete_failed H fuel runtime identity repo prepared error)"
  unfolding complete_failed_def
  by (intro trace_rules quiet_observe traced.relates_complete_commit) 

lemma complete_failed_fails:
  "complete_failed H fuel runtime identity repo prepared error s = Some (r, s') \<Longrightarrow> \<exists>e. r = Inl e"
  by (auto simp: complete_failed_def Let_def failR_def elim!: bindR_cases split: prod.splits)

lemma quiet_hook_change: "relates (traced still) (apply_hook_change H fuel runtime identity repo batch change)"
  unfolding apply_hook_change_def
  by (intro trace_rules quiet_observe_target traced.relates_record_read traced.relates_post_prepare)
    (auto simp: Let_def split: write_prepare_result.split intro!: trace_rules quiet_observe_target)

lemma quiet_report: "relates (traced still) (report_commit H fuel runtime identity repo prepared committed)"
  unfolding report_commit_def apply_hook_changes_def
  by (intro trace_rules traced.relates_complete_commit traced.relates_for quiet_hook_change)

lemma report_result:
  assumes "report_commit H fuel runtime identity repo prepared committed s = Some (r, s')"
  shows "\<exists>result. r = Inr result \<and> cm_commit_sha result = cm_commit_sha (kc_result committed)"
  using assms by (auto simp: report_commit_def Let_def retR_def add_warning_def elim!: bindR_cases split: sum.split)

lemma committed_moves:
  assumes "paths \<noteq> []"
  shows "concludes (moving H repo (gm_head_sha (bt_metadata (pc_batch prepared))) cm_commit_sha)
    (bindR (tryR (commit_prepared H fuel repo message paths prepared)) (\<lambda>outcome.
     case outcome of
       Inr committed \<Rightarrow> report_commit H fuel runtime identity repo prepared committed
     | Inl error \<Rightarrow> complete_failed H fuel runtime identity repo prepared error))" (is "concludes ?Q _")
proof (rule concludes_try [OF prepared_moves [OF assms]])
  fix r :: "string + committed_commit" and t
  assume moved: "moving H repo (gm_head_sha (bt_metadata (pc_batch prepared)))
    (\<lambda>committed. cm_commit_sha (kc_result committed)) r t"
  show "concludes (\<lambda>r' t'. ?Q r' (t @ t')) (case r of
       Inr committed \<Rightarrow> report_commit H fuel runtime identity repo prepared committed
     | Inl error \<Rightarrow> complete_failed H fuel runtime identity repo prepared error)"
  proof (cases r)
    case (Inl e)
    have "concludes (\<lambda>r' t'. ?Q r' (t @ t')) (complete_failed H fuel runtime identity repo prepared e)"
      by (rule concludes_quiet [OF quiet_complete])
        (use moved Inl in \<open>auto dest!: complete_failed_fails simp: moved_def list_all_iff\<close>)
    with Inl show ?thesis by simp
  next
    case (Inr committed)
    have "concludes (\<lambda>r' t'. ?Q r' (t @ t')) (report_commit H fuel runtime identity repo prepared committed)"
      by (rule concludes_quiet [OF quiet_report]) (use moved Inr in \<open>auto dest!: report_result intro!: moved_quiet(1)\<close>)
    with Inr show ?thesis by simp
  qed
qed

lemma commit_prepare_posted:
  assumes "post_commit_prepare H runtime identity path invocation operation current s = Some (Inr x, s')"
  shows "\<exists>command payload.
    (\<exists>s1. post_command H (ho_prepare_result H) runtime path command (write_prepare_json payload) s1 = Some (Inr x, s'))
    \<and> ci_task_id command = ci_task_id identity \<and> ci_agent command = ci_agent identity
    \<and> ci_workspace command = ci_workspace identity \<and> wp_operation payload = operation"
  using assms [unfolded post_commit_prepare_def commandR_def]
  apply (elim bindR_InrE)
  subgoal premises prems for command u1 t1 u2 t2 u3 t3 u4
    using prems(5) prems(1) unfolding mapErrR_Inr
    by (intro exI conjI) (assumption, auto simp: next_identity_def elim!: bindR_InrE)
  done

lemma commit_loop_posted:
  assumes "prepare_commit_loop H fuel runtime identity repo paths deadline n s = Some (Inr prepared, s')"
    and "faithful_serde H" "faithful_prepare H"
  shows "permitted H (ci_task_id identity) (ai_agent_id (ci_agent identity)) (ci_workspace identity) (StructuredCommit paths) s'"
  using assms(1)
proof (induction n arbitrary: s)
  case (Suc n)
  from Suc.prems [unfolded prepare_commit_loop.simps] show ?case
    apply (elim bindR_InrE)
    subgoal premises prems for batch u1 x u2 y u3 invocation u4 result u5
    proof (cases result)
      case (Ready a p bs)
      with prems(6) have "u5 = s'" by simp
      have routed: "command_routed ''/v2/commits/prepare'' WritePrepareRoute" by (simp add: command_routed_def post_routes_def)
      from commit_prepare_posted [OF prems(5) [unfolded Ready]] obtain command payload s1 where
        post: "post_command H (ho_prepare_result H) runtime ''/v2/commits/prepare'' command (write_prepare_json payload) s1
          = Some (Inr (Ready a p bs), u5)"
        and ids: "ci_task_id command = ci_task_id identity" "ci_agent command = ci_agent identity"
          "ci_workspace command = ci_workspace identity" "wp_operation payload = StructuredCommit paths" by blast
      from post_prepare_granted [OF post routed assms(2,3)] ids \<open>u5 = s'\<close> show ?thesis
        unfolding permitted_def
        by (intro exI [of _ "command_context_of (envelope command)"]) (auto simp: command_context_of_def envelope_def)
    qed (use prems(6) in \<open>auto elim!: bindR_InrE intro: Suc.IH split: if_splits\<close>)
    done
qed simp

lemma normalized_nonempty:
  assumes "normalize_explicit_paths H repo paths s = Some (Inr normalized, s')"
  shows "normalized \<noteq> []"
proof -
  have "length xs = length ys" if "mapR f ys u = Some (Inr xs, u')" for f :: "string \<Rightarrow> (string, string) run" and xs ys u u'
    using that by (induction ys arbitrary: xs u) (auto elim!: bindR_InrE)
  then have "xs \<noteq> []" if "mapR (normalize_explicit_path H repo) paths u = Some (Inr xs, u')" "paths \<noteq> []" for xs u u'
    using that by (metis length_0_conv)
  moreover have "remdups_adj (sort xs) \<noteq> []" if "xs \<noteq> []" for xs :: "string list"
    using that by (metis remdups_adj_set set_empty set_sort)
  ultimately show ?thesis
    using assms by (force simp: normalize_explicit_paths_def simp del: remdups_adj_Nil_iff split: if_splits elim!: bindR_InrE)
qed

text \<open>The commit was granted, and \<^verbatim>\<open>HEAD\<close> moved from the one seen with the grant.\<close>

definition committed_as ::
  "host \<Rightarrow> nat \<Rightarrow> command_identity \<Rightarrow> string + commit_result \<Rightarrow> action list \<Rightarrow> bool" where
  "committed_as H fuel identity r t \<longleftrightarrow>
     (case r of
        Inl e \<Rightarrow> \<forall>a \<in> set t. still a \<or> failed H a
      | Inr result \<Rightarrow> \<exists>runtime repo paths prepared u v. prepare_commit H fuel runtime identity repo paths u = Some (Inr prepared, v)
          \<and> permitted H (ci_task_id identity) (ai_agent_id (ci_agent identity)) (ci_workspace identity) (StructuredCommit paths) v
          \<and> moved H repo (gm_head_sha (bt_metadata (pc_batch prepared))) (Inr (cm_commit_sha result)) t)"

lemma settled_committed: "settled (committed_as H fuel identity)"
  unfolding settled_def
proof (intro conjI allI impI)
  fix r t t' assume "list_all still t" "committed_as H fuel identity r t'"
  then show "committed_as H fuel identity r (t @ t')"
    by (cases r) (auto simp: committed_as_def list_all_iff, blast intro: moved_quiet(2) [unfolded list_all_iff])
qed (auto simp: committed_as_def list_all_iff)

lemma granted_moves:
  assumes "paths \<noteq> []" "faithful_serde H" "faithful_prepare H"
  shows "concludes (committed_as H fuel identity)
    (bindR (prepare_commit H fuel runtime identity repo paths) (\<lambda>prepared.
     bindR (tryR (commit_prepared H fuel repo message paths prepared)) (\<lambda>outcome.
     case outcome of
       Inr committed \<Rightarrow> report_commit H fuel runtime identity repo prepared committed
     | Inl error \<Rightarrow> complete_failed H fuel runtime identity repo prepared error)))"
proof (rule concludes_after [OF settled_committed quiet_prepare])
  fix prepared u v assume prepared: "prepare_commit H fuel runtime identity repo paths u = Some (Inr prepared, v)"
  then have granted: "permitted H (ci_task_id identity) (ai_agent_id (ci_agent identity)) (ci_workspace identity) (StructuredCommit paths) v"
    by (auto simp: prepare_commit_def elim!: bindR_InrE split: option.splits intro: commit_loop_posted [OF _ assms(2,3)])
  have "committed_as H fuel identity r t"
    if "moving H repo (gm_head_sha (bt_metadata (pc_batch prepared))) cm_commit_sha r t" for r t
  proof (cases r)
    case (Inr result)
    with that prepared granted show ?thesis
      unfolding committed_as_def Inr sum.case by (intro exI conjI) (assumption, assumption, simp)
  qed (use that in \<open>auto simp: committed_as_def moved_def\<close>)
  with committed_moves [OF assms(1), of H repo prepared fuel message runtime identity]
  show "concludes (committed_as H fuel identity)
    (bindR (tryR (commit_prepared H fuel repo message paths prepared)) (\<lambda>outcome.
     case outcome of
       Inr committed \<Rightarrow> report_commit H fuel runtime identity repo prepared committed
     | Inl error \<Rightarrow> complete_failed H fuel runtime identity repo prepared error))"
    unfolding concludes_def by blast
qed

text \<open>
  C22. A structured commit moves a ref at most once. When it succeeds, the server had granted the commit
  of the named paths to this task and agent, and its commands to Git contain exactly one that can move
  a ref: the compare-and-swap of \<^verbatim>\<open>HEAD\<close> from the commit observed with the grant to the commit it returns,
  right after the command that made this commit with the observed one as its parent. When it fails, either
  it gave no such command or that command failed. Hooks run only in boxes without network.
\<close>

theorem commit_moves_head_by_cas:
  assumes "run_structured_commit H fuel request s = Some (r, s')" "faithful_serde H" "faithful_prepare H"
  shows "\<exists>t. cl_trace s' = cl_trace s @ t \<and> committed_as H fuel (cq_identity request) r t"
proof -
  note settled = settled_committed [of H fuel "cq_identity request"]
  have "concludes (committed_as H fuel (cq_identity request)) (run_structured_commit H fuel request)"
    unfolding run_structured_commit_def Let_def
    by (intro concludes_if concludes_fail settled concludes_after [OF settled traced.relates_wrap(4)] concludes_after [OF settled traced.relates_basic(6)]
        concludes_after [OF settled quiet_paths] concludes_after [OF settled traced.relates_discover(3)] granted_moves assms(2,3))
      (rule normalized_nonempty)
  with assms(1) show ?thesis by (blast elim: concludesE)
qed

subsection \<open>A commit\<close>

text \<open>The file \<open>a\<close> of the repository \<open>/w\<close> on top of the commit \<open>c0\<close>, without hooks; the answer of the server to the
  report is lost.\<close>

definition git_answers :: "nat \<Rightarrow> process \<Rightarrow> io_error + process_output" where
  "git_answers n p =
     (let answer = (\<lambda>text. Inr \<lparr>po_success = True, po_stdout = text, po_stderr = []\<rparr>) in
      if pr_args p = [''rev-parse'', ''--absolute-git-dir''] then answer ''/w/.git''
      else if pr_args p = [''rev-parse'', ''--verify'', ''HEAD''] then answer ''c0''
      else if take 2 (pr_args p) = [''rev-parse'', ''--git-path''] then answer ''.git/hooks/none''
      else if take 1 (pr_args p) = [''commit-tree''] then answer ''c1''
      else answer [])"

definition commit_start :: commit_batch where
  "commit_start =
     (let file = [ObjectObs \<lparr>rk_workspace_id = ''ws'', rk_kind = Object, rk_resource_id = ''object:1:6'', rk_canonical_path = ''a''\<rparr>
                    (ObjectPresent RegularFile \<lparr>cd_algorithm = Blake3, cd_value = ''h''\<rparr> 2) 0,
                  EntryObs \<lparr>rk_workspace_id = ''ws'', rk_kind = Entry, rk_resource_id = ''entry:1:3:a'', rk_canonical_path = ''a''\<rparr>
                    (EntryPresent RegularFile 1 6 None) 0] in
      \<lparr>bt_tracked = [(''a'', file)],
       bt_metadata = \<lparr>gm_head_sha = Some ''c0'', gm_head = \<lparr>cd_algorithm = Blake3, cd_value = ''h''\<rparr>, gm_index = None,
         gm_packed_refs = None, gm_refs = []\<rparr>,
       bt_resources = file @ [TreeObs \<lparr>rk_workspace_id = ''ws'', rk_kind = DirectoryTree, rk_resource_id = ''directory:1:7'',
         rk_canonical_path = ''.git''\<rparr> (TreePresent 1 7 \<lparr>cd_algorithm = Blake3, cd_value = ''h''\<rparr> 3) 0]\<rparr>)"

definition commit_payload :: write_prepare_input where
  "commit_payload =
     \<lparr>wp_invocation_id = ''u'', wp_operation = StructuredCommit [''a''], wp_current = bt_resources commit_start,
      wp_request_expires_at = [CHR 0xA8], wp_lease_expires_at = ''l'', wp_attempt_deadline = ''l''\<rparr>"

definition commit_host :: host where
  "commit_host = replay_host (\<lambda>n. repo_fs ''ref'') git_answers (\<lambda>n a. Inr ()) commit_payload
     (\<lambda>n. if n = 35 then Some replay_read else if n = 39 then Some replay_read_done else if n = 44 then Some replay_ready else None)"

definition commit_identity :: command_identity where
  "commit_identity = replay_identity ''commit'' ''commit''"

definition example_request :: commit_request where
  "example_request = \<lparr>cq_repo_root = [''w''], cq_message = ''m'', cq_paths = [''a''], cq_identity = commit_identity\<rparr>"

text \<open>Steps of the run, whatever the server and the trace are.\<close>

definition leads :: "('e, 'a) run \<Rightarrow> nat \<Rightarrow> 'e + 'a \<Rightarrow> nat \<Rightarrow> bool" where
  "leads m n r n' \<longleftrightarrow> (\<forall>sv t. \<exists>sv' t'. m (at n sv t) = Some (r, at n' sv' t'))"

lemma leadsI:
  assumes "\<And>sv t. case m (at n sv t) of None \<Rightarrow> False | Some (r', s') \<Rightarrow> r' = r \<and> cl_step s' = n'"
  shows "leads m n r n'"
  unfolding leads_def
proof (intro allI)
  fix sv t
  from assms [of sv t] obtain s' where "m (at n sv t) = Some (r, s')" "cl_step s' = n'" by (auto split: option.splits)
  moreover then have "s' = at n' (cl_server s') (cl_trace s')" by simp
  ultimately show "\<exists>sv' t'. m (at n sv t) = Some (r, at n' sv' t')" by metis
qed

lemma leads_bind: "leads m n (Inr x) n1 \<Longrightarrow> leads (f x) n1 r n' \<Longrightarrow> leads (bindR m f) n r n'"
  unfolding leads_def bindR_def by (metis (mono_tags, lifting) old.prod.case option.case(2) sum.case(2))

lemma commit_before:
  "leads (readS commit_host (canonicalize [''w''])) 0 (Inr [''w'']) 1"
  "leads (fileR commit_host (path_exists ([''w''] @ [''.git''])) :: (string, _) run) 1 (Inr True) 2"
  "leads (readS commit_host (canonicalize [''w''])) 2 (Inr [''w'']) 3"
  "leads (normalize_explicit_paths commit_host [''w''] [''a'']) 3 (Inr [''a'']) 7"
  "leads (discover_runtime_with_optional_global commit_host [''w'']) 7 (Inr hook_runtime_file) 8"
  "leads (observe_commit_batch commit_host 3 [''w''] ''ws'' [''a'']) 9 (Inr commit_start) 30"
  by (rule leadsI, code_simp)+

definition commit_ready :: prepared_commit where
  "commit_ready = \<lparr>pc_invocation_id = ''u'', pc_attempt_id = ''a'', pc_permit_id = ''p'', pc_batch = commit_start\<rparr>"

lemma leads_identity: "leads (next_identity commit_host commit_identity :: (string, _) run) n (Inr commit_identity) (Suc (Suc n))"
  by (auto simp: leads_def next_identity_def bindR_def externR_def commit_host_def replay_checks commit_identity_def replay_identity_def retR_def)

lemma leads_basic:
  "leads (externR (ho_uuid commit_host) :: (string, _) run) n (Inr ''u'') (Suc n)" "leads (retR x :: (string, _) run) n (Inr x) n"
  "leads (liftR (Inr x) :: (string, _) run) n (Inr x) n" "leads (instantR commit_host :: (string, _) run) n (Inr n) (Suc n)"
  "leads (future_rfc3339 commit_host ''0'' REQUEST_TTL) n (Inr [CHR 0xA8]) n" "leads (future_rfc3339 commit_host ''0'' LEASE_TTL) n (Inr ''l'') n"
  by (auto simp: leads_def externR_def retR_def liftR_def instantR_def commit_host_def replay_checks REQUEST_TTL_def LEASE_TTL_def)

lemma leads_posts:
  "leads (commandR commit_host (\<lambda>j. Inr read_answer) hook_runtime_file ''/v2/reads/start'' commit_identity j) 34 (Inr read_answer) 36"
  "leads (commandR commit_host (\<lambda>j. Inr read_answer) hook_runtime_file ''/v2/reads/complete'' commit_identity j) 38 (Inr read_answer) 40"
  "leads (commandR commit_host demo_prepare_result hook_runtime_file ''/v2/commits/prepare'' commit_identity (write_prepare_json commit_payload)) 43
     (Inr (Ready ''a'' ''p'' [])) 45"
  by (auto simp: leads_def commit_host_def commit_identity_def replay_steps)

lemma commit_host_results: "ho_read_result commit_host = (\<lambda>j. Inr read_answer)" "ho_prepare_result commit_host = demo_prepare_result"
  by (simp_all add: commit_host_def)

lemma commit_identity_simps:
  "wi_workspace_id (ci_workspace commit_identity) = ''ws''" "wi_root (ci_workspace commit_identity) = ''/w''" "ci_observed_at commit_identity = ''0''"
  "ci_task_id commit_identity = ''T''" "ai_agent_id (ci_agent commit_identity) = ''A''"
  by (simp_all add: commit_identity_def replay_identity_def replay_workspace_def)

lemma commit_read: "leads (record_commit_read commit_host hook_runtime_file commit_identity obs) 30 (Inr ()) 40"
  unfolding record_commit_read_def commit_host_results
  by (rule leads_bind [OF leads_basic(1) [of 30, simplified]], rule leads_bind [OF leads_basic(1) [of 31, simplified]],
      rule leads_bind [OF leads_identity [of 32, simplified]], rule leads_bind [OF leads_posts(1)],
      rule leads_bind [OF leads_identity [of 36, simplified]], rule leads_bind [OF leads_posts(2)], rule leads_basic)

lemma commit_post: "leads (post_commit_prepare commit_host hook_runtime_file commit_identity ''/v2/commits/prepare'' ''u''
    (StructuredCommit [''a'']) (bt_resources commit_start)) 41 (Inr (Ready ''a'' ''p'' [])) 45"
  unfolding post_commit_prepare_def commit_host_results
  by (rule leads_bind [OF leads_identity [of 41, simplified]], unfold commit_identity_simps,
      rule leads_bind [OF leads_basic(5)], rule leads_bind [OF leads_basic(6)], rule leads_bind [OF leads_basic(6)],
      rule leads_posts(3) [unfolded commit_payload_def])

lemma commit_granted: "leads (prepare_commit commit_host 3 hook_runtime_file commit_identity [''w''] [''a'']) 8 (Inr commit_ready) 45"
proof -
  have start: "liftR (mapErr resource_error_text (validate_operation_start (StructuredCommit [''a'']) (bt_resources commit_start))) = liftR (Inr ())"
    by (rule arg_cong [of _ _ liftR]) code_simp
  have deadline: "instant_add 8 (REQUEST_TTL * 1000000000) = Some (8 + REQUEST_TTL * 1000000000)" by code_simp
  have loop: "leads (prepare_commit_loop commit_host 3 hook_runtime_file commit_identity [''w''] [''a''] d (Suc 2)) 9 (Inr commit_ready) 45" for d
    unfolding prepare_commit_loop.simps commit_identity_simps
    by (rule leads_bind [OF commit_before(6)], unfold start, rule leads_bind [OF leads_basic(3)], rule leads_bind [OF commit_read],
        rule leads_bind [OF leads_basic(1) [of 40, simplified]], rule leads_bind [OF commit_post])
      (simp add: commit_ready_def [symmetric] leads_basic)
  show ?thesis
    unfolding prepare_commit_def
    by (rule leads_bind [OF leads_basic(4) [of 8, simplified]]) (use loop in \<open>simp add: deadline numeral_3_eq_3\<close>)
qed

text \<open>The same for a result of which only a property is of interest.\<close>

definition arrives :: "('e, 'a) run \<Rightarrow> nat \<Rightarrow> ('a \<Rightarrow> bool) \<Rightarrow> nat \<Rightarrow> bool" where
  "arrives m n P n' \<longleftrightarrow> (\<forall>sv t. \<exists>x sv' t'. m (at n sv t) = Some (Inr x, at n' sv' t') \<and> P x)"

lemma arrivesI:
  assumes "\<And>sv t. case m (at n sv t) of None \<Rightarrow> False | Some (r, s') \<Rightarrow> \<not> isl r \<and> P (projr r) \<and> cl_step s' = n'"
  shows "arrives m n P n'"
  unfolding arrives_def
proof (intro allI)
  fix sv t
  from assms [of sv t] obtain x s' where "m (at n sv t) = Some (Inr x, s')" "P x" "cl_step s' = n'"
    by (auto simp: isl_def split: option.splits) (metis sum.collapse(2) isl_def)
  moreover then have "s' = at n' (cl_server s') (cl_trace s')" by simp
  ultimately show "\<exists>x sv' t'. m (at n sv t) = Some (Inr x, at n' sv' t') \<and> P x" by metis
qed

lemma arrives_bind: "leads m n (Inr x) n1 \<Longrightarrow> arrives (f x) n1 P n' \<Longrightarrow> arrives (bindR m f) n P n'"
  unfolding leads_def arrives_def bindR_def by (metis (mono_tags, lifting) old.prod.case option.case(2) sum.case(2))

lemma arrives_finally: "arrives m n P n1 \<Longrightarrow> leads c n1 r n' \<Longrightarrow> arrives (finallyR m c) n P n'"
  unfolding arrives_def leads_def finallyR_def
proof (intro allI)
  fix sv t
  assume runs: "\<forall>sv t. \<exists>x sv' t'. m (at n sv t) = Some (Inr x, at n1 sv' t') \<and> P x"
    "\<forall>sv t. \<exists>sv' t'. c (at n1 sv t) = Some (r, at n' sv' t')"
  then obtain x sv1 t1 sv2 t2 where "m (at n sv t) = Some (Inr x, at n1 sv1 t1)" "P x" "c (at n1 sv1 t1) = Some (r, at n' sv2 t2)" by metis
  then show "\<exists>x sv' t'. bindR (tryR m) (\<lambda>r. bindR (tryR c) (\<lambda>_. liftR r)) (at n sv t) = Some (Inr x, at n' sv' t') \<and> P x"
    by (simp add: bindR_def tryR_def liftR_def)
qed

abbreviation commit_root :: "string list" where
  "commit_root \<equiv> [''tmp'', ''stateful-commit-hooks-7-u'']"

abbreviation commit_index :: "string list" where
  "commit_index \<equiv> [''tmp'', ''stateful-commit-hooks-7-u'', ''stateful-commit-index-7-u.index'']"

abbreviation commit_message :: "string list" where
  "commit_message \<equiv> [''tmp'', ''stateful-commit-hooks-7-u'', ''stateful-commit-message-7-u.txt'']"

definition commit_workspace :: private_hook_workspace where
  "commit_workspace = \<lparr>pw_root = commit_root, pw_initial = [(''a'', Some ''hi'')]\<rparr>"

lemma commit_setup:
  "leads (ensure_batch_unchanged commit_host 3 [''w''] commit_start [''a'']) 45 (Inr ()) 66"
  "leads (create_hook_workspace commit_host [''w''] [''a'']) 66 (Inr commit_workspace) 77"
  "leads (temporary_index commit_host [''w''] commit_root) 77 (Inr commit_index) 80"
  "leads (stage_private_targets commit_host [''w''] commit_root commit_index [''a'']) 80 (Inr ()) 83"
  "leads (temporary_commit_message commit_host commit_root ''m'') 83 (Inr commit_message) 85"
  by (rule leadsI, code_simp)+

lemma commit_building:
  "leads (run_allowed_hook commit_host 3 [''w''] commit_root commit_index ''pre-commit'' [] [''a'']) 85 (Inr ()) 87"
  "leads (stage_private_targets commit_host [''w''] commit_root commit_index [''a'']) 87 (Inr ()) 90"
  "leads (run_allowed_hook commit_host 3 [''w''] commit_root commit_index ''commit-msg'' [commit_message] [''a'']) 90 (Inr ()) 92"
  "leads (stage_private_targets commit_host [''w''] commit_root commit_index [''a'']) 92 (Inr ()) 95"
  "leads (changed_existing_targets commit_host commit_workspace) 95 (Inr []) 97"
  "leads (ensure_batch_unchanged commit_host 3 [''w''] commit_start [''a'']) 97 (Inr ()) 118"
  "leads (commit_temp_index_with_head_cas commit_host [''w''] commit_index commit_message (Some ''c0'')) 118 (Inr ''c1'') 122"
  by (rule leadsI, code_simp)+

lemma commit_finishing:
  "arrives (finish_commit commit_host 3 [''w''] [''a''] commit_ready ''c1'' []) 122 (\<lambda>committed. kc_hook_changes committed = []) 144"
  "leads (changeR commit_host (RemoveFile commit_message)) 144 (Inr ()) 145"
  "leads (index_drop commit_host commit_index) 145 (Inr ()) 147"
  "leads (changeR commit_host (RemoveDirAll commit_root)) 147 (Inr ()) 148"
  by (rule arrivesI leadsI, code_simp)+

lemma commit_built:
  "leads (build_commit commit_host 3 [''w''] [''a''] commit_ready commit_workspace commit_index commit_message) 85 (Inr (''c1'', [])) 122"
proof -
  have parts: "pw_root commit_workspace = commit_root" "pc_batch commit_ready = commit_start" "gm_head_sha (bt_metadata commit_start) = Some ''c0''"
    by (simp_all add: commit_workspace_def commit_ready_def commit_start_def Let_def)
  show ?thesis
    unfolding build_commit_def parts
    by (rule leads_bind [OF commit_building(1)], rule leads_bind [OF commit_building(2)], rule leads_bind [OF commit_building(3)],
        rule leads_bind [OF commit_building(4)], rule leads_bind [OF commit_building(5)], rule leads_bind [OF commit_building(6)],
        rule leads_bind [OF commit_building(7)], rule leads_basic)
qed

lemma commit_done:
  "arrives (commit_prepared commit_host 3 [''w''] ''m'' [''a''] commit_ready) 45 (\<lambda>committed. kc_hook_changes committed = []) 148"
proof -
  have parts: "pw_root commit_workspace = commit_root" "pc_batch commit_ready = commit_start"
    by (simp_all add: commit_workspace_def commit_ready_def)
  have "arrives (bindR (build_commit commit_host 3 [''w''] [''a''] commit_ready commit_workspace commit_index commit_message)
      (\<lambda>(sha, changes). finish_commit commit_host 3 [''w''] [''a''] commit_ready sha changes)) 85 (\<lambda>committed. kc_hook_changes committed = []) 144"
    by (rule arrives_bind [OF commit_built]) (simp add: commit_finishing)
  note built = arrives_finally [OF this commit_finishing(2)]
  show ?thesis
    unfolding commit_prepared_def parts
    by (rule arrives_bind [OF commit_setup(1)], rule arrives_bind [OF commit_setup(2)], unfold parts,
        rule arrives_finally [OF _ commit_finishing(4)], rule arrives_bind [OF commit_setup(3)],
        rule arrives_finally [OF _ commit_finishing(3)], rule arrives_bind [OF commit_setup(4)],
        rule arrives_bind [OF commit_setup(5)], rule built)
qed

lemma commit_report:
  assumes "kc_hook_changes committed = []"
  shows "\<exists>result s'. report_commit commit_host 3 hook_runtime_file commit_identity [''w''] commit_ready committed (at 148 sv t) = Some (Inr result, s')"
proof -
  have path: "validate_v2_path ''/v2/commits/complete'' = Inr ()" "validate_http_path ''/v2/commits/complete'' = Inr ()" by code_simp+
  have lost: "commandR commit_host (ho_complete_result commit_host) hook_runtime_file ''/v2/commits/complete'' identity j (at 150 sv t)
      = Some (Inl (command_error_text (transport_error ''timeout'')), at 152 sv t)" for identity j sv t
    unfolding commit_host_def by (subst replay_lost [OF path]) simp_all
  obtain sv' t' where "next_identity commit_host commit_identity (at 148 sv t) = Some (Inr commit_identity :: string + _, at 150 sv' t')"
    using leads_identity [of 148] unfolding leads_def by (simp, metis)
  then have complete: "complete_commit commit_host hook_runtime_file commit_identity commit_ready terminal obs expected error (at 148 sv t)
      = Some (Inl (command_error_text (transport_error ''timeout'')), at 152 sv' t')" for terminal obs expected error
    by (simp add: complete_commit_def bindR_def lost)
  show ?thesis
    using assms by (simp add: report_commit_def Let_def bindR_def tryR_def complete apply_hook_changes_def retR_def)
qed

definition returns :: "('e, 'a) run \<Rightarrow> nat \<Rightarrow> bool" where
  "returns m n \<longleftrightarrow> (\<forall>sv t. \<exists>x s'. m (at n sv t) = Some (Inr x, s'))"

lemma returns_bind: "leads m n (Inr x) n1 \<Longrightarrow> returns (f x) n1 \<Longrightarrow> returns (bindR m f) n"
  unfolding leads_def returns_def bindR_def by (metis (mono_tags, lifting) old.prod.case option.case(2) sum.case(2))

lemma returns_else: "\<not> b \<Longrightarrow> returns m n \<Longrightarrow> returns (if b then m' else m) n"
  by simp

lemma commit_run: "returns (run_structured_commit commit_host 3 example_request) 0"
proof -
  have request: "trim (cq_message example_request) = ''m''" "cq_identity example_request = commit_identity"
    "cq_repo_root example_request = [''w'']" "cq_paths example_request = [''a'']" by code_simp+
  have root: "path_of_text commit_host ''/w'' = [''w'']" by code_simp
  have finish: "returns (bindR (tryR (commit_prepared commit_host 3 [''w''] ''m'' [''a''] commit_ready)) (\<lambda>outcome.
      case outcome of
        Inr committed \<Rightarrow> report_commit commit_host 3 hook_runtime_file commit_identity [''w''] commit_ready committed
      | Inl error \<Rightarrow> complete_failed commit_host 3 hook_runtime_file commit_identity [''w''] commit_ready error)) 45"
    unfolding returns_def
  proof (intro allI)
    fix sv t
    obtain committed sv' t' where run: "commit_prepared commit_host 3 [''w''] ''m'' [''a''] commit_ready (at 45 sv t)
        = Some (Inr committed, at 148 sv' t')" "kc_hook_changes committed = []"
      using commit_done unfolding arrives_def by metis
    with commit_report [of committed sv' t'] show "\<exists>x s'. (bindR (tryR (commit_prepared commit_host 3 [''w''] ''m'' [''a''] commit_ready))
      (\<lambda>outcome. case outcome of
        Inr committed \<Rightarrow> report_commit commit_host 3 hook_runtime_file commit_identity [''w''] commit_ready committed
      | Inl error \<Rightarrow> complete_failed commit_host 3 hook_runtime_file commit_identity [''w''] commit_ready error)) (at 45 sv t)
      = Some (Inr x, s')" by (simp add: bindR_def tryR_def)
  qed
  note rest = returns_bind [OF commit_before(3)] returns_bind [OF commit_before(4)] returns_bind [OF commit_before(5)]
    returns_bind [OF commit_granted]
  show ?thesis
    unfolding run_structured_commit_def Let_def request commit_identity_simps root
    by (rule returns_else, simp, rule returns_bind [OF commit_before(1)], rule returns_bind [OF commit_before(2)],
        rule returns_else, simp, rule returns_else, simp, rule rest(1), rule returns_else, simp,
        rule rest(2), rule rest(3), rule rest(4), rule finish)
qed

theorem commit_moves_head_by_cas_witness:
  "\<exists>result s' t. run_structured_commit commit_host 3 example_request (at 0 hook_server []) = Some (Inr result, s')
     \<and> cl_trace s' = t \<and> committed_as commit_host 3 commit_identity (Inr result) t"
proof -
  obtain result s' where run: "run_structured_commit commit_host 3 example_request (at 0 hook_server []) = Some (Inr result, s')"
    using commit_run unfolding returns_def by metis
  have "faithful_serde commit_host" "faithful_prepare commit_host" unfolding commit_host_def by (rule replay_host_faithful)+
  from commit_moves_head_by_cas [OF run this] run show ?thesis by (auto simp: example_request_def)
qed

end
